(* ===== verification/Prelude.thy ===== *)
theory Prelude
  imports Main "HOL-Library.AList" "HOL-Library.Char_ord" "HOL-Library.List_Lexorder"
    "HOL-Library.Product_Lexorder"
begin

text \<open>
  Shared vocabulary of the development: the parts of the JavaScript language and of its standard
  library that the modelled code uses, the environment a run is exposed to (clock, random
  identifiers, implementation-defined string services), and generic lemmas.

  Strings are lists of characters; a character stands for one UTF-16 code unit in the range
  U+0000 to U+00FF, so \<open>length\<close> is JavaScript's \<open>length\<close> and \<open>utf8_length\<close> the number of
  bytes \<open>TextEncoder\<close> writes. Strings with code units above U+00FF are outside the model.

  A field of type \<open>string | null\<close> (or an optional one) is a \<open>string option\<close>: the code treats
  \<open>null\<close> and \<open>undefined\<close> alike wherever it reads such a field.
\<close>

named_theorems js_simps \<open>characteristic equations of the JavaScript library functions\<close>

section \<open>Strings\<close>

definition js_space :: "char \<Rightarrow> bool" where
  "js_space c \<longleftrightarrow> c \<in> {CHR 0x09, CHR 0x0A, CHR 0x0B, CHR 0x0C, CHR 0x0D, CHR 0x20, CHR 0xA0}"

definition trim :: "string \<Rightarrow> string" where
  "trim s = rev (dropWhile js_space (rev (dropWhile js_space s)))"

definition lower_char :: "char \<Rightarrow> char" where
  "lower_char c =
     (let n = (of_char c :: nat)
      in if (65 \<le> n \<and> n \<le> 90) \<or> (192 \<le> n \<and> n \<le> 222 \<and> n \<noteq> 215) then char_of (n + 32) else c)"

definition to_lower :: "string \<Rightarrow> string" where
  "to_lower = map lower_char"

text \<open>Truthiness of a string and of a nullable string.\<close>

definition truthy :: "string \<Rightarrow> bool" where
  "truthy s \<longleftrightarrow> s \<noteq> []"

definition truthy_opt :: "string option \<Rightarrow> bool" where
  "truthy_opt x \<longleftrightarrow> (case x of None \<Rightarrow> False | Some s \<Rightarrow> truthy s)"

text \<open>\<open>a || b\<close> on strings, and \<open>(x ?? '')\<close>.\<close>

definition or_str :: "string \<Rightarrow> string \<Rightarrow> string" where
  "or_str a b = (if truthy a then a else b)"

definition or_empty :: "string option \<Rightarrow> string" where
  "or_empty x = (case x of None \<Rightarrow> [] | Some s \<Rightarrow> s)"

fun join :: "string \<Rightarrow> string list \<Rightarrow> string" where
  "join sep [] = []"
| "join sep [x] = x"
| "join sep (x # y # zs) = x @ sep @ join sep (y # zs)"

definition nul :: string where
  "nul = [CHR 0x00]"

text \<open>\<open>s.replace(/\s+/g, ' ')\<close>.\<close>

function collapse_spaces :: "string \<Rightarrow> string" where
  "collapse_spaces [] = []"
| "collapse_spaces (c # cs) =
     (if js_space c then CHR '' '' # collapse_spaces (dropWhile js_space cs)
      else c # collapse_spaces cs)"
  by pat_completeness auto
termination
  by (relation "measure length") (auto intro: le_imp_less_Suc length_dropWhile_le)

definition utf8_char_length :: "char \<Rightarrow> nat" where
  "utf8_char_length c = (if (of_char c :: nat) < 128 then 1 else 2)"

definition utf8_length :: "string \<Rightarrow> nat" where
  "utf8_length s = sum_list (map utf8_char_length s)"

section \<open>Arrays, sets and maps\<close>

text \<open>\<open>[...new Set(xs)]\<close>: the first occurrence of every element, in order.\<close>

fun dedupe :: "'a list \<Rightarrow> 'a list" where
  "dedupe [] = []"
| "dedupe (x # xs) = x # removeAll x (dedupe xs)"

text \<open>\<open>ids[0] ?? null\<close>.\<close>

fun first_or_null :: "'a list \<Rightarrow> 'a option" where
  "first_or_null [] = None"
| "first_or_null (x # xs) = Some x"

text \<open>
  A JavaScript \<open>Map\<close> is an association list in insertion order; \<open>set\<close> replaces an existing
  entry in place and appends a new one, which is \<open>AList.update\<close>; \<open>get\<close> is \<open>map_of\<close>.
\<close>

abbreviation map_set :: "'k \<Rightarrow> 'v \<Rightarrow> ('k \<times> 'v) list \<Rightarrow> ('k \<times> 'v) list" where
  "map_set \<equiv> AList.update"

text \<open>\<open>xs.slice(i, i + size)\<close> repeated: consecutive pieces of at most \<open>size\<close> elements.\<close>

function chunks :: "nat \<Rightarrow> 'a list \<Rightarrow> 'a list list" where
  "chunks n items =
     (if items = [] \<or> n = 0 then [] else take n items # chunks n (drop n items))"
  by pat_completeness auto
termination
  by (relation "measure (\<lambda>(n, items). length items)") auto

declare chunks.simps [simp del]

section \<open>Errors\<close>

text \<open>
  A computation that may throw returns a sum: \<open>Inl\<close> the error, \<open>Inr\<close> the value.
  \<open>and_then\<close> is sequencing, \<open>fold_err\<close> a \<open>for\<close> loop whose body may throw.
\<close>

definition and_then :: "'e + 'a \<Rightarrow> ('a \<Rightarrow> 'e + 'b) \<Rightarrow> 'e + 'b" where
  "and_then m f = (case m of Inl e \<Rightarrow> Inl e | Inr x \<Rightarrow> f x)"

primrec fold_err :: "('a \<Rightarrow> 's \<Rightarrow> 'e + 's) \<Rightarrow> 'a list \<Rightarrow> 's \<Rightarrow> 'e + 's" where
  "fold_err f [] s = Inr s"
| "fold_err f (x # xs) s = and_then (f x s) (fold_err f xs)"

section \<open>Numbers\<close>

text \<open>
  JavaScript numbers that hold integers. \<open>js_add1 v\<close> is \<open>v + 1\<close> on doubles: exact below
  2^53, and above it rounded to the nearest even significand, so that it may return \<open>v\<close> itself.
\<close>

definition max_safe_integer :: int where
  "max_safe_integer = 2 ^ 53 - 1"

definition is_safe_integer :: "int \<Rightarrow> bool" where
  "is_safe_integer v \<longleftrightarrow> - max_safe_integer \<le> v \<and> v \<le> max_safe_integer"

definition js_add1 :: "int \<Rightarrow> int" where
  "js_add1 v =
     (if v \<le> max_safe_integer then v + 1
      else if v < 2 ^ 54 \<and> odd (v div 2) then v + 2
      else v)"

section \<open>The environment of a run\<close>

text \<open>
  \<open>date_parse\<close> is \<open>Date.parse\<close> (\<open>None\<close> for NaN), \<open>locale_compare\<close> is
  \<open>String.prototype.localeCompare\<close>: ECMAScript leaves both to the implementation, so they are
  parameters. \<open>clock n\<close> is the \<open>n\<close>-th reading of the wall clock in milliseconds and
  \<open>uuid n\<close> the \<open>n\<close>-th value of \<open>randomUUID()\<close>; the states below count the readings.
\<close>

record env =
  date_parse :: "string \<Rightarrow> int option"
  locale_compare :: "string \<Rightarrow> string \<Rightarrow> int"
  clock :: "nat \<Rightarrow> int"
  uuid :: "nat \<Rightarrow> string"

section \<open>\<open>Date.prototype.toISOString\<close>\<close>

definition day_ms :: int where
  "day_ms = 86400000"

text \<open>Year, month and day of a day number counted from 1970-01-01 (proleptic Gregorian).\<close>

definition civil_of_days :: "int \<Rightarrow> int \<times> int \<times> int" where
  "civil_of_days days =
     (let z = days + 719468;
          era = z div 146097;
          doe = z mod 146097;
          yoe = (doe - doe div 1460 + doe div 36524 - doe div 146096) div 365;
          doy = doe - (365 * yoe + yoe div 4 - yoe div 100);
          mp = (5 * doy + 2) div 153;
          d = doy - (153 * mp + 2) div 5 + 1;
          m = (if mp < 10 then mp + 3 else mp - 9)
      in (yoe + era * 400 + (if m \<le> 2 then 1 else 0), m, d))"

definition digit_char :: "int \<Rightarrow> char" where
  "digit_char n = char_of (48 + nat (n mod 10))"

primrec digits_of :: "nat \<Rightarrow> int \<Rightarrow> string" where
  "digits_of 0 n = []"
| "digits_of (Suc w) n = digits_of w (n div 10) @ [digit_char n]"

definition iso_year :: "int \<Rightarrow> string" where
  "iso_year y =
     (if 0 \<le> y \<and> y \<le> 9999 then digits_of 4 y
      else (if y < 0 then ''-'' else ''+'') @ digits_of 6 \<bar>y\<bar>)"

definition to_iso :: "int \<Rightarrow> string" where
  "to_iso t =
     (let (y, m, d) = civil_of_days (t div day_ms); r = t mod day_ms
      in iso_year y @ ''-'' @ digits_of 2 m @ ''-'' @ digits_of 2 d @ ''T''
         @ digits_of 2 (r div 3600000) @ '':'' @ digits_of 2 (r div 60000 mod 60) @ '':''
         @ digits_of 2 (r div 1000 mod 60) @ ''.'' @ digits_of 3 (r mod 1000) @ ''Z'')"

section \<open>Generic lemmas\<close>

lemma set_dedupe [simp]: "set (dedupe xs) = set xs"
  by (induction xs) auto

lemma distinct_dedupe [simp]: "distinct (dedupe xs)"
  by (induction xs) (auto simp: distinct_removeAll)

lemma dedupe_distinct: "distinct xs \<Longrightarrow> dedupe xs = xs"
  by (induction xs) auto

lemma dedupe_idem [simp]: "dedupe (dedupe xs) = dedupe xs"
  by (simp add: dedupe_distinct)

lemma dedupe_eq_Nil [simp]: "dedupe xs = [] \<longleftrightarrow> xs = []"
  by (cases xs) auto

lemma length_dedupe_le: "length (dedupe xs) \<le> length xs"
  by (induction xs) (auto intro: le_trans [OF length_removeAll_less_eq])

lemma filter_removeAll: "filter P (removeAll x xs) = removeAll x (filter P xs)"
  by (induction xs) auto

lemma dropWhile_js_space_Nil: "dropWhile js_space s = [] \<longleftrightarrow> (\<forall>c \<in> set s. js_space c)"
  by (simp add: dropWhile_eq_Nil_conv)

lemma hd_dropWhile_js_space: "dropWhile js_space s \<noteq> [] \<Longrightarrow> \<not> js_space (hd (dropWhile js_space s))"
  by (rule hd_dropWhile)

lemma trim_Nil [simp]: "trim [] = []"
  by (simp add: trim_def)

lemma dropWhile_hd_false: "xs = [] \<or> \<not> P (hd xs) \<Longrightarrow> dropWhile P xs = xs"
  by (cases xs) auto

lemma trim_no_lead: "trim s = [] \<or> \<not> js_space (hd (trim s))"
proof -
  define u where "u = dropWhile js_space s"
  have hu: "u = [] \<or> \<not> js_space (hd u)"
    using hd_dropWhile [of js_space s] by (auto simp: u_def)
  have eq: "trim s = rev (dropWhile js_space (rev u))" by (simp add: trim_def u_def)
  show ?thesis
  proof (cases "dropWhile js_space (rev u) = []")
    case True
    then show ?thesis by (simp add: eq)
  next
    case False
    obtain ys where ys: "rev u = ys @ dropWhile js_space (rev u)"
      by (metis takeWhile_dropWhile_id)
    then have "u = rev (dropWhile js_space (rev u)) @ rev ys"
      by (metis rev_append rev_rev_ident)
    then have "hd (rev (dropWhile js_space (rev u))) = hd u" "u \<noteq> []"
      using False by (metis hd_append2 rev_is_Nil_conv) (use \<open>rev u = _\<close> False in auto)
    with hu show ?thesis by (simp add: eq)
  qed
qed

lemma trim_idem [simp]: "trim (trim s) = trim s"
proof -
  have a: "dropWhile js_space (trim s) = trim s"
    using trim_no_lead [of s] by (rule dropWhile_hd_false)
  have b: "dropWhile js_space (rev (trim s)) = rev (trim s)"
    by (rule dropWhile_hd_false)
      (use hd_dropWhile [of js_space "rev (dropWhile js_space s)"] in \<open>auto simp: trim_def\<close>)
  show ?thesis by (subst (1) trim_def) (simp add: a b)
qed

lemma trim_id: "s \<noteq> [] \<Longrightarrow> \<not> js_space (hd s) \<Longrightarrow> \<not> js_space (last s) \<Longrightarrow> trim s = s"
proof -
  assume a: "s \<noteq> []" "\<not> js_space (hd s)" "\<not> js_space (last s)"
  then have "dropWhile js_space s = s" by (simp add: dropWhile_hd_false)
  moreover have "dropWhile js_space (rev s) = rev s" using a by (simp add: dropWhile_hd_false hd_rev)
  ultimately show ?thesis by (simp add: trim_def)
qed

lemma concat_chunks: "0 < n \<Longrightarrow> concat (chunks n items) = items"
  by (induction n items rule: chunks.induct) (subst chunks.simps, auto)

lemma chunks_bound: "c \<in> set (chunks n items) \<Longrightarrow> c \<noteq> [] \<and> length c \<le> n"
proof (induction n items rule: chunks.induct)
  case (1 n items)
  then show ?case by (subst (asm) (2) chunks.simps) (auto split: if_splits)
qed

lemma set_chunks: "0 < n \<Longrightarrow> (\<Union>c \<in> set (chunks n items). set c) = set items"
  by (metis concat_chunks set_concat)

lemma and_then_simps [simp]: "and_then (Inl e) f = Inl e" "and_then (Inr x) f = f x"
  by (simp_all add: and_then_def)

lemma and_then_Inr: "and_then m f = Inr y \<longleftrightarrow> (\<exists>x. m = Inr x \<and> f x = Inr y)"
  by (cases m) auto

lemma and_then_Inl: "and_then m f = Inl e \<longleftrightarrow> m = Inl e \<or> (\<exists>x. m = Inr x \<and> f x = Inl e)"
  by (cases m) auto

lemma and_then_assoc: "and_then (and_then m f) g = and_then m (\<lambda>x. and_then (f x) g)"
  by (cases m) auto

lemma fold_err_append: "fold_err f (xs @ ys) s = and_then (fold_err f xs s) (fold_err f ys)"
proof (induction xs arbitrary: s)
  case Nil
  then show ?case by simp
next
  case (Cons x xs)
  then show ?case by (cases "f x s") auto
qed

lemma fold_err_concat: "fold_err (\<lambda>c. fold_err f c) cs s = fold_err f (concat cs) s"
proof (induction cs arbitrary: s)
  case Nil
  then show ?case by simp
next
  case (Cons c cs)
  then have "fold_err (\<lambda>c. fold_err f c) cs = fold_err f (concat cs)" by (intro ext) simp
  then show ?case by (simp add: fold_err_append)
qed

lemma fold_err_chunks: "0 < n \<Longrightarrow> fold_err (\<lambda>c. fold_err f c) (chunks n xs) s = fold_err f xs s"
  by (simp add: fold_err_concat concat_chunks)

lemma fold_concat: "fold (\<lambda>c. fold f c) cs s = fold f (concat cs) s"
  by (induction cs arbitrary: s) auto

lemma fold_chunks: "0 < n \<Longrightarrow> fold (\<lambda>c. fold f c) (chunks n xs) s = fold f xs s"
  by (simp add: fold_concat concat_chunks)

lemma fold_err_invariant:
  assumes "fold_err f xs s = Inr s'" and "P s"
    and "\<And>x s s'. x \<in> set xs \<Longrightarrow> P s \<Longrightarrow> f x s = Inr s' \<Longrightarrow> P s'"
  shows "P s'"
  using assms
proof (induction xs arbitrary: s)
  case Nil
  then show ?case by simp
next
  case (Cons x xs)
  then obtain t where "f x s = Inr t" "fold_err f xs t = Inr s'" by (auto simp: and_then_Inr)
  with Cons show ?case by (metis list.set_intros(1,2))
qed

lemma fold_err_total:
  assumes "P s" and "\<And>x s. x \<in> set xs \<Longrightarrow> P s \<Longrightarrow> \<exists>s'. f x s = Inr s' \<and> P s'"
  shows "\<exists>s'. fold_err f xs s = Inr s' \<and> P s'"
  using assms
proof (induction xs arbitrary: s)
  case Nil
  then show ?case by simp
next
  case (Cons x xs)
  then obtain t where "f x s = Inr t" "P t" by (meson list.set_intros(1))
  with Cons show ?case by simp
qed

lemma truthy_simps [js_simps, simp]:
  "\<not> truthy []" "truthy (c # cs)" "\<not> truthy_opt None" "truthy_opt (Some s) = truthy s"
  by (simp_all add: truthy_def truthy_opt_def)

lemma or_empty_simps [js_simps, simp]: "or_empty None = []" "or_empty (Some s) = s"
  by (simp_all add: or_empty_def)

lemma js_add1_safe: "is_safe_integer v \<Longrightarrow> js_add1 v = v + 1"
  by (simp add: js_add1_def is_safe_integer_def)

lemma js_add1_mono: "v \<le> js_add1 v"
  by (simp add: js_add1_def)

lemma js_add1_greater: "v \<le> max_safe_integer \<Longrightarrow> v < js_add1 v"
  by (simp add: js_add1_def)

lemma length_digits_of [simp]: "length (digits_of w n) = w"
  by (induction w arbitrary: n) auto

end
