(* ===== verification/Tables.thy ===== *)
theory Tables
  imports Prelude
begin

text \<open>
  Keyed tables. A SQL table with a primary key and an IndexedDB object store are lists of rows in
  ascending key order (IndexedDB enumerates a store in key order; SQLite leaves the order of an
  unordered \<open>SELECT\<close> open, and key order is one it may choose). \<open>tput\<close> is \<open>put\<close> or
  \<open>INSERT ... ON CONFLICT DO UPDATE\<close>, \<open>tget\<close> a lookup by key and \<open>tdel\<close> a delete by key.

  The locale \<open>keyed_store\<close> is the contract the components rely on: what a lookup returns after a
  write, and that a write keeps the table well-formed. It is interpreted on these operations for
  every table of the server and of the client.
\<close>

section \<open>The contract\<close>

locale keyed_store =
  fixes get :: "'k \<Rightarrow> 't \<Rightarrow> 'r option"
    and put :: "'r \<Rightarrow> 't \<Rightarrow> 't"
    and del :: "'k \<Rightarrow> 't \<Rightarrow> 't"
    and key :: "'r \<Rightarrow> 'k"
    and wf :: "'t \<Rightarrow> bool"
  assumes get_put: "get k (put r t) = (if k = key r then Some r else get k t)"
    and get_del: "get k (del k' t) = (if k = k' then None else get k t)"
    and key_get: "get k t = Some r \<Longrightarrow> key r = k"
    and wf_put: "wf t \<Longrightarrow> wf (put r t)"
    and wf_del: "wf t \<Longrightarrow> wf (del k t)"
begin

lemma get_put_same: "get (key r) (put r t) = Some r"
  by (simp add: get_put)

lemma get_put_other: "k \<noteq> key r \<Longrightarrow> get k (put r t) = get k t"
  by (simp add: get_put)

lemma wf_fold_put: "wf t \<Longrightarrow> wf (fold put rs t)"
  by (induction rs arbitrary: t) (auto simp: wf_put)

lemma wf_fold_del: "wf t \<Longrightarrow> wf (fold del ks t)"
  by (induction ks arbitrary: t) (auto simp: wf_del)

lemma get_fold_put_other: "k \<notin> key ` set rs \<Longrightarrow> get k (fold put rs t) = get k t"
  by (induction rs arbitrary: t) (auto simp: get_put)

lemma get_fold_put_mem:
  "distinct (map key rs) \<Longrightarrow> r \<in> set rs \<Longrightarrow> get (key r) (fold put rs t) = Some r"
proof (induction rs arbitrary: t)
  case Nil
  then show ?case by simp
next
  case (Cons x rs)
  show ?case
  proof (cases "r \<in> set rs")
    case True
    with Cons show ?thesis by simp
  next
    case False
    with Cons.prems have "r = x" and "key x \<notin> key ` set rs" by auto
    then show ?thesis by (simp add: get_fold_put_other get_put)
  qed
qed

lemma get_fold_del: "get k (fold del ks t) = (if k \<in> set ks then None else get k t)"
  by (induction ks arbitrary: t) (auto simp: get_del)

lemma get_fold_put_cases:
  "get k (fold put rs t) = Some r \<Longrightarrow> r \<in> set rs \<or> get k t = Some r"
  by (induction rs arbitrary: t) (force simp: get_put split: if_splits)+

lemmas get_simps = get_put get_del get_fold_del
lemmas wf_intros = wf_put wf_del wf_fold_put wf_fold_del

end

section \<open>Sorted lists of rows\<close>

definition tget :: "('r \<Rightarrow> 'k) \<Rightarrow> 'k \<Rightarrow> 'r list \<Rightarrow> 'r option" where
  "tget key k t = find (\<lambda>r. key r = k) t"

fun tput :: "('r \<Rightarrow> 'k::linorder) \<Rightarrow> 'r \<Rightarrow> 'r list \<Rightarrow> 'r list" where
  "tput key r [] = [r]"
| "tput key r (x # xs) =
     (if key r < key x then r # x # xs
      else if key r = key x then r # xs
      else x # tput key r xs)"

definition tdel :: "('r \<Rightarrow> 'k) \<Rightarrow> 'k \<Rightarrow> 'r list \<Rightarrow> 'r list" where
  "tdel key k t = filter (\<lambda>r. key r \<noteq> k) t"

definition wf_table :: "('r \<Rightarrow> 'k::linorder) \<Rightarrow> 'r list \<Rightarrow> bool" where
  "wf_table key t \<longleftrightarrow> sorted_wrt (<) (map key t)"

lemma tget_tput: "tget key k (tput key r t) = (if k = key r then Some r else tget key k t)"
  unfolding tget_def by (induction t) auto

lemma tget_tdel: "tget key k (tdel key k' t) = (if k = k' then None else tget key k t)"
  unfolding tget_def tdel_def by (induction t) auto

lemma tget_key: "tget key k t = Some r \<Longrightarrow> key r = k"
  unfolding tget_def by (induction t) (auto split: if_splits)

lemma tget_set: "tget key k t = Some r \<Longrightarrow> r \<in> set t"
  unfolding tget_def by (auto simp: find_Some_iff)

lemma tget_None: "tget key k t = None \<longleftrightarrow> k \<notin> key ` set t"
  unfolding tget_def by (auto simp: find_None_iff)

lemma set_tput_subset: "set (tput key r t) \<subseteq> insert r (set t)"
  by (induction t) auto

lemma set_tdel: "set (tdel key k t) = {r \<in> set t. key r \<noteq> k}"
  by (simp add: tdel_def)

lemma keys_tput: "key ` set (tput key r t) = insert (key r) (key ` set t)"
  by (induction t) auto

lemma wf_table_Nil [simp]: "wf_table key []"
  by (simp add: wf_table_def)

lemma wf_table_Cons:
  "wf_table key (x # xs) \<longleftrightarrow> (\<forall>y \<in> set xs. key x < key y) \<and> wf_table key xs"
  by (auto simp: wf_table_def)

lemma wf_table_tput: "wf_table key t \<Longrightarrow> wf_table key (tput key r t)"
proof (induction t)
  case Nil
  then show ?case by (simp add: wf_table_Cons)
next
  case (Cons x xs)
  then have "wf_table key (tput key r xs)" by (simp add: wf_table_Cons)
  moreover have "\<forall>y \<in> set (tput key r xs). key x < key y" if "key x < key r"
    using that Cons.prems set_tput_subset [of key r xs] by (auto simp: wf_table_Cons)
  ultimately show ?case using Cons.prems by (auto simp: wf_table_Cons)
qed

lemma wf_table_filter: "wf_table key t \<Longrightarrow> wf_table key (filter P t)"
  by (induction t) (auto simp: wf_table_Cons)

lemma wf_table_tdel: "wf_table key t \<Longrightarrow> wf_table key (tdel key k t)"
  by (simp add: tdel_def wf_table_filter)

lemma wf_table_distinct: "wf_table key t \<Longrightarrow> distinct (map key t)"
  by (induction t) (auto simp: wf_table_Cons)

lemma wf_table_tget: "wf_table key t \<Longrightarrow> r \<in> set t \<Longrightarrow> tget key (key r) t = Some r"
  by (induction t) (auto simp: wf_table_Cons tget_def)

lemma wf_table_inj: "wf_table key t \<Longrightarrow> r \<in> set t \<Longrightarrow> r' \<in> set t \<Longrightarrow> key r = key r' \<Longrightarrow> r = r'"
  by (metis option.inject wf_table_tget)

lemma wf_table_mem_iff: "wf_table key t \<Longrightarrow> r \<in> set t \<longleftrightarrow> tget key (key r) t = Some r"
  by (auto intro: wf_table_tget tget_set)

lemma sorted_list_tables: "keyed_store (tget key) (tput key) (tdel key) key (wf_table key)"
  by unfold_locales (auto simp: tget_tput tget_tdel wf_table_tput wf_table_tdel dest: tget_key)

interpretation table: keyed_store "tget key" "tput key" "tdel key" key "wf_table key"
  for key :: "'r \<Rightarrow> 'k::linorder"
  by (rule sorted_list_tables)

text \<open>Replacing rows in place without touching their keys.\<close>

lemma tget_map:
  "(\<And>r. key (f r) = key r) \<Longrightarrow> tget key k (map f t) = map_option f (tget key k t)"
  unfolding tget_def by (induction t) auto

lemma wf_table_map: "(\<And>r. key (f r) = key r) \<Longrightarrow> wf_table key t \<Longrightarrow> wf_table key (map f t)"
  by (simp add: wf_table_def comp_def)

lemma tget_filter_wf:
  "wf_table key t \<Longrightarrow>
   tget key k (filter P t) = (case tget key k t of None \<Rightarrow> None | Some r \<Rightarrow> if P r then Some r else None)"
proof (induction t)
  case Nil
  then show ?case by (simp add: tget_def)
next
  case (Cons x xs)
  have "tget key (key x) xs = None"
    using Cons.prems by (auto simp: wf_table_Cons tget_None)
  with Cons show ?case
    by (auto simp: wf_table_Cons tget_def split: option.splits)
qed

end
