(* ===== verification/Schema.thy ===== *)
theory Schema
  imports Tables
begin

text \<open>
  The data shared by client and server: \<open>packages/schema/src/index.ts\<close> and the sync part of
  \<open>packages/api-types/src/index.ts\<close>. Record fields carry a short prefix (\<open>n_\<close> for notes,
  \<open>nb_\<close> for notebooks, \<open>d_\<close> for devices, ...) followed by the source's field name, since the
  fields of two Isabelle records share one name space.
\<close>

section \<open>\<open>packages/schema\<close>\<close>

datatype sync_status = Synced | Pending | Conflict | Deleted

record Note =
  n_id :: string
  n_title :: string
  n_body :: string
  n_titleHash :: "string option"
  n_bodyHash :: "string option"
  n_notebookIds :: "string list"
  n_notebookId :: "string option"
  n_createdAt :: string
  n_updatedAt :: string
  n_deletedAt :: "string option"
  n_trashedAt :: "string option"
  n_isFavorite :: bool
  n_deviceId :: string
  n_version :: int
  n_syncStatus :: sync_status

record Notebook =
  nb_id :: string
  nb_name :: string
  nb_nameHash :: "string option"
  nb_createdAt :: string
  nb_updatedAt :: string
  nb_deletedAt :: "string option"
  nb_deviceId :: string
  nb_version :: int
  nb_syncStatus :: sync_status

record Device =
  d_id :: string
  d_name :: string

definition NOTE_RETENTION_DAYS :: int where
  "NOTE_RETENTION_DAYS = 90"

definition VERSION_SNAPSHOT_RETENTION_DAYS :: int where
  "VERSION_SNAPSHOT_RETENTION_DAYS = 365"

section \<open>\<open>packages/api-types\<close>\<close>

record sync_limits =
  entityIdBytes :: int
  deviceIdBytes :: int
  deviceNameBytes :: int
  titleBytes :: int
  bodyBytes :: int
  notebookNameBytes :: int
  fieldHashBytes :: int
  timestampBytes :: int
  notebookAssignments :: int
  devicesPerAccount :: int
  pullResponseBytes :: int

definition SYNC_LIMITS :: sync_limits where
  "SYNC_LIMITS =
     \<lparr>entityIdBytes = 128, deviceIdBytes = 128, deviceNameBytes = 256,
      titleBytes = 512 * 1024, bodyBytes = 4 * 1024 * 1024, notebookNameBytes = 16 * 1024,
      fieldHashBytes = 256, timestampBytes = 64, notebookAssignments = 128,
      devicesPerAccount = 50, pullResponseBytes = 6 * 1024 * 1024\<rparr>"

datatype entity_type = Device_entity | Note_entity | Notebook_entity

text \<open>
  The entity types in the order of their names (\<open>device\<close>, \<open>note\<close>, \<open>notebook\<close>), so that
  keys with an entity type among their columns are linearly ordered.
\<close>

fun entity_rank :: "entity_type \<Rightarrow> nat" where
  "entity_rank Device_entity = 0"
| "entity_rank Note_entity = 1"
| "entity_rank Notebook_entity = 2"

lemma entity_rank_inject [simp]: "entity_rank a = entity_rank b \<longleftrightarrow> a = b"
  by (cases a; cases b) simp_all

instantiation entity_type :: linorder
begin

definition less_eq_entity_type :: "entity_type \<Rightarrow> entity_type \<Rightarrow> bool" where
  "less_eq_entity_type a b \<longleftrightarrow> entity_rank a \<le> entity_rank b"

definition less_entity_type :: "entity_type \<Rightarrow> entity_type \<Rightarrow> bool" where
  "less_entity_type a b \<longleftrightarrow> entity_rank a < entity_rank b"

instance
  by standard (auto simp: less_eq_entity_type_def less_entity_type_def)

end

record 'r entity_change =
  c_record :: 'r
  c_baseVersion :: int

record pull_response =
  pl_serverTime :: string
  pl_serverRevision :: int
  pl_notes :: "Note list"
  pl_notebooks :: "Notebook list"
  pl_devices :: "Device list"
  pl_deletedNoteIds :: "string list"
  pl_deletedNotebookIds :: "string list"
  pl_deletedDeviceIds :: "string list"
  pl_hasMore :: bool

record push_request =
  pr_device :: Device
  pr_notes :: "Note entity_change list"
  pr_notebooks :: "Notebook entity_change list"

datatype conflict_source = Local_source | Remote_source

record 'r conflict_version =
  cv_source :: conflict_source
  cv_deviceId :: string
  cv_deviceName :: string
  cv_updatedAt :: string
  cv_version :: int
  cv_previewText :: string
  cv_record :: 'r

datatype conflict_reason = Remote_changed | Deleted_remotely | Version_mismatch | Duplicate_name

record 'r sync_conflict =
  sc_id :: string
  sc_entityType :: entity_type
  sc_entityId :: string
  sc_reason :: conflict_reason
  sc_local :: "'r conflict_version"
  sc_remote :: "'r conflict_version"

text \<open>\<open>SyncConflict<Note> | SyncConflict<Notebook>\<close>, told apart by \<open>entityType\<close>.\<close>

datatype any_conflict = NoteConflict "Note sync_conflict" | NotebookConflict "Notebook sync_conflict"

record accepted_change =
  ac_entityType :: entity_type
  ac_id :: string
  ac_version :: int
  ac_updatedAt :: string

record push_response =
  ps_serverTime :: string
  ps_accepted :: "accepted_change list"
  ps_conflicts :: "any_conflict list"

fun conflict_entity_id :: "any_conflict \<Rightarrow> string" where
  "conflict_entity_id (NoteConflict c) = sc_entityId c"
| "conflict_entity_id (NotebookConflict c) = sc_entityId c"

fun conflict_entity_type :: "any_conflict \<Rightarrow> entity_type" where
  "conflict_entity_type (NoteConflict c) = sc_entityType c"
| "conflict_entity_type (NotebookConflict c) = sc_entityType c"

fun conflict_reason_of :: "any_conflict \<Rightarrow> conflict_reason" where
  "conflict_reason_of (NoteConflict c) = sc_reason c"
| "conflict_reason_of (NotebookConflict c) = sc_reason c"

end
