(* ===== verification/SyncSpec.thy ===== *)
theory SyncSpec
  imports Schema
begin

text \<open>
  \<open>packages/sync-spec/src/index.ts\<close>: record comparison, conflict detection, conflict choice, the
  cursor check and the retention cutoff, used by the server and by the client. The generic
  \<open>T extends SyncEntity\<close> functions are modelled once per entity kind, and once over the union for
  the mixed case. The functions on notes and notebooks are polymorphic in the record extension, as
  the source passes local records (with extra fields) to them.
\<close>

section \<open>Definitions\<close>

datatype sync_entity = NoteEntity Note | NotebookEntity Notebook

datatype conflict_choice = Keep_newer | Keep_older | Keep_local | Keep_remote | Duplicate_both

definition normalizedNotebookIds :: "string list \<Rightarrow> string list" where
  "normalizedNotebookIds ids = dedupe (filter truthy (map trim ids))"

definition noteNotebookIds :: "'a Note_scheme \<Rightarrow> string list" where
  "noteNotebookIds n =
     (let ids = (if n_notebookIds n \<noteq> [] then n_notebookIds n
                 else case n_notebookId n of
                        None \<Rightarrow> []
                      | Some i \<Rightarrow> if truthy i then [i] else [])
      in normalizedNotebookIds ids)"

text \<open>The variant of \<open>sync-spec\<close> sorts the identifiers, so that order does not matter.\<close>

definition sortedNotebookIds :: "'a Note_scheme \<Rightarrow> string list" where
  "sortedNotebookIds n = sort (noteNotebookIds n)"

definition normalizedNotebookId :: "string option \<Rightarrow> string option" where
  "normalizedNotebookId i =
     (let t = (case i of None \<Rightarrow> [] | Some s \<Rightarrow> trim s) in if truthy t then Some t else None)"

definition previewNote :: "'a Note_scheme \<Rightarrow> string" where
  "previewNote n =
     (let b = collapse_spaces (trim (n_body n))
      in or_str (take 160 b) (or_str (n_title n) ''Empty note''))"

definition previewNotebook :: "'a Notebook_scheme \<Rightarrow> string" where
  "previewNotebook nb = or_str (nb_name nb) ''Untitled notebook''"

fun previewText :: "sync_entity \<Rightarrow> string" where
  "previewText (NoteEntity n) = previewNote n"
| "previewText (NotebookEntity nb) = previewNotebook nb"

text \<open>
  \<open>a.titleHash || b.titleHash ? hashes differ : values differ\<close>, the comparison of one encrypted
  field.
\<close>

definition fieldDiffers :: "string option \<Rightarrow> string option \<Rightarrow> string \<Rightarrow> string \<Rightarrow> bool" where
  "fieldDiffers ha hb a b =
     (if truthy_opt ha \<or> truthy_opt hb then ha \<noteq> hb else a \<noteq> b)"

definition notesDiffer :: "'a Note_scheme \<Rightarrow> 'b Note_scheme \<Rightarrow> bool" where
  "notesDiffer a b \<longleftrightarrow>
     fieldDiffers (n_titleHash a) (n_titleHash b) (n_title a) (n_title b) \<or>
     fieldDiffers (n_bodyHash a) (n_bodyHash b) (n_body a) (n_body b) \<or>
     join nul (sortedNotebookIds a) \<noteq> join nul (sortedNotebookIds b) \<or>
     normalizedNotebookId (n_notebookId a) \<noteq> normalizedNotebookId (n_notebookId b) \<or>
     n_deletedAt a \<noteq> n_deletedAt b \<or>
     n_trashedAt a \<noteq> n_trashedAt b \<or>
     n_isFavorite a \<noteq> n_isFavorite b"

definition notebooksDiffer :: "'a Notebook_scheme \<Rightarrow> 'b Notebook_scheme \<Rightarrow> bool" where
  "notebooksDiffer a b \<longleftrightarrow>
     fieldDiffers (nb_nameHash a) (nb_nameHash b) (nb_name a) (nb_name b) \<or>
     nb_deletedAt a \<noteq> nb_deletedAt b"

fun recordsDiffer :: "sync_entity \<Rightarrow> sync_entity \<Rightarrow> bool" where
  "recordsDiffer (NoteEntity a) (NoteEntity b) = notesDiffer a b"
| "recordsDiffer (NotebookEntity a) (NotebookEntity b) = notebooksDiffer a b"
| "recordsDiffer _ _ = True"

text \<open>\<open>shouldConflict\<close>, over the comparison and the version of the entity kind.\<close>

definition shouldConflict ::
  "('r \<Rightarrow> 'r \<Rightarrow> bool) \<Rightarrow> ('r \<Rightarrow> int) \<Rightarrow> 'r \<Rightarrow> 'r option \<Rightarrow> int \<Rightarrow> bool" where
  "shouldConflict differ version l remote baseVersion =
     (case remote of
        None \<Rightarrow> False
      | Some r \<Rightarrow> if \<not> differ l r then False else baseVersion \<noteq> version r)"

definition compareConflictVersions ::
  "env \<Rightarrow> 'r conflict_version \<Rightarrow> 'r conflict_version \<Rightarrow> int" where
  "compareConflictVersions e l r =
     (case (date_parse e (cv_updatedAt l), date_parse e (cv_updatedAt r)) of
        (Some t1, Some t2) \<Rightarrow>
          if t1 \<noteq> t2 then t1 - t2
          else if cv_version l \<noteq> cv_version r then cv_version l - cv_version r else 0
      | (Some _, None) \<Rightarrow> 1
      | (None, Some _) \<Rightarrow> -1
      | (None, None) \<Rightarrow>
          if cv_version l \<noteq> cv_version r then cv_version l - cv_version r else 0)"

text \<open>
  The parameter type of \<open>chooseConflictVersion\<close> excludes \<open>duplicate-both\<close>; a caller that passed
  it would reach the final return, the one of \<open>keep-older\<close>.
\<close>

definition chooseConflictVersion ::
  "env \<Rightarrow> 'r sync_conflict \<Rightarrow> conflict_choice \<Rightarrow> 'r conflict_version" where
  "chooseConflictVersion e c choice =
     (if choice = Keep_local then sc_local c
      else if choice = Keep_remote then sc_remote c
      else let order = compareConflictVersions e (sc_local c) (sc_remote c)
           in if choice = Keep_newer then (if order \<ge> 0 then sc_local c else sc_remote c)
              else (if order \<le> 0 then sc_local c else sc_remote c))"

definition nextVersionAfter :: "int \<Rightarrow> int" where
  "nextVersionAfter remoteVersion = js_add1 remoteVersion"

datatype cursor_error = Invalid_previous_revision | Invalid_server_revision | Cursor_did_not_advance

definition safeRevisionCursor :: "int \<Rightarrow> int \<Rightarrow> bool \<Rightarrow> cursor_error + int" where
  "safeRevisionCursor serverRevision previousRevision hasMore =
     (if \<not> is_safe_integer previousRevision \<or> previousRevision < 0 then Inl Invalid_previous_revision
      else if \<not> is_safe_integer serverRevision \<or> serverRevision < 0 then Inl Invalid_server_revision
      else if serverRevision < previousRevision \<or> (hasMore \<and> serverRevision = previousRevision)
        then Inl Cursor_did_not_advance
      else Inr serverRevision)"

text \<open>\<open>setUTCDate(getUTCDate() - n)\<close> moves the instant back by \<open>n\<close> whole UTC days.\<close>

definition retentionCutoff :: "int \<Rightarrow> int \<Rightarrow> string" where
  "retentionCutoff now retentionDays = to_iso (now - retentionDays * day_ms)"

section \<open>The contract of a comparison\<close>

text \<open>
  What push, merge and mirroring rely on, for notes and notebooks alike: a comparison that is
  reflexive (a record never differs from itself) and symmetric, and a version number.
\<close>

locale syncable =
  fixes differ :: "'r \<Rightarrow> 'r \<Rightarrow> bool" and version :: "'r \<Rightarrow> int"
  assumes differ_irrefl: "\<not> differ r r"
    and differ_sym: "differ a b = differ b a"
begin

abbreviation conflicts :: "'r \<Rightarrow> 'r option \<Rightarrow> int \<Rightarrow> bool" where
  "conflicts \<equiv> shouldConflict differ version"

lemma no_conflict_with_itself: "\<not> conflicts r (Some r) base"
  by (simp add: shouldConflict_def differ_irrefl)

lemma no_conflict_at_base: "\<not> conflicts l (Some r) (version r)"
  by (simp add: shouldConflict_def)

lemma no_conflict_without_remote: "\<not> conflicts l None base"
  by (simp add: shouldConflict_def)

lemma conflict_iff: "conflicts l (Some r) base \<longleftrightarrow> differ l r \<and> base \<noteq> version r"
  by (auto simp: shouldConflict_def)

text \<open>
  Two writers that start from the same base and both change the record: after the first one has
  been stored with a new version, the second one conflicts unless it wrote the same content.
\<close>

lemma second_writer_conflicts:
  assumes "version stored \<noteq> base" and "differ second stored"
  shows "conflicts second (Some stored) base"
  using assms by (auto simp: conflict_iff)

lemma not_conflict_cases:
  "\<not> conflicts l (Some r) base \<Longrightarrow> (\<not> differ l r \<Longrightarrow> P) \<Longrightarrow> (base = version r \<Longrightarrow> P) \<Longrightarrow> P"
  by (auto simp: conflict_iff)

end

lemma fieldDiffers_irrefl [simp]: "\<not> fieldDiffers h h a a"
  by (simp add: fieldDiffers_def)

lemma fieldDiffers_sym: "fieldDiffers ha hb a b = fieldDiffers hb ha b a"
  by (auto simp: fieldDiffers_def)

lemma notesDiffer_irrefl [simp]: "\<not> notesDiffer n n"
  by (simp add: notesDiffer_def)

lemma notesDiffer_sym: "notesDiffer a b = notesDiffer b a"
  unfolding notesDiffer_def by (auto simp: fieldDiffers_sym)

lemma notebooksDiffer_irrefl [simp]: "\<not> notebooksDiffer n n"
  by (simp add: notebooksDiffer_def)

lemma notebooksDiffer_sym: "notebooksDiffer a b = notebooksDiffer b a"
  unfolding notebooksDiffer_def by (auto simp: fieldDiffers_sym)

interpretation note_sync: syncable "notesDiffer :: Note \<Rightarrow> Note \<Rightarrow> bool" n_version
  by unfold_locales (simp, rule notesDiffer_sym)

interpretation notebook_sync: syncable "notebooksDiffer :: Notebook \<Rightarrow> Notebook \<Rightarrow> bool" nb_version
  by unfold_locales (simp, rule notebooksDiffer_sym)

section \<open>Lemmas\<close>

lemma set_normalizedNotebookIds: "set (normalizedNotebookIds ids) = {trim i |i. i \<in> set ids \<and> trim i \<noteq> []}"
  by (auto simp: normalizedNotebookIds_def truthy_def)

lemma distinct_normalizedNotebookIds [simp]: "distinct (normalizedNotebookIds ids)"
  by (simp add: normalizedNotebookIds_def)

lemma normalizedNotebookIds_fixed:
  assumes "\<And>i. i \<in> set ids \<Longrightarrow> trim i = i \<and> truthy i" and "distinct ids"
  shows "normalizedNotebookIds ids = ids"
proof -
  have "map trim ids = ids" by (rule map_idI) (simp add: assms(1))
  moreover have "filter truthy ids = ids" by (rule filter_True) (simp add: assms(1))
  ultimately show ?thesis by (simp add: normalizedNotebookIds_def dedupe_distinct assms(2))
qed

lemma normalizedNotebookIds_idem [simp]:
  "normalizedNotebookIds (normalizedNotebookIds ids) = normalizedNotebookIds ids"
  by (rule normalizedNotebookIds_fixed) (auto simp: set_normalizedNotebookIds truthy_def)

lemma normalizedNotebookIds_filter_id:
  "normalizedNotebookIds (filter P (normalizedNotebookIds ids)) = filter P (normalizedNotebookIds ids)"
  by (rule normalizedNotebookIds_fixed) (auto simp: set_normalizedNotebookIds truthy_def)

lemma noteNotebookIds_normalized [simp]:
  "normalizedNotebookIds (noteNotebookIds n) = noteNotebookIds n"
  by (simp add: noteNotebookIds_def Let_def)

lemma distinct_noteNotebookIds [simp]: "distinct (noteNotebookIds n)"
  by (simp add: noteNotebookIds_def Let_def)

lemma normalizedNotebookIds_Nil [simp]: "normalizedNotebookIds [] = []"
  by (simp add: normalizedNotebookIds_def)

lemma noteNotebookIds_of_normalized:
  "normalizedNotebookIds ids = ids \<Longrightarrow>
   noteNotebookIds (n\<lparr>n_notebookIds := ids, n_notebookId := first_or_null ids\<rparr>) = ids"
  by (cases ids) (auto simp: noteNotebookIds_def Let_def)

lemma safeRevisionCursor_Inr:
  "safeRevisionCursor s p hm = Inr c \<longleftrightarrow>
     c = s \<and> is_safe_integer p \<and> is_safe_integer s \<and> 0 \<le> p \<and> p \<le> s \<and> (hm \<longrightarrow> p < s)"
  by (auto simp: safeRevisionCursor_def)

end
