(* ===== verification/ServerDb.thy ===== *)
theory ServerDb
  imports SyncSpec
begin

text \<open>
  The server database (\<open>apps/web/src/lib/server/db.ts\<close>) and the row-level operations of
  \<open>apps/web/src/lib/server/repository.ts\<close>. The state \<open>server\<close> holds one sorted list of rows per
  table (see \<open>Tables\<close>), the last value handed out by the AUTOINCREMENT column of
  \<open>entity_changes\<close>, and how many clock readings and random identifiers the run has used.

  Foreign keys are enforced (\<open>PRAGMA foreign_keys = ON\<close>). The table \<open>notes\<close> has the composite key
  \<open>FOREIGN KEY (owner_username, notebook_id) ... ON DELETE SET NULL\<close>: inserting a note whose
  \<open>notebook_id\<close> names no notebook is a violation, and deleting a notebook that a note still names
  makes SQLite set both child columns to NULL, which the \<open>NOT NULL\<close> of \<open>owner_username\<close> rejects.
\<close>

section \<open>The state\<close>

text \<open>
  A \<open>notes\<close> row: the columns of the record, with the JSON text of \<open>notebook_ids\<close> decoded (the
  column is only ever written by \<open>JSON.stringify\<close> of a string array), plus the two columns that
  are not part of the record.
\<close>

record note_row =
  nr_owner :: string
  nr_note :: Note
  nr_retention :: "string option"

record notebook_row =
  nbr_owner :: string
  nbr_notebook :: Notebook
  nbr_retention :: "string option"

record device_row =
  dr_owner :: string
  dr_device :: Device
  dr_lastSeenAt :: string

record entity_tombstone =
  t_owner :: string
  t_entityType :: entity_type
  t_entityId :: string
  t_deletedAt :: string
  t_deviceId :: string
  t_version :: int

datatype entity_operation = Upsert_op | Delete_op

record change_row =
  ch_revision :: int
  ch_owner :: string
  ch_entityType :: entity_type
  ch_entityId :: string
  ch_operation :: entity_operation
  ch_updatedAt :: string

datatype snapshot_reason = Push_reason | Conflict_reason | Cleanup_reason

record note_version =
  nv_owner :: string
  nv_note :: Note
  nv_savedAt :: string
  nv_reason :: snapshot_reason

record notebook_version =
  nbv_owner :: string
  nbv_notebook :: Notebook
  nbv_savedAt :: string
  nbv_reason :: snapshot_reason

record meta_row =
  m_key :: string
  m_value :: string

record user_row =
  u_username :: string
  u_email :: "string option"
  u_displayName :: "string option"
  u_profileImage :: "string option"
  u_passwordHash :: string
  u_passwordSalt :: string
  u_e2eeKeyring :: "string option"
  u_totpSecret :: "string option"
  u_totpEnabledAt :: "string option"
  u_createdAt :: string
  u_updatedAt :: string

record session_row =
  se_tokenHash :: string
  se_username :: string
  se_deviceId :: "string option"
  se_createdAt :: string
  se_lastSeenAt :: string
  se_expiresAt :: string

record trusted_row =
  tr_username :: string
  tr_deviceId :: string
  tr_secretHash :: "string option"
  tr_createdAt :: string
  tr_lastUsedAt :: string

record account_tombstone =
  at_username :: string
  at_deletionId :: string
  at_deletedAt :: string

record server =
  s_notes :: "note_row list"
  s_notebooks :: "notebook_row list"
  s_devices :: "device_row list"
  s_tombstones :: "entity_tombstone list"
  s_changes :: "change_row list"
  s_lastRevision :: int
  s_noteVersions :: "note_version list"
  s_notebookVersions :: "notebook_version list"
  s_meta :: "meta_row list"
  s_users :: "user_row list"
  s_sessions :: "session_row list"
  s_trusted :: "trusted_row list"
  s_accountTombstones :: "account_tombstone list"
  s_ticks :: nat
  s_fresh :: nat

definition note_key :: "note_row \<Rightarrow> string \<times> string" where
  "note_key r = (nr_owner r, n_id (nr_note r))"

definition notebook_key :: "notebook_row \<Rightarrow> string \<times> string" where
  "notebook_key r = (nbr_owner r, nb_id (nbr_notebook r))"

definition device_key :: "device_row \<Rightarrow> string \<times> string" where
  "device_key r = (dr_owner r, d_id (dr_device r))"

definition tombstone_key :: "entity_tombstone \<Rightarrow> string \<times> entity_type \<times> string" where
  "tombstone_key t = (t_owner t, t_entityType t, t_entityId t)"

text \<open>The failures of the modelled operations.\<close>

datatype server_error =
    Foreign_key_violation
  | Not_null_violation
  | Device_limit_exceeded
  | Duplicate_entity_id entity_type
  | Record_limit_exceeded string
  | Pull_record_too_large
  | Mirror_divergence entity_type string
  | Mirror_conflict nat
  | Mirror_cursor cursor_error
  | Mirror_lock_unavailable
  | Mirror_orphans
  | Mirror_missing_accounts

definition LEGACY_OWNER_USERNAME :: string where
  "LEGACY_OWNER_USERNAME = ''legacy-token''"

section \<open>Clock and random identifiers\<close>

definition read_clock :: "env \<Rightarrow> server \<Rightarrow> string \<times> server" where
  "read_clock e s = (to_iso (clock e (s_ticks s)), s\<lparr>s_ticks := Suc (s_ticks s)\<rparr>)"

definition random_uuid :: "env \<Rightarrow> nat \<Rightarrow> string \<times> nat" where
  "random_uuid e k = (uuid e k, Suc k)"

section \<open>From rows to records\<close>

definition noteNotebookIdsFromRow :: "Note \<Rightarrow> string list" where
  "noteNotebookIdsFromRow n =
     (let ids = normalizedNotebookIds (n_notebookIds n)
      in if ids \<noteq> [] then ids
         else case normalizedNotebookId (n_notebookId n) of None \<Rightarrow> [] | Some i \<Rightarrow> [i])"

definition toNote :: "note_row \<Rightarrow> Note" where
  "toNote row =
     (let n = nr_note row; ids = noteNotebookIdsFromRow n
      in n\<lparr>n_notebookIds := ids,
           n_notebookId := (case ids of i # _ \<Rightarrow> Some i | [] \<Rightarrow> normalizedNotebookId (n_notebookId n)),
           n_syncStatus := Synced\<rparr>)"

definition toNotebook :: "notebook_row \<Rightarrow> Notebook" where
  "toNotebook row = (nbr_notebook row)\<lparr>nb_syncStatus := Synced\<rparr>"

definition asRevision :: "int \<Rightarrow> int" where
  "asRevision v = (if is_safe_integer v \<and> v \<ge> 0 then v else 0)"

text \<open>\<open>COALESCE(max(...), 0)\<close>.\<close>

definition max_or_zero :: "int list \<Rightarrow> int" where
  "max_or_zero xs = (case xs of [] \<Rightarrow> 0 | x # ys \<Rightarrow> fold max ys x)"

section \<open>Metadata, revisions, tombstones\<close>

definition getSyncMeta :: "server \<Rightarrow> string \<Rightarrow> string option" where
  "getSyncMeta s k = map_option m_value (tget m_key k (s_meta s))"

definition setSyncMeta :: "string \<Rightarrow> string \<Rightarrow> server \<Rightarrow> server" where
  "setSyncMeta k v s = s\<lparr>s_meta := tput m_key \<lparr>m_key = k, m_value = v\<rparr> (s_meta s)\<rparr>"

definition currentRevision :: "server \<Rightarrow> string option \<Rightarrow> int" where
  "currentRevision s owner =
     asRevision (max_or_zero (map ch_revision
       (if truthy_opt owner then filter (\<lambda>c. Some (ch_owner c) = owner) (s_changes s)
        else s_changes s)))"

definition getEntityTombstone ::
  "server \<Rightarrow> string \<Rightarrow> entity_type \<Rightarrow> string \<Rightarrow> entity_tombstone option" where
  "getEntityTombstone s owner ty i = tget tombstone_key (owner, ty, i) (s_tombstones s)"

definition uniqueEntityIds :: "string list \<Rightarrow> string list" where
  "uniqueEntityIds ids = filter truthy (dedupe ids)"

text \<open>
  The loop of the \<open>get...ByIds\<close> functions: the unique identifiers in pieces of 200, one
  \<open>SELECT ... WHERE id IN (...)\<close> per piece, every row put into a \<open>Map\<close> under its identifier.
\<close>

definition collect_by_ids ::
  "('row \<Rightarrow> bool) \<Rightarrow> ('row \<Rightarrow> string) \<Rightarrow> ('row \<Rightarrow> 'v) \<Rightarrow> 'row list \<Rightarrow> string list \<Rightarrow> (string \<times> 'v) list" where
  "collect_by_ids sel idf conv rows ids =
     fold (\<lambda>chunk m. fold (\<lambda>row m. map_set (idf row) (conv row) m)
             (filter (\<lambda>row. sel row \<and> idf row \<in> set chunk) rows) m)
       (chunks 200 (uniqueEntityIds ids)) []"

definition getEntityTombstonesByIds ::
  "server \<Rightarrow> string \<Rightarrow> entity_type \<Rightarrow> string list \<Rightarrow> (string \<times> entity_tombstone) list" where
  "getEntityTombstonesByIds s owner ty ids =
     collect_by_ids (\<lambda>t. t_owner t = owner \<and> t_entityType t = ty) t_entityId (\<lambda>t. t)
       (s_tombstones s) ids"

definition putEntityTombstone ::
  "string \<Rightarrow> entity_type \<Rightarrow> string \<Rightarrow> string \<Rightarrow> string \<Rightarrow> int \<Rightarrow> server \<Rightarrow> server" where
  "putEntityTombstone owner ty i deletedAt deviceId version s =
     s\<lparr>s_tombstones := tput tombstone_key
        \<lparr>t_owner = owner, t_entityType = ty, t_entityId = i, t_deletedAt = deletedAt,
         t_deviceId = deviceId, t_version = version\<rparr> (s_tombstones s)\<rparr>"

text \<open>AUTOINCREMENT: one more than the largest revision ever handed out.\<close>

definition insert_change ::
  "string \<Rightarrow> entity_type \<Rightarrow> string \<Rightarrow> entity_operation \<Rightarrow> string \<Rightarrow> server \<Rightarrow> server" where
  "insert_change owner ty i op at s =
     s\<lparr>s_changes := s_changes s @ [\<lparr>ch_revision = s_lastRevision s + 1, ch_owner = owner,
         ch_entityType = ty, ch_entityId = i, ch_operation = op, ch_updatedAt = at\<rparr>],
       s_lastRevision := s_lastRevision s + 1\<rparr>"

text \<open>\<open>recordEntityChange\<close>; without \<open>updatedAt\<close> it reads the clock.\<close>

definition recordEntityChange ::
  "env \<Rightarrow> entity_type \<Rightarrow> string \<Rightarrow> entity_operation \<Rightarrow> string option \<Rightarrow> string \<Rightarrow> server \<Rightarrow> server" where
  "recordEntityChange e ty i op updatedAt owner s =
     (case updatedAt of
        Some at \<Rightarrow> insert_change owner ty i op at s
      | None \<Rightarrow> let (at, s') = read_clock e s in insert_change owner ty i op at s')"

definition changes_of :: "server \<Rightarrow> string \<Rightarrow> entity_type \<Rightarrow> string \<Rightarrow> change_row list" where
  "changes_of s owner ty i =
     filter (\<lambda>c. ch_owner c = owner \<and> ch_entityType c = ty \<and> ch_entityId c = i) (s_changes s)"

definition latestEntityRevision :: "server \<Rightarrow> string \<Rightarrow> entity_type \<Rightarrow> string \<Rightarrow> int" where
  "latestEntityRevision s owner ty i =
     asRevision (max_or_zero (map ch_revision (changes_of s owner ty i)))"

text \<open>\<open>ORDER BY revision DESC LIMIT 1\<close>; \<open>s_changes\<close> is in ascending order of revisions.\<close>

definition latestEntityOperation ::
  "server \<Rightarrow> string \<Rightarrow> entity_type \<Rightarrow> string \<Rightarrow> entity_operation option" where
  "latestEntityOperation s owner ty i =
     (case changes_of s owner ty i of [] \<Rightarrow> None | c # cs \<Rightarrow> Some (ch_operation (last (c # cs))))"

section \<open>Devices\<close>

definition get_device_row :: "server \<Rightarrow> string \<Rightarrow> string \<Rightarrow> device_row option" where
  "get_device_row s owner i = tget device_key (owner, i) (s_devices s)"

definition upsertDevice ::
  "Device \<Rightarrow> string \<Rightarrow> string \<Rightarrow> env \<Rightarrow> server \<Rightarrow> server_error + server" where
  "upsertDevice d seenAt owner e s =
     (let existing = get_device_row s owner (d_id d);
          latestOperation = latestEntityOperation s owner Device_entity (d_id d)
      in if existing = None \<and>
            int (length (filter (\<lambda>r. dr_owner r = owner) (s_devices s))) \<ge> devicesPerAccount SYNC_LIMITS
         then Inl Device_limit_exceeded
         else let s1 = s\<lparr>s_devices := tput device_key
                          \<lparr>dr_owner = owner, dr_device = d, dr_lastSeenAt = seenAt\<rparr> (s_devices s)\<rparr>
              in Inr (if existing = None
                       \<or> map_option (\<lambda>r. d_name (dr_device r)) existing \<noteq> Some (d_name d)
                       \<or> latestOperation \<noteq> Some Upsert_op
                      then recordEntityChange e Device_entity (d_id d) Upsert_op (Some seenAt) owner s1
                      else s1))"

definition getDeviceName :: "server \<Rightarrow> string \<Rightarrow> string \<Rightarrow> string" where
  "getDeviceName s deviceId owner =
     (case get_device_row s owner deviceId of None \<Rightarrow> deviceId | Some r \<Rightarrow> d_name (dr_device r))"

section \<open>Reading notes, notebooks and devices\<close>

definition get_note_row :: "server \<Rightarrow> string \<Rightarrow> string \<Rightarrow> note_row option" where
  "get_note_row s owner i = tget note_key (owner, i) (s_notes s)"

definition get_notebook_row :: "server \<Rightarrow> string \<Rightarrow> string \<Rightarrow> notebook_row option" where
  "get_notebook_row s owner i = tget notebook_key (owner, i) (s_notebooks s)"

definition getNote :: "server \<Rightarrow> string \<Rightarrow> string \<Rightarrow> Note option" where
  "getNote s i owner = map_option toNote (get_note_row s owner i)"

definition getNotebook :: "server \<Rightarrow> string \<Rightarrow> string \<Rightarrow> Notebook option" where
  "getNotebook s i owner = map_option toNotebook (get_notebook_row s owner i)"

definition getNotesByIds :: "server \<Rightarrow> string list \<Rightarrow> string \<Rightarrow> (string \<times> Note) list" where
  "getNotesByIds s ids owner =
     collect_by_ids (\<lambda>r. nr_owner r = owner) (\<lambda>r. n_id (nr_note r)) toNote (s_notes s) ids"

definition getNotebooksByIds :: "server \<Rightarrow> string list \<Rightarrow> string \<Rightarrow> (string \<times> Notebook) list" where
  "getNotebooksByIds s ids owner =
     collect_by_ids (\<lambda>r. nbr_owner r = owner) (\<lambda>r. nb_id (nbr_notebook r)) toNotebook (s_notebooks s) ids"

definition getDevicesByIds :: "server \<Rightarrow> string list \<Rightarrow> string option \<Rightarrow> (string \<times> Device) list" where
  "getDevicesByIds s ids owner =
     collect_by_ids (\<lambda>r. truthy_opt owner \<longrightarrow> Some (dr_owner r) = owner) (\<lambda>r. d_id (dr_device r))
       dr_device (s_devices s) ids"

text \<open>\<open>ORDER BY updated_at DESC\<close> and \<open>ORDER BY name COLLATE NOCASE\<close> (ASCII case folding).\<close>

definition nocase_char :: "char \<Rightarrow> char" where
  "nocase_char c =
     (let n = (of_char c :: nat) in if 65 \<le> n \<and> n \<le> 90 then char_of (n + 32) else c)"

definition listNotes :: "server \<Rightarrow> string \<Rightarrow> Note list" where
  "listNotes s owner =
     rev (sort_key n_updatedAt (rev (map toNote
       (filter (\<lambda>r. nr_owner r = owner \<and> n_deletedAt (nr_note r) = None) (s_notes s)))))"

definition listNotebooks :: "server \<Rightarrow> string \<Rightarrow> Notebook list" where
  "listNotebooks s owner =
     sort_key (\<lambda>nb. map nocase_char (nb_name nb)) (map toNotebook
       (filter (\<lambda>r. nbr_owner r = owner \<and> nb_deletedAt (nbr_notebook r) = None) (s_notebooks s)))"

section \<open>Deleting rows\<close>

definition delete_note_row :: "string \<Rightarrow> string \<Rightarrow> server \<Rightarrow> server" where
  "delete_note_row owner i s = s\<lparr>s_notes := tdel note_key (owner, i) (s_notes s)\<rparr>"

definition notebook_referenced :: "server \<Rightarrow> string \<Rightarrow> string \<Rightarrow> bool" where
  "notebook_referenced s owner i \<longleftrightarrow>
     (\<exists>r \<in> set (s_notes s). nr_owner r = owner \<and> n_notebookId (nr_note r) = Some i)"

text \<open>
  \<open>DELETE FROM notebooks WHERE owner_username = ? AND id = ?\<close>, with the foreign key action
  described above.
\<close>

definition delete_notebook_row :: "string \<Rightarrow> string \<Rightarrow> server \<Rightarrow> server_error + server" where
  "delete_notebook_row owner i s =
     (if get_notebook_row s owner i \<noteq> None \<and> notebook_referenced s owner i
      then Inl Not_null_violation
      else Inr (s\<lparr>s_notebooks := tdel notebook_key (owner, i) (s_notebooks s)\<rparr>))"

text \<open>The body of the second loop of \<open>deleteNotesByIds\<close>, for one identifier.\<close>

definition tombstone_deleted ::
  "env \<Rightarrow> entity_type \<Rightarrow> string \<Rightarrow> (string \<times> int) option \<Rightarrow> string \<Rightarrow> server \<Rightarrow> server" where
  "tombstone_deleted e ty owner existing i s =
     (let tombstone = getEntityTombstone s owner ty i;
          s1 = (case existing of
                  Some (deviceId, version) \<Rightarrow>
                    (let (now, s') = read_clock e s
                     in putEntityTombstone owner ty i now deviceId (nextVersionAfter version) s')
                | None \<Rightarrow>
                    (case tombstone of
                       Some _ \<Rightarrow> s
                     | None \<Rightarrow>
                         (let (now, s') = read_clock e s
                          in putEntityTombstone owner ty i now ''server'' 1 s')))
      in if latestEntityOperation s1 owner ty i \<noteq> Some Delete_op
         then recordEntityChange e ty i Delete_op None owner s1
         else s1)"

definition deleteNotesByIds :: "env \<Rightarrow> string list \<Rightarrow> string \<Rightarrow> server \<Rightarrow> server" where
  "deleteNotesByIds e ids owner s =
     (let unique = uniqueEntityIds ids;
          existing = getNotesByIds s unique owner;
          s1 = fold (\<lambda>chunk. fold (delete_note_row owner) chunk) (chunks 200 unique) s
      in fold (\<lambda>i. tombstone_deleted e Note_entity owner
                 (map_option (\<lambda>n. (n_deviceId n, n_version n)) (map_of existing i)) i) unique s1)"

definition deleteNotebooksByIds :: "env \<Rightarrow> string list \<Rightarrow> string \<Rightarrow> server \<Rightarrow> server_error + server" where
  "deleteNotebooksByIds e ids owner s =
     (let unique = uniqueEntityIds ids;
          existing = getNotebooksByIds s unique owner
      in and_then (fold_err (\<lambda>chunk. fold_err (delete_notebook_row owner) chunk) (chunks 200 unique) s)
           (\<lambda>s1. Inr (fold (\<lambda>i. tombstone_deleted e Notebook_entity owner
                 (map_option (\<lambda>n. (nb_deviceId n, nb_version n)) (map_of existing i)) i) unique s1)))"

definition deviceIsReferenced :: "server \<Rightarrow> string \<Rightarrow> string \<Rightarrow> bool" where
  "deviceIsReferenced s deviceId owner \<longleftrightarrow>
     length (filter (\<lambda>r. nr_owner r = owner \<and> n_deviceId (nr_note r) = deviceId) (s_notes s))
     + length (filter (\<lambda>r. nbr_owner r = owner \<and> nb_deviceId (nbr_notebook r) = deviceId) (s_notebooks s))
     + length (filter (\<lambda>r. se_username r = owner \<and> se_deviceId r = Some deviceId) (s_sessions s))
     + length (filter (\<lambda>r. tr_username r = owner \<and> tr_deviceId r = deviceId) (s_trusted s)) > 0"

definition delete_device_row :: "string \<Rightarrow> string \<Rightarrow> server \<Rightarrow> server" where
  "delete_device_row owner i s = s\<lparr>s_devices := tdel device_key (owner, i) (s_devices s)\<rparr>"

definition deleteDevicesByIds :: "env \<Rightarrow> string list \<Rightarrow> string \<Rightarrow> server \<Rightarrow> server" where
  "deleteDevicesByIds e ids owner s =
     fold (\<lambda>i s.
        let s1 = (if deviceIsReferenced s i owner then s else delete_device_row owner i s)
        in if latestEntityOperation s1 owner Device_entity i \<noteq> Some Delete_op
           then recordEntityChange e Device_entity i Delete_op None owner s1
           else s1) (uniqueEntityIds ids) s"

end
