(* ===== verification/Json.thy ===== *)
theory Json
  imports SyncSpec
begin

text \<open>
  \<open>JSON.stringify\<close> on the values the code measures or stores: strings, string arrays, numbers and
  the pull response. The server bounds a pull page by the UTF-8 length of this text
  (\<open>repository.ts\<close>, \<open>pullMirrorChangesSinceRevision\<close>) and counts the text of \<open>notebook_ids\<close> in its
  storage estimates (\<open>record-limits.ts\<close>).
\<close>

section \<open>Numbers\<close>

fun nat_to_string :: "nat \<Rightarrow> string" where
  "nat_to_string n =
     (if n < 10 then [digit_char (int n)]
      else nat_to_string (n div 10) @ [digit_char (int n)])"

declare nat_to_string.simps [simp del]

definition int_to_string :: "int \<Rightarrow> string" where
  "int_to_string i = (if i < 0 then ''-'' @ nat_to_string (nat (- i)) else nat_to_string (nat i))"

section \<open>Strings\<close>

definition hex_char :: "nat \<Rightarrow> char" where
  "hex_char n = (if n < 10 then char_of (48 + n) else char_of (87 + n))"

definition json_char :: "char \<Rightarrow> string" where
  "json_char c =
     (if c = CHR 0x22 then [CHR 0x5C, CHR 0x22]
      else if c = CHR 0x5C then [CHR 0x5C, CHR 0x5C]
      else if c = CHR 0x08 then [CHR 0x5C, CHR ''b'']
      else if c = CHR 0x09 then [CHR 0x5C, CHR ''t'']
      else if c = CHR 0x0A then [CHR 0x5C, CHR ''n'']
      else if c = CHR 0x0C then [CHR 0x5C, CHR ''f'']
      else if c = CHR 0x0D then [CHR 0x5C, CHR ''r'']
      else let n = (of_char c :: nat)
           in if n < 32 then [CHR 0x5C, CHR ''u'', CHR ''0'', CHR ''0'', hex_char (n div 16), hex_char (n mod 16)]
              else [c])"

definition json_string :: "string \<Rightarrow> string" where
  "json_string s = [CHR 0x22] @ concat (map json_char s) @ [CHR 0x22]"

definition json_nullable :: "string option \<Rightarrow> string" where
  "json_nullable x = (case x of None \<Rightarrow> ''null'' | Some s \<Rightarrow> json_string s)"

definition json_bool :: "bool \<Rightarrow> string" where
  "json_bool b = (if b then ''true'' else ''false'')"

definition json_array :: "string list \<Rightarrow> string" where
  "json_array items = ''['' @ join '','' items @ '']''"

definition json_object :: "(string \<times> string) list \<Rightarrow> string" where
  "json_object kvs = ''{'' @ join '','' (map (\<lambda>(k, v). json_string k @ '':'' @ v) kvs) @ ''}''"

definition json_string_array :: "string list \<Rightarrow> string" where
  "json_string_array xs = json_array (map json_string xs)"

section \<open>Records\<close>

fun status_text :: "sync_status \<Rightarrow> string" where
  "status_text Synced = ''synced''"
| "status_text Pending = ''pending''"
| "status_text Conflict = ''conflict''"
| "status_text Deleted = ''deleted''"

definition json_note :: "Note \<Rightarrow> string" where
  "json_note n = json_object
     [(''id'', json_string (n_id n)), (''title'', json_string (n_title n)),
      (''body'', json_string (n_body n)), (''titleHash'', json_nullable (n_titleHash n)),
      (''bodyHash'', json_nullable (n_bodyHash n)),
      (''notebookIds'', json_string_array (n_notebookIds n)),
      (''notebookId'', json_nullable (n_notebookId n)),
      (''createdAt'', json_string (n_createdAt n)), (''updatedAt'', json_string (n_updatedAt n)),
      (''deletedAt'', json_nullable (n_deletedAt n)), (''trashedAt'', json_nullable (n_trashedAt n)),
      (''isFavorite'', json_bool (n_isFavorite n)), (''deviceId'', json_string (n_deviceId n)),
      (''version'', int_to_string (n_version n)),
      (''syncStatus'', json_string (status_text (n_syncStatus n)))]"

definition json_notebook :: "Notebook \<Rightarrow> string" where
  "json_notebook nb = json_object
     [(''id'', json_string (nb_id nb)), (''name'', json_string (nb_name nb)),
      (''nameHash'', json_nullable (nb_nameHash nb)),
      (''createdAt'', json_string (nb_createdAt nb)), (''updatedAt'', json_string (nb_updatedAt nb)),
      (''deletedAt'', json_nullable (nb_deletedAt nb)), (''deviceId'', json_string (nb_deviceId nb)),
      (''version'', int_to_string (nb_version nb)),
      (''syncStatus'', json_string (status_text (nb_syncStatus nb)))]"

definition json_device :: "Device \<Rightarrow> string" where
  "json_device d = json_object [(''id'', json_string (d_id d)), (''name'', json_string (d_name d))]"

text \<open>The properties in the order of the object literal in \<open>pullMirrorChangesSinceRevision\<close>.\<close>

definition json_pull_response :: "pull_response \<Rightarrow> string" where
  "json_pull_response r = json_object
     [(''serverTime'', json_string (pl_serverTime r)),
      (''serverRevision'', int_to_string (pl_serverRevision r)),
      (''devices'', json_array (map json_device (pl_devices r))),
      (''notes'', json_array (map json_note (pl_notes r))),
      (''notebooks'', json_array (map json_notebook (pl_notebooks r))),
      (''deletedDeviceIds'', json_string_array (pl_deletedDeviceIds r)),
      (''deletedNoteIds'', json_string_array (pl_deletedNoteIds r)),
      (''deletedNotebookIds'', json_string_array (pl_deletedNotebookIds r)),
      (''hasMore'', json_bool (pl_hasMore r))]"

definition responseBytes :: "pull_response \<Rightarrow> nat" where
  "responseBytes r = utf8_length (json_pull_response r)"

end
