(* ===== verification/RecordLimits.thy ===== *)
theory RecordLimits
  imports ServerDb Json Complex_Main "HOL-Library.Log_Nat"
begin

text \<open>
  \<open>apps/web/src/lib/server/record-limits.ts\<close>: the storage estimate of an account after a push, and
  the decision whether the push may be written. The byte counts of the SQL text
  (\<open>length(CAST(COALESCE(c, '') AS BLOB))\<close>) and of the incoming records are the UTF-8 lengths.
  The configuration is an argument: its numbers are doubles, hence rationals.
\<close>

section \<open>Double arithmetic\<close>

text \<open>
  \<open>fl x\<close> is the double nearest to \<open>x\<close>, ties to even, for \<open>x\<close> in the normal range; the products and
  quotients of \<open>perUserLimits\<close> are rounded with it.
\<close>

definition round_half_even :: "rat \<Rightarrow> int" where
  "round_half_even x =
     (let f = floor x; r = x - of_int f
      in if r < 1/2 then f else if 1/2 < r then f + 1 else if even f then f else f + 1)"

definition two_to :: "int \<Rightarrow> rat" where
  "two_to i = (if 0 \<le> i then 2 ^ nat i else 1 / 2 ^ nat (- i))"

definition double_exponent :: "rat \<Rightarrow> int" where
  "double_exponent x =
     (let (p, q) = quotient_of x; i = bitlen p - bitlen q - 53
      in if x < two_to (i + 53) then i else i + 1)"

definition fl :: "rat \<Rightarrow> rat" where
  "fl x =
     (if x = 0 then 0
      else let a = \<bar>x\<bar>; i = double_exponent a
           in (if x < 0 then -1 else 1) * of_int (round_half_even (a / two_to i)) * two_to i)"

section \<open>Configuration and results\<close>

record record_limit_config =
  rc_enabled :: bool
  rc_storageBudgetBytes :: rat
  rc_safetyRatio :: rat
  rc_estimatedNoteBytes :: rat
  rc_estimatedNotebookBytes :: rat

record per_user_limits =
  pu_maxNotes :: int
  pu_maxNotebooks :: int
  pu_maxNoteBytes :: int
  pu_maxNotebookBytes :: int
  pu_maxTotalBytes :: int

record usage_projection =
  up_current :: int
  up_projected :: int

record record_limit_result =
  rl_error :: string
  rl_activeUsers :: int
  rl_limits :: per_user_limits
  rl_estimatedNotes :: int
  rl_estimatedNotebooks :: int
  rl_projectedNoteBytes :: int
  rl_projectedNotebookBytes :: int
  rl_projectedDevices :: int
  rl_projectedTotalBytes :: int

definition NOTE_BUDGET_SHARE :: rat where
  "NOTE_BUDGET_SHARE = fl (9 / 10)"

definition NOTEBOOK_BUDGET_SHARE :: rat where
  "NOTEBOOK_BUDGET_SHARE = fl (1 - NOTE_BUDGET_SHARE)"

definition STORAGE_ROW_OVERHEAD_BYTES :: int where
  "STORAGE_ROW_OVERHEAD_BYTES = 512"

section \<open>Sizes of rows and records\<close>

definition uniqueIds :: "string list \<Rightarrow> string list" where
  "uniqueIds ids = dedupe (filter truthy (map trim ids))"

definition plural :: "int \<Rightarrow> string \<Rightarrow> string" where
  "plural count singular = (if count = 1 then singular else singular @ ''s'')"

definition textBytes :: "string option \<Rightarrow> int" where
  "textBytes v = int (utf8_length (or_empty v))"

abbreviation strBytes :: "string \<Rightarrow> int" where
  "strBytes v \<equiv> textBytes (Some v)"

text \<open>\<open>recordBytesSql\<close>, evaluated on a row.\<close>

definition noteRowBytes :: "note_row \<Rightarrow> int" where
  "noteRowBytes r =
     (let n = nr_note r
      in STORAGE_ROW_OVERHEAD_BYTES + strBytes (n_id n) + strBytes (nr_owner r)
         + strBytes (n_title n) + strBytes (n_body n) + textBytes (n_titleHash n)
         + textBytes (n_bodyHash n) + strBytes (json_string_array (n_notebookIds n))
         + textBytes (n_notebookId n) + strBytes (n_createdAt n) + strBytes (n_updatedAt n)
         + textBytes (n_deletedAt n) + textBytes (n_trashedAt n) + strBytes (n_deviceId n)
         + strBytes (status_text (n_syncStatus n)) + 24)"

definition notebookRowBytes :: "notebook_row \<Rightarrow> int" where
  "notebookRowBytes r =
     (let nb = nbr_notebook r
      in STORAGE_ROW_OVERHEAD_BYTES + strBytes (nb_id nb) + strBytes (nbr_owner r)
         + strBytes (nb_name nb) + textBytes (nb_nameHash nb) + strBytes (nb_createdAt nb)
         + strBytes (nb_updatedAt nb) + textBytes (nb_deletedAt nb) + strBytes (nb_deviceId nb)
         + strBytes (status_text (nb_syncStatus nb)) + 16)"

definition noteStorageBytes :: "Note \<Rightarrow> string \<Rightarrow> int" where
  "noteStorageBytes n owner =
     (let ids = uniqueIds (if n_notebookIds n \<noteq> [] then n_notebookIds n
                           else case n_notebookId n of None \<Rightarrow> [] | Some i \<Rightarrow> if truthy i then [i] else [])
      in STORAGE_ROW_OVERHEAD_BYTES + strBytes (n_id n) + strBytes owner
         + strBytes (n_title n) + strBytes (n_body n) + textBytes (n_titleHash n)
         + textBytes (n_bodyHash n) + strBytes (json_string_array ids)
         + textBytes (first_or_null ids) + strBytes (n_createdAt n) + strBytes (n_updatedAt n)
         + textBytes (n_deletedAt n) + textBytes (n_trashedAt n) + strBytes (n_deviceId n)
         + strBytes ''synced'' + 24)"

definition notebookStorageBytes :: "Notebook \<Rightarrow> string \<Rightarrow> int" where
  "notebookStorageBytes nb owner =
     STORAGE_ROW_OVERHEAD_BYTES + strBytes (nb_id nb) + strBytes owner
     + strBytes (nb_name nb) + textBytes (nb_nameHash nb) + strBytes (nb_createdAt nb)
     + strBytes (nb_updatedAt nb) + textBytes (nb_deletedAt nb) + strBytes (nb_deviceId nb)
     + strBytes ''synced'' + 16"

section \<open>Projections\<close>

text \<open>
  A table seen by the projections: the identifier, size and version of each of the owner's rows
  that has \<open>deleted_at IS NULL\<close>.
\<close>

record active_row =
  a_id :: string
  a_bytes :: int
  a_version :: int

definition active_notes :: "server \<Rightarrow> string \<Rightarrow> active_row list" where
  "active_notes s owner =
     map (\<lambda>r. \<lparr>a_id = n_id (nr_note r), a_bytes = noteRowBytes r, a_version = n_version (nr_note r)\<rparr>)
       (filter (\<lambda>r. nr_owner r = owner \<and> n_deletedAt (nr_note r) = None) (s_notes s))"

definition active_notebooks :: "server \<Rightarrow> string \<Rightarrow> active_row list" where
  "active_notebooks s owner =
     map (\<lambda>r. \<lparr>a_id = nb_id (nbr_notebook r), a_bytes = notebookRowBytes r,
                a_version = nb_version (nbr_notebook r)\<rparr>)
       (filter (\<lambda>r. nbr_owner r = owner \<and> nb_deletedAt (nbr_notebook r) = None) (s_notebooks s))"

definition countActiveRecordIds :: "active_row list \<Rightarrow> string list \<Rightarrow> int" where
  "countActiveRecordIds rows ids =
     (let safeIds = uniqueIds ids
      in if safeIds = [] then 0 else int (length (filter (\<lambda>r. a_id r \<in> set safeIds) rows)))"

definition sumActiveRecordIdsBytes :: "active_row list \<Rightarrow> string list \<Rightarrow> int" where
  "sumActiveRecordIdsBytes rows ids =
     (let safeIds = uniqueIds ids
      in if safeIds = [] then 0 else sum_list (map a_bytes (filter (\<lambda>r. a_id r \<in> set safeIds) rows)))"

text \<open>A change as the projections see it: identifier, \<open>deletedAt\<close>, base version, incoming size.\<close>

record projected_change =
  pc_id :: string
  pc_deletedAt :: "string option"
  pc_baseVersion :: int
  pc_bytes :: int

definition note_change :: "string \<Rightarrow> Note entity_change \<Rightarrow> projected_change" where
  "note_change owner c = \<lparr>pc_id = n_id (c_record c), pc_deletedAt = n_deletedAt (c_record c),
     pc_baseVersion = c_baseVersion c, pc_bytes = noteStorageBytes (c_record c) owner\<rparr>"

definition notebook_change :: "string \<Rightarrow> Notebook entity_change \<Rightarrow> projected_change" where
  "notebook_change owner c = \<lparr>pc_id = nb_id (c_record c), pc_deletedAt = nb_deletedAt (c_record c),
     pc_baseVersion = c_baseVersion c, pc_bytes = notebookStorageBytes (c_record c) owner\<rparr>"

abbreviation pc_deleted :: "projected_change \<Rightarrow> bool" where
  "pc_deleted c \<equiv> truthy_opt (pc_deletedAt c)"

definition activeCountProjection :: "active_row list \<Rightarrow> projected_change list \<Rightarrow> usage_projection" where
  "activeCountProjection rows changes =
     (let activeIds = uniqueIds (map pc_id (filter (\<lambda>c. \<not> pc_deleted c) changes));
          deletedIds = uniqueIds (map pc_id (filter pc_deleted changes));
          current = int (length rows);
          alreadyActive = countActiveRecordIds rows activeIds;
          activeDeletes = countActiveRecordIds rows deletedIds
      in \<lparr>up_current = current,
          up_projected = max 0 (current + int (length activeIds) - alreadyActive - activeDeletes)\<rparr>)"

definition projectedActiveBytes :: "active_row list \<Rightarrow> projected_change list \<Rightarrow> usage_projection" where
  "projectedActiveBytes rows changes =
     (let current = sum_list (map a_bytes rows);
          replacedOrDeleted = sumActiveRecordIdsBytes rows (uniqueIds (map pc_id changes));
          incoming = sum_list (map pc_bytes (filter (\<lambda>c. \<not> pc_deleted c) changes))
      in \<lparr>up_current = current, up_projected = max 0 (current - replacedOrDeleted + incoming)\<rparr>)"

definition auxiliaryStorageBytes :: "server \<Rightarrow> string \<Rightarrow> int" where
  "auxiliaryStorageBytes s owner =
     sum_list (map (\<lambda>v. 512 + strBytes (n_title (nv_note v)) + strBytes (n_body (nv_note v))
         + strBytes (json_string_array (n_notebookIds (nv_note v))) + strBytes (n_deviceId (nv_note v)))
       (filter (\<lambda>v. nv_owner v = owner) (s_noteVersions s)))
     + sum_list (map (\<lambda>v. 512 + strBytes (nb_name (nbv_notebook v)) + strBytes (nb_deviceId (nbv_notebook v)))
       (filter (\<lambda>v. nbv_owner v = owner) (s_notebookVersions s)))
     + sum_list (map (\<lambda>r. 256 + strBytes (d_id (dr_device r)) + strBytes (d_name (dr_device r)))
       (filter (\<lambda>r. dr_owner r = owner) (s_devices s)))
     + sum_list (map (\<lambda>c. 128 + strBytes (ch_entityId c))
       (filter (\<lambda>c. ch_owner c = owner) (s_changes s)))
     + sum_list (map (\<lambda>t. 256 + strBytes (t_entityId t) + strBytes (t_deviceId t))
       (filter (\<lambda>t. t_owner t = owner) (s_tombstones s)))
     + max_or_zero (map (\<lambda>u. textBytes (u_profileImage u))
       (filter (\<lambda>u. u_username u = owner) (s_users s)))
     + sum_list (map noteRowBytes
       (filter (\<lambda>r. nr_owner r = owner \<and> n_deletedAt (nr_note r) \<noteq> None) (s_notes s)))
     + sum_list (map notebookRowBytes
       (filter (\<lambda>r. nbr_owner r = owner \<and> nb_deletedAt (nbr_notebook r) \<noteq> None) (s_notebooks s)))"

definition projectedDeviceCount :: "server \<Rightarrow> string \<Rightarrow> string \<Rightarrow> usage_projection" where
  "projectedDeviceCount s owner deviceId =
     (let current = int (length (filter (\<lambda>r. dr_owner r = owner) (s_devices s)));
          existing = int (length (filter (\<lambda>r. dr_owner r = owner \<and> d_id (dr_device r) = deviceId) (s_devices s)))
      in \<lparr>up_current = current, up_projected = current + (if existing \<noteq> 0 then 0 else 1)\<rparr>)"

definition incomingAuxiliaryBytes :: "push_request \<Rightarrow> string \<Rightarrow> int" where
  "incomingAuxiliaryBytes req owner =
     (let noteBytes = sum_list (map (\<lambda>c. noteStorageBytes (c_record c) owner) (pr_notes req));
          notebookBytes = sum_list (map (\<lambda>c. notebookStorageBytes (c_record c) owner) (pr_notebooks req));
          deviceBytes = 256 + strBytes (d_id (pr_device req)) + strBytes (d_name (pr_device req))
      in deviceBytes + 2 * (noteBytes + notebookBytes)
         + 128 * (int (length (pr_notes req)) + int (length (pr_notebooks req))))"

section \<open>The decision\<close>

definition perUserLimits :: "record_limit_config \<Rightarrow> int \<Rightarrow> per_user_limits" where
  "perUserLimits config users =
     (let usableBytes = fl (rc_storageBudgetBytes config * rc_safetyRatio config);
          perUserBytes = fl (usableBytes / of_int (max 1 users));
          maxNoteBytes = max 1 (floor (fl (perUserBytes * NOTE_BUDGET_SHARE)));
          maxNotebookBytes = max 1 (floor (fl (perUserBytes * NOTEBOOK_BUDGET_SHARE)))
      in \<lparr>pu_maxNotes = max 1 (floor (fl (of_int maxNoteBytes / rc_estimatedNoteBytes config))),
          pu_maxNotebooks = max 1 (floor (fl (of_int maxNotebookBytes / rc_estimatedNotebookBytes config))),
          pu_maxNoteBytes = maxNoteBytes,
          pu_maxNotebookBytes = maxNotebookBytes,
          pu_maxTotalBytes = max 1 (floor perUserBytes)\<rparr>)"

text \<open>
  \<open>changesAreGuaranteedActiveDeletes\<close>: every change deletes a row that is active at exactly the base
  version of the change. The rows with \<open>deleted_at === null\<close> are the active ones.
\<close>

definition changesAreGuaranteedActiveDeletes :: "active_row list \<Rightarrow> projected_change list \<Rightarrow> bool" where
  "changesAreGuaranteedActiveDeletes rows changes =
     (if changes = [] then True
      else if \<exists>c \<in> set changes. \<not> pc_deleted c then False
      else let ids = uniqueIds (map pc_id changes)
           in if length ids \<noteq> length changes then False
              else let m = fold (\<lambda>r. map_set (a_id r) (a_version r))
                             (filter (\<lambda>r. a_id r \<in> set ids) rows) []
                   in \<forall>c \<in> set changes. map_of m (pc_id c) = Some (pc_baseVersion c))"

definition usageAllowed :: "(usage_projection \<times> int) list \<Rightarrow> bool" where
  "usageAllowed usages \<longleftrightarrow> (\<forall>(u, limit) \<in> set usages. up_projected u \<le> limit)"

definition activeUserCount :: "server \<Rightarrow> int" where
  "activeUserCount s = max 1 (int (length (s_users s)))"

definition limit_error_text :: "bool \<Rightarrow> per_user_limits \<Rightarrow> int \<Rightarrow> string" where
  "limit_error_text deviceLimitReached limits users =
     (if deviceLimitReached
      then ''This account is limited to '' @ int_to_string (devicesPerAccount SYNC_LIMITS)
           @ '' registered devices.''
      else ''Server storage limit estimate reached for this account. The current shared Turso budget allows about ''
           @ int_to_string (pu_maxNotes limits) @ '' active '' @ plural (pu_maxNotes limits) ''note'' @ '' and ''
           @ int_to_string (pu_maxNotebooks limits) @ '' active '' @ plural (pu_maxNotebooks limits) ''notebook''
           @ '' per user with '' @ int_to_string users @ '' active '' @ plural users ''user'' @ ''.'')"

definition checkRecordLimits ::
  "server \<Rightarrow> string \<Rightarrow> push_request \<Rightarrow> record_limit_config \<Rightarrow> record_limit_result option" where
  "checkRecordLimits s owner req config =
     (let deviceCount = projectedDeviceCount s owner (d_id (pr_device req));
          maxDevices = devicesPerAccount SYNC_LIMITS
      in if \<not> rc_enabled config \<and> up_projected deviceCount \<le> maxDevices then None
         else
           let users = activeUserCount s;
               noteChanges = map (note_change owner) (pr_notes req);
               notebookChanges = map (notebook_change owner) (pr_notebooks req);
               activeNotes = active_notes s owner;
               activeNotebooks = active_notebooks s owner;
               noteCount = activeCountProjection activeNotes noteChanges;
               notebookCount = activeCountProjection activeNotebooks notebookChanges;
               noteBytes = projectedActiveBytes activeNotes noteChanges;
               notebookBytes = projectedActiveBytes activeNotebooks notebookChanges;
               auxiliaryBytes = auxiliaryStorageBytes s owner;
               limits = perUserLimits config users;
               totalBytes = \<lparr>up_current = up_current noteBytes + up_current notebookBytes + auxiliaryBytes,
                             up_projected = up_projected noteBytes + up_projected notebookBytes
                               + auxiliaryBytes + incomingAuxiliaryBytes req owner\<rparr>;
               activeUsages = [(noteCount, pu_maxNotes limits), (notebookCount, pu_maxNotebooks limits),
                               (noteBytes, pu_maxNoteBytes limits), (notebookBytes, pu_maxNotebookBytes limits)];
               usages = activeUsages @ [(deviceCount, maxDevices), (totalBytes, pu_maxTotalBytes limits)];
               reducesActiveStorage =
                 ((\<forall>(u, l) \<in> set activeUsages. up_projected u \<le> up_current u) \<and>
                  (\<exists>(u, l) \<in> set activeUsages. up_projected u < up_current u));
               guaranteedActiveDeletes =
                 (reducesActiveStorage \<and> (pr_notes req \<noteq> [] \<or> pr_notebooks req \<noteq> []) \<and>
                  changesAreGuaranteedActiveDeletes activeNotes noteChanges \<and>
                  changesAreGuaranteedActiveDeletes activeNotebooks notebookChanges)
           in if usageAllowed usages \<or> (guaranteedActiveDeletes \<and> up_projected deviceCount \<le> maxDevices)
              then None
              else Some \<lparr>rl_error = limit_error_text (maxDevices < up_projected deviceCount) limits users,
                         rl_activeUsers = users,
                         rl_limits = limits,
                         rl_estimatedNotes = up_projected noteCount,
                         rl_estimatedNotebooks = up_projected notebookCount,
                         rl_projectedNoteBytes = up_projected noteBytes,
                         rl_projectedNotebookBytes = up_projected notebookBytes,
                         rl_projectedDevices = up_projected deviceCount,
                         rl_projectedTotalBytes = up_projected totalBytes\<rparr>)"

end
