(* ===== verification/ServerPush.thy ===== *)
theory ServerPush
  imports RecordLimits
begin

text \<open>
  \<open>pushChanges\<close> of \<open>apps/web/src/lib/server/repository.ts\<close>: the decision for every pushed notebook
  and note (accept, accept as unchanged, conflict), and the writes of the accepted ones. The
  transaction is the function itself: an error returns no state, as the rollback would.
\<close>

section \<open>What the generic helpers use of a record\<close>

text \<open>
  The helpers with a type parameter \<open>T extends Note | Notebook\<close> take the fields they read as a
  record of selectors.
\<close>

record 'r entity_ops =
  eo_type :: entity_type
  eo_id :: "'r \<Rightarrow> string"
  eo_deviceId :: "'r \<Rightarrow> string"
  eo_updatedAt :: "'r \<Rightarrow> string"
  eo_version :: "'r \<Rightarrow> int"
  eo_deletedAt :: "'r \<Rightarrow> string option"
  eo_preview :: "'r \<Rightarrow> string"

definition note_ops :: "Note entity_ops" where
  "note_ops = \<lparr>eo_type = Note_entity, eo_id = n_id, eo_deviceId = n_deviceId,
     eo_updatedAt = n_updatedAt, eo_version = n_version, eo_deletedAt = n_deletedAt,
     eo_preview = previewNote\<rparr>"

definition notebook_ops :: "Notebook entity_ops" where
  "notebook_ops = \<lparr>eo_type = Notebook_entity, eo_id = nb_id, eo_deviceId = nb_deviceId,
     eo_updatedAt = nb_updatedAt, eo_version = nb_version, eo_deletedAt = nb_deletedAt,
     eo_preview = previewNotebook\<rparr>"

record push_options =
  po_allowTombstoneOverwrite :: bool
  po_preserveRecordVersions :: bool
  po_preserveNewRecordVersions :: bool
  po_enforceRecordLimits :: bool
  po_recordLimitConfig :: record_limit_config

abbreviation po_preserve :: "push_options \<Rightarrow> bool" where
  "po_preserve opts \<equiv> po_preserveRecordVersions opts \<or> po_preserveNewRecordVersions opts"

section \<open>Duplicate notebook names\<close>

text \<open>The regular expression \<open>/^enc:v[34]:/\<close>.\<close>

definition isEncryptedNotebookName :: "string \<Rightarrow> bool" where
  "isEncryptedNotebookName name \<longleftrightarrow> take 7 name = ''enc:v3:'' \<or> take 7 name = ''enc:v4:''"

definition notebookDuplicateNameKey :: "string \<Rightarrow> string" where
  "notebookDuplicateNameKey name = to_lower (trim name)"

definition hash_key :: "string \<Rightarrow> string" where
  "hash_key h = ''hash:'' @ h"

definition name_key :: "string \<Rightarrow> string" where
  "name_key n = ''name:'' @ n"

definition notebookDuplicateKeys :: "Notebook \<Rightarrow> string list" where
  "notebookDuplicateKeys nb =
     (let h = (case nb_nameHash nb of None \<Rightarrow> [] | Some x \<Rightarrow> trim x)
      in (if truthy h then [hash_key h] else [])
         @ (if \<not> isEncryptedNotebookName (nb_name nb)
            then [name_key (notebookDuplicateNameKey (nb_name nb))] else []))"

text \<open>SQLite's \<open>lower(trim(name))\<close>: \<open>trim\<close> strips spaces only, \<open>lower\<close> folds ASCII only.\<close>

definition sql_space :: "char \<Rightarrow> bool" where
  "sql_space c \<longleftrightarrow> c = CHR '' ''"

definition sql_lower_trim :: "string \<Rightarrow> string" where
  "sql_lower_trim s =
     map nocase_char (rev (dropWhile sql_space (rev (dropWhile sql_space s))))"

definition addNotebookDuplicateCandidate ::
  "string \<Rightarrow> Notebook \<Rightarrow> (string \<times> Notebook list) list \<Rightarrow> (string \<times> Notebook list) list" where
  "addNotebookDuplicateCandidate key nb candidates =
     (case map_of candidates key of
        Some existing \<Rightarrow> map_set key (existing @ [nb]) candidates
      | None \<Rightarrow> map_set key [nb] candidates)"

definition active_notebook_rows :: "server \<Rightarrow> string \<Rightarrow> notebook_row list" where
  "active_notebook_rows s owner =
     filter (\<lambda>r. nbr_owner r = owner \<and> nb_deletedAt (nbr_notebook r) = None) (s_notebooks s)"

definition getActiveNotebookDuplicateCandidates ::
  "server \<Rightarrow> string \<Rightarrow> Notebook list \<Rightarrow> (string \<times> Notebook list) list" where
  "getActiveNotebookDuplicateCandidates s owner notebooks =
     (let activeNotebooks = filter (\<lambda>nb. \<not> truthy_opt (nb_deletedAt nb)) notebooks;
          nameHashes = dedupe (filter truthy (map (\<lambda>nb. case nb_nameHash nb of None \<Rightarrow> [] | Some h \<Rightarrow> trim h)
                         activeNotebooks));
          names = dedupe (filter truthy (map (\<lambda>nb. notebookDuplicateNameKey (nb_name nb))
                    (filter (\<lambda>nb. \<not> isEncryptedNotebookName (nb_name nb)) activeNotebooks)));
          byHash = fold (\<lambda>chunk. fold (\<lambda>row cs.
                let nb = toNotebook row
                in (case nb_nameHash nb of
                      None \<Rightarrow> cs
                    | Some h \<Rightarrow> if truthy h then addNotebookDuplicateCandidate (hash_key h) nb cs else cs))
              (filter (\<lambda>r. \<exists>h \<in> set chunk. nb_nameHash (nbr_notebook r) = Some h) (active_notebook_rows s owner)))
            (chunks 200 nameHashes) []
      in fold (\<lambda>chunk. fold (\<lambda>row.
                let nb = toNotebook row
                in addNotebookDuplicateCandidate (name_key (notebookDuplicateNameKey (nb_name nb))) nb)
              (filter (\<lambda>r. sql_lower_trim (nb_name (nbr_notebook r)) \<in> set chunk) (active_notebook_rows s owner)))
           (chunks 200 names) byHash)"

fun firstNotebookDuplicate_in ::
  "string list \<Rightarrow> Notebook \<Rightarrow> (string \<times> Notebook list) list \<Rightarrow> Notebook option" where
  "firstNotebookDuplicate_in [] nb candidates = None"
| "firstNotebookDuplicate_in (key # keys) nb candidates =
     (let matches = (case map_of candidates key of None \<Rightarrow> [] | Some ms \<Rightarrow> ms)
      in (case find (\<lambda>c. nb_id c \<noteq> nb_id nb) matches of
            Some duplicate \<Rightarrow> Some duplicate
          | None \<Rightarrow> firstNotebookDuplicate_in keys nb candidates))"

definition firstNotebookDuplicate :: "Notebook \<Rightarrow> (string \<times> Notebook list) list \<Rightarrow> Notebook option" where
  "firstNotebookDuplicate nb candidates =
     firstNotebookDuplicate_in (notebookDuplicateKeys nb) nb candidates"

fun firstAcceptedNotebookDuplicate_in ::
  "string list \<Rightarrow> (string \<times> Notebook) list \<Rightarrow> Notebook \<Rightarrow> Notebook option" where
  "firstAcceptedNotebookDuplicate_in [] notebooks nb = None"
| "firstAcceptedNotebookDuplicate_in (key # keys) notebooks nb =
     (case map_of notebooks key of
        Some duplicate \<Rightarrow> if nb_id duplicate \<noteq> nb_id nb then Some duplicate
                          else firstAcceptedNotebookDuplicate_in keys notebooks nb
      | None \<Rightarrow> firstAcceptedNotebookDuplicate_in keys notebooks nb)"

definition firstAcceptedNotebookDuplicate :: "(string \<times> Notebook) list \<Rightarrow> Notebook \<Rightarrow> Notebook option" where
  "firstAcceptedNotebookDuplicate notebooks nb =
     firstAcceptedNotebookDuplicate_in (notebookDuplicateKeys nb) notebooks nb"

definition rememberAcceptedNotebook :: "Notebook \<Rightarrow> (string \<times> Notebook) list \<Rightarrow> (string \<times> Notebook) list" where
  "rememberAcceptedNotebook nb notebooks =
     fold (\<lambda>key. map_set key nb) (notebookDuplicateKeys nb) notebooks"

section \<open>Uniqueness of the pushed identifiers\<close>

fun assertUniqueEntityIds_from :: "entity_type \<Rightarrow> string set \<Rightarrow> string list \<Rightarrow> server_error + unit" where
  "assertUniqueEntityIds_from ty seen [] = Inr ()"
| "assertUniqueEntityIds_from ty seen (i # ids) =
     (if i \<in> seen then Inl (Duplicate_entity_id ty)
      else assertUniqueEntityIds_from ty (insert i seen) ids)"

definition assertUniqueEntityIds :: "entity_type \<Rightarrow> string list \<Rightarrow> server_error + unit" where
  "assertUniqueEntityIds ty ids = assertUniqueEntityIds_from ty {} ids"

definition assertUniquePushChangeIds :: "push_request \<Rightarrow> server_error + unit" where
  "assertUniquePushChangeIds req =
     and_then (assertUniqueEntityIds Notebook_entity (map (nb_id \<circ> c_record) (pr_notebooks req)))
       (\<lambda>_. assertUniqueEntityIds Note_entity (map (n_id \<circ> c_record) (pr_notes req)))"

section \<open>Writing\<close>

definition clearEntityTombstonesByIds :: "string \<Rightarrow> entity_type \<Rightarrow> string list \<Rightarrow> server \<Rightarrow> server" where
  "clearEntityTombstonesByIds owner ty ids s =
     s\<lparr>s_tombstones := fold (\<lambda>chunk. fold (\<lambda>i. tdel tombstone_key (owner, ty, i)) chunk)
         (chunks 200 (uniqueEntityIds ids)) (s_tombstones s)\<rparr>"

record pending_change =
  pg_entityType :: entity_type
  pg_entityId :: string
  pg_operation :: entity_operation
  pg_updatedAt :: string

definition recordEntityChanges :: "pending_change list \<Rightarrow> string \<Rightarrow> server \<Rightarrow> server" where
  "recordEntityChanges changes owner s =
     fold (\<lambda>chunk. fold (\<lambda>c. insert_change owner (pg_entityType c) (pg_entityId c) (pg_operation c)
             (pg_updatedAt c)) chunk) (chunks 200 changes) s"

text \<open>
  The \<open>retention_started_at\<close> column of an upserted row: cleared when the record is not in the trash,
  kept when it already was, and otherwise the time of this write.
\<close>

definition retention_after :: "string option \<Rightarrow> string \<Rightarrow> (string option \<times> string option) option \<Rightarrow> string option" where
  "retention_after trashedAt retentionTime existing =
     (let excluded = (if truthy_opt trashedAt then Some retentionTime else None)
      in case existing of
           None \<Rightarrow> excluded
         | Some (oldTrashedAt, oldRetention) \<Rightarrow>
             if trashedAt = None then None
             else if oldTrashedAt = None \<or> oldRetention = None then excluded
             else oldRetention)"

definition upsert_note_row :: "string \<Rightarrow> string \<Rightarrow> Note \<Rightarrow> server \<Rightarrow> server_error + server" where
  "upsert_note_row owner retentionTime n s =
     (let ids = noteNotebookIds n;
          row = \<lparr>nr_owner = owner,
                 nr_note = n\<lparr>n_notebookIds := ids, n_notebookId := first_or_null ids, n_syncStatus := Synced\<rparr>,
                 nr_retention = retention_after (n_trashedAt n) retentionTime
                   (map_option (\<lambda>r. (n_trashedAt (nr_note r), nr_retention r)) (get_note_row s owner (n_id n)))\<rparr>
      in case first_or_null ids of
           Some nb \<Rightarrow> if get_notebook_row s owner nb = None then Inl Foreign_key_violation
                      else Inr (s\<lparr>s_notes := tput note_key row (s_notes s)\<rparr>)
         | None \<Rightarrow> Inr (s\<lparr>s_notes := tput note_key row (s_notes s)\<rparr>))"

definition note_upsert_change :: "Note \<Rightarrow> pending_change" where
  "note_upsert_change n = \<lparr>pg_entityType = Note_entity, pg_entityId = n_id n,
     pg_operation = Upsert_op, pg_updatedAt = n_updatedAt n\<rparr>"

definition putNotes :: "Note list \<Rightarrow> string \<Rightarrow> string \<Rightarrow> server \<Rightarrow> server_error + server" where
  "putNotes ns owner retentionTime s =
     (if ns = [] then Inr s
      else and_then
        (fold_err (\<lambda>chunk. fold_err (upsert_note_row owner retentionTime) chunk) (chunks 100 ns) s)
        (\<lambda>s1. Inr (recordEntityChanges (map note_upsert_change ns) owner
                    (clearEntityTombstonesByIds owner Note_entity (map n_id ns) s1))))"

definition upsert_notebook_row :: "string \<Rightarrow> string \<Rightarrow> Notebook \<Rightarrow> server \<Rightarrow> server" where
  "upsert_notebook_row owner retentionTime nb s =
     (let row = \<lparr>nbr_owner = owner,
                 nbr_notebook = nb\<lparr>nb_syncStatus := Synced\<rparr>,
                 nbr_retention = retention_after (nb_deletedAt nb) retentionTime
                   (map_option (\<lambda>r. (nb_deletedAt (nbr_notebook r), nbr_retention r))
                     (get_notebook_row s owner (nb_id nb)))\<rparr>
      in s\<lparr>s_notebooks := tput notebook_key row (s_notebooks s)\<rparr>)"

definition notebook_upsert_change :: "Notebook \<Rightarrow> pending_change" where
  "notebook_upsert_change nb = \<lparr>pg_entityType = Notebook_entity, pg_entityId = nb_id nb,
     pg_operation = Upsert_op, pg_updatedAt = nb_updatedAt nb\<rparr>"

definition putNotebooks :: "Notebook list \<Rightarrow> string \<Rightarrow> string \<Rightarrow> server \<Rightarrow> server" where
  "putNotebooks nbs owner retentionTime s =
     (if nbs = [] then s
      else recordEntityChanges (map notebook_upsert_change nbs) owner
             (clearEntityTombstonesByIds owner Notebook_entity (map nb_id nbs)
               (fold (\<lambda>chunk. fold (upsert_notebook_row owner retentionTime) chunk) (chunks 100 nbs) s)))"

text \<open>Version snapshots: \<open>saveNoteSnapshots\<close> reads the clock once for all of them.\<close>

definition stored_note :: "Note \<Rightarrow> Note" where
  "stored_note n = (let ids = noteNotebookIds n in n\<lparr>n_notebookIds := ids, n_notebookId := first_or_null ids\<rparr>)"

definition saveNoteSnapshots :: "env \<Rightarrow> (Note \<times> snapshot_reason) list \<Rightarrow> string \<Rightarrow> server \<Rightarrow> server" where
  "saveNoteSnapshots e snapshots owner s =
     (let (savedAt, s1) = read_clock e s
      in fold (\<lambda>chunk s. s\<lparr>s_noteVersions := s_noteVersions s @
             map (\<lambda>(n, reason). \<lparr>nv_owner = owner, nv_note = stored_note n, nv_savedAt = savedAt,
                                 nv_reason = reason\<rparr>) chunk\<rparr>) (chunks 100 snapshots) s1)"

definition saveNotebookSnapshots ::
  "env \<Rightarrow> (Notebook \<times> snapshot_reason) list \<Rightarrow> string \<Rightarrow> server \<Rightarrow> server" where
  "saveNotebookSnapshots e snapshots owner s =
     (let (savedAt, s1) = read_clock e s
      in fold (\<lambda>chunk s. s\<lparr>s_notebookVersions := s_notebookVersions s @
             map (\<lambda>(nb, reason). \<lparr>nbv_owner = owner, nbv_notebook = nb, nbv_savedAt = savedAt,
                                  nbv_reason = reason\<rparr>) chunk\<rparr>) (chunks 100 snapshots) s1)"

section \<open>Answers\<close>

definition accepted :: "'r entity_ops \<Rightarrow> 'r \<Rightarrow> accepted_change" where
  "accepted ops r = \<lparr>ac_entityType = eo_type ops, ac_id = eo_id ops r, ac_version = eo_version ops r,
     ac_updatedAt = eo_updatedAt ops r\<rparr>"

definition conflictVersion ::
  "'r entity_ops \<Rightarrow> server \<Rightarrow> conflict_source \<Rightarrow> 'r \<Rightarrow> string \<Rightarrow> string option \<Rightarrow> 'r conflict_version" where
  "conflictVersion ops s source r owner deviceName =
     \<lparr>cv_source = source, cv_deviceId = eo_deviceId ops r,
      cv_deviceName = (case deviceName of Some d \<Rightarrow> d | None \<Rightarrow> getDeviceName s (eo_deviceId ops r) owner),
      cv_updatedAt = eo_updatedAt ops r, cv_version = eo_version ops r,
      cv_previewText = eo_preview ops r, cv_record = r\<rparr>"

definition makeConflict ::
  "'r entity_ops \<Rightarrow> server \<Rightarrow> string \<Rightarrow> 'r \<Rightarrow> 'r \<Rightarrow> string \<Rightarrow> string \<Rightarrow> conflict_reason option \<Rightarrow> 'r sync_conflict" where
  "makeConflict ops s newId l remote localDeviceName owner reason =
     \<lparr>sc_id = newId, sc_entityType = eo_type ops, sc_entityId = eo_id ops l,
      sc_reason = (case reason of Some r \<Rightarrow> r
                   | None \<Rightarrow> if truthy_opt (eo_deletedAt ops remote) then Deleted_remotely else Remote_changed),
      sc_local = conflictVersion ops s Local_source l owner (Some localDeviceName),
      sc_remote = conflictVersion ops s Remote_source remote owner None\<rparr>"

definition deletedRemoteNote :: "Note \<Rightarrow> entity_tombstone \<Rightarrow> Note" where
  "deletedRemoteNote l t = l\<lparr>n_deletedAt := Some (t_deletedAt t), n_updatedAt := t_deletedAt t,
     n_deviceId := t_deviceId t, n_version := t_version t, n_syncStatus := Synced\<rparr>"

definition deletedRemoteNotebook :: "Notebook \<Rightarrow> entity_tombstone \<Rightarrow> Notebook" where
  "deletedRemoteNotebook l t = l\<lparr>nb_deletedAt := Some (t_deletedAt t), nb_updatedAt := t_deletedAt t,
     nb_deviceId := t_deviceId t, nb_version := t_version t, nb_syncStatus := Synced\<rparr>"

definition tombstoneOverwriteAllowed ::
  "env \<Rightarrow> 'r entity_ops \<Rightarrow> 'r \<Rightarrow> entity_tombstone \<Rightarrow> int \<Rightarrow> push_options \<Rightarrow> bool" where
  "tombstoneOverwriteAllowed e ops r t baseVersion opts =
     (if baseVersion = t_version t then True
      else if \<not> po_allowTombstoneOverwrite opts then False
      else
        let byVersion =
              (if eo_version ops r \<noteq> t_version t then eo_version ops r > t_version t
               else locale_compare e (eo_deviceId ops r) (t_deviceId t) \<ge> 0)
        in case (date_parse e (eo_updatedAt ops r), date_parse e (t_deletedAt t)) of
             (Some recordTime, Some tombstoneTime) \<Rightarrow>
               if recordTime \<noteq> tombstoneTime then recordTime > tombstoneTime else byVersion
           | _ \<Rightarrow> byVersion)"

definition acceptedNewRecordVersion :: "int \<Rightarrow> push_options \<Rightarrow> int" where
  "acceptedNewRecordVersion version opts = (if po_preserve opts then max version 1 else 1)"

text \<open>The version of an accepted record that is written: the nested conditional of \<open>pushChanges\<close>.\<close>

definition accepted_version :: "push_options \<Rightarrow> int \<Rightarrow> int option \<Rightarrow> entity_tombstone option \<Rightarrow> int" where
  "accepted_version opts version remoteVersion tombstone =
     (case remoteVersion of
        Some rv \<Rightarrow> if po_preserve opts then version else js_add1 rv
      | None \<Rightarrow> (case tombstone of
                   Some t \<Rightarrow> nextVersionAfter (t_version t)
                 | None \<Rightarrow> acceptedNewRecordVersion version opts))"

definition noteNotebookRefsChanged :: "Note \<Rightarrow> Note \<Rightarrow> bool" where
  "noteNotebookRefsChanged original normalized \<longleftrightarrow>
     n_notebookId original \<noteq> n_notebookId normalized \<or>
     n_notebookIds original \<noteq> n_notebookIds normalized"

definition noteWithSyncableNotebookRefsFromMap :: "Note \<Rightarrow> (string \<times> Notebook) list \<Rightarrow> Note \<times> bool" where
  "noteWithSyncableNotebookRefsFromMap n notebooks =
     (let ids = noteNotebookIds n;
          syncableIds = filter (\<lambda>i. case map_of notebooks i of
                                      Some nb \<Rightarrow> \<not> truthy_opt (nb_deletedAt nb)
                                    | None \<Rightarrow> False) ids;
          normalized = n\<lparr>n_notebookIds := syncableIds, n_notebookId := first_or_null syncableIds\<rparr>
      in (normalized, noteNotebookRefsChanged n normalized))"

section \<open>Deciding one change\<close>

text \<open>
  What the loop bodies decide for one change: reject it, with the two sides of the conflict (both
  are also saved as snapshots) and an explicit reason where the code gives one; or accept it, with a
  flag that is false when the stored record is kept as it is (\<open>accepted... = remote\<close>).
\<close>

datatype 'r decision = Reject 'r 'r "conflict_reason option" | Accept 'r bool

definition decideNotebook ::
  "env \<Rightarrow> push_options \<Rightarrow> (string \<times> Notebook) list \<Rightarrow> (string \<times> entity_tombstone) list
   \<Rightarrow> (string \<times> Notebook list) list \<Rightarrow> (string \<times> Notebook) list \<Rightarrow> string list
   \<Rightarrow> Notebook entity_change \<Rightarrow> Notebook decision" where
  "decideNotebook e opts remoteNotebooks tombstones candidates acceptedActive acceptedDeleted change =
     (let nb = c_record change;
          remote = map_of remoteNotebooks (nb_id nb);
          tombstone = (case remote of Some _ \<Rightarrow> None | None \<Rightarrow> map_of tombstones (nb_id nb));
          inRequestDuplicate = firstAcceptedNotebookDuplicate acceptedActive nb;
          duplicateCandidate =
            (if truthy_opt (nb_deletedAt nb) then None
             else case inRequestDuplicate of
                    Some d \<Rightarrow> if nb_id d \<noteq> nb_id nb then Some d else firstNotebookDuplicate nb candidates
                  | None \<Rightarrow> firstNotebookDuplicate nb candidates);
          duplicate =
            (case duplicateCandidate of
               Some d \<Rightarrow> if nb_id d \<in> set acceptedDeleted then None else Some d
             | None \<Rightarrow> None)
      in case tombstone of
           Some t \<Rightarrow>
             if \<not> tombstoneOverwriteAllowed e notebook_ops nb t (c_baseVersion change) opts
             then Reject nb (deletedRemoteNotebook nb t) (Some Deleted_remotely)
             else (case duplicate of
                     Some d \<Rightarrow> Reject nb d (Some Duplicate_name)
                   | None \<Rightarrow> Accept (nb\<lparr>nb_version := accepted_version opts (nb_version nb) None (Some t),
                                       nb_syncStatus := Synced\<rparr>) True)
         | None \<Rightarrow>
             (case remote of
                Some r \<Rightarrow>
                  if shouldConflict notebooksDiffer nb_version nb (Some r) (c_baseVersion change)
                  then Reject nb r None
                  else (case duplicate of
                          Some d \<Rightarrow> Reject nb d (Some Duplicate_name)
                        | None \<Rightarrow>
                            if \<not> notebooksDiffer nb r \<and> (\<not> po_preserve opts \<or> nb_version nb = nb_version r)
                            then Accept r False
                            else Accept (nb\<lparr>nb_version := accepted_version opts (nb_version nb) (Some (nb_version r)) None,
                                          nb_syncStatus := Synced\<rparr>) True)
              | None \<Rightarrow>
                  (case duplicate of
                     Some d \<Rightarrow> Reject nb d (Some Duplicate_name)
                   | None \<Rightarrow> Accept (nb\<lparr>nb_version := accepted_version opts (nb_version nb) None None,
                                       nb_syncStatus := Synced\<rparr>) True)))"

definition decideNote ::
  "env \<Rightarrow> push_options \<Rightarrow> (string \<times> Note) list \<Rightarrow> (string \<times> entity_tombstone) list
   \<Rightarrow> (string \<times> Notebook) list \<Rightarrow> Note entity_change \<Rightarrow> Note decision" where
  "decideNote e opts remoteNotes tombstones syncableNotebooks change =
     (let n = c_record change;
          remote = map_of remoteNotes (n_id n);
          (syncable, changed) = noteWithSyncableNotebookRefsFromMap n syncableNotebooks;
          tombstone = (case remote of Some _ \<Rightarrow> None | None \<Rightarrow> map_of tombstones (n_id n))
      in case tombstone of
           Some t \<Rightarrow>
             if \<not> tombstoneOverwriteAllowed e note_ops syncable t (c_baseVersion change) opts
             then Reject n (deletedRemoteNote n t) (Some Deleted_remotely)
             else Accept (syncable\<lparr>n_version := accepted_version opts (n_version syncable) None (Some t),
                                   n_syncStatus := Synced\<rparr>) True
         | None \<Rightarrow>
             (case remote of
                Some r \<Rightarrow>
                  if shouldConflict notesDiffer n_version syncable (Some r) (c_baseVersion change)
                  then Reject syncable r None
                  else if \<not> changed \<and> \<not> notesDiffer syncable r \<and>
                          (\<not> po_preserve opts \<or> n_version syncable = n_version r)
                  then Accept r False
                  else Accept (syncable\<lparr>n_version := accepted_version opts (n_version syncable) (Some (n_version r)) None,
                                        n_syncStatus := Synced\<rparr>) True
              | None \<Rightarrow>
                  Accept (syncable\<lparr>n_version := accepted_version opts (n_version syncable) None None,
                                   n_syncStatus := Synced\<rparr>) True))"

section \<open>The loops\<close>

text \<open>
  The local variables of the two loops. \<open>pa_active\<close> and \<open>pa_deleted\<close> are
  \<open>acceptedActiveNotebooks\<close> and \<open>acceptedDeletedNotebookIds\<close>, which only the notebook loop uses.
\<close>

record 'r push_acc =
  pa_accepted :: "accepted_change list"
  pa_conflicts :: "'r sync_conflict list"
  pa_toWrite :: "'r list"
  pa_snapshots :: "('r \<times> snapshot_reason) list"
  pa_active :: "(string \<times> 'r) list"
  pa_deleted :: "string list"
  pa_fresh :: nat

definition empty_acc :: "nat \<Rightarrow> 'r push_acc" where
  "empty_acc k = \<lparr>pa_accepted = [], pa_conflicts = [], pa_toWrite = [], pa_snapshots = [],
     pa_active = [], pa_deleted = [], pa_fresh = k\<rparr>"

definition apply_decision ::
  "'r entity_ops \<Rightarrow> env \<Rightarrow> server \<Rightarrow> string \<Rightarrow> string \<Rightarrow> 'r decision \<Rightarrow> 'r push_acc \<Rightarrow> 'r push_acc" where
  "apply_decision ops e s owner deviceName d acc =
     (case d of
        Reject l r reason \<Rightarrow>
          (let (newId, k) = random_uuid e (pa_fresh acc)
           in acc\<lparr>pa_snapshots := pa_snapshots acc @ [(l, Conflict_reason), (r, Conflict_reason)],
                  pa_conflicts := pa_conflicts acc @ [makeConflict ops s newId l r deviceName owner reason],
                  pa_fresh := k\<rparr>)
      | Accept r write \<Rightarrow>
          acc\<lparr>pa_accepted := pa_accepted acc @ [accepted ops r],
              pa_toWrite := pa_toWrite acc @ (if write then [r] else []),
              pa_snapshots := pa_snapshots acc @ (if write then [(r, Push_reason)] else [])\<rparr>)"

definition remember_notebook :: "Notebook decision \<Rightarrow> Notebook push_acc \<Rightarrow> Notebook push_acc" where
  "remember_notebook d acc =
     (case d of
        Reject _ _ _ \<Rightarrow> acc
      | Accept nb _ \<Rightarrow>
          if truthy_opt (nb_deletedAt nb) then acc\<lparr>pa_deleted := pa_deleted acc @ [nb_id nb]\<rparr>
          else acc\<lparr>pa_active := rememberAcceptedNotebook nb (pa_active acc)\<rparr>)"

definition pushNotebookChange ::
  "env \<Rightarrow> push_options \<Rightarrow> server \<Rightarrow> string \<Rightarrow> string \<Rightarrow> (string \<times> Notebook) list
   \<Rightarrow> (string \<times> entity_tombstone) list \<Rightarrow> (string \<times> Notebook list) list
   \<Rightarrow> Notebook entity_change \<Rightarrow> Notebook push_acc \<Rightarrow> Notebook push_acc" where
  "pushNotebookChange e opts s owner deviceName remotes tombstones candidates change acc =
     (let d = decideNotebook e opts remotes tombstones candidates (pa_active acc) (pa_deleted acc) change
      in remember_notebook d (apply_decision notebook_ops e s owner deviceName d acc))"

definition pushNoteChange ::
  "env \<Rightarrow> push_options \<Rightarrow> server \<Rightarrow> string \<Rightarrow> string \<Rightarrow> (string \<times> Note) list
   \<Rightarrow> (string \<times> entity_tombstone) list \<Rightarrow> (string \<times> Notebook) list
   \<Rightarrow> Note entity_change \<Rightarrow> Note push_acc \<Rightarrow> Note push_acc" where
  "pushNoteChange e opts s owner deviceName remotes tombstones syncableNotebooks change acc =
     apply_decision note_ops e s owner deviceName
       (decideNote e opts remotes tombstones syncableNotebooks change) acc"

definition pushNotebooks ::
  "env \<Rightarrow> push_request \<Rightarrow> string \<Rightarrow> push_options \<Rightarrow> server \<Rightarrow> Notebook push_acc" where
  "pushNotebooks e req owner opts s =
     (let ids = map (nb_id \<circ> c_record) (pr_notebooks req);
          remotes = getNotebooksByIds s ids owner;
          tombstones = getEntityTombstonesByIds s owner Notebook_entity
                         (filter (\<lambda>i. map_of remotes i = None) ids);
          candidates = getActiveNotebookDuplicateCandidates s owner (map c_record (pr_notebooks req))
      in fold (pushNotebookChange e opts s owner (d_name (pr_device req)) remotes tombstones candidates)
           (pr_notebooks req) (empty_acc (s_fresh s)))"

definition pushNotes ::
  "env \<Rightarrow> push_request \<Rightarrow> string \<Rightarrow> push_options \<Rightarrow> Notebook list \<Rightarrow> server \<Rightarrow> Note push_acc" where
  "pushNotes e req owner opts notebooksToWrite s =
     (let ids = map (n_id \<circ> c_record) (pr_notes req);
          remotes = getNotesByIds s ids owner;
          tombstones = getEntityTombstonesByIds s owner Note_entity
                         (filter (\<lambda>i. map_of remotes i = None) ids);
          syncableIds = concat (map (noteNotebookIds \<circ> c_record) (pr_notes req));
          syncable = fold (\<lambda>nb. map_set (nb_id nb) nb) notebooksToWrite
                       (getNotebooksByIds s syncableIds owner)
      in fold (pushNoteChange e opts s owner (d_name (pr_device req)) remotes tombstones syncable)
           (pr_notes req) (empty_acc (s_fresh s)))"

section \<open>The whole push\<close>

definition pushNotebookPhase ::
  "env \<Rightarrow> push_request \<Rightarrow> string \<Rightarrow> push_options \<Rightarrow> string \<Rightarrow> server \<Rightarrow> Notebook push_acc \<times> server" where
  "pushNotebookPhase e req owner opts now s =
     (let acc = pushNotebooks e req owner opts s;
          s1 = putNotebooks (pa_toWrite acc) owner now (s\<lparr>s_fresh := pa_fresh acc\<rparr>)
      in (acc, saveNotebookSnapshots e (pa_snapshots acc) owner s1))"

definition pushNotePhase ::
  "env \<Rightarrow> push_request \<Rightarrow> string \<Rightarrow> push_options \<Rightarrow> string \<Rightarrow> Notebook list \<Rightarrow> server
   \<Rightarrow> server_error + Note push_acc \<times> server" where
  "pushNotePhase e req owner opts now notebooksToWrite s =
     (let acc = pushNotes e req owner opts notebooksToWrite s
      in and_then (putNotes (pa_toWrite acc) owner now (s\<lparr>s_fresh := pa_fresh acc\<rparr>))
           (\<lambda>s1. Inr (acc, saveNoteSnapshots e (pa_snapshots acc) owner s1)))"

definition limit_error :: "server \<Rightarrow> string \<Rightarrow> push_request \<Rightarrow> push_options \<Rightarrow> record_limit_result option" where
  "limit_error s owner req opts =
     (if po_enforceRecordLimits opts then checkRecordLimits s owner req (po_recordLimitConfig opts)
      else None)"

definition pushChanges ::
  "env \<Rightarrow> push_request \<Rightarrow> string \<Rightarrow> push_options \<Rightarrow> server \<Rightarrow> server_error + push_response \<times> server" where
  "pushChanges e req owner opts s =
     and_then (assertUniquePushChangeIds req) (\<lambda>_.
       let (now, s0) = read_clock e s
       in case limit_error s0 owner req opts of
            Some result \<Rightarrow> Inl (Record_limit_exceeded (rl_error result))
          | None \<Rightarrow>
              and_then (upsertDevice (pr_device req) now owner e s0) (\<lambda>s1.
                let (nbAcc, s2) = pushNotebookPhase e req owner opts now s1
                in and_then (pushNotePhase e req owner opts now (pa_toWrite nbAcc) s2) (\<lambda>(nAcc, s3).
                     Inr (\<lparr>ps_serverTime = now,
                           ps_accepted = pa_accepted nbAcc @ pa_accepted nAcc,
                           ps_conflicts = map NotebookConflict (pa_conflicts nbAcc)
                             @ map NoteConflict (pa_conflicts nAcc)\<rparr>, s3))))"

end
