(* ===== verification/ServerInv.thy ===== *)
theory ServerInv
  imports ServerPush
begin

text \<open>
  The invariant of the server database and the facts about the row-level operations that the
  properties of push, pull, cleanup and mirroring share: what each operation leaves unchanged
  (frame lemmas, in \<open>frame\<close>), what a lookup returns afterwards, and that the invariant is kept.
\<close>

named_theorems frame \<open>fields and lookups an operation does not change\<close>

section \<open>The invariant\<close>

text \<open>
  \<open>wf_tables\<close>: primary keys are unique. \<open>wf_log\<close>: the revisions of \<open>entity_changes\<close> ascend and
  none exceeds the last value handed out. \<open>fk_ok\<close>: the foreign key of \<open>notes\<close>. \<open>live_ok\<close>: a note
  or notebook is stored exactly when its last logged operation is an upsert, and then has no
  tombstone; an entity with a tombstone has a delete as its last logged operation.
\<close>

definition wf_tables :: "server \<Rightarrow> bool" where
  "wf_tables s \<longleftrightarrow> wf_table note_key (s_notes s) \<and> wf_table notebook_key (s_notebooks s) \<and>
     wf_table device_key (s_devices s) \<and> wf_table tombstone_key (s_tombstones s) \<and>
     wf_table m_key (s_meta s)"

definition wf_log :: "server \<Rightarrow> bool" where
  "wf_log s \<longleftrightarrow> sorted_wrt (<) (map ch_revision (s_changes s)) \<and> 0 \<le> s_lastRevision s \<and>
     (\<forall>c \<in> set (s_changes s). 1 \<le> ch_revision c \<and> ch_revision c \<le> s_lastRevision s)"

definition fk_ok :: "server \<Rightarrow> bool" where
  "fk_ok s \<longleftrightarrow> (\<forall>r \<in> set (s_notes s). \<forall>nb. n_notebookId (nr_note r) = Some nb \<longrightarrow>
     get_notebook_row s (nr_owner r) nb \<noteq> None)"

definition live_ok :: "server \<Rightarrow> bool" where
  "live_ok s \<longleftrightarrow> (\<forall>owner i.
     (get_note_row s owner i \<noteq> None \<longrightarrow>
        latestEntityOperation s owner Note_entity i = Some Upsert_op \<and>
        getEntityTombstone s owner Note_entity i = None) \<and>
     (get_notebook_row s owner i \<noteq> None \<longrightarrow>
        latestEntityOperation s owner Notebook_entity i = Some Upsert_op \<and>
        getEntityTombstone s owner Notebook_entity i = None) \<and>
     (\<forall>ty. ty \<noteq> Device_entity \<longrightarrow> getEntityTombstone s owner ty i \<noteq> None \<longrightarrow>
        latestEntityOperation s owner ty i = Some Delete_op) \<and>
     (latestEntityOperation s owner Note_entity i = Some Upsert_op \<longrightarrow> get_note_row s owner i \<noteq> None) \<and>
     (latestEntityOperation s owner Notebook_entity i = Some Upsert_op \<longrightarrow> get_notebook_row s owner i \<noteq> None))"

definition wf_server :: "server \<Rightarrow> bool" where
  "wf_server s \<longleftrightarrow> wf_tables s \<and> wf_log s \<and> fk_ok s \<and> live_ok s"

definition empty_server :: server where
  "empty_server = \<lparr>s_notes = [], s_notebooks = [], s_devices = [], s_tombstones = [], s_changes = [],
     s_lastRevision = 0, s_noteVersions = [], s_notebookVersions = [], s_meta = [], s_users = [],
     s_sessions = [], s_trusted = [], s_accountTombstones = [], s_ticks = 0, s_fresh = 0\<rparr>"

lemma wf_empty_server: "wf_server empty_server"
  by (simp add: wf_server_def wf_tables_def wf_log_def fk_ok_def live_ok_def empty_server_def
      get_note_row_def get_notebook_row_def getEntityTombstone_def tget_def
      latestEntityOperation_def changes_of_def)

section \<open>Lookups in the tables\<close>

lemma note_row_key: "get_note_row s owner i = Some r \<Longrightarrow> nr_owner r = owner \<and> n_id (nr_note r) = i"
  unfolding get_note_row_def by (drule tget_key) (simp add: note_key_def)

lemma notebook_row_key:
  "get_notebook_row s owner i = Some r \<Longrightarrow> nbr_owner r = owner \<and> nb_id (nbr_notebook r) = i"
  unfolding get_notebook_row_def by (drule tget_key) (simp add: notebook_key_def)

lemma tombstone_row_key:
  "getEntityTombstone s owner ty i = Some t \<Longrightarrow> t_owner t = owner \<and> t_entityType t = ty \<and> t_entityId t = i"
  unfolding getEntityTombstone_def by (drule tget_key) (simp add: tombstone_key_def)

lemma toNote_id [simp]: "n_id (toNote r) = n_id (nr_note r)"
  by (simp add: toNote_def Let_def)

lemma toNote_fields [simp]:
  "n_version (toNote r) = n_version (nr_note r)" "n_deviceId (toNote r) = n_deviceId (nr_note r)"
  "n_deletedAt (toNote r) = n_deletedAt (nr_note r)" "n_trashedAt (toNote r) = n_trashedAt (nr_note r)"
  "n_updatedAt (toNote r) = n_updatedAt (nr_note r)"
  by (simp_all add: toNote_def Let_def)

lemma toNotebook_fields [simp]:
  "nb_id (toNotebook r) = nb_id (nbr_notebook r)" "nb_version (toNotebook r) = nb_version (nbr_notebook r)"
  "nb_deviceId (toNotebook r) = nb_deviceId (nbr_notebook r)"
  "nb_deletedAt (toNotebook r) = nb_deletedAt (nbr_notebook r)"
  "nb_name (toNotebook r) = nb_name (nbr_notebook r)" "nb_nameHash (toNotebook r) = nb_nameHash (nbr_notebook r)"
  by (simp_all add: toNotebook_def)

lemma find_key_filter:
  "wf_table key t \<Longrightarrow> (\<And>r. key r = k \<longleftrightarrow> P r) \<Longrightarrow> find P t = tget key k t"
  unfolding tget_def by simp

section \<open>Looking up many identifiers\<close>

text \<open>
  The chunked loop returns what a single lookup would, for every non-empty identifier asked for
  (rows of one owner have distinct identifiers).
\<close>

lemma find_append:
  "find P (xs @ [x]) = (case find P xs of Some y \<Rightarrow> Some y | None \<Rightarrow> if P x then Some x else None)"
  by (induction xs) auto

lemma map_of_fold_map_set:
  "map_of (fold (\<lambda>row m. map_set (idf row) (conv row) m) rows m) i =
     (case find (\<lambda>row. idf row = i) (rev rows) of Some row \<Rightarrow> Some (conv row) | None \<Rightarrow> map_of m i)"
proof (induction rows arbitrary: m)
  case Nil
  then show ?case by simp
next
  case (Cons r rows)
  show ?case by (simp add: Cons.IH find_append update_conv' split: option.splits)
qed

lemma find_rev_unique:
  assumes "\<And>r r'. r \<in> set rows \<Longrightarrow> r' \<in> set rows \<Longrightarrow> P r \<Longrightarrow> P r' \<Longrightarrow> r = r'"
  shows "find P (rev rows) = find P rows"
proof (cases "\<exists>r \<in> set rows. P r")
  case True
  then obtain a where a: "find P rows = Some a" by (meson find_None_iff not_Some_eq)
  from True obtain b where b: "find P (rev rows) = Some b"
    by (metis find_None_iff not_None_eq set_rev)
  from a b have "a = b" using assms by (metis find_Some_iff nth_mem set_rev length_rev)
  with a b show ?thesis by simp
next
  case False
  then have "find P rows = None" "find P (rev rows) = None" by (auto simp: find_None_iff)
  then show ?thesis by simp
qed

lemma findSomeD: "find P xs = Some x \<Longrightarrow> x \<in> set xs \<and> P x"
  by (induction xs) (auto split: if_splits)

lemma find_filter: "find P (filter Q xs) = find (\<lambda>x. Q x \<and> P x) xs"
  by (induction xs) auto

lemma collect_by_ids_chunk:
  assumes uniq: "\<And>r r'. r \<in> set rows \<Longrightarrow> r' \<in> set rows \<Longrightarrow> sel r \<Longrightarrow> sel r' \<Longrightarrow> idf r = idf r' \<Longrightarrow> r = r'"
  shows "map_of (fold (\<lambda>chunk m. fold (\<lambda>row m. map_set (idf row) (conv row) m)
             (filter (\<lambda>row. sel row \<and> idf row \<in> set chunk) rows) m) chs m) i =
         (if i \<in> set (concat chs) then
            (case find (\<lambda>row. sel row \<and> idf row = i) rows of Some row \<Rightarrow> Some (conv row) | None \<Rightarrow> map_of m i)
          else map_of m i)"
proof (induction chs arbitrary: m)
  case Nil
  then show ?case by simp
next
  case (Cons ch chs)
  let ?rs = "filter (\<lambda>row. sel row \<and> idf row \<in> set ch) rows"
  have u: "find (\<lambda>row. idf row = i) (rev ?rs) = find (\<lambda>row. idf row = i) ?rs"
    by (rule find_rev_unique) (auto intro: uniq)
  have one: "map_of (fold (\<lambda>row m. map_set (idf row) (conv row) m) ?rs m) i =
      (if i \<in> set ch then (case find (\<lambda>row. sel row \<and> idf row = i) rows of Some row \<Rightarrow> Some (conv row)
         | None \<Rightarrow> map_of m i) else map_of m i)"
  proof (cases "i \<in> set ch")
    case True
    then have "find (\<lambda>row. idf row = i) ?rs = find (\<lambda>row. sel row \<and> idf row = i) rows"
      unfolding find_filter by (metis (mono_tags, lifting))
    with True u show ?thesis by (simp add: map_of_fold_map_set)
  next
    case False
    then have "find (\<lambda>row. idf row = i) ?rs = None" by (auto simp: find_None_iff)
    with False u show ?thesis by (simp add: map_of_fold_map_set)
  qed
  show ?case by (auto simp: Cons.IH one split: option.splits)
qed

lemma collect_by_ids:
  assumes "\<And>r r'. r \<in> set rows \<Longrightarrow> r' \<in> set rows \<Longrightarrow> sel r \<Longrightarrow> sel r' \<Longrightarrow> idf r = idf r' \<Longrightarrow> r = r'"
  shows "map_of (collect_by_ids sel idf conv rows ids) i =
         (if i \<in> set ids \<and> truthy i then map_option conv (find (\<lambda>row. sel row \<and> idf row = i) rows) else None)"
  unfolding collect_by_ids_def
  by (subst collect_by_ids_chunk [OF assms])
    (auto simp: concat_chunks uniqueEntityIds_def split: option.splits)


section \<open>Frames\<close>

lemma fold_frame: "(\<And>x s. g (f x s) = g s) \<Longrightarrow> g (fold f xs s) = g s"
  by (induction xs arbitrary: s) auto

lemma fold_err_frame:
  "fold_err f xs s = Inr s' \<Longrightarrow> (\<And>x s s'. f x s = Inr s' \<Longrightarrow> g s' = g s) \<Longrightarrow> g s' = g s"
  by (induction xs arbitrary: s) (auto simp: and_then_Inr)

lemma read_clock_eq: "read_clock e s = (to_iso (clock e (s_ticks s)), s\<lparr>s_ticks := Suc (s_ticks s)\<rparr>)"
  by (simp add: read_clock_def)

lemma lookups_cong:
  "s_notes s' = s_notes s \<Longrightarrow> get_note_row s' = get_note_row s"
  "s_notebooks s' = s_notebooks s \<Longrightarrow> get_notebook_row s' = get_notebook_row s"
  "s_devices s' = s_devices s \<Longrightarrow> get_device_row s' = get_device_row s"
  "s_tombstones s' = s_tombstones s \<Longrightarrow> getEntityTombstone s' = getEntityTombstone s"
  "s_changes s' = s_changes s \<Longrightarrow> changes_of s' = changes_of s"
  "s_changes s' = s_changes s \<Longrightarrow> latestEntityOperation s' = latestEntityOperation s"
  by (auto simp: get_note_row_def get_notebook_row_def get_device_row_def getEntityTombstone_def
      changes_of_def latestEntityOperation_def fun_eq_iff)

lemma insert_change_frame [frame]:
  "s_notes (insert_change o1 ty i op ts s) = s_notes s"
  "s_notebooks (insert_change o1 ty i op ts s) = s_notebooks s"
  "s_devices (insert_change o1 ty i op ts s) = s_devices s"
  "s_tombstones (insert_change o1 ty i op ts s) = s_tombstones s"
  "s_noteVersions (insert_change o1 ty i op ts s) = s_noteVersions s"
  "s_notebookVersions (insert_change o1 ty i op ts s) = s_notebookVersions s"
  "s_meta (insert_change o1 ty i op ts s) = s_meta s"
  "s_users (insert_change o1 ty i op ts s) = s_users s"
  "s_sessions (insert_change o1 ty i op ts s) = s_sessions s"
  "s_trusted (insert_change o1 ty i op ts s) = s_trusted s"
  "s_accountTombstones (insert_change o1 ty i op ts s) = s_accountTombstones s"
  by (simp_all add: insert_change_def)

lemma recordEntityChanges_eq:
  "recordEntityChanges cs owner s =
   fold (\<lambda>c. insert_change owner (pg_entityType c) (pg_entityId c) (pg_operation c) (pg_updatedAt c)) cs s"
  by (simp add: recordEntityChanges_def fold_chunks)

lemma recordEntityChanges_frame [frame]:
  "s_notes (recordEntityChanges cs o1 s) = s_notes s"
  "s_notebooks (recordEntityChanges cs o1 s) = s_notebooks s"
  "s_devices (recordEntityChanges cs o1 s) = s_devices s"
  "s_tombstones (recordEntityChanges cs o1 s) = s_tombstones s"
  "s_noteVersions (recordEntityChanges cs o1 s) = s_noteVersions s"
  "s_notebookVersions (recordEntityChanges cs o1 s) = s_notebookVersions s"
  "s_meta (recordEntityChanges cs o1 s) = s_meta s"
  "s_users (recordEntityChanges cs o1 s) = s_users s"
  "s_sessions (recordEntityChanges cs o1 s) = s_sessions s"
  "s_trusted (recordEntityChanges cs o1 s) = s_trusted s"
  "s_accountTombstones (recordEntityChanges cs o1 s) = s_accountTombstones s"
  unfolding recordEntityChanges_eq by (rule fold_frame; simp add: frame)+

lemma clear_eq:
  "clearEntityTombstonesByIds owner ty ids s =
   s\<lparr>s_tombstones := fold (\<lambda>i. tdel tombstone_key (owner, ty, i)) (uniqueEntityIds ids) (s_tombstones s)\<rparr>"
  by (simp add: clearEntityTombstonesByIds_def fold_chunks)

lemma clear_frame [frame]:
  "s_notes (clearEntityTombstonesByIds o1 ty ids s) = s_notes s"
  "s_notebooks (clearEntityTombstonesByIds o1 ty ids s) = s_notebooks s"
  "s_devices (clearEntityTombstonesByIds o1 ty ids s) = s_devices s"
  "s_changes (clearEntityTombstonesByIds o1 ty ids s) = s_changes s"
  "s_lastRevision (clearEntityTombstonesByIds o1 ty ids s) = s_lastRevision s"
  "s_meta (clearEntityTombstonesByIds o1 ty ids s) = s_meta s"
  "s_users (clearEntityTombstonesByIds o1 ty ids s) = s_users s"
  by (simp_all add: clear_eq)

section \<open>The log\<close>

lemma changes_of_insert_change:
  "changes_of (insert_change owner ty i op ts s) o1 t1 j =
   changes_of s o1 t1 j @ (if owner = o1 \<and> ty = t1 \<and> i = j
     then [\<lparr>ch_revision = s_lastRevision s + 1, ch_owner = owner, ch_entityType = ty,
            ch_entityId = i, ch_operation = op, ch_updatedAt = ts\<rparr>] else [])"
  by (simp add: changes_of_def insert_change_def)

lemma latestEntityOperation_last:
  "latestEntityOperation s o1 t1 j =
   (if changes_of s o1 t1 j = [] then None else Some (ch_operation (last (changes_of s o1 t1 j))))"
  by (simp add: latestEntityOperation_def split: list.split)

lemma latest_insert_change:
  "latestEntityOperation (insert_change owner ty i op ts s) o1 t1 j =
   (if owner = o1 \<and> ty = t1 \<and> i = j then Some op else latestEntityOperation s o1 t1 j)"
  by (simp add: latestEntityOperation_last changes_of_insert_change)

lemma latest_recordEntityChanges:
  "(\<And>c. c \<in> set cs \<Longrightarrow> pg_operation c = op) \<Longrightarrow>
   latestEntityOperation (recordEntityChanges cs owner s) o1 t1 j =
   (if owner = o1 \<and> (\<exists>c \<in> set cs. pg_entityType c = t1 \<and> pg_entityId c = j) then Some op
    else latestEntityOperation s o1 t1 j)"
  unfolding recordEntityChanges_eq
  by (induction cs arbitrary: s) (auto simp: latest_insert_change)

lemma wf_log_insert_change: "wf_log s \<Longrightarrow> wf_log (insert_change owner ty i op ts s)"
  by (fastforce simp: wf_log_def insert_change_def sorted_wrt_append)

lemma fold_preserves: "P s \<Longrightarrow> (\<And>x s. P s \<Longrightarrow> P (f x s)) \<Longrightarrow> P (fold f xs s)"
  by (induction xs arbitrary: s) auto

lemma wf_log_recordEntityChanges: "wf_log s \<Longrightarrow> wf_log (recordEntityChanges cs owner s)"
  unfolding recordEntityChanges_eq by (rule fold_preserves) (auto intro: wf_log_insert_change)

lemma wf_log_cong: "s_changes s' = s_changes s \<Longrightarrow> s_lastRevision s' = s_lastRevision s \<Longrightarrow> wf_log s' = wf_log s"
  by (simp add: wf_log_def)

text \<open>\<open>log_grows s s' owner\<close>: entries of one owner were appended, and the counter moved on.\<close>

definition log_grows :: "string \<Rightarrow> server \<Rightarrow> server \<Rightarrow> bool" where
  "log_grows owner s s' \<longleftrightarrow> s_lastRevision s \<le> s_lastRevision s' \<and>
     (\<exists>new. s_changes s' = s_changes s @ new \<and>
        (\<forall>c \<in> set new. ch_owner c = owner \<and> s_lastRevision s < ch_revision c \<and> ch_revision c \<le> s_lastRevision s'))"

lemma log_grows_refl: "s_changes s' = s_changes s \<Longrightarrow> s_lastRevision s' = s_lastRevision s \<Longrightarrow> log_grows owner s s'"
  by (simp add: log_grows_def)

lemma log_grows_trans: "log_grows owner s t \<Longrightarrow> log_grows owner t u \<Longrightarrow> log_grows owner s u"
  unfolding log_grows_def by fastforce

lemma log_grows_insert_change: "log_grows owner s (insert_change owner ty i op ts s)"
  by (auto simp: log_grows_def insert_change_def)

lemma log_grows_fold: "(\<And>x s. log_grows owner s (f x s)) \<Longrightarrow> log_grows owner s (fold f xs s)"
  by (induction xs arbitrary: s) (auto intro: log_grows_refl log_grows_trans)

lemma log_grows_recordEntityChanges: "log_grows owner s (recordEntityChanges cs owner s)"
  unfolding recordEntityChanges_eq by (rule log_grows_fold) (rule log_grows_insert_change)

section \<open>Tombstones\<close>

lemma getEntityTombstone_clear:
  "getEntityTombstone (clearEntityTombstonesByIds owner ty ids s) o1 t1 j =
   (if owner = o1 \<and> ty = t1 \<and> j \<in> set ids \<and> truthy j then None else getEntityTombstone s o1 t1 j)"
proof -
  have "tget tombstone_key k (fold (\<lambda>i. tdel tombstone_key (owner, ty, i)) js t) =
      (if \<exists>i \<in> set js. k = (owner, ty, i) then None else tget tombstone_key k t)" for k js t
    by (induction js arbitrary: t) (auto simp: tget_tdel)
  then show ?thesis
    by (auto simp: clear_eq getEntityTombstone_def uniqueEntityIds_def)
qed

lemma wf_clear:
  "wf_table tombstone_key (s_tombstones s) \<Longrightarrow>
   wf_table tombstone_key (s_tombstones (clearEntityTombstonesByIds owner ty ids s))"
  unfolding clear_eq by (simp, rule fold_preserves) (auto intro: wf_table_tdel)

lemma getEntityTombstone_put:
  "getEntityTombstone (putEntityTombstone owner ty i ts d v s) o1 t1 j =
   (if owner = o1 \<and> ty = t1 \<and> i = j
    then Some \<lparr>t_owner = owner, t_entityType = ty, t_entityId = i, t_deletedAt = ts, t_deviceId = d, t_version = v\<rparr>
    else getEntityTombstone s o1 t1 j)"
  by (auto simp: putEntityTombstone_def getEntityTombstone_def tget_tput tombstone_key_def)

lemma putEntityTombstone_frame [frame]:
  "s_notes (putEntityTombstone o1 ty i ts d v s) = s_notes s"
  "s_notebooks (putEntityTombstone o1 ty i ts d v s) = s_notebooks s"
  "s_devices (putEntityTombstone o1 ty i ts d v s) = s_devices s"
  "s_changes (putEntityTombstone o1 ty i ts d v s) = s_changes s"
  "s_lastRevision (putEntityTombstone o1 ty i ts d v s) = s_lastRevision s"
  "s_meta (putEntityTombstone o1 ty i ts d v s) = s_meta s"
  by (simp_all add: putEntityTombstone_def)


section \<open>Writing notes and notebooks\<close>

text \<open>The row an upsert leaves, given the row that was there.\<close>

definition written_note_row :: "string \<Rightarrow> string \<Rightarrow> Note \<Rightarrow> note_row option \<Rightarrow> note_row" where
  "written_note_row owner rt n old =
     \<lparr>nr_owner = owner,
      nr_note = n\<lparr>n_notebookIds := noteNotebookIds n, n_notebookId := first_or_null (noteNotebookIds n),
                  n_syncStatus := Synced\<rparr>,
      nr_retention = retention_after (n_trashedAt n) rt
        (map_option (\<lambda>r. (n_trashedAt (nr_note r), nr_retention r)) old)\<rparr>"

definition written_notebook_row :: "string \<Rightarrow> string \<Rightarrow> Notebook \<Rightarrow> notebook_row option \<Rightarrow> notebook_row" where
  "written_notebook_row owner rt nb old =
     \<lparr>nbr_owner = owner, nbr_notebook = nb\<lparr>nb_syncStatus := Synced\<rparr>,
      nbr_retention = retention_after (nb_deletedAt nb) rt
        (map_option (\<lambda>r. (nb_deletedAt (nbr_notebook r), nbr_retention r)) old)\<rparr>"

lemma written_note_row_simps [simp]:
  "nr_owner (written_note_row owner rt n old) = owner"
  "n_id (nr_note (written_note_row owner rt n old)) = n_id n"
  "note_key (written_note_row owner rt n old) = (owner, n_id n)"
  "n_notebookId (nr_note (written_note_row owner rt n old)) = first_or_null (noteNotebookIds n)"
  "n_version (nr_note (written_note_row owner rt n old)) = n_version n"
  "n_deletedAt (nr_note (written_note_row owner rt n old)) = n_deletedAt n"
  by (simp_all add: written_note_row_def note_key_def)

lemma written_notebook_row_simps [simp]:
  "nbr_owner (written_notebook_row owner rt nb old) = owner"
  "nbr_notebook (written_notebook_row owner rt nb old) = nb\<lparr>nb_syncStatus := Synced\<rparr>"
  "notebook_key (written_notebook_row owner rt nb old) = (owner, nb_id nb)"
  by (simp_all add: written_notebook_row_def notebook_key_def)

definition note_refs_ok :: "server \<Rightarrow> string \<Rightarrow> Note \<Rightarrow> bool" where
  "note_refs_ok s owner n \<longleftrightarrow>
     (\<forall>nb. first_or_null (noteNotebookIds n) = Some nb \<longrightarrow> get_notebook_row s owner nb \<noteq> None)"

lemma upsert_note_row_eq:
  "upsert_note_row owner rt n s =
   (if note_refs_ok s owner n
    then Inr (s\<lparr>s_notes := tput note_key (written_note_row owner rt n (get_note_row s owner (n_id n))) (s_notes s)\<rparr>)
    else Inl Foreign_key_violation)"
  by (simp add: upsert_note_row_def note_refs_ok_def written_note_row_def Let_def split: option.split)

lemma upsert_notebook_row_eq:
  "upsert_notebook_row owner rt nb s =
   s\<lparr>s_notebooks := tput notebook_key (written_notebook_row owner rt nb (get_notebook_row s owner (nb_id nb)))
       (s_notebooks s)\<rparr>"
  by (simp add: upsert_notebook_row_def written_notebook_row_def Let_def)

lemma get_note_row_tput:
  "get_note_row (s\<lparr>s_notes := tput note_key r (s_notes s)\<rparr>) o1 i =
   (if o1 = nr_owner r \<and> i = n_id (nr_note r) then Some r else get_note_row s o1 i)"
  by (auto simp: get_note_row_def tget_tput note_key_def)

lemma get_notebook_row_tput:
  "get_notebook_row (s\<lparr>s_notebooks := tput notebook_key r (s_notebooks s)\<rparr>) o1 i =
   (if o1 = nbr_owner r \<and> i = nb_id (nbr_notebook r) then Some r else get_notebook_row s o1 i)"
  by (auto simp: get_notebook_row_def tget_tput notebook_key_def)

lemma note_refs_ok_notes_update [simp]: "note_refs_ok (s\<lparr>s_notes := x\<rparr>) owner n = note_refs_ok s owner n"
  by (simp add: note_refs_ok_def get_notebook_row_def)

lemma upsert_notes_spec:
  assumes "distinct (map n_id ns)"
  shows "fold_err (upsert_note_row owner rt) ns s = Inr s' \<Longrightarrow>
     (\<exists>t. s' = s\<lparr>s_notes := t\<rparr> \<and> (wf_table note_key (s_notes s) \<longrightarrow> wf_table note_key t)) \<and>
     (\<forall>n \<in> set ns. note_refs_ok s owner n) \<and>
     (\<forall>o1 i. get_note_row s' o1 i =
        (case find (\<lambda>n. n_id n = i) ns of
           Some n \<Rightarrow> if o1 = owner then Some (written_note_row owner rt n (get_note_row s owner i))
                     else get_note_row s o1 i
         | None \<Rightarrow> get_note_row s o1 i))"
  using assms
proof (induction ns arbitrary: s)
  case Nil
  then show ?case by (auto intro: exI [of _ "s_notes s"])
next
  case (Cons n ns)
  define t where "t = s\<lparr>s_notes := tput note_key (written_note_row owner rt n (get_note_row s owner (n_id n))) (s_notes s)\<rparr>"
  from Cons.prems have ok: "note_refs_ok s owner n" and f: "fold_err (upsert_note_row owner rt) ns t = Inr s'"
    by (auto simp: upsert_note_row_eq [of owner rt n s] t_def split: if_splits)
  note IH = Cons.IH [OF f]
  have d: "distinct (map n_id ns)" and nin: "find (\<lambda>m. n_id m = n_id n) ns = None"
    using Cons.prems(2) by (auto simp: find_None_iff rev_image_eqI)
  have g: "get_note_row t o1 i = (if o1 = owner \<and> i = n_id n
      then Some (written_note_row owner rt n (get_note_row s owner (n_id n))) else get_note_row s o1 i)" for o1 i
    by (simp add: t_def get_note_row_tput)
  from IH [OF d] obtain u where u: "s' = t\<lparr>s_notes := u\<rparr>" "wf_table note_key (s_notes t) \<longrightarrow> wf_table note_key u"
    by auto
  have refs: "note_refs_ok t owner m = note_refs_ok s owner m" for m by (simp add: t_def)
  show ?case
  proof (intro conjI allI)
    show "\<exists>t. s' = s\<lparr>s_notes := t\<rparr> \<and> (wf_table note_key (s_notes s) \<longrightarrow> wf_table note_key t)"
      using u by (auto simp: t_def intro: wf_table_tput)
    show "\<forall>m \<in> set (n # ns). note_refs_ok s owner m" using ok IH [OF d] refs by auto
  next
    fix o1 i
    have "get_note_row s' o1 i = (case find (\<lambda>n. n_id n = i) ns of
           Some n \<Rightarrow> if o1 = owner then Some (written_note_row owner rt n (get_note_row t owner i))
                     else get_note_row t o1 i
         | None \<Rightarrow> get_note_row t o1 i)" using IH [OF d] by blast
    then show "get_note_row s' o1 i = (case find (\<lambda>n. n_id n = i) (n # ns) of
           Some n \<Rightarrow> if o1 = owner then Some (written_note_row owner rt n (get_note_row s owner i))
                     else get_note_row s o1 i
         | None \<Rightarrow> get_note_row s o1 i)"
      using nin by (auto simp: g split: option.splits)
  qed
qed

lemma upsert_notes_total:
  "(\<And>n. n \<in> set ns \<Longrightarrow> note_refs_ok s owner n) \<Longrightarrow> \<exists>s'. fold_err (upsert_note_row owner rt) ns s = Inr s'"
proof (induction ns arbitrary: s)
  case Nil
  then show ?case by simp
next
  case (Cons n ns)
  then show ?case by (simp add: upsert_note_row_eq)
qed

lemma upsert_notebooks_spec:
  assumes "distinct (map nb_id nbs)"
  shows "(\<exists>t. fold (upsert_notebook_row owner rt) nbs s = s\<lparr>s_notebooks := t\<rparr> \<and>
       (wf_table notebook_key (s_notebooks s) \<longrightarrow> wf_table notebook_key t)) \<and>
     (\<forall>o1 i. get_notebook_row (fold (upsert_notebook_row owner rt) nbs s) o1 i =
        (case find (\<lambda>nb. nb_id nb = i) nbs of
           Some nb \<Rightarrow> if o1 = owner then Some (written_notebook_row owner rt nb (get_notebook_row s owner i))
                     else get_notebook_row s o1 i
         | None \<Rightarrow> get_notebook_row s o1 i))"
  using assms
proof (induction nbs arbitrary: s)
  case Nil
  then show ?case by (auto intro: exI [of _ "s_notebooks s"])
next
  case (Cons nb nbs)
  define t where "t = upsert_notebook_row owner rt nb s"
  have d: "distinct (map nb_id nbs)" and nin: "find (\<lambda>m. nb_id m = nb_id nb) nbs = None"
    using Cons.prems by (auto simp: find_None_iff rev_image_eqI)
  have g: "get_notebook_row t o1 i = (if o1 = owner \<and> i = nb_id nb
      then Some (written_notebook_row owner rt nb (get_notebook_row s owner (nb_id nb)))
      else get_notebook_row s o1 i)" for o1 i
    by (simp add: t_def upsert_notebook_row_eq get_notebook_row_tput)
  note IH = Cons.IH [OF d, of t]
  from IH obtain u where u: "fold (upsert_notebook_row owner rt) nbs t = t\<lparr>s_notebooks := u\<rparr>"
      "wf_table notebook_key (s_notebooks t) \<longrightarrow> wf_table notebook_key u" by auto
  show ?case
  proof (intro conjI allI)
    show "\<exists>w. fold (upsert_notebook_row owner rt) (nb # nbs) s = s\<lparr>s_notebooks := w\<rparr> \<and>
       (wf_table notebook_key (s_notebooks s) \<longrightarrow> wf_table notebook_key w)"
      using u by (auto simp: t_def [symmetric]) (auto simp: t_def upsert_notebook_row_eq intro: wf_table_tput)
  next
    fix o1 i
    have "get_notebook_row (fold (upsert_notebook_row owner rt) nbs t) o1 i = (case find (\<lambda>nb. nb_id nb = i) nbs of
           Some nb \<Rightarrow> if o1 = owner then Some (written_notebook_row owner rt nb (get_notebook_row t owner i))
                     else get_notebook_row t o1 i
         | None \<Rightarrow> get_notebook_row t o1 i)" using IH by blast
    then show "get_notebook_row (fold (upsert_notebook_row owner rt) (nb # nbs) s) o1 i =
        (case find (\<lambda>nb. nb_id nb = i) (nb # nbs) of
           Some nb \<Rightarrow> if o1 = owner then Some (written_notebook_row owner rt nb (get_notebook_row s owner i))
                     else get_notebook_row s o1 i
         | None \<Rightarrow> get_notebook_row s o1 i)"
      using nin by (auto simp: g t_def [symmetric] split: option.splits)
  qed
qed


section \<open>Putting notes and notebooks, with their log entries\<close>

lemma putNotes_spec:
  assumes put: "putNotes ns owner rt s = Inr s'" and d: "distinct (map n_id ns)"
    and tr: "\<forall>n \<in> set ns. truthy (n_id n)"
  shows "s_notebooks s' = s_notebooks s" "s_devices s' = s_devices s" "s_noteVersions s' = s_noteVersions s"
    "s_notebookVersions s' = s_notebookVersions s" "s_meta s' = s_meta s" "s_users s' = s_users s"
    and "wf_table note_key (s_notes s) \<Longrightarrow> wf_table note_key (s_notes s')"
    and "wf_table tombstone_key (s_tombstones s) \<Longrightarrow> wf_table tombstone_key (s_tombstones s')"
    and "wf_log s \<Longrightarrow> wf_log s'" and "log_grows owner s s'"
    and "\<forall>n \<in> set ns. note_refs_ok s owner n"
    and "get_note_row s' o1 i = (case find (\<lambda>n. n_id n = i) ns of
           Some n \<Rightarrow> if o1 = owner then Some (written_note_row owner rt n (get_note_row s owner i))
                     else get_note_row s o1 i
         | None \<Rightarrow> get_note_row s o1 i)"
    and "getEntityTombstone s' o1 ty i =
           (if o1 = owner \<and> ty = Note_entity \<and> i \<in> n_id ` set ns then None else getEntityTombstone s o1 ty i)"
    and "latestEntityOperation s' o1 ty i =
           (if o1 = owner \<and> ty = Note_entity \<and> i \<in> n_id ` set ns then Some Upsert_op
            else latestEntityOperation s o1 ty i)"
proof -
  have "(\<exists>s1. fold_err (upsert_note_row owner rt) ns s = Inr s1 \<and>
      s' = recordEntityChanges (map note_upsert_change ns) owner
             (clearEntityTombstonesByIds owner Note_entity (map n_id ns) s1))"
  proof (cases "ns = []")
    case True
    with put show ?thesis
      by (simp add: putNotes_def clear_eq recordEntityChanges_eq uniqueEntityIds_def)
  next
    case False
    with put show ?thesis by (auto simp: putNotes_def and_then_Inr fold_err_chunks)
  qed
  then obtain s1 where f: "fold_err (upsert_note_row owner rt) ns s = Inr s1"
    and s': "s' = recordEntityChanges (map note_upsert_change ns) owner
             (clearEntityTombstonesByIds owner Note_entity (map n_id ns) s1)" by blast
  from upsert_notes_spec [OF d f] obtain t where t: "s1 = s\<lparr>s_notes := t\<rparr>"
      "wf_table note_key (s_notes s) \<longrightarrow> wf_table note_key t" by blast
  have rows: "get_note_row s' = get_note_row s1" unfolding s' by (rule lookups_cong) (simp add: frame)
  have log: "wf_log s \<Longrightarrow> wf_log (clearEntityTombstonesByIds owner Note_entity (map n_id ns) s1)"
    by (subst wf_log_cong [of _ s]) (simp_all add: frame t)
  have lg: "log_grows owner s (clearEntityTombstonesByIds owner Note_entity (map n_id ns) s1)"
    by (rule log_grows_refl) (simp_all add: frame t)
  show "s_notebooks s' = s_notebooks s" "s_devices s' = s_devices s" "s_noteVersions s' = s_noteVersions s"
    "s_notebookVersions s' = s_notebookVersions s" "s_meta s' = s_meta s" "s_users s' = s_users s"
    "wf_table note_key (s_notes s) \<Longrightarrow> wf_table note_key (s_notes s')"
    using t by (auto simp: s' frame) (simp_all add: clear_eq)
  show "wf_table tombstone_key (s_tombstones s) \<Longrightarrow> wf_table tombstone_key (s_tombstones s')"
    unfolding s' by (simp add: frame wf_clear t)
  show "wf_log s \<Longrightarrow> wf_log s'" unfolding s' by (rule wf_log_recordEntityChanges) (rule log)
  show "log_grows owner s s'" unfolding s' by (rule log_grows_trans [OF lg log_grows_recordEntityChanges])
  show "\<forall>n \<in> set ns. note_refs_ok s owner n"
    "get_note_row s' o1 i = (case find (\<lambda>n. n_id n = i) ns of
           Some n \<Rightarrow> if o1 = owner then Some (written_note_row owner rt n (get_note_row s owner i))
                     else get_note_row s o1 i
         | None \<Rightarrow> get_note_row s o1 i)"
    using upsert_notes_spec [OF d f] rows by auto
  have ts: "getEntityTombstone s1 = getEntityTombstone s" "latestEntityOperation s1 = latestEntityOperation s"
    by (rule lookups_cong, simp add: t)+
  have ts': "getEntityTombstone s' = getEntityTombstone (clearEntityTombstonesByIds owner Note_entity (map n_id ns) s1)"
    unfolding s' by (rule lookups_cong) (simp add: frame)
  show "getEntityTombstone s' o1 ty i =
           (if o1 = owner \<and> ty = Note_entity \<and> i \<in> n_id ` set ns then None else getEntityTombstone s o1 ty i)"
    using tr by (auto simp: ts ts' getEntityTombstone_clear)
  have c: "latestEntityOperation (clearEntityTombstonesByIds owner Note_entity (map n_id ns) s1) = latestEntityOperation s1"
    by (rule lookups_cong) (simp add: frame)
  have "latestEntityOperation s' o1 ty i =
     (if owner = o1 \<and> (\<exists>c \<in> set (map note_upsert_change ns). pg_entityType c = ty \<and> pg_entityId c = i)
      then Some Upsert_op else latestEntityOperation s o1 ty i)"
    unfolding s' by (subst latest_recordEntityChanges [of _ Upsert_op]) (auto simp: note_upsert_change_def ts c)
  then show "latestEntityOperation s' o1 ty i =
           (if o1 = owner \<and> ty = Note_entity \<and> i \<in> n_id ` set ns then Some Upsert_op
            else latestEntityOperation s o1 ty i)"
    by (auto simp: note_upsert_change_def)
qed

lemma putNotes_total:
  assumes "\<And>n. n \<in> set ns \<Longrightarrow> note_refs_ok s owner n"
  shows "\<exists>s'. putNotes ns owner rt s = Inr s'"
proof -
  from upsert_notes_total [of ns s owner rt] assms
  obtain s1 where "fold_err (upsert_note_row owner rt) ns s = Inr s1" by blast
  then show ?thesis by (simp add: putNotes_def fold_err_chunks)
qed

lemma putNotebooks_spec:
  assumes s'_def: "s' = putNotebooks nbs owner rt s" and d: "distinct (map nb_id nbs)" and tr: "\<forall>nb \<in> set nbs. truthy (nb_id nb)"
  shows "s_notes s' = s_notes s" "s_devices s' = s_devices s" "s_noteVersions s' = s_noteVersions s"
    "s_notebookVersions s' = s_notebookVersions s" "s_meta s' = s_meta s" "s_users s' = s_users s"
    and "wf_table notebook_key (s_notebooks s) \<Longrightarrow> wf_table notebook_key (s_notebooks s')"
    and "wf_table tombstone_key (s_tombstones s) \<Longrightarrow> wf_table tombstone_key (s_tombstones s')"
    and "wf_log s \<Longrightarrow> wf_log s'" and "log_grows owner s s'"
    and "get_notebook_row s' o1 i = (case find (\<lambda>nb. nb_id nb = i) nbs of
           Some nb \<Rightarrow> if o1 = owner then Some (written_notebook_row owner rt nb (get_notebook_row s owner i))
                     else get_notebook_row s o1 i
         | None \<Rightarrow> get_notebook_row s o1 i)"
    and "getEntityTombstone s' o1 ty i =
           (if o1 = owner \<and> ty = Notebook_entity \<and> i \<in> nb_id ` set nbs then None else getEntityTombstone s o1 ty i)"
    and "latestEntityOperation s' o1 ty i =
           (if o1 = owner \<and> ty = Notebook_entity \<and> i \<in> nb_id ` set nbs then Some Upsert_op
            else latestEntityOperation s o1 ty i)"
proof -
  define s1 where "s1 = fold (upsert_notebook_row owner rt) nbs s"
  have s': "s' = recordEntityChanges (map notebook_upsert_change nbs) owner
             (clearEntityTombstonesByIds owner Notebook_entity (map nb_id nbs) s1)"
    by (simp add: s'_def s1_def putNotebooks_def fold_chunks clear_eq recordEntityChanges_eq uniqueEntityIds_def)
  from upsert_notebooks_spec [OF d, of owner rt s] obtain t where t: "s1 = s\<lparr>s_notebooks := t\<rparr>"
      "wf_table notebook_key (s_notebooks s) \<longrightarrow> wf_table notebook_key t" unfolding s1_def by blast
  have rows: "get_notebook_row s' = get_notebook_row s1" unfolding s' by (rule lookups_cong) (simp add: frame)
  have log: "wf_log s \<Longrightarrow> wf_log (clearEntityTombstonesByIds owner Notebook_entity (map nb_id nbs) s1)"
    by (subst wf_log_cong [of _ s]) (simp_all add: frame t)
  have lg: "log_grows owner s (clearEntityTombstonesByIds owner Notebook_entity (map nb_id nbs) s1)"
    by (rule log_grows_refl) (simp_all add: frame t)
  show "s_notes s' = s_notes s" "s_devices s' = s_devices s" "s_noteVersions s' = s_noteVersions s"
    "s_notebookVersions s' = s_notebookVersions s" "s_meta s' = s_meta s" "s_users s' = s_users s"
    "wf_table notebook_key (s_notebooks s) \<Longrightarrow> wf_table notebook_key (s_notebooks s')"
    using t by (auto simp: s' frame) (simp_all add: clear_eq)
  show "wf_table tombstone_key (s_tombstones s) \<Longrightarrow> wf_table tombstone_key (s_tombstones s')"
    unfolding s' by (simp add: frame wf_clear t)
  show "wf_log s \<Longrightarrow> wf_log s'" unfolding s' by (rule wf_log_recordEntityChanges) (rule log)
  show "log_grows owner s s'" unfolding s' by (rule log_grows_trans [OF lg log_grows_recordEntityChanges])
  show "get_notebook_row s' o1 i = (case find (\<lambda>nb. nb_id nb = i) nbs of
           Some nb \<Rightarrow> if o1 = owner then Some (written_notebook_row owner rt nb (get_notebook_row s owner i))
                     else get_notebook_row s o1 i
         | None \<Rightarrow> get_notebook_row s o1 i)"
    using upsert_notebooks_spec [OF d, of owner rt s] by (simp add: rows s1_def)
  have ts: "getEntityTombstone s1 = getEntityTombstone s" "latestEntityOperation s1 = latestEntityOperation s"
    by (rule lookups_cong, simp add: t)+
  have ts': "getEntityTombstone s' = getEntityTombstone (clearEntityTombstonesByIds owner Notebook_entity (map nb_id nbs) s1)"
    unfolding s' by (rule lookups_cong) (simp add: frame)
  show "getEntityTombstone s' o1 ty i =
           (if o1 = owner \<and> ty = Notebook_entity \<and> i \<in> nb_id ` set nbs then None else getEntityTombstone s o1 ty i)"
    using tr by (auto simp: ts ts' getEntityTombstone_clear)
  have c: "latestEntityOperation (clearEntityTombstonesByIds owner Notebook_entity (map nb_id nbs) s1) = latestEntityOperation s1"
    by (rule lookups_cong) (simp add: frame)
  have "latestEntityOperation s' o1 ty i =
     (if owner = o1 \<and> (\<exists>c \<in> set (map notebook_upsert_change nbs). pg_entityType c = ty \<and> pg_entityId c = i)
      then Some Upsert_op else latestEntityOperation s o1 ty i)"
    unfolding s' by (subst latest_recordEntityChanges [of _ Upsert_op]) (auto simp: notebook_upsert_change_def ts c)
  then show "latestEntityOperation s' o1 ty i =
           (if o1 = owner \<and> ty = Notebook_entity \<and> i \<in> nb_id ` set nbs then Some Upsert_op
            else latestEntityOperation s o1 ty i)"
    by (auto simp: notebook_upsert_change_def)
qed


section \<open>The lookups by many identifiers, row by row\<close>

lemma find_two: "(\<lambda>row. sel row \<and> idf row = i) = P \<Longrightarrow> find (\<lambda>row. sel row \<and> idf row = i) t = find P t"
  by simp

lemma getNotesByIds_lookup:
  assumes "wf_table note_key (s_notes s)"
  shows "map_of (getNotesByIds s ids owner) i = (if i \<in> set ids \<and> truthy i then getNote s i owner else None)"
proof -
  have "find (\<lambda>r. nr_owner r = owner \<and> n_id (nr_note r) = i) (s_notes s) = get_note_row s owner i"
    unfolding get_note_row_def tget_def by (rule arg_cong [where f = "\<lambda>P. find P _"]) (auto simp: note_key_def)
  moreover have "r = r'" if "r \<in> set (s_notes s)" "r' \<in> set (s_notes s)" "nr_owner r = owner"
      "nr_owner r' = owner" "n_id (nr_note r) = n_id (nr_note r')" for r r'
    using wf_table_inj [OF assms that(1,2)] that by (simp add: note_key_def)
  ultimately show ?thesis unfolding getNotesByIds_def getNote_def by (subst collect_by_ids) auto
qed

lemma getNotebooksByIds_lookup:
  assumes "wf_table notebook_key (s_notebooks s)"
  shows "map_of (getNotebooksByIds s ids owner) i =
    (if i \<in> set ids \<and> truthy i then getNotebook s i owner else None)"
proof -
  have "find (\<lambda>r. nbr_owner r = owner \<and> nb_id (nbr_notebook r) = i) (s_notebooks s) = get_notebook_row s owner i"
    unfolding get_notebook_row_def tget_def
    by (rule arg_cong [where f = "\<lambda>P. find P _"]) (auto simp: notebook_key_def)
  moreover have "r = r'" if "r \<in> set (s_notebooks s)" "r' \<in> set (s_notebooks s)" "nbr_owner r = owner"
      "nbr_owner r' = owner" "nb_id (nbr_notebook r) = nb_id (nbr_notebook r')" for r r'
    using wf_table_inj [OF assms that(1,2)] that by (simp add: notebook_key_def)
  ultimately show ?thesis unfolding getNotebooksByIds_def getNotebook_def by (subst collect_by_ids) auto
qed

lemma getEntityTombstonesByIds_lookup:
  assumes "wf_table tombstone_key (s_tombstones s)"
  shows "map_of (getEntityTombstonesByIds s owner ty ids) i =
    (if i \<in> set ids \<and> truthy i then getEntityTombstone s owner ty i else None)"
proof -
  have "find (\<lambda>t. (t_owner t = owner \<and> t_entityType t = ty) \<and> t_entityId t = i) (s_tombstones s)
      = getEntityTombstone s owner ty i"
    unfolding getEntityTombstone_def tget_def
    by (rule arg_cong [where f = "\<lambda>P. find P _"]) (auto simp: tombstone_key_def)
  moreover have "r = r'" if "r \<in> set (s_tombstones s)" "r' \<in> set (s_tombstones s)"
      "t_owner r = owner \<and> t_entityType r = ty" "t_owner r' = owner \<and> t_entityType r' = ty"
      "t_entityId r = t_entityId r'" for r r'
    using wf_table_inj [OF assms that(1,2)] that by (simp add: tombstone_key_def)
  ultimately show ?thesis
    unfolding getEntityTombstonesByIds_def by (subst collect_by_ids) (auto simp: option.map_ident)
qed

lemma getNotebooksByIds_key: "wf_table notebook_key (s_notebooks s) \<Longrightarrow>
    map_of (getNotebooksByIds s ids owner) i = Some r \<Longrightarrow> nb_id r = i"
  by (auto simp: getNotebooksByIds_lookup getNotebook_def dest: notebook_row_key split: if_splits)

lemma getNotesByIds_key: "wf_table note_key (s_notes s) \<Longrightarrow>
    map_of (getNotesByIds s ids owner) i = Some r \<Longrightarrow> n_id r = i"
  by (auto simp: getNotesByIds_lookup getNote_def dest: note_row_key split: if_splits)

lemma distinct_fold_map_set:
  "distinct (map fst m) \<Longrightarrow> distinct (map fst (fold (\<lambda>r. map_set (k r) (v r)) rows m))"
  by (induction rows arbitrary: m) (auto simp: distinct_update)

lemma collect_by_ids_distinct: "distinct (map fst (collect_by_ids sel idf conv rows ids))"
proof -
  have "distinct (map fst m) \<Longrightarrow> distinct (map fst (fold (\<lambda>chunk m. fold (\<lambda>row m. map_set (idf row) (conv row) m)
             (filter (\<lambda>row. sel row \<and> idf row \<in> set chunk) rows) m) cs m))" for cs m
    by (induction cs arbitrary: m) (auto simp: distinct_fold_map_set)
  then show ?thesis by (simp add: collect_by_ids_def)
qed

section \<open>The invariant is kept\<close>

lemma fk_ok_lookup:
  assumes "wf_table note_key (s_notes s)"
  shows "fk_ok s \<longleftrightarrow> (\<forall>o1 i r nb. get_note_row s o1 i = Some r \<longrightarrow> n_notebookId (nr_note r) = Some nb \<longrightarrow>
     get_notebook_row s o1 nb \<noteq> None)"
  unfolding fk_ok_def
proof (intro iffI ballI allI impI)
  fix o1 i r nb
  assume "\<forall>r \<in> set (s_notes s). \<forall>nb. n_notebookId (nr_note r) = Some nb \<longrightarrow> get_notebook_row s (nr_owner r) nb \<noteq> None"
    and "get_note_row s o1 i = Some r" "n_notebookId (nr_note r) = Some nb"
  then show "get_notebook_row s o1 nb \<noteq> None"
    using note_row_key [of s o1 i r] by (auto simp: get_note_row_def dest: tget_set)
next
  fix r nb
  assume a: "\<forall>o1 i r nb. get_note_row s o1 i = Some r \<longrightarrow> n_notebookId (nr_note r) = Some nb \<longrightarrow>
     get_notebook_row s o1 nb \<noteq> None" and "r \<in> set (s_notes s)" "n_notebookId (nr_note r) = Some nb"
  moreover from this have "get_note_row s (nr_owner r) (n_id (nr_note r)) = Some r"
    using wf_table_tget [OF assms, of r] by (simp add: get_note_row_def note_key_def)
  ultimately show "get_notebook_row s (nr_owner r) nb \<noteq> None" by blast
qed

lemma wf_server_cong:
  assumes "s_notes s' = s_notes s" "s_notebooks s' = s_notebooks s" "s_devices s' = s_devices s"
    "s_tombstones s' = s_tombstones s" "s_changes s' = s_changes s" "s_lastRevision s' = s_lastRevision s"
    "s_meta s' = s_meta s"
  shows "wf_server s' = wf_server s"
  using assms lookups_cong(1,2,4,6) [of s' s]
  by (simp add: wf_server_def wf_tables_def wf_log_def fk_ok_def live_ok_def)

lemma live_ok_rules:
  assumes "wf_server s"
  shows "get_note_row s o1 i \<noteq> None \<longleftrightarrow> latestEntityOperation s o1 Note_entity i = Some Upsert_op"
    and "get_notebook_row s o1 i \<noteq> None \<longleftrightarrow> latestEntityOperation s o1 Notebook_entity i = Some Upsert_op"
    and "get_note_row s o1 i \<noteq> None \<Longrightarrow> getEntityTombstone s o1 Note_entity i = None"
    and "get_notebook_row s o1 i \<noteq> None \<Longrightarrow> getEntityTombstone s o1 Notebook_entity i = None"
    and "ty \<noteq> Device_entity \<Longrightarrow> getEntityTombstone s o1 ty i \<noteq> None \<Longrightarrow> latestEntityOperation s o1 ty i = Some Delete_op"
  using assms unfolding wf_server_def live_ok_def by blast+

lemma wf_putNotes:
  assumes wf: "wf_server s" and put: "putNotes ns owner rt s = Inr s'" and d: "distinct (map n_id ns)"
    and tr: "\<forall>n \<in> set ns. truthy (n_id n)"
  shows "wf_server s'"
proof -
  note spec = putNotes_spec [OF put d tr]
  have t: "wf_tables s'" using wf spec(2,5) spec(1,7,8) by (simp add: wf_server_def wf_tables_def)
  have nb: "get_notebook_row s' = get_notebook_row s" by (rule lookups_cong) (rule spec)
  have fk: "fk_ok s'"
  proof (subst fk_ok_lookup)
    show "wf_table note_key (s_notes s')" using t by (simp add: wf_tables_def)
    have old: "\<And>o1 i r nb. get_note_row s o1 i = Some r \<Longrightarrow> n_notebookId (nr_note r) = Some nb \<Longrightarrow>
         get_notebook_row s o1 nb \<noteq> None"
      using wf fk_ok_lookup [of s] by (auto simp: wf_server_def wf_tables_def)
    show "\<forall>o1 i r nb. get_note_row s' o1 i = Some r \<longrightarrow> n_notebookId (nr_note r) = Some nb \<longrightarrow>
        get_notebook_row s' o1 nb \<noteq> None"
    proof (intro allI impI)
      fix o1 i r nb
      assume a: "get_note_row s' o1 i = Some r" "n_notebookId (nr_note r) = Some nb"
      show "get_notebook_row s' o1 nb \<noteq> None"
      proof (cases "get_note_row s o1 i = Some r")
        case True
        then show ?thesis using old a nb by metis
      next
        case False
        with a spec(12) [of o1 i] obtain n where "n \<in> set ns" "o1 = owner"
            "r = written_note_row owner rt n (get_note_row s owner i)"
          by (auto split: option.splits if_splits dest: findSomeD)
        then show ?thesis using a(2) spec(11) nb by (auto simp: note_refs_ok_def)
      qed
    qed
  qed
  have "live_ok s'" unfolding live_ok_def
  proof (intro allI conjI impI)
    fix o1 i assume a: "get_note_row s' o1 i \<noteq> None"
    have "get_note_row s o1 i \<noteq> None \<or> (o1 = owner \<and> i \<in> n_id ` set ns)"
      using a by (auto simp: spec(12) split: option.splits if_splits dest: findSomeD)
    then show "latestEntityOperation s' o1 Note_entity i = Some Upsert_op" "getEntityTombstone s' o1 Note_entity i = None"
      using live_ok_rules(1,3) [OF wf, of o1 i] by (auto simp: spec(13,14))
  next
    fix o1 i assume a: "get_notebook_row s' o1 i \<noteq> None"
    then show "latestEntityOperation s' o1 Notebook_entity i = Some Upsert_op"
        "getEntityTombstone s' o1 Notebook_entity i = None"
      using live_ok_rules(2,4) [OF wf, of o1 i] by (auto simp: spec(13,14) nb)
  next
    fix o1 i ty assume "ty \<noteq> Device_entity" "getEntityTombstone s' o1 ty i \<noteq> None"
    then show "latestEntityOperation s' o1 ty i = Some Delete_op"
      using live_ok_rules(5) [OF wf, of ty o1 i] by (auto simp: spec(13,14) split: if_splits)
  next
    fix o1 i assume "latestEntityOperation s' o1 Note_entity i = Some Upsert_op"
    then have "get_note_row s o1 i \<noteq> None \<or> (o1 = owner \<and> i \<in> n_id ` set ns)"
      unfolding spec(14) live_ok_rules(1) [OF wf] by (metis (full_types))
    then show "get_note_row s' o1 i \<noteq> None"
      by (auto simp: spec(12) find_None_iff split: option.splits)
  next
    fix o1 i assume "latestEntityOperation s' o1 Notebook_entity i = Some Upsert_op"
    then show "get_notebook_row s' o1 i \<noteq> None"
      unfolding nb live_ok_rules(2) [OF wf] by (simp add: spec(14))
  qed
  with t fk spec(9) wf show ?thesis by (simp add: wf_server_def)
qed

lemma wf_putNotebooks:
  assumes wf: "wf_server s" and s': "s' = putNotebooks nbs owner rt s" and d: "distinct (map nb_id nbs)"
    and tr: "\<forall>nb \<in> set nbs. truthy (nb_id nb)"
  shows "wf_server s'"
proof -
  note spec = putNotebooks_spec [OF s' d tr]
  have t: "wf_tables s'" using wf spec(2,5) spec(1,7,8) by (simp add: wf_server_def wf_tables_def)
  have n: "get_note_row s' = get_note_row s" by (rule lookups_cong) (rule spec)
  have grow: "get_notebook_row s o1 i \<noteq> None \<Longrightarrow> get_notebook_row s' o1 i \<noteq> None" for o1 i
    by (simp add: spec(11) split: option.splits)
  have "fk_ok s'" using wf grow by (auto simp: fk_ok_def spec(1) wf_server_def)
  moreover have "live_ok s'" unfolding live_ok_def
  proof (intro allI conjI impI)
    fix o1 i assume "get_note_row s' o1 i \<noteq> None"
    then show "latestEntityOperation s' o1 Note_entity i = Some Upsert_op" "getEntityTombstone s' o1 Note_entity i = None"
      using live_ok_rules(1,3) [OF wf, of o1 i] by (auto simp: spec(12,13) n)
  next
    fix o1 i assume a: "get_notebook_row s' o1 i \<noteq> None"
    have "get_notebook_row s o1 i \<noteq> None \<or> (o1 = owner \<and> i \<in> nb_id ` set nbs)"
      using a by (auto simp: spec(11) split: option.splits if_splits dest: findSomeD)
    then show "latestEntityOperation s' o1 Notebook_entity i = Some Upsert_op"
        "getEntityTombstone s' o1 Notebook_entity i = None"
      using live_ok_rules(2,4) [OF wf, of o1 i] by (auto simp: spec(12,13))
  next
    fix o1 i ty assume "ty \<noteq> Device_entity" "getEntityTombstone s' o1 ty i \<noteq> None"
    then show "latestEntityOperation s' o1 ty i = Some Delete_op"
      using live_ok_rules(5) [OF wf, of ty o1 i] by (auto simp: spec(12,13) split: if_splits)
  next
    fix o1 i assume "latestEntityOperation s' o1 Notebook_entity i = Some Upsert_op"
    then have "get_notebook_row s o1 i \<noteq> None \<or> (o1 = owner \<and> i \<in> nb_id ` set nbs)"
      unfolding spec(13) live_ok_rules(2) [OF wf] by (metis (full_types))
    then show "get_notebook_row s' o1 i \<noteq> None"
      by (auto simp: spec(11) find_None_iff split: option.splits)
  next
    fix o1 i assume "latestEntityOperation s' o1 Note_entity i = Some Upsert_op"
    then show "get_note_row s' o1 i \<noteq> None"
      unfolding n live_ok_rules(1) [OF wf] by (simp add: spec(13))
  qed
  ultimately show ?thesis using t spec(9) wf by (simp add: wf_server_def)
qed

lemma wf_server_transfer:
  assumes wf: "wf_server s" and "wf_tables s'" "wf_log s'" and n: "s_notes s' = s_notes s"
    and nb: "get_notebook_row s' = get_notebook_row s" and t: "getEntityTombstone s' = getEntityTombstone s"
    and l: "\<And>o1 ty i. ty \<noteq> Device_entity \<Longrightarrow> latestEntityOperation s' o1 ty i = latestEntityOperation s o1 ty i"
  shows "wf_server s'"
proof -
  have "get_note_row s' = get_note_row s" by (rule lookups_cong) (rule n)
  moreover have "fk_ok s'" using wf by (simp add: fk_ok_def n nb wf_server_def)
  moreover have "latestEntityOperation s' o1 Note_entity i = latestEntityOperation s o1 Note_entity i"
      "latestEntityOperation s' o1 Notebook_entity i = latestEntityOperation s o1 Notebook_entity i" for o1 i
    using l by simp_all
  moreover have "ty \<noteq> Device_entity \<Longrightarrow> getEntityTombstone s o1 ty i \<noteq> None \<Longrightarrow> latestEntityOperation s' o1 ty i = Some Delete_op" for ty o1 i
    using l live_ok_rules(5) [OF wf] by simp
  ultimately have "live_ok s'" unfolding live_ok_def t nb
    using live_ok_rules(1-4) [OF wf] by simp
  with assms(2,3) \<open>fk_ok s'\<close> show ?thesis by (simp add: wf_server_def)
qed

lemma upsertDevice_spec:
  assumes "upsertDevice d seenAt owner e s = Inr s'"
  shows "s_notes s' = s_notes s" "s_notebooks s' = s_notebooks s" "s_tombstones s' = s_tombstones s"
    "s_noteVersions s' = s_noteVersions s" "s_notebookVersions s' = s_notebookVersions s"
    "s_meta s' = s_meta s" "s_users s' = s_users s"
    and "get_device_row s' o1 i = (if o1 = owner \<and> i = d_id d
          then Some \<lparr>dr_owner = owner, dr_device = d, dr_lastSeenAt = seenAt\<rparr> else get_device_row s o1 i)"
    and "wf_table device_key (s_devices s) \<Longrightarrow> wf_table device_key (s_devices s')"
    and "wf_log s \<Longrightarrow> wf_log s'" and "log_grows owner s s'"
    and "latestEntityOperation s' o1 ty i = (if o1 = owner \<and> ty = Device_entity \<and> i = d_id d then Some Upsert_op
          else latestEntityOperation s o1 ty i)"
proof -
  define t where "t = s\<lparr>s_devices := tput device_key \<lparr>dr_owner = owner, dr_device = d, dr_lastSeenAt = seenAt\<rparr> (s_devices s)\<rparr>"
  from assms have s': "s' = t \<and> latestEntityOperation s owner Device_entity (d_id d) = Some Upsert_op
      \<or> s' = insert_change owner Device_entity (d_id d) Upsert_op seenAt t"
    by (auto simp: upsertDevice_def Let_def recordEntityChange_def t_def split: if_splits)
  have dev: "s_devices s' = s_devices t" using s' by (auto simp: frame)
  show "s_notes s' = s_notes s" "s_notebooks s' = s_notebooks s" "s_tombstones s' = s_tombstones s"
    "s_noteVersions s' = s_noteVersions s" "s_notebookVersions s' = s_notebookVersions s"
    "s_meta s' = s_meta s" "s_users s' = s_users s"
    using s' by (auto simp: frame t_def)
  show "get_device_row s' o1 i = (if o1 = owner \<and> i = d_id d
          then Some \<lparr>dr_owner = owner, dr_device = d, dr_lastSeenAt = seenAt\<rparr> else get_device_row s o1 i)"
    by (auto simp: get_device_row_def dev t_def tget_tput device_key_def)
  show "wf_table device_key (s_devices s) \<Longrightarrow> wf_table device_key (s_devices s')"
    by (simp add: dev t_def wf_table_tput)
  have "wf_log t = wf_log s" by (rule wf_log_cong) (simp_all add: t_def)
  then show "wf_log s \<Longrightarrow> wf_log s'" using s' by (auto intro: wf_log_insert_change)
  have "log_grows owner s t" by (rule log_grows_refl) (simp_all add: t_def)
  then show "log_grows owner s s'" using s' by (auto intro: log_grows_insert_change log_grows_trans)
  have "latestEntityOperation t = latestEntityOperation s" by (rule lookups_cong) (simp add: t_def)
  then show "latestEntityOperation s' o1 ty i = (if o1 = owner \<and> ty = Device_entity \<and> i = d_id d then Some Upsert_op
          else latestEntityOperation s o1 ty i)"
    using s' by (auto simp: latest_insert_change)
qed

lemma wf_upsertDevice:
  assumes wf: "wf_server s" and up: "upsertDevice d seenAt owner e s = Inr s'"
  shows "wf_server s'"
proof (rule wf_server_transfer [OF wf])
  note spec = upsertDevice_spec [OF up]
  show "wf_tables s'" "wf_log s'" using wf spec(1-3,6,9,10) by (simp_all add: wf_server_def wf_tables_def)
  show "s_notes s' = s_notes s" "get_notebook_row s' = get_notebook_row s" "getEntityTombstone s' = getEntityTombstone s"
    by (rule spec, (rule lookups_cong, rule spec)+)
  show "latestEntityOperation s' o1 ty i = latestEntityOperation s o1 ty i" if "ty \<noteq> Device_entity" for o1 ty i
    using that by (simp add: spec(12))
qed

lemma upsertDevice_total:
  assumes "get_device_row s owner (d_id d) \<noteq> None \<or>
     int (length (filter (\<lambda>r. dr_owner r = owner) (s_devices s))) < devicesPerAccount SYNC_LIMITS"
  shows "\<exists>s'. upsertDevice d seenAt owner e s = Inr s'"
  using assms by (auto simp: upsertDevice_def Let_def)

lemma saveNoteSnapshots_eq:
  "saveNoteSnapshots e snaps owner s = s\<lparr>s_ticks := Suc (s_ticks s), s_noteVersions := s_noteVersions s @
     map (\<lambda>(n, reason). \<lparr>nv_owner = owner, nv_note = stored_note n,
            nv_savedAt = to_iso (clock e (s_ticks s)), nv_reason = reason\<rparr>) snaps\<rparr>"
proof -
  have "fold (\<lambda>chunk s. s\<lparr>s_noteVersions := s_noteVersions s @ map f chunk\<rparr>) cs s =
      s\<lparr>s_noteVersions := s_noteVersions s @ map f (concat cs)\<rparr>" for f and cs :: "(Note \<times> snapshot_reason) list list" and s :: server
    by (induction cs arbitrary: s) auto
  then show ?thesis by (simp add: saveNoteSnapshots_def read_clock_def concat_chunks)
qed

lemma saveNotebookSnapshots_eq:
  "saveNotebookSnapshots e snaps owner s = s\<lparr>s_ticks := Suc (s_ticks s), s_notebookVersions := s_notebookVersions s @
     map (\<lambda>(nb, reason). \<lparr>nbv_owner = owner, nbv_notebook = nb,
            nbv_savedAt = to_iso (clock e (s_ticks s)), nbv_reason = reason\<rparr>) snaps\<rparr>"
proof -
  have "fold (\<lambda>chunk s. s\<lparr>s_notebookVersions := s_notebookVersions s @ map f chunk\<rparr>) cs s =
      s\<lparr>s_notebookVersions := s_notebookVersions s @ map f (concat cs)\<rparr>" for f and cs :: "(Notebook \<times> snapshot_reason) list list" and s :: server
    by (induction cs arbitrary: s) auto
  then show ?thesis by (simp add: saveNotebookSnapshots_def read_clock_def concat_chunks)
qed


section \<open>Writes are logged\<close>

text \<open>A new entry of the log, with a revision above all those handed out in \<open>s\<close>.\<close>

definition logged :: "server \<Rightarrow> server \<Rightarrow> string \<Rightarrow> entity_type \<Rightarrow> string \<Rightarrow> entity_operation \<Rightarrow> bool" where
  "logged s s' owner ty i op \<longleftrightarrow> (\<exists>ch \<in> set (s_changes s'). s_lastRevision s < ch_revision ch \<and>
     ch_owner ch = owner \<and> ch_entityType ch = ty \<and> ch_entityId ch = i \<and> ch_operation ch = op)"

lemma logged_mono:
  "logged s t owner ty i op \<Longrightarrow> s_lastRevision s0 \<le> s_lastRevision s \<Longrightarrow> log_grows o1 t u \<Longrightarrow> logged s0 u owner ty i op"
  unfolding logged_def log_grows_def by (elim bexE exE conjE, rule bexI) auto

lemma logged_insert_change: "logged s (insert_change owner ty i op ts s) owner ty i op"
  by (auto simp: logged_def insert_change_def)

lemma logged_recordEntityChanges:
  "c \<in> set cs \<Longrightarrow> logged s (recordEntityChanges cs owner s) owner (pg_entityType c) (pg_entityId c) (pg_operation c)"
  unfolding recordEntityChanges_eq
proof (induction cs arbitrary: s)
  case Nil
  then show ?case by simp
next
  case (Cons x cs)
  let ?f = "\<lambda>c. insert_change owner (pg_entityType c) (pg_entityId c) (pg_operation c) (pg_updatedAt c)"
  have g: "log_grows owner (?f x s) (fold ?f cs (?f x s))" by (rule log_grows_fold) (rule log_grows_insert_change)
  have l: "s_lastRevision s \<le> s_lastRevision (?f x s)" by (simp add: insert_change_def)
  show ?case
  proof (cases "c = x")
    case True
    show ?thesis using logged_mono [OF logged_insert_change order_refl g] True by simp
  next
    case False
    with Cons have "logged (?f x s) (fold ?f cs (?f x s)) owner (pg_entityType c) (pg_entityId c) (pg_operation c)" by simp
    from logged_mono [OF this l log_grows_refl [OF refl refl]] show ?thesis by simp
  qed
qed

lemma upsert_notes_frame:
  "fold_err (upsert_note_row owner rt) ns s = Inr s' \<Longrightarrow> s_lastRevision s' = s_lastRevision s"
  by (rule fold_err_frame) (auto simp: upsert_note_row_eq split: if_splits)

lemma putNotes_logged:
  assumes "putNotes ns owner rt s = Inr s'" "n \<in> set ns"
  shows "logged s s' owner Note_entity (n_id n) Upsert_op"
proof -
  from assms obtain s1 where f: "fold_err (upsert_note_row owner rt) ns s = Inr s1"
    and s': "s' = recordEntityChanges (map note_upsert_change ns) owner
             (clearEntityTombstonesByIds owner Note_entity (map n_id ns) s1)"
    by (auto simp: putNotes_def and_then_Inr fold_err_chunks split: if_splits)
  have "logged (clearEntityTombstonesByIds owner Note_entity (map n_id ns) s1) s' owner
     (pg_entityType (note_upsert_change n)) (pg_entityId (note_upsert_change n)) (pg_operation (note_upsert_change n))"
    unfolding s' by (rule logged_recordEntityChanges) (use assms(2) in simp)
  then show ?thesis by (simp add: logged_def note_upsert_change_def frame upsert_notes_frame [OF f])
qed

lemma putNotebooks_logged:
  assumes "nb \<in> set nbs"
  shows "logged s (putNotebooks nbs owner rt s) owner Notebook_entity (nb_id nb) Upsert_op"
proof -
  let ?t = "fold (upsert_notebook_row owner rt) nbs s"
  let ?u = "clearEntityTombstonesByIds owner Notebook_entity (map nb_id nbs) ?t"
  have r: "s_lastRevision ?t = s_lastRevision s" by (rule fold_frame) (simp add: upsert_notebook_row_eq)
  have "logged ?u (recordEntityChanges (map notebook_upsert_change nbs) owner ?u) owner
     (pg_entityType (notebook_upsert_change nb)) (pg_entityId (notebook_upsert_change nb)) (pg_operation (notebook_upsert_change nb))"
    by (rule logged_recordEntityChanges) (use assms in simp)
  moreover have "nbs \<noteq> []" using assms by auto
  ultimately show ?thesis
    by (simp add: logged_def notebook_upsert_change_def frame r putNotebooks_def fold_chunks)
qed

section \<open>Checking the invariant on a concrete database\<close>

text \<open>The quantifiers of \<open>live_ok\<close> range over the stored rows.\<close>

definition live_check :: "server \<Rightarrow> bool" where
  "live_check s \<longleftrightarrow>
     (\<forall>r \<in> set (s_notes s). latestEntityOperation s (nr_owner r) Note_entity (n_id (nr_note r)) = Some Upsert_op \<and>
        getEntityTombstone s (nr_owner r) Note_entity (n_id (nr_note r)) = None) \<and>
     (\<forall>r \<in> set (s_notebooks s). latestEntityOperation s (nbr_owner r) Notebook_entity (nb_id (nbr_notebook r)) = Some Upsert_op \<and>
        getEntityTombstone s (nbr_owner r) Notebook_entity (nb_id (nbr_notebook r)) = None) \<and>
     (\<forall>t \<in> set (s_tombstones s). t_entityType t \<noteq> Device_entity \<longrightarrow>
        latestEntityOperation s (t_owner t) (t_entityType t) (t_entityId t) = Some Delete_op) \<and>
     (\<forall>c \<in> set (s_changes s). latestEntityOperation s (ch_owner c) (ch_entityType c) (ch_entityId c) = Some Upsert_op \<longrightarrow>
        (ch_entityType c = Note_entity \<longrightarrow> get_note_row s (ch_owner c) (ch_entityId c) \<noteq> None) \<and>
        (ch_entityType c = Notebook_entity \<longrightarrow> get_notebook_row s (ch_owner c) (ch_entityId c) \<noteq> None))"

lemma latestEntityOperation_mem:
  "latestEntityOperation s o1 ty i = Some op \<Longrightarrow>
   \<exists>c \<in> set (s_changes s). ch_owner c = o1 \<and> ch_entityType c = ty \<and> ch_entityId c = i"
proof -
  assume "latestEntityOperation s o1 ty i = Some op"
  then have "changes_of s o1 ty i \<noteq> []" by (auto simp: latestEntityOperation_last split: if_splits)
  then obtain c where "c \<in> set (changes_of s o1 ty i)" by (meson last_in_set)
  then show ?thesis by (auto simp: changes_of_def)
qed

definition wf_check :: "server \<Rightarrow> bool" where
  "wf_check s \<longleftrightarrow> wf_tables s \<and> wf_log s \<and> fk_ok s \<and> live_check s"

lemma fk_ok_code [code]: "fk_ok s \<longleftrightarrow> (\<forall>r \<in> set (s_notes s). case n_notebookId (nr_note r) of
     None \<Rightarrow> True | Some nb \<Rightarrow> get_notebook_row s (nr_owner r) nb \<noteq> None)"
  by (auto simp: fk_ok_def split: option.splits)

lemma wf_check_sound: "wf_check s \<Longrightarrow> wf_server s"
proof -
  assume a: "wf_check s"
  have "live_ok s" unfolding live_ok_def
  proof (intro allI conjI impI)
    fix o1 i assume "get_note_row s o1 i \<noteq> None"
    then obtain r where "get_note_row s o1 i = Some r" by blast
    then have "r \<in> set (s_notes s)" "nr_owner r = o1" "n_id (nr_note r) = i"
      using note_row_key [of s o1 i r] by (auto simp: get_note_row_def dest: tget_set)
    with a show "latestEntityOperation s o1 Note_entity i = Some Upsert_op" "getEntityTombstone s o1 Note_entity i = None"
      by (auto simp: wf_check_def live_check_def)
  next
    fix o1 i assume "get_notebook_row s o1 i \<noteq> None"
    then obtain r where "get_notebook_row s o1 i = Some r" by blast
    then have "r \<in> set (s_notebooks s)" "nbr_owner r = o1" "nb_id (nbr_notebook r) = i"
      using notebook_row_key [of s o1 i r] by (auto simp: get_notebook_row_def dest: tget_set)
    with a show "latestEntityOperation s o1 Notebook_entity i = Some Upsert_op" "getEntityTombstone s o1 Notebook_entity i = None"
      by (auto simp: wf_check_def live_check_def)
  next
    fix o1 i ty assume ty: "ty \<noteq> Device_entity" and "getEntityTombstone s o1 ty i \<noteq> None"
    then obtain t where "getEntityTombstone s o1 ty i = Some t" by blast
    then have "t \<in> set (s_tombstones s)" "t_owner t = o1" "t_entityType t = ty" "t_entityId t = i"
      using tombstone_row_key [of s o1 ty i t] by (auto simp: getEntityTombstone_def dest: tget_set)
    with a ty show "latestEntityOperation s o1 ty i = Some Delete_op"
      by (auto simp: wf_check_def live_check_def)
  next
    fix o1 i assume l: "latestEntityOperation s o1 Note_entity i = Some Upsert_op"
    from latestEntityOperation_mem [OF l] a l show "get_note_row s o1 i \<noteq> None"
      by (auto simp: wf_check_def live_check_def)
  next
    fix o1 i assume l: "latestEntityOperation s o1 Notebook_entity i = Some Upsert_op"
    from latestEntityOperation_mem [OF l] a l show "get_notebook_row s o1 i \<noteq> None"
      by (auto simp: wf_check_def live_check_def)
  qed
  with a show ?thesis by (simp add: wf_check_def wf_server_def)
qed

end
