(* ===== verification/PushProps.thy ===== *)
theory PushProps
  imports ServerInv "HOL-Library.Multiset"
begin

text \<open>
  The properties of \<open>pushChanges\<close>: what it answers, what it writes and under which condition, that
  it keeps the invariant, and which errors it can raise.
\<close>

section \<open>The answer of one decision\<close>

primrec decision_accepts :: "'r decision \<Rightarrow> 'r list" where
  "decision_accepts (Accept r w) = [r]"
| "decision_accepts (Reject l r reason) = []"

primrec decision_writes :: "'r decision \<Rightarrow> 'r list" where
  "decision_writes (Accept r w) = (if w then [r] else [])"
| "decision_writes (Reject l r reason) = []"

primrec decision_rejects :: "'r decision \<Rightarrow> ('r \<times> 'r \<times> conflict_reason option) list" where
  "decision_rejects (Accept r w) = []"
| "decision_rejects (Reject l r reason) = [(l, r, reason)]"

primrec decision_snapshots :: "'r decision \<Rightarrow> ('r \<times> snapshot_reason) list" where
  "decision_snapshots (Accept r w) = (if w then [(r, Push_reason)] else [])"
| "decision_snapshots (Reject l r reason) = [(l, Conflict_reason), (r, Conflict_reason)]"

definition conflict_of :: "'r entity_ops \<Rightarrow> server \<Rightarrow> string \<Rightarrow> string \<Rightarrow> 'r sync_conflict \<Rightarrow>
    'r \<times> 'r \<times> conflict_reason option \<Rightarrow> bool" where
  "conflict_of ops s owner deviceName c x \<longleftrightarrow>
     (case x of (l, r, reason) \<Rightarrow> \<exists>newId. c = makeConflict ops s newId l r deviceName owner reason)"

lemma apply_decision_fields:
  "pa_accepted (apply_decision ops e s owner dn d acc) = pa_accepted acc @ map (accepted ops) (decision_accepts d)"
  "pa_toWrite (apply_decision ops e s owner dn d acc) = pa_toWrite acc @ decision_writes d"
  "pa_snapshots (apply_decision ops e s owner dn d acc) = pa_snapshots acc @ decision_snapshots d"
  "\<exists>cs. pa_conflicts (apply_decision ops e s owner dn d acc) = pa_conflicts acc @ cs \<and>
     list_all2 (conflict_of ops s owner dn) cs (decision_rejects d)"
  by (cases d; auto simp: apply_decision_def random_uuid_def conflict_of_def)+

lemma empty_acc_simps [simp]:
  "pa_accepted (empty_acc k) = []" "pa_conflicts (empty_acc k) = []" "pa_toWrite (empty_acc k) = []"
  "pa_snapshots (empty_acc k) = []"
  "pa_active (empty_acc k) = []" "pa_deleted (empty_acc k) = []"
  by (simp_all add: empty_acc_def)

lemma remember_notebook_fields [simp]:
  "pa_accepted (remember_notebook d acc) = pa_accepted acc"
  "pa_toWrite (remember_notebook d acc) = pa_toWrite acc"
  "pa_conflicts (remember_notebook d acc) = pa_conflicts acc"
  "pa_snapshots (remember_notebook d acc) = pa_snapshots acc"
  "pa_fresh (remember_notebook d acc) = pa_fresh acc"
  by (cases d; simp add: remember_notebook_def)+

text \<open>The loop over the changes, as the list of the decisions it took.\<close>

lemma push_loop:
  assumes "\<And>c acc. \<exists>d acc'. dec c acc d \<and> f c acc = acc' \<and>
      pa_accepted acc' = pa_accepted acc @ map (accepted ops) (decision_accepts d) \<and>
      pa_toWrite acc' = pa_toWrite acc @ decision_writes d \<and>
      pa_snapshots acc' = pa_snapshots acc @ decision_snapshots d \<and>
      (\<exists>cs. pa_conflicts acc' = pa_conflicts acc @ cs \<and> list_all2 (conflict_of ops s owner dn) cs (decision_rejects d))"
  shows "\<exists>ds. list_all2 (\<lambda>c d. \<exists>acc. dec c acc d) changes ds \<and>
      pa_accepted (fold f changes acc) = pa_accepted acc @ map (accepted ops) (concat (map decision_accepts ds)) \<and>
      pa_toWrite (fold f changes acc) = pa_toWrite acc @ concat (map decision_writes ds) \<and>
      pa_snapshots (fold f changes acc) = pa_snapshots acc @ concat (map decision_snapshots ds) \<and>
      (\<exists>cs. pa_conflicts (fold f changes acc) = pa_conflicts acc @ cs \<and>
         list_all2 (conflict_of ops s owner dn) cs (concat (map decision_rejects ds)))"
proof (induction changes arbitrary: acc)
  case Nil
  then show ?case by (intro exI [of _ "[]"]) simp
next
  case (Cons c changes)
  from assms [of c acc] obtain d cs0 where d: "dec c acc d"
      "pa_accepted (f c acc) = pa_accepted acc @ map (accepted ops) (decision_accepts d)"
      "pa_toWrite (f c acc) = pa_toWrite acc @ decision_writes d"
      "pa_snapshots (f c acc) = pa_snapshots acc @ decision_snapshots d"
      "pa_conflicts (f c acc) = pa_conflicts acc @ cs0"
      "list_all2 (conflict_of ops s owner dn) cs0 (decision_rejects d)" by blast
  from Cons.IH [of "f c acc"] obtain ds cs1 where ds:
      "list_all2 (\<lambda>c d. \<exists>acc. dec c acc d) changes ds"
      "pa_accepted (fold f changes (f c acc)) = pa_accepted (f c acc) @ map (accepted ops) (concat (map decision_accepts ds))"
      "pa_toWrite (fold f changes (f c acc)) = pa_toWrite (f c acc) @ concat (map decision_writes ds)"
      "pa_snapshots (fold f changes (f c acc)) = pa_snapshots (f c acc) @ concat (map decision_snapshots ds)"
      "pa_conflicts (fold f changes (f c acc)) = pa_conflicts (f c acc) @ cs1"
      "list_all2 (conflict_of ops s owner dn) cs1 (concat (map decision_rejects ds))" by blast
  have "list_all2 (conflict_of ops s owner dn) (cs0 @ cs1) (decision_rejects d @ concat (map decision_rejects ds))"
    using d(6) ds(6) by (rule list_all2_appendI)
  then show ?case using d ds by (intro exI [of _ "d # ds"]) auto
qed

section \<open>Decisions\<close>

lemma conflict_of_id: "conflict_of ops s owner dn c (l, r, reason) \<Longrightarrow> sc_entityId c = eo_id ops l \<and> sc_entityType c = eo_type ops"
  by (auto simp: conflict_of_def makeConflict_def)

lemma ops_simps [simp]:
  "eo_type note_ops = Note_entity" "eo_id note_ops = n_id" "eo_version note_ops = n_version"
  "eo_type notebook_ops = Notebook_entity" "eo_id notebook_ops = nb_id" "eo_version notebook_ops = nb_version"
  "eo_deletedAt note_ops = n_deletedAt" "eo_deletedAt notebook_ops = nb_deletedAt"
  by (simp_all add: note_ops_def notebook_ops_def)

lemma noteWithSyncableNotebookRefsFromMap_id [simp]:
  "n_id (fst (noteWithSyncableNotebookRefsFromMap n m)) = n_id n"
  "n_version (fst (noteWithSyncableNotebookRefsFromMap n m)) = n_version n"
  "n_deletedAt (fst (noteWithSyncableNotebookRefsFromMap n m)) = n_deletedAt n"
  by (simp_all add: noteWithSyncableNotebookRefsFromMap_def Let_def)

lemma decideNotebook_id:
  assumes "\<And>i r. map_of remotes i = Some r \<Longrightarrow> nb_id r = i"
  shows "decideNotebook e opts remotes ts cands act del change = Accept r w \<Longrightarrow> nb_id r = nb_id (c_record change)"
    and "decideNotebook e opts remotes ts cands act del change = Reject l r0 reason \<Longrightarrow> nb_id l = nb_id (c_record change)"
  using assms unfolding decideNotebook_def Let_def by (auto split: option.splits if_splits)

lemma decideNote_id:
  assumes "\<And>i r. map_of remotes i = Some r \<Longrightarrow> n_id r = i"
  shows "decideNote e opts remotes ts nbs change = Accept r w \<Longrightarrow> n_id r = n_id (c_record change)"
    and "decideNote e opts remotes ts nbs change = Reject l r0 reason \<Longrightarrow> n_id l = n_id (c_record change)"
  using assms unfolding decideNote_def Let_def
  by (auto split: option.splits if_splits prod.splits
      simp: noteWithSyncableNotebookRefsFromMap_def Let_def)

lemma decision_ids_mset:
  assumes "list_all2 (\<lambda>c d. (\<forall>r \<in> set (decision_accepts d). idr r = idc c) \<and>
      (\<forall>x \<in> set (decision_rejects d). idr (fst x) = idc c)) changes ds"
  shows "mset (map idr (concat (map decision_accepts ds))) + mset (map (idr \<circ> fst) (concat (map decision_rejects ds)))
    = mset (map idc changes)"
  using assms
proof (induction rule: list_all2_induct)
  case Nil
  then show ?case by simp
next
  case (Cons c cs d ds)
  then show ?case by (cases d) auto
qed


section \<open>The two loops\<close>

definition notebook_ids_of :: "push_request \<Rightarrow> string list" where
  "notebook_ids_of req = map (nb_id \<circ> c_record) (pr_notebooks req)"

definition note_ids_of :: "push_request \<Rightarrow> string list" where
  "note_ids_of req = map (n_id \<circ> c_record) (pr_notes req)"

text \<open>What the loop body decides for a pushed notebook, at some point of the loop.\<close>

definition notebook_decision ::
  "env \<Rightarrow> push_request \<Rightarrow> string \<Rightarrow> push_options \<Rightarrow> server \<Rightarrow> Notebook entity_change
   \<Rightarrow> Notebook push_acc \<Rightarrow> Notebook decision" where
  "notebook_decision e req owner opts s c acc =
     (let remotes = getNotebooksByIds s (notebook_ids_of req) owner
      in decideNotebook e opts remotes
           (getEntityTombstonesByIds s owner Notebook_entity (filter (\<lambda>i. map_of remotes i = None) (notebook_ids_of req)))
           (getActiveNotebookDuplicateCandidates s owner (map c_record (pr_notebooks req)))
           (pa_active acc) (pa_deleted acc) c)"

definition syncable_notebooks :: "push_request \<Rightarrow> string \<Rightarrow> Notebook list \<Rightarrow> server \<Rightarrow> (string \<times> Notebook) list" where
  "syncable_notebooks req owner notebooksToWrite s =
     fold (\<lambda>nb. map_set (nb_id nb) nb) notebooksToWrite
       (getNotebooksByIds s (concat (map (noteNotebookIds \<circ> c_record) (pr_notes req))) owner)"

definition note_decision ::
  "env \<Rightarrow> push_request \<Rightarrow> string \<Rightarrow> push_options \<Rightarrow> Notebook list \<Rightarrow> server \<Rightarrow> Note entity_change \<Rightarrow> Note decision" where
  "note_decision e req owner opts notebooksToWrite s c =
     (let remotes = getNotesByIds s (note_ids_of req) owner
      in decideNote e opts remotes
           (getEntityTombstonesByIds s owner Note_entity (filter (\<lambda>i. map_of remotes i = None) (note_ids_of req)))
           (syncable_notebooks req owner notebooksToWrite s) c)"

lemma pushNotebooks_trace:
  "\<exists>ds. list_all2 (\<lambda>c d. \<exists>acc. d = notebook_decision e req owner opts s c acc) (pr_notebooks req) ds \<and>
     pa_accepted (pushNotebooks e req owner opts s) = map (accepted notebook_ops) (concat (map decision_accepts ds)) \<and>
     pa_toWrite (pushNotebooks e req owner opts s) = concat (map decision_writes ds) \<and>
     pa_snapshots (pushNotebooks e req owner opts s) = concat (map decision_snapshots ds) \<and>
     list_all2 (conflict_of notebook_ops s owner (d_name (pr_device req)))
       (pa_conflicts (pushNotebooks e req owner opts s)) (concat (map decision_rejects ds))"
proof -
  let ?r = "getNotebooksByIds s (notebook_ids_of req) owner"
  let ?f = "pushNotebookChange e opts s owner (d_name (pr_device req)) ?r
     (getEntityTombstonesByIds s owner Notebook_entity (filter (\<lambda>i. map_of ?r i = None) (notebook_ids_of req)))
     (getActiveNotebookDuplicateCandidates s owner (map c_record (pr_notebooks req)))"
  have eq: "pushNotebooks e req owner opts s = fold ?f (pr_notebooks req) (empty_acc (s_fresh s))"
    by (simp add: pushNotebooks_def notebook_ids_of_def Let_def)
  have step: "\<exists>d acc'. d = notebook_decision e req owner opts s c acc \<and> ?f c acc = acc' \<and>
      pa_accepted acc' = pa_accepted acc @ map (accepted notebook_ops) (decision_accepts d) \<and>
      pa_toWrite acc' = pa_toWrite acc @ decision_writes d \<and>
      pa_snapshots acc' = pa_snapshots acc @ decision_snapshots d \<and>
      (\<exists>cs. pa_conflicts acc' = pa_conflicts acc @ cs \<and>
         list_all2 (conflict_of notebook_ops s owner (d_name (pr_device req))) cs (decision_rejects d))" for c acc
    using apply_decision_fields [of notebook_ops e s owner "d_name (pr_device req)"
        "notebook_decision e req owner opts s c acc" acc]
    by (simp add: pushNotebookChange_def Let_def notebook_decision_def)
  from push_loop [where dec = "\<lambda>c acc d. d = notebook_decision e req owner opts s c acc",
      OF step, where changes = "pr_notebooks req" and acc = "empty_acc (s_fresh s)"] show ?thesis
    unfolding eq by simp
qed

lemma pushNotes_trace:
  "list_all2 (conflict_of note_ops s owner (d_name (pr_device req)))
     (pa_conflicts (pushNotes e req owner opts nbs s))
     (concat (map (decision_rejects \<circ> note_decision e req owner opts nbs s) (pr_notes req)))"
  "pa_accepted (pushNotes e req owner opts nbs s) = map (accepted note_ops)
     (concat (map (decision_accepts \<circ> note_decision e req owner opts nbs s) (pr_notes req)))"
  "pa_toWrite (pushNotes e req owner opts nbs s) =
     concat (map (decision_writes \<circ> note_decision e req owner opts nbs s) (pr_notes req))"
  "pa_snapshots (pushNotes e req owner opts nbs s) =
     concat (map (decision_snapshots \<circ> note_decision e req owner opts nbs s) (pr_notes req))"
proof -
  let ?d = "note_decision e req owner opts nbs s"
  let ?r = "getNotesByIds s (note_ids_of req) owner"
  let ?f = "pushNoteChange e opts s owner (d_name (pr_device req)) ?r
     (getEntityTombstonesByIds s owner Note_entity (filter (\<lambda>i. map_of ?r i = None) (note_ids_of req)))
     (syncable_notebooks req owner nbs s)"
  have eq: "pushNotes e req owner opts nbs s = fold ?f (pr_notes req) (empty_acc (s_fresh s))"
    by (simp add: pushNotes_def note_ids_of_def syncable_notebooks_def Let_def)
  have step: "\<exists>d acc'. d = ?d c \<and> ?f c acc = acc' \<and>
      pa_accepted acc' = pa_accepted acc @ map (accepted note_ops) (decision_accepts d) \<and>
      pa_toWrite acc' = pa_toWrite acc @ decision_writes d \<and>
      pa_snapshots acc' = pa_snapshots acc @ decision_snapshots d \<and>
      (\<exists>cs. pa_conflicts acc' = pa_conflicts acc @ cs \<and>
         list_all2 (conflict_of note_ops s owner (d_name (pr_device req))) cs (decision_rejects d))" for c acc
    using apply_decision_fields [of note_ops e s owner "d_name (pr_device req)" "?d c" acc]
    by (simp add: pushNoteChange_def Let_def note_decision_def)
  from push_loop [where dec = "\<lambda>c acc d. d = ?d c", OF step, where changes = "pr_notes req" and acc = "empty_acc (s_fresh s)"]
  obtain ds where ds: "list_all2 (\<lambda>c d. d = ?d c) (pr_notes req) ds" and
    rest: "pa_accepted (fold ?f (pr_notes req) (empty_acc (s_fresh s))) = map (accepted note_ops) (concat (map decision_accepts ds))"
      "pa_toWrite (fold ?f (pr_notes req) (empty_acc (s_fresh s))) = concat (map decision_writes ds)"
      "pa_snapshots (fold ?f (pr_notes req) (empty_acc (s_fresh s))) = concat (map decision_snapshots ds)"
      "list_all2 (conflict_of note_ops s owner (d_name (pr_device req)))
         (pa_conflicts (fold ?f (pr_notes req) (empty_acc (s_fresh s)))) (concat (map decision_rejects ds))"
    by auto
  from ds have "ds = map ?d (pr_notes req)" by (induction rule: list_all2_induct) auto
  with rest eq show "list_all2 (conflict_of note_ops s owner (d_name (pr_device req)))
     (pa_conflicts (pushNotes e req owner opts nbs s))
     (concat (map (decision_rejects \<circ> ?d) (pr_notes req)))"
    "pa_accepted (pushNotes e req owner opts nbs s) = map (accepted note_ops)
       (concat (map (decision_accepts \<circ> ?d) (pr_notes req)))"
    "pa_toWrite (pushNotes e req owner opts nbs s) = concat (map (decision_writes \<circ> ?d) (pr_notes req))"
    "pa_snapshots (pushNotes e req owner opts nbs s) = concat (map (decision_snapshots \<circ> ?d) (pr_notes req))"
    by simp_all
qed

lemma decision_accepts_iff: "r \<in> set (decision_accepts d) \<longleftrightarrow> (\<exists>w. d = Accept r w)"
  by (cases d) auto

lemma decision_rejects_iff: "(l, r, reason) \<in> set (decision_rejects d) \<longleftrightarrow> d = Reject l r reason"
  by (cases d) auto

lemma decision_writes_accepts: "set (decision_writes d) \<subseteq> set (decision_accepts d)"
  by (cases d) auto

lemma list_all2_mem: "list_all2 P xs ys \<Longrightarrow> y \<in> set ys \<Longrightarrow> \<exists>x \<in> set xs. P x y"
  by (induction rule: list_all2_induct) auto

lemma find_distinct: "distinct (map f xs) \<Longrightarrow> x \<in> set xs \<Longrightarrow> find (\<lambda>y. f y = f x) xs = Some x"
  by (induction xs) auto

lemma distinct_writes:
  assumes "list_all2 (\<lambda>c d. \<forall>r \<in> set (decision_accepts d). idr r = idc c) changes ds"
    and "distinct (map idc changes)"
  shows "distinct (map idr (concat (map decision_writes ds))) \<and>
    idr ` set (concat (map decision_writes ds)) \<subseteq> idc ` set changes"
  using assms
proof (induction rule: list_all2_induct)
  case Nil
  then show ?case by simp
next
  case (Cons c cs d ds)
  then show ?case by (cases d) auto
qed

lemma notebook_decision_id:
  assumes "wf_table notebook_key (s_notebooks s)" and d: "d = notebook_decision e req owner opts s c acc"
  shows "\<forall>r \<in> set (decision_accepts d). nb_id r = nb_id (c_record c)"
    and "\<forall>x \<in> set (decision_rejects d). nb_id (fst x) = nb_id (c_record c)"
proof -
  note k = getNotebooksByIds_key [OF assms(1), of "notebook_ids_of req" owner]
  have A: "d = Accept r w \<Longrightarrow> nb_id r = nb_id (c_record c)" for r w
  proof -
    assume "d = Accept r w"
    with d have "notebook_decision e req owner opts s c acc = Accept r w" by simp
    then show "nb_id r = nb_id (c_record c)"
      unfolding notebook_decision_def Let_def by (rule decideNotebook_id(1) [rotated]) (rule k)
  qed
  have B: "d = Reject l r reason \<Longrightarrow> nb_id l = nb_id (c_record c)" for l r reason
  proof -
    assume "d = Reject l r reason"
    with d have "notebook_decision e req owner opts s c acc = Reject l r reason" by simp
    then show "nb_id l = nb_id (c_record c)"
      unfolding notebook_decision_def Let_def by (rule decideNotebook_id(2) [rotated]) (rule k)
  qed
  show "\<forall>r \<in> set (decision_accepts d). nb_id r = nb_id (c_record c)"
    using A by (metis decision_accepts_iff)
  show "\<forall>x \<in> set (decision_rejects d). nb_id (fst x) = nb_id (c_record c)"
    using B by (metis decision_rejects_iff prod_cases3 fst_conv)
qed

lemma note_decision_id:
  assumes "wf_table note_key (s_notes s)" and d: "d = note_decision e req owner opts nbs s c"
  shows "\<forall>r \<in> set (decision_accepts d). n_id r = n_id (c_record c)"
    and "\<forall>x \<in> set (decision_rejects d). n_id (fst x) = n_id (c_record c)"
proof -
  note k = getNotesByIds_key [OF assms(1), of "note_ids_of req" owner]
  have A: "d = Accept r w \<Longrightarrow> n_id r = n_id (c_record c)" for r w
  proof -
    assume "d = Accept r w"
    with d have "note_decision e req owner opts nbs s c = Accept r w" by simp
    then show "n_id r = n_id (c_record c)"
      unfolding note_decision_def Let_def by (rule decideNote_id(1) [rotated]) (rule k)
  qed
  have B: "d = Reject l r reason \<Longrightarrow> n_id l = n_id (c_record c)" for l r reason
  proof -
    assume "d = Reject l r reason"
    with d have "note_decision e req owner opts nbs s c = Reject l r reason" by simp
    then show "n_id l = n_id (c_record c)"
      unfolding note_decision_def Let_def by (rule decideNote_id(2) [rotated]) (rule k)
  qed
  show "\<forall>r \<in> set (decision_accepts d). n_id r = n_id (c_record c)"
    using A by (metis decision_accepts_iff)
  show "\<forall>x \<in> set (decision_rejects d). n_id (fst x) = n_id (c_record c)"
    using B by (metis decision_rejects_iff prod_cases3 fst_conv)
qed


section \<open>The stages of a push\<close>

definition valid_ids :: "push_request \<Rightarrow> bool" where
  "valid_ids req \<longleftrightarrow> (\<forall>i \<in> set (notebook_ids_of req) \<union> set (note_ids_of req). truthy i)"

lemma assertUniqueEntityIds_from_Inr:
  "assertUniqueEntityIds_from ty seen ids = Inr () \<longleftrightarrow> distinct ids \<and> set ids \<inter> seen = {}"
  by (induction ids arbitrary: seen) auto

lemma assertUniqueEntityIds_from_Inl:
  "assertUniqueEntityIds_from ty seen ids = Inl err \<Longrightarrow> err = Duplicate_entity_id ty"
  by (induction ids arbitrary: seen) (auto split: if_splits)

lemma assertUniquePushChangeIds_Inr:
  "assertUniquePushChangeIds req = Inr () \<longleftrightarrow> distinct (notebook_ids_of req) \<and> distinct (note_ids_of req)"
  by (auto simp: assertUniquePushChangeIds_def assertUniqueEntityIds_def and_then_Inr
      assertUniqueEntityIds_from_Inr notebook_ids_of_def note_ids_of_def)

lemma assertUniquePushChangeIds_Inl:
  "assertUniquePushChangeIds req = Inl err \<Longrightarrow> \<exists>ty. err = Duplicate_entity_id ty"
  by (auto simp: assertUniquePushChangeIds_def assertUniqueEntityIds_def and_then_Inl
      dest: assertUniqueEntityIds_from_Inl)

lemma wf_clock: "wf_server (snd (read_clock e s)) = wf_server s"
  by (rule wf_server_cong) (simp_all add: read_clock_def)

text \<open>The notebook phase: the notebooks written, and the state it leaves.\<close>

lemma notebooks_written:
  assumes "wf_server s" "distinct (notebook_ids_of req)" "valid_ids req"
    and w_def: "w = pa_toWrite (pushNotebooks e req owner opts s)"
  shows "distinct (map nb_id w)" "\<forall>nb \<in> set w. truthy (nb_id nb)" "nb_id ` set w \<subseteq> set (notebook_ids_of req)"
    and "\<forall>nb \<in> set w. \<exists>c acc. c \<in> set (pr_notebooks req) \<and> nb_id (c_record c) = nb_id nb \<and>
           notebook_decision e req owner opts s c acc = Accept nb True"
proof -
  have t: "wf_table notebook_key (s_notebooks s)" using assms(1) by (simp add: wf_server_def wf_tables_def)
  obtain ds where ds: "list_all2 (\<lambda>c d. \<exists>acc. d = notebook_decision e req owner opts s c acc) (pr_notebooks req) ds"
      "w = concat (map decision_writes ds)"
    using pushNotebooks_trace [of e req owner opts s] unfolding w_def by blast
  have l: "list_all2 (\<lambda>c d. \<forall>r \<in> set (decision_accepts d). nb_id r = (nb_id \<circ> c_record) c) (pr_notebooks req) ds"
    by (rule list_all2_mono [OF ds(1)]) (use notebook_decision_id(1) [OF t] in fastforce)
  from distinct_writes [OF l assms(2) [unfolded notebook_ids_of_def]]
  show "distinct (map nb_id w)" and sub: "nb_id ` set w \<subseteq> set (notebook_ids_of req)"
    unfolding ds(2) notebook_ids_of_def by (blast, simp)
  then show "\<forall>nb \<in> set w. truthy (nb_id nb)" using assms(3) by (auto simp: valid_ids_def)
  show "\<forall>nb \<in> set w. \<exists>c acc. c \<in> set (pr_notebooks req) \<and> nb_id (c_record c) = nb_id nb \<and>
           notebook_decision e req owner opts s c acc = Accept nb True"
  proof
    fix nb assume "nb \<in> set w"
    then obtain d where d: "d \<in> set ds" "nb \<in> set (decision_writes d)" using ds(2) by auto
    from d(2) have acc: "d = Accept nb True" by (cases d) (auto split: if_splits)
    from list_all2_mem [OF ds(1) d(1)]
    obtain c a where c: "c \<in> set (pr_notebooks req)" "d = notebook_decision e req owner opts s c a" by blast
    have "nb \<in> set (decision_accepts d)" by (simp add: acc)
    then have "nb_id (c_record c) = nb_id nb" using notebook_decision_id(1) [OF t c(2)] by (metis bspec)
    with c acc show "\<exists>c acc. c \<in> set (pr_notebooks req) \<and> nb_id (c_record c) = nb_id nb \<and>
           notebook_decision e req owner opts s c acc = Accept nb True" by fastforce
  qed
qed

lemma notes_written:
  assumes "wf_server s" "distinct (note_ids_of req)" "valid_ids req"
    and w_def: "w = pa_toWrite (pushNotes e req owner opts nbs s)"
  shows "distinct (map n_id w)" "\<forall>n \<in> set w. truthy (n_id n)" "n_id ` set w \<subseteq> set (note_ids_of req)"
    and "\<forall>n \<in> set w. \<exists>c \<in> set (pr_notes req). n_id (c_record c) = n_id n \<and>
           note_decision e req owner opts nbs s c = Accept n True"
proof -
  let ?d = "note_decision e req owner opts nbs s"
  have t: "wf_table note_key (s_notes s)" using assms(1) by (simp add: wf_server_def wf_tables_def)
  have w: "w = concat (map decision_writes (map ?d (pr_notes req)))"
    by (simp add: w_def pushNotes_trace(3))
  have l: "list_all2 (\<lambda>c d. \<forall>r \<in> set (decision_accepts d). n_id r = (n_id \<circ> c_record) c) (pr_notes req) (map ?d (pr_notes req))"
    using note_decision_id(1) [OF t] by (fastforce simp: list_all2_conv_all_nth)
  from distinct_writes [OF l assms(2) [unfolded note_ids_of_def]]
  show "distinct (map n_id w)" and sub: "n_id ` set w \<subseteq> set (note_ids_of req)"
    unfolding w note_ids_of_def by (blast, simp)
  then show "\<forall>n \<in> set w. truthy (n_id n)" using assms(3) by (auto simp: valid_ids_def)
  show "\<forall>n \<in> set w. \<exists>c \<in> set (pr_notes req). n_id (c_record c) = n_id n \<and> ?d c = Accept n True"
  proof
    fix n assume "n \<in> set w"
    then obtain c where c: "c \<in> set (pr_notes req)" "n \<in> set (decision_writes (?d c))" using w by auto
    from c(2) have acc: "?d c = Accept n True" by (cases "?d c") (auto split: if_splits)
    have "n \<in> set (decision_accepts (?d c))" by (simp add: acc)
    with note_decision_id(1) [OF t refl] have "n_id (c_record c) = n_id n" by metis
    with c acc show "\<exists>c \<in> set (pr_notes req). n_id (c_record c) = n_id n \<and> ?d c = Accept n True" by blast
  qed
qed


lemma decideNotebook_write_synced:
  "decideNotebook e opts remotes ts cands act del c = Accept nb True \<Longrightarrow> nb_syncStatus nb = Synced"
  unfolding decideNotebook_def Let_def by (auto split: option.splits if_splits)

lemma noteNotebookIds_update [simp]:
  "noteNotebookIds (n\<lparr>n_version := v\<rparr>) = noteNotebookIds n"
  "noteNotebookIds (n\<lparr>n_syncStatus := st\<rparr>) = noteNotebookIds n"
  by (simp_all add: noteNotebookIds_def)

lemma decideNote_write_refs:
  assumes "decideNote e opts remotes ts nbs c = Accept n True"
  shows "n_syncStatus n = Synced"
    and "\<forall>i \<in> set (noteNotebookIds n). \<exists>nb. map_of nbs i = Some nb \<and> \<not> truthy_opt (nb_deletedAt nb)"
    and "n_notebookIds n = noteNotebookIds n \<and> n_notebookId n = first_or_null (noteNotebookIds n)"
proof -
  let ?keep = "\<lambda>i. case map_of nbs i of Some nb \<Rightarrow> \<not> truthy_opt (nb_deletedAt nb) | None \<Rightarrow> False"
  let ?ids = "filter ?keep (noteNotebookIds (c_record c))"
  have "\<exists>v. n = (c_record c)\<lparr>n_notebookIds := ?ids, n_notebookId := first_or_null ?ids, n_version := v, n_syncStatus := Synced\<rparr>"
    using assms unfolding decideNote_def Let_def
    by (auto split: option.splits if_splits prod.splits simp: noteWithSyncableNotebookRefsFromMap_def Let_def)
  then obtain v where n: "n = (c_record c)\<lparr>n_notebookIds := ?ids, n_notebookId := first_or_null ?ids, n_version := v, n_syncStatus := Synced\<rparr>"
    by blast
  have norm: "normalizedNotebookIds ?ids = ?ids"
    by (metis noteNotebookIds_normalized normalizedNotebookIds_filter_id)
  have ids: "noteNotebookIds n = ?ids"
    by (subst n) (simp only: noteNotebookIds_update noteNotebookIds_of_normalized [OF norm])
  show "n_syncStatus n = Synced" by (simp add: n)
  show "\<forall>i \<in> set (noteNotebookIds n). \<exists>nb. map_of nbs i = Some nb \<and> \<not> truthy_opt (nb_deletedAt nb)"
    unfolding ids by (auto split: option.splits)
  show "n_notebookIds n = noteNotebookIds n \<and> n_notebookId n = first_or_null (noteNotebookIds n)"
    unfolding ids by (simp add: n)
qed

lemma syncable_notebooks_stored:
  assumes "wf_server s" and "\<And>nb. nb \<in> set nbs \<Longrightarrow> getNotebook s (nb_id nb) owner = Some nb"
    and "map_of (syncable_notebooks req owner nbs s) i = Some nb"
  shows "getNotebook s i owner = Some nb"
proof -
  have "\<forall>i nb. map_of (fold (\<lambda>nb. map_set (nb_id nb) nb) nbs m) i = Some nb \<longrightarrow> getNotebook s i owner = Some nb"
    if "\<And>nb. nb \<in> set nbs \<Longrightarrow> getNotebook s (nb_id nb) owner = Some nb"
      and "\<forall>i nb. map_of m i = Some nb \<longrightarrow> getNotebook s i owner = Some nb" for nbs m
    using that
  proof (induction nbs arbitrary: m)
    case (Cons x nbs)
    have "\<forall>i nb. map_of (map_set (nb_id x) x m) i = Some nb \<longrightarrow> getNotebook s i owner = Some nb"
      using Cons.prems by (auto simp: update_conv')
    from Cons.IH [OF _ this] Cons.prems(1) show ?case by simp
  qed simp
  moreover have "\<forall>i nb. map_of (getNotebooksByIds s ids owner) i = Some nb \<longrightarrow> getNotebook s i owner = Some nb" for ids
    using assms(1) by (simp add: getNotebooksByIds_lookup wf_server_def wf_tables_def)
  ultimately show ?thesis using assms(2,3) unfolding syncable_notebooks_def by blast
qed

text \<open>The notebook phase leaves the written notebooks stored as they were accepted.\<close>

lemma notebook_phase:
  assumes wf: "wf_server s" and d: "distinct (notebook_ids_of req)" and v: "valid_ids req"
    and ph: "pushNotebookPhase e req owner opts now s = (acc, s')"
  shows "wf_server s'" "acc = pushNotebooks e req owner opts s" "log_grows owner s s'"
    "s_notes s' = s_notes s" "s_devices s' = s_devices s"
    "get_notebook_row s' o1 i = (case find (\<lambda>nb. nb_id nb = i) (pa_toWrite acc) of
           Some nb \<Rightarrow> if o1 = owner then Some (written_notebook_row owner now nb (get_notebook_row s owner i))
                     else get_notebook_row s o1 i
         | None \<Rightarrow> get_notebook_row s o1 i)"
    "getEntityTombstone s' o1 ty i = (if o1 = owner \<and> ty = Notebook_entity \<and> i \<in> nb_id ` set (pa_toWrite acc)
       then None else getEntityTombstone s o1 ty i)"
    "latestEntityOperation s' o1 ty i = (if o1 = owner \<and> ty = Notebook_entity \<and> i \<in> nb_id ` set (pa_toWrite acc)
       then Some Upsert_op else latestEntityOperation s o1 ty i)"
    "\<forall>nb \<in> set (pa_toWrite acc). getNotebook s' (nb_id nb) owner = Some nb"
    "\<forall>(nb, reason) \<in> set (pa_snapshots acc). \<exists>v \<in> set (s_notebookVersions s').
       nbv_owner v = owner \<and> nbv_notebook v = nb \<and> nbv_reason v = reason"
proof -
  define t where "t = s\<lparr>s_fresh := pa_fresh acc\<rparr>"
  define u where "u = putNotebooks (pa_toWrite acc) owner now t"
  have acc: "acc = pushNotebooks e req owner opts s" and s': "s' = saveNotebookSnapshots e (pa_snapshots acc) owner u"
    using ph by (auto simp: pushNotebookPhase_def Let_def t_def u_def)
  have w: "pa_toWrite acc = pa_toWrite (pushNotebooks e req owner opts s)" by (simp add: acc)
  note nw = notebooks_written [OF wf d v w]
  note spec = putNotebooks_spec [OF u_def nw(1,2)]
  have tw: "wf_server t" using wf by (subst wf_server_cong [of _ s]) (simp_all add: t_def)
  have "wf_server u" by (rule wf_putNotebooks [OF tw u_def nw(1,2)])
  then show "wf_server s'" by (subst wf_server_cong [of _ u]) (simp_all add: s' saveNotebookSnapshots_eq)
  show "acc = pushNotebooks e req owner opts s" by (rule acc)
  have rows: "get_notebook_row s' = get_notebook_row u" "getEntityTombstone s' = getEntityTombstone u"
      "latestEntityOperation s' = latestEntityOperation u"
    by (rule lookups_cong, simp add: s' saveNotebookSnapshots_eq)+
  have rows0: "get_notebook_row t = get_notebook_row s" "getEntityTombstone t = getEntityTombstone s"
      "latestEntityOperation t = latestEntityOperation s"
    by (rule lookups_cong, simp add: t_def)+
  have "log_grows owner t u" by (rule spec(10))
  then show "log_grows owner s s'" by (simp add: log_grows_def t_def s' saveNotebookSnapshots_eq)
  show "s_notes s' = s_notes s" "s_devices s' = s_devices s" using spec(1,2) by (simp_all add: s' saveNotebookSnapshots_eq t_def)
  show g: "get_notebook_row s' o1 i = (case find (\<lambda>nb. nb_id nb = i) (pa_toWrite acc) of
           Some nb \<Rightarrow> if o1 = owner then Some (written_notebook_row owner now nb (get_notebook_row s owner i))
                     else get_notebook_row s o1 i
         | None \<Rightarrow> get_notebook_row s o1 i)" for o1 i
    by (simp add: rows spec(11) [unfolded rows0])
  show "getEntityTombstone s' o1 ty i = (if o1 = owner \<and> ty = Notebook_entity \<and> i \<in> nb_id ` set (pa_toWrite acc)
       then None else getEntityTombstone s o1 ty i)"
    "latestEntityOperation s' o1 ty i = (if o1 = owner \<and> ty = Notebook_entity \<and> i \<in> nb_id ` set (pa_toWrite acc)
       then Some Upsert_op else latestEntityOperation s o1 ty i)"
    by (simp_all add: rows spec(12,13) [unfolded rows0])
  show "\<forall>(nb, reason) \<in> set (pa_snapshots acc). \<exists>v \<in> set (s_notebookVersions s').
       nbv_owner v = owner \<and> nbv_notebook v = nb \<and> nbv_reason v = reason"
    by (auto simp: s' saveNotebookSnapshots_eq intro!: bexI [rotated])
  show "\<forall>nb \<in> set (pa_toWrite acc). getNotebook s' (nb_id nb) owner = Some nb"
  proof
    fix nb assume m: "nb \<in> set (pa_toWrite acc)"
    with nw(4) obtain c a where "notebook_decision e req owner opts s c a = Accept nb True" by blast
    then have "nb_syncStatus nb = Synced" unfolding notebook_decision_def Let_def
      by (rule decideNotebook_write_synced)
    then have eq: "nb\<lparr>nb_syncStatus := Synced\<rparr> = nb" by (cases nb) simp
    have "find (\<lambda>x. nb_id x = nb_id nb) (pa_toWrite acc) = Some nb"
      using find_distinct [OF nw(1) m] .
    then show "getNotebook s' (nb_id nb) owner = Some nb" by (simp add: getNotebook_def g toNotebook_def eq)
  qed
qed


lemma note_decision_refs:
  assumes wf: "wf_server s" and st: "\<And>nb. nb \<in> set nbs \<Longrightarrow> getNotebook s (nb_id nb) owner = Some nb"
    and acc: "note_decision e req owner opts nbs s c = Accept n True"
  shows "\<forall>i \<in> set (noteNotebookIds n). \<exists>nb. getNotebook s i owner = Some nb \<and> \<not> truthy_opt (nb_deletedAt nb)"
    and "note_refs_ok s owner n" and "n_syncStatus n = Synced"
    and "n_notebookIds n = noteNotebookIds n \<and> n_notebookId n = first_or_null (noteNotebookIds n)"
proof -
  note d = acc [unfolded note_decision_def Let_def]
  show r: "\<forall>i \<in> set (noteNotebookIds n). \<exists>nb. getNotebook s i owner = Some nb \<and> \<not> truthy_opt (nb_deletedAt nb)"
    using decideNote_write_refs(2) [OF d] syncable_notebooks_stored [OF wf st] by blast
  show "note_refs_ok s owner n" unfolding note_refs_ok_def
  proof (intro allI impI)
    fix i assume "first_or_null (noteNotebookIds n) = Some i"
    then have "i \<in> set (noteNotebookIds n)" by (cases "noteNotebookIds n") auto
    with r show "get_notebook_row s owner i \<noteq> None" by (auto simp: getNotebook_def)
  qed
  show "n_syncStatus n = Synced" by (rule decideNote_write_refs(1) [OF d])
  show "n_notebookIds n = noteNotebookIds n \<and> n_notebookId n = first_or_null (noteNotebookIds n)"
    by (rule decideNote_write_refs(3) [OF d])
qed

text \<open>The note phase never fails, and its effect on the rows.\<close>

lemma note_phase_total:
  assumes wf: "wf_server s" and d: "distinct (note_ids_of req)" and v: "valid_ids req"
    and st: "\<And>nb. nb \<in> set nbs \<Longrightarrow> getNotebook s (nb_id nb) owner = Some nb"
  shows "\<exists>acc s'. pushNotePhase e req owner opts now nbs s = Inr (acc, s')"
proof -
  define acc where "acc = pushNotes e req owner opts nbs s"
  have w: "pa_toWrite acc = pa_toWrite (pushNotes e req owner opts nbs s)" by (simp add: acc_def)
  have "note_refs_ok (s\<lparr>s_fresh := pa_fresh acc\<rparr>) owner n" if "n \<in> set (pa_toWrite acc)" for n
  proof -
    from notes_written(4) [OF wf d v w] that obtain c where "note_decision e req owner opts nbs s c = Accept n True" by blast
    from note_decision_refs(2) [OF wf st this] show ?thesis by (simp add: note_refs_ok_def get_notebook_row_def)
  qed
  from putNotes_total [OF this] show ?thesis
    by (auto simp: pushNotePhase_def and_then_Inr acc_def Let_def)
qed

lemma note_phase:
  assumes wf: "wf_server s" and d: "distinct (note_ids_of req)" and v: "valid_ids req"
    and ph: "pushNotePhase e req owner opts now nbs s = Inr (acc, s')"
  shows "wf_server s'" "acc = pushNotes e req owner opts nbs s" "log_grows owner s s'"
    "s_notebooks s' = s_notebooks s" "s_devices s' = s_devices s"
    "get_note_row s' o1 i = (case find (\<lambda>n. n_id n = i) (pa_toWrite acc) of
           Some n \<Rightarrow> if o1 = owner then Some (written_note_row owner now n (get_note_row s owner i))
                     else get_note_row s o1 i
         | None \<Rightarrow> get_note_row s o1 i)"
    "getEntityTombstone s' o1 ty i = (if o1 = owner \<and> ty = Note_entity \<and> i \<in> n_id ` set (pa_toWrite acc)
       then None else getEntityTombstone s o1 ty i)"
    "latestEntityOperation s' o1 ty i = (if o1 = owner \<and> ty = Note_entity \<and> i \<in> n_id ` set (pa_toWrite acc)
       then Some Upsert_op else latestEntityOperation s o1 ty i)"
    "\<forall>(n, reason) \<in> set (pa_snapshots acc). \<exists>v \<in> set (s_noteVersions s').
       nv_owner v = owner \<and> nv_note v = stored_note n \<and> nv_reason v = reason"
    "set (s_notebookVersions s) \<subseteq> set (s_notebookVersions s')"
proof -
  define t where "t = s\<lparr>s_fresh := pa_fresh acc\<rparr>"
  from ph obtain u where put: "putNotes (pa_toWrite acc) owner now t = Inr u"
    and acc: "acc = pushNotes e req owner opts nbs s" and s': "s' = saveNoteSnapshots e (pa_snapshots acc) owner u"
    by (auto simp: pushNotePhase_def Let_def t_def and_then_Inr)
  have w: "pa_toWrite acc = pa_toWrite (pushNotes e req owner opts nbs s)" by (simp add: acc)
  note nw = notes_written [OF wf d v w]
  note spec = putNotes_spec [OF put nw(1,2)]
  have tw: "wf_server t" using wf by (subst wf_server_cong [of _ s]) (simp_all add: t_def)
  have "wf_server u" by (rule wf_putNotes [OF tw put nw(1,2)])
  then show "wf_server s'" by (subst wf_server_cong [of _ u]) (simp_all add: s' saveNoteSnapshots_eq)
  show "acc = pushNotes e req owner opts nbs s" by (rule acc)
  have rows: "get_note_row s' = get_note_row u" "getEntityTombstone s' = getEntityTombstone u"
      "latestEntityOperation s' = latestEntityOperation u"
    by (rule lookups_cong, simp add: s' saveNoteSnapshots_eq)+
  have rows0: "get_note_row t = get_note_row s" "getEntityTombstone t = getEntityTombstone s"
      "latestEntityOperation t = latestEntityOperation s"
    by (rule lookups_cong, simp add: t_def)+
  have "log_grows owner t u" by (rule spec(10))
  then show "log_grows owner s s'" by (simp add: log_grows_def t_def s' saveNoteSnapshots_eq)
  show "s_notebooks s' = s_notebooks s" "s_devices s' = s_devices s"
    using spec(1,2) by (simp_all add: s' saveNoteSnapshots_eq t_def)
  show "get_note_row s' o1 i = (case find (\<lambda>n. n_id n = i) (pa_toWrite acc) of
           Some n \<Rightarrow> if o1 = owner then Some (written_note_row owner now n (get_note_row s owner i))
                     else get_note_row s o1 i
         | None \<Rightarrow> get_note_row s o1 i)"
    by (simp add: rows spec(12) [unfolded rows0])
  show "getEntityTombstone s' o1 ty i = (if o1 = owner \<and> ty = Note_entity \<and> i \<in> n_id ` set (pa_toWrite acc)
       then None else getEntityTombstone s o1 ty i)"
    "latestEntityOperation s' o1 ty i = (if o1 = owner \<and> ty = Note_entity \<and> i \<in> n_id ` set (pa_toWrite acc)
       then Some Upsert_op else latestEntityOperation s o1 ty i)"
    by (simp_all add: rows spec(13,14) [unfolded rows0])
  show "\<forall>(n, reason) \<in> set (pa_snapshots acc). \<exists>v \<in> set (s_noteVersions s').
       nv_owner v = owner \<and> nv_note v = stored_note n \<and> nv_reason v = reason"
    by (auto simp: s' saveNoteSnapshots_eq intro!: bexI [rotated])
  show "set (s_notebookVersions s) \<subseteq> set (s_notebookVersions s')"
    using spec(4) by (simp add: s' saveNoteSnapshots_eq t_def)
qed

text \<open>A push that answers, taken apart: device, notebook phase, note phase.\<close>

definition push_run ::
  "env \<Rightarrow> push_request \<Rightarrow> string \<Rightarrow> push_options \<Rightarrow> server \<Rightarrow> string \<Rightarrow> server \<Rightarrow> Notebook push_acc \<Rightarrow> server
   \<Rightarrow> Note push_acc \<Rightarrow> server \<Rightarrow> bool" where
  "push_run e req owner opts s now s1 nbAcc s2 nAcc s3 \<longleftrightarrow>
     distinct (notebook_ids_of req) \<and> distinct (note_ids_of req) \<and>
     now = fst (read_clock e s) \<and>
     upsertDevice (pr_device req) now owner e (snd (read_clock e s)) = Inr s1 \<and>
     pushNotebookPhase e req owner opts now s1 = (nbAcc, s2) \<and>
     pushNotePhase e req owner opts now (pa_toWrite nbAcc) s2 = Inr (nAcc, s3)"

lemma pushChanges_Inr:
  assumes "pushChanges e req owner opts s = Inr (resp, s')"
  shows "\<exists>now s1 nbAcc s2 nAcc. push_run e req owner opts s now s1 nbAcc s2 nAcc s' \<and>
    resp = \<lparr>ps_serverTime = now, ps_accepted = pa_accepted nbAcc @ pa_accepted nAcc,
            ps_conflicts = map NotebookConflict (pa_conflicts nbAcc) @ map NoteConflict (pa_conflicts nAcc)\<rparr>"
  using assms unfolding pushChanges_def push_run_def
  by (auto simp: and_then_Inr assertUniquePushChangeIds_Inr case_prod_beta prod_eq_iff Let_def split: option.splits)

lemma push_run_facts:
  assumes wf: "wf_server s" and v: "valid_ids req" and run: "push_run e req owner opts s now s1 nbAcc s2 nAcc s3"
  shows "wf_server s1" "wf_server s2" "wf_server s3" "log_grows owner s s3"
    "get_note_row s1 = get_note_row s" "get_note_row s2 = get_note_row s" "get_notebook_row s1 = get_notebook_row s"
    "get_notebook_row s3 = get_notebook_row s2" "getEntityTombstone s1 = getEntityTombstone s"
    "\<forall>nb \<in> set (pa_toWrite nbAcc). getNotebook s2 (nb_id nb) owner = Some nb"
proof -
  from run have d: "distinct (notebook_ids_of req)" "distinct (note_ids_of req)"
    and up: "upsertDevice (pr_device req) now owner e (snd (read_clock e s)) = Inr s1"
    and p1: "pushNotebookPhase e req owner opts now s1 = (nbAcc, s2)"
    and p2: "pushNotePhase e req owner opts now (pa_toWrite nbAcc) s2 = Inr (nAcc, s3)"
    unfolding push_run_def by - (elim conjE, assumption)+
  show w1: "wf_server s1" using wf by (intro wf_upsertDevice [OF _ up]) (simp add: wf_clock)
  show w2: "wf_server s2" by (rule notebook_phase(1) [OF w1 d(1) v p1])
  show "wf_server s3" by (rule note_phase(1) [OF w2 d(2) v p2])
  have "log_grows owner s (snd (read_clock e s))" by (rule log_grows_refl) (simp_all add: read_clock_def)
  then show "log_grows owner s s3"
    using upsertDevice_spec(11) [OF up] notebook_phase(3) [OF w1 d(1) v p1] note_phase(3) [OF w2 d(2) v p2]
    by (blast intro: log_grows_trans)
  show r1: "get_note_row s1 = get_note_row s" "get_notebook_row s1 = get_notebook_row s"
      "getEntityTombstone s1 = getEntityTombstone s"
    by (rule lookups_cong, simp add: upsertDevice_spec(1-3) [OF up] read_clock_def)+
  have "get_note_row s2 = get_note_row s1" by (rule lookups_cong) (rule notebook_phase(4) [OF w1 d(1) v p1])
  then show "get_note_row s2 = get_note_row s" by (simp add: r1)
  show "get_notebook_row s3 = get_notebook_row s2" by (rule lookups_cong) (rule note_phase(4) [OF w2 d(2) v p2])
  show "\<forall>nb \<in> set (pa_toWrite nbAcc). getNotebook s2 (nb_id nb) owner = Some nb"
    by (rule notebook_phase(9) [OF w1 d(1) v p1])
qed

end
