(* ===== verification/Samples.thy ===== *)
theory Samples
  imports ServerInv
begin

text \<open>
  Concrete environments, databases and requests: the inputs at which the theorems with hypotheses
  are instantiated.
\<close>

text \<open>A date parser for the fixed ISO layout: the digits, read as one number.\<close>

definition digits_value :: "string \<Rightarrow> int" where
  "digits_value s = fold (\<lambda>c acc. let n = of_char c in if 48 \<le> n \<and> n \<le> 57 then 10 * acc + (n - 48) else acc) s (0::int)"

definition sample_date_parse :: "string \<Rightarrow> int option" where
  "sample_date_parse s = (if s = [] then None else Some (digits_value s))"

definition sample_compare :: "string \<Rightarrow> string \<Rightarrow> int" where
  "sample_compare a b = (if a = b then 0 else if a < b then - 1 else 1)"

definition sample_env :: env where
  "sample_env = \<lparr>date_parse = sample_date_parse, locale_compare = sample_compare,
     clock = (\<lambda>k. 1750000000000 + int k), uuid = (\<lambda>k. ''uuid'' @ replicate k CHR ''i'')\<rparr>"

definition note_a :: Note where
  "note_a = \<lparr>n_id = ''n1'', n_title = ''Title'', n_body = ''Body'', n_titleHash = None, n_bodyHash = None,
     n_notebookIds = [''b1''], n_notebookId = Some ''b1'', n_createdAt = ''2025-01-01T00:00:00.000Z'',
     n_updatedAt = ''2025-01-01T00:00:00.000Z'', n_deletedAt = None, n_trashedAt = None,
     n_isFavorite = False, n_deviceId = ''d1'', n_version = 3, n_syncStatus = Synced\<rparr>"

definition notebook_a :: Notebook where
  "notebook_a = \<lparr>nb_id = ''b1'', nb_name = ''Work'', nb_nameHash = Some ''hash:v3:w'',
     nb_createdAt = ''2025-01-01T00:00:00.000Z'', nb_updatedAt = ''2025-01-01T00:00:00.000Z'',
     nb_deletedAt = None, nb_deviceId = ''d1'', nb_version = 1, nb_syncStatus = Synced\<rparr>"

definition device_a :: Device where
  "device_a = \<lparr>d_id = ''d1'', d_name = ''Laptop''\<rparr>"

definition sample_change :: "int \<Rightarrow> entity_type \<Rightarrow> string \<Rightarrow> entity_operation \<Rightarrow> change_row" where
  "sample_change k ty i op = \<lparr>ch_revision = k, ch_owner = ''ann'', ch_entityType = ty, ch_entityId = i,
     ch_operation = op, ch_updatedAt = ''2025-01-01T00:00:00.000Z''\<rparr>"

text \<open>One owner with a device, a notebook, a note in it, and a note that was deleted for good.\<close>

definition sample_server :: server where
  "sample_server = empty_server\<lparr>
     s_notes := [\<lparr>nr_owner = ''ann'', nr_note = note_a, nr_retention = None\<rparr>],
     s_notebooks := [\<lparr>nbr_owner = ''ann'', nbr_notebook = notebook_a, nbr_retention = None\<rparr>],
     s_devices := [\<lparr>dr_owner = ''ann'', dr_device = device_a, dr_lastSeenAt = ''2025-01-01T00:00:00.000Z''\<rparr>],
     s_tombstones := [\<lparr>t_owner = ''ann'', t_entityType = Note_entity, t_entityId = ''n0'',
        t_deletedAt = ''2025-01-02T00:00:00.000Z'', t_deviceId = ''d1'', t_version = 2\<rparr>],
     s_changes := [sample_change 1 Device_entity ''d1'' Upsert_op, sample_change 2 Notebook_entity ''b1'' Upsert_op,
        sample_change 3 Note_entity ''n1'' Upsert_op, sample_change 4 Note_entity ''n0'' Upsert_op,
        sample_change 5 Note_entity ''n0'' Delete_op],
     s_lastRevision := 5\<rparr>"

lemma wf_sample_server: "wf_server sample_server"
  by (rule wf_check_sound) code_simp

definition sample_options :: push_options where
  "sample_options = \<lparr>po_allowTombstoneOverwrite = False, po_preserveRecordVersions = False,
     po_preserveNewRecordVersions = False, po_enforceRecordLimits = False,
     po_recordLimitConfig = \<lparr>rc_enabled = True, rc_storageBudgetBytes = 5000000000, rc_safetyRatio = 9 / 10,
       rc_estimatedNoteBytes = 8192, rc_estimatedNotebookBytes = 512\<rparr>\<rparr>"

text \<open>A push of the note with another title, from a given base version.\<close>

definition sample_push :: "int \<Rightarrow> push_request" where
  "sample_push base = \<lparr>pr_device = device_a,
     pr_notes = [\<lparr>c_record = note_a\<lparr>n_title := ''New'', n_syncStatus := Pending\<rparr>, c_baseVersion = base\<rparr>],
     pr_notebooks = []\<rparr>"

end
