(* ===== verification/PushTheorems.thy ===== *)
theory PushTheorems
  imports PushProps Samples
begin

text \<open>
  The properties of \<open>pushChanges\<close>, each with its witness on the sample database.
\<close>

section \<open>A push that succeeds\<close>

lemma push_run_total:
  assumes wf: "wf_server s" and v: "valid_ids req"
    and d: "distinct (notebook_ids_of req)" "distinct (note_ids_of req)"
    and up: "upsertDevice (pr_device req) (fst (read_clock e s)) owner e (snd (read_clock e s)) = Inr s1"
  shows "\<exists>nbAcc s2 nAcc s3. push_run e req owner opts s (fst (read_clock e s)) s1 nbAcc s2 nAcc s3"
proof -
  let ?now = "fst (read_clock e s)"
  obtain nbAcc s2 where p1: "pushNotebookPhase e req owner opts ?now s1 = (nbAcc, s2)" by fastforce
  have w1: "wf_server s1" using wf by (intro wf_upsertDevice [OF _ up]) (simp add: wf_clock)
  have st: "nb \<in> set (pa_toWrite nbAcc) \<Longrightarrow> getNotebook s2 (nb_id nb) owner = Some nb" for nb
    using notebook_phase(9) [OF w1 d(1) v p1] by blast
  from note_phase_total [OF notebook_phase(1) [OF w1 d(1) v p1] d(2) v st]
  obtain nAcc s3 where "pushNotePhase e req owner opts ?now (pa_toWrite nbAcc) s2 = Inr (nAcc, s3)" by blast
  with d up p1 show ?thesis unfolding push_run_def by blast
qed

lemma pushChanges_of_run:
  assumes "push_run e req owner opts s now s1 nbAcc s2 nAcc s3"
    and "limit_error (snd (read_clock e s)) owner req opts = None"
  shows "\<exists>resp. pushChanges e req owner opts s = Inr (resp, s3)"
  using assms unfolding push_run_def pushChanges_def
  by (auto simp: assertUniquePushChangeIds_Inr [THEN iffD2] case_prod_beta Let_def and_then_def)

lemma push_succeeds:
  assumes "wf_server s" and "valid_ids req" and d: "distinct (notebook_ids_of req)" "distinct (note_ids_of req)"
    and dev: "get_device_row s owner (d_id (pr_device req)) \<noteq> None"
    and lim: "limit_error (snd (read_clock e s)) owner req opts = None"
  shows "\<exists>resp s'. pushChanges e req owner opts s = Inr (resp, s')"
proof -
  have "get_device_row (snd (read_clock e s)) owner (d_id (pr_device req)) \<noteq> None"
    using dev by (simp add: get_device_row_def read_clock_def)
  from upsertDevice_total [OF disjI1, OF this]
  obtain s1 where "upsertDevice (pr_device req) (fst (read_clock e s)) owner e (snd (read_clock e s)) = Inr s1" by blast
  from push_run_total [OF assms(1,2) d this] pushChanges_of_run lim show ?thesis by blast
qed

text \<open>
  C5. A push can be refused for three reasons only: an identifier occurs twice in the request, the
  projected size exceeds the account's limits, or the account has too many devices. In particular
  no push of well-identified records runs into a foreign key of the database.
\<close>

theorem push_errors:
  assumes wf: "wf_server s" and v: "valid_ids req" and err: "pushChanges e req owner opts s = Inl err"
  shows "(\<exists>ty. err = Duplicate_entity_id ty \<and>
            \<not> (distinct (map (nb_id \<circ> c_record) (pr_notebooks req)) \<and> distinct (map (n_id \<circ> c_record) (pr_notes req)))) \<or>
         (\<exists>result. limit_error (snd (read_clock e s)) owner req opts = Some result \<and>
            err = Record_limit_exceeded (rl_error result)) \<or>
         (err = Device_limit_exceeded \<and> get_device_row s owner (d_id (pr_device req)) = None)"
proof (cases "assertUniquePushChangeIds req")
  case (Inl x)
  then have "err = x" using err by (simp add: pushChanges_def)
  moreover have "\<not> (distinct (notebook_ids_of req) \<and> distinct (note_ids_of req))"
    using Inl assertUniquePushChangeIds_Inr [of req] by simp
  ultimately show ?thesis
    using assertUniquePushChangeIds_Inl [OF Inl] by (auto simp: notebook_ids_of_def note_ids_of_def)
next
  case (Inr x)
  then have u: "assertUniquePushChangeIds req = Inr ()" by simp
  then have d: "distinct (notebook_ids_of req)" "distinct (note_ids_of req)"
    by (simp_all add: assertUniquePushChangeIds_Inr)
  show ?thesis
  proof (cases "limit_error (snd (read_clock e s)) owner req opts")
    case None
    show ?thesis
    proof (cases "upsertDevice (pr_device req) (fst (read_clock e s)) owner e (snd (read_clock e s))")
      case (Inl y)
      then have "y = Device_limit_exceeded" "get_device_row s owner (d_id (pr_device req)) = None"
        by (auto simp: upsertDevice_def Let_def get_device_row_def read_clock_def split: if_splits)
      moreover have "err = y" using err Inl None u by (simp add: pushChanges_def case_prod_beta)
      ultimately show ?thesis by simp
    next
      case (Inr s1)
      from push_run_total [OF wf v d this] pushChanges_of_run None err show ?thesis by fastforce
    qed
  next
    case (Some r)
    then show ?thesis using err u by (simp add: pushChanges_def case_prod_beta)
  qed
qed

lemma sample_dup: "pushChanges sample_env (sample_push 3 \<lparr>pr_notes := pr_notes (sample_push 3) @ pr_notes (sample_push 2)\<rparr>)
   ''ann'' sample_options sample_server = Inl (Duplicate_entity_id Note_entity)"
  by (simp add: pushChanges_def assertUniquePushChangeIds_def assertUniqueEntityIds_def sample_push_def note_a_def)

theorem push_errors_witness:
  "\<not> distinct (map (n_id \<circ> c_record) (pr_notes (sample_push 3 \<lparr>pr_notes := pr_notes (sample_push 3) @ pr_notes (sample_push 2)\<rparr>)))"
  using push_errors [OF wf_sample_server _ sample_dup]
  by (simp add: valid_ids_def notebook_ids_of_def note_ids_of_def sample_push_def note_a_def)

text \<open>
  C6. A push that answers keeps the invariant of the database, only appends to the change log,
  and hands out strictly increasing revisions to entries of this owner.
\<close>

theorem push_keeps_invariant:
  assumes "wf_server s" and "valid_ids req" and push: "pushChanges e req owner opts s = Inr (resp, s')"
  shows "wf_server s' \<and> s_lastRevision s \<le> s_lastRevision s' \<and>
    (\<exists>new. s_changes s' = s_changes s @ new \<and>
       (\<forall>c \<in> set new. ch_owner c = owner \<and> s_lastRevision s < ch_revision c))"
proof -
  from pushChanges_Inr [OF push] obtain now s1 nbAcc s2 nAcc
    where run: "push_run e req owner opts s now s1 nbAcc s2 nAcc s'" by blast
  from push_run_facts(3,4) [OF assms(1,2) run] show ?thesis by (auto simp: log_grows_def)
qed

lemma sample_push_ok: "\<exists>resp s'. pushChanges sample_env (sample_push b) ''ann'' sample_options sample_server = Inr (resp, s')"
proof (rule push_succeeds [OF wf_sample_server])
  show "valid_ids (sample_push b)" "distinct (notebook_ids_of (sample_push b))" "distinct (note_ids_of (sample_push b))"
    by (simp_all add: valid_ids_def notebook_ids_of_def note_ids_of_def sample_push_def note_a_def)
  have "d_id (pr_device (sample_push b)) = ''d1''" by (simp add: sample_push_def device_a_def)
  moreover have "get_device_row sample_server ''ann'' ''d1'' \<noteq> None" by code_simp
  ultimately show "get_device_row sample_server ''ann'' (d_id (pr_device (sample_push b))) \<noteq> None" by (simp only:) simp
  show "limit_error (snd (read_clock sample_env sample_server)) ''ann'' (sample_push b) sample_options = None"
    by (simp add: limit_error_def sample_options_def)
qed

lemma valid_sample_push: "valid_ids (sample_push b)"
  by (simp add: valid_ids_def notebook_ids_of_def note_ids_of_def sample_push_def note_a_def)

theorem push_keeps_invariant_witness:
  "\<exists>resp s'. pushChanges sample_env (sample_push 3) ''ann'' sample_options sample_server = Inr (resp, s') \<and> wf_server s'"
proof -
  from sample_push_ok obtain resp s' where p: "pushChanges sample_env (sample_push 3) ''ann'' sample_options sample_server = Inr (resp, s')"
    by blast
  with push_keeps_invariant [OF wf_sample_server valid_sample_push p] show ?thesis by blast
qed


lemma conflicts_ids:
  "list_all2 (conflict_of ops s owner dn) cs xs \<Longrightarrow> map sc_entityId cs = map (eo_id ops \<circ> fst) xs \<and>
     (\<forall>c \<in> set cs. sc_entityType c = eo_type ops)"
  by (induction rule: list_all2_induct) (auto dest: conflict_of_id)

lemma pushNotebooks_answers:
  assumes t: "wf_table notebook_key (s_notebooks s)" and acc: "acc = pushNotebooks e req owner opts s"
  shows "mset (map ac_id (pa_accepted acc)) + mset (map sc_entityId (pa_conflicts acc)) = mset (notebook_ids_of req)"
    and "\<forall>a \<in> set (pa_accepted acc). ac_entityType a = Notebook_entity"
    and "\<forall>k \<in> set (pa_conflicts acc). sc_entityType k = Notebook_entity"
proof -
  obtain ds where ds: "list_all2 (\<lambda>c d. \<exists>a. d = notebook_decision e req owner opts s c a) (pr_notebooks req) ds"
    and a: "pa_accepted acc = map (accepted notebook_ops) (concat (map decision_accepts ds))"
    and k: "list_all2 (conflict_of notebook_ops s owner (d_name (pr_device req))) (pa_conflicts acc)
         (concat (map decision_rejects ds))"
    using pushNotebooks_trace [of e req owner opts s] acc by blast
  have "list_all2 (\<lambda>c d. (\<forall>r \<in> set (decision_accepts d). nb_id r = (nb_id \<circ> c_record) c) \<and>
      (\<forall>x \<in> set (decision_rejects d). nb_id (fst x) = (nb_id \<circ> c_record) c)) (pr_notebooks req) ds"
    by (rule list_all2_mono [OF ds]) (metis comp_apply notebook_decision_id [OF t])
  from decision_ids_mset [OF this] conflicts_ids [OF k]
  show "mset (map ac_id (pa_accepted acc)) + mset (map sc_entityId (pa_conflicts acc)) = mset (notebook_ids_of req)"
    by (simp add: a accepted_def comp_def notebook_ids_of_def)
  show "\<forall>a \<in> set (pa_accepted acc). ac_entityType a = Notebook_entity" by (auto simp: a accepted_def)
  show "\<forall>k \<in> set (pa_conflicts acc). sc_entityType k = Notebook_entity" using conflicts_ids [OF k] by simp
qed

lemma pushNotes_answers:
  assumes t: "wf_table note_key (s_notes s)" and acc: "acc = pushNotes e req owner opts nbs s"
  shows "mset (map ac_id (pa_accepted acc)) + mset (map sc_entityId (pa_conflicts acc)) = mset (note_ids_of req)"
    and "\<forall>a \<in> set (pa_accepted acc). ac_entityType a = Note_entity"
    and "\<forall>k \<in> set (pa_conflicts acc). sc_entityType k = Note_entity"
proof -
  let ?ds = "map (note_decision e req owner opts nbs s) (pr_notes req)"
  have a: "pa_accepted acc = map (accepted note_ops) (concat (map decision_accepts ?ds))"
    and k: "list_all2 (conflict_of note_ops s owner (d_name (pr_device req))) (pa_conflicts acc)
         (concat (map decision_rejects ?ds))"
    using pushNotes_trace [where s = s and owner = owner and req = req and e = e and opts = opts and nbs = nbs] acc
    by simp_all
  have "list_all2 (\<lambda>c d. (\<forall>r \<in> set (decision_accepts d). n_id r = (n_id \<circ> c_record) c) \<and>
      (\<forall>x \<in> set (decision_rejects d). n_id (fst x) = (n_id \<circ> c_record) c)) (pr_notes req) ?ds"
    using note_decision_id [OF t refl] by (simp add: list_all2_conv_all_nth)
  from decision_ids_mset [OF this] conflicts_ids [OF k]
  show "mset (map ac_id (pa_accepted acc)) + mset (map sc_entityId (pa_conflicts acc)) = mset (note_ids_of req)"
    by (simp add: a accepted_def comp_def note_ids_of_def)
  show "\<forall>a \<in> set (pa_accepted acc). ac_entityType a = Note_entity" by (auto simp: a accepted_def)
  show "\<forall>k \<in> set (pa_conflicts acc). sc_entityType k = Note_entity" using conflicts_ids [OF k] by simp
qed

lemma pair_mset: "\<forall>x \<in> set xs. f x = k \<Longrightarrow>
    {#(f x, g x). x \<in># mset xs#} = image_mset (Pair k) (image_mset g (mset xs))"
  by (induction xs) auto

lemma push_answers:
  assumes wf: "wf_server s" and v: "valid_ids req" and push: "pushChanges e req owner opts s = Inr (resp, s')"
  shows "mset (map (\<lambda>a. (ac_entityType a, ac_id a)) (ps_accepted resp))
       + mset (map (\<lambda>k. (conflict_entity_type k, conflict_entity_id k)) (ps_conflicts resp))
     = mset (map (\<lambda>c. (Notebook_entity, nb_id (c_record c))) (pr_notebooks req))
       + mset (map (\<lambda>c. (Note_entity, n_id (c_record c))) (pr_notes req))"
proof -
  from pushChanges_Inr [OF push] obtain now s1 nbAcc s2 nAcc
    where run: "push_run e req owner opts s now s1 nbAcc s2 nAcc s'"
      and resp: "ps_accepted resp = pa_accepted nbAcc @ pa_accepted nAcc"
        "ps_conflicts resp = map NotebookConflict (pa_conflicts nbAcc) @ map NoteConflict (pa_conflicts nAcc)" by auto
  note facts = push_run_facts [OF wf v run]
  have w1: "wf_table notebook_key (s_notebooks s1)" and w2: "wf_table note_key (s_notes s2)"
    using facts(1,2) by (simp_all add: wf_server_def wf_tables_def)
  have nb: "nbAcc = pushNotebooks e req owner opts s1"
    using run by (auto simp: push_run_def pushNotebookPhase_def Let_def)
  have n: "nAcc = pushNotes e req owner opts (pa_toWrite nbAcc) s2"
    using run by (auto simp: push_run_def pushNotePhase_def Let_def and_then_Inr)
  note A = pushNotebooks_answers [OF w1 nb] and B = pushNotes_answers [OF w2 n]
  have "mset (map (\<lambda>a. (ac_entityType a, ac_id a)) (pa_accepted nbAcc))
      + mset (map (\<lambda>k. (conflict_entity_type k, conflict_entity_id k)) (map NotebookConflict (pa_conflicts nbAcc)))
      = image_mset (Pair Notebook_entity) (mset (notebook_ids_of req))"
    by (simp add: A(1) [symmetric] pair_mset [OF A(2)] pair_mset [OF A(3)] comp_def)
  moreover have "mset (map (\<lambda>a. (ac_entityType a, ac_id a)) (pa_accepted nAcc))
      + mset (map (\<lambda>k. (conflict_entity_type k, conflict_entity_id k)) (map NoteConflict (pa_conflicts nAcc)))
      = image_mset (Pair Note_entity) (mset (note_ids_of req))"
    by (simp add: B(1) [symmetric] pair_mset [OF B(2)] pair_mset [OF B(3)] comp_def)
  ultimately show ?thesis
    by (simp add: resp notebook_ids_of_def note_ids_of_def comp_def image_mset.compositionality ac_simps)
qed

text \<open>
  C4. Every change of a request is answered exactly once, as accepted or as a conflict: the two
  lists of the answer together name each pushed record once and nothing else.
\<close>

theorem push_answers_each_change:
  assumes "wf_server s" and "valid_ids req" and "pushChanges e req owner opts s = Inr (resp, s')"
  shows "mset (map (\<lambda>a. (ac_entityType a, ac_id a)) (ps_accepted resp))
       + mset (map (\<lambda>k. (conflict_entity_type k, conflict_entity_id k)) (ps_conflicts resp))
     = mset (map (\<lambda>c. (Notebook_entity, nb_id (c_record c))) (pr_notebooks req))
       + mset (map (\<lambda>c. (Note_entity, n_id (c_record c))) (pr_notes req))"
  by (rule push_answers [OF assms])

theorem push_answers_each_change_witness:
  "\<exists>resp s'. pushChanges sample_env (sample_push 2) ''ann'' sample_options sample_server = Inr (resp, s') \<and>
     mset (map (\<lambda>a. (ac_entityType a, ac_id a)) (ps_accepted resp))
       + mset (map (\<lambda>k. (conflict_entity_type k, conflict_entity_id k)) (ps_conflicts resp))
     = {#(Note_entity, ''n1'')#}"
proof -
  from sample_push_ok obtain resp s' where p: "pushChanges sample_env (sample_push 2) ''ann'' sample_options sample_server = Inr (resp, s')"
    by blast
  from push_answers_each_change [OF wf_sample_server valid_sample_push p] p show ?thesis
    by (auto simp: sample_push_def note_a_def)
qed

section \<open>Conflicts instead of overwriting\<close>

text \<open>Notes that differ in more than their notebook references (which push may strip).\<close>

definition note_content_differs :: "Note \<Rightarrow> Note \<Rightarrow> bool" where
  "note_content_differs a b \<longleftrightarrow>
     fieldDiffers (n_titleHash a) (n_titleHash b) (n_title a) (n_title b) \<or>
     fieldDiffers (n_bodyHash a) (n_bodyHash b) (n_body a) (n_body b) \<or>
     n_deletedAt a \<noteq> n_deletedAt b \<or> n_trashedAt a \<noteq> n_trashedAt b \<or> n_isFavorite a \<noteq> n_isFavorite b"

lemma note_content_differs_syncable:
  "note_content_differs n r \<Longrightarrow> notesDiffer (fst (noteWithSyncableNotebookRefsFromMap n m)) r"
  by (auto simp: note_content_differs_def notesDiffer_def noteWithSyncableNotebookRefsFromMap_def Let_def)

lemma decideNote_diverged:
  assumes "map_of remotes (n_id (c_record c)) = Some r" "c_baseVersion c \<noteq> n_version r"
    and "note_content_differs (c_record c) r"
  shows "decideNote e opts remotes ts nbs c = Reject (fst (noteWithSyncableNotebookRefsFromMap (c_record c) nbs)) r None"
proof -
  obtain n ch where nn: "noteWithSyncableNotebookRefsFromMap (c_record c) nbs = (n, ch)" by fastforce
  with note_content_differs_syncable [OF assms(3), of nbs] have "notesDiffer n r" by simp
  with assms(1,2) nn show ?thesis by (simp add: decideNote_def shouldConflict_def)
qed

lemma decideNotebook_diverged:
  assumes "map_of remotes (nb_id (c_record c)) = Some r" "c_baseVersion c \<noteq> nb_version r"
    and "notebooksDiffer (c_record c) r"
  shows "decideNotebook e opts remotes ts cands act del c = Reject (c_record c) r None"
  using assms by (simp add: decideNotebook_def shouldConflict_def Let_def)

text \<open>The change of a record is the only one that can write it.\<close>

lemma distinct_change_eq:
  "distinct (map f cs) \<Longrightarrow> c \<in> set cs \<Longrightarrow> c' \<in> set cs \<Longrightarrow> f c = f c' \<Longrightarrow> c = c'"
  by (simp add: distinct_map inj_on_def)

lemma push_run_note_decision:
  assumes wf: "wf_server s" and v: "valid_ids req" and run: "push_run e req owner opts s now s1 nbAcc s2 nAcc s3"
    and c: "c \<in> set (pr_notes req)"
  shows "nAcc = pushNotes e req owner opts (pa_toWrite nbAcc) s2"
    and "map_of (getNotesByIds s2 (note_ids_of req) owner) (n_id (c_record c)) = getNote s (n_id (c_record c)) owner"
    and "map_of (getEntityTombstonesByIds s2 owner Note_entity (filter
           (\<lambda>i. map_of (getNotesByIds s2 (note_ids_of req) owner) i = None) (note_ids_of req))) (n_id (c_record c))
         = (if getNote s (n_id (c_record c)) owner = None then getEntityTombstone s owner Note_entity (n_id (c_record c)) else None)"
    and "get_note_row s3 owner (n_id (c_record c)) =
      (case note_decision e req owner opts (pa_toWrite nbAcc) s2 c of
         Accept n True \<Rightarrow> Some (written_note_row owner now n (get_note_row s owner (n_id (c_record c))))
       | _ \<Rightarrow> get_note_row s owner (n_id (c_record c)))"
proof -
  note facts = push_run_facts [OF wf v run]
  from run have d: "distinct (note_ids_of req)" and dn: "distinct (notebook_ids_of req)"
    and p1: "pushNotebookPhase e req owner opts now s1 = (nbAcc, s2)"
    and p2: "pushNotePhase e req owner opts now (pa_toWrite nbAcc) s2 = Inr (nAcc, s3)"
    unfolding push_run_def by - (elim conjE, assumption)+
  show nacc: "nAcc = pushNotes e req owner opts (pa_toWrite nbAcc) s2" by (rule note_phase(2) [OF facts(2) d v p2])
  have t: "wf_table note_key (s_notes s2)" "wf_table tombstone_key (s_tombstones s2)"
    using facts(2) by (simp_all add: wf_server_def wf_tables_def)
  have i: "n_id (c_record c) \<in> set (note_ids_of req)" using c by (auto simp: note_ids_of_def)
  then have tr: "truthy (n_id (c_record c))" using v by (simp add: valid_ids_def)
  have gn: "getNote s2 j owner = getNote s j owner" for j by (simp add: getNote_def facts(6))
  show "map_of (getNotesByIds s2 (note_ids_of req) owner) (n_id (c_record c)) = getNote s (n_id (c_record c)) owner"
    using i tr by (simp add: getNotesByIds_lookup [OF t(1)] gn)
  have "getEntityTombstone s2 owner Note_entity j = getEntityTombstone s owner Note_entity j" for j
    using notebook_phase(7) [OF facts(1) dn v p1, of owner Note_entity j] by (simp add: facts(9))
  then show "map_of (getEntityTombstonesByIds s2 owner Note_entity (filter
           (\<lambda>i. map_of (getNotesByIds s2 (note_ids_of req) owner) i = None) (note_ids_of req))) (n_id (c_record c))
         = (if getNote s (n_id (c_record c)) owner = None then getEntityTombstone s owner Note_entity (n_id (c_record c)) else None)"
    using i tr by (auto simp: getEntityTombstonesByIds_lookup [OF t(2)] getNotesByIds_lookup [OF t(1)] gn)
  let ?d = "note_decision e req owner opts (pa_toWrite nbAcc) s2"
  have w: "pa_toWrite nAcc = concat (map (decision_writes \<circ> ?d) (pr_notes req))"
    by (simp add: nacc pushNotes_trace(3))
  have nw: "distinct (map n_id (pa_toWrite nAcc))"
    using notes_written(1) [OF facts(2) d v, of "pa_toWrite nAcc" e owner opts "pa_toWrite nbAcc"] by (simp add: nacc)
  have row: "get_note_row s3 owner (n_id (c_record c)) = (case find (\<lambda>n. n_id n = n_id (c_record c)) (pa_toWrite nAcc) of
           Some n \<Rightarrow> Some (written_note_row owner now n (get_note_row s owner (n_id (c_record c))))
         | None \<Rightarrow> get_note_row s owner (n_id (c_record c)))"
    using note_phase(6) [OF facts(2) d v p2, of owner "n_id (c_record c)"] by (simp add: facts(6) split: option.splits)
  have idd: "r \<in> set (decision_accepts (?d c')) \<Longrightarrow> n_id r = n_id (c_record c')" for r c'
    using note_decision_id(1) [OF t(1) refl, of e req owner opts "pa_toWrite nbAcc" c'] by blast
  show "get_note_row s3 owner (n_id (c_record c)) =
      (case ?d c of
         Accept n True \<Rightarrow> Some (written_note_row owner now n (get_note_row s owner (n_id (c_record c))))
       | _ \<Rightarrow> get_note_row s owner (n_id (c_record c)))"
  proof (cases "\<exists>n. ?d c = Accept n True")
    case True
    then obtain n where n: "?d c = Accept n True" by blast
    then have m: "n \<in> set (pa_toWrite nAcc)" using c by (force simp: w)
    have "n_id n = n_id (c_record c)" using idd [of n c] n by simp
    with find_distinct [OF nw m] row n show ?thesis by simp
  next
    case False
    have "find (\<lambda>n. n_id n = n_id (c_record c)) (pa_toWrite nAcc) = None"
    proof (rule ccontr)
      assume "find (\<lambda>n. n_id n = n_id (c_record c)) (pa_toWrite nAcc) \<noteq> None"
      then obtain n where "n \<in> set (pa_toWrite nAcc)" "n_id n = n_id (c_record c)" by (auto dest: findSomeD)
      then obtain c' where c': "c' \<in> set (pr_notes req)" "n \<in> set (decision_writes (?d c'))" "n_id n = n_id (c_record c)"
        by (auto simp: w)
      have "n \<in> set (decision_accepts (?d c'))" by (rule subsetD [OF decision_writes_accepts c'(2)])
      from idd [OF this] c'(3) have "n_id (c_record c') = n_id (c_record c)" by simp
      then have "c' = c" using distinct_change_eq [OF d [unfolded note_ids_of_def] c'(1) c] by simp
      with c'(2) False show False by (cases "?d c") (auto split: if_splits)
    qed
    with row False show ?thesis by (cases "?d c") (auto split: bool.splits)
  qed
qed


text \<open>
  C1. No silent overwrite: when a pushed note differs in content from the stored one and was not
  made from the stored version, the stored row is untouched, the answer carries a conflict with
  the pushed content on one side and the stored note on the other, and the pushed content is kept
  as a version snapshot.
\<close>

theorem push_keeps_diverged_note:
  assumes wf: "wf_server s" and v: "valid_ids req" and push: "pushChanges e req owner opts s = Inr (resp, s')"
    and c: "c \<in> set (pr_notes req)" and old: "getNote s (n_id (c_record c)) owner = Some old"
    and base: "c_baseVersion c \<noteq> n_version old" and differ: "note_content_differs (c_record c) old"
  shows "get_note_row s' owner (n_id (c_record c)) = get_note_row s owner (n_id (c_record c)) \<and>
    (\<exists>k. NoteConflict k \<in> set (ps_conflicts resp) \<and> sc_entityId k = n_id (c_record c) \<and>
       cv_record (sc_remote k) = old \<and>
       n_title (cv_record (sc_local k)) = n_title (c_record c) \<and> n_body (cv_record (sc_local k)) = n_body (c_record c)) \<and>
    (\<exists>ver \<in> set (s_noteVersions s'). nv_owner ver = owner \<and> nv_reason ver = Conflict_reason \<and>
       n_id (nv_note ver) = n_id (c_record c) \<and>
       n_title (nv_note ver) = n_title (c_record c) \<and> n_body (nv_note ver) = n_body (c_record c))"
proof -
  from pushChanges_Inr [OF push] obtain now s1 nbAcc s2 nAcc
    where run: "push_run e req owner opts s now s1 nbAcc s2 nAcc s'"
      and resp: "ps_conflicts resp = map NotebookConflict (pa_conflicts nbAcc) @ map NoteConflict (pa_conflicts nAcc)" by auto
  note facts = push_run_facts [OF wf v run] and dec = push_run_note_decision [OF wf v run c]
  let ?d = "note_decision e req owner opts (pa_toWrite nbAcc) s2"
  let ?l = "fst (noteWithSyncableNotebookRefsFromMap (c_record c) (syncable_notebooks req owner (pa_toWrite nbAcc) s2))"
  have rej: "?d c = Reject ?l old None"
    unfolding note_decision_def Let_def by (rule decideNote_diverged) (simp_all add: dec(2) old base differ)
  have l: "n_id ?l = n_id (c_record c)" "n_title ?l = n_title (c_record c)" "n_body ?l = n_body (c_record c)"
    by (simp_all add: noteWithSyncableNotebookRefsFromMap_def Let_def)
  have "list_all2 (conflict_of note_ops s2 owner (d_name (pr_device req))) (pa_conflicts nAcc)
     (concat (map (decision_rejects \<circ> ?d) (pr_notes req)))"
    unfolding dec(1) by (rule pushNotes_trace(1))
  moreover have "(?l, old, None) \<in> set (concat (map (decision_rejects \<circ> ?d) (pr_notes req)))"
    using c rej by force
  ultimately obtain k where "k \<in> set (pa_conflicts nAcc)" "conflict_of note_ops s2 owner (d_name (pr_device req)) k (?l, old, None)"
    using list_all2_mem by metis
  then have k: "NoteConflict k \<in> set (ps_conflicts resp)" "sc_entityId k = n_id (c_record c)" "cv_record (sc_remote k) = old"
      "cv_record (sc_local k) = ?l"
    by (auto simp: resp conflict_of_def makeConflict_def conflictVersion_def l)
  have sn: "(?l, Conflict_reason) \<in> set (pa_snapshots nAcc)"
    unfolding dec(1) pushNotes_trace(4) using c rej by force
  from run have p2: "pushNotePhase e req owner opts now (pa_toWrite nbAcc) s2 = Inr (nAcc, s')"
      and d: "distinct (note_ids_of req)" unfolding push_run_def by - (elim conjE, assumption)+
  obtain ver where ver: "ver \<in> set (s_noteVersions s')" "nv_owner ver = owner" "nv_note ver = stored_note ?l"
      "nv_reason ver = Conflict_reason"
    using bspec [OF note_phase(9) [OF facts(2) d v p2] sn] by auto
  have "get_note_row s' owner (n_id (c_record c)) = get_note_row s owner (n_id (c_record c))"
    using dec(4) rej by simp
  moreover have "n_title (cv_record (sc_local k)) = n_title (c_record c) \<and> n_body (cv_record (sc_local k)) = n_body (c_record c)"
    by (simp add: k(4) l)
  moreover have "n_id (nv_note ver) = n_id (c_record c) \<and> n_title (nv_note ver) = n_title (c_record c)
      \<and> n_body (nv_note ver) = n_body (c_record c)"
    by (simp add: ver(3) stored_note_def Let_def l)
  ultimately show ?thesis using k(1-3) ver(1,2,4) by blast
qed

lemma sample_getNote: "getNote sample_server ''n1'' ''ann'' = Some note_a"
  by code_simp

theorem push_keeps_diverged_note_witness:
  "\<exists>resp s'. pushChanges sample_env (sample_push 2) ''ann'' sample_options sample_server = Inr (resp, s') \<and>
     get_note_row s' ''ann'' ''n1'' = get_note_row sample_server ''ann'' ''n1'' \<and>
     (\<exists>k. NoteConflict k \<in> set (ps_conflicts resp) \<and> n_title (cv_record (sc_local k)) = ''New'')"
proof -
  let ?c = "\<lparr>c_record = note_a\<lparr>n_title := ''New'', n_syncStatus := Pending\<rparr>, c_baseVersion = 2\<rparr>"
  from sample_push_ok obtain resp s' where p: "pushChanges sample_env (sample_push 2) ''ann'' sample_options sample_server = Inr (resp, s')"
    by blast
  have c: "?c \<in> set (pr_notes (sample_push 2))" by (simp add: sample_push_def)
  have i: "n_id (c_record ?c) = ''n1''" by (simp add: note_a_def)
  have "c_baseVersion ?c \<noteq> n_version note_a" by (simp add: note_a_def)
  moreover have "note_content_differs (c_record ?c) note_a" by (simp add: note_content_differs_def fieldDiffers_def note_a_def)
  ultimately have "get_note_row s' ''ann'' ''n1'' = get_note_row sample_server ''ann'' ''n1'' \<and>
     (\<exists>k. NoteConflict k \<in> set (ps_conflicts resp) \<and> n_title (cv_record (sc_local k)) = n_title (c_record ?c))"
    using push_keeps_diverged_note [OF wf_sample_server valid_sample_push p c, of note_a] unfolding i
    by (simp only: sample_getNote) blast
  with p show ?thesis by (auto simp: note_a_def)
qed


section \<open>What a push writes\<close>

lemma note_row_changed:
  assumes wf: "wf_server s" and v: "valid_ids req" and run: "push_run e req owner opts s now s1 nbAcc s2 nAcc s3"
    and ch: "get_note_row s3 o1 i \<noteq> get_note_row s o1 i"
  obtains c n where "o1 = owner" "c \<in> set (pr_notes req)" "n_id (c_record c) = i" "n_id n = i"
    "note_decision e req owner opts (pa_toWrite nbAcc) s2 c = Accept n True" "n \<in> set (pa_toWrite nAcc)"
    "get_note_row s3 owner i = Some (written_note_row owner now n (get_note_row s owner i))"
proof -
  note facts = push_run_facts [OF wf v run]
  from run have d: "distinct (note_ids_of req)"
    and p2: "pushNotePhase e req owner opts now (pa_toWrite nbAcc) s2 = Inr (nAcc, s3)"
    unfolding push_run_def by - (elim conjE, assumption)+
  note ph = note_phase [OF facts(2) d v p2]
  from ch ph(6) [of o1 i] obtain n where n: "find (\<lambda>n. n_id n = i) (pa_toWrite nAcc) = Some n" "o1 = owner"
      "get_note_row s3 owner i = Some (written_note_row owner now n (get_note_row s owner i))"
    by (auto simp: facts(6) split: option.splits if_splits)
  then have "n \<in> set (pa_toWrite nAcc)" "n_id n = i" by (auto dest: findSomeD)
  moreover from this ph(2) notes_written(4) [OF facts(2) d v, of "pa_toWrite nAcc" e owner opts "pa_toWrite nbAcc"]
  obtain c where "c \<in> set (pr_notes req)" "n_id (c_record c) = n_id n"
      "note_decision e req owner opts (pa_toWrite nbAcc) s2 c = Accept n True" by blast
  ultimately show ?thesis using that n by metis
qed

lemma notebook_row_changed:
  assumes wf: "wf_server s" and v: "valid_ids req" and run: "push_run e req owner opts s now s1 nbAcc s2 nAcc s3"
    and ch: "get_notebook_row s3 o1 i \<noteq> get_notebook_row s o1 i"
  shows "o1 = owner \<and> (\<exists>nb \<in> set (pa_toWrite nbAcc). nb_id nb = i)"
proof -
  note facts = push_run_facts [OF wf v run]
  from run have d: "distinct (notebook_ids_of req)"
    and p1: "pushNotebookPhase e req owner opts now s1 = (nbAcc, s2)"
    unfolding push_run_def by - (elim conjE, assumption)+
  from ch notebook_phase(6) [OF facts(1) d v p1, of o1 i] show ?thesis
    by (auto simp: facts(7,8) split: option.splits if_splits dest: findSomeD)
qed

text \<open>The version an accepted write of a stored note gets.\<close>

lemma decideNote_accept_stored:
  assumes "decideNote e opts remotes ts nbs c = Accept n True" and "map_of remotes (n_id (c_record c)) = Some r"
  shows "n_version n = (if po_preserve opts then n_version (c_record c) else js_add1 (n_version r))"
    and "c_baseVersion c = n_version r \<or> \<not> note_content_differs (c_record c) r"
proof -
  obtain m ch where mm: "noteWithSyncableNotebookRefsFromMap (c_record c) nbs = (m, ch)" by fastforce
  then have m: "n_version m = n_version (c_record c)"
    by (metis noteWithSyncableNotebookRefsFromMap_id(2) fst_conv)
  from assms mm m show "n_version n = (if po_preserve opts then n_version (c_record c) else js_add1 (n_version r))"
    by (auto simp: decideNote_def accepted_version_def split: if_splits)
  have "\<not> shouldConflict notesDiffer n_version m (Some r) (c_baseVersion c)"
    using assms mm by (auto simp: decideNote_def split: if_splits)
  then show "c_baseVersion c = n_version r \<or> \<not> note_content_differs (c_record c) r"
    using note_content_differs_syncable [of "c_record c" r nbs] mm by (auto simp: note_sync.conflict_iff)
qed

text \<open>
  C3. A push that changes a stored note does so for a change of the request that was based on the
  stored version (or has the stored content), gives it the version after the stored one, and
  reports that version to the client.
\<close>

theorem push_note_version_advances:
  assumes wf: "wf_server s" and v: "valid_ids req" and push: "pushChanges e req owner opts s = Inr (resp, s')"
    and old: "getNote s i owner = Some old" and ch: "get_note_row s' owner i \<noteq> get_note_row s owner i"
    and np: "\<not> po_preserve opts"
  shows "\<exists>c \<in> set (pr_notes req). n_id (c_record c) = i \<and>
      (c_baseVersion c = n_version old \<or> \<not> note_content_differs (c_record c) old) \<and>
      (\<exists>new. getNote s' i owner = Some new \<and> n_version new = js_add1 (n_version old) \<and>
         \<lparr>ac_entityType = Note_entity, ac_id = i, ac_version = js_add1 (n_version old), ac_updatedAt = n_updatedAt new\<rparr>
           \<in> set (ps_accepted resp))"
proof -
  from pushChanges_Inr [OF push] obtain now s1 nbAcc s2 nAcc
    where run: "push_run e req owner opts s now s1 nbAcc s2 nAcc s'"
      and resp: "ps_accepted resp = pa_accepted nbAcc @ pa_accepted nAcc" by auto
  from note_row_changed [OF wf v run ch] obtain c n where c: "c \<in> set (pr_notes req)" "n_id (c_record c) = i" "n_id n = i"
      and d: "note_decision e req owner opts (pa_toWrite nbAcc) s2 c = Accept n True"
      and row: "get_note_row s' owner i = Some (written_note_row owner now n (get_note_row s owner i))" by metis
  note dec = push_run_note_decision [OF wf v run c(1)]
  have rem: "map_of (getNotesByIds s2 (note_ids_of req) owner) (n_id (c_record c)) = Some old"
    using dec(2) old c(2) by simp
  note acc = decideNote_accept_stored [OF d [unfolded note_decision_def Let_def] rem]
  have ver: "n_version n = js_add1 (n_version old)" using acc(1) np by simp
  define new where "new = toNote (written_note_row owner now n (get_note_row s owner i))"
  have "getNote s' i owner = Some new" by (simp add: getNote_def row new_def)
  moreover have "n_version new = js_add1 (n_version old)" by (simp add: new_def ver)
  moreover have "n_updatedAt new = n_updatedAt n" by (simp add: new_def written_note_row_def)
  moreover have "accepted note_ops n \<in> set (ps_accepted resp)"
    unfolding resp dec(1) pushNotes_trace(2) using c(1) d by force
  moreover have "accepted note_ops n = \<lparr>ac_entityType = Note_entity, ac_id = i, ac_version = js_add1 (n_version old),
      ac_updatedAt = n_updatedAt n\<rparr>" by (simp add: accepted_def c(3) ver) (simp add: note_ops_def)
  ultimately show ?thesis using c acc(2) by auto
qed


lemma decideNote_current:
  assumes "map_of remotes (n_id (c_record c)) = Some r" "c_baseVersion c = n_version r"
    and "note_content_differs (c_record c) r"
  shows "\<exists>n. decideNote e opts remotes ts nbs c = Accept n True \<and> n_title n = n_title (c_record c) \<and>
    n_body n = n_body (c_record c) \<and> n_version n = accepted_version opts (n_version (c_record c)) (Some (n_version r)) None"
proof -
  obtain m ch where mm: "noteWithSyncableNotebookRefsFromMap (c_record c) nbs = (m, ch)" by fastforce
  have m: "n_version m = n_version (c_record c)" "n_title m = n_title (c_record c)" "n_body m = n_body (c_record c)"
    using mm by (auto simp: noteWithSyncableNotebookRefsFromMap_def Let_def)
  have "notesDiffer m r" using note_content_differs_syncable [OF assms(3), of nbs] mm by simp
  moreover have "\<not> shouldConflict notesDiffer n_version m (Some r) (c_baseVersion c)"
    by (simp add: assms(2) note_sync.no_conflict_at_base)
  ultimately have "decideNote e opts remotes ts nbs c = Accept (m\<lparr>n_version :=
      accepted_version opts (n_version m) (Some (n_version r)) None, n_syncStatus := Synced\<rparr>) True"
    using assms(1) mm by (simp add: decideNote_def)
  with m show ?thesis by simp
qed

lemma current_edit_stored:
  assumes wf: "wf_server s" and v: "valid_ids req" and push: "pushChanges e req owner opts s = Inr (resp, s')"
    and c: "c \<in> set (pr_notes req)" and old: "getNote s (n_id (c_record c)) owner = Some old"
    and base: "c_baseVersion c = n_version old" and differ: "note_content_differs (c_record c) old"
  shows "\<exists>new. getNote s' (n_id (c_record c)) owner = Some new \<and> n_title new = n_title (c_record c) \<and>
    n_body new = n_body (c_record c) \<and>
    n_version new = accepted_version opts (n_version (c_record c)) (Some (n_version old)) None \<and>
    \<lparr>ac_entityType = Note_entity, ac_id = n_id (c_record c), ac_version = n_version new, ac_updatedAt = n_updatedAt new\<rparr>
      \<in> set (ps_accepted resp)"
proof -
  from pushChanges_Inr [OF push] obtain now s1 nbAcc s2 nAcc
    where run: "push_run e req owner opts s now s1 nbAcc s2 nAcc s'"
      and resp: "ps_accepted resp = pa_accepted nbAcc @ pa_accepted nAcc" by auto
  note dec = push_run_note_decision [OF wf v run c]
  have "\<exists>n. note_decision e req owner opts (pa_toWrite nbAcc) s2 c = Accept n True \<and> n_title n = n_title (c_record c) \<and>
    n_body n = n_body (c_record c) \<and> n_version n = accepted_version opts (n_version (c_record c)) (Some (n_version old)) None"
    unfolding note_decision_def Let_def by (rule decideNote_current) (simp_all add: dec(2) old base differ)
  then obtain n where n: "note_decision e req owner opts (pa_toWrite nbAcc) s2 c = Accept n True"
      "n_title n = n_title (c_record c)" "n_body n = n_body (c_record c)"
      "n_version n = accepted_version opts (n_version (c_record c)) (Some (n_version old)) None" by blast
  have "accepted note_ops n \<in> set (ps_accepted resp)" unfolding resp dec(1) pushNotes_trace(2) using c n(1) by force
  moreover have "wf_table note_key (s_notes s2)"
    using push_run_facts(2) [OF wf v run] by (simp add: wf_server_def wf_tables_def)
  then have "n_id n = n_id (c_record c)" using note_decision_id(1) [OF _ n(1) [symmetric]] by fastforce
  ultimately show ?thesis using dec(4) n
    by (auto simp: getNote_def written_note_row_def toNote_def Let_def accepted_def note_ops_def)
qed

text \<open>The sample push from the stored version changes the row.\<close>

lemma sample_row_changes:
  assumes p: "pushChanges sample_env (sample_push 3) ''ann'' sample_options sample_server = Inr (resp, s')"
  shows "get_note_row s' ''ann'' ''n1'' \<noteq> get_note_row sample_server ''ann'' ''n1''"
proof -
  let ?c = "\<lparr>c_record = note_a\<lparr>n_title := ''New'', n_syncStatus := Pending\<rparr>, c_baseVersion = 3\<rparr>"
  have c: "?c \<in> set (pr_notes (sample_push 3))" by (simp add: sample_push_def)
  have i: "n_id (c_record ?c) = ''n1''" by (simp add: note_a_def)
  have "note_content_differs (c_record ?c) note_a" by (simp add: note_content_differs_def fieldDiffers_def note_a_def)
  moreover have "c_baseVersion ?c = n_version note_a" by (simp add: note_a_def)
  ultimately obtain new where new: "getNote s' ''n1'' ''ann'' = Some new" "n_title new = ''New''"
    using current_edit_stored [OF wf_sample_server valid_sample_push p c, of note_a] unfolding i
    by (auto simp: sample_getNote note_a_def)
  show ?thesis using new sample_getNote by (auto simp: getNote_def note_a_def)
qed

theorem push_note_version_advances_witness:
  "\<exists>resp s'. pushChanges sample_env (sample_push 3) ''ann'' sample_options sample_server = Inr (resp, s') \<and>
     (\<exists>new. getNote s' ''n1'' ''ann'' = Some new \<and> n_version new = 4)"
proof -
  from sample_push_ok obtain resp s' where p: "pushChanges sample_env (sample_push 3) ''ann'' sample_options sample_server = Inr (resp, s')"
    by blast
  have np: "\<not> po_preserve sample_options" by (simp add: sample_options_def)
  from push_note_version_advances [OF wf_sample_server valid_sample_push p sample_getNote sample_row_changes [OF p] np] p
  show ?thesis by (auto simp: note_a_def js_add1_def max_safe_integer_def)
qed

text \<open>
  C7. Referential integrity: every notebook an accepted note is stored with exists for that owner
  after the push and is not deleted, whatever order the request lists its changes in.
\<close>

theorem push_notes_in_active_notebooks:
  assumes wf: "wf_server s" and v: "valid_ids req" and push: "pushChanges e req owner opts s = Inr (resp, s')"
    and ch: "get_note_row s' o1 i \<noteq> get_note_row s o1 i"
  shows "\<exists>r. get_note_row s' o1 i = Some r \<and> n_notebookId (nr_note r) = first_or_null (n_notebookIds (nr_note r)) \<and>
    (\<forall>j \<in> set (n_notebookIds (nr_note r)).
       \<exists>nb. getNotebook s' j o1 = Some nb \<and> \<not> truthy_opt (nb_deletedAt nb))"
proof -
  from pushChanges_Inr [OF push] obtain now s1 nbAcc s2 nAcc
    where run: "push_run e req owner opts s now s1 nbAcc s2 nAcc s'" by blast
  note facts = push_run_facts [OF wf v run]
  from note_row_changed [OF wf v run ch] obtain c n where o: "o1 = owner" and
      d: "note_decision e req owner opts (pa_toWrite nbAcc) s2 c = Accept n True" and
      row: "get_note_row s' owner i = Some (written_note_row owner now n (get_note_row s owner i))" by metis
  have st: "\<And>nb. nb \<in> set (pa_toWrite nbAcc) \<Longrightarrow> getNotebook s2 (nb_id nb) owner = Some nb" using facts(10) by blast
  have "getNotebook s' j owner = getNotebook s2 j owner" for j by (simp add: getNotebook_def facts(8))
  with note_decision_refs(1) [OF facts(2) st d] row o show ?thesis
    by (simp add: written_note_row_def)
qed

theorem push_notes_in_active_notebooks_witness:
  "\<exists>resp s' r. pushChanges sample_env (sample_push 3) ''ann'' sample_options sample_server = Inr (resp, s') \<and>
     get_note_row s' ''ann'' ''n1'' = Some r \<and>
     (\<forall>j \<in> set (n_notebookIds (nr_note r)). \<exists>nb. getNotebook s' j ''ann'' = Some nb \<and> \<not> truthy_opt (nb_deletedAt nb))"
proof -
  from sample_push_ok obtain resp s' where p: "pushChanges sample_env (sample_push 3) ''ann'' sample_options sample_server = Inr (resp, s')"
    by blast
  from push_notes_in_active_notebooks [OF wf_sample_server valid_sample_push p sample_row_changes [OF p]] p show ?thesis by blast
qed


lemma push_versions:
  assumes wf: "wf_server s" and v: "valid_ids req" and push: "pushChanges e req owner opts s = Inr (resp, s')" and other: "o1 \<noteq> owner"
  shows "filter (\<lambda>r. nv_owner r = o1) (s_noteVersions s') = filter (\<lambda>r. nv_owner r = o1) (s_noteVersions s)"
    "filter (\<lambda>r. nbv_owner r = o1) (s_notebookVersions s') = filter (\<lambda>r. nbv_owner r = o1) (s_notebookVersions s)"
    "s_meta s' = s_meta s" "s_users s' = s_users s"
proof -
  from pushChanges_Inr [OF push] obtain now s1 nbAcc s2 nAcc
    where run: "push_run e req owner opts s now s1 nbAcc s2 nAcc s'" by blast
  note facts = push_run_facts [OF wf v run]
  from run have d: "distinct (notebook_ids_of req)" "distinct (note_ids_of req)"
    and up: "upsertDevice (pr_device req) now owner e (snd (read_clock e s)) = Inr s1"
    and p1: "pushNotebookPhase e req owner opts now s1 = (nbAcc, s2)"
    and p2: "pushNotePhase e req owner opts now (pa_toWrite nbAcc) s2 = Inr (nAcc, s')"
    unfolding push_run_def by - (elim conjE, assumption)+
  define t1 where "t1 = s1\<lparr>s_fresh := pa_fresh nbAcc\<rparr>"
  define u1 where "u1 = putNotebooks (pa_toWrite nbAcc) owner now t1"
  have s2: "s2 = saveNotebookSnapshots e (pa_snapshots nbAcc) owner u1" and a1: "nbAcc = pushNotebooks e req owner opts s1"
    using p1 by (auto simp: pushNotebookPhase_def Let_def t1_def u1_def)
  note nw1 = notebooks_written [OF facts(1) d(1) v arg_cong [where f = pa_toWrite, OF a1]]
  note spec1 = putNotebooks_spec [OF u1_def nw1(1,2)]
  define t2 where "t2 = s2\<lparr>s_fresh := pa_fresh nAcc\<rparr>"
  from p2 obtain u2 where put: "putNotes (pa_toWrite nAcc) owner now t2 = Inr u2"
    and a2: "nAcc = pushNotes e req owner opts (pa_toWrite nbAcc) s2" and s': "s' = saveNoteSnapshots e (pa_snapshots nAcc) owner u2"
    by (auto simp: pushNotePhase_def Let_def t2_def and_then_Inr)
  note nw2 = notes_written [OF facts(2) d(2) v arg_cong [where f = pa_toWrite, OF a2]]
  note spec2 = putNotes_spec [OF put nw2(1,2)]
  note up1 = upsertDevice_spec [OF up]
  show "filter (\<lambda>r. nv_owner r = o1) (s_noteVersions s') = filter (\<lambda>r. nv_owner r = o1) (s_noteVersions s)"
    using other by (simp add: s' s2 saveNoteSnapshots_eq saveNotebookSnapshots_eq spec1 spec2 up1 t1_def t2_def read_clock_def filter_empty_conv case_prod_beta)
  show "filter (\<lambda>r. nbv_owner r = o1) (s_notebookVersions s') = filter (\<lambda>r. nbv_owner r = o1) (s_notebookVersions s)"
    using other by (simp add: s' s2 saveNoteSnapshots_eq saveNotebookSnapshots_eq spec1 spec2 up1 t1_def t2_def read_clock_def filter_empty_conv case_prod_beta)
  show "s_meta s' = s_meta s" "s_users s' = s_users s"
    by (simp_all add: s' s2 saveNoteSnapshots_eq saveNotebookSnapshots_eq spec1 spec2 up1 t1_def t2_def read_clock_def)
qed

text \<open>
  C8. Accounts are isolated: a push by one owner leaves the notes, notebooks, devices, tombstones, log
  entries and version snapshots of every other owner as they were, and the tables of users and settings.
\<close>

theorem push_isolates_owners:
  assumes wf: "wf_server s" and v: "valid_ids req" and push: "pushChanges e req owner opts s = Inr (resp, s')"
    and other: "o1 \<noteq> owner"
  shows "get_note_row s' o1 i = get_note_row s o1 i \<and> get_notebook_row s' o1 i = get_notebook_row s o1 i \<and>
    get_device_row s' o1 i = get_device_row s o1 i \<and> getEntityTombstone s' o1 ty i = getEntityTombstone s o1 ty i \<and>
    filter (\<lambda>c. ch_owner c = o1) (s_changes s') = filter (\<lambda>c. ch_owner c = o1) (s_changes s) \<and>
    filter (\<lambda>r. nv_owner r = o1) (s_noteVersions s') = filter (\<lambda>r. nv_owner r = o1) (s_noteVersions s) \<and>
    filter (\<lambda>r. nbv_owner r = o1) (s_notebookVersions s') = filter (\<lambda>r. nbv_owner r = o1) (s_notebookVersions s) \<and>
    s_users s' = s_users s \<and> s_meta s' = s_meta s"
proof -
  from pushChanges_Inr [OF push] obtain now s1 nbAcc s2 nAcc
    where run: "push_run e req owner opts s now s1 nbAcc s2 nAcc s'" by blast
  note facts = push_run_facts [OF wf v run]
  from run have d: "distinct (notebook_ids_of req)" "distinct (note_ids_of req)"
    and up: "upsertDevice (pr_device req) now owner e (snd (read_clock e s)) = Inr s1"
    and p1: "pushNotebookPhase e req owner opts now s1 = (nbAcc, s2)"
    and p2: "pushNotePhase e req owner opts now (pa_toWrite nbAcc) s2 = Inr (nAcc, s')"
    unfolding push_run_def by - (elim conjE, assumption)+
  have "get_note_row s' o1 i = get_note_row s o1 i"
    using note_row_changed [OF wf v run, of o1 i] other by metis
  moreover have "get_notebook_row s' o1 i = get_notebook_row s o1 i"
    using notebook_row_changed [OF wf v run, of o1 i] other by metis
  moreover have dv: "get_device_row s' = get_device_row s1"
    by (rule lookups_cong) (simp add: note_phase(5) [OF facts(2) d(2) v p2] notebook_phase(5) [OF facts(1) d(1) v p1])
  have "get_device_row s' o1 i = get_device_row (snd (read_clock e s)) o1 i"
    using upsertDevice_spec(8) [OF up, of o1 i] other by (simp add: dv)
  then have "get_device_row s' o1 i = get_device_row s o1 i" by (simp add: get_device_row_def read_clock_def)
  moreover have "getEntityTombstone s' o1 ty i = getEntityTombstone s o1 ty i"
    using note_phase(7) [OF facts(2) d(2) v p2, of o1 ty i] notebook_phase(7) [OF facts(1) d(1) v p1, of o1 ty i] other
    by (simp add: facts(9))
  moreover have "filter (\<lambda>c. ch_owner c = o1) (s_changes s') = filter (\<lambda>c. ch_owner c = o1) (s_changes s)"
    using facts(4) other by (auto simp: log_grows_def filter_empty_conv)
  ultimately show ?thesis using push_versions [OF wf v push other] by blast
qed

theorem push_isolates_owners_witness:
  "\<exists>resp s'. pushChanges sample_env (sample_push 3) ''ann'' sample_options sample_server = Inr (resp, s') \<and>
     get_note_row s' ''bob'' ''n1'' = None"
proof -
  from sample_push_ok obtain resp s' where p: "pushChanges sample_env (sample_push 3) ''ann'' sample_options sample_server = Inr (resp, s')"
    by blast
  have o: "''bob'' \<noteq> ''ann''" by simp
  have "get_note_row sample_server ''bob'' ''n1'' = None" by (simp add: get_note_row_def sample_server_def tget_def note_key_def)
  with push_isolates_owners [OF wf_sample_server valid_sample_push p o, of "''n1''"] p show ?thesis by auto
qed

text \<open>
  C9. A deleted note does not come back by itself: a push of a note the server has a tombstone for,
  not based on the version of that tombstone, leaves the note deleted and answers with a conflict
  whose reason says so.
\<close>

theorem push_respects_tombstone:
  assumes wf: "wf_server s" and v: "valid_ids req" and push: "pushChanges e req owner opts s = Inr (resp, s')"
    and c: "c \<in> set (pr_notes req)" and t: "getEntityTombstone s owner Note_entity (n_id (c_record c)) = Some t"
    and base: "c_baseVersion c \<noteq> t_version t" and no: "\<not> po_allowTombstoneOverwrite opts"
  shows "getNote s' (n_id (c_record c)) owner = None \<and>
    (\<exists>k. NoteConflict k \<in> set (ps_conflicts resp) \<and> sc_entityId k = n_id (c_record c) \<and>
       sc_reason k = Deleted_remotely \<and> cv_record (sc_local k) = c_record c \<and>
       n_deletedAt (cv_record (sc_remote k)) = Some (t_deletedAt t))"
proof -
  from pushChanges_Inr [OF push] obtain now s1 nbAcc s2 nAcc
    where run: "push_run e req owner opts s now s1 nbAcc s2 nAcc s'"
      and resp: "ps_conflicts resp = map NotebookConflict (pa_conflicts nbAcc) @ map NoteConflict (pa_conflicts nAcc)" by auto
  note dec = push_run_note_decision [OF wf v run c]
  have row: "get_note_row s owner (n_id (c_record c)) = None"
    using wf t unfolding wf_server_def live_ok_def by (metis option.distinct(1))
  then have gn: "getNote s (n_id (c_record c)) owner = None" by (simp add: getNote_def)
  let ?d = "note_decision e req owner opts (pa_toWrite nbAcc) s2"
  have rej: "?d c = Reject (c_record c) (deletedRemoteNote (c_record c) t) (Some Deleted_remotely)"
    unfolding note_decision_def Let_def decideNote_def
    by (simp add: dec(2,3) gn t base no tombstoneOverwriteAllowed_def split: prod.split)
  have "list_all2 (conflict_of note_ops s2 owner (d_name (pr_device req))) (pa_conflicts nAcc)
     (concat (map (decision_rejects \<circ> ?d) (pr_notes req)))"
    unfolding dec(1) by (rule pushNotes_trace(1))
  moreover have "(c_record c, deletedRemoteNote (c_record c) t, Some Deleted_remotely)
     \<in> set (concat (map (decision_rejects \<circ> ?d) (pr_notes req)))" using c rej by force
  ultimately obtain k where "k \<in> set (pa_conflicts nAcc)" "conflict_of note_ops s2 owner (d_name (pr_device req)) k
      (c_record c, deletedRemoteNote (c_record c) t, Some Deleted_remotely)" using list_all2_mem by metis
  then have "NoteConflict k \<in> set (ps_conflicts resp) \<and> sc_entityId k = n_id (c_record c) \<and>
       sc_reason k = Deleted_remotely \<and> cv_record (sc_local k) = c_record c \<and>
       n_deletedAt (cv_record (sc_remote k)) = Some (t_deletedAt t)"
    by (auto simp: resp conflict_of_def makeConflict_def conflictVersion_def deletedRemoteNote_def)
  moreover have "getNote s' (n_id (c_record c)) owner = None" using dec(4) rej row by (simp add: getNote_def)
  ultimately show ?thesis by blast
qed

definition sample_revival :: push_request where
  "sample_revival = \<lparr>pr_device = device_a,
     pr_notes = [\<lparr>c_record = note_a\<lparr>n_id := ''n0''\<rparr>, c_baseVersion = 1\<rparr>], pr_notebooks = []\<rparr>"

theorem push_respects_tombstone_witness:
  "\<exists>resp s' k. pushChanges sample_env sample_revival ''ann'' sample_options sample_server = Inr (resp, s') \<and>
     getNote s' ''n0'' ''ann'' = None \<and> NoteConflict k \<in> set (ps_conflicts resp) \<and> sc_reason k = Deleted_remotely"
proof -
  let ?c = "\<lparr>c_record = note_a\<lparr>n_id := ''n0''\<rparr>, c_baseVersion = 1 :: int\<rparr>"
  have v: "valid_ids sample_revival" and d: "distinct (notebook_ids_of sample_revival)" "distinct (note_ids_of sample_revival)"
    by (simp_all add: valid_ids_def notebook_ids_of_def note_ids_of_def sample_revival_def)
  have dv: "get_device_row sample_server ''ann'' (d_id (pr_device sample_revival)) \<noteq> None" by code_simp
  have l: "limit_error (snd (read_clock sample_env sample_server)) ''ann'' sample_revival sample_options = None"
    by (simp add: limit_error_def sample_options_def)
  obtain resp s' where p: "pushChanges sample_env sample_revival ''ann'' sample_options sample_server = Inr (resp, s')"
    using push_succeeds [OF wf_sample_server v d dv l] by blast
  have c: "?c \<in> set (pr_notes sample_revival)" by (simp add: sample_revival_def)
  have t: "getEntityTombstone sample_server ''ann'' Note_entity ''n0'' = Some \<lparr>t_owner = ''ann'', t_entityType = Note_entity,
     t_entityId = ''n0'', t_deletedAt = ''2025-01-02T00:00:00.000Z'', t_deviceId = ''d1'', t_version = 2\<rparr>" by code_simp
  have i: "n_id (c_record ?c) = ''n0''" by simp
  show ?thesis
    using push_respects_tombstone [OF wf_sample_server v p c, unfolded i, OF t] p
    by (auto simp: sample_options_def)
qed

text \<open>
  C10. Every write is published: each note or notebook row that a push changes has a new entry in
  the change log of its owner, above every revision handed out before, so that a client whose
  cursor is at any older revision is told about it.
\<close>

theorem push_logs_every_write:
  assumes wf: "wf_server s" and v: "valid_ids req" and push: "pushChanges e req owner opts s = Inr (resp, s')"
  shows "(get_note_row s' o1 i \<noteq> get_note_row s o1 i \<longrightarrow> logged s s' o1 Note_entity i Upsert_op) \<and>
    (get_notebook_row s' o1 i \<noteq> get_notebook_row s o1 i \<longrightarrow> logged s s' o1 Notebook_entity i Upsert_op)"
proof -
  from pushChanges_Inr [OF push] obtain now s1 nbAcc s2 nAcc
    where run: "push_run e req owner opts s now s1 nbAcc s2 nAcc s'" by blast
  note facts = push_run_facts [OF wf v run]
  from run have d: "distinct (notebook_ids_of req)" "distinct (note_ids_of req)"
    and up: "upsertDevice (pr_device req) now owner e (snd (read_clock e s)) = Inr s1"
    and p1: "pushNotebookPhase e req owner opts now s1 = (nbAcc, s2)"
    and p2: "pushNotePhase e req owner opts now (pa_toWrite nbAcc) s2 = Inr (nAcc, s')"
    unfolding push_run_def by - (elim conjE, assumption)+
  have r1: "s_lastRevision s \<le> s_lastRevision s1"
    using upsertDevice_spec(11) [OF up] by (simp add: log_grows_def read_clock_def)
  have r2: "s_lastRevision s1 \<le> s_lastRevision s2"
    using notebook_phase(3) [OF facts(1) d(1) v p1] by (simp add: log_grows_def)
  show ?thesis
  proof (intro conjI impI)
    assume "get_note_row s' o1 i \<noteq> get_note_row s o1 i"
    from note_row_changed [OF wf v run this] obtain n where n: "o1 = owner" "n \<in> set (pa_toWrite nAcc)" "n_id n = i" by metis
    from p2 obtain u where u: "putNotes (pa_toWrite nAcc) owner now (s2\<lparr>s_fresh := pa_fresh nAcc\<rparr>) = Inr u"
        "s' = saveNoteSnapshots e (pa_snapshots nAcc) owner u"
      by (auto simp: pushNotePhase_def Let_def and_then_Inr)
    have "logged s2 s' owner Note_entity i Upsert_op"
      using putNotes_logged [OF u(1) n(2)] by (simp add: logged_def u(2) saveNoteSnapshots_eq n(3))
    from logged_mono [OF this order_trans [OF r1 r2] log_grows_refl [OF refl refl]] n(1)
    show "logged s s' o1 Note_entity i Upsert_op" by simp
  next
    assume "get_notebook_row s' o1 i \<noteq> get_notebook_row s o1 i"
    from notebook_row_changed [OF wf v run this] obtain nb where nb: "o1 = owner" "nb \<in> set (pa_toWrite nbAcc)" "nb_id nb = i"
      by blast
    from p1 have s2: "s2 = saveNotebookSnapshots e (pa_snapshots nbAcc) owner
        (putNotebooks (pa_toWrite nbAcc) owner now (s1\<lparr>s_fresh := pa_fresh nbAcc\<rparr>))"
      by (auto simp: pushNotebookPhase_def Let_def)
    have "logged s1 s2 owner Notebook_entity i Upsert_op"
      using putNotebooks_logged [OF nb(2), of "s1\<lparr>s_fresh := pa_fresh nbAcc\<rparr>" owner now]
      by (simp add: logged_def s2 saveNotebookSnapshots_eq nb)
    from logged_mono [OF this r1 note_phase(3) [OF facts(2) d(2) v p2]] nb(1)
    show "logged s s' o1 Notebook_entity i Upsert_op" by simp
  qed
qed

theorem push_logs_every_write_witness:
  "\<exists>resp s'. pushChanges sample_env (sample_push 3) ''ann'' sample_options sample_server = Inr (resp, s') \<and>
     logged sample_server s' ''ann'' Note_entity ''n1'' Upsert_op"
proof -
  from sample_push_ok obtain resp s' where p: "pushChanges sample_env (sample_push 3) ''ann'' sample_options sample_server = Inr (resp, s')"
    by blast
  from push_logs_every_write [OF wf_sample_server valid_sample_push p] sample_row_changes [OF p] p show ?thesis by blast
qed

end
