(* ===== verification/ServerPull.thy ===== *)
theory ServerPull
  imports ServerInv
begin

text \<open>
  \<open>pullChangesSince\<close> and \<open>pullMirrorChangesSinceRevision\<close> of
  \<open>apps/web/src/lib/server/repository.ts\<close>: one page of the change log, answered with the current
  records of the entities changed in it. A page whose JSON is too large is halved and asked for
  again; the recursion ends because every retry shows fewer log entries.
\<close>

section \<open>Definitions\<close>

definition DEFAULT_PULL_LIMIT :: int where
  "DEFAULT_PULL_LIMIT = 1000"

definition MAX_PULL_LIMIT :: int where
  "MAX_PULL_LIMIT = 1000"

text \<open>An absent or fractional limit is \<open>None\<close>.\<close>

definition pullLimit :: "int option \<Rightarrow> int" where
  "pullLimit limit =
     (case limit of
        Some n \<Rightarrow> if \<not> is_safe_integer n \<or> n \<le> 0 then DEFAULT_PULL_LIMIT else min n MAX_PULL_LIMIT
      | None \<Rightarrow> DEFAULT_PULL_LIMIT)"

text \<open>\<open>owner_username = ? AND revision > ? AND revision <= ?\<close>, in ascending order of revisions.\<close>

definition change_window :: "server \<Rightarrow> string \<Rightarrow> int \<Rightarrow> int \<Rightarrow> change_row list" where
  "change_window s owner since last_rev =
     filter (\<lambda>c. ch_owner c = owner \<and> since < ch_revision c \<and> ch_revision c \<le> last_rev) (s_changes s)"

definition page_rows :: "server \<Rightarrow> string \<Rightarrow> int \<Rightarrow> int \<Rightarrow> change_row list" where
  "page_rows s owner since limit =
     take (nat (limit + 1)) (change_window s owner since (currentRevision s (Some owner)))"

definition page_has_more :: "server \<Rightarrow> string \<Rightarrow> int \<Rightarrow> int \<Rightarrow> bool" where
  "page_has_more s owner since limit \<longleftrightarrow> int (length (page_rows s owner since limit)) > limit"

definition visible_rows :: "server \<Rightarrow> string \<Rightarrow> int \<Rightarrow> int \<Rightarrow> change_row list" where
  "visible_rows s owner since limit =
     (if page_has_more s owner since limit then take (nat limit) (page_rows s owner since limit)
      else page_rows s owner since limit)"

definition page_revision :: "server \<Rightarrow> string \<Rightarrow> int \<Rightarrow> int \<Rightarrow> int" where
  "page_revision s owner since limit =
     (case visible_rows s owner since limit of
        [] \<Rightarrow> currentRevision s (Some owner)
      | c # cs \<Rightarrow> asRevision (ch_revision (last (c # cs))))"

text \<open>The join with the greatest revision of every entity in the window.\<close>

definition latest_rows :: "server \<Rightarrow> string \<Rightarrow> int \<Rightarrow> int \<Rightarrow> change_row list" where
  "latest_rows s owner since last_rev =
     (let win = change_window s owner since last_rev
      in filter (\<lambda>c. \<exists>w \<in> set win. ch_entityType w = ch_entityType c \<and> ch_entityId w = ch_entityId c \<and>
             ch_revision c = max_or_zero (map ch_revision
               (filter (\<lambda>x. ch_entityType x = ch_entityType w \<and> ch_entityId x = ch_entityId w) win)))
           (s_changes s))"

text \<open>\<open>latestChanges\<close>: a \<open>Map\<close> keyed by the entity type and the identifier.\<close>

definition latestChanges :: "change_row list \<Rightarrow> ((entity_type \<times> string) \<times> entity_operation) list" where
  "latestChanges rows =
     fold (\<lambda>c. map_set (ch_entityType c, ch_entityId c) (ch_operation c)) rows []"

definition changed_ids :: "((entity_type \<times> string) \<times> entity_operation) list \<Rightarrow> entity_type \<Rightarrow> entity_operation \<Rightarrow> string list" where
  "changed_ids changes ty op = map (snd \<circ> fst) (filter (\<lambda>(k, o1). fst k = ty \<and> o1 = op) changes)"

definition empty_page :: "string \<Rightarrow> int \<Rightarrow> pull_response" where
  "empty_page serverTime serverRevision =
     \<lparr>pl_serverTime = serverTime, pl_serverRevision = serverRevision, pl_notes = [], pl_notebooks = [],
      pl_devices = [], pl_deletedNoteIds = [], pl_deletedNotebookIds = [], pl_deletedDeviceIds = [],
      pl_hasMore = False\<rparr>"

definition page_response :: "string \<Rightarrow> server \<Rightarrow> string \<Rightarrow> int \<Rightarrow> int \<Rightarrow> pull_response" where
  "page_response serverTime s owner since limit =
     (let serverRevision = page_revision s owner since limit;
          changes = latestChanges (latest_rows s owner since serverRevision)
      in \<lparr>pl_serverTime = serverTime, pl_serverRevision = serverRevision,
          pl_notes = map snd (getNotesByIds s (changed_ids changes Note_entity Upsert_op) owner),
          pl_notebooks = map snd (getNotebooksByIds s (changed_ids changes Notebook_entity Upsert_op) owner),
          pl_devices = map snd (getDevicesByIds s (changed_ids changes Device_entity Upsert_op) (Some owner)),
          pl_deletedNoteIds = changed_ids changes Note_entity Delete_op,
          pl_deletedNotebookIds = changed_ids changes Notebook_entity Delete_op,
          pl_deletedDeviceIds = changed_ids changes Device_entity Delete_op,
          pl_hasMore = page_has_more s owner since limit\<rparr>)"

section \<open>The shape of a page\<close>

lemma pullLimit_bounds: "1 \<le> pullLimit limit \<and> pullLimit limit \<le> 1000"
  by (auto simp: pullLimit_def DEFAULT_PULL_LIMIT_def MAX_PULL_LIMIT_def split: option.splits)

lemma pullLimit_small: "1 \<le> n \<Longrightarrow> n \<le> 1000 \<Longrightarrow> pullLimit (Some n) = n"
  by (simp add: pullLimit_def MAX_PULL_LIMIT_def is_safe_integer_def max_safe_integer_def)

lemma page_rows_length: "0 \<le> limit \<Longrightarrow> int (length (page_rows s owner since limit)) \<le> limit + 1"
  by (simp add: page_rows_def)

lemma visible_rows_length: "1 \<le> limit \<Longrightarrow> int (length (visible_rows s owner since limit)) \<le> limit"
  by (auto simp: visible_rows_def page_has_more_def)

lemma visible_rows_take:
  "1 \<le> limit \<Longrightarrow> visible_rows s owner since limit =
     take (nat limit) (change_window s owner since (currentRevision s (Some owner)))"
  by (auto simp: visible_rows_def page_has_more_def page_rows_def min_def nat_add_distrib)

lemma page_has_more_iff:
  "1 \<le> limit \<Longrightarrow> page_has_more s owner since limit \<longleftrightarrow>
     limit < int (length (change_window s owner since (currentRevision s (Some owner))))"
  by (auto simp: page_has_more_def page_rows_def)

lemma page_cong:
  assumes "s_changes s' = s_changes s"
  shows "visible_rows s' = visible_rows s" "page_revision s' = page_revision s" "page_has_more s' = page_has_more s"
    "currentRevision s' = currentRevision s"
proof -
  show c: "currentRevision s' = currentRevision s" by (simp add: currentRevision_def assms fun_eq_iff)
  show m: "page_has_more s' = page_has_more s"
    by (simp add: page_has_more_def page_rows_def change_window_def assms c fun_eq_iff)
  show v: "visible_rows s' = visible_rows s"
    by (simp add: visible_rows_def page_rows_def change_window_def assms c m fun_eq_iff)
  show "page_revision s' = page_revision s" unfolding fun_eq_iff page_revision_def c v by simp
qed

section \<open>The recursion\<close>

text \<open>Each retry shows at most half the log entries of the page before it.\<close>

lemma retry_smaller:
  assumes "\<not> length (visible_rows s owner since (pullLimit limit)) \<le> 1"
  shows "length (visible_rows s owner since (pullLimit (Some (max 1 (int (length (visible_rows s owner since (pullLimit limit))) div 2)))))
     < length (visible_rows s owner since (pullLimit limit))"
proof -
  let ?v = "length (visible_rows s owner since (pullLimit limit))"
  let ?n = "max 1 (int ?v div 2)"
  have "int ?v \<le> 1000" using visible_rows_length [of "pullLimit limit" s owner since] pullLimit_bounds [of limit] by linarith
  then have p: "pullLimit (Some ?n) = ?n" by (intro pullLimit_small) auto
  have "int (length (visible_rows s owner since ?n)) \<le> ?n" by (rule visible_rows_length) simp
  also have "?n < int ?v" using assms by linarith
  finally show ?thesis by (simp add: p)
qed

function pullMirrorChangesSinceRevision ::
  "env \<Rightarrow> string \<Rightarrow> int \<Rightarrow> int option \<Rightarrow> server \<Rightarrow> server_error + pull_response \<times> server" where
  "pullMirrorChangesSinceRevision e owner since limit s =
     (let (serverTime, s1) = read_clock e s;
          n = pullLimit limit;
          visible = visible_rows s owner since n
      in if visible = [] then Inr (empty_page serverTime (page_revision s owner since n), s1)
         else
           let response = page_response serverTime s owner since n
           in if int (responseBytes response) \<le> pullResponseBytes SYNC_LIMITS then Inr (response, s1)
              else if length visible \<le> 1 then Inl Pull_record_too_large
              else pullMirrorChangesSinceRevision e owner since
                     (Some (max 1 (int (length visible) div 2))) s1)"
  by pat_completeness auto

termination
proof (relation "measure (\<lambda>(e, owner, since, limit, s). length (visible_rows s owner since (pullLimit limit)))", goal_cases)
  case 1
  then show ?case by simp
next
  case (2 e owner since limit s rc serverTime s1 n visible response)
  then have s1: "s_changes s1 = s_changes s" by (auto simp: read_clock_def)
  have "\<not> length (visible_rows s owner since (pullLimit limit)) \<le> 1" using 2 by simp
  from retry_smaller [OF this] 2 show ?case by (simp add: page_cong(1) [OF s1])
qed

declare pullMirrorChangesSinceRevision.simps [simp del]

definition pullChangesSince ::
  "env \<Rightarrow> string option \<Rightarrow> int option \<Rightarrow> string \<Rightarrow> int option \<Rightarrow> server \<Rightarrow> server_error + pull_response \<times> server" where
  "pullChangesSince e since sinceRevision owner limit s =
     (let revision = (case sinceRevision of Some r \<Rightarrow> if is_safe_integer r \<and> r \<ge> 0 then r else 0 | None \<Rightarrow> 0)
      in pullMirrorChangesSinceRevision e owner revision limit s)"


section \<open>What one page contains\<close>

lemma change_window_sorted: "wf_log s \<Longrightarrow> sorted_wrt (<) (map ch_revision (change_window s owner since m))"
  unfolding change_window_def wf_log_def by (auto simp: sorted_wrt_map intro: sorted_wrt_filter)

lemma sorted_le_last: "sorted_wrt (<) (map f xs) \<Longrightarrow> x \<in> set xs \<Longrightarrow> f x \<le> (f (last xs) :: int)"
  by (induction xs) (auto intro: less_imp_le)

lemma filter_le_last:
  assumes "sorted_wrt (<) (map f xs)" and "take n xs \<noteq> []"
  shows "filter (\<lambda>x. f x \<le> (f (last (take n xs)) :: int)) xs = take n xs"
proof -
  have xs: "xs = take n xs @ drop n xs" by simp
  let ?m = "f (last (take n xs))"
  have "sorted_wrt (<) (map f (take n xs))" using assms(1) by (simp add: take_map [symmetric] sorted_wrt_take)
  then have "\<forall>x \<in> set (take n xs). f x \<le> ?m" by (auto intro: sorted_le_last)
  moreover have "\<forall>x \<in> set (drop n xs). \<not> f x \<le> ?m"
  proof
    fix x assume x: "x \<in> set (drop n xs)"
    have "sorted_wrt (<) (map f (take n xs) @ map f (drop n xs))" using assms(1) by (metis append_take_drop_id map_append)
    then have "f (last (take n xs)) < f x"
      using x assms(2) by (auto simp: sorted_wrt_append dest!: last_in_set)
    then show "\<not> f x \<le> ?m" by simp
  qed
  ultimately show ?thesis
    by (subst (1) xs, unfold filter_append) (simp add: filter_empty_conv)
qed

lemma max_or_zero_upper: "x \<in> set xs \<Longrightarrow> x \<le> max_or_zero xs"
proof -
  have "x \<in> set ys \<or> x \<le> y \<Longrightarrow> x \<le> fold max ys y" for ys :: "int list" and y
    by (induction ys arbitrary: y) (auto simp: le_max_iff_disj)
  then show "x \<in> set xs \<Longrightarrow> x \<le> max_or_zero xs" by (cases xs) (auto simp: max_or_zero_def)
qed

lemma max_or_zero_mem: "xs \<noteq> [] \<Longrightarrow> max_or_zero xs \<in> set xs"
proof -
  have "fold max ys y \<in> insert y (set ys)" for ys :: "int list" and y
    by (induction ys arbitrary: y) (auto simp: max_def split: if_splits)
  then show "xs \<noteq> [] \<Longrightarrow> max_or_zero xs \<in> set xs" by (cases xs) (auto simp: max_or_zero_def)
qed

lemma max_or_zero_le: "(\<And>x. x \<in> set xs \<Longrightarrow> x \<le> b) \<Longrightarrow> 0 \<le> b \<Longrightarrow> max_or_zero xs \<le> b"
  by (cases "xs = []") (auto simp: max_or_zero_def dest: max_or_zero_mem)

definition safe_log :: "server \<Rightarrow> bool" where
  "safe_log s \<longleftrightarrow> wf_log s \<and> s_lastRevision s \<le> max_safe_integer"

lemma asRevision_logged: "safe_log s \<Longrightarrow> c \<in> set (s_changes s) \<Longrightarrow> asRevision (ch_revision c) = ch_revision c"
  by (fastforce simp: safe_log_def wf_log_def asRevision_def is_safe_integer_def max_safe_integer_def)

lemma currentRevision_props:
  assumes "safe_log s"
  shows "0 \<le> currentRevision s ow" "currentRevision s ow \<le> s_lastRevision s" "is_safe_integer (currentRevision s ow)"
    and "owner \<noteq> [] \<Longrightarrow> c \<in> set (s_changes s) \<Longrightarrow> ch_owner c = owner \<Longrightarrow> ch_revision c \<le> currentRevision s (Some owner)"
proof -
  let ?m = "\<lambda>ow. max_or_zero (map ch_revision
       (if truthy_opt ow then filter (\<lambda>c. Some (ch_owner c) = ow) (s_changes s) else s_changes s))"
  have b: "0 \<le> ?m ow \<and> ?m ow \<le> s_lastRevision s" for ow
  proof
    show "?m ow \<le> s_lastRevision s"
      by (rule max_or_zero_le) (use assms in \<open>auto simp: safe_log_def wf_log_def split: if_splits\<close>)
    show "0 \<le> ?m ow"
    proof (cases "map ch_revision (if truthy_opt ow then filter (\<lambda>c. Some (ch_owner c) = ow) (s_changes s) else s_changes s) = []")
      case True
      then show ?thesis by (simp only:) (simp add: max_or_zero_def)
    next
      case False
      from max_or_zero_mem [OF this] assms show ?thesis by (fastforce simp: safe_log_def wf_log_def split: if_splits)
    qed
  qed
  have eq: "currentRevision s ow = ?m ow" for ow
    using b [of ow] assms by (auto simp: currentRevision_def asRevision_def is_safe_integer_def safe_log_def max_safe_integer_def)
  show "0 \<le> currentRevision s ow" "currentRevision s ow \<le> s_lastRevision s" using b by (simp_all add: eq)
  then show "is_safe_integer (currentRevision s ow)" using assms by (simp add: is_safe_integer_def safe_log_def max_safe_integer_def)
  show "owner \<noteq> [] \<Longrightarrow> c \<in> set (s_changes s) \<Longrightarrow> ch_owner c = owner \<Longrightarrow> ch_revision c \<le> currentRevision s (Some owner)"
    unfolding eq by (rule max_or_zero_upper) (auto simp: truthy_def)
qed

text \<open>The window up to the revision of the page is exactly what the page shows.\<close>

lemma page_window:
  assumes log: "safe_log s" and n: "1 \<le> n" and ne: "visible_rows s owner since n \<noteq> []"
  shows "change_window s owner since (page_revision s owner since n) = visible_rows s owner since n"
    and "page_revision s owner since n = ch_revision (last (visible_rows s owner since n))"
    and "since < page_revision s owner since n" "page_revision s owner since n \<le> currentRevision s (Some owner)"
proof -
  let ?w = "change_window s owner since (currentRevision s (Some owner))"
  have v: "visible_rows s owner since n = take (nat n) ?w" by (rule visible_rows_take [OF n])
  let ?l = "last (visible_rows s owner since n)"
  have "?l \<in> set (visible_rows s owner since n)" using ne by simp
  then have "?l \<in> set ?w" unfolding v by (rule in_set_takeD)
  then have l: "?l \<in> set (s_changes s)" "since < ch_revision ?l" "ch_revision ?l \<le> currentRevision s (Some owner)"
    by (auto simp: change_window_def)
  show pr: "page_revision s owner since n = ch_revision ?l"
    using ne asRevision_logged [OF log l(1)] by (auto simp: page_revision_def split: list.split)
  show "since < page_revision s owner since n" "page_revision s owner since n \<le> currentRevision s (Some owner)"
    using l by (simp_all add: pr)
  have "change_window s owner since (ch_revision ?l) = filter (\<lambda>c. ch_revision c \<le> ch_revision ?l) ?w"
    using l(3) unfolding change_window_def filter_filter by (intro filter_cong) auto
  also have "\<dots> = take (nat n) ?w"
    unfolding v by (rule filter_le_last) (use change_window_sorted log ne v in \<open>simp_all add: safe_log_def\<close>)
  finally show "change_window s owner since (page_revision s owner since n) = visible_rows s owner since n"
    by (simp add: pr v)
qed

text \<open>
  When the page shows everything (\<open>hasMore\<close> is false), its revision is the current one.
\<close>

lemma page_complete:
  assumes log: "safe_log s" and n: "1 \<le> n" and more: "\<not> page_has_more s owner since n" and o: "owner \<noteq> []"
    and c: "c \<in> set (s_changes s)" "ch_owner c = owner" and ne: "visible_rows s owner since n \<noteq> []"
  shows "ch_revision c \<le> page_revision s owner since n"
proof (rule ccontr)
  assume a: "\<not> ch_revision c \<le> page_revision s owner since n"
  let ?w = "change_window s owner since (currentRevision s (Some owner))"
  have "visible_rows s owner since n = ?w"
    using more n by (simp add: visible_rows_take page_has_more_iff)
  moreover have "since < ch_revision c" using a page_window(3) [OF log n ne] by linarith
  then have "c \<in> set ?w" using c currentRevision_props(4) [OF log o] by (simp add: change_window_def)
  ultimately have "c \<in> set (change_window s owner since (page_revision s owner since n))"
    using page_window(1) [OF log n ne] by simp
  with a show False by (simp add: change_window_def)
qed


section \<open>The latest change of an entity in the window\<close>

lemma wf_log_inj: "wf_log s \<Longrightarrow> c \<in> set (s_changes s) \<Longrightarrow> d \<in> set (s_changes s) \<Longrightarrow> ch_revision c = ch_revision d \<Longrightarrow> c = d"
  unfolding wf_log_def by (metis distinct_map inj_on_def strict_sorted_iff)

lemma max_or_zero_last: "sorted_wrt (<) xs \<Longrightarrow> xs \<noteq> [] \<Longrightarrow> max_or_zero xs = last xs"
  using max_or_zero_mem [of xs] max_or_zero_upper [of "last xs" xs] sorted_le_last [of "\<lambda>x. x" xs] by fastforce

definition window_of :: "server \<Rightarrow> string \<Rightarrow> int \<Rightarrow> int \<Rightarrow> entity_type \<Rightarrow> string \<Rightarrow> change_row list" where
  "window_of s owner since m ty i =
     filter (\<lambda>x. ch_entityType x = ty \<and> ch_entityId x = i) (change_window s owner since m)"

lemma latest_rows_mem:
  assumes log: "wf_log s"
  shows "c \<in> set (latest_rows s owner since m) \<longleftrightarrow>
     window_of s owner since m (ch_entityType c) (ch_entityId c) \<noteq> [] \<and>
     c = last (window_of s owner since m (ch_entityType c) (ch_entityId c))"
proof -
  let ?g = "window_of s owner since m (ch_entityType c) (ch_entityId c)"
  have sorted: "sorted_wrt (<) (map ch_revision ?g)"
    using change_window_sorted [OF log, of owner since m]
    by (auto simp: window_of_def sorted_wrt_map intro: sorted_wrt_filter)
  have sub: "set ?g \<subseteq> set (s_changes s)" by (auto simp: window_of_def change_window_def)
  have mx: "max_or_zero (map ch_revision ?g) = ch_revision (last ?g)" if "?g \<noteq> []"
    using that sorted by (simp add: max_or_zero_last last_map)
  have nonempty: "?g \<noteq> [] \<longleftrightarrow> (\<exists>w \<in> set (change_window s owner since m). ch_entityType w = ch_entityType c \<and> ch_entityId w = ch_entityId c)"
    by (auto simp: window_of_def filter_empty_conv)
  have "c \<in> set (latest_rows s owner since m) \<longleftrightarrow> c \<in> set (s_changes s) \<and> ?g \<noteq> [] \<and> ch_revision c = max_or_zero (map ch_revision ?g)"
    unfolding nonempty unfolding latest_rows_def Let_def window_of_def by auto
  also have "\<dots> \<longleftrightarrow> ?g \<noteq> [] \<and> c = last ?g"
  proof
    assume a: "c \<in> set (s_changes s) \<and> ?g \<noteq> [] \<and> ch_revision c = max_or_zero (map ch_revision ?g)"
    then have "last ?g \<in> set (s_changes s)" using sub by (meson last_in_set subsetD)
    with a mx show "?g \<noteq> [] \<and> c = last ?g" using wf_log_inj [OF log] by metis
  next
    assume a: "?g \<noteq> [] \<and> c = last ?g"
    then have "c \<in> set ?g" by (metis last_in_set)
    then have "c \<in> set (s_changes s)" using sub by blast
    moreover have "ch_revision c = max_or_zero (map ch_revision ?g)" using a mx by metis
    ultimately show "c \<in> set (s_changes s) \<and> ?g \<noteq> [] \<and> ch_revision c = max_or_zero (map ch_revision ?g)" using a by blast
  qed
  finally show ?thesis .
qed

lemma window_of_entity: "c \<in> set (window_of s owner since m ty i) \<Longrightarrow> ch_entityType c = ty \<and> ch_entityId c = i"
  by (simp add: window_of_def)

lemma latestChanges_lookup:
  assumes log: "wf_log s"
  shows "map_of (latestChanges (latest_rows s owner since m)) (ty, i) =
     (if window_of s owner since m ty i = [] then None
      else Some (ch_operation (last (window_of s owner since m ty i))))"
proof -
  let ?rows = "latest_rows s owner since m"
  let ?g = "window_of s owner since m ty i"
  let ?key = "\<lambda>c. (ch_entityType c, ch_entityId c)"
  have "map_of (latestChanges ?rows) (ty, i) = (case find (\<lambda>c. ?key c = (ty, i)) (rev ?rows) of
      Some c \<Rightarrow> Some (ch_operation c) | None \<Rightarrow> map_of [] (ty, i))"
    using map_of_fold_map_set [where idf = ?key and conv = ch_operation and rows = ?rows and m = "[]" and i = "(ty, i)"]
    by (simp add: latestChanges_def)
  also have "\<dots> = (if ?g = [] then None else Some (ch_operation (last ?g)))"
  proof (cases "?g = []")
    case True
    then have "find (\<lambda>c. ?key c = (ty, i)) (rev ?rows) = None"
      by (auto simp: find_None_iff latest_rows_mem [OF log])
    with True show ?thesis by simp
  next
    case False
    have e: "ch_entityType (last ?g) = ty \<and> ch_entityId (last ?g) = i"
      by (rule window_of_entity) (use False in \<open>rule last_in_set\<close>)
    have "last ?g \<in> set ?rows" unfolding latest_rows_mem [OF log] using e False by simp
    then have "find (\<lambda>c. ?key c = (ty, i)) (rev ?rows) \<noteq> None" using e by (auto simp: find_None_iff)
    then obtain c where c: "find (\<lambda>c. ?key c = (ty, i)) (rev ?rows) = Some c" by blast
    then have "c \<in> set ?rows" "?key c = (ty, i)" by (auto dest: findSomeD)
    then have "c = last ?g" unfolding latest_rows_mem [OF log] by auto
    with c False show ?thesis by simp
  qed
  finally show ?thesis .
qed

lemma latestChanges_distinct: "distinct (map fst (latestChanges rows))"
  by (simp add: latestChanges_def distinct_fold_map_set)

lemma changed_ids_mem:
  "i \<in> set (changed_ids (latestChanges rows) ty op) \<longleftrightarrow> map_of (latestChanges rows) (ty, i) = Some op"
  using map_of_eq_Some_iff [OF latestChanges_distinct [of rows]]
  by (force simp: changed_ids_def)

text \<open>What a page says of one note and of one notebook.\<close>

lemma mem_values: "x \<in> set (map snd m) \<Longrightarrow> distinct (map fst m) \<Longrightarrow> \<exists>k. map_of m k = Some x"
  by (auto simp: map_of_eq_Some_iff)

lemma page_notes:
  assumes wf: "wf_server s" and i: "truthy i"
  shows "find (\<lambda>n. n_id n = i) (pl_notes (page_response t s owner since k)) =
     (if window_of s owner since (page_revision s owner since k) Note_entity i \<noteq> [] \<and>
         ch_operation (last (window_of s owner since (page_revision s owner since k) Note_entity i)) = Upsert_op
      then getNote s i owner else None)"
    and "i \<in> set (pl_deletedNoteIds (page_response t s owner since k)) \<longleftrightarrow>
      window_of s owner since (page_revision s owner since k) Note_entity i \<noteq> [] \<and>
         ch_operation (last (window_of s owner since (page_revision s owner since k) Note_entity i)) = Delete_op"
proof -
  let ?m = "page_revision s owner since k"
  let ?ch = "latestChanges (latest_rows s owner since ?m)"
  let ?ids = "changed_ids ?ch Note_entity Upsert_op"
  let ?l = "getNotesByIds s ?ids owner"
  have log: "wf_log s" and t: "wf_table note_key (s_notes s)" using wf by (simp_all add: wf_server_def wf_tables_def)
  show "i \<in> set (pl_deletedNoteIds (page_response t s owner since k)) \<longleftrightarrow>
      window_of s owner since ?m Note_entity i \<noteq> [] \<and>
         ch_operation (last (window_of s owner since ?m Note_entity i)) = Delete_op"
    by (simp add: page_response_def Let_def changed_ids_mem latestChanges_lookup [OF log])
  have d: "distinct (map fst ?l)" by (simp add: getNotesByIds_def collect_by_ids_distinct)
  have "find (\<lambda>n. n_id n = i) (map snd ?l) = map_of ?l i"
  proof (cases "map_of ?l i")
    case None
    have "n_id n \<noteq> i" if n: "n \<in> set (map snd ?l)" for n
    proof
      assume "n_id n = i"
      from mem_values [OF n d] obtain j where "map_of ?l j = Some n" by blast
      with getNotesByIds_key [OF t this] \<open>n_id n = i\<close> have "map_of ?l i = Some n" by simp
      with None show False by simp
    qed
    then show ?thesis using None by (simp add: find_None_iff)
  next
    case (Some n)
    then have "n \<in> set (map snd ?l)" by (force dest: map_of_SomeD)
    moreover have "n_id n = i" by (rule getNotesByIds_key [OF t Some])
    ultimately obtain n' where n': "find (\<lambda>n. n_id n = i) (map snd ?l) = Some n'"
      by (metis (mono_tags, lifting) find_None_iff not_None_eq)
    then have "n' \<in> set (map snd ?l)" "n_id n' = i" by (auto dest: findSomeD)
    from mem_values [OF this(1) d] obtain j where "map_of ?l j = Some n'" by blast
    with getNotesByIds_key [OF t this] \<open>n_id n' = i\<close> have "map_of ?l i = Some n'" by simp
    with Some n' show ?thesis by simp
  qed
  also have "\<dots> = (if i \<in> set ?ids then getNote s i owner else None)"
    using i by (simp add: getNotesByIds_lookup [OF t])
  finally show "find (\<lambda>n. n_id n = i) (pl_notes (page_response t s owner since k)) =
     (if window_of s owner since ?m Note_entity i \<noteq> [] \<and>
         ch_operation (last (window_of s owner since ?m Note_entity i)) = Upsert_op
      then getNote s i owner else None)"
    by (simp add: page_response_def Let_def changed_ids_mem latestChanges_lookup [OF log])
qed

end
