(* ===== verification/PullTheorems.thy ===== *)
theory PullTheorems
  imports ServerPull Samples
begin

text \<open>
  The properties of pulling: the shape of an answer, the progress of the cursor, and that a client
  that applies the pages it gets ends up with the notes of the server.
\<close>

section \<open>The answer is a page\<close>

lemma page_response_ticks [simp]: "page_response t (s\<lparr>s_ticks := k\<rparr>) owner since n = page_response t s owner since n"
proof -
  have c: "s_changes (s\<lparr>s_ticks := k\<rparr>) = s_changes s" by simp
  show ?thesis
    by (simp add: page_response_def page_cong [OF c] latest_rows_def change_window_def
        getNotesByIds_def getNotebooksByIds_def getDevicesByIds_def)
qed

lemma pull_step_eq:
  "pullMirrorChangesSinceRevision e owner since limit s =
     (let n = pullLimit limit; t = to_iso (clock e (s_ticks s)); s1 = s\<lparr>s_ticks := Suc (s_ticks s)\<rparr>
      in if visible_rows s owner since n = [] then Inr (empty_page t (currentRevision s (Some owner)), s1)
         else if int (responseBytes (page_response t s owner since n)) \<le> pullResponseBytes SYNC_LIMITS
           then Inr (page_response t s owner since n, s1)
         else if length (visible_rows s owner since n) \<le> 1 then Inl Pull_record_too_large
         else pullMirrorChangesSinceRevision e owner since
                (Some (max 1 (int (length (visible_rows s owner since n)) div 2))) s1)"
  by (subst pullMirrorChangesSinceRevision.simps) (simp add: read_clock_def Let_def page_revision_def)

lemma pull_cases:
  "case pullMirrorChangesSinceRevision e owner since limit s of
     Inr (r, s') \<Rightarrow> (\<exists>k. s' = s\<lparr>s_ticks := k\<rparr>) \<and> (\<exists>n t. 1 \<le> n \<and> n \<le> 1000 \<and>
       (visible_rows s owner since n = [] \<and> r = empty_page t (currentRevision s (Some owner)) \<or>
        visible_rows s owner since n \<noteq> [] \<and> r = page_response t s owner since n \<and>
        int (responseBytes r) \<le> pullResponseBytes SYNC_LIMITS))
   | Inl err \<Rightarrow> err = Pull_record_too_large \<and> (\<exists>n t. length (visible_rows s owner since n) = 1 \<and>
       pullResponseBytes SYNC_LIMITS < int (responseBytes (page_response t s owner since n)))"
proof (induction "length (visible_rows s owner since (pullLimit limit))" arbitrary: limit s rule: less_induct)
  case less
  let ?n = "pullLimit limit"
  let ?t = "to_iso (clock e (s_ticks s))"
  let ?s1 = "s\<lparr>s_ticks := Suc (s_ticks s)\<rparr>"
  let ?v = "visible_rows s owner since ?n"
  let ?fits = "int (responseBytes (page_response ?t s owner since ?n)) \<le> pullResponseBytes SYNC_LIMITS"
  have c: "s_changes ?s1 = s_changes s" by simp
  consider (empty) "?v = []" | (fits) "?v \<noteq> []" "?fits" | (one) "length ?v = 1" "\<not> ?fits"
    | (retry) "\<not> length ?v \<le> 1" "\<not> ?fits" by (cases ?v; cases "tl ?v") auto
  then show ?case
  proof cases
    case empty
    then show ?thesis using pullLimit_bounds [of limit] by (subst pull_step_eq) (auto simp: Let_def)
  next
    case fits
    then show ?thesis using pullLimit_bounds [of limit] by (subst pull_step_eq) (auto simp: Let_def)
  next
    case one
    then have "?v \<noteq> []" by auto
    with one show ?thesis by (subst pull_step_eq) (auto simp: Let_def not_le)
  next
    case retry
    let ?l = "Some (max 1 (int (length ?v) div 2))"
    have eq: "pullMirrorChangesSinceRevision e owner since limit s = pullMirrorChangesSinceRevision e owner since ?l ?s1"
      using retry by (subst pull_step_eq) (auto simp: Let_def)
    have "length (visible_rows ?s1 owner since (pullLimit ?l)) < length ?v"
      using retry_smaller [OF retry(1)] by (simp add: page_cong(1) [OF c])
    from less [OF this] show ?thesis unfolding eq
      by (simp add: page_cong [OF c] split: sum.splits prod.splits)
  qed
qed


text \<open>
  C17. A pull ends, whatever the size of the answers (each retry asks for at most half the log
  entries), and it can fail in one way only: the records of a single log entry are by themselves
  larger than the response limit. Otherwise the answer is the empty page, when nothing of the owner was logged
  after the cursor, or a page of at most 1000 log entries that is within the limit, and nothing is written.
\<close>

theorem pull_fails_only_on_oversized_record:
  "case pullMirrorChangesSinceRevision e owner since limit s of
     Inl err \<Rightarrow> err = Pull_record_too_large \<and> (\<exists>n t. length (visible_rows s owner since n) = 1 \<and>
       pullResponseBytes SYNC_LIMITS < int (responseBytes (page_response t s owner since n)))
   | Inr (r, s') \<Rightarrow> s_changes s' = s_changes s \<and> s_notes s' = s_notes s \<and> s_notebooks s' = s_notebooks s \<and>
       (\<exists>n t. 1 \<le> n \<and> n \<le> 1000 \<and>
         (if change_window s owner since (currentRevision s (Some owner)) = []
          then r = empty_page t (currentRevision s (Some owner))
          else r = page_response t s owner since n \<and> int (responseBytes r) \<le> pullResponseBytes SYNC_LIMITS))"
proof -
  have none: "visible_rows s owner since n = [] \<longleftrightarrow> change_window s owner since (currentRevision s (Some owner)) = []"
    if "1 \<le> n" for n using that by (simp add: visible_rows_take)
  show ?thesis
    using pull_cases [where e = e and owner = owner and since = since and limit = limit and s = s]
    by (auto split: sum.splits prod.splits simp: none; blast)
qed

section \<open>The cursor\<close>

text \<open>
  C16. The cursor makes progress: on a client cursor that is not ahead of the server, the check the
  client runs on every answer (\<open>safeRevisionCursor\<close>) accepts the server's revision, so a page with
  \<open>hasMore\<close> moves the cursor strictly forward and the pull loop cannot spin.
\<close>

theorem pull_cursor_accepted:
  assumes log: "safe_log s" and c0: "0 \<le> since" "since \<le> currentRevision s (Some owner)"
    and pull: "pullMirrorChangesSinceRevision e owner since limit s = Inr (r, s')"
  shows "safeRevisionCursor (pl_serverRevision r) since (pl_hasMore r) = Inr (pl_serverRevision r)"
proof -
  note cur = currentRevision_props [OF log]
  have sp: "is_safe_integer since" using c0 cur(3) [of "Some owner"] by (simp add: is_safe_integer_def)
  from pull_cases [where e = e and owner = owner and since = since and limit = limit and s = s] pull obtain n t where n: "1 \<le> n" and
    r: "visible_rows s owner since n = [] \<and> r = empty_page t (currentRevision s (Some owner)) \<or>
        visible_rows s owner since n \<noteq> [] \<and> r = page_response t s owner since n" by auto
  from r show ?thesis
  proof
    assume "visible_rows s owner since n = [] \<and> r = empty_page t (currentRevision s (Some owner))"
    then show ?thesis using sp c0 cur(3) by (simp add: safeRevisionCursor_Inr empty_page_def)
  next
    assume a: "visible_rows s owner since n \<noteq> [] \<and> r = page_response t s owner since n"
    then have ne: "visible_rows s owner since n \<noteq> []" by simp
    note w = page_window [OF log n ne]
    have "pl_serverRevision r = page_revision s owner since n" using a by (simp add: page_response_def Let_def)
    moreover have "is_safe_integer (page_revision s owner since n)"
      using w(3,4) c0(1) cur(3) [of "Some owner"] by (simp add: is_safe_integer_def)
    ultimately show ?thesis using sp c0(1) w(3) by (simp add: safeRevisionCursor_Inr)
  qed
qed

lemma sample_safe_log: "safe_log sample_server"
  by code_simp

lemma sample_page_small:
  "\<exists>r s'. pullMirrorChangesSinceRevision sample_env ''ann'' 4 None sample_server = Inr (r, s') \<and> pl_deletedNoteIds r = [''n0'']"
proof -
  have v: "length (visible_rows sample_server ''ann'' 4 (pullLimit None)) = 1" by code_simp
  have b: "int (responseBytes (page_response (to_iso (clock sample_env (s_ticks sample_server))) sample_server ''ann'' 4 (pullLimit None)))
      \<le> pullResponseBytes SYNC_LIMITS" by code_simp
  have d: "pl_deletedNoteIds (page_response (to_iso (clock sample_env (s_ticks sample_server))) sample_server ''ann'' 4 (pullLimit None)) = [''n0'']"
    by code_simp
  from v have "visible_rows sample_server ''ann'' 4 (pullLimit None) \<noteq> []" by auto
  with b d show ?thesis by (subst pull_step_eq) (simp add: Let_def)
qed

theorem pull_cursor_accepted_witness:
  "\<exists>r s'. pullMirrorChangesSinceRevision sample_env ''ann'' 4 None sample_server = Inr (r, s') \<and>
     safeRevisionCursor (pl_serverRevision r) 4 (pl_hasMore r) = Inr (pl_serverRevision r)"
proof -
  obtain r s' where p: "pullMirrorChangesSinceRevision sample_env ''ann'' 4 None sample_server = Inr (r, s')"
    using sample_page_small by blast
  have "(4 :: int) \<le> currentRevision sample_server (Some ''ann'')" by code_simp
  from pull_cursor_accepted [OF sample_safe_log _ this p] p show ?thesis by simp
qed


section \<open>Convergence\<close>

text \<open>What a replica without local changes does with the notes of a page.\<close>

definition replica_apply :: "pull_response \<Rightarrow> (string \<Rightarrow> Note option) \<Rightarrow> string \<Rightarrow> Note option" where
  "replica_apply r R i =
     (if i \<in> set (pl_deletedNoteIds r) then None
      else case find (\<lambda>n. n_id n = i) (pl_notes r) of Some n \<Rightarrow> Some n | None \<Rightarrow> R i)"

text \<open>The replica agrees with the server on every note that has no log entry beyond the cursor.\<close>

definition in_step :: "server \<Rightarrow> string \<Rightarrow> (string \<Rightarrow> Note option) \<Rightarrow> int \<Rightarrow> bool" where
  "in_step s owner R cursor \<longleftrightarrow> (\<forall>i. truthy i \<longrightarrow>
     (\<forall>c \<in> set (changes_of s owner Note_entity i). ch_revision c \<le> cursor) \<longrightarrow> R i = getNote s i owner)"

lemma last_filter: "xs \<noteq> [] \<Longrightarrow> P (last xs) \<Longrightarrow> filter P xs \<noteq> [] \<and> last (filter P xs) = last xs"
  by (induction xs) (auto split: if_splits)

lemma window_of_latest:
  assumes log: "wf_log s" and old: "\<forall>c \<in> set (changes_of s owner ty i). ch_revision c \<le> m"
    and ne: "window_of s owner since m ty i \<noteq> []"
  shows "latestEntityOperation s owner ty i = Some (ch_operation (last (window_of s owner since m ty i)))"
proof -
  let ?cs = "changes_of s owner ty i"
  have w: "window_of s owner since m ty i = filter (\<lambda>c. since < ch_revision c) ?cs"
    using old by (auto simp: window_of_def change_window_def changes_of_def filter_filter intro!: filter_cong)
  then obtain c where c: "c \<in> set ?cs" "since < ch_revision c" using ne by (auto simp: filter_empty_conv)
  have "sorted_wrt (<) (map ch_revision ?cs)"
    using log by (auto simp: wf_log_def changes_of_def sorted_wrt_map intro: sorted_wrt_filter)
  then have "ch_revision c \<le> ch_revision (last ?cs)" by (rule sorted_le_last) (rule c)
  then have "since < ch_revision (last ?cs)" using c(2) by simp
  moreover have "?cs \<noteq> []" using c(1) by auto
  ultimately show ?thesis using last_filter [of ?cs "\<lambda>c. since < ch_revision c"]
    by (simp add: w latestEntityOperation_last)
qed

lemma window_of_empty:
  "window_of s owner since m ty i = [] \<Longrightarrow> \<forall>c \<in> set (changes_of s owner ty i). ch_revision c \<le> m \<Longrightarrow>
   \<forall>c \<in> set (changes_of s owner ty i). ch_revision c \<le> since"
  by (fastforce simp: window_of_def change_window_def changes_of_def filter_empty_conv)

lemma page_in_step:
  assumes wf: "wf_server s" and st: "in_step s owner R since"
  shows "in_step s owner (replica_apply (page_response t s owner since n) R) (page_revision s owner since n)"
  unfolding in_step_def
proof (intro allI impI)
  fix i assume tr: "truthy i"
    and old: "\<forall>c \<in> set (changes_of s owner Note_entity i). ch_revision c \<le> page_revision s owner since n"
  let ?w = "window_of s owner since (page_revision s owner since n) Note_entity i"
  have log: "wf_log s" using wf by (simp add: wf_server_def)
  note P = page_notes [OF wf tr, of t owner since n]
  show "replica_apply (page_response t s owner since n) R i = getNote s i owner"
  proof (cases "?w = []")
    case True
    have "R i = getNote s i owner" using st tr window_of_empty [OF True old] by (simp add: in_step_def)
    then show ?thesis using P True by (simp add: replica_apply_def)
  next
    case False
    note l = window_of_latest [OF log old False]
    show ?thesis
    proof (cases "ch_operation (last ?w)")
      case Upsert_op
      then obtain x where "getNote s i owner = Some x"
        using l live_ok_rules(1) [OF wf, of owner i] by (auto simp: getNote_def)
      then show ?thesis using P False Upsert_op by (simp add: replica_apply_def)
    next
      case Delete_op
      then have "getNote s i owner = None"
        using l live_ok_rules(1) [OF wf, of owner i] by (auto simp: getNote_def)
      then show ?thesis using P False Delete_op by (simp add: replica_apply_def)
    qed
  qed
qed

lemma pull_in_step:
  assumes wf: "wf_server s" and log: "safe_log s" and o: "owner \<noteq> []" and st: "in_step s owner R since"
    and c0: "since \<le> currentRevision s (Some owner)"
    and pull: "pullMirrorChangesSinceRevision e owner since limit s = Inr (r, s')"
  shows "in_step s owner (replica_apply r R) (pl_serverRevision r)"
    and "pl_serverRevision r \<le> currentRevision s (Some owner)"
    and "pl_hasMore r \<Longrightarrow> since < pl_serverRevision r"
    and "\<not> pl_hasMore r \<Longrightarrow> c \<in> set (s_changes s) \<Longrightarrow> ch_owner c = owner \<Longrightarrow> ch_revision c \<le> pl_serverRevision r"
proof -
  note cur = currentRevision_props [OF log]
  from pull_cases [where e = e and owner = owner and since = since and limit = limit and s = s] pull
  obtain n t where n: "1 \<le> n" and
    r: "visible_rows s owner since n = [] \<and> r = empty_page t (currentRevision s (Some owner)) \<or>
        visible_rows s owner since n \<noteq> [] \<and> r = page_response t s owner since n" by auto
  from r have all: "in_step s owner (replica_apply r R) (pl_serverRevision r) \<and>
     pl_serverRevision r \<le> currentRevision s (Some owner) \<and> (pl_hasMore r \<longrightarrow> since < pl_serverRevision r) \<and>
     (\<not> pl_hasMore r \<longrightarrow> (\<forall>c \<in> set (s_changes s). ch_owner c = owner \<longrightarrow> ch_revision c \<le> pl_serverRevision r))"
  proof
    assume a: "visible_rows s owner since n = [] \<and> r = empty_page t (currentRevision s (Some owner))"
    then have w: "change_window s owner since (currentRevision s (Some owner)) = []"
      using visible_rows_take [OF n, of s owner since] n by simp
    have "window_of s owner since (currentRevision s (Some owner)) Note_entity i = []" for i
      by (simp add: window_of_def w)
    from window_of_empty [OF this] have "in_step s owner R (currentRevision s (Some owner))"
      using st by (simp add: in_step_def)
    moreover have "replica_apply r R = R" using a by (simp add: replica_apply_def empty_page_def fun_eq_iff)
    ultimately show ?thesis using a cur(4) [OF o] by (simp add: empty_page_def)
  next
    assume a: "visible_rows s owner since n \<noteq> [] \<and> r = page_response t s owner since n"
    then have ne: "visible_rows s owner since n \<noteq> []" by simp
    have "pl_serverRevision r = page_revision s owner since n" "pl_hasMore r = page_has_more s owner since n"
      using a by (simp_all add: page_response_def Let_def)
    then show ?thesis
      using page_in_step [OF wf st, of t n] page_window(3,4) [OF log n ne] page_complete [OF log n _ o _ _ ne] a by auto
  qed
  then show "in_step s owner (replica_apply r R) (pl_serverRevision r)"
    "pl_serverRevision r \<le> currentRevision s (Some owner)" "pl_hasMore r \<Longrightarrow> since < pl_serverRevision r"
    "\<not> pl_hasMore r \<Longrightarrow> c \<in> set (s_changes s) \<Longrightarrow> ch_owner c = owner \<Longrightarrow> ch_revision c \<le> pl_serverRevision r"
    by blast+
qed

text \<open>The pages a replica fetches until \<open>hasMore\<close> is false; \<open>None\<close> when the fuel runs out.\<close>

fun pull_session ::
  "nat \<Rightarrow> env \<Rightarrow> string \<Rightarrow> int option \<Rightarrow> int \<Rightarrow> (string \<Rightarrow> Note option) \<Rightarrow> server
   \<Rightarrow> (server_error + (string \<Rightarrow> Note option) \<times> int) option" where
  "pull_session 0 e owner limit cursor R s = None"
| "pull_session (Suc fuel) e owner limit cursor R s =
     (case pullMirrorChangesSinceRevision e owner cursor limit s of
        Inl err \<Rightarrow> Some (Inl err)
      | Inr (r, s') \<Rightarrow>
          if pl_hasMore r then pull_session fuel e owner limit (pl_serverRevision r) (replica_apply r R) s'
          else Some (Inr (replica_apply r R, pl_serverRevision r)))"

lemma pull_session_converges:
  assumes "wf_server s" "safe_log s" "owner \<noteq> []" "in_step s owner R cursor" "cursor \<le> currentRevision s (Some owner)"
    and "nat (currentRevision s (Some owner) - cursor) < fuel"
  shows "\<exists>res. pull_session fuel e owner limit cursor R s = Some res \<and>
    (case res of Inl err \<Rightarrow> err = Pull_record_too_large
     | Inr (R', c) \<Rightarrow> \<forall>i. truthy i \<longrightarrow> R' i = getNote s i owner)"
  using assms
proof (induction fuel arbitrary: cursor R s)
  case 0
  then show ?case by simp
next
  case (Suc fuel)
  show ?case
  proof (cases "pullMirrorChangesSinceRevision e owner cursor limit s")
    case (Inl err)
    with pull_cases [where e = e and owner = owner and since = cursor and limit = limit and s = s] show ?thesis by simp
  next
    case (Inr rs)
    obtain r s' where rs: "rs = (r, s')" by fastforce
    note p = Inr [unfolded rs]
    note step = pull_in_step [OF Suc.prems(1-5) p]
    from pull_cases [where e = e and owner = owner and since = cursor and limit = limit and s = s] p
    obtain k where s': "s' = s\<lparr>s_ticks := k\<rparr>" by auto
    have c: "s_changes s' = s_changes s" by (simp add: s')
    have same: "wf_server s'" "safe_log s'" "currentRevision s' = currentRevision s" "getNote s' = getNote s"
      "\<And>Q m. in_step s' owner Q m = in_step s owner Q m"
    proof -
      show "wf_server s'" using Suc.prems(1) by (subst wf_server_cong [of _ s]) (simp_all add: s')
      show "safe_log s'" using Suc.prems(2) by (simp add: safe_log_def wf_log_def s')
      show "currentRevision s' = currentRevision s" by (rule page_cong [OF c])
      show g: "getNote s' = getNote s" by (simp add: s' getNote_def get_note_row_def fun_eq_iff)
      show "\<And>Q m. in_step s' owner Q m = in_step s owner Q m" by (simp add: in_step_def g changes_of_def c)
    qed
    show ?thesis
    proof (cases "pl_hasMore r")
      case True
      have "nat (currentRevision s' (Some owner) - pl_serverRevision r) < fuel"
        using Suc.prems(5,6) step(3) [OF True] step(2) by (simp add: same(3))
      from Suc.IH [OF same(1,2) Suc.prems(3) _ _ this, of "replica_apply r R"] step(1,2)
      have "\<exists>res. pull_session fuel e owner limit (pl_serverRevision r) (replica_apply r R) s' = Some res \<and>
        (case res of Inl err \<Rightarrow> err = Pull_record_too_large
         | Inr (R', c) \<Rightarrow> \<forall>i. truthy i \<longrightarrow> R' i = getNote s i owner)"
        unfolding same by blast
      then show ?thesis using True p by simp
    next
      case False
      have "replica_apply r R i = getNote s i owner" if "truthy i" for i
        using step(1) step(4) [OF False] that by (simp add: in_step_def changes_of_def)
      with False p show ?thesis by simp
    qed
  qed
qed

text \<open>
  C11. Pulling converges: a client that starts with nothing and applies page after page, each from
  the revision of the previous one, ends (with more fuel than there are revisions), and unless a
  single record is too large for any answer, it then holds exactly the notes of its owner on the
  server, with the deleted ones gone.
\<close>

theorem pull_converges:
  assumes wf: "wf_server s" and log: "safe_log s" and o: "owner \<noteq> []"
    and fuel: "nat (currentRevision s (Some owner)) < fuel"
  shows "\<exists>res. pull_session fuel e owner limit 0 (\<lambda>i. None) s = Some res \<and>
    (case res of Inl err \<Rightarrow> err = Pull_record_too_large
     | Inr (R, cursor) \<Rightarrow> \<forall>i. i \<noteq> [] \<longrightarrow> R i = getNote s i owner)"
proof -
  have "in_step s owner (\<lambda>i. None) 0" unfolding in_step_def
  proof (intro allI impI)
    fix i assume a: "\<forall>c \<in> set (changes_of s owner Note_entity i). ch_revision c \<le> 0"
    have "changes_of s owner Note_entity i = []"
    proof (rule ccontr)
      assume "changes_of s owner Note_entity i \<noteq> []"
      then obtain c where "c \<in> set (changes_of s owner Note_entity i)" by (meson last_in_set)
      with a log show False by (fastforce simp: safe_log_def wf_log_def changes_of_def)
    qed
    then have "latestEntityOperation s owner Note_entity i = None" by (simp add: latestEntityOperation_def)
    then show "None = getNote s i owner" using live_ok_rules(1) [OF wf, of owner i] by (simp add: getNote_def)
  qed
  from pull_session_converges [OF wf log o this _ , of fuel e limit] fuel currentRevision_props(1) [OF log, of "Some owner"]
  show ?thesis unfolding truthy_def by simp
qed

theorem pull_converges_witness:
  "\<exists>res. pull_session 6 sample_env ''ann'' None 0 (\<lambda>i. None) sample_server = Some res \<and>
     (case res of Inl err \<Rightarrow> err = Pull_record_too_large
      | Inr (R, cursor) \<Rightarrow> R ''n1'' = Some note_a \<and> R ''n0'' = None)"
proof -
  have f: "nat (currentRevision sample_server (Some ''ann'')) < 6" by code_simp
  have o: "''ann'' \<noteq> []" by simp
  have n1: "getNote sample_server ''n1'' ''ann'' = Some note_a" by code_simp
  have n0: "getNote sample_server ''n0'' ''ann'' = None" by code_simp
  obtain res where res: "pull_session 6 sample_env ''ann'' None 0 (\<lambda>i. None) sample_server = Some res"
    and c: "case res of Inl err \<Rightarrow> err = Pull_record_too_large
     | Inr (R, cursor) \<Rightarrow> \<forall>i. i \<noteq> [] \<longrightarrow> R i = getNote sample_server i ''ann''"
    using pull_converges [OF wf_sample_server sample_safe_log o f, of sample_env None] by blast
  from c have "case res of Inl err \<Rightarrow> err = Pull_record_too_large
     | Inr (R, cursor) \<Rightarrow> R ''n1'' = Some note_a \<and> R ''n0'' = None"
    using n1 n0 by (cases res) auto
  with res show ?thesis by blast
qed

end
