(* ===== verification/Maintenance.thy ===== *)
theory Maintenance
  imports ServerPull
begin

text \<open>
  Housekeeping of \<open>apps/web/src/lib/server/repository.ts\<close>: \<open>cleanupTrash\<close>,
  \<open>pruneUnreferencedDevices\<close>, \<open>compactEntityChanges\<close> and \<open>pruneVersionSnapshots\<close>. Timestamps are
  TEXT columns, compared byte by byte, which is the order of \<open>List_Lexorder\<close>.
\<close>

section \<open>Cleaning the trash\<close>

record cleanup_response =
  cr_deletedNotes :: nat
  cr_deletedNotebooks :: nat
  cr_cutoff :: string

text \<open>The optional owner filter: an absent (or empty) name selects every account.\<close>

definition owner_selected :: "string option \<Rightarrow> string \<Rightarrow> bool" where
  "owner_selected ownerUsername owner \<longleftrightarrow> (truthy_opt ownerUsername \<longrightarrow> ownerUsername = Some owner)"

definition expired_since :: "string \<Rightarrow> string option \<Rightarrow> string option \<Rightarrow> bool" where
  "expired_since cutoff removedAt retention \<longleftrightarrow>
     removedAt \<noteq> None \<and> (case retention of None \<Rightarrow> False | Some t \<Rightarrow> t < cutoff)"

definition expired_note :: "string \<Rightarrow> string option \<Rightarrow> note_row \<Rightarrow> bool" where
  "expired_note cutoff ownerUsername r \<longleftrightarrow>
     expired_since cutoff (n_trashedAt (nr_note r)) (nr_retention r) \<and> owner_selected ownerUsername (nr_owner r)"

definition expired_notebook :: "string \<Rightarrow> string option \<Rightarrow> notebook_row \<Rightarrow> bool" where
  "expired_notebook cutoff ownerUsername r \<longleftrightarrow>
     expired_since cutoff (nb_deletedAt (nbr_notebook r)) (nbr_retention r) \<and> owner_selected ownerUsername (nbr_owner r)"

definition saveNoteSnapshot :: "Note \<Rightarrow> snapshot_reason \<Rightarrow> string \<Rightarrow> string \<Rightarrow> server \<Rightarrow> server" where
  "saveNoteSnapshot n reason savedAt owner s =
     (let ids = noteNotebookIds n
      in s\<lparr>s_noteVersions := s_noteVersions s @ [\<lparr>nv_owner = owner,
             nv_note = n\<lparr>n_notebookIds := ids, n_notebookId := first_or_null ids\<rparr>, nv_savedAt = savedAt,
             nv_reason = reason\<rparr>]\<rparr>)"

definition saveNotebookSnapshot :: "Notebook \<Rightarrow> snapshot_reason \<Rightarrow> string \<Rightarrow> string \<Rightarrow> server \<Rightarrow> server" where
  "saveNotebookSnapshot nb reason savedAt owner s =
     s\<lparr>s_notebookVersions := s_notebookVersions s @ [\<lparr>nbv_owner = owner, nbv_notebook = nb,
         nbv_savedAt = savedAt, nbv_reason = reason\<rparr>]\<rparr>"

definition cleanup_note :: "env \<Rightarrow> string \<Rightarrow> string \<times> Note \<Rightarrow> server \<Rightarrow> server" where
  "cleanup_note e cleanupTime x s =
     (let (owner, n) = x;
          s1 = delete_note_row owner (n_id n) (saveNoteSnapshot n Cleanup_reason cleanupTime owner s)
      in recordEntityChange e Note_entity (n_id n) Delete_op None owner
           (putEntityTombstone owner Note_entity (n_id n) cleanupTime (n_deviceId n)
             (nextVersionAfter (n_version n)) s1))"

definition cleanup_notebook :: "env \<Rightarrow> string \<Rightarrow> string \<times> Notebook \<Rightarrow> server \<Rightarrow> server_error + server" where
  "cleanup_notebook e cleanupTime x s =
     (let (owner, nb) = x
      in and_then (delete_notebook_row owner (nb_id nb) (saveNotebookSnapshot nb Cleanup_reason cleanupTime owner s))
           (\<lambda>s1. Inr (recordEntityChange e Notebook_entity (nb_id nb) Delete_op None owner
              (putEntityTombstone owner Notebook_entity (nb_id nb) cleanupTime (nb_deviceId nb)
                (nextVersionAfter (nb_version nb)) s1))))"

section \<open>Version snapshots\<close>

record prune_response =
  pv_deletedNoteSnapshots :: nat
  pv_deletedNotebookSnapshots :: nat
  pv_cutoff :: string

definition pruneVersionSnapshots :: "int \<Rightarrow> string option \<Rightarrow> server \<Rightarrow> prune_response \<times> server" where
  "pruneVersionSnapshots now ownerUsername s =
     (let cutoff = retentionCutoff now VERSION_SNAPSHOT_RETENTION_DAYS;
          oldNote = (\<lambda>v. nv_savedAt v < cutoff \<and> owner_selected ownerUsername (nv_owner v));
          oldNotebook = (\<lambda>v. nbv_savedAt v < cutoff \<and> owner_selected ownerUsername (nbv_owner v))
      in (\<lparr>pv_deletedNoteSnapshots = length (filter oldNote (s_noteVersions s)),
           pv_deletedNotebookSnapshots = length (filter oldNotebook (s_notebookVersions s)), pv_cutoff = cutoff\<rparr>,
          s\<lparr>s_noteVersions := filter (\<lambda>v. \<not> oldNote v) (s_noteVersions s),
            s_notebookVersions := filter (\<lambda>v. \<not> oldNotebook v) (s_notebookVersions s)\<rparr>))"

definition old_notes :: "string \<Rightarrow> string option \<Rightarrow> server \<Rightarrow> (string \<times> Note) list" where
  "old_notes cutoff ownerUsername s =
     map (\<lambda>r. (or_str (nr_owner r) LEGACY_OWNER_USERNAME, toNote r)) (filter (expired_note cutoff ownerUsername) (s_notes s))"

definition old_notebooks :: "string \<Rightarrow> string option \<Rightarrow> server \<Rightarrow> (string \<times> Notebook) list" where
  "old_notebooks cutoff ownerUsername s =
     map (\<lambda>r. (or_str (nbr_owner r) LEGACY_OWNER_USERNAME, toNotebook r))
       (filter (expired_notebook cutoff ownerUsername) (s_notebooks s))"

definition cleanupTrash :: "env \<Rightarrow> int \<Rightarrow> string option \<Rightarrow> server \<Rightarrow> server_error + cleanup_response \<times> server" where
  "cleanupTrash e now ownerUsername s =
     (let cutoff = retentionCutoff now NOTE_RETENTION_DAYS;
          cleanupTime = to_iso now;
          oldNotes = old_notes cutoff ownerUsername s;
          oldNotebooks = old_notebooks cutoff ownerUsername s
      in and_then (fold_err (cleanup_notebook e cleanupTime) oldNotebooks (fold (cleanup_note e cleanupTime) oldNotes s))
           (\<lambda>s1. Inr (\<lparr>cr_deletedNotes = length oldNotes, cr_deletedNotebooks = length oldNotebooks, cr_cutoff = cutoff\<rparr>,
                      snd (pruneVersionSnapshots now ownerUsername s1))))"

section \<open>Devices\<close>

definition MIRROR_DEVICE_ID :: string where
  "MIRROR_DEVICE_ID = ''server-db-mirror''"

definition unreferenced_device :: "server \<Rightarrow> device_row \<Rightarrow> bool" where
  "unreferenced_device s d \<longleftrightarrow> d_id (dr_device d) \<noteq> MIRROR_DEVICE_ID \<and>
     \<not> (\<exists>r \<in> set (s_notes s). nr_owner r = dr_owner d \<and> n_deviceId (nr_note r) = d_id (dr_device d)) \<and>
     \<not> (\<exists>r \<in> set (s_notebooks s). nbr_owner r = dr_owner d \<and> nb_deviceId (nbr_notebook r) = d_id (dr_device d)) \<and>
     \<not> (\<exists>r \<in> set (s_sessions s). se_username r = dr_owner d \<and> se_deviceId r = Some (d_id (dr_device d))) \<and>
     \<not> (\<exists>r \<in> set (s_trusted s). tr_username r = dr_owner d \<and> tr_deviceId r = d_id (dr_device d))"

definition pruneUnreferencedDevices :: "env \<Rightarrow> server \<Rightarrow> nat \<times> server" where
  "pruneUnreferencedDevices e s =
     (let rows = filter (unreferenced_device s) (s_devices s)
      in (length rows,
          fold (\<lambda>d s. recordEntityChange e Device_entity (d_id (dr_device d)) Delete_op None (dr_owner d)
                 (delete_device_row (dr_owner d) (d_id (dr_device d)) s)) rows s))"

section \<open>Compacting the change log\<close>

definition latest_revisions :: "string option \<Rightarrow> server \<Rightarrow> int list" where
  "latest_revisions ownerUsername s =
     map (\<lambda>c. max_or_zero (map ch_revision (changes_of s (ch_owner c) (ch_entityType c) (ch_entityId c))))
       (filter (\<lambda>c. owner_selected ownerUsername (ch_owner c)) (s_changes s))"

definition compacted :: "string option \<Rightarrow> server \<Rightarrow> server" where
  "compacted ownerUsername s =
     s\<lparr>s_changes := filter (\<lambda>c. \<not> (ch_revision c \<notin> set (latest_revisions ownerUsername s) \<and>
                                  owner_selected ownerUsername (ch_owner c))) (s_changes s)\<rparr>"

definition compactEntityChanges :: "string option \<Rightarrow> server \<Rightarrow> int \<times> server" where
  "compactEntityChanges ownerUsername s =
     (let count = (\<lambda>t. int (length (filter (\<lambda>c. owner_selected ownerUsername (ch_owner c)) (s_changes t))));
          s1 = compacted ownerUsername s
      in (max 0 (count s - count s1), s1))"

section \<open>Deleting one entity for good\<close>

lemma delete_note_row_get:
  "get_note_row (delete_note_row owner i s) o1 j = (if o1 = owner \<and> j = i then None else get_note_row s o1 j)"
  by (auto simp: delete_note_row_def get_note_row_def tget_tdel)

lemma delete_notebook_row_Inr:
  assumes "delete_notebook_row owner i s = Inr s'"
  shows "s' = s\<lparr>s_notebooks := tdel notebook_key (owner, i) (s_notebooks s)\<rparr>"
    and "get_notebook_row s owner i \<noteq> None \<Longrightarrow> \<not> notebook_referenced s owner i"
    and "get_notebook_row s' o1 j = (if o1 = owner \<and> j = i then None else get_notebook_row s o1 j)"
  using assms by (auto simp: delete_notebook_row_def get_notebook_row_def tget_tdel split: if_splits)

lemma recordEntityChange_spec:
  shows "s_notes (recordEntityChange e ty i op ts owner s) = s_notes s"
    "s_notebooks (recordEntityChange e ty i op ts owner s) = s_notebooks s"
    "s_devices (recordEntityChange e ty i op ts owner s) = s_devices s"
    "s_tombstones (recordEntityChange e ty i op ts owner s) = s_tombstones s"
    "s_noteVersions (recordEntityChange e ty i op ts owner s) = s_noteVersions s"
    "s_notebookVersions (recordEntityChange e ty i op ts owner s) = s_notebookVersions s"
    "s_meta (recordEntityChange e ty i op ts owner s) = s_meta s"
    "s_users (recordEntityChange e ty i op ts owner s) = s_users s"
    "s_sessions (recordEntityChange e ty i op ts owner s) = s_sessions s"
    "s_trusted (recordEntityChange e ty i op ts owner s) = s_trusted s"
    and "wf_log s \<Longrightarrow> wf_log (recordEntityChange e ty i op ts owner s)"
    and "latestEntityOperation (recordEntityChange e ty i op ts owner s) o1 t1 j =
       (if owner = o1 \<and> ty = t1 \<and> i = j then Some op else latestEntityOperation s o1 t1 j)"
    and "log_grows owner s (recordEntityChange e ty i op ts owner s)"
proof -
  define t where "t = (case ts of Some _ \<Rightarrow> s | None \<Rightarrow> s\<lparr>s_ticks := Suc (s_ticks s)\<rparr>)"
  obtain u where u: "recordEntityChange e ty i op ts owner s = insert_change owner ty i op u t"
    by (cases ts) (auto simp: recordEntityChange_def read_clock_def t_def)
  have t: "s_notes t = s_notes s" "s_notebooks t = s_notebooks s" "s_devices t = s_devices s"
      "s_tombstones t = s_tombstones s" "s_changes t = s_changes s" "s_lastRevision t = s_lastRevision s"
      "s_meta t = s_meta s" "s_noteVersions t = s_noteVersions s" "s_notebookVersions t = s_notebookVersions s"
      "s_users t = s_users s" "s_sessions t = s_sessions s" "s_trusted t = s_trusted s"
    by (simp_all add: t_def split: option.split)
  show "s_notes (recordEntityChange e ty i op ts owner s) = s_notes s"
    "s_notebooks (recordEntityChange e ty i op ts owner s) = s_notebooks s"
    "s_devices (recordEntityChange e ty i op ts owner s) = s_devices s"
    "s_tombstones (recordEntityChange e ty i op ts owner s) = s_tombstones s"
    "s_noteVersions (recordEntityChange e ty i op ts owner s) = s_noteVersions s"
    "s_notebookVersions (recordEntityChange e ty i op ts owner s) = s_notebookVersions s"
    "s_meta (recordEntityChange e ty i op ts owner s) = s_meta s"
    "s_users (recordEntityChange e ty i op ts owner s) = s_users s"
    "s_sessions (recordEntityChange e ty i op ts owner s) = s_sessions s"
    "s_trusted (recordEntityChange e ty i op ts owner s) = s_trusted s"
    by (simp_all add: u frame t)
  show "wf_log s \<Longrightarrow> wf_log (recordEntityChange e ty i op ts owner s)"
    unfolding u by (rule wf_log_insert_change) (simp add: wf_log_cong [OF t(5,6)])
  show "latestEntityOperation (recordEntityChange e ty i op ts owner s) o1 t1 j =
       (if owner = o1 \<and> ty = t1 \<and> i = j then Some op else latestEntityOperation s o1 t1 j)"
    unfolding u by (simp add: latest_insert_change lookups_cong(6) [OF t(5)])
  show "log_grows owner s (recordEntityChange e ty i op ts owner s)"
    unfolding u by (rule log_grows_trans [OF log_grows_refl [OF t(5,6)] log_grows_insert_change])
qed

text \<open>
  A note or notebook that is deleted for good leaves a tombstone and a delete in the log; the
  invariant is kept when no note refers to a deleted notebook.
\<close>

lemma wf_retire:
  assumes wf: "wf_server s" and t: "wf_tables s'" and l: "wf_log s'" and ty: "ty \<noteq> Device_entity"
    and n: "\<And>o1 j. get_note_row s' o1 j =
       (if ty = Note_entity \<and> o1 = owner \<and> j = i then None else get_note_row s o1 j)"
    and nb: "\<And>o1 j. get_notebook_row s' o1 j =
       (if ty = Notebook_entity \<and> o1 = owner \<and> j = i then None else get_notebook_row s o1 j)"
    and tomb: "\<And>o1 t1 j. \<not> (o1 = owner \<and> t1 = ty \<and> j = i) \<Longrightarrow> getEntityTombstone s' o1 t1 j = getEntityTombstone s o1 t1 j"
    and op: "\<And>o1 t1 j. latestEntityOperation s' o1 t1 j =
       (if owner = o1 \<and> ty = t1 \<and> i = j then Some Delete_op else latestEntityOperation s o1 t1 j)"
    and free: "ty = Notebook_entity \<Longrightarrow> get_notebook_row s owner i \<noteq> None \<Longrightarrow> \<not> notebook_referenced s owner i"
  shows "wf_server s'"
proof -
  have tab: "wf_table note_key (s_notes s)" "wf_table note_key (s_notes s')"
    using wf t by (auto simp: wf_server_def wf_tables_def)
  have old: "get_note_row s o1 j = Some r \<Longrightarrow> n_notebookId (nr_note r) = Some k \<Longrightarrow> get_notebook_row s o1 k \<noteq> None" for o1 j r k
    using wf fk_ok_lookup [OF tab(1)] by (metis wf_server_def)
  have "fk_ok s'" unfolding fk_ok_lookup [OF tab(2)]
  proof (intro allI impI)
    fix o1 j r k
    assume a: "get_note_row s' o1 j = Some r" "n_notebookId (nr_note r) = Some k"
    then have r: "get_note_row s o1 j = Some r" by (simp add: n split: if_splits)
    then have "r \<in> set (s_notes s)" "nr_owner r = o1" using note_row_key [OF r] by (auto simp: get_note_row_def dest: tget_set)
    with a(2) have "notebook_referenced s o1 k" by (auto simp: notebook_referenced_def)
    with free old [OF r a(2)] have "\<not> (ty = Notebook_entity \<and> o1 = owner \<and> k = i)" by blast
    with old [OF r a(2)] show "get_notebook_row s' o1 k \<noteq> None" unfolding nb by auto
  qed
  moreover have "live_ok s'" unfolding live_ok_def
  proof (intro allI conjI impI)
    fix o1 j assume "get_note_row s' o1 j \<noteq> None"
    then have a: "get_note_row s o1 j \<noteq> None" "\<not> (ty = Note_entity \<and> o1 = owner \<and> j = i)" by (auto simp: n split: if_splits)
    show "latestEntityOperation s' o1 Note_entity j = Some Upsert_op"
      using a live_ok_rules(1) [OF wf] by (auto simp: op)
    show "getEntityTombstone s' o1 Note_entity j = None"
      using a live_ok_rules(3) [OF wf] tomb [of o1 Note_entity j] by auto
  next
    fix o1 j assume "get_notebook_row s' o1 j \<noteq> None"
    then have a: "get_notebook_row s o1 j \<noteq> None" "\<not> (ty = Notebook_entity \<and> o1 = owner \<and> j = i)" by (auto simp: nb split: if_splits)
    show "latestEntityOperation s' o1 Notebook_entity j = Some Upsert_op"
      using a live_ok_rules(2) [OF wf] by (auto simp: op)
    show "getEntityTombstone s' o1 Notebook_entity j = None"
      using a live_ok_rules(4) [OF wf] tomb [of o1 Notebook_entity j] by auto
  next
    fix o1 j t1 assume "t1 \<noteq> Device_entity" "getEntityTombstone s' o1 t1 j \<noteq> None"
    then show "latestEntityOperation s' o1 t1 j = Some Delete_op"
      using live_ok_rules(5) [OF wf, of t1 o1 j] tomb [of o1 t1 j] by (metis op)
  next
    fix o1 j assume "latestEntityOperation s' o1 Note_entity j = Some Upsert_op"
    then show "get_note_row s' o1 j \<noteq> None"
      using live_ok_rules(1) [OF wf, of o1 j] by (auto simp: op n split: if_splits)
  next
    fix o1 j assume "latestEntityOperation s' o1 Notebook_entity j = Some Upsert_op"
    then show "get_notebook_row s' o1 j \<noteq> None"
      using live_ok_rules(2) [OF wf, of o1 j] by (auto simp: op nb split: if_splits)
  qed
  ultimately show ?thesis using t l by (simp add: wf_server_def)
qed

section \<open>The two loops of the cleanup\<close>

text \<open>What both loops leave for an entity they delete.\<close>

definition cleaned_tombstone :: "string \<Rightarrow> entity_type \<Rightarrow> string \<Rightarrow> string \<Rightarrow> string \<Rightarrow> int \<Rightarrow> entity_tombstone" where
  "cleaned_tombstone owner ty i cleanupTime deviceId version =
     \<lparr>t_owner = owner, t_entityType = ty, t_entityId = i, t_deletedAt = cleanupTime,
      t_deviceId = deviceId, t_version = nextVersionAfter version\<rparr>"

lemma cleanup_note_spec:
  assumes "s' = cleanup_note e ct (owner, n) s"
  shows "s_notes s' = tdel note_key (owner, n_id n) (s_notes s)"
    "s_notebooks s' = s_notebooks s" "s_devices s' = s_devices s" "s_meta s' = s_meta s"
    and "s_tombstones s' = tput tombstone_key
       (cleaned_tombstone owner Note_entity (n_id n) ct (n_deviceId n) (n_version n)) (s_tombstones s)"
    and "wf_log s \<Longrightarrow> wf_log s'"
    and "latestEntityOperation s' o1 t1 j =
       (if owner = o1 \<and> Note_entity = t1 \<and> n_id n = j then Some Delete_op else latestEntityOperation s o1 t1 j)"
proof -
  define t where "t = putEntityTombstone owner Note_entity (n_id n) ct (n_deviceId n) (nextVersionAfter (n_version n))
     (delete_note_row owner (n_id n) (saveNoteSnapshot n Cleanup_reason ct owner s))"
  have s': "s' = recordEntityChange e Note_entity (n_id n) Delete_op None owner t"
    using assms by (simp add: cleanup_note_def t_def)
  have t: "s_changes t = s_changes s" "s_lastRevision t = s_lastRevision s"
    by (simp_all add: t_def frame delete_note_row_def saveNoteSnapshot_def Let_def)
  show "s_notes s' = tdel note_key (owner, n_id n) (s_notes s)"
    "s_notebooks s' = s_notebooks s" "s_devices s' = s_devices s" "s_meta s' = s_meta s"
    "s_tombstones s' = tput tombstone_key
       (cleaned_tombstone owner Note_entity (n_id n) ct (n_deviceId n) (n_version n)) (s_tombstones s)"
    by (simp_all add: s' recordEntityChange_spec t_def putEntityTombstone_def delete_note_row_def
        saveNoteSnapshot_def Let_def cleaned_tombstone_def)
  show "wf_log s \<Longrightarrow> wf_log s'"
    unfolding s' by (rule recordEntityChange_spec) (simp add: wf_log_cong [OF t])
  show "latestEntityOperation s' o1 t1 j =
       (if owner = o1 \<and> Note_entity = t1 \<and> n_id n = j then Some Delete_op else latestEntityOperation s o1 t1 j)"
    unfolding s' recordEntityChange_spec by (simp add: lookups_cong(6) [OF t(1)])
qed

lemma cleanup_notebook_Inr:
  "cleanup_notebook e ct (owner, nb) s = Inr s' \<longleftrightarrow>
     \<not> (get_notebook_row s owner (nb_id nb) \<noteq> None \<and> notebook_referenced s owner (nb_id nb)) \<and>
     s' = recordEntityChange e Notebook_entity (nb_id nb) Delete_op None owner
       (putEntityTombstone owner Notebook_entity (nb_id nb) ct (nb_deviceId nb) (nextVersionAfter (nb_version nb))
         ((saveNotebookSnapshot nb Cleanup_reason ct owner s)\<lparr>s_notebooks := tdel notebook_key (owner, nb_id nb) (s_notebooks s)\<rparr>))"
  by (auto simp: cleanup_notebook_def delete_notebook_row_def saveNotebookSnapshot_def get_notebook_row_def
      notebook_referenced_def)

lemma cleanup_notebook_spec:
  assumes "cleanup_notebook e ct (owner, nb) s = Inr s'"
  shows "s_notebooks s' = tdel notebook_key (owner, nb_id nb) (s_notebooks s)"
    "s_notes s' = s_notes s" "s_devices s' = s_devices s" "s_meta s' = s_meta s"
    and "s_tombstones s' = tput tombstone_key
       (cleaned_tombstone owner Notebook_entity (nb_id nb) ct (nb_deviceId nb) (nb_version nb)) (s_tombstones s)"
    and "wf_log s \<Longrightarrow> wf_log s'"
    and "latestEntityOperation s' o1 t1 j =
       (if owner = o1 \<and> Notebook_entity = t1 \<and> nb_id nb = j then Some Delete_op else latestEntityOperation s o1 t1 j)"
    and "get_notebook_row s owner (nb_id nb) \<noteq> None \<Longrightarrow> \<not> notebook_referenced s owner (nb_id nb)"
proof -
  define t where "t = putEntityTombstone owner Notebook_entity (nb_id nb) ct (nb_deviceId nb) (nextVersionAfter (nb_version nb))
     ((saveNotebookSnapshot nb Cleanup_reason ct owner s)\<lparr>s_notebooks := tdel notebook_key (owner, nb_id nb) (s_notebooks s)\<rparr>)"
  have s': "s' = recordEntityChange e Notebook_entity (nb_id nb) Delete_op None owner t"
    using assms by (simp add: cleanup_notebook_Inr t_def)
  have t: "s_changes t = s_changes s" "s_lastRevision t = s_lastRevision s"
    by (simp_all add: t_def frame saveNotebookSnapshot_def)
  show "s_notebooks s' = tdel notebook_key (owner, nb_id nb) (s_notebooks s)"
    "s_notes s' = s_notes s" "s_devices s' = s_devices s" "s_meta s' = s_meta s"
    "s_tombstones s' = tput tombstone_key
       (cleaned_tombstone owner Notebook_entity (nb_id nb) ct (nb_deviceId nb) (nb_version nb)) (s_tombstones s)"
    by (simp_all add: s' recordEntityChange_spec t_def putEntityTombstone_def
        saveNotebookSnapshot_def cleaned_tombstone_def)
  show "wf_log s \<Longrightarrow> wf_log s'"
    unfolding s' by (rule recordEntityChange_spec) (simp add: wf_log_cong [OF t])
  show "latestEntityOperation s' o1 t1 j =
       (if owner = o1 \<and> Notebook_entity = t1 \<and> nb_id nb = j then Some Delete_op else latestEntityOperation s o1 t1 j)"
    unfolding s' recordEntityChange_spec by (simp add: lookups_cong(6) [OF t(1)])
  show "get_notebook_row s owner (nb_id nb) \<noteq> None \<Longrightarrow> \<not> notebook_referenced s owner (nb_id nb)"
    using assms by (simp add: cleanup_notebook_Inr)
qed

lemma wf_cleanup_note:
  assumes wf: "wf_server s"
  shows "wf_server (cleanup_note e ct (owner, n) s)"
proof -
  note spec = cleanup_note_spec [OF refl, where e = e and ct = ct and owner = owner and n = n and s = s]
  show ?thesis
  proof (rule wf_retire [OF wf, where ty = Note_entity and owner = owner and i = "n_id n"])
    show "wf_tables (cleanup_note e ct (owner, n) s)" using wf
      by (simp add: wf_server_def wf_tables_def spec(1-5) wf_table_tdel wf_table_tput)
    show "wf_log (cleanup_note e ct (owner, n) s)" using wf spec(6) by (simp add: wf_server_def)
    show "latestEntityOperation (cleanup_note e ct (owner, n) s) o1 t1 j =
       (if owner = o1 \<and> Note_entity = t1 \<and> n_id n = j then Some Delete_op else latestEntityOperation s o1 t1 j)" for o1 t1 j
      by (rule spec)
  qed (auto simp: get_note_row_def get_notebook_row_def getEntityTombstone_def spec(1,2,5) tget_tdel tget_tput
      tombstone_key_def cleaned_tombstone_def)
qed

lemma wf_cleanup_notebook:
  assumes wf: "wf_server s" and c: "cleanup_notebook e ct (owner, nb) s = Inr s'"
  shows "wf_server s'"
proof -
  note spec = cleanup_notebook_spec [OF c]
  show ?thesis
  proof (rule wf_retire [OF wf, where ty = Notebook_entity and owner = owner and i = "nb_id nb"])
    show "wf_tables s'" using wf
      by (simp add: wf_server_def wf_tables_def spec(1-5) wf_table_tdel wf_table_tput)
    show "wf_log s'" using wf spec(6) by (simp add: wf_server_def)
    show "latestEntityOperation s' o1 t1 j =
       (if owner = o1 \<and> Notebook_entity = t1 \<and> nb_id nb = j then Some Delete_op else latestEntityOperation s o1 t1 j)" for o1 t1 j
      by (rule spec)
    show "\<not> notebook_referenced s owner (nb_id nb)" if "get_notebook_row s owner (nb_id nb) \<noteq> None"
      using that by (rule spec(8))
  qed (auto simp: get_note_row_def get_notebook_row_def getEntityTombstone_def spec(1,2,5) tget_tdel tget_tput
      tombstone_key_def cleaned_tombstone_def)
qed

text \<open>Every stored row belongs to an account with a name (so \<open>asString(...) || LEGACY\<close> is the name).\<close>

definition owners_named :: "server \<Rightarrow> bool" where
  "owners_named s \<longleftrightarrow> (\<forall>r \<in> set (s_notes s). truthy (nr_owner r)) \<and> (\<forall>r \<in> set (s_notebooks s). truthy (nbr_owner r))"

abbreviation note_job :: "note_row \<Rightarrow> string \<times> Note" where
  "note_job r \<equiv> (nr_owner r, toNote r)"

abbreviation notebook_job :: "notebook_row \<Rightarrow> string \<times> Notebook" where
  "notebook_job r \<equiv> (nbr_owner r, toNotebook r)"

abbreviation note_gone :: "string \<Rightarrow> note_row \<Rightarrow> entity_tombstone" where
  "note_gone ct r \<equiv> cleaned_tombstone (nr_owner r) Note_entity (n_id (nr_note r)) ct (n_deviceId (nr_note r)) (n_version (nr_note r))"

abbreviation notebook_gone :: "string \<Rightarrow> notebook_row \<Rightarrow> entity_tombstone" where
  "notebook_gone ct r \<equiv> cleaned_tombstone (nbr_owner r) Notebook_entity (nb_id (nbr_notebook r)) ct
     (nb_deviceId (nbr_notebook r)) (nb_version (nbr_notebook r))"

lemma old_notes_named: "owners_named s \<Longrightarrow> old_notes c o1 s = map note_job (filter (expired_note c o1) (s_notes s))"
  by (auto simp: old_notes_def owners_named_def or_str_def)

lemma old_notebooks_named:
  "owners_named s \<Longrightarrow> old_notebooks c o1 s = map notebook_job (filter (expired_notebook c o1) (s_notebooks s))"
  by (auto simp: old_notebooks_def owners_named_def or_str_def)

lemma filter_key_remaining:
  "wf_table key t \<Longrightarrow> filter (\<lambda>x. key x \<notin> key ` set (filter P t)) t = filter (\<lambda>x. \<not> P x) t"
  by (rule filter_cong) (auto dest: wf_table_inj)

lemma cleanup_notes_loop:
  assumes "s' = fold (cleanup_note e ct) (map note_job rs) s" and "distinct (map note_key rs)"
  shows "s_notes s' = filter (\<lambda>x. note_key x \<notin> note_key ` set rs) (s_notes s)"
    "s_notebooks s' = s_notebooks s"
    and "wf_server s \<Longrightarrow> wf_server s'"
    and "r \<in> set rs \<Longrightarrow> getEntityTombstone s' (nr_owner r) Note_entity (n_id (nr_note r)) = Some (note_gone ct r)"
    and "ty \<noteq> Note_entity \<or> (o1, j) \<notin> note_key ` set rs \<Longrightarrow> getEntityTombstone s' o1 ty j = getEntityTombstone s o1 ty j"
proof -
  have "s_notes s' = filter (\<lambda>x. note_key x \<notin> note_key ` set rs) (s_notes s) \<and> s_notebooks s' = s_notebooks s \<and>
     (wf_server s \<longrightarrow> wf_server s') \<and>
     (\<forall>r \<in> set rs. getEntityTombstone s' (nr_owner r) Note_entity (n_id (nr_note r)) = Some (note_gone ct r)) \<and>
     (\<forall>o1 ty j. ty \<noteq> Note_entity \<or> (o1, j) \<notin> note_key ` set rs \<longrightarrow> getEntityTombstone s' o1 ty j = getEntityTombstone s o1 ty j)"
    using assms
  proof (induction rs arbitrary: s)
    case Nil
    then show ?case by simp
  next
    case (Cons r rs)
    define t where "t = cleanup_note e ct (note_job r) s"
    have s': "s' = fold (cleanup_note e ct) (map note_job rs) t" using Cons.prems(1) by (simp add: t_def)
    note spec = cleanup_note_spec [OF t_def]
    have d: "distinct (map note_key rs)" "note_key r \<notin> note_key ` set rs" using Cons.prems(2) by auto
    have key: "note_key r = (nr_owner r, n_id (nr_note r))" by (simp add: note_key_def)
    have w: "wf_server s \<Longrightarrow> wf_server t" unfolding t_def by (rule wf_cleanup_note)
    have tomb: "getEntityTombstone t o1 ty j =
        (if o1 = nr_owner r \<and> ty = Note_entity \<and> j = n_id (nr_note r) then Some (note_gone ct r) else getEntityTombstone s o1 ty j)" for o1 ty j
      by (simp add: getEntityTombstone_def spec(5) tget_tput tombstone_key_def cleaned_tombstone_def)
    note IH = Cons.IH [OF s' d(1)]
    have rows: "s_notes s' = filter (\<lambda>x. note_key x \<notin> note_key ` set (r # rs)) (s_notes s)"
      using IH by (simp add: spec(1) tdel_def key conj_commute)
    moreover have "getEntityTombstone s' (nr_owner r) Note_entity (n_id (nr_note r)) = Some (note_gone ct r)"
      using IH d(2) by (auto simp: tomb note_key_def)
    moreover have "getEntityTombstone s' o1 ty j = getEntityTombstone s o1 ty j"
      if "ty \<noteq> Note_entity \<or> (o1, j) \<notin> note_key ` set (r # rs)" for o1 ty j
      using IH that by (auto simp: tomb note_key_def)
    ultimately show ?case using IH w spec(2) by auto
  qed
  then show "s_notes s' = filter (\<lambda>x. note_key x \<notin> note_key ` set rs) (s_notes s)"
    "s_notebooks s' = s_notebooks s" "wf_server s \<Longrightarrow> wf_server s'"
    "r \<in> set rs \<Longrightarrow> getEntityTombstone s' (nr_owner r) Note_entity (n_id (nr_note r)) = Some (note_gone ct r)"
    "ty \<noteq> Note_entity \<or> (o1, j) \<notin> note_key ` set rs \<Longrightarrow> getEntityTombstone s' o1 ty j = getEntityTombstone s o1 ty j"
    by blast+
qed

lemma cleanup_notebooks_loop:
  assumes "fold_err (cleanup_notebook e ct) (map notebook_job rs) s = Inr s'" and "distinct (map notebook_key rs)"
  shows "s_notebooks s' = filter (\<lambda>x. notebook_key x \<notin> notebook_key ` set rs) (s_notebooks s)"
    "s_notes s' = s_notes s"
    and "wf_server s \<Longrightarrow> wf_server s'"
    and "r \<in> set rs \<Longrightarrow> getEntityTombstone s' (nbr_owner r) Notebook_entity (nb_id (nbr_notebook r)) = Some (notebook_gone ct r)"
    and "ty \<noteq> Notebook_entity \<or> (o1, j) \<notin> notebook_key ` set rs \<Longrightarrow> getEntityTombstone s' o1 ty j = getEntityTombstone s o1 ty j"
proof -
  have "s_notebooks s' = filter (\<lambda>x. notebook_key x \<notin> notebook_key ` set rs) (s_notebooks s) \<and> s_notes s' = s_notes s \<and>
     (wf_server s \<longrightarrow> wf_server s') \<and>
     (\<forall>r \<in> set rs. getEntityTombstone s' (nbr_owner r) Notebook_entity (nb_id (nbr_notebook r)) = Some (notebook_gone ct r)) \<and>
     (\<forall>o1 ty j. ty \<noteq> Notebook_entity \<or> (o1, j) \<notin> notebook_key ` set rs \<longrightarrow> getEntityTombstone s' o1 ty j = getEntityTombstone s o1 ty j)"
    using assms
  proof (induction rs arbitrary: s)
    case Nil
    then show ?case by simp
  next
    case (Cons r rs)
    obtain t where t: "cleanup_notebook e ct (notebook_job r) s = Inr t"
      and s': "fold_err (cleanup_notebook e ct) (map notebook_job rs) t = Inr s'" using Cons.prems(1) by (auto simp: and_then_Inr)
    note spec = cleanup_notebook_spec [OF t]
    have d: "distinct (map notebook_key rs)" "notebook_key r \<notin> notebook_key ` set rs" using Cons.prems(2) by auto
    have key: "notebook_key r = (nbr_owner r, nb_id (nbr_notebook r))" by (simp add: notebook_key_def)
    have w: "wf_server s \<Longrightarrow> wf_server t" using t by (rule wf_cleanup_notebook [rotated])
    have tomb: "getEntityTombstone t o1 ty j =
        (if o1 = nbr_owner r \<and> ty = Notebook_entity \<and> j = nb_id (nbr_notebook r) then Some (notebook_gone ct r) else getEntityTombstone s o1 ty j)" for o1 ty j
      by (simp add: getEntityTombstone_def spec(5) tget_tput tombstone_key_def cleaned_tombstone_def)
    note IH = Cons.IH [OF s' d(1)]
    have rows: "s_notebooks s' = filter (\<lambda>x. notebook_key x \<notin> notebook_key ` set (r # rs)) (s_notebooks s)"
      using IH by (simp add: spec(1) tdel_def key conj_commute)
    moreover have "getEntityTombstone s' (nbr_owner r) Notebook_entity (nb_id (nbr_notebook r)) = Some (notebook_gone ct r)"
      using IH d(2) by (auto simp: tomb notebook_key_def)
    moreover have "getEntityTombstone s' o1 ty j = getEntityTombstone s o1 ty j"
      if "ty \<noteq> Notebook_entity \<or> (o1, j) \<notin> notebook_key ` set (r # rs)" for o1 ty j
      using IH that by (auto simp: tomb notebook_key_def)
    ultimately show ?case using IH w spec(2) by auto
  qed
  then show "s_notebooks s' = filter (\<lambda>x. notebook_key x \<notin> notebook_key ` set rs) (s_notebooks s)"
    "s_notes s' = s_notes s" "wf_server s \<Longrightarrow> wf_server s'"
    "r \<in> set rs \<Longrightarrow> getEntityTombstone s' (nbr_owner r) Notebook_entity (nb_id (nbr_notebook r)) = Some (notebook_gone ct r)"
    "ty \<noteq> Notebook_entity \<or> (o1, j) \<notin> notebook_key ` set rs \<Longrightarrow> getEntityTombstone s' o1 ty j = getEntityTombstone s o1 ty j"
    by blast+
qed

text \<open>The notebook loop stops at the first notebook that a note still refers to.\<close>

lemma cleanup_notebooks_result:
  assumes "distinct (map notebook_key rs)" and "\<forall>r \<in> set rs. get_notebook_row s (nbr_owner r) (nb_id (nbr_notebook r)) \<noteq> None"
  shows "(\<exists>r \<in> set rs. notebook_referenced s (nbr_owner r) (nb_id (nbr_notebook r))) \<and>
       fold_err (cleanup_notebook e ct) (map notebook_job rs) s = Inl Not_null_violation \<or>
     \<not> (\<exists>r \<in> set rs. notebook_referenced s (nbr_owner r) (nb_id (nbr_notebook r))) \<and>
       (\<exists>s'. fold_err (cleanup_notebook e ct) (map notebook_job rs) s = Inr s')"
  using assms
proof (induction rs arbitrary: s)
  case Nil
  then show ?case by simp
next
  case (Cons r rs)
  show ?case
  proof (cases "notebook_referenced s (nbr_owner r) (nb_id (nbr_notebook r))")
    case True
    with Cons.prems(2) have "cleanup_notebook e ct (notebook_job r) s = Inl Not_null_violation"
      by (auto simp: cleanup_notebook_def delete_notebook_row_def saveNotebookSnapshot_def get_notebook_row_def notebook_referenced_def)
    with True show ?thesis by simp
  next
    case False
    then have "\<exists>t. cleanup_notebook e ct (notebook_job r) s = Inr t" by (simp add: cleanup_notebook_Inr)
    then obtain t where t: "cleanup_notebook e ct (notebook_job r) s = Inr t" by blast
    note spec = cleanup_notebook_spec [OF t]
    have d: "distinct (map notebook_key rs)" "notebook_key r \<notin> notebook_key ` set rs" using Cons.prems(1) by auto
    have ref: "notebook_referenced t = notebook_referenced s" by (simp add: notebook_referenced_def spec(2) fun_eq_iff)
    have ex: "\<forall>r \<in> set rs. get_notebook_row t (nbr_owner r) (nb_id (nbr_notebook r)) \<noteq> None"
      using Cons.prems(2) d(2) by (auto simp: get_notebook_row_def spec(1) tget_tdel notebook_key_def rev_image_eqI)
    show ?thesis using Cons.IH [OF d(1) ex] False by (simp add: t ref)
  qed
qed

section \<open>Compaction\<close>

definition last_change :: "server \<Rightarrow> change_row \<Rightarrow> change_row" where
  "last_change s c = last (changes_of s (ch_owner c) (ch_entityType c) (ch_entityId c))"

lemma fold_max_sorted: "sorted_wrt (<) (x # xs) \<Longrightarrow> fold max xs x = last (x # xs)" for x :: int
  by (induction xs arbitrary: x) (auto simp: max_def)

lemma max_or_zero_sorted: "sorted_wrt (<) xs \<Longrightarrow> xs \<noteq> [] \<Longrightarrow> max_or_zero xs = last xs"
  by (cases xs) (simp_all add: max_or_zero_def fold_max_sorted del: sorted_wrt.simps)

lemma changes_of_nonempty: "c \<in> set (s_changes s) \<Longrightarrow> changes_of s (ch_owner c) (ch_entityType c) (ch_entityId c) \<noteq> []"
  by (auto simp: changes_of_def filter_empty_conv)

lemma sorted_wrt_map_filter: "sorted_wrt R (map f xs) \<Longrightarrow> sorted_wrt R (map f (filter P xs))"
  by (induction xs) auto

lemma sorted_last_max:
  "sorted_wrt (<) (map f xs) \<Longrightarrow> x \<in> set xs \<Longrightarrow> f x \<le> (f (last xs) :: int)"
  by (induction xs rule: rev_induct) (auto simp: sorted_wrt_append intro: less_imp_le)

lemma last_change_mem:
  assumes "c \<in> set (s_changes s)"
  shows "last_change s c \<in> set (s_changes s)" "ch_owner (last_change s c) = ch_owner c"
    "ch_entityType (last_change s c) = ch_entityType c" "ch_entityId (last_change s c) = ch_entityId c"
  using last_in_set [OF changes_of_nonempty [OF assms]] by (auto simp: last_change_def changes_of_def)

lemma max_revision_of:
  assumes wf: "wf_log s" and c: "c \<in> set (s_changes s)"
  shows "max_or_zero (map ch_revision (changes_of s (ch_owner c) (ch_entityType c) (ch_entityId c))) = ch_revision (last_change s c)"
proof -
  have "sorted_wrt (<) (map ch_revision (changes_of s (ch_owner c) (ch_entityType c) (ch_entityId c)))"
    using wf unfolding changes_of_def wf_log_def by (simp add: sorted_wrt_map_filter)
  then show ?thesis using changes_of_nonempty [OF c] by (simp add: max_or_zero_sorted last_map last_change_def)
qed

lemma revision_inj:
  assumes "wf_log s" "a \<in> set (s_changes s)" "b \<in> set (s_changes s)" "ch_revision a = ch_revision b"
  shows "a = b"
  using assms wf_table_inj [of ch_revision "s_changes s" a b] by (simp add: wf_table_def wf_log_def)

lemma last_change_idem: "c \<in> set (s_changes s) \<Longrightarrow> last_change s (last_change s c) = last_change s c"
  using last_change_mem [of c s] by (simp add: last_change_def [of s "last_change s c"]) (simp add: last_change_def)

lemma compacted_eq:
  assumes wf: "wf_log s"
  shows "compacted o1 s = s\<lparr>s_changes := filter (\<lambda>c. owner_selected o1 (ch_owner c) \<longrightarrow> c = last_change s c) (s_changes s)\<rparr>"
proof -
  have "filter (\<lambda>c. \<not> (ch_revision c \<notin> set (latest_revisions o1 s) \<and> owner_selected o1 (ch_owner c))) (s_changes s)
      = filter (\<lambda>c. owner_selected o1 (ch_owner c) \<longrightarrow> c = last_change s c) (s_changes s)"
  proof (rule filter_cong [OF refl])
    fix c assume c: "c \<in> set (s_changes s)"
    have "ch_revision c \<in> set (latest_revisions o1 s) \<longleftrightarrow> c = last_change s c" if "owner_selected o1 (ch_owner c)"
    proof
      assume "ch_revision c \<in> set (latest_revisions o1 s)"
      then obtain d where d: "d \<in> set (s_changes s)" "ch_revision c = ch_revision (last_change s d)"
        using max_revision_of [OF wf] by (auto simp: latest_revisions_def)
      then have "c = last_change s d" using revision_inj [OF wf c last_change_mem(1)] by blast
      then show "c = last_change s c" using last_change_idem [OF d(1)] by simp
    next
      assume a: "c = last_change s c"
      show "ch_revision c \<in> set (latest_revisions o1 s)" unfolding latest_revisions_def
        using max_revision_of [OF wf c] a that c by (auto intro!: image_eqI [where x = c])
    qed
    then show "(\<not> (ch_revision c \<notin> set (latest_revisions o1 s) \<and> owner_selected o1 (ch_owner c))) =
        (owner_selected o1 (ch_owner c) \<longrightarrow> c = last_change s c)" by blast
  qed
  then show ?thesis by (simp add: compacted_def)
qed

lemma filter_last_only: "distinct xs \<Longrightarrow> xs \<noteq> [] \<Longrightarrow> filter (\<lambda>x. x = last xs) xs = [last xs]"
proof (induction xs rule: rev_induct)
  case Nil
  then show ?case by simp
next
  case (snoc x xs)
  then have "filter (\<lambda>y. y = x) xs = []" by (auto simp: filter_empty_conv)
  then show ?case by simp
qed

lemma changes_of_compacted:
  assumes wf: "wf_log s"
  shows "changes_of (compacted o1 s) owner ty i =
     (if owner_selected o1 owner \<and> changes_of s owner ty i \<noteq> [] then [last (changes_of s owner ty i)]
      else changes_of s owner ty i)"
proof -
  have d: "distinct (changes_of s owner ty i)"
    using wf wf_table_distinct [of ch_revision "s_changes s"]
    by (simp add: changes_of_def wf_log_def wf_table_def distinct_map)
  have eq: "changes_of (compacted o1 s) owner ty i =
     filter (\<lambda>c. owner_selected o1 owner \<longrightarrow> c = last (changes_of s owner ty i)) (changes_of s owner ty i)"
    unfolding compacted_eq [OF wf] changes_of_def by (auto simp: last_change_def changes_of_def intro!: filter_cong)
  show ?thesis
  proof (cases "owner_selected o1 owner \<and> changes_of s owner ty i \<noteq> []")
    case True
    then show ?thesis using filter_last_only [OF d] by (simp add: eq)
  next
    case False
    then show ?thesis by (auto simp: eq)
  qed
qed

lemma latest_compacted: "wf_log s \<Longrightarrow> latestEntityOperation (compacted o1 s) = latestEntityOperation s"
  by (intro ext) (simp add: latestEntityOperation_last changes_of_compacted)

lemma wf_compacted:
  assumes "wf_server s"
  shows "wf_server (compacted o1 s)"
proof (rule wf_server_transfer [OF assms])
  have l: "wf_log s" using assms by (simp add: wf_server_def)
  show "wf_log (compacted o1 s)" using l by (auto simp: compacted_def wf_log_def sorted_wrt_map_filter)
  show "wf_tables (compacted o1 s)" using assms by (simp add: wf_server_def wf_tables_def compacted_def)
  show "s_notes (compacted o1 s) = s_notes s" by (simp add: compacted_def)
  show "get_notebook_row (compacted o1 s) = get_notebook_row s" "getEntityTombstone (compacted o1 s) = getEntityTombstone s"
    by (rule lookups_cong, simp add: compacted_def)+
  show "latestEntityOperation (compacted o1 s) o2 ty i = latestEntityOperation s o2 ty i" for o2 ty i
    by (simp add: latest_compacted [OF l])
qed

text \<open>The newest revision of an account survives: its entry is the last of its record.\<close>

lemma currentRevision_compacted:
  assumes wf: "wf_log s"
  shows "currentRevision (compacted o1 s) owner = currentRevision s owner"
proof -
  let ?sel = "\<lambda>c. truthy_opt owner \<longrightarrow> Some (ch_owner c) = owner"
  let ?keep = "\<lambda>c. owner_selected o1 (ch_owner c) \<longrightarrow> c = last_change s c"
  define xs where "xs = filter ?sel (s_changes s)"
  have cur: "currentRevision t owner = asRevision (max_or_zero (map ch_revision (filter ?sel (s_changes t))))" for t
    by (simp add: currentRevision_def)
  have sorted: "sorted_wrt (<) (map ch_revision xs)"
    using wf by (simp add: xs_def wf_log_def sorted_wrt_map_filter)
  have new: "filter ?sel (s_changes (compacted o1 s)) = filter ?keep xs"
    unfolding compacted_eq [OF wf] xs_def by (simp add: conj_commute)
  have "max_or_zero (map ch_revision (filter ?keep xs)) = max_or_zero (map ch_revision xs)"
  proof (cases "xs = []")
    case True
    then show ?thesis by simp
  next
    case False
    let ?l = "last xs"
    have l: "?l \<in> set xs" using False by simp
    then have lc: "?l \<in> set (s_changes s)" "?sel ?l" by (auto simp: xs_def)
    have top: "c \<in> set xs \<Longrightarrow> ch_revision c \<le> ch_revision ?l" for c
      using sorted by (rule sorted_last_max)
    have mem: "c \<in> set xs \<longleftrightarrow> c \<in> set (s_changes s) \<and> ?sel c" for c by (simp add: xs_def)
    have "last_change s ?l \<in> set xs"
      unfolding mem last_change_mem(2) [OF lc(1)] using last_change_mem(1) [OF lc(1)] lc(2) by blast
    then have "ch_revision (last_change s ?l) \<le> ch_revision ?l" by (rule top)
    moreover have "ch_revision ?l \<le> ch_revision (last_change s ?l)"
      unfolding last_change_def
    proof (rule sorted_last_max)
      show "sorted_wrt (<) (map ch_revision (changes_of s (ch_owner ?l) (ch_entityType ?l) (ch_entityId ?l)))"
        using wf by (simp add: changes_of_def wf_log_def sorted_wrt_map_filter)
      show "?l \<in> set (changes_of s (ch_owner ?l) (ch_entityType ?l) (ch_entityId ?l))"
        using lc(1) by (simp add: changes_of_def)
    qed
    ultimately have "?l = last_change s ?l" using revision_inj [OF wf lc(1) last_change_mem(1) [OF lc(1)]] by simp
    then have k: "?keep ?l" by blast
    have split: "xs = butlast xs @ [?l]" using False by simp
    have "filter ?keep xs = filter ?keep (butlast xs) @ [?l]"
      using k by (subst split) auto
    then have "last (filter ?keep xs) = ?l" "filter ?keep xs \<noteq> []" by simp_all
    then show ?thesis using sorted False
      by (simp add: max_or_zero_sorted sorted_wrt_map_filter last_map)
  qed
  then show ?thesis by (simp add: cur new xs_def)
qed

section \<open>The device loop\<close>

lemma prune_devices_loop:
  fixes e :: env
  defines "f \<equiv> \<lambda>d s. recordEntityChange e Device_entity (d_id (dr_device d)) Delete_op None (dr_owner d)
                 (delete_device_row (dr_owner d) (d_id (dr_device d)) s)"
  shows "s_devices (fold f rows s) = filter (\<lambda>d. device_key d \<notin> device_key ` set rows) (s_devices s) \<and>
    s_notes (fold f rows s) = s_notes s \<and> s_notebooks (fold f rows s) = s_notebooks s \<and>
    s_sessions (fold f rows s) = s_sessions s \<and> s_trusted (fold f rows s) = s_trusted s \<and>
    (wf_server s \<longrightarrow> wf_server (fold f rows s)) \<and>
    (\<forall>o1 i. latestEntityOperation (fold f rows s) o1 Device_entity i =
      (if (o1, i) \<in> device_key ` set rows then Some Delete_op else latestEntityOperation s o1 Device_entity i))"
proof (induction rows arbitrary: s)
  case Nil
  then show ?case by simp
next
  case (Cons d rows)
  define u where "u = delete_device_row (dr_owner d) (d_id (dr_device d)) s"
  have fd: "f d s = recordEntityChange e Device_entity (d_id (dr_device d)) Delete_op None (dr_owner d) u"
    by (simp add: f_def u_def)
  have u: "s_devices u = tdel device_key (device_key d) (s_devices s)" "s_notes u = s_notes s" "s_notebooks u = s_notebooks s"
      "s_changes u = s_changes s" "s_lastRevision u = s_lastRevision s" "s_tombstones u = s_tombstones s" "s_meta u = s_meta s"
      "s_sessions u = s_sessions s" "s_trusted u = s_trusted s"
    by (simp_all add: u_def delete_device_row_def device_key_def)
  have lat: "latestEntityOperation u = latestEntityOperation s" by (rule lookups_cong) (rule u)
  have w: "wf_server (f d s)" if wf: "wf_server s"
  proof (rule wf_server_transfer [OF wf])
    show "wf_tables (f d s)" using wf unfolding fd
      by (simp add: wf_server_def wf_tables_def recordEntityChange_spec u wf_table_tdel)
    show "wf_log (f d s)" unfolding fd
      by (rule recordEntityChange_spec) (use wf in \<open>simp add: wf_log_cong [OF u(4,5)] wf_server_def\<close>)
    show "s_notes (f d s) = s_notes s" by (simp add: fd recordEntityChange_spec u)
    show "get_notebook_row (f d s) = get_notebook_row s" "getEntityTombstone (f d s) = getEntityTombstone s"
      by (rule lookups_cong, simp add: fd recordEntityChange_spec u)+
    show "latestEntityOperation (f d s) o1 ty i = latestEntityOperation s o1 ty i" if "ty \<noteq> Device_entity" for o1 ty i
      using that by (simp add: fd recordEntityChange_spec lat)
  qed
  have dev: "s_devices (f d s) = tdel device_key (device_key d) (s_devices s)" "s_notes (f d s) = s_notes s"
      "s_notebooks (f d s) = s_notebooks s" "s_sessions (f d s) = s_sessions s" "s_trusted (f d s) = s_trusted s"
    by (simp_all add: fd recordEntityChange_spec u)
  have op: "latestEntityOperation (f d s) o1 Device_entity i =
      (if (o1, i) = device_key d then Some Delete_op else latestEntityOperation s o1 Device_entity i)" for o1 i
    by (auto simp: fd recordEntityChange_spec lat device_key_def)
  show ?case using Cons.IH [of "f d s"] w by (auto simp: dev op tdel_def conj_commute)
qed

end
