(* ===== verification/MaintTheorems.thy ===== *)
theory MaintTheorems
  imports Maintenance Samples
begin

text \<open>
  What the housekeeping jobs of the server guarantee: the trash cleanup, the compaction of the
  change log and the removal of unused devices.
\<close>

section \<open>The cleanup as a whole\<close>

lemma cleanupTrash_Inr:
  assumes "cleanupTrash e now o1 s = Inr (resp, s')" and "owners_named s" and "wf_server s"
  shows "\<exists>s2. fold_err (cleanup_notebook e (to_iso now)) (map notebook_job (filter (expired_notebook (cr_cutoff resp) o1) (s_notebooks s)))
      (fold (cleanup_note e (to_iso now)) (map note_job (filter (expired_note (cr_cutoff resp) o1) (s_notes s))) s) = Inr s2 \<and>
    s' = snd (pruneVersionSnapshots now o1 s2) \<and> cr_cutoff resp = retentionCutoff now NOTE_RETENTION_DAYS \<and>
    cr_deletedNotes resp = length (filter (expired_note (cr_cutoff resp) o1) (s_notes s)) \<and>
    cr_deletedNotebooks resp = length (filter (expired_notebook (cr_cutoff resp) o1) (s_notebooks s))"
  using assms by (auto simp: cleanupTrash_def Let_def and_then_Inr old_notes_named old_notebooks_named)

lemma pruneVersionSnapshots_frame [frame]:
  "s_notes (snd (pruneVersionSnapshots now o1 s)) = s_notes s"
  "s_notebooks (snd (pruneVersionSnapshots now o1 s)) = s_notebooks s"
  "s_devices (snd (pruneVersionSnapshots now o1 s)) = s_devices s"
  "s_tombstones (snd (pruneVersionSnapshots now o1 s)) = s_tombstones s"
  "s_changes (snd (pruneVersionSnapshots now o1 s)) = s_changes s"
  "s_lastRevision (snd (pruneVersionSnapshots now o1 s)) = s_lastRevision s"
  "s_meta (snd (pruneVersionSnapshots now o1 s)) = s_meta s"
  by (simp_all add: pruneVersionSnapshots_def Let_def)

definition cleanup_stuck :: "string \<Rightarrow> string option \<Rightarrow> server \<Rightarrow> bool" where
  "cleanup_stuck cutoff o1 s \<longleftrightarrow>
    (\<exists>nb \<in> set (s_notebooks s). \<exists>n \<in> set (s_notes s). expired_notebook cutoff o1 nb \<and> \<not> expired_note cutoff o1 n \<and>
       nr_owner n = nbr_owner nb \<and> n_notebookId (nr_note n) = Some (nb_id (nbr_notebook nb)))"

lemma cleanup_outcome:
  assumes wf: "wf_server s" and named: "owners_named s" and cutoff: "cutoff = retentionCutoff now NOTE_RETENTION_DAYS"
  shows "cleanup_stuck cutoff o1 s \<and> cleanupTrash e now o1 s = Inl Not_null_violation \<or>
    \<not> cleanup_stuck cutoff o1 s \<and> (\<exists>x. cleanupTrash e now o1 s = Inr x)"
proof -
  define rs where "rs = filter (expired_note cutoff o1) (s_notes s)"
  define bs where "bs = filter (expired_notebook cutoff o1) (s_notebooks s)"
  define s1 where "s1 = fold (cleanup_note e (to_iso now)) (map note_job rs) s"
  have tab: "wf_table note_key (s_notes s)" "wf_table notebook_key (s_notebooks s)"
    using wf by (simp_all add: wf_server_def wf_tables_def)
  have dn: "distinct (map note_key rs)" and db: "distinct (map notebook_key bs)"
    using tab unfolding rs_def bs_def by (simp_all add: wf_table_distinct wf_table_filter)
  note l1 = cleanup_notes_loop [OF s1_def dn]
  have ex: "\<forall>r \<in> set bs. get_notebook_row s1 (nbr_owner r) (nb_id (nbr_notebook r)) \<noteq> None"
    using wf_table_tget [OF tab(2)] by (auto simp: bs_def get_notebook_row_def l1(2) notebook_key_def)
  have kept: "s_notes s1 = filter (\<lambda>r. \<not> expired_note cutoff o1 r) (s_notes s)"
    unfolding l1(1) rs_def by (rule filter_key_remaining [OF tab(1)])
  have ref: "cleanup_stuck cutoff o1 s \<longleftrightarrow> (\<exists>r \<in> set bs. notebook_referenced s1 (nbr_owner r) (nb_id (nbr_notebook r)))"
    by (auto simp: cleanup_stuck_def notebook_referenced_def kept bs_def)
  have "cleanupTrash e now o1 s = and_then (fold_err (cleanup_notebook e (to_iso now)) (map notebook_job bs) s1)
      (\<lambda>s2. Inr (\<lparr>cr_deletedNotes = length rs, cr_deletedNotebooks = length bs, cr_cutoff = cutoff\<rparr>,
                      snd (pruneVersionSnapshots now o1 s2)))"
    by (simp add: cleanupTrash_def Let_def old_notes_named [OF named] old_notebooks_named [OF named]
        cutoff [symmetric] rs_def bs_def s1_def)
  then show ?thesis using cleanup_notebooks_result [OF db ex, of e "to_iso now"] unfolding ref by auto
qed

text \<open>
  C18. A successful cleanup deletes exactly the notes and notebooks whose retention has ended, leaves a
  tombstone one version above for each of them, reports how many there were, and keeps the
  invariant of the database.
\<close>

theorem cleanup_removes_expired:
  assumes wf: "wf_server s" and named: "owners_named s"
    and run: "cleanupTrash e now o1 s = Inr (resp, s')"
  shows "wf_server s' \<and> cr_cutoff resp = retentionCutoff now NOTE_RETENTION_DAYS \<and>
    s_notes s' = filter (\<lambda>r. \<not> expired_note (cr_cutoff resp) o1 r) (s_notes s) \<and>
    s_notebooks s' = filter (\<lambda>r. \<not> expired_notebook (cr_cutoff resp) o1 r) (s_notebooks s) \<and>
    (\<forall>r \<in> set (s_notes s). expired_note (cr_cutoff resp) o1 r \<longrightarrow>
       getEntityTombstone s' (nr_owner r) Note_entity (n_id (nr_note r)) = Some (note_gone (to_iso now) r)) \<and>
    (\<forall>r \<in> set (s_notebooks s). expired_notebook (cr_cutoff resp) o1 r \<longrightarrow>
       getEntityTombstone s' (nbr_owner r) Notebook_entity (nb_id (nbr_notebook r)) = Some (notebook_gone (to_iso now) r)) \<and>
    cr_deletedNotes resp = length (filter (expired_note (cr_cutoff resp) o1) (s_notes s)) \<and>
    cr_deletedNotebooks resp = length (filter (expired_notebook (cr_cutoff resp) o1) (s_notebooks s))"
proof -
  define rs where "rs = filter (expired_note (cr_cutoff resp) o1) (s_notes s)"
  define bs where "bs = filter (expired_notebook (cr_cutoff resp) o1) (s_notebooks s)"
  define s1 where "s1 = fold (cleanup_note e (to_iso now)) (map note_job rs) s"
  from cleanupTrash_Inr [OF run named wf] obtain s2
    where s2: "fold_err (cleanup_notebook e (to_iso now)) (map notebook_job bs) s1 = Inr s2"
      and s': "s' = snd (pruneVersionSnapshots now o1 s2)" and c: "cr_cutoff resp = retentionCutoff now NOTE_RETENTION_DAYS"
      and cnt: "cr_deletedNotes resp = length rs" "cr_deletedNotebooks resp = length bs"
    unfolding rs_def bs_def s1_def by metis
  have tab: "wf_table note_key (s_notes s)" "wf_table notebook_key (s_notebooks s)"
    using wf by (simp_all add: wf_server_def wf_tables_def)
  have dn: "distinct (map note_key rs)" and db: "distinct (map notebook_key bs)"
    using tab unfolding rs_def bs_def by (simp_all add: wf_table_distinct wf_table_filter)
  note l1 = cleanup_notes_loop [OF s1_def dn]
  note l2 = cleanup_notebooks_loop [OF s2 db]
  have "wf_server s'" unfolding s' by (subst wf_server_cong [of _ s2]) (auto simp: frame intro: l1(3) l2(3) wf)
  moreover have "getEntityTombstone s' = getEntityTombstone s2" unfolding s' by (rule lookups_cong) (simp add: frame)
  moreover have "s_notes s' = filter (\<lambda>r. \<not> expired_note (cr_cutoff resp) o1 r) (s_notes s)"
    unfolding s' frame l1(1) l2(2) rs_def by (rule filter_key_remaining [OF tab(1)])
  moreover have "s_notebooks s' = filter (\<lambda>r. \<not> expired_notebook (cr_cutoff resp) o1 r) (s_notebooks s)"
    unfolding s' frame l1(2) l2(1) bs_def by (rule filter_key_remaining [OF tab(2)])
  moreover have "getEntityTombstone s2 (nr_owner r) Note_entity (n_id (nr_note r)) = Some (note_gone (to_iso now) r)"
    if "r \<in> set (s_notes s)" "expired_note (cr_cutoff resp) o1 r" for r
    using l1(4) [of r] l2(5) [of Note_entity] that by (simp add: rs_def)
  moreover have "getEntityTombstone s2 (nbr_owner r) Notebook_entity (nb_id (nbr_notebook r)) = Some (notebook_gone (to_iso now) r)"
    if "r \<in> set (s_notebooks s)" "expired_notebook (cr_cutoff resp) o1 r" for r
    using l2(4) [of r] that by (simp add: bs_def)
  ultimately show ?thesis using c cnt unfolding rs_def bs_def by simp
qed

text \<open>A time at which the sample's retention periods are over, and a database with a trashed note.\<close>

definition trash_time :: int where
  "trash_time = 1750000000000"

definition trashed_row :: note_row where
  "trashed_row = \<lparr>nr_owner = ''ann'', nr_note = note_a\<lparr>n_trashedAt := Some ''2025-01-01T00:00:00.000Z''\<rparr>,
     nr_retention = Some ''2025-01-01T00:00:00.000Z''\<rparr>"

definition deleted_notebook_row :: notebook_row where
  "deleted_notebook_row = \<lparr>nbr_owner = ''ann'', nbr_notebook = notebook_a\<lparr>nb_deletedAt := Some ''2025-01-01T00:00:00.000Z''\<rparr>,
     nbr_retention = Some ''2025-01-01T00:00:00.000Z''\<rparr>"

definition trash_server :: server where
  "trash_server = sample_server\<lparr>s_notes := [trashed_row], s_notebooks := [deleted_notebook_row]\<rparr>"

lemma wf_trash_server: "wf_server trash_server"
  by (rule wf_check_sound) code_simp

lemma owners_named_trash: "owners_named trash_server"
  by code_simp

theorem cleanup_removes_expired_witness:
  "\<exists>resp s'. cleanupTrash sample_env trash_time None trash_server = Inr (resp, s') \<and> wf_server s' \<and>
     getEntityTombstone s' ''ann'' Note_entity ''n1'' = Some (note_gone (to_iso trash_time) trashed_row)"
proof -
  have "\<not> cleanup_stuck (retentionCutoff trash_time NOTE_RETENTION_DAYS) None trash_server" by code_simp
  then obtain resp s' where run: "cleanupTrash sample_env trash_time None trash_server = Inr (resp, s')"
    using cleanup_outcome [OF wf_trash_server owners_named_trash refl] by (metis surj_pair)
  note t = cleanup_removes_expired [OF wf_trash_server owners_named_trash run]
  have "trashed_row \<in> set (s_notes trash_server)" by code_simp
  moreover have "expired_note (retentionCutoff trash_time NOTE_RETENTION_DAYS) None trashed_row" by code_simp
  ultimately have "getEntityTombstone s' (nr_owner trashed_row) Note_entity (n_id (nr_note trashed_row)) =
      Some (note_gone (to_iso trash_time) trashed_row)" using t by metis
  moreover have "nr_owner trashed_row = ''ann''" "n_id (nr_note trashed_row) = ''n1''" by code_simp+
  ultimately show ?thesis using run t by metis
qed

text \<open>
  C19. The cleanup fails exactly when a notebook whose retention has ended is still the first notebook
  of a note that stays: the foreign key then refuses the delete, and nothing at all is cleaned.
\<close>

theorem cleanup_blocked_by_reference:
  assumes wf: "wf_server s" and named: "owners_named s" and cutoff: "cutoff = retentionCutoff now NOTE_RETENTION_DAYS"
  shows "cleanupTrash e now o1 s = Inl err \<longleftrightarrow>
    err = Not_null_violation \<and>
    (\<exists>nb \<in> set (s_notebooks s). \<exists>n \<in> set (s_notes s). expired_notebook cutoff o1 nb \<and> \<not> expired_note cutoff o1 n \<and>
       nr_owner n = nbr_owner nb \<and> n_notebookId (nr_note n) = Some (nb_id (nbr_notebook nb)))"
  using cleanup_outcome [OF assms, where e = e and ?o1.0 = o1] unfolding cleanup_stuck_def by auto

theorem cleanup_blocked_by_reference_witness:
  "cleanupTrash sample_env trash_time None (sample_server\<lparr>s_notebooks := [deleted_notebook_row]\<rparr>) = Inl Not_null_violation"
proof (subst cleanup_blocked_by_reference [OF _ _ refl])
  show "wf_server (sample_server\<lparr>s_notebooks := [deleted_notebook_row]\<rparr>)" by (rule wf_check_sound) code_simp
  show "owners_named (sample_server\<lparr>s_notebooks := [deleted_notebook_row]\<rparr>)" by code_simp
  show "Not_null_violation = Not_null_violation \<and>
    (\<exists>nb \<in> set (s_notebooks (sample_server\<lparr>s_notebooks := [deleted_notebook_row]\<rparr>)).
     \<exists>n \<in> set (s_notes (sample_server\<lparr>s_notebooks := [deleted_notebook_row]\<rparr>)).
       expired_notebook (retentionCutoff trash_time NOTE_RETENTION_DAYS) None nb \<and>
       \<not> expired_note (retentionCutoff trash_time NOTE_RETENTION_DAYS) None n \<and>
       nr_owner n = nbr_owner nb \<and> n_notebookId (nr_note n) = Some (nb_id (nbr_notebook nb)))" by code_simp
qed

section \<open>Compaction\<close>

text \<open>
  C20. Compacting the change log of an account (or of all) keeps exactly the newest entry of every
  record, so the last operation of a record, the current revision and the invariant stay, and a
  pull from any revision still sees the last change of every record; other accounts keep all.
\<close>

theorem compaction_keeps_latest:
  assumes wf: "wf_server s" and run: "compactEntityChanges o1 s = (k, s')"
  shows "wf_server s' \<and> latestEntityOperation s' = latestEntityOperation s \<and>
    (\<forall>owner. currentRevision s' owner = currentRevision s owner) \<and>
    (\<forall>c. c \<in> set (s_changes s') \<longleftrightarrow>
       c \<in> set (s_changes s) \<and> (owner_selected o1 (ch_owner c) \<longrightarrow> c = last_change s c)) \<and>
    (\<forall>owner ty i. owner_selected o1 owner \<longrightarrow> length (changes_of s' owner ty i) \<le> 1) \<and>
    k = int (length (s_changes s)) - int (length (s_changes s'))"
proof -
  have l: "wf_log s" using wf by (simp add: wf_server_def)
  have s': "s' = compacted o1 s" using run by (simp add: compactEntityChanges_def Let_def)
  let ?sel = "\<lambda>c. owner_selected o1 (ch_owner c)"
  have split: "length xs = length (filter ?sel xs) + length (filter (\<lambda>c. \<not> ?sel c) xs)" for xs
    by (rule sum_length_filter_compl [symmetric])
  have others: "filter (\<lambda>c. \<not> ?sel c) (s_changes s') = filter (\<lambda>c. \<not> ?sel c) (s_changes s)"
    unfolding s' compacted_eq [OF l] by (auto intro!: filter_cong)
  have less: "length (filter ?sel (s_changes s')) \<le> length (filter ?sel (s_changes s))"
  proof -
    have "filter ?sel (s_changes s') =
        filter (\<lambda>c. ?sel c \<longrightarrow> c = last_change s c) (filter ?sel (s_changes s))"
      unfolding s' compacted_eq [OF l] by (simp add: conj_commute)
    then show ?thesis by (simp only: length_filter_le)
  qed
  have "k = max 0 (int (length (filter ?sel (s_changes s))) - int (length (filter ?sel (s_changes s'))))"
    using run by (auto simp: compactEntityChanges_def Let_def)
  then have k: "k = int (length (s_changes s)) - int (length (s_changes s'))"
    using less split [of "s_changes s"] split [of "s_changes s'"] others by simp
  have "length (changes_of s' owner ty i) \<le> 1" if "owner_selected o1 owner" for owner ty i
    unfolding s' changes_of_compacted [OF l] using that by auto
  with k show ?thesis
    using wf_compacted [OF wf] latest_compacted [OF l] currentRevision_compacted [OF l]
    by (simp add: s') (simp add: compacted_eq [OF l])
qed

theorem compaction_keeps_latest_witness:
  "\<exists>k s'. compactEntityChanges (Some ''ann'') sample_server = (k, s') \<and> wf_server s' \<and>
     length (changes_of s' ''ann'' Note_entity ''n0'') \<le> 1"
proof -
  obtain k s' where run: "compactEntityChanges (Some ''ann'') sample_server = (k, s')" by fastforce
  moreover have "owner_selected (Some ''ann'') ''ann''" by code_simp
  ultimately show ?thesis using compaction_keeps_latest [OF wf_sample_server run] by metis
qed

section \<open>Devices\<close>

text \<open>
  Pruning removes exactly the devices that no note, notebook, session or trust record names (the
  test \<open>deleteDevicesByIds\<close> makes row by row) and never the mirror's own device; each removal is
  logged and the invariant is kept.
\<close>

lemma prune_removes_unused_devices:
  assumes wf: "wf_server s" and run: "pruneUnreferencedDevices e s = (k, s')"
  shows "wf_server s' \<and> k = length (s_devices s) - length (s_devices s') \<and>
    (\<forall>d. d \<in> set (s_devices s') \<longleftrightarrow> d \<in> set (s_devices s) \<and>
       (d_id (dr_device d) = MIRROR_DEVICE_ID \<or> deviceIsReferenced s (d_id (dr_device d)) (dr_owner d))) \<and>
    (\<forall>d \<in> set (s_devices s). d \<notin> set (s_devices s') \<longrightarrow>
       latestEntityOperation s' (dr_owner d) Device_entity (d_id (dr_device d)) = Some Delete_op)"
proof -
  let ?rows = "filter (unreferenced_device s) (s_devices s)"
  have tab: "wf_table device_key (s_devices s)" using wf by (simp add: wf_server_def wf_tables_def)
  have s': "s' = fold (\<lambda>d s. recordEntityChange e Device_entity (d_id (dr_device d)) Delete_op None (dr_owner d)
                 (delete_device_row (dr_owner d) (d_id (dr_device d)) s)) ?rows s" and k: "k = length ?rows"
    using run by (simp_all add: pruneUnreferencedDevices_def Let_def)
  note l = prune_devices_loop [where rows = ?rows and s = s and e = e, folded s']
  have dev: "s_devices s' = filter (\<lambda>d. \<not> unreferenced_device s d) (s_devices s)"
    using l filter_key_remaining [OF tab, of "unreferenced_device s"] by simp
  have ref: "deviceIsReferenced s i o1 \<longleftrightarrow>
     (\<exists>r \<in> set (s_notes s). nr_owner r = o1 \<and> n_deviceId (nr_note r) = i) \<or>
     (\<exists>r \<in> set (s_notebooks s). nbr_owner r = o1 \<and> nb_deviceId (nbr_notebook r) = i) \<or>
     (\<exists>r \<in> set (s_sessions s). se_username r = o1 \<and> se_deviceId r = Some i) \<or>
     (\<exists>r \<in> set (s_trusted s). tr_username r = o1 \<and> tr_deviceId r = i)" for i o1
    unfolding deviceIsReferenced_def by (auto simp: filter_empty_conv)
  have un: "unreferenced_device s d \<longleftrightarrow>
      \<not> (d_id (dr_device d) = MIRROR_DEVICE_ID \<or> deviceIsReferenced s (d_id (dr_device d)) (dr_owner d))" for d
    unfolding unreferenced_device_def ref by blast
  have "length (s_devices s) = length ?rows + length (s_devices s')"
    unfolding dev by (rule sum_length_filter_compl [symmetric])
  moreover have "latestEntityOperation s' (dr_owner d) Device_entity (d_id (dr_device d)) = Some Delete_op"
    if "d \<in> set (s_devices s)" "d \<notin> set (s_devices s')" for d
  proof -
    have "(dr_owner d, d_id (dr_device d)) \<in> device_key ` set ?rows"
      using that by (auto simp: dev device_key_def)
    with l show ?thesis by simp
  qed
  moreover have "d \<in> set (s_devices s') \<longleftrightarrow> d \<in> set (s_devices s) \<and>
       (d_id (dr_device d) = MIRROR_DEVICE_ID \<or> deviceIsReferenced s (d_id (dr_device d)) (dr_owner d))" for d
    by (simp add: dev un)
  moreover have "wf_server s'" using l wf by simp
  ultimately show ?thesis using k by auto
qed

lemma prune_removes_unused_devices_witness:
  "\<exists>k s'. pruneUnreferencedDevices sample_env (sample_server\<lparr>s_notes := [], s_notebooks := [], s_changes := [], s_tombstones := []\<rparr>) = (k, s') \<and> wf_server s'"
proof -
  have "wf_server (sample_server\<lparr>s_notes := [], s_notebooks := [], s_changes := [], s_tombstones := []\<rparr>)"
    by (rule wf_check_sound) code_simp
  moreover obtain k s' where
    "pruneUnreferencedDevices sample_env (sample_server\<lparr>s_notes := [], s_notebooks := [], s_changes := [], s_tombstones := []\<rparr>) = (k, s')"
    by fastforce
  ultimately show ?thesis using prune_removes_unused_devices by metis
qed

end
