(* ===== verification/Bytes.thy ===== *)
theory Bytes
  imports Json "HOL-Library.Word"
begin

text \<open>
  Bytes and their text forms: UTF-8 (\<open>TextEncoder\<close>, \<open>TextDecoder\<close>) on the characters of the model,
  and \<open>apps/web/src/lib/client/encryption-encoding.ts\<close>, the unpadded URL-safe Base64 of keys,
  initialisation vectors, ciphertexts and hashes. \<open>btoa\<close> and \<open>atob\<close> follow the forgiving Base64 of
  the platform: \<open>atob\<close> throws (\<open>None\<close>) on a bad length or character and ignores spare bits.
\<close>

type_synonym byte = "8 word"

section \<open>UTF-8\<close>

definition encode_char :: "char \<Rightarrow> byte list" where
  "encode_char c =
     (let n = (of_char c :: nat)
      in if n < 128 then [of_nat n] else [of_nat (192 + n div 64), of_nat (128 + n mod 64)])"

definition utf8_encode :: "string \<Rightarrow> byte list" where
  "utf8_encode s = concat (map encode_char s)"

text \<open>
  The decoder of the byte sequences \<open>utf8_encode\<close> produces. A byte outside such a sequence stands
  for a code point above U+00FF or for the replacement character; \<open>None\<close> marks that the text is
  outside the model.
\<close>

fun utf8_decode :: "byte list \<Rightarrow> string option" where
  "utf8_decode [] = Some []"
| "utf8_decode (b # bs) =
     (if unat b < 128 then map_option (Cons (char_of (unat b))) (utf8_decode bs)
      else if unat b = 194 \<or> unat b = 195
      then (case bs of
              [] \<Rightarrow> None
            | c # cs \<Rightarrow>
                if 128 \<le> unat c \<and> unat c < 192
                then map_option (Cons (char_of ((unat b - 192) * 64 + (unat c - 128)))) (utf8_decode cs)
                else None)
      else None)"

section \<open>Base64\<close>

definition b64_char :: "nat \<Rightarrow> char" where
  "b64_char n =
     (if n < 26 then char_of (65 + n)
      else if n < 52 then char_of (71 + n)
      else if n < 62 then char_of (n - 4)
      else if n = 62 then CHR ''+'' else CHR ''/'')"

definition b64_index :: "char \<Rightarrow> nat option" where
  "b64_index c =
     (let n = (of_char c :: nat)
      in if 65 \<le> n \<and> n \<le> 90 then Some (n - 65)
         else if 97 \<le> n \<and> n \<le> 122 then Some (n - 71)
         else if 48 \<le> n \<and> n \<le> 57 then Some (n + 4)
         else if c = CHR ''+'' then Some 62
         else if c = CHR ''/'' then Some 63
         else None)"

fun btoa :: "byte list \<Rightarrow> string" where
  "btoa [] = []"
| "btoa [a] = [b64_char (unat a div 4), b64_char (unat a mod 4 * 16), CHR ''='', CHR ''='']"
| "btoa [a, b] =
     [b64_char (unat a div 4), b64_char (unat a mod 4 * 16 + unat b div 16),
      b64_char (unat b mod 16 * 4), CHR ''='']"
| "btoa (a # b # c # rest) =
     [b64_char (unat a div 4), b64_char (unat a mod 4 * 16 + unat b div 16),
      b64_char (unat b mod 16 * 4 + unat c div 64), b64_char (unat c mod 64)] @ btoa rest"

fun decode_sextets :: "nat list \<Rightarrow> byte list option" where
  "decode_sextets [] = Some []"
| "decode_sextets [w] = None"
| "decode_sextets [w, x] = Some [of_nat (w * 4 + x div 16)]"
| "decode_sextets [w, x, y] = Some [of_nat (w * 4 + x div 16), of_nat (x mod 16 * 16 + y div 4)]"
| "decode_sextets (w # x # y # z # rest) =
     map_option (\<lambda>bs. of_nat (w * 4 + x div 16) # of_nat (x mod 16 * 16 + y div 4) # of_nat (y mod 4 * 64 + z) # bs)
       (decode_sextets rest)"

fun b64_indices :: "string \<Rightarrow> nat list option" where
  "b64_indices [] = Some []"
| "b64_indices (c # cs) =
     (case b64_index c of None \<Rightarrow> None | Some n \<Rightarrow> map_option (Cons n) (b64_indices cs))"

definition ascii_space :: "char \<Rightarrow> bool" where
  "ascii_space c \<longleftrightarrow> c \<in> {CHR 0x09, CHR 0x0A, CHR 0x0C, CHR 0x0D, CHR 0x20}"

definition strip_padding :: "string \<Rightarrow> string" where
  "strip_padding s =
     (if length s mod 4 = 0 \<and> s \<noteq> [] \<and> last s = CHR ''=''
      then (let t = butlast s in if t \<noteq> [] \<and> last t = CHR ''='' then butlast t else t)
      else s)"

definition atob :: "string \<Rightarrow> byte list option" where
  "atob s =
     (let t = strip_padding (filter (\<lambda>c. \<not> ascii_space c) s)
      in case b64_indices t of None \<Rightarrow> None | Some ns \<Rightarrow> decode_sextets ns)"

section \<open>\<open>encryption-encoding.ts\<close>\<close>

definition replace_char :: "char \<Rightarrow> char \<Rightarrow> string \<Rightarrow> string" where
  "replace_char a b s = map (\<lambda>c. if c = a then b else c) s"

definition base64UrlEncode :: "byte list \<Rightarrow> string" where
  "base64UrlEncode bytes =
     filter (\<lambda>c. c \<noteq> CHR ''='') (replace_char (CHR ''/'') (CHR ''_'') (replace_char (CHR ''+'') (CHR ''-'') (btoa bytes)))"

definition padEnd :: "nat \<Rightarrow> char \<Rightarrow> string \<Rightarrow> string" where
  "padEnd n c s = s @ replicate (n - length s) c"

definition base64UrlDecode :: "string \<Rightarrow> byte list option" where
  "base64UrlDecode v =
     (let base64 = replace_char (CHR ''_'') (CHR ''/'') (replace_char (CHR ''-'') (CHR ''+'') v)
      in atob (padEnd ((length base64 + 3) div 4 * 4) (CHR ''='') base64))"

section \<open>UTF-8 round trip\<close>

lemma of_char_less_256: "(of_char c :: nat) < 256"
  by simp

lemma unat_byte: "n < 256 \<Longrightarrow> unat (of_nat n :: byte) = n"
  by (simp add: unat_of_nat)

lemma unat_byte_less: "unat (b :: byte) < 256"
  using unsigned_less [of b, where ?'a = nat] by simp

lemma utf8_decode_char: "utf8_decode (encode_char c @ bs) = map_option (Cons c) (utf8_decode bs)"
proof -
  let ?n = "of_char c :: nat"
  have n: "?n < 256" by (rule of_char_less_256)
  show ?thesis
  proof (cases "?n < 128")
    case True
    then show ?thesis by (simp add: encode_char_def Let_def unat_byte)
  next
    case False
    define q r where "q = ?n div 64" and "r = ?n mod 64"
    have nq: "?n = q * 64 + r" "r < 64" by (simp_all add: q_def r_def)
    with n False have q: "q = 2 \<or> q = 3" by linarith
    have a: "unat (of_nat (192 + q) :: byte) = 192 + q" by (rule unat_byte) (use q in auto)
    have b: "unat (of_nat (128 + r) :: byte) = 128 + r" by (rule unat_byte) (use nq in simp)
    have eq: "encode_char c @ bs = of_nat (192 + q) # of_nat (128 + r) # bs"
      using False by (simp only: encode_char_def Let_def if_False append.simps q_def r_def)
    have c: "char_of (q * 64 + r) = c" by (simp add: nq(1) [symmetric])
    obtain w1 w2 :: byte where w: "unat w1 = 192 + q" "unat w2 = 128 + r" "encode_char c @ bs = w1 # w2 # bs"
      using a b eq by blast
    show ?thesis using q nq(2) c by (auto simp: w)
  qed
qed

theorem utf8_round_trip [simp]: "utf8_decode (utf8_encode s) = Some s"
  by (induction s) (simp_all add: utf8_encode_def utf8_decode_char)

section \<open>Base64 round trip\<close>

lemma of_char_b64: "n < 64 \<Longrightarrow> (of_char (b64_char n) :: nat) =
    (if n < 26 then 65 + n else if n < 52 then 71 + n else if n < 62 then n - 4 else if n = 62 then 43 else 47)"
  by (simp add: b64_char_def)

lemma b64_index_char: "n < 64 \<Longrightarrow> b64_index (b64_char n) = Some n"
proof -
  assume n: "n < 64"
  then consider "n < 26" | "26 \<le> n" "n < 52" | "52 \<le> n" "n < 62" | "n = 62" | "n = 63" by linarith
  then show ?thesis
  proof cases
    case 4
    then show ?thesis by (simp add: b64_index_def b64_char_def)
  next
    case 5
    then show ?thesis by (simp add: b64_index_def b64_char_def)
  next
    case 3
    then obtain m where m: "n = m + 4" "48 \<le> m" "m \<le> 57" using that [of "n - 4"] by linarith
    have "(of_char (b64_char n) :: nat) = m" using of_char_b64 [OF n] 3 m(1) by simp
    then show ?thesis using m by (simp add: b64_index_def Let_def)
  qed (simp_all add: b64_index_def of_char_b64 [OF n] Let_def)
qed

lemma b64_char_ne:
  assumes "n < 64"
  shows "b64_char n \<noteq> CHR ''='' \<and> b64_char n \<noteq> CHR ''-'' \<and> b64_char n \<noteq> CHR ''_'' \<and> \<not> ascii_space (b64_char n)"
proof -
  have "b64_char n \<noteq> c" if "(of_char c :: nat) \<in> {61, 45, 95, 9, 10, 12, 13, 32}" for c
    using that of_char_b64 [OF assms] assms by (auto split: if_splits)
  then show ?thesis by (simp add: ascii_space_def)
qed

section \<open>Digits of three bytes\<close>

lemma div_bound: "b < 256 \<Longrightarrow> b div 16 < 16" "b < 256 \<Longrightarrow> b div 64 < 4" "b < 256 \<Longrightarrow> b div 4 < 64" for b :: nat
  by (simp_all add: less_mult_imp_div_less)

lemma two_digits: "r < d \<Longrightarrow> (k * d + r) div d = k \<and> (k * d + r) mod d = r" for k :: nat
  by simp

lemma three_bytes:
  assumes "b < 256" "c < (256 :: nat)"
  shows "a div 4 * 4 + (a mod 4 * 16 + b div 16) div 16 = a"
    "(a mod 4 * 16 + b div 16) mod 16 * 16 + (b mod 16 * 4 + c div 64) div 4 = b"
    "(b mod 16 * 4 + c div 64) mod 4 * 64 + c mod 64 = c"
  using two_digits [OF div_bound(1) [OF assms(1)], of "a mod 4"] two_digits [OF div_bound(2) [OF assms(2)], of "b mod 16"]
  by simp_all

text \<open>The sextets of a byte sequence, the digits of its Base64 form.\<close>

fun sextets :: "byte list \<Rightarrow> nat list" where
  "sextets [] = []"
| "sextets [a] = [unat a div 4, unat a mod 4 * 16]"
| "sextets [a, b] = [unat a div 4, unat a mod 4 * 16 + unat b div 16, unat b mod 16 * 4]"
| "sextets (a # b # c # rest) =
     [unat a div 4, unat a mod 4 * 16 + unat b div 16, unat b mod 16 * 4 + unat c div 64, unat c mod 64] @ sextets rest"

lemma sextet_bounds:
  "y < 16 \<Longrightarrow> x mod 4 * 16 + y < 64" "z < 4 \<Longrightarrow> x mod 16 * 4 + z < (64 :: nat)"
proof -
  have "x mod 4 < 4" "x mod 16 < 16" by simp_all
  then show "y < 16 \<Longrightarrow> x mod 4 * 16 + y < 64" "z < 4 \<Longrightarrow> x mod 16 * 4 + z < (64 :: nat)" by linarith+
qed

lemma sextets_less: "n \<in> set (sextets bs) \<Longrightarrow> n < 64"
  by (induction bs rule: sextets.induct)
    (auto intro!: sextet_bounds div_bound unat_byte_less sextet_bounds(1) [where y = 0, simplified] sextet_bounds(2) [where z = 0, simplified])

lemma sextets_round_trip: "decode_sextets (sextets bs) = Some bs"
proof (induction bs rule: sextets.induct)
  case 1 then show ?case by simp
next
  case (2 a)
  show ?case using three_bytes(1) [of 0 0 "unat a"] by (simp del: of_nat_add of_nat_mult)
next
  case (3 a b)
  show ?case using three_bytes(1,2) [OF unat_byte_less [of b], where c = 0 and a = "unat a"] by (simp del: of_nat_add of_nat_mult)
next
  case (4 a b c rest)
  show ?case using 4 by (simp only: sextets.simps append.simps decode_sextets.simps option.map
      three_bytes [OF unat_byte_less unat_byte_less] of_nat_unat ucast_id)
qed

lemma b64_indices_map: "(\<And>n. n \<in> set ns \<Longrightarrow> n < 64) \<Longrightarrow> b64_indices (map b64_char ns) = Some ns"
  by (induction ns) (simp_all add: b64_index_char)

definition url_char :: "nat \<Rightarrow> char" where
  "url_char n = (if b64_char n = CHR ''+'' then CHR ''-'' else if b64_char n = CHR ''/'' then CHR ''_'' else b64_char n)"

lemma base64UrlEncode_sextets: "base64UrlEncode bs = map url_char (sextets bs)"
proof -
  have u: "n < 64 \<Longrightarrow> url_char n \<noteq> CHR ''=''" for n using b64_char_ne [of n] by (auto simp: url_char_def)
  have r: "(if (if c = CHR ''+'' then CHR ''-'' else c) = CHR ''/'' then CHR ''_'' else if c = CHR ''+'' then CHR ''-'' else c) =
     (if c = CHR ''+'' then CHR ''-'' else if c = CHR ''/'' then CHR ''_'' else c)" for c :: char by auto
  have main: "filter (\<lambda>c. c \<noteq> CHR ''='') (map (\<lambda>c. if c = CHR ''+'' then CHR ''-'' else if c = CHR ''/'' then CHR ''_'' else c) (btoa bs)) =
     map url_char (sextets bs)"
  proof (induction bs rule: sextets.induct)
    case 1 then show ?case by simp
  next
    case (2 a)
    have "url_char (unat a div 4) \<noteq> CHR ''=''" "url_char (unat a mod 4 * 16) \<noteq> CHR ''=''"
      using sextets_less [of _ "[a]"] by (auto intro!: u)
    then show ?case by (simp add: url_char_def [symmetric])
  next
    case (3 a b)
    have "\<And>n. n \<in> set (sextets [a, b]) \<Longrightarrow> url_char n \<noteq> CHR ''=''" using sextets_less by (intro u)
    then show ?case by (simp add: url_char_def [symmetric])
  next
    case (4 a b c rest)
    have "\<And>n. n \<in> set (sextets (a # b # c # rest)) \<Longrightarrow> url_char n \<noteq> CHR ''=''" using sextets_less by (intro u)
    with 4 show ?case by (simp add: url_char_def [symmetric])
  qed
  show ?thesis unfolding base64UrlEncode_def replace_char_def map_map comp_def r using main by simp
qed

lemma sextets_length: "length (sextets bs) mod 4 \<noteq> 1"
  by (induction bs rule: sextets.induct) (auto simp: mod_Suc)

lemma b64_unpad:
  assumes "\<And>c. c \<in> set s \<Longrightarrow> c \<noteq> CHR ''=''" and "length s mod 4 \<noteq> 1"
  shows "strip_padding (padEnd ((length s + 3) div 4 * 4) (CHR ''='') s) = s"
proof -
  define q where "q = length s div 4"
  have nl: "s \<noteq> [] \<Longrightarrow> last s \<noteq> CHR ''=''" using assms(1) by auto
  have "length s mod 4 < 4" by simp
  with assms(2) have "length s mod 4 = 0 \<or> length s mod 4 = 2 \<or> length s mod 4 = 3" by linarith
  then have "length s = q * 4 \<or> length s = q * 4 + 2 \<or> length s = q * 4 + 3"
    unfolding q_def by (metis add.right_neutral div_mult_mod_eq)
  then show ?thesis
  proof (elim disjE)
    assume l: "length s = q * 4"
    then have "(length s + 3) div 4 * 4 - length s = 0" by simp
    then show ?thesis using nl by (auto simp: padEnd_def strip_padding_def)
  next
    assume l: "length s = q * 4 + 2"
    then have "(length s + 3) div 4 = q + 1" by simp
    then have "padEnd ((length s + 3) div 4 * 4) (CHR ''='') s = s @ [CHR ''='', CHR ''='']"
      by (simp add: padEnd_def l numeral_2_eq_2)
    moreover have "(length s + 2) mod 4 = 0" by (simp add: l)
    ultimately show ?thesis using nl by (simp add: strip_padding_def butlast_append Let_def)
  next
    assume l: "length s = q * 4 + 3"
    then have "(length s + 3) div 4 = q + 1" by simp
    then have "padEnd ((length s + 3) div 4 * 4) (CHR ''='') s = s @ [CHR ''='']"
      by (simp add: padEnd_def l)
    moreover have "(length s + 1) mod 4 = 0" by (simp add: l)
    ultimately show ?thesis using nl l by (auto simp add: strip_padding_def butlast_append Let_def)
  qed
qed

theorem base64_round_trip [simp]: "base64UrlDecode (base64UrlEncode bs) = Some bs"
proof -
  have norm: "map (\<lambda>c. if c = CHR ''_'' then CHR ''/'' else c) (map (\<lambda>c. if c = CHR ''-'' then CHR ''+'' else c) (map url_char (sextets bs)))
      = map b64_char (sextets bs)"
    using b64_char_ne sextets_less by (auto simp: url_char_def)
  have ne: "c \<noteq> CHR ''='' \<and> \<not> ascii_space c" if "c \<in> set (map b64_char (sextets bs))" for c
    using that b64_char_ne sextets_less by auto
  have sp: "filter (\<lambda>c. \<not> ascii_space c) (padEnd n (CHR ''='') (map b64_char (sextets bs))) = padEnd n (CHR ''='') (map b64_char (sextets bs))" for n
    by (rule filter_True) (use ne in \<open>auto simp: padEnd_def ascii_space_def\<close>)
  have st: "strip_padding (padEnd ((length (map b64_char (sextets bs)) + 3) div 4 * 4) (CHR ''='') (map b64_char (sextets bs))) = map b64_char (sextets bs)"
    by (rule b64_unpad) (use ne sextets_length [of bs] in auto)
  show ?thesis unfolding base64UrlDecode_def replace_char_def base64UrlEncode_sextets norm Let_def atob_def sp st
    by (simp add: b64_indices_map sextets_less sextets_round_trip)
qed

lemma base64UrlEncode_chars: "c \<in> set (base64UrlEncode bs) \<Longrightarrow> c \<noteq> CHR '':''"
proof -
  have "b64_char n \<noteq> CHR '':''" if "n < 64" for n
  proof
    assume "b64_char n = CHR '':''"
    then have "(of_char (b64_char n) :: nat) = 58" by simp
    with of_char_b64 [OF that] that show False by (auto split: if_splits)
  qed
  then show "c \<in> set (base64UrlEncode bs) \<Longrightarrow> c \<noteq> CHR '':''"
    using sextets_less by (fastforce simp: base64UrlEncode_sextets url_char_def split: if_splits)
qed

lemma base64UrlEncode_Nil_iff: "base64UrlEncode bs = [] \<longleftrightarrow> bs = []"
  by (simp add: base64UrlEncode_sextets) (cases bs rule: sextets.cases; simp)

section \<open>The Base64url alphabet\<close>

definition base64url_char :: "char \<Rightarrow> bool" where
  "base64url_char c \<longleftrightarrow>
     (let n = (of_char c :: nat)
      in (65 \<le> n \<and> n \<le> 90) \<or> (97 \<le> n \<and> n \<le> 122) \<or> (48 \<le> n \<and> n \<le> 57) \<or> c = CHR ''_'' \<or> c = CHR ''-'')"

text \<open>The regular expression \<open>/^[A-Za-z0-9_-]+$/\<close>.\<close>

definition BASE64URL_PATTERN :: "string \<Rightarrow> bool" where
  "BASE64URL_PATTERN s \<longleftrightarrow> s \<noteq> [] \<and> (\<forall>c \<in> set s. base64url_char c)"

lemma base64url_text: "bs \<noteq> [] \<Longrightarrow> BASE64URL_PATTERN (base64UrlEncode bs)"
proof -
  assume ne: "bs \<noteq> []"
  have "base64url_char (url_char n)" if n: "n < 64" for n
  proof (cases "n < 62")
    case True
    then have "b64_char n \<noteq> CHR ''+'' \<and> b64_char n \<noteq> CHR ''/''" using of_char_b64 [OF n] by (auto split: if_splits)
    then show ?thesis using of_char_b64 [OF n] True by (auto simp: url_char_def base64url_char_def Let_def)
  next
    case False
    then have "n = 62 \<or> n = 63" using n by linarith
    then show ?thesis by (auto simp: url_char_def b64_char_def base64url_char_def)
  qed
  then show ?thesis using ne base64UrlEncode_Nil_iff [of bs]
    by (auto simp: BASE64URL_PATTERN_def base64UrlEncode_sextets dest: sextets_less)
qed

lemma base64UrlEncode_length: "length (base64UrlEncode bs) = (4 * length bs + 2) div 3"
proof -
  have "length (sextets bs) = (4 * length bs + 2) div 3" by (induction bs rule: sextets.induct) auto
  then show ?thesis by (simp add: base64UrlEncode_sextets)
qed

end
