(* ===== verification/JsonValue.thy ===== *)
theory JsonValue
  imports Json
begin

text \<open>
  JSON values with \<open>JSON.stringify\<close> and \<open>JSON.parse\<close>, for the texts the program stores and reads
  back: key rings, leases, request bodies. Numbers are integers; a number with a fraction or an
  exponent, and an escape above U+00FF, is outside the model and parses to \<open>None\<close> like malformed
  text (for which the code catches the exception).
\<close>

datatype js_value =
    JNull
  | JBool bool
  | JNum int
  | JStr string
  | JArr "js_value list"
  | JObj "(string \<times> js_value) list"

section \<open>Printing\<close>

fun stringify :: "js_value \<Rightarrow> string" where
  "stringify JNull = ''null''"
| "stringify (JBool b) = json_bool b"
| "stringify (JNum i) = int_to_string i"
| "stringify (JStr s) = json_string s"
| "stringify (JArr xs) = json_array (map stringify xs)"
| "stringify (JObj kvs) = json_object (map (\<lambda>(k, v). (k, stringify v)) kvs)"

section \<open>Parsing\<close>

definition json_space :: "char \<Rightarrow> bool" where
  "json_space c \<longleftrightarrow> c \<in> {CHR 0x09, CHR 0x0A, CHR 0x0D, CHR 0x20}"

definition skip_ws :: "string \<Rightarrow> string" where
  "skip_ws = dropWhile json_space"

definition is_digit :: "char \<Rightarrow> bool" where
  "is_digit c \<longleftrightarrow> (let n = (of_char c :: nat) in 48 \<le> n \<and> n \<le> 57)"

definition digit_value :: "char \<Rightarrow> nat" where
  "digit_value c = of_char c - 48"

definition nat_of_digits :: "string \<Rightarrow> nat" where
  "nat_of_digits s = foldl (\<lambda>n c. 10 * n + digit_value c) 0 s"

definition hex_value :: "char \<Rightarrow> nat option" where
  "hex_value c =
     (let n = (of_char c :: nat)
      in if 48 \<le> n \<and> n \<le> 57 then Some (n - 48)
         else if 97 \<le> n \<and> n \<le> 102 then Some (n - 87)
         else if 65 \<le> n \<and> n \<le> 70 then Some (n - 55)
         else None)"

definition parse_escape :: "char \<Rightarrow> char option" where
  "parse_escape e =
     (if e = CHR 0x22 \<or> e = CHR 0x5C \<or> e = CHR ''/'' then Some e
      else if e = CHR ''b'' then Some (CHR 0x08)
      else if e = CHR ''t'' then Some (CHR 0x09)
      else if e = CHR ''n'' then Some (CHR 0x0A)
      else if e = CHR ''f'' then Some (CHR 0x0C)
      else if e = CHR ''r'' then Some (CHR 0x0D)
      else None)"

definition parse_unicode :: "char \<Rightarrow> char \<Rightarrow> char \<Rightarrow> char \<Rightarrow> char option" where
  "parse_unicode a b c d =
     (if hex_value a = Some 0 \<and> hex_value b = Some 0
      then (case (hex_value c, hex_value d) of (Some x, Some y) \<Rightarrow> Some (char_of (16 * x + y)) | _ \<Rightarrow> None)
      else None)"

text \<open>The characters up to the closing quote.\<close>

function parse_string :: "string \<Rightarrow> (string \<times> string) option" where
  "parse_string s =
     (case s of
        [] \<Rightarrow> None
      | c # r \<Rightarrow>
          if c = CHR 0x22 then Some ([], r)
          else if c = CHR 0x5C
          then (case r of
                  [] \<Rightarrow> None
                | e # r1 \<Rightarrow>
                    if e = CHR ''u''
                    then (case r1 of
                            h1 # h2 # h3 # h4 # r2 \<Rightarrow>
                              (case parse_unicode h1 h2 h3 h4 of
                                 None \<Rightarrow> None
                               | Some x \<Rightarrow> map_option (apfst (Cons x)) (parse_string r2))
                          | _ \<Rightarrow> None)
                    else (case parse_escape e of
                            None \<Rightarrow> None
                          | Some x \<Rightarrow> map_option (apfst (Cons x)) (parse_string r1)))
          else if (of_char c :: nat) < 32 then None
          else map_option (apfst (Cons c)) (parse_string r))"
  by pat_completeness auto
termination
  by (relation "measure length") auto

declare parse_string.simps [simp del]

definition parse_number :: "string \<Rightarrow> (js_value \<times> string) option" where
  "parse_number s =
     (let (neg, t) = (case s of c # r \<Rightarrow> if c = CHR ''-'' then (True, r) else (False, s) | [] \<Rightarrow> (False, s));
          ds = takeWhile is_digit t;
          r = dropWhile is_digit t
      in if ds = [] \<or> (hd ds = CHR ''0'' \<and> length ds > 1) then None
         else if r \<noteq> [] \<and> hd r \<in> {CHR ''.'', CHR ''e'', CHR ''E''} then None
         else Some (JNum ((if neg then - 1 else 1) * int (nat_of_digits ds)), r))"

definition expect :: "string \<Rightarrow> js_value \<Rightarrow> string \<Rightarrow> (js_value \<times> string) option" where
  "expect w v s = (if take (length w) s = w then Some (v, drop (length w) s) else None)"

text \<open>An object keeps the position of the first and the value of the last of two equal keys.\<close>

definition object_of :: "(string \<times> js_value) list \<Rightarrow> js_value" where
  "object_of kvs = JObj (fold (\<lambda>(k, v) m. map_set k v m) kvs [])"

text \<open>The fuel bounds the nesting and the number of elements: two units for every character are enough.\<close>

fun parse_value :: "nat \<Rightarrow> string \<Rightarrow> (js_value \<times> string) option"
and parse_elements :: "nat \<Rightarrow> string \<Rightarrow> (js_value list \<times> string) option"
and parse_members :: "nat \<Rightarrow> string \<Rightarrow> ((string \<times> js_value) list \<times> string) option" where
  "parse_value 0 s = None"
| "parse_value (Suc k) s =
     (case skip_ws s of
        [] \<Rightarrow> None
      | c # r \<Rightarrow>
          if c = CHR 0x22 then map_option (apfst JStr) (parse_string r)
          else if c = CHR ''[''
          then (case skip_ws r of
                  [] \<Rightarrow> None
                | d # r1 \<Rightarrow> if d = CHR '']'' then Some (JArr [], r1) else map_option (apfst JArr) (parse_elements k r))
          else if c = CHR ''{''
          then (case skip_ws r of
                  [] \<Rightarrow> None
                | d # r1 \<Rightarrow> if d = CHR ''}'' then Some (JObj [], r1) else map_option (apfst object_of) (parse_members k r))
          else if c = CHR ''n'' then expect ''null'' JNull (c # r)
          else if c = CHR ''t'' then expect ''true'' (JBool True) (c # r)
          else if c = CHR ''f'' then expect ''false'' (JBool False) (c # r)
          else parse_number (c # r))"
| "parse_elements 0 s = None"
| "parse_elements (Suc k) s =
     (case parse_value k s of
        None \<Rightarrow> None
      | Some (v, r) \<Rightarrow>
          (case skip_ws r of
             [] \<Rightarrow> None
           | c # r1 \<Rightarrow>
               if c = CHR '','' then map_option (apfst (Cons v)) (parse_elements k r1)
               else if c = CHR '']'' then Some ([v], r1)
               else None))"
| "parse_members 0 s = None"
| "parse_members (Suc k) s =
     (case skip_ws s of
        [] \<Rightarrow> None
      | q # r \<Rightarrow>
          if q \<noteq> CHR 0x22 then None
          else (case parse_string r of
                  None \<Rightarrow> None
                | Some (key, r1) \<Rightarrow>
                    (case skip_ws r1 of
                       [] \<Rightarrow> None
                     | c # r2 \<Rightarrow>
                         if c \<noteq> CHR '':'' then None
                         else (case parse_value k r2 of
                                 None \<Rightarrow> None
                               | Some (v, r3) \<Rightarrow>
                                   (case skip_ws r3 of
                                      [] \<Rightarrow> None
                                    | d # r4 \<Rightarrow>
                                        if d = CHR '','' then map_option (apfst (Cons (key, v))) (parse_members k r4)
                                        else if d = CHR ''}'' then Some ([(key, v)], r4)
                                        else None)))))"

definition parse_json :: "string \<Rightarrow> js_value option" where
  "parse_json s =
     (case parse_value (2 * length s + 1) s of
        None \<Rightarrow> None
      | Some (v, r) \<Rightarrow> if skip_ws r = [] then Some v else None)"

section \<open>Reading properties\<close>

text \<open>\<open>v.k\<close>: \<open>None\<close> for a missing property and for a value without properties.\<close>

fun get_prop :: "js_value \<Rightarrow> string \<Rightarrow> js_value option" where
  "get_prop (JObj kvs) k = map_of kvs k"
| "get_prop _ k = None"

section \<open>What is printed is read back\<close>

fun json_ok :: "js_value \<Rightarrow> bool" where
  "json_ok (JArr xs) \<longleftrightarrow> (\<forall>x \<in> set xs. json_ok x)"
| "json_ok (JObj kvs) \<longleftrightarrow> distinct (map fst kvs) \<and> (\<forall>kv \<in> set kvs. json_ok (snd kv))"
| "json_ok v \<longleftrightarrow> True"

lemma hex_value_char: "n < 16 \<Longrightarrow> hex_value (hex_char n) = Some n"
  by (auto simp: hex_value_def hex_char_def Let_def)

lemma parse_string_plain:
  assumes "c \<noteq> CHR 0x22" "c \<noteq> CHR 0x5C" "\<not> (of_char c :: nat) < 32"
  shows "parse_string (c # r) = map_option (apfst (Cons c)) (parse_string r)"
  using assms by (subst parse_string.simps) simp

lemma parse_string_escaped:
  "e \<noteq> CHR ''u'' \<Longrightarrow> parse_escape e = Some x \<Longrightarrow>
   parse_string (CHR 0x5C # e # r) = map_option (apfst (Cons x)) (parse_string r)"
  by (subst parse_string.simps) simp

lemma parse_string_unicode:
  "parse_unicode a b c d = Some x \<Longrightarrow>
   parse_string (CHR 0x5C # CHR ''u'' # a # b # c # d # r) = map_option (apfst (Cons x)) (parse_string r)"
  by (subst parse_string.simps) simp

lemma parse_string_char: "parse_string (json_char c @ r) = map_option (apfst (Cons c)) (parse_string r)"
proof (cases "c \<in> {CHR 0x22, CHR 0x5C, CHR 0x08, CHR 0x09, CHR 0x0A, CHR 0x0C, CHR 0x0D}")
  case True
  then show ?thesis
    by (elim insertE) (simp_all add: json_char_def parse_string_escaped parse_escape_def)
next
  case False
  show ?thesis
  proof (cases "(of_char c :: nat) < 32")
    case True
    let ?n = "of_char c :: nat"
    have h: "hex_value (hex_char (?n div 16)) = Some (?n div 16)" "hex_value (hex_char (?n mod 16)) = Some (?n mod 16)"
      using True by (auto intro!: hex_value_char)
    have z: "hex_value (CHR ''0'') = Some 0" by (simp add: hex_value_def)
    have "16 * (?n div 16) + ?n mod 16 = ?n" by simp
    then have "parse_unicode (CHR ''0'') (CHR ''0'') (hex_char (?n div 16)) (hex_char (?n mod 16)) = Some c"
      by (simp add: parse_unicode_def h z)
    then show ?thesis using False True by (simp add: json_char_def Let_def parse_string_unicode)
  next
    case f: False
    then show ?thesis using False by (simp add: json_char_def Let_def parse_string_plain)
  qed
qed

lemma parse_string_print: "parse_string (concat (map json_char s) @ CHR 0x22 # r) = Some (s, r)"
proof (induction s)
  case Nil
  then show ?case by (subst parse_string.simps) simp
next
  case (Cons c s)
  then show ?case by (simp add: parse_string_char)
qed

lemma digit_char_digit: "is_digit (digit_char n)" "digit_value (digit_char n) = nat (n mod 10)"
proof -
  have "nat (n mod 10) < 10" by simp
  then show "is_digit (digit_char n)" "digit_value (digit_char n) = nat (n mod 10)"
    by (simp_all add: is_digit_def digit_value_def digit_char_def Let_def)
qed

lemma nat_to_string_digits: "\<forall>c \<in> set (nat_to_string n). is_digit c"
proof (induction n rule: nat_to_string.induct)
  case (1 n)
  then show ?case by (subst nat_to_string.simps) (auto simp: digit_char_digit)
qed

lemma nat_to_string_value: "nat_of_digits (nat_to_string n) = n"
proof (induction n rule: nat_to_string.induct)
  case (1 n)
  show ?case
  proof (cases "n < 10")
    case True
    then show ?thesis by (subst nat_to_string.simps) (simp add: nat_of_digits_def digit_char_digit nat_mod_distrib)
  next
    case False
    then have "nat_to_string n = nat_to_string (n div 10) @ [digit_char (int n)]" by (subst nat_to_string.simps) simp
    with 1 False show ?thesis by (simp add: nat_of_digits_def digit_char_digit nat_mod_distrib)
  qed
qed

lemma nat_to_string_nonempty: "nat_to_string n \<noteq> []"
  by (subst nat_to_string.simps) simp

lemma nat_to_string_head: "hd (nat_to_string n) = CHR ''0'' \<Longrightarrow> n = 0"
proof (induction n rule: nat_to_string.induct)
  case (1 n)
  show ?case
  proof (cases "n < 10")
    case True
    then have "hd (nat_to_string n) = digit_char (int n)" by (subst nat_to_string.simps) simp
    with "1.prems" have "digit_value (digit_char (int n)) = 0" by (simp add: digit_value_def)
    with True show ?thesis by (simp add: digit_char_digit nat_mod_distrib)
  next
    case False
    then have "nat_to_string n = nat_to_string (n div 10) @ [digit_char (int n)]" by (subst nat_to_string.simps) simp
    then have "hd (nat_to_string n) = hd (nat_to_string (n div 10))" by (simp add: nat_to_string_nonempty)
    with 1 False have "n div 10 = 0" by simp
    with False show ?thesis by simp
  qed
qed

text \<open>A text after which a number is complete.\<close>

definition ends_number :: "string \<Rightarrow> bool" where
  "ends_number r \<longleftrightarrow> r = [] \<or> (\<not> is_digit (hd r) \<and> hd r \<notin> {CHR ''.'', CHR ''e'', CHR ''E''})"

lemma parse_number_nat:
  assumes "ends_number r"
  shows "takeWhile is_digit (nat_to_string n @ r) = nat_to_string n" "dropWhile is_digit (nat_to_string n @ r) = r"
proof -
  have "takeWhile is_digit r = []" "dropWhile is_digit r = r"
    using assms by (cases r; auto simp: ends_number_def)+
  then show "takeWhile is_digit (nat_to_string n @ r) = nat_to_string n" "dropWhile is_digit (nat_to_string n @ r) = r"
    using nat_to_string_digits [of n] by auto
qed

lemma nat_to_string_lead: "\<not> (hd (nat_to_string n) = CHR ''0'' \<and> Suc 0 < length (nat_to_string n))"
proof
  assume a: "hd (nat_to_string n) = CHR ''0'' \<and> Suc 0 < length (nat_to_string n)"
  then have "n = 0" using nat_to_string_head by blast
  with a show False by (subst (asm) (2) nat_to_string.simps) simp
qed

lemma parse_number_print:
  assumes "ends_number r"
  shows "parse_number (int_to_string i @ r) = Some (JNum i, r)"
proof -
  have not_minus: "hd (nat_to_string n) \<noteq> CHR ''-''" for n
    using nat_to_string_digits [of n] nat_to_string_nonempty [of n] hd_in_set [of "nat_to_string n"] by (force simp: is_digit_def)
  have e: "\<not> (r \<noteq> [] \<and> hd r \<in> {CHR ''.'', CHR ''e'', CHR ''E''})" using assms by (auto simp: ends_number_def)
  show ?thesis
  proof (cases "i < 0")
    case True
    then show ?thesis using e nat_to_string_lead [of "nat (- i)"]
      by (simp add: Let_def parse_number_def int_to_string_def parse_number_nat [OF assms] nat_to_string_value nat_to_string_nonempty)
  next
    case False
    obtain c cs where cs: "nat_to_string (nat i) = c # cs" using nat_to_string_nonempty by (meson neq_Nil_conv)
    then have "(case nat_to_string (nat i) @ r of c # r' \<Rightarrow> if c = CHR ''-'' then (True, r') else (False, nat_to_string (nat i) @ r)
        | [] \<Rightarrow> (False, nat_to_string (nat i) @ r)) = (False, nat_to_string (nat i) @ r)"
      using not_minus [of "nat i"] by simp
    then show ?thesis using e False nat_to_string_lead [of "nat i"]
      by (simp add: Let_def parse_number_def int_to_string_def parse_number_nat [OF assms] nat_to_string_value nat_to_string_nonempty)
  qed
qed

lemma stringify_nonempty: "stringify v \<noteq> []"
  by (cases v) (auto simp: json_bool_def int_to_string_def nat_to_string_nonempty json_string_def json_array_def json_object_def)

text \<open>The first character of a printed value decides the branch of the parser.\<close>

lemma skip_ws_id: "r \<noteq> [] \<Longrightarrow> \<not> json_space (hd r) \<Longrightarrow> skip_ws r = r"
  by (cases r) (auto simp: skip_ws_def)

lemma skip_ws_Cons [simp]: "\<not> json_space c \<Longrightarrow> skip_ws (c # r) = c # r"
  by (simp add: skip_ws_def)

lemma json_space_simps [simp]:
  "\<not> json_space (CHR 0x22)" "\<not> json_space (CHR ''['')" "\<not> json_space (CHR '']'')" "\<not> json_space (CHR ''{'')"
  "\<not> json_space (CHR ''}'')" "\<not> json_space (CHR '','')" "\<not> json_space (CHR '':'')" "\<not> json_space (CHR ''n'')"
  "\<not> json_space (CHR ''t'')" "\<not> json_space (CHR ''f'')"
  by (simp_all add: json_space_def)

lemma int_to_string_head:
  obtains c cs where "int_to_string i = c # cs" "c = CHR ''-'' \<or> is_digit c"
proof (cases "i < 0")
  case True
  then show ?thesis using that [of "CHR ''-''"] by (simp add: int_to_string_def)
next
  case False
  obtain c cs where cs: "nat_to_string (nat i) = c # cs" using nat_to_string_nonempty by (meson neq_Nil_conv)
  then have "is_digit c" using nat_to_string_digits [of "nat i"] by simp
  with cs False show ?thesis using that by (simp add: int_to_string_def)
qed

lemma digit_branch:
  assumes "c = CHR ''-'' \<or> is_digit c"
  shows "\<not> json_space c" "c \<notin> {CHR 0x22, CHR ''['', CHR ''{'', CHR ''n'', CHR ''t'', CHR ''f''}"
  using assms by (auto simp: json_space_def is_digit_def)

lemma stringify_head: "\<exists>c cs. stringify v = c # cs \<and> \<not> json_space c \<and> c \<noteq> CHR '']'' \<and> c \<noteq> CHR ''}''"
proof (cases v)
  case (JNum i)
  obtain c cs where "int_to_string i = c # cs" "c = CHR ''-'' \<or> is_digit c" by (rule int_to_string_head)
  moreover from this have "c \<noteq> CHR '']'' \<and> c \<noteq> CHR ''}''" by (auto simp: is_digit_def)
  ultimately show ?thesis using digit_branch(1) [of c] JNum by simp
next
  case (JBool b)
  then show ?thesis by (cases b) (simp_all add: json_bool_def)
qed (simp_all add: json_string_def json_array_def json_object_def)

text \<open>Printed elements and members, followed by the closing bracket.\<close>

fun elements_text :: "js_value list \<Rightarrow> string" where
  "elements_text [] = []"
| "elements_text [x] = stringify x"
| "elements_text (x # y # zs) = stringify x @ '','' @ elements_text (y # zs)"

fun members_text :: "(string \<times> js_value) list \<Rightarrow> string" where
  "members_text [] = []"
| "members_text [kv] = json_string (fst kv) @ '':'' @ stringify (snd kv)"
| "members_text (kv # y # zs) = json_string (fst kv) @ '':'' @ stringify (snd kv) @ '','' @ members_text (y # zs)"

lemma join_elements: "join '','' (map stringify xs) = elements_text xs"
  by (induction xs rule: elements_text.induct) simp_all

lemma join_members: "join '','' (map (\<lambda>(k, v). json_string k @ '':'' @ v) (map (\<lambda>(k, v). (k, stringify v)) kvs)) = members_text kvs"
  by (induction kvs rule: members_text.induct) (simp_all add: case_prod_beta)

lemma stringify_arr: "stringify (JArr xs) = CHR ''['' # elements_text xs @ [CHR '']'']"
  by (simp add: json_array_def join_elements)

lemma stringify_obj: "stringify (JObj kvs) = CHR ''{'' # members_text kvs @ [CHR ''}'']"
  unfolding stringify.simps json_object_def join_members by simp

lemma parse_elements_print:
  assumes each: "\<And>x k r. x \<in> set xs \<Longrightarrow> 2 * length (stringify x) \<le> k \<Longrightarrow> ends_number r \<Longrightarrow>
      parse_value k (stringify x @ r) = Some (x, r)"
    and "xs \<noteq> []" and "2 * length (elements_text xs) + 1 \<le> k"
  shows "parse_elements k (elements_text xs @ CHR '']'' # r) = Some (xs, r)"
  using assms
proof (induction xs arbitrary: k rule: elements_text.induct)
  case 1
  then show ?case by simp
next
  case (2 x)
  then obtain j where k: "k = Suc j" "2 * length (stringify x) \<le> j" by (cases k) auto
  have "ends_number (CHR '']'' # r)" by (simp add: ends_number_def is_digit_def)
  with 2 k show ?case by simp
next
  case (3 x y zs)
  then obtain j where k: "k = Suc j" "2 * length (stringify x) \<le> j" "2 * length (elements_text (y # zs)) + 1 \<le> j" by (cases k) auto
  have "ends_number (CHR '','' # r)" for r by (simp add: ends_number_def is_digit_def)
  then have "parse_value j (stringify x @ CHR '','' # elements_text (y # zs) @ CHR '']'' # r) =
      Some (x, CHR '','' # elements_text (y # zs) @ CHR '']'' # r)" using "3.prems"(1) [of x j] k by simp
  moreover have "parse_elements j (elements_text (y # zs) @ CHR '']'' # r) = Some (y # zs, r)"
    using "3.IH" [of j] "3.prems"(1) k(3) by simp
  ultimately show ?case by (simp add: k)
qed

lemma parse_members_print:
  assumes each: "\<And>kv k r. kv \<in> set kvs \<Longrightarrow> 2 * length (stringify (snd kv)) \<le> k \<Longrightarrow> ends_number r \<Longrightarrow>
      parse_value k (stringify (snd kv) @ r) = Some (snd kv, r)"
    and "kvs \<noteq> []" and "2 * length (members_text kvs) + 1 \<le> k"
  shows "parse_members k (members_text kvs @ CHR ''}'' # r) = Some (kvs, r)"
  using assms
proof (induction kvs arbitrary: k rule: members_text.induct)
  case 1
  then show ?case by simp
next
  case (2 kv)
  then obtain j where k: "k = Suc j" "2 * length (stringify (snd kv)) \<le> j" by (cases k) auto
  have "ends_number (CHR ''}'' # r)" by (simp add: ends_number_def is_digit_def)
  then have "parse_value j (stringify (snd kv) @ CHR ''}'' # r) = Some (snd kv, CHR ''}'' # r)" using 2 k by simp
  then show ?case by (simp add: k json_string_def parse_string_print)
next
  case (3 kv y zs)
  then obtain j where k: "k = Suc j" "2 * length (stringify (snd kv)) \<le> j" "2 * length (members_text (y # zs)) + 1 \<le> j" by (cases k) auto
  have "ends_number (CHR '','' # r)" for r by (simp add: ends_number_def is_digit_def)
  then have "parse_value j (stringify (snd kv) @ CHR '','' # members_text (y # zs) @ CHR ''}'' # r) =
      Some (snd kv, CHR '','' # members_text (y # zs) @ CHR ''}'' # r)" using "3.prems"(1) [of kv j] k by simp
  moreover have "parse_members j (members_text (y # zs) @ CHR ''}'' # r) = Some (y # zs, r)"
    using "3.IH" [of j] "3.prems"(1) k(3) by simp
  ultimately show ?case by (simp add: k json_string_def parse_string_print)
qed

lemma update_append: "k \<notin> fst ` set m \<Longrightarrow> map_set k v m = m @ [(k, v)]"
  by (induction m) auto

lemma object_of_distinct: "distinct (map fst kvs) \<Longrightarrow> object_of kvs = JObj kvs"
proof -
  have "distinct (map fst (m @ kvs)) \<Longrightarrow> fold (\<lambda>(k, v) m. map_set k v m) kvs m = m @ kvs" for m :: "(string \<times> js_value) list"
  proof (induction kvs arbitrary: m)
    case Nil
    then show ?case by simp
  next
    case (Cons kv kvs)
    then have "fst kv \<notin> fst ` set m" by auto
    with Cons show ?case by (simp add: case_prod_beta update_append)
  qed
  from this [of "[]"] show "distinct (map fst kvs) \<Longrightarrow> object_of kvs = JObj kvs" by (simp add: object_of_def)
qed

lemma elements_nonempty: "xs \<noteq> [] \<Longrightarrow> \<exists>c cs. elements_text xs = c # cs \<and> \<not> json_space c \<and> c \<noteq> CHR '']''"
proof (cases xs rule: elements_text.cases)
  case (2 x)
  then show ?thesis using stringify_head [of x] by auto
next
  case (3 x y zs)
  then show ?thesis using stringify_head [of x] by auto
qed simp

lemma members_head: "kvs \<noteq> [] \<Longrightarrow> \<exists>cs. members_text kvs = CHR 0x22 # cs"
  by (cases kvs rule: members_text.cases) (auto simp: json_string_def)

lemma parse_value_print:
  "json_ok v \<Longrightarrow> 2 * length (stringify v) \<le> k \<Longrightarrow> ends_number r \<Longrightarrow> parse_value k (stringify v @ r) = Some (v, r)"
proof (induction v arbitrary: k r)
  case JNull
  then obtain j where "k = Suc j" by (cases k) auto
  then show ?case by (simp add: expect_def)
next
  case (JBool b)
  then obtain j where "k = Suc j" by (cases k) (auto simp: json_bool_def split: if_splits)
  then show ?case by (simp add: json_bool_def expect_def)
next
  case (JNum i)
  obtain c cs where c: "int_to_string i = c # cs" "c = CHR ''-'' \<or> is_digit c" by (rule int_to_string_head)
  then obtain j where "k = Suc j" using JNum by (cases k) auto
  then show ?case using digit_branch [OF c(2)] parse_number_print [OF JNum.prems(3), of i] c(1) by simp
next
  case (JStr s)
  then obtain j where "k = Suc j" by (cases k) (auto simp: json_string_def)
  then show ?case by (simp add: json_string_def parse_string_print)
next
  case (JArr xs)
  then obtain j where k: "k = Suc j" "2 * length (elements_text xs) + 1 \<le> j"
    unfolding stringify_arr by (cases k) auto
  show ?case
  proof (cases "xs = []")
    case True
    then show ?thesis by (simp add: k json_array_def)
  next
    case False
    have "parse_elements j (elements_text xs @ CHR '']'' # r) = Some (xs, r)"
      by (rule parse_elements_print [OF _ False k(2)]) (use JArr in auto)
    moreover obtain c cs where "elements_text xs = c # cs" "\<not> json_space c" "c \<noteq> CHR '']''" using elements_nonempty [OF False] by blast
    ultimately show ?thesis by (simp add: k stringify_arr del: stringify.simps)
  qed
next
  case (JObj kvs)
  then obtain j where k: "k = Suc j" "2 * length (members_text kvs) + 1 \<le> j"
    unfolding stringify_obj by (cases k) auto
  show ?case
  proof (cases "kvs = []")
    case True
    then show ?thesis by (simp add: k json_object_def)
  next
    case False
    have "parse_value m (stringify (snd kv) @ r1) = Some (snd kv, r1)"
      if "kv \<in> set kvs" "2 * length (stringify (snd kv)) \<le> m" "ends_number r1" for kv m r1
      using JObj.IH [of kv "snd kv" m r1] that JObj.prems(1) by (cases kv) (auto simp: snds.simps)
    then have "parse_members j (members_text kvs @ CHR ''}'' # r) = Some (kvs, r)"
      by (rule parse_members_print [OF _ False k(2)])
    moreover obtain cs where "members_text kvs = CHR 0x22 # cs" using members_head [OF False] by blast
    ultimately show ?thesis using JObj.prems(1) object_of_distinct [of kvs]
      by (simp add: k stringify_obj del: stringify.simps)
  qed
qed

theorem json_round_trip: "json_ok v \<Longrightarrow> parse_json (stringify v) = Some v"
  using parse_value_print [of v "2 * length (stringify v) + 1" "[]"]
  by (simp add: parse_json_def ends_number_def skip_ws_def)

end
