(* ===== verification/Keyring.thy ===== *)
theory Keyring
  imports Bytes JsonValue
begin

text \<open>
  Key material (\<open>apps/web/src/lib/client/encryption-keyring.ts\<close>, \<open>encryption-constants.ts\<close>,
  \<open>encryption-crypto.ts\<close>): the key ring and its text form, the descriptors that select a key, the
  wrapping of a key ring under a password and a recovery code, and where the browser stores it.

  WebCrypto and the Argon2 package are parameters, the record \<open>crypto\<close>: \<open>cp_encrypt\<close> and
  \<open>cp_decrypt\<close> are AES-GCM with key, initialisation vector, additional data and text as bytes,
  \<open>cp_random k j\<close> is the \<open>j\<close>-th byte of the \<open>k\<close>-th request for random values. What the code relies
  on is \<open>crypto_ok\<close>: AES-GCM decrypts what it encrypted under the same parameters, and appends a
  tag of 16 bytes. The caches of imported keys hold what the import would return and are left out.
\<close>

section \<open>The platform\<close>

record crypto =
  cp_encrypt :: "byte list \<Rightarrow> byte list \<Rightarrow> byte list \<Rightarrow> byte list \<Rightarrow> byte list"
  cp_decrypt :: "byte list \<Rightarrow> byte list \<Rightarrow> byte list \<Rightarrow> byte list \<Rightarrow> byte list option"
  cp_sha256 :: "byte list \<Rightarrow> byte list"
  cp_hmac :: "byte list \<Rightarrow> byte list \<Rightarrow> byte list"
  cp_argon2id :: "byte list \<Rightarrow> byte list \<Rightarrow> byte list"
  cp_random :: "nat \<Rightarrow> nat \<Rightarrow> byte"

definition crypto_ok :: "crypto \<Rightarrow> bool" where
  "crypto_ok cr \<longleftrightarrow>
     (\<forall>k iv aad p. cp_decrypt cr k iv aad (cp_encrypt cr k iv aad p) = Some p) \<and>
     (\<forall>k iv aad p. length (cp_encrypt cr k iv aad p) = length p + 16)"

text \<open>How many clock readings, random requests and identifiers a run has used.\<close>

record effects =
  f_ticks :: nat
  f_rands :: nat
  f_fresh :: nat

definition nowIso :: "env \<Rightarrow> effects \<Rightarrow> string \<times> effects" where
  "nowIso e fx = (to_iso (clock e (f_ticks fx)), fx\<lparr>f_ticks := Suc (f_ticks fx)\<rparr>)"

definition newId :: "env \<Rightarrow> effects \<Rightarrow> string \<times> effects" where
  "newId e fx = (uuid e (f_fresh fx), fx\<lparr>f_fresh := Suc (f_fresh fx)\<rparr>)"

definition randomBytes :: "crypto \<Rightarrow> nat \<Rightarrow> effects \<Rightarrow> byte list \<times> effects" where
  "randomBytes cr len fx = (map (cp_random cr (f_rands fx)) [0..<len], fx\<lparr>f_rands := Suc (f_rands fx)\<rparr>)"

definition encryptionIv :: "crypto \<Rightarrow> effects \<Rightarrow> byte list \<times> effects" where
  "encryptionIv cr fx = randomBytes cr 12 fx"

datatype client_error =
    Unsupported_field_version
  | Decrypt_failed
  | Upgrade_required
  | Invalid_base64
  | Keyring_required
  | Invalid_keyring
  | Invalid_recovery_kit
  | Invalid_recovery_code
  | Keyring_unlock_failed
  | Kept_changing
  | Sign_in_again
  | Sync_running_elsewhere
  | Lease_lost
  | Bad_cursor cursor_error
  | Request_failed nat
  | Device_name_required
  | Workspace_belongs_to string

section \<open>Constants\<close>

definition KEYRING_MATERIAL_PREFIX :: string where
  "KEYRING_MATERIAL_PREFIX = ''keyring:v1:''"

definition RECOVERY_CODE_PREFIX :: string where
  "RECOVERY_CODE_PREFIX = ''author-recovery-v1-''"

definition DIRECT_KEY_ID :: string where
  "DIRECT_KEY_ID = ''direct''"

definition starts_with :: "string \<Rightarrow> string \<Rightarrow> bool" where
  "starts_with p s \<longleftrightarrow> take (length p) s = p"

text \<open>\<open>s.split(sep)\<close> for a one-character separator.\<close>

fun split_on :: "char \<Rightarrow> string \<Rightarrow> string list" where
  "split_on sep [] = [[]]"
| "split_on sep (c # cs) =
     (if c = sep then [] # split_on sep cs
      else (case split_on sep cs of p # ps \<Rightarrow> (c # p) # ps | [] \<Rightarrow> [[c]]))"

section \<open>Key rings\<close>

datatype keyring_scope = Local_scope | Account_scope
datatype key_status = Active_key | Retired_key

record keyring_key =
  kk_id :: string
  kk_material :: string
  kk_createdAt :: string
  kk_status :: key_status

record keyring_material =
  km_version :: int
  km_scope :: keyring_scope
  km_accountUsername :: "string option"
  km_activeKeyId :: string
  km_keys :: "keyring_key list"
  km_legacyMaterials :: "string list option"
  km_createdAt :: string
  km_updatedAt :: string

fun scope_text :: "keyring_scope \<Rightarrow> string" where
  "scope_text Local_scope = ''local''"
| "scope_text Account_scope = ''account''"

fun key_status_text :: "key_status \<Rightarrow> string" where
  "key_status_text Active_key = ''active''"
| "key_status_text Retired_key = ''retired''"

definition json_of_key :: "keyring_key \<Rightarrow> js_value" where
  "json_of_key k = JObj [(''id'', JStr (kk_id k)), (''material'', JStr (kk_material k)),
     (''createdAt'', JStr (kk_createdAt k)), (''status'', JStr (key_status_text (kk_status k)))]"

definition optional_prop :: "string \<Rightarrow> js_value option \<Rightarrow> (string \<times> js_value) list" where
  "optional_prop k v = (case v of None \<Rightarrow> [] | Some x \<Rightarrow> [(k, x)])"

definition json_of_keyring :: "keyring_material \<Rightarrow> js_value" where
  "json_of_keyring k = JObj
     ([(''version'', JNum (km_version k)), (''scope'', JStr (scope_text (km_scope k)))] @
      optional_prop ''accountUsername'' (map_option JStr (km_accountUsername k)) @
      [(''activeKeyId'', JStr (km_activeKeyId k)), (''keys'', JArr (map json_of_key (km_keys k)))] @
      optional_prop ''legacyMaterials'' (map_option (\<lambda>xs. JArr (map JStr xs)) (km_legacyMaterials k)) @
      [(''createdAt'', JStr (km_createdAt k)), (''updatedAt'', JStr (km_updatedAt k))])"

text \<open>
  Reading the parsed text as a \<open>KeyringMaterial\<close>. A text whose properties do not have the declared
  types is not a key ring here (the code casts without looking at the unused ones).
\<close>

fun str_of :: "js_value option \<Rightarrow> string option" where
  "str_of (Some (JStr s)) = Some s"
| "str_of _ = None"

fun num_of :: "js_value option \<Rightarrow> int option" where
  "num_of (Some (JNum i)) = Some i"
| "num_of _ = None"

primrec all_some :: "'a option list \<Rightarrow> 'a list option" where
  "all_some [] = Some []"
| "all_some (x # xs) = (case x of None \<Rightarrow> None | Some y \<Rightarrow> map_option (Cons y) (all_some xs))"

definition strs_of :: "js_value option \<Rightarrow> string list option" where
  "strs_of v = (case v of Some (JArr xs) \<Rightarrow> all_some (map (\<lambda>x. str_of (Some x)) xs) | _ \<Rightarrow> None)"

definition key_of_json :: "js_value \<Rightarrow> keyring_key option" where
  "key_of_json v =
     (case (str_of (get_prop v ''id''), str_of (get_prop v ''material''), str_of (get_prop v ''createdAt''), str_of (get_prop v ''status'')) of
        (Some i, Some m, Some c, Some s) \<Rightarrow>
          if s = ''active'' then Some \<lparr>kk_id = i, kk_material = m, kk_createdAt = c, kk_status = Active_key\<rparr>
          else if s = ''retired'' then Some \<lparr>kk_id = i, kk_material = m, kk_createdAt = c, kk_status = Retired_key\<rparr>
          else None
      | _ \<Rightarrow> None)"

definition scope_of :: "string \<Rightarrow> keyring_scope option" where
  "scope_of s = (if s = ''local'' then Some Local_scope else if s = ''account'' then Some Account_scope else None)"

definition keyring_of_json :: "js_value \<Rightarrow> keyring_material option" where
  "keyring_of_json v =
     (case (num_of (get_prop v ''version''), Option.bind (str_of (get_prop v ''scope'')) scope_of,
            str_of (get_prop v ''activeKeyId''),
            (case get_prop v ''keys'' of Some (JArr xs) \<Rightarrow> all_some (map key_of_json xs) | _ \<Rightarrow> None),
            str_of (get_prop v ''createdAt''), str_of (get_prop v ''updatedAt'')) of
        (Some n, Some sc, Some active, Some ks, Some c, Some u) \<Rightarrow>
          Some \<lparr>km_version = n, km_scope = sc, km_accountUsername = str_of (get_prop v ''accountUsername''),
                km_activeKeyId = active, km_keys = ks, km_legacyMaterials = strs_of (get_prop v ''legacyMaterials''),
                km_createdAt = c, km_updatedAt = u\<rparr>
      | _ \<Rightarrow> None)"

text \<open>
  The test of \<open>keys.some(...)\<close> on the keys in order: a malformed Base64 text of a candidate throws,
  which makes the whole key ring invalid.
\<close>

fun some_active :: "string \<Rightarrow> keyring_key list \<Rightarrow> bool" where
  "some_active active [] = False"
| "some_active active (k # ks) =
     (if kk_id k = active \<and> kk_status k = Active_key
      then (case base64UrlDecode (kk_material k) of
              None \<Rightarrow> False
            | Some bytes \<Rightarrow> if length bytes = 32 then True else some_active active ks)
      else some_active active ks)"

definition validateKeyringMaterial :: "keyring_material \<Rightarrow> bool" where
  "validateKeyringMaterial k \<longleftrightarrow>
     km_version k = 1 \<and> km_activeKeyId k \<noteq> [] \<and> some_active (km_activeKeyId k) (km_keys k)"

definition encodeKeyringMaterial :: "keyring_material \<Rightarrow> string" where
  "encodeKeyringMaterial k =
     KEYRING_MATERIAL_PREFIX @ base64UrlEncode (utf8_encode (stringify (json_of_keyring k)))"

definition parseKeyringMaterial :: "string \<Rightarrow> keyring_material option" where
  "parseKeyringMaterial material =
     (if \<not> starts_with KEYRING_MATERIAL_PREFIX material then None
      else case base64UrlDecode (drop (length KEYRING_MATERIAL_PREFIX) material) of
             None \<Rightarrow> None
           | Some bytes \<Rightarrow>
               (case Option.bind (Option.bind (utf8_decode bytes) parse_json) keyring_of_json of
                  None \<Rightarrow> None
                | Some k \<Rightarrow> if validateKeyringMaterial k then Some k else None))"

definition requireKeyringMaterial :: "string \<Rightarrow> client_error + keyring_material" where
  "requireKeyringMaterial material =
     (case parseKeyringMaterial material of None \<Rightarrow> Inl Keyring_required | Some k \<Rightarrow> Inr k)"

definition isCurrentPasswordKeyMaterial :: "string \<Rightarrow> bool" where
  "isCurrentPasswordKeyMaterial material \<longleftrightarrow>
     (case split_on (CHR '':'') material of
        [p0, p1, p2, p3, p4] \<Rightarrow> p0 = ''password'' \<and> p1 = ''v4'' \<and> p2 = ''argon2id'' \<and> truthy p3 \<and> truthy p4
      | _ \<Rightarrow> False)"

definition isSyncKeyMaterial :: "string \<Rightarrow> bool" where
  "isSyncKeyMaterial material \<longleftrightarrow>
     map_option km_scope (parseKeyringMaterial material) = Some Account_scope \<or> isCurrentPasswordKeyMaterial material"

definition normalizedUsername :: "string \<Rightarrow> string" where
  "normalizedUsername username = to_lower (trim username)"

text \<open>The 32 bytes of the key are drawn before the 12 bytes of its identifier.\<close>

definition randomDataKey :: "env \<Rightarrow> crypto \<Rightarrow> effects \<Rightarrow> keyring_key \<times> effects" where
  "randomDataKey e cr fx =
     (let (bytes, fx1) = randomBytes cr 32 fx;
          (idb, fx2) = randomBytes cr 12 fx1;
          (now, fx3) = nowIso e fx2
      in (\<lparr>kk_id = ''dk_'' @ base64UrlEncode idb, kk_material = base64UrlEncode bytes, kk_createdAt = now,
           kk_status = Active_key\<rparr>, fx3))"

definition createKeyringMaterial ::
  "env \<Rightarrow> crypto \<Rightarrow> keyring_scope \<Rightarrow> string option \<Rightarrow> string list \<Rightarrow> effects \<Rightarrow> keyring_material \<times> effects" where
  "createKeyringMaterial e cr scope accountUsername legacy fx =
     (let (now, fx1) = nowIso e fx;
          (key, fx2) = randomDataKey e cr fx1
      in (\<lparr>km_version = 1, km_scope = scope,
           km_accountUsername = (if truthy_opt accountUsername then accountUsername else None),
           km_activeKeyId = kk_id key, km_keys = [key],
           km_legacyMaterials = (if legacy = [] then None else Some legacy),
           km_createdAt = now, km_updatedAt = now\<rparr>, fx2))"

definition generateLocalKeyMaterial :: "env \<Rightarrow> crypto \<Rightarrow> effects \<Rightarrow> string \<times> effects" where
  "generateLocalKeyMaterial e cr fx =
     (let (k, fx1) = createKeyringMaterial e cr Local_scope None [] fx in (encodeKeyringMaterial k, fx1))"

definition assertSupportedEncryptionKeyMaterial :: "string \<Rightarrow> client_error + unit" where
  "assertSupportedEncryptionKeyMaterial material =
     (if parseKeyringMaterial material \<noteq> None then Inr ()
      else if (starts_with ''password:'' material \<and> \<not> isCurrentPasswordKeyMaterial material) \<or>
              starts_with ''account:'' material \<or> material = ''author:local:v1''
        then Inl Upgrade_required
      else Inr ())"

section \<open>Descriptors of encryption keys\<close>

datatype encryption_version = V3 | V4

record encryption_envelope =
  ev_version :: encryption_version
  ev_keyId :: "string option"
  ev_iv :: "byte list"
  ev_ciphertext :: "byte list"

record key_descriptor =
  ds_version :: encryption_version
  ds_keyId :: string
  ds_rawKey :: "byte list option"
  ds_directMaterial :: "string option"

definition directDescriptor :: "string \<Rightarrow> encryption_version \<Rightarrow> string \<Rightarrow> key_descriptor" where
  "directDescriptor material version keyId =
     \<lparr>ds_version = version, ds_keyId = keyId, ds_rawKey = None, ds_directMaterial = Some material\<rparr>"

definition activeEncryptionDescriptor :: "string \<Rightarrow> client_error + key_descriptor" where
  "activeEncryptionDescriptor material =
     (case parseKeyringMaterial material of
        Some k \<Rightarrow>
          (case find (\<lambda>key. kk_id key = km_activeKeyId k) (km_keys k) of
             None \<Rightarrow> Inl Upgrade_required
           | Some active \<Rightarrow>
               (case base64UrlDecode (kk_material active) of
                  None \<Rightarrow> Inl Invalid_base64
                | Some rawKey \<Rightarrow>
                    if length rawKey \<noteq> 32 then Inl Upgrade_required
                    else Inr \<lparr>ds_version = V4, ds_keyId = kk_id active, ds_rawKey = Some rawKey, ds_directMaterial = None\<rparr>))
      | None \<Rightarrow> Inr (directDescriptor material V4 DIRECT_KEY_ID))"

definition decryptionDescriptors :: "string \<Rightarrow> encryption_envelope \<Rightarrow> client_error + key_descriptor list" where
  "decryptionDescriptors material envelope =
     (case parseKeyringMaterial material of
        None \<Rightarrow>
          Inr [directDescriptor material (ev_version envelope)
                 (if ev_version envelope = V4 then the (ev_keyId envelope) else DIRECT_KEY_ID)]
      | Some k \<Rightarrow>
          if ev_version envelope = V4
          then (case find (\<lambda>key. Some (kk_id key) = ev_keyId envelope) (km_keys k) of
                  None \<Rightarrow> Inr []
                | Some key \<Rightarrow>
                    (case base64UrlDecode (kk_material key) of
                       None \<Rightarrow> Inl Invalid_base64
                     | Some rawKey \<Rightarrow>
                         if length rawKey \<noteq> 32 then Inr []
                         else Inr [\<lparr>ds_version = V4, ds_keyId = kk_id key, ds_rawKey = Some rawKey, ds_directMaterial = None\<rparr>]))
          else Inr (map (\<lambda>m. directDescriptor m V3 DIRECT_KEY_ID)
                 (case km_legacyMaterials k of None \<Rightarrow> [] | Some ms \<Rightarrow> ms)))"

text \<open>The bytes of the HMAC key of field hashes.\<close>

definition fieldHashKey :: "string \<Rightarrow> client_error + byte list" where
  "fieldHashKey material =
     and_then (activeEncryptionDescriptor material)
       (\<lambda>d. let secret = (case ds_rawKey d of
                            Some raw \<Rightarrow> base64UrlEncode raw
                          | None \<Rightarrow> or_empty (ds_directMaterial d))
            in Inr (utf8_encode (''author:field-hash-key:v3:'' @ ds_keyId d @ '':'' @ secret)))"

section \<open>Wrapped key rings\<close>

datatype wrap_context = Password_context | Recovery_context

record wrapped_box =
  wb_context :: wrap_context
  wb_iv :: string
  wb_ciphertext :: string

record wrapped_keyring =
  wk_activeKeyId :: string
  wk_wrappedAt :: string
  wk_passwordWrap :: wrapped_box
  wk_recoveryWrap :: "wrapped_box option"

record recovery_kit =
  rk_createdAt :: string
  rk_recoveryWrap :: wrapped_box
  rk_keyHint :: string

fun context_text :: "wrap_context \<Rightarrow> string" where
  "context_text Password_context = ''password''"
| "context_text Recovery_context = ''recovery''"

definition json_of_box :: "wrapped_box \<Rightarrow> js_value" where
  "json_of_box b = JObj [(''alg'', JStr ''AES-256-GCM''), (''kdf'', JStr ''sha256''),
     (''context'', JStr (context_text (wb_context b))), (''iv'', JStr (wb_iv b)), (''ciphertext'', JStr (wb_ciphertext b))]"

definition json_of_wrapped :: "wrapped_keyring \<Rightarrow> js_value" where
  "json_of_wrapped w = JObj
     ([(''version'', JNum 1), (''activeKeyId'', JStr (wk_activeKeyId w)), (''wrappedAt'', JStr (wk_wrappedAt w)),
       (''passwordWrap'', json_of_box (wk_passwordWrap w))] @
      optional_prop ''recoveryWrap'' (map_option json_of_box (wk_recoveryWrap w)))"

text \<open>The fields of a box, when \<open>validWrappedKeyringBox\<close> accepts it.\<close>

definition validWrappedKeyringBox :: "js_value \<Rightarrow> wrap_context option \<Rightarrow> wrapped_box option" where
  "validWrappedKeyringBox v context =
     (if str_of (get_prop v ''alg'') = Some ''AES-256-GCM'' \<and> str_of (get_prop v ''kdf'') = Some ''sha256''
      then (case (Option.bind (str_of (get_prop v ''context''))
                    (\<lambda>c. if c = ''password'' then Some Password_context
                         else if c = ''recovery'' then Some Recovery_context else None),
                  str_of (get_prop v ''iv''), str_of (get_prop v ''ciphertext'')) of
              (Some c, Some iv, Some ct) \<Rightarrow>
                if context \<noteq> None \<and> context \<noteq> Some c then None
                else Some \<lparr>wb_context = c, wb_iv = iv, wb_ciphertext = ct\<rparr>
            | _ \<Rightarrow> None)
      else None)"

definition parseWrappedE2eeKeyring :: "string \<Rightarrow> wrapped_keyring option" where
  "parseWrappedE2eeKeyring v =
     Option.bind (parse_json v) (\<lambda>p.
       if num_of (get_prop p ''version'') \<noteq> Some 1 then None
       else case str_of (get_prop p ''activeKeyId'') of
              None \<Rightarrow> None
            | Some active \<Rightarrow>
                if \<not> truthy active then None
                else case Option.bind (get_prop p ''passwordWrap'') (\<lambda>b. validWrappedKeyringBox b (Some Password_context)) of
                       None \<Rightarrow> None
                     | Some pw \<Rightarrow>
                         (case get_prop p ''recoveryWrap'' of
                            None \<Rightarrow> Some \<lparr>wk_activeKeyId = active, wk_wrappedAt = or_empty (str_of (get_prop p ''wrappedAt'')),
                                         wk_passwordWrap = pw, wk_recoveryWrap = None\<rparr>
                          | Some r \<Rightarrow>
                              (case validWrappedKeyringBox r (Some Recovery_context) of
                                 None \<Rightarrow> None
                               | Some rb \<Rightarrow> Some \<lparr>wk_activeKeyId = active, wk_wrappedAt = or_empty (str_of (get_prop p ''wrappedAt'')),
                                         wk_passwordWrap = pw, wk_recoveryWrap = Some rb\<rparr>)))"

definition keyringWrappingKey :: "crypto \<Rightarrow> string \<Rightarrow> wrap_context \<Rightarrow> byte list" where
  "keyringWrappingKey cr secret context =
     cp_sha256 cr (utf8_encode (''author:e2ee-keyring-wrap:v1:'' @ context_text context @ '':'' @ secret))"

definition keyringWrapAad :: "wrap_context \<Rightarrow> byte list" where
  "keyringWrapAad context = utf8_encode (''author:e2ee-keyring:v1:'' @ context_text context)"

definition wrapKeyringBox ::
  "crypto \<Rightarrow> string \<Rightarrow> string \<Rightarrow> wrap_context \<Rightarrow> effects \<Rightarrow> client_error + wrapped_box \<times> effects" where
  "wrapKeyringBox cr material secret context fx =
     and_then (requireKeyringMaterial material)
       (\<lambda>_. let (iv, fx1) = encryptionIv cr fx;
                encrypted = cp_encrypt cr (keyringWrappingKey cr secret context) iv (keyringWrapAad context) (utf8_encode material)
            in Inr (\<lparr>wb_context = context, wb_iv = base64UrlEncode iv, wb_ciphertext = base64UrlEncode encrypted\<rparr>, fx1))"

text \<open>Everything that goes wrong after the shape of the box was accepted is a failed decryption.\<close>

definition unwrapKeyringBox :: "crypto \<Rightarrow> wrapped_box \<Rightarrow> string \<Rightarrow> client_error + string" where
  "unwrapKeyringBox cr box secret =
     (case (base64UrlDecode (wb_iv box), base64UrlDecode (wb_ciphertext box)) of
        (Some iv, Some ct) \<Rightarrow>
          (case Option.bind (cp_decrypt cr (keyringWrappingKey cr secret (wb_context box)) iv (keyringWrapAad (wb_context box)) ct) utf8_decode of
             None \<Rightarrow> Inl Decrypt_failed
           | Some material \<Rightarrow> if parseKeyringMaterial material = None then Inl Decrypt_failed else Inr material)
      | _ \<Rightarrow> Inl Decrypt_failed)"

definition recoveryWrappingSecret :: "string \<Rightarrow> client_error + string" where
  "recoveryWrappingSecret recoveryCode =
     (let trimmed = trim recoveryCode
      in if starts_with RECOVERY_CODE_PREFIX trimmed then Inr trimmed else Inl Invalid_recovery_code)"

definition wrapKeyringMaterial ::
  "env \<Rightarrow> crypto \<Rightarrow> string \<Rightarrow> string \<Rightarrow> string option \<Rightarrow> wrapped_box option \<Rightarrow> effects \<Rightarrow> client_error + string \<times> effects" where
  "wrapKeyringMaterial e cr material passwordMaterial recoveryCode existingRecoveryWrap fx =
     and_then (requireKeyringMaterial material) (\<lambda>k.
     and_then (if truthy_opt recoveryCode
               then and_then (recoveryWrappingSecret (or_empty recoveryCode))
                      (\<lambda>secret. and_then (wrapKeyringBox cr material secret Recovery_context fx)
                         (\<lambda>(b, fx1). Inr (Some b, fx1)))
               else Inr (existingRecoveryWrap, fx)) (\<lambda>(recoveryWrap, fx1).
       let (now, fx2) = nowIso e fx1
       in and_then (wrapKeyringBox cr material passwordMaterial Password_context fx2) (\<lambda>(pw, fx3).
            Inr (stringify (json_of_wrapped \<lparr>wk_activeKeyId = km_activeKeyId k, wk_wrappedAt = now,
                   wk_passwordWrap = pw, wk_recoveryWrap = recoveryWrap\<rparr>), fx3))))"

definition unwrapKeyringMaterial :: "crypto \<Rightarrow> string \<Rightarrow> string \<Rightarrow> client_error + string" where
  "unwrapKeyringMaterial cr e2eeKeyring passwordMaterial =
     (case parseWrappedE2eeKeyring e2eeKeyring of
        None \<Rightarrow> Inl Invalid_keyring
      | Some w \<Rightarrow> unwrapKeyringBox cr (wk_passwordWrap w) passwordMaterial)"

definition keyMaterialFromPassword :: "crypto \<Rightarrow> string \<Rightarrow> string \<Rightarrow> string" where
  "keyMaterialFromPassword cr username password =
     join '':'' [''password'', ''v4'', ''argon2id'', ''m=19456,t=2,p=1'',
       base64UrlEncode (cp_argon2id cr (utf8_encode password)
         (utf8_encode (''author:password-key:v3:'' @ normalizedUsername username)))]"

definition generateRecoveryCode :: "crypto \<Rightarrow> effects \<Rightarrow> string \<times> effects" where
  "generateRecoveryCode cr fx =
     (let (bytes, fx1) = randomBytes cr 32 fx in (RECOVERY_CODE_PREFIX @ base64UrlEncode bytes, fx1))"

definition createRecoveryKit ::
  "env \<Rightarrow> crypto \<Rightarrow> string \<Rightarrow> string \<Rightarrow> effects \<Rightarrow> client_error + recovery_kit \<times> effects" where
  "createRecoveryKit e cr material recoveryCode fx =
     and_then (requireKeyringMaterial material) (\<lambda>k.
     and_then (recoveryWrappingSecret recoveryCode) (\<lambda>secret.
     and_then (wrapKeyringBox cr material secret Recovery_context fx) (\<lambda>(box, fx1).
       let (now, fx2) = nowIso e fx1
       in Inr (\<lparr>rk_createdAt = now, rk_recoveryWrap = box, rk_keyHint = km_activeKeyId k\<rparr>, fx2))))"

text \<open>A kit is a value of the declared type here; the code also rejects other values.\<close>

definition restoreKeyringFromRecoveryKit :: "crypto \<Rightarrow> recovery_kit \<Rightarrow> string \<Rightarrow> client_error + string" where
  "restoreKeyringFromRecoveryKit cr kit recoveryCode =
     and_then (recoveryWrappingSecret recoveryCode) (\<lambda>secret. unwrapKeyringBox cr (rk_recoveryWrap kit) secret)"

record account_keyring =
  ak_keyMaterial :: string
  ak_e2eeKeyring :: string
  ak_recoveryCode :: string
  ak_recoveryKit :: recovery_kit

definition prepareNewAccountKeyring ::
  "env \<Rightarrow> crypto \<Rightarrow> string \<Rightarrow> string \<Rightarrow> effects \<Rightarrow> client_error + account_keyring \<times> effects" where
  "prepareNewAccountKeyring e cr username password fx =
     (let (k, fx1) = createKeyringMaterial e cr Account_scope (Some (normalizedUsername username)) [] fx;
          material = encodeKeyringMaterial k;
          passwordMaterial = keyMaterialFromPassword cr username password;
          (code, fx2) = generateRecoveryCode cr fx1
      in and_then (wrapKeyringMaterial e cr material passwordMaterial (Some code) None fx2) (\<lambda>(wrapped, fx3).
         and_then (createRecoveryKit e cr material code fx3) (\<lambda>(kit, fx4).
           Inr (\<lparr>ak_keyMaterial = material, ak_e2eeKeyring = wrapped, ak_recoveryCode = code, ak_recoveryKit = kit\<rparr>, fx4))))"

definition migratePasswordMaterialToAccountKeyring ::
  "env \<Rightarrow> crypto \<Rightarrow> string \<Rightarrow> string \<Rightarrow> effects \<Rightarrow> client_error + account_keyring \<times> effects" where
  "migratePasswordMaterialToAccountKeyring e cr username passwordMaterial fx =
     (let (k, fx1) = createKeyringMaterial e cr Account_scope (Some (normalizedUsername username)) [passwordMaterial] fx;
          material = encodeKeyringMaterial k;
          (code, fx2) = generateRecoveryCode cr fx1
      in and_then (wrapKeyringMaterial e cr material passwordMaterial (Some code) None fx2) (\<lambda>(wrapped, fx3).
         and_then (createRecoveryKit e cr material code fx3) (\<lambda>(kit, fx4).
           Inr (\<lparr>ak_keyMaterial = material, ak_e2eeKeyring = wrapped, ak_recoveryCode = code, ak_recoveryKit = kit\<rparr>, fx4))))"

definition keyringMaterialFromWrapped :: "crypto \<Rightarrow> string \<Rightarrow> string \<Rightarrow> string \<Rightarrow> client_error + string" where
  "keyringMaterialFromWrapped cr e2eeKeyring username password =
     unwrapKeyringMaterial cr e2eeKeyring (keyMaterialFromPassword cr username password)"

text \<open>A changed password rewraps the same key ring and keeps the recovery wrap that exists.\<close>

definition rewrapKeyringForPassword ::
  "env \<Rightarrow> crypto \<Rightarrow> string \<Rightarrow> string \<Rightarrow> string \<Rightarrow> string option \<Rightarrow> effects \<Rightarrow> client_error + string \<times> effects" where
  "rewrapKeyringForPassword e cr material username password existing fx =
     wrapKeyringMaterial e cr material (keyMaterialFromPassword cr username password) None
       (if truthy_opt existing then Option.bind (parseWrappedE2eeKeyring (or_empty existing)) wk_recoveryWrap else None) fx"

end
