(* ===== verification/KeyStorage.thy ===== *)
theory KeyStorage
  imports Keyring
begin

text \<open>
  Where the browser keeps the key material (\<open>apps/web/src/lib/client/encryption-keyring.ts\<close>):
  \<open>localStorage\<close>, \<open>sessionStorage\<close> (each may be unavailable) and a module variable. The mode
  \<open>session\<close> means that account material must not outlive the browser session.
\<close>

type_synonym web_storage = "(string \<times> string) list"

record browser =
  br_local :: "web_storage option"
  br_session :: "web_storage option"
  br_volatile :: "string option"

datatype storage_mode = Persistent_mode | Session_mode

definition MATERIAL_KEY :: string where
  "MATERIAL_KEY = ''author-encryption-key-material-v1''"

definition MODE_KEY :: string where
  "MODE_KEY = ''author-encryption-key-material-mode-v1''"

text \<open>\<open>storage?.getItem(k)\<close>, \<open>storage?.setItem(k, v)\<close>, \<open>storage?.removeItem(k)\<close>.\<close>

definition getItem :: "string \<Rightarrow> web_storage option \<Rightarrow> string option" where
  "getItem k st = Option.bind st (\<lambda>m. map_of m k)"

definition setItem :: "string \<Rightarrow> string \<Rightarrow> web_storage option \<Rightarrow> web_storage option" where
  "setItem k v st = map_option (map_set k v) st"

definition removeItem :: "string \<Rightarrow> web_storage option \<Rightarrow> web_storage option" where
  "removeItem k st = map_option (AList.delete k) st"

definition getEncryptionKeyMaterialStorageMode :: "browser \<Rightarrow> storage_mode" where
  "getEncryptionKeyMaterialStorageMode b =
     (if getItem MODE_KEY (br_local b) = Some ''session'' then Session_mode else Persistent_mode)"

definition getEncryptionKeyMaterial :: "env \<Rightarrow> crypto \<Rightarrow> browser \<Rightarrow> effects \<Rightarrow> string \<times> browser \<times> effects" where
  "getEncryptionKeyMaterial e cr b fx =
     (let session = getItem MATERIAL_KEY (br_session b);
          stored = getItem MATERIAL_KEY (br_local b);
          generate = (\<lambda>b. if br_local b \<noteq> None
            then (let (g, fx1) = generateLocalKeyMaterial e cr fx
                  in (g, b\<lparr>br_local := setItem MATERIAL_KEY g (br_local b)\<rparr>, fx1))
            else (case br_volatile b of
                    Some v \<Rightarrow> (v, b, fx)
                  | None \<Rightarrow> (let (g, fx1) = generateLocalKeyMaterial e cr fx in (g, b\<lparr>br_volatile := Some g\<rparr>, fx1))))
      in if truthy_opt session then (or_empty session, b, fx)
         else if truthy_opt stored
         then (if getEncryptionKeyMaterialStorageMode b = Session_mode \<and> isSyncKeyMaterial (or_empty stored)
               then generate (b\<lparr>br_local := removeItem MATERIAL_KEY (br_local b)\<rparr>)
               else (or_empty stored, b, fx))
         else generate b)"

definition mode_text :: "storage_mode \<Rightarrow> string" where
  "mode_text m = (case m of Session_mode \<Rightarrow> ''session'' | Persistent_mode \<Rightarrow> ''persistent'')"

definition setEncryptionKeyMaterialStorageMode :: "storage_mode \<Rightarrow> browser \<Rightarrow> browser" where
  "setEncryptionKeyMaterialStorageMode mode b =
     (let b1 = b\<lparr>br_local := setItem MODE_KEY (mode_text mode) (br_local b)\<rparr>;
          session = getItem MATERIAL_KEY (br_session b1);
          material = (if session \<noteq> None then session else getItem MATERIAL_KEY (br_local b1))
      in if \<not> truthy_opt material \<or> \<not> isSyncKeyMaterial (or_empty material) then b1
         else if mode = Session_mode
         then b1\<lparr>br_session := setItem MATERIAL_KEY (or_empty material) (br_session b1),
                 br_local := removeItem MATERIAL_KEY (br_local b1)\<rparr>
         else b1\<lparr>br_local := setItem MATERIAL_KEY (or_empty material) (br_local b1),
                 br_session := setItem MATERIAL_KEY (or_empty material) (br_session b1)\<rparr>)"

definition hasStoredEncryptionKeyMaterial :: "browser \<Rightarrow> bool" where
  "hasStoredEncryptionKeyMaterial b \<longleftrightarrow>
     (let session = getItem MATERIAL_KEY (br_session b);
          stored = (if session \<noteq> None then session else getItem MATERIAL_KEY (br_local b))
      in truthy_opt stored \<and> isSyncKeyMaterial (or_empty stored))"

definition clearStoredEncryptionKeyMaterial :: "browser \<Rightarrow> browser" where
  "clearStoredEncryptionKeyMaterial b =
     b\<lparr>br_local := removeItem MATERIAL_KEY (br_local b), br_session := removeItem MATERIAL_KEY (br_session b)\<rparr>"

definition commitEncryptionKeyMaterial :: "string \<Rightarrow> browser \<Rightarrow> browser" where
  "commitEncryptionKeyMaterial material b =
     (if isSyncKeyMaterial material
      then (let b1 = (if getEncryptionKeyMaterialStorageMode b = Persistent_mode
                      then b\<lparr>br_local := setItem MATERIAL_KEY material (br_local b)\<rparr>
                      else b\<lparr>br_local := removeItem MATERIAL_KEY (br_local b)\<rparr>)
            in b1\<lparr>br_session := setItem MATERIAL_KEY material (br_session b1)\<rparr>)
      else b\<lparr>br_session := removeItem MATERIAL_KEY (br_session b),
             br_local := setItem MATERIAL_KEY material (br_local b)\<rparr>)"

text \<open>\<open>prepareEncryptionPassword\<close>: which material to switch to after a sign-in.\<close>

definition prepareEncryptionPassword ::
  "env \<Rightarrow> crypto \<Rightarrow> string \<Rightarrow> string \<Rightarrow> string option \<Rightarrow> browser \<Rightarrow> effects \<Rightarrow>
     client_error + (string \<times> string) \<times> browser \<times> effects" where
  "prepareEncryptionPassword e cr username password e2eeKeyring b fx =
     (let (previous, b1, fx1) = getEncryptionKeyMaterial e cr b fx;
          passwordMaterial = keyMaterialFromPassword cr username password
      in if truthy_opt e2eeKeyring
         then and_then (unwrapKeyringMaterial cr (or_empty e2eeKeyring) passwordMaterial)
                (\<lambda>nextm. Inr ((previous, nextm), b1, fx1))
         else if map_option km_scope (parseKeyringMaterial previous) = Some Account_scope
         then Inr ((previous, previous), b1, fx1)
         else (let (k, fx2) = createKeyringMaterial e cr Account_scope (Some (normalizedUsername username)) [passwordMaterial] fx1
               in Inr ((previous, encodeKeyringMaterial k), b1, fx2)))"

section \<open>Lemmas\<close>

lemma getItem_setItem: "getItem j (setItem k v st) = (if st \<noteq> None \<and> j = k then Some v else getItem j st)"
  by (cases st) (auto simp: getItem_def setItem_def update_conv')

lemma getItem_removeItem: "getItem j (removeItem k st) = (if j = k then None else getItem j st)"
  by (cases st) (auto simp: getItem_def removeItem_def map_of_delete delete_conv')

lemma item_keys_differ [simp]: "MATERIAL_KEY \<noteq> MODE_KEY" "MODE_KEY \<noteq> MATERIAL_KEY"
  by (simp_all add: MATERIAL_KEY_def MODE_KEY_def)

text \<open>A browser in which account material does not outlive the session.\<close>

definition session_only :: "browser \<Rightarrow> bool" where
  "session_only b \<longleftrightarrow> (\<forall>m. getItem MATERIAL_KEY (br_local b) = Some m \<longrightarrow> \<not> isSyncKeyMaterial m)"

lemma mode_kept:
  "getItem MODE_KEY (br_local b') = getItem MODE_KEY (br_local b) \<Longrightarrow>
   getEncryptionKeyMaterialStorageMode b' = getEncryptionKeyMaterialStorageMode b"
  by (simp add: getEncryptionKeyMaterialStorageMode_def)

lemma commit_session_only:
  assumes "getEncryptionKeyMaterialStorageMode b = Session_mode"
  shows "session_only (commitEncryptionKeyMaterial m b)"
  using assms by (auto simp: session_only_def commitEncryptionKeyMaterial_def getItem_setItem getItem_removeItem Let_def split: if_splits)
    (auto simp: getItem_def split: bind_splits)

lemma commit_then_get:
  assumes "br_session b \<noteq> None" "br_local b \<noteq> None" "truthy m"
  shows "fst (getEncryptionKeyMaterial e cr (commitEncryptionKeyMaterial m b) fx) = m"
  using assms
  by (auto simp: commitEncryptionKeyMaterial_def getEncryptionKeyMaterial_def getItem_setItem getItem_removeItem
      Let_def getEncryptionKeyMaterialStorageMode_def split: if_splits)

end
