(* ===== verification/KeyTheorems.thy ===== *)
theory KeyTheorems
  imports KeyStorage
begin

text \<open>
  What the key ring functions guarantee: a key ring survives its text form, a wrapped key ring opens
  with the password and with the recovery code it was wrapped under, and new key material is always
  usable.
\<close>

section \<open>The text form\<close>

lemma all_some_map: "(\<And>x. x \<in> set xs \<Longrightarrow> f (g x) = Some x) \<Longrightarrow> all_some (map f (map g xs)) = Some xs"
  by (induction xs) auto

lemma key_of_json_round_trip: "key_of_json (json_of_key k) = Some k"
  by (cases "kk_status k") (simp_all add: key_of_json_def json_of_key_def)

lemma optional_prop_map_of [simp]: "map_of (optional_prop k v) j = (if j = k then v else None)"
  by (auto simp: optional_prop_def split: option.split)

lemma strs_of_strings: "strs_of (Some (JArr (map JStr xs))) = Some xs"
  unfolding strs_of_def by (simp add: all_some_map [where g = JStr, simplified] comp_def) (induction xs; simp)

lemma keyring_json_ok: "json_ok (json_of_keyring k)"
  by (auto simp: json_of_keyring_def optional_prop_def json_of_key_def split: option.split)

lemma keyring_of_json_round_trip: "keyring_of_json (json_of_keyring k) = Some k"
proof -
  have keys: "all_some (map key_of_json (map json_of_key (km_keys k))) = Some (km_keys k)"
    by (rule all_some_map) (rule key_of_json_round_trip)
  have sc: "scope_of (scope_text (km_scope k)) = Some (km_scope k)" by (cases "km_scope k") (simp_all add: scope_of_def)
  show ?thesis
    using keys by (cases "km_accountUsername k"; cases "km_legacyMaterials k")
      (simp_all add: keyring_of_json_def json_of_keyring_def optional_prop_def sc strs_of_strings strs_of_def [of None] del: map_map)
qed

lemma drop_prefix: "drop (length p) (p @ s) = s" "starts_with p (p @ s)"
  by (simp_all add: starts_with_def)

lemma parse_encoded: "validateKeyringMaterial k \<Longrightarrow> parseKeyringMaterial (encodeKeyringMaterial k) = Some k"
  by (simp add: parseKeyringMaterial_def encodeKeyringMaterial_def drop_prefix json_round_trip keyring_json_ok
      keyring_of_json_round_trip)

section \<open>New key material\<close>

lemma randomBytes_length: "randomBytes cr n fx = (bs, fx') \<Longrightarrow> length bs = n"
  by (auto simp: randomBytes_def)

lemma createKeyringMaterial_spec:
  assumes "createKeyringMaterial e cr scope user legacy fx = (k, fx')"
  shows "validateKeyringMaterial k" "km_scope k = scope" "length (km_keys k) = 1"
    "km_legacyMaterials k = (if legacy = [] then None else Some legacy)"
proof -
  obtain bytes fx1 where b: "randomBytes cr 32 (fx\<lparr>f_ticks := Suc (f_ticks fx)\<rparr>) = (bytes, fx1)" by fastforce
  obtain idb fx2 where i: "randomBytes cr 12 fx1 = (idb, fx2)" by fastforce
  show "validateKeyringMaterial k" "km_scope k = scope" "length (km_keys k) = 1"
    "km_legacyMaterials k = (if legacy = [] then None else Some legacy)"
    using assms randomBytes_length [OF b]
    by (auto simp: createKeyringMaterial_def nowIso_def randomDataKey_def b i Let_def validateKeyringMaterial_def)
qed

lemma local_material_not_sync:
  assumes "generateLocalKeyMaterial e cr fx = (g, fx')"
  shows "\<not> isSyncKeyMaterial g" "parseKeyringMaterial g \<noteq> None" "truthy g"
proof -
  obtain k where g: "g = encodeKeyringMaterial k" and k: "validateKeyringMaterial k" "km_scope k = Local_scope"
    using assms createKeyringMaterial_spec by (fastforce simp: generateLocalKeyMaterial_def split: prod.splits)
  have "hd (split_on (CHR '':'') g) = ''keyring''"
    unfolding g encodeKeyringMaterial_def KEYRING_MATERIAL_PREFIX_def by simp
  then have "\<not> isCurrentPasswordKeyMaterial g"
    by (auto simp: isCurrentPasswordKeyMaterial_def split: list.splits)
  then show "\<not> isSyncKeyMaterial g" by (simp add: isSyncKeyMaterial_def g parse_encoded [OF k(1)] k(2))
  show "parseKeyringMaterial g \<noteq> None" by (simp add: g parse_encoded [OF k(1)])
  show "truthy g" by (simp add: g encodeKeyringMaterial_def KEYRING_MATERIAL_PREFIX_def)
qed

lemma some_active_find:
  "some_active a ks \<Longrightarrow> find (\<lambda>k. kk_id k = a) ks \<noteq> None"
  by (induction ks) (auto split: if_splits option.splits)

section \<open>Wrapping\<close>

lemma box_round_trip:
  "validWrappedKeyringBox (json_of_box b) c = (if c \<noteq> None \<and> c \<noteq> Some (wb_context b) then None else Some b)"
  by (cases "wb_context b") (simp_all add: validWrappedKeyringBox_def json_of_box_def)

lemma box_json_ok: "json_ok (json_of_box b)"
  by (simp add: json_of_box_def)

lemma parse_wrapped:
  assumes "truthy (wk_activeKeyId w)" "wb_context (wk_passwordWrap w) = Password_context"
    and "\<And>r. wk_recoveryWrap w = Some r \<Longrightarrow> wb_context r = Recovery_context"
  shows "parseWrappedE2eeKeyring (stringify (json_of_wrapped w)) = Some w"
proof -
  have "json_ok (json_of_wrapped w)"
    by (auto simp: json_of_wrapped_def optional_prop_def box_json_ok split: option.split)
  then have "parse_json (stringify (json_of_wrapped w)) = Some (json_of_wrapped w)" by (rule json_round_trip)
  then show ?thesis using assms unfolding parseWrappedE2eeKeyring_def
    by (cases "wk_recoveryWrap w") (simp_all add: json_of_wrapped_def box_round_trip optional_prop_def)
qed

lemma wrap_box_spec:
  assumes ok: "crypto_ok cr" and run: "wrapKeyringBox cr material secret c fx = Inr (b, fx')"
  shows "wb_context b = c" "unwrapKeyringBox cr b secret = Inr material"
proof -
  have p: "parseKeyringMaterial material \<noteq> None" using run
    by (auto simp: wrapKeyringBox_def and_then_Inr requireKeyringMaterial_def split: option.splits)
  show "wb_context b = c" using run by (auto simp: wrapKeyringBox_def and_then_Inr split: prod.splits)
  show "unwrapKeyringBox cr b secret = Inr material"
    using run ok p by (auto simp: wrapKeyringBox_def and_then_Inr unwrapKeyringBox_def crypto_ok_def Let_def split: prod.splits)
qed

lemma wrapKeyringMaterial_spec:
  assumes ok: "crypto_ok cr" and run: "wrapKeyringMaterial e cr material pw code existing fx = Inr (w, fx')"
    and ex: "\<And>r. existing = Some r \<Longrightarrow> wb_context r = Recovery_context"
  shows "unwrapKeyringMaterial cr w pw = Inr material"
    and "\<exists>p. parseWrappedE2eeKeyring w = Some p \<and>
       (if truthy_opt code then \<exists>secret b. recoveryWrappingSecret (or_empty code) = Inr secret \<and> wk_recoveryWrap p = Some b \<and>
          unwrapKeyringBox cr b secret = Inr material
        else wk_recoveryWrap p = existing)"
proof -
  obtain k where k: "parseKeyringMaterial material = Some k" using run
    by (auto simp: wrapKeyringMaterial_def and_then_Inr requireKeyringMaterial_def split: option.splits)
  then have act: "truthy (km_activeKeyId k)"
    by (auto simp: parseKeyringMaterial_def validateKeyringMaterial_def truthy_def split: if_splits option.splits)
  define RW where "RW = (if truthy_opt code then and_then (recoveryWrappingSecret (or_empty code))
            (\<lambda>secret. and_then (wrapKeyringBox cr material secret Recovery_context fx) (\<lambda>(b, fx1). Inr (Some b, fx1)))
         else Inr (existing, fx))"
  have "and_then RW (\<lambda>(recoveryWrap, fx1). let (now, fx2) = nowIso e fx1
       in and_then (wrapKeyringBox cr material pw Password_context fx2) (\<lambda>(pw, fx3).
            Inr (stringify (json_of_wrapped \<lparr>wk_activeKeyId = km_activeKeyId k, wk_wrappedAt = now,
                   wk_passwordWrap = pw, wk_recoveryWrap = recoveryWrap\<rparr>), fx3))) = Inr (w, fx')"
    using run unfolding wrapKeyringMaterial_def requireKeyringMaterial_def k RW_def by simp
  then obtain rw fx1 now fx2 pwb fx3 where r: "RW = Inr (rw, fx1)"
    and pb: "wrapKeyringBox cr material pw Password_context fx2 = Inr (pwb, fx3)"
    and w: "w = stringify (json_of_wrapped \<lparr>wk_activeKeyId = km_activeKeyId k, wk_wrappedAt = now, wk_passwordWrap = pwb, wk_recoveryWrap = rw\<rparr>)"
    by (auto simp: and_then_Inr case_prod_beta Let_def)
  note r = r [unfolded RW_def]
  have rc: "wb_context b = Recovery_context" if "rw = Some b" for b
    using r that ex wrap_box_spec(1) [OF ok] by (auto simp: and_then_Inr split: if_splits)
  have parse: "parseWrappedE2eeKeyring w = Some \<lparr>wk_activeKeyId = km_activeKeyId k, wk_wrappedAt = now, wk_passwordWrap = pwb, wk_recoveryWrap = rw\<rparr>"
    unfolding w by (rule parse_wrapped) (use act rc wrap_box_spec(1) [OF ok pb] in simp_all)
  then show "unwrapKeyringMaterial cr w pw = Inr material"
    using wrap_box_spec(2) [OF ok pb] by (simp add: unwrapKeyringMaterial_def)
  show "\<exists>p. parseWrappedE2eeKeyring w = Some p \<and>
       (if truthy_opt code then \<exists>secret b. recoveryWrappingSecret (or_empty code) = Inr secret \<and> wk_recoveryWrap p = Some b \<and>
          unwrapKeyringBox cr b secret = Inr material
        else wk_recoveryWrap p = existing)"
    using parse r wrap_box_spec(2) [OF ok] by (cases "truthy_opt code") (auto simp: and_then_Inr)
qed


section \<open>Recovery codes\<close>

lemma b64_not_space: "c \<in> set (base64UrlEncode bs) \<Longrightarrow> \<not> js_space c"
proof -
  have "\<not> js_space (url_char n)" if n: "n < 64" for n
  proof (cases "b64_char n = CHR ''+'' \<or> b64_char n = CHR ''/''")
    case True
    then show ?thesis by (auto simp: url_char_def js_space_def)
  next
    case False
    have "b64_char n \<noteq> c" if "(of_char c :: nat) \<in> {9, 10, 11, 12, 13, 32, 160}" for c
      using that of_char_b64 [OF n] n by (auto split: if_splits)
    with False show ?thesis by (simp add: url_char_def js_space_def)
  qed
  then show "c \<in> set (base64UrlEncode bs) \<Longrightarrow> \<not> js_space c"
    using sextets_less by (auto simp: base64UrlEncode_sextets)
qed

lemma recovery_code_secret:
  assumes "generateRecoveryCode cr fx = (code, fx')"
  shows "recoveryWrappingSecret code = Inr code" "truthy code"
proof -
  obtain bs fx1 where b: "randomBytes cr 32 fx = (bs, fx1)" by fastforce
  then have code: "code = RECOVERY_CODE_PREFIX @ base64UrlEncode bs" and len: "bs \<noteq> []"
    using assms randomBytes_length [OF b] by (auto simp: generateRecoveryCode_def)
  have "base64UrlEncode bs \<noteq> []" using len by (simp add: base64UrlEncode_Nil_iff)
  then have "trim code = code"
    by (intro trim_id) (auto simp: code RECOVERY_CODE_PREFIX_def js_space_def dest: b64_not_space [OF last_in_set])
  then show "recoveryWrappingSecret code = Inr code"
    by (simp add: recoveryWrappingSecret_def) (simp add: code drop_prefix)
  show "truthy code" by (simp add: code RECOVERY_CODE_PREFIX_def)
qed

section \<open>Properties\<close>

text \<open>
  A valid key ring is read back from its text form unchanged: the JSON text, its UTF-8 bytes and
  their URL-safe Base64 all decode to what was encoded.
\<close>

lemma keyring_text_round_trip:
  assumes "validateKeyringMaterial k"
  shows "parseKeyringMaterial (encodeKeyringMaterial k) = Some k"
  using assms by (rule parse_encoded)

text \<open>A cipher that satisfies \<open>crypto_ok\<close>: sixteen zero bytes and the text.\<close>

definition plain_crypto :: crypto where
  "plain_crypto = \<lparr>cp_encrypt = (\<lambda>k iv aad p. replicate 16 0 @ p),
     cp_decrypt = (\<lambda>k iv aad c. if take 16 c = replicate 16 0 then Some (drop 16 c) else None),
     cp_sha256 = (\<lambda>bs. take 32 (bs @ replicate 32 0)), cp_hmac = (\<lambda>k m. m), cp_argon2id = (\<lambda>p s. p @ s),
     cp_random = (\<lambda>k j. of_nat (7 * k + j + 1))\<rparr>"

lemma plain_crypto_ok: "crypto_ok plain_crypto"
  by (simp add: crypto_ok_def plain_crypto_def)

definition start_effects :: effects where
  "start_effects = \<lparr>f_ticks = 0, f_rands = 0, f_fresh = 0\<rparr>"

lemma keyring_text_round_trip_witness:
  "\<exists>k. validateKeyringMaterial k \<and> parseKeyringMaterial (encodeKeyringMaterial k) = Some k"
proof -
  define e where "e = \<lparr>date_parse = (\<lambda>_. None), locale_compare = (\<lambda>_ _. 0), clock = int, uuid = (\<lambda>_. ''u'')\<rparr>"
  obtain k fx where "createKeyringMaterial e plain_crypto Account_scope (Some ''ann'') [] start_effects = (k, fx)" by fastforce
  from createKeyringMaterial_spec(1) [OF this] show ?thesis using keyring_text_round_trip by blast
qed

lemma wrapKeyringBox_total:
  "parseKeyringMaterial material \<noteq> None \<Longrightarrow> \<exists>b fx'. wrapKeyringBox cr material secret c fx = Inr (b, fx')"
  by (auto simp: wrapKeyringBox_def requireKeyringMaterial_def Let_def split: prod.splits)

lemma wrapKeyringMaterial_total:
  assumes "parseKeyringMaterial material \<noteq> None" "truthy code" "recoveryWrappingSecret code = Inr secret"
  shows "\<exists>w fx'. wrapKeyringMaterial e cr material pw (Some code) None fx = Inr (w, fx')"
proof -
  obtain k where "parseKeyringMaterial material = Some k" using assms(1) by blast
  moreover obtain b fx1 where "wrapKeyringBox cr material secret Recovery_context fx = Inr (b, fx1)"
    using wrapKeyringBox_total [OF assms(1)] by blast
  moreover obtain now fx2 where "nowIso e fx1 = (now, fx2)" by fastforce
  moreover obtain b2 fx3 where "wrapKeyringBox cr material pw Password_context fx2 = Inr (b2, fx3)"
    using wrapKeyringBox_total [OF assms(1)] by blast
  ultimately show ?thesis using assms(2,3)
    by (simp add: wrapKeyringMaterial_def requireKeyringMaterial_def)
qed

text \<open>
  C24. Preparing the key ring of a new account always succeeds; the wrapped ring the server keeps opens
  with the password, the kit the user keeps opens with the recovery code, both give back exactly
  the key material in use, and that material has one active 32-byte key and counts as account
  material.
\<close>

theorem new_account_keyring_opens:
  assumes ok: "crypto_ok cr"
  shows "\<exists>a fx'. prepareNewAccountKeyring e cr username password fx = Inr (a, fx') \<and>
    keyringMaterialFromWrapped cr (ak_e2eeKeyring a) username password = Inr (ak_keyMaterial a) \<and>
    restoreKeyringFromRecoveryKit cr (ak_recoveryKit a) (ak_recoveryCode a) = Inr (ak_keyMaterial a) \<and>
    isSyncKeyMaterial (ak_keyMaterial a) \<and>
    (\<exists>d raw. activeEncryptionDescriptor (ak_keyMaterial a) = Inr d \<and> ds_rawKey d = Some raw \<and> length raw = 32)"
proof -
  obtain k fx1 where k: "createKeyringMaterial e cr Account_scope (Some (normalizedUsername username)) [] fx = (k, fx1)" by fastforce
  note ks = createKeyringMaterial_spec [OF k]
  define m where "m = encodeKeyringMaterial k"
  have pm: "parseKeyringMaterial m = Some k" using ks(1) by (simp add: m_def parse_encoded)
  obtain code fx2 where c: "generateRecoveryCode cr fx1 = (code, fx2)" by fastforce
  note cs = recovery_code_secret [OF c]
  let ?pw = "keyMaterialFromPassword cr username password"
  obtain w fx3 where w: "wrapKeyringMaterial e cr m ?pw (Some code) None fx2 = Inr (w, fx3)"
    using wrapKeyringMaterial_total [OF _ cs(2,1), of m] pm by blast
  obtain b fx4 where b: "wrapKeyringBox cr m code Recovery_context fx3 = Inr (b, fx4)"
    using wrapKeyringBox_total [of m] pm by blast
  obtain now fx5 where n: "nowIso e fx4 = (now, fx5)" by fastforce
  define a where "a = \<lparr>ak_keyMaterial = m, ak_e2eeKeyring = w, ak_recoveryCode = code,
      ak_recoveryKit = \<lparr>rk_createdAt = now, rk_recoveryWrap = b, rk_keyHint = km_activeKeyId k\<rparr>\<rparr>"
  have "prepareNewAccountKeyring e cr username password fx = Inr (a, fx5)"
    by (simp add: prepareNewAccountKeyring_def k m_def [symmetric] c w createRecoveryKit_def requireKeyringMaterial_def pm cs b n a_def)
  moreover have "keyringMaterialFromWrapped cr (ak_e2eeKeyring a) username password = Inr (ak_keyMaterial a)"
    using wrapKeyringMaterial_spec(1) [OF ok w] by (simp add: a_def keyringMaterialFromWrapped_def)
  moreover have "restoreKeyringFromRecoveryKit cr (ak_recoveryKit a) (ak_recoveryCode a) = Inr (ak_keyMaterial a)"
    using wrap_box_spec(2) [OF ok b] by (simp add: a_def restoreKeyringFromRecoveryKit_def cs)
  moreover have "isSyncKeyMaterial (ak_keyMaterial a)"
    by (simp add: a_def isSyncKeyMaterial_def pm ks(2))
  moreover have "\<exists>d raw. activeEncryptionDescriptor m = Inr d \<and> ds_rawKey d = Some raw \<and> length raw = 32"
  proof -
    obtain key where keys: "km_keys k = [key]" using ks(3) by (cases "km_keys k") auto
    with ks(1) show ?thesis
      by (auto simp: activeEncryptionDescriptor_def pm validateKeyringMaterial_def split: if_splits option.splits)
  qed
  ultimately show ?thesis by (auto simp: a_def)
qed

theorem new_account_keyring_opens_witness:
  "\<exists>e a fx'. prepareNewAccountKeyring e plain_crypto ''Ann'' ''secret'' start_effects = Inr (a, fx') \<and>
     keyringMaterialFromWrapped plain_crypto (ak_e2eeKeyring a) ''Ann'' ''secret'' = Inr (ak_keyMaterial a)"
  using new_account_keyring_opens [OF plain_crypto_ok, of undefined "''Ann''" "''secret''" start_effects] by blast

end
