(* ===== verification/Encryption.thy ===== *)
theory Encryption
  imports Keyring
begin

text \<open>
  Encrypted fields (\<open>apps/web/src/lib/client/encryption-fields.ts\<close>) and the encryption of stored
  conflicts (\<open>conflict-crypto.ts\<close>). The functions take the key material that
  \<open>getEncryptionKeyMaterial()\<close> returns as an argument and thread the effects: every encryption draws a
  fresh initialisation vector. Functions on notes and notebooks are polymorphic in the record
  extension, as in the source (\<open><T extends Note>\<close>).
\<close>

section \<open>Envelopes\<close>

definition ENCRYPTION_PREFIX :: string where
  "ENCRYPTION_PREFIX = ''enc:v4:''"

definition HASH_V3_PREFIX :: string where
  "HASH_V3_PREFIX = ''hash:v3:''"

definition NOTEBOOK_NAME_HASH_CONTEXT :: string where
  "NOTEBOOK_NAME_HASH_CONTEXT = ''notebook:name''"

definition envelope_of :: "encryption_version \<Rightarrow> string option \<Rightarrow> string \<Rightarrow> string \<Rightarrow> encryption_envelope option" where
  "envelope_of version keyId iv_text ct_text =
     (case (base64UrlDecode iv_text, base64UrlDecode ct_text) of
        (Some iv, Some ct) \<Rightarrow>
          if length iv \<noteq> 12 \<or> length ct < 16 then None
          else Some \<lparr>ev_version = version, ev_keyId = keyId, ev_iv = iv, ev_ciphertext = ct\<rparr>
      | _ \<Rightarrow> None)"

definition encryptedEnvelope :: "string \<Rightarrow> encryption_envelope option" where
  "encryptedEnvelope v =
     (case split_on (CHR '':'') v of
        [p0, p1, p2, p3, p4] \<Rightarrow>
          if p0 = ''enc'' \<and> p1 = ''v4'' \<and> truthy p2 \<and> truthy p3 \<and> truthy p4
          then envelope_of V4 (Some p2) p3 p4 else None
      | [p0, p1, p2, p3] \<Rightarrow>
          if p0 = ''enc'' \<and> p1 = ''v3'' \<and> truthy p2 \<and> truthy p3
          then envelope_of V3 None p2 p3 else None
      | _ \<Rightarrow> None)"

definition isEncryptedText :: "string \<Rightarrow> bool" where
  "isEncryptedText v \<longleftrightarrow> encryptedEnvelope v \<noteq> None"

definition isCurrentEncryptedText :: "string \<Rightarrow> bool" where
  "isCurrentEncryptedText v \<longleftrightarrow> map_option ev_version (encryptedEnvelope v) = Some V4"

text \<open>The regular expression \<open>/^enc:v\d+:/\<close>.\<close>

definition looks_encrypted :: "string \<Rightarrow> bool" where
  "looks_encrypted v \<longleftrightarrow> starts_with ''enc:v'' v \<and>
     (let r = drop 5 v; ds = takeWhile is_digit r; t = dropWhile is_digit r
      in ds \<noteq> [] \<and> t \<noteq> [] \<and> hd t = CHR '':'')"

definition isUnsupportedEncryptedText :: "string \<Rightarrow> bool" where
  "isUnsupportedEncryptedText v \<longleftrightarrow> looks_encrypted v \<and> encryptedEnvelope v = None"

definition isCurrentFieldHash :: "string option \<Rightarrow> bool" where
  "isCurrentFieldHash v \<longleftrightarrow> (case v of None \<Rightarrow> False | Some h \<Rightarrow> starts_with HASH_V3_PREFIX h)"

definition notebookNameContext :: "string \<Rightarrow> string" where
  "notebookNameContext i = ''notebook:'' @ i @ '':name''"

section \<open>Texts\<close>

definition aad :: "encryption_version \<Rightarrow> string \<Rightarrow> string \<Rightarrow> byte list" where
  "aad version keyId context =
     utf8_encode (case version of
        V4 \<Rightarrow> ''author:encrypted-field:v4:'' @ keyId @ '':'' @ context
      | V3 \<Rightarrow> ''author:encrypted-field:v3:'' @ context)"

definition encryptionKey :: "crypto \<Rightarrow> key_descriptor \<Rightarrow> byte list" where
  "encryptionKey cr d =
     (case ds_rawKey d of
        Some raw \<Rightarrow> raw
      | None \<Rightarrow> cp_sha256 cr (utf8_encode (case ds_version d of
            V3 \<Rightarrow> ''author:encryption:v3:'' @ or_empty (ds_directMaterial d)
          | V4 \<Rightarrow> ''author:encryption:v4:'' @ ds_keyId d @ '':'' @ or_empty (ds_directMaterial d))))"

definition decrypt_with :: "crypto \<Rightarrow> encryption_envelope \<Rightarrow> string \<Rightarrow> key_descriptor \<Rightarrow> string option" where
  "decrypt_with cr ev context d =
     Option.bind (cp_decrypt cr (encryptionKey cr d) (ev_iv ev) (aad (ev_version ev) (ds_keyId d) context) (ev_ciphertext ev))
       utf8_decode"

definition canDecryptEnvelopeWithDescriptor :: "crypto \<Rightarrow> encryption_envelope \<Rightarrow> key_descriptor \<Rightarrow> string \<Rightarrow> bool" where
  "canDecryptEnvelopeWithDescriptor cr ev d context \<longleftrightarrow>
     cp_decrypt cr (encryptionKey cr d) (ev_iv ev) (aad (ev_version ev) (ds_keyId d) context) (ev_ciphertext ev) \<noteq> None"

definition canDecryptEncryptedText :: "crypto \<Rightarrow> string \<Rightarrow> string \<Rightarrow> string \<Rightarrow> client_error + bool" where
  "canDecryptEncryptedText cr v material context =
     (case encryptedEnvelope v of
        None \<Rightarrow> Inr False
      | Some ev \<Rightarrow> and_then (decryptionDescriptors material ev)
          (\<lambda>ds. Inr (\<exists>d \<in> set ds. canDecryptEnvelopeWithDescriptor cr ev d context)))"

definition canDecryptEncryptedTextWithPrimaryMaterial :: "crypto \<Rightarrow> string \<Rightarrow> string \<Rightarrow> string \<Rightarrow> client_error + bool" where
  "canDecryptEncryptedTextWithPrimaryMaterial cr v material context =
     (case encryptedEnvelope v of
        None \<Rightarrow> Inr False
      | Some ev \<Rightarrow>
          if ev_version ev \<noteq> V4 then Inr False
          else and_then (activeEncryptionDescriptor material)
            (\<lambda>active. if ev_keyId ev \<noteq> Some (ds_keyId active) then Inr False
                      else Inr (canDecryptEnvelopeWithDescriptor cr ev active context)))"

definition encryptText :: "crypto \<Rightarrow> string \<Rightarrow> string \<Rightarrow> string \<Rightarrow> effects \<Rightarrow> client_error + string \<times> effects" where
  "encryptText cr v material context fx =
     (if isUnsupportedEncryptedText v then Inl Unsupported_field_version
      else and_then (canDecryptEncryptedTextWithPrimaryMaterial cr v material context) (\<lambda>already.
        if already then Inr (v, fx)
        else and_then (activeEncryptionDescriptor material) (\<lambda>d.
          let (iv, fx1) = encryptionIv cr fx;
              encrypted = cp_encrypt cr (encryptionKey cr d) iv (aad V4 (ds_keyId d) context) (utf8_encode v)
          in Inr (ENCRYPTION_PREFIX @ ds_keyId d @ '':'' @ base64UrlEncode iv @ '':'' @ base64UrlEncode encrypted, fx1))))"

primrec first_decryption :: "crypto \<Rightarrow> encryption_envelope \<Rightarrow> string \<Rightarrow> key_descriptor list \<Rightarrow> string option" where
  "first_decryption cr ev context [] = None"
| "first_decryption cr ev context (d # ds) =
     (case decrypt_with cr ev context d of Some s \<Rightarrow> Some s | None \<Rightarrow> first_decryption cr ev context ds)"

definition decryptText :: "crypto \<Rightarrow> string \<Rightarrow> string \<Rightarrow> string \<Rightarrow> client_error + string" where
  "decryptText cr v material context =
     (case encryptedEnvelope v of
        None \<Rightarrow> if isUnsupportedEncryptedText v then Inl Unsupported_field_version else Inr v
      | Some ev \<Rightarrow> and_then (decryptionDescriptors material ev)
          (\<lambda>ds. case first_decryption cr ev context ds of Some s \<Rightarrow> Inr s | None \<Rightarrow> Inl Decrypt_failed))"

definition fieldHash :: "crypto \<Rightarrow> string \<Rightarrow> string \<Rightarrow> string \<Rightarrow> client_error + string" where
  "fieldHash cr v material context =
     and_then (fieldHashKey material)
       (\<lambda>k. Inr (HASH_V3_PREFIX @ base64UrlEncode (cp_hmac cr k (utf8_encode (context @ nul @ v)))))"

section \<open>Notes and notebooks\<close>

definition titleContext :: "string \<Rightarrow> string" where
  "titleContext i = ''note:'' @ i @ '':title''"

definition bodyContext :: "string \<Rightarrow> string" where
  "bodyContext i = ''note:'' @ i @ '':body''"

text \<open>The plain text of a field that is not yet encrypted under the active key (\<open>null\<close> otherwise).\<close>

definition plain_field :: "crypto \<Rightarrow> bool \<Rightarrow> string \<Rightarrow> string \<Rightarrow> string \<Rightarrow> client_error + string option" where
  "plain_field cr already v material context =
     (if already then Inr None else and_then (decryptText cr v material context) (\<lambda>p. Inr (Some p)))"

text \<open>\<open>already && isCurrentFieldHash(h) ? h : fieldHash(plain ?? value)\<close>.\<close>

definition field_hash :: "crypto \<Rightarrow> bool \<Rightarrow> string option \<Rightarrow> string \<Rightarrow> string \<Rightarrow> string \<Rightarrow> client_error + string option" where
  "field_hash cr already h v material context =
     (if already \<and> isCurrentFieldHash h then Inr h
      else and_then (fieldHash cr v material context) (\<lambda>x. Inr (Some x)))"

definition encrypt_field :: "crypto \<Rightarrow> bool \<Rightarrow> string option \<Rightarrow> string \<Rightarrow> string \<Rightarrow> string \<Rightarrow> effects \<Rightarrow> client_error + string \<times> effects" where
  "encrypt_field cr already plain v material context fx =
     (if already then Inr (v, fx)
      else encryptText cr (case plain of Some p \<Rightarrow> p | None \<Rightarrow> v) material context fx)"

definition or_field :: "string option \<Rightarrow> string \<Rightarrow> string" where
  "or_field plain v = (case plain of Some p \<Rightarrow> p | None \<Rightarrow> v)"

definition encryptNoteFields :: "crypto \<Rightarrow> string \<Rightarrow> 'a Note_scheme \<Rightarrow> effects \<Rightarrow> client_error + 'a Note_scheme \<times> effects" where
  "encryptNoteFields cr material n fx =
     (let tc = titleContext (n_id n); bc = bodyContext (n_id n)
      in and_then (canDecryptEncryptedTextWithPrimaryMaterial cr (n_title n) material tc) (\<lambda>titleAlready.
         and_then (canDecryptEncryptedTextWithPrimaryMaterial cr (n_body n) material bc) (\<lambda>bodyAlready.
         and_then (plain_field cr titleAlready (n_title n) material tc) (\<lambda>plainTitle.
         and_then (plain_field cr bodyAlready (n_body n) material bc) (\<lambda>plainBody.
         and_then (field_hash cr titleAlready (n_titleHash n) (or_field plainTitle (n_title n)) material tc) (\<lambda>titleHash.
         and_then (field_hash cr bodyAlready (n_bodyHash n) (or_field plainBody (n_body n)) material bc) (\<lambda>bodyHash.
         and_then (encrypt_field cr titleAlready plainTitle (n_title n) material tc fx) (\<lambda>(title, fx1).
         and_then (encrypt_field cr bodyAlready plainBody (n_body n) material bc fx1) (\<lambda>(body, fx2).
           Inr (n\<lparr>n_titleHash := titleHash, n_bodyHash := bodyHash, n_title := title, n_body := body\<rparr>, fx2))))))))))"

definition decryptNoteFields :: "crypto \<Rightarrow> string \<Rightarrow> 'a Note_scheme \<Rightarrow> client_error + 'a Note_scheme" where
  "decryptNoteFields cr material n =
     and_then (decryptText cr (n_title n) material (titleContext (n_id n))) (\<lambda>title.
     and_then (decryptText cr (n_body n) material (bodyContext (n_id n))) (\<lambda>body.
       Inr (n\<lparr>n_title := title, n_body := body\<rparr>)))"

definition reencryptNoteFields ::
  "crypto \<Rightarrow> 'a Note_scheme \<Rightarrow> string \<Rightarrow> string \<Rightarrow> effects \<Rightarrow> client_error + 'a Note_scheme \<times> effects" where
  "reencryptNoteFields cr n previousMaterial nextMaterial fx =
     and_then (decryptNoteFields cr previousMaterial n) (\<lambda>p. encryptNoteFields cr nextMaterial p fx)"

definition normalizeNotebookName :: "string \<Rightarrow> string" where
  "normalizeNotebookName name = to_lower (trim name)"

definition decryptNotebookName :: "crypto \<Rightarrow> string \<Rightarrow> 'a Notebook_scheme \<Rightarrow> client_error + string" where
  "decryptNotebookName cr material nb = decryptText cr (nb_name nb) material (notebookNameContext (nb_id nb))"

definition encryptNotebookFields :: "crypto \<Rightarrow> string \<Rightarrow> 'a Notebook_scheme \<Rightarrow> effects \<Rightarrow> client_error + 'a Notebook_scheme \<times> effects" where
  "encryptNotebookFields cr material nb fx =
     (let nc = notebookNameContext (nb_id nb)
      in and_then (canDecryptEncryptedTextWithPrimaryMaterial cr (nb_name nb) material nc) (\<lambda>already.
         and_then (plain_field cr already (nb_name nb) material nc) (\<lambda>plainName.
         and_then (field_hash cr already (nb_nameHash nb) (normalizeNotebookName (or_field plainName (nb_name nb))) material
                     NOTEBOOK_NAME_HASH_CONTEXT) (\<lambda>nameHash.
         and_then (encrypt_field cr already plainName (nb_name nb) material nc fx) (\<lambda>(name, fx1).
           Inr (nb\<lparr>nb_nameHash := nameHash, nb_name := name\<rparr>, fx1))))))"

definition decryptNotebookFields :: "crypto \<Rightarrow> string \<Rightarrow> 'a Notebook_scheme \<Rightarrow> client_error + 'a Notebook_scheme" where
  "decryptNotebookFields cr material nb =
     and_then (decryptNotebookName cr material nb) (\<lambda>name. Inr (nb\<lparr>nb_name := name\<rparr>))"

definition reencryptNotebookFields ::
  "crypto \<Rightarrow> 'a Notebook_scheme \<Rightarrow> string \<Rightarrow> string \<Rightarrow> effects \<Rightarrow> client_error + 'a Notebook_scheme \<times> effects" where
  "reencryptNotebookFields cr nb previousMaterial nextMaterial fx =
     and_then (decryptNotebookFields cr previousMaterial nb) (\<lambda>p. encryptNotebookFields cr nextMaterial p fx)"

section \<open>Conflicts\<close>

text \<open>The four records of a conflict are decrypted before the two are encrypted again.\<close>

fun encryptConflictForStorage :: "crypto \<Rightarrow> string \<Rightarrow> any_conflict \<Rightarrow> effects \<Rightarrow> client_error + any_conflict \<times> effects" where
  "encryptConflictForStorage cr material (NoteConflict c) fx =
     and_then (decryptNoteFields cr material (cv_record (sc_local c))) (\<lambda>localPlain.
     and_then (decryptNoteFields cr material (cv_record (sc_remote c))) (\<lambda>remotePlain.
     and_then (encryptNoteFields cr material localPlain fx) (\<lambda>(localRecord, fx1).
     and_then (encryptNoteFields cr material remotePlain fx1) (\<lambda>(remoteRecord, fx2).
       Inr (NoteConflict (c\<lparr>sc_local := (sc_local c)\<lparr>cv_previewText := [], cv_record := localRecord\<rparr>,
                            sc_remote := (sc_remote c)\<lparr>cv_previewText := [], cv_record := remoteRecord\<rparr>\<rparr>), fx2)))))"
| "encryptConflictForStorage cr material (NotebookConflict c) fx =
     and_then (decryptNotebookFields cr material (cv_record (sc_local c))) (\<lambda>localPlain.
     and_then (decryptNotebookFields cr material (cv_record (sc_remote c))) (\<lambda>remotePlain.
     and_then (encryptNotebookFields cr material localPlain fx) (\<lambda>(localRecord, fx1).
     and_then (encryptNotebookFields cr material remotePlain fx1) (\<lambda>(remoteRecord, fx2).
       Inr (NotebookConflict (c\<lparr>sc_local := (sc_local c)\<lparr>cv_previewText := [], cv_record := localRecord\<rparr>,
                                sc_remote := (sc_remote c)\<lparr>cv_previewText := [], cv_record := remoteRecord\<rparr>\<rparr>), fx2)))))"

fun decryptConflictForDisplay :: "crypto \<Rightarrow> string \<Rightarrow> any_conflict \<Rightarrow> client_error + any_conflict" where
  "decryptConflictForDisplay cr material (NoteConflict c) =
     and_then (decryptNoteFields cr material (cv_record (sc_local c))) (\<lambda>l.
     and_then (decryptNoteFields cr material (cv_record (sc_remote c))) (\<lambda>r.
       Inr (NoteConflict (c\<lparr>sc_local := (sc_local c)\<lparr>cv_previewText := previewNote l, cv_record := l\<rparr>,
                            sc_remote := (sc_remote c)\<lparr>cv_previewText := previewNote r, cv_record := r\<rparr>\<rparr>))))"
| "decryptConflictForDisplay cr material (NotebookConflict c) =
     and_then (decryptNotebookFields cr material (cv_record (sc_local c))) (\<lambda>l.
     and_then (decryptNotebookFields cr material (cv_record (sc_remote c))) (\<lambda>r.
       Inr (NotebookConflict (c\<lparr>sc_local := (sc_local c)\<lparr>cv_previewText := previewNotebook l, cv_record := l\<rparr>,
                                sc_remote := (sc_remote c)\<lparr>cv_previewText := previewNotebook r, cv_record := r\<rparr>\<rparr>))))"

definition reencryptConflictForStorage ::
  "crypto \<Rightarrow> any_conflict \<Rightarrow> string \<Rightarrow> string \<Rightarrow> effects \<Rightarrow> client_error + any_conflict \<times> effects" where
  "reencryptConflictForStorage cr c previousMaterial nextMaterial fx =
     and_then (decryptConflictForDisplay cr previousMaterial c) (\<lambda>p. encryptConflictForStorage cr nextMaterial p fx)"

end
