(* ===== verification/EncTheorems.thy ===== *)
theory EncTheorems
  imports Encryption KeyTheorems
begin

text \<open>
  What field encryption guarantees: encrypted fields decrypt to what was typed, encrypting again
  changes nothing, and the keyed hashes let the server compare encrypted records as if they were
  plain.
\<close>

section \<open>Splitting an envelope\<close>

lemma split_on_plain: "c \<notin> set s \<Longrightarrow> split_on c s = [s]"
  by (induction s) auto

lemma split_on_append: "c \<notin> set s \<Longrightarrow> split_on c (s @ c # t) = s # split_on c t"
  by (induction s) auto

lemma envelope_text:
  assumes "CHR '':'' \<notin> set kid" "truthy kid" "length iv = 12" "16 \<le> length ct"
  shows "encryptedEnvelope (ENCRYPTION_PREFIX @ kid @ '':'' @ base64UrlEncode iv @ '':'' @ base64UrlEncode ct) =
    Some \<lparr>ev_version = V4, ev_keyId = Some kid, ev_iv = iv, ev_ciphertext = ct\<rparr>"
proof -
  have c: "CHR '':'' \<notin> set (base64UrlEncode bs)" for bs using base64UrlEncode_chars by blast
  have t: "truthy (base64UrlEncode iv)" "truthy (base64UrlEncode ct)"
    using assms(3,4) by (auto simp: truthy_def base64UrlEncode_Nil_iff)
  have "split_on (CHR '':'') (ENCRYPTION_PREFIX @ kid @ '':'' @ base64UrlEncode iv @ '':'' @ base64UrlEncode ct) =
    [''enc'', ''v4'', kid, base64UrlEncode iv, base64UrlEncode ct]"
    using assms(1) c by (simp add: ENCRYPTION_PREFIX_def split_on_append split_on_plain)
  then show ?thesis using assms t by (simp add: encryptedEnvelope_def envelope_of_def)
qed

section \<open>Usable key material\<close>

text \<open>The active key has an identifier that can stand in an envelope.\<close>

definition usable_material :: "string \<Rightarrow> bool" where
  "usable_material material \<longleftrightarrow>
     (case activeEncryptionDescriptor material of
        Inl _ \<Rightarrow> False
      | Inr d \<Rightarrow> CHR '':'' \<notin> set (ds_keyId d) \<and> truthy (ds_keyId d))"

lemma descriptor_found:
  assumes act: "activeEncryptionDescriptor material = Inr d" and ev: "ev_version ev = V4" "ev_keyId ev = Some (ds_keyId d)"
  shows "decryptionDescriptors material ev = Inr [d]"
proof (cases "parseKeyringMaterial material")
  case None
  then show ?thesis using act ev by (auto simp: activeEncryptionDescriptor_def decryptionDescriptors_def directDescriptor_def)
next
  case (Some k)
  then obtain key raw where f: "find (\<lambda>key. kk_id key = km_activeKeyId k) (km_keys k) = Some key"
    and r: "base64UrlDecode (kk_material key) = Some raw" "length raw = 32"
    and d: "d = \<lparr>ds_version = V4, ds_keyId = kk_id key, ds_rawKey = Some raw, ds_directMaterial = None\<rparr>"
    using act by (auto simp: activeEncryptionDescriptor_def split: option.splits if_splits)
  have "kk_id key = km_activeKeyId k" using f by (auto simp: find_Some_iff)
  then have "find (\<lambda>key. Some (kk_id key) = ev_keyId ev) (km_keys k) = Some key" using f ev(2) d by simp
  then show ?thesis by (simp add: decryptionDescriptors_def Some ev r d)
qed

text \<open>What \<open>encryptText\<close> produces for a text that is not an envelope itself.\<close>

definition plain_text :: "string \<Rightarrow> bool" where
  "plain_text v \<longleftrightarrow> encryptedEnvelope v = None \<and> \<not> looks_encrypted v"

definition sealed :: "crypto \<Rightarrow> string \<Rightarrow> string \<Rightarrow> string \<Rightarrow> string \<Rightarrow> bool" where
  "sealed cr material context v c \<longleftrightarrow>
     canDecryptEncryptedTextWithPrimaryMaterial cr c material context = Inr True \<and> decryptText cr c material context = Inr v"

lemma encryptText_plain:
  assumes ok: "crypto_ok cr" and mat: "usable_material material" and pl: "plain_text v"
  shows "\<exists>c fx'. encryptText cr v material context fx = Inr (c, fx') \<and> sealed cr material context v c"
proof -
  obtain d where d: "activeEncryptionDescriptor material = Inr d" and kid: "CHR '':'' \<notin> set (ds_keyId d)" "truthy (ds_keyId d)"
    using mat by (auto simp: usable_material_def split: sum.splits)
  obtain iv fx1 where iv: "encryptionIv cr fx = (iv, fx1)" by fastforce
  then have len: "length iv = 12" by (simp add: encryptionIv_def randomBytes_length)
  define ct where "ct = cp_encrypt cr (encryptionKey cr d) iv (aad V4 (ds_keyId d) context) (utf8_encode v)"
  define c where "c = ENCRYPTION_PREFIX @ ds_keyId d @ '':'' @ base64UrlEncode iv @ '':'' @ base64UrlEncode ct"
  have lct: "16 \<le> length ct" using ok by (simp add: ct_def crypto_ok_def)
  have ev: "encryptedEnvelope c = Some \<lparr>ev_version = V4, ev_keyId = Some (ds_keyId d), ev_iv = iv, ev_ciphertext = ct\<rparr>"
    unfolding c_def by (rule envelope_text [OF kid len lct])
  have dec: "cp_decrypt cr (encryptionKey cr d) iv (aad V4 (ds_keyId d) context) ct = Some (utf8_encode v)"
    using ok by (simp add: ct_def crypto_ok_def)
  have "encryptText cr v material context fx = Inr (c, fx1)"
    using pl by (simp add: encryptText_def plain_text_def isUnsupportedEncryptedText_def
        canDecryptEncryptedTextWithPrimaryMaterial_def d iv c_def ct_def)
  moreover have "sealed cr material context v c"
    by (simp add: sealed_def canDecryptEncryptedTextWithPrimaryMaterial_def ev d canDecryptEnvelopeWithDescriptor_def dec
        decryptText_def descriptor_found [OF d] decrypt_with_def)
  ultimately show ?thesis by blast
qed

lemma fieldHash_total: "usable_material material \<Longrightarrow> \<exists>h. fieldHash cr v material context = Inr h \<and> starts_with HASH_V3_PREFIX h"
  by (auto simp: usable_material_def fieldHash_def fieldHashKey_def drop_prefix split: sum.splits)

lemma plain_text_decrypts: "plain_text v \<Longrightarrow> decryptText cr v material context = Inr v"
  by (simp add: plain_text_def decryptText_def isUnsupportedEncryptedText_def)

lemma plain_text_not_sealed: "plain_text v \<Longrightarrow> canDecryptEncryptedTextWithPrimaryMaterial cr v material context = Inr False"
  by (simp add: plain_text_def canDecryptEncryptedTextWithPrimaryMaterial_def)

section \<open>Notes\<close>

definition plain_note :: "'a Note_scheme \<Rightarrow> bool" where
  "plain_note n \<longleftrightarrow> plain_text (n_title n) \<and> plain_text (n_body n)"

definition note_hashes :: "crypto \<Rightarrow> string \<Rightarrow> string \<Rightarrow> string \<Rightarrow> string \<Rightarrow> string option \<Rightarrow> string option \<Rightarrow> bool" where
  "note_hashes cr material i title body th bh \<longleftrightarrow>
     (\<exists>t b. th = Some t \<and> bh = Some b \<and> fieldHash cr title material (titleContext i) = Inr t \<and>
        fieldHash cr body material (bodyContext i) = Inr b)"

text \<open>An encrypted note: both fields sealed under the active key, with their current hashes.\<close>

definition sealed_note :: "crypto \<Rightarrow> string \<Rightarrow> 'a Note_scheme \<Rightarrow> 'b Note_scheme \<Rightarrow> bool" where
  "sealed_note cr material p n \<longleftrightarrow>
     sealed cr material (titleContext (n_id n)) (n_title p) (n_title n) \<and>
     sealed cr material (bodyContext (n_id n)) (n_body p) (n_body n) \<and>
     note_hashes cr material (n_id n) (n_title p) (n_body p) (n_titleHash n) (n_bodyHash n)"

lemma encryptNoteFields_plain:
  assumes ok: "crypto_ok cr" and mat: "usable_material material" and pl: "plain_note n"
  shows "\<exists>t b th bh fx'. encryptNoteFields cr material n fx =
      Inr (n\<lparr>n_titleHash := th, n_bodyHash := bh, n_title := t, n_body := b\<rparr>, fx') \<and>
    sealed_note cr material n (n\<lparr>n_titleHash := th, n_bodyHash := bh, n_title := t, n_body := b\<rparr>)"
proof -
  have p: "plain_text (n_title n)" "plain_text (n_body n)" using pl by (simp_all add: plain_note_def)
  obtain t fx1 where t: "encryptText cr (n_title n) material (titleContext (n_id n)) fx = Inr (t, fx1)"
      "sealed cr material (titleContext (n_id n)) (n_title n) t" using encryptText_plain [OF ok mat p(1)] by blast
  obtain b fx2 where b: "encryptText cr (n_body n) material (bodyContext (n_id n)) fx1 = Inr (b, fx2)"
      "sealed cr material (bodyContext (n_id n)) (n_body n) b" using encryptText_plain [OF ok mat p(2)] by blast
  obtain th where th: "fieldHash cr (n_title n) material (titleContext (n_id n)) = Inr th" using fieldHash_total [OF mat] by blast
  obtain bh where bh: "fieldHash cr (n_body n) material (bodyContext (n_id n)) = Inr bh" using fieldHash_total [OF mat] by blast
  have "encryptNoteFields cr material n fx =
      Inr (n\<lparr>n_titleHash := Some th, n_bodyHash := Some bh, n_title := t, n_body := b\<rparr>, fx2)"
    by (simp add: encryptNoteFields_def plain_text_not_sealed [OF p(1)] plain_text_not_sealed [OF p(2)] plain_field_def
        plain_text_decrypts [OF p(1)] plain_text_decrypts [OF p(2)] field_hash_def or_field_def th bh encrypt_field_def t(1) b(1))
  then show ?thesis using t(2) b(2) th bh by (auto simp: sealed_note_def note_hashes_def)
qed

lemma encryptNoteFields_plainD:
  assumes "crypto_ok cr" "usable_material material" "plain_note n" and run: "encryptNoteFields cr material n fx = Inr (n', fx')"
  shows "\<exists>t b th bh. n' = n\<lparr>n_titleHash := Some th, n_bodyHash := Some bh, n_title := t, n_body := b\<rparr> \<and>
    fieldHash cr (n_title n) material (titleContext (n_id n)) = Inr th \<and>
    fieldHash cr (n_body n) material (bodyContext (n_id n)) = Inr bh"
proof -
  obtain t b th bh fx1 where e: "encryptNoteFields cr material n fx =
      Inr (n\<lparr>n_titleHash := th, n_bodyHash := bh, n_title := t, n_body := b\<rparr>, fx1)"
    and s: "sealed_note cr material n (n\<lparr>n_titleHash := th, n_bodyHash := bh, n_title := t, n_body := b\<rparr>)"
    using encryptNoteFields_plain [OF assms(1-3)] by blast
  have "n' = n\<lparr>n_titleHash := th, n_bodyHash := bh, n_title := t, n_body := b\<rparr>" using e run by simp
  moreover obtain th' bh' where "th = Some th'" "bh = Some bh'"
      "fieldHash cr (n_title n) material (titleContext (n_id n)) = Inr th'"
      "fieldHash cr (n_body n) material (bodyContext (n_id n)) = Inr bh'"
    using s by (auto simp: sealed_note_def note_hashes_def)
  ultimately show ?thesis by blast
qed

lemma decryptNoteFields_sealed:
  "sealed_note cr material p n \<Longrightarrow> decryptNoteFields cr material n = Inr (n\<lparr>n_title := n_title p, n_body := n_body p\<rparr>)"
  by (simp add: sealed_note_def sealed_def decryptNoteFields_def)

lemma encryptNoteFields_sealed:
  assumes mat: "usable_material material" and s: "sealed_note cr material p n"
  shows "encryptNoteFields cr material n fx = Inr (n, fx)"
proof -
  obtain th bh where h: "n_titleHash n = Some th" "n_bodyHash n = Some bh"
      "fieldHash cr (n_title p) material (titleContext (n_id n)) = Inr th"
      "fieldHash cr (n_body p) material (bodyContext (n_id n)) = Inr bh"
    using s by (auto simp: sealed_note_def note_hashes_def)
  then have "isCurrentFieldHash (n_titleHash n)" "isCurrentFieldHash (n_bodyHash n)"
    using fieldHash_total [OF mat] by (auto simp: isCurrentFieldHash_def) (metis Inr_inject)+
  then show ?thesis using s
    by (simp add: sealed_note_def sealed_def encryptNoteFields_def plain_field_def field_hash_def encrypt_field_def)
qed

section \<open>Properties\<close>

text \<open>
  C21. Encrypting a plain note always succeeds; the result carries current envelopes, decrypts to the
  original title and body, and encrypting it again changes nothing and draws no random value.
\<close>

theorem note_encryption_round_trip:
  assumes "crypto_ok cr" and "usable_material material" and "plain_note n"
  shows "\<exists>n' fx'. encryptNoteFields cr material n fx = Inr (n', fx') \<and>
    decryptNoteFields cr material n' = Inr (n\<lparr>n_titleHash := n_titleHash n', n_bodyHash := n_bodyHash n'\<rparr>) \<and>
    isCurrentEncryptedText (n_title n') \<and> isCurrentEncryptedText (n_body n') \<and>
    (\<forall>fx2. encryptNoteFields cr material n' fx2 = Inr (n', fx2))"
proof -
  from encryptNoteFields_plain [OF assms] obtain t b th bh fx' where
    e: "encryptNoteFields cr material n fx = Inr (n\<lparr>n_titleHash := th, n_bodyHash := bh, n_title := t, n_body := b\<rparr>, fx')"
    and s: "sealed_note cr material n (n\<lparr>n_titleHash := th, n_bodyHash := bh, n_title := t, n_body := b\<rparr>)" by blast
  have cur: "isCurrentEncryptedText c" if "sealed cr material ctx v c" for ctx v c
    using that by (auto simp: sealed_def canDecryptEncryptedTextWithPrimaryMaterial_def isCurrentEncryptedText_def split: option.splits if_splits)
  from s have "isCurrentEncryptedText t" "isCurrentEncryptedText b" by (auto simp: sealed_note_def intro: cur)
  then show ?thesis using e decryptNoteFields_sealed [OF s] encryptNoteFields_sealed [OF assms(2) s] by simp
qed

text \<open>An everyday note, and direct key material.\<close>

definition plain_sample :: Note where
  "plain_sample = \<lparr>n_id = ''n1'', n_title = ''Title'', n_body = ''Body'', n_titleHash = None, n_bodyHash = None,
     n_notebookIds = [], n_notebookId = None, n_createdAt = ''2025-01-01T00:00:00.000Z'',
     n_updatedAt = ''2025-01-01T00:00:00.000Z'', n_deletedAt = None, n_trashedAt = None,
     n_isFavorite = False, n_deviceId = ''d1'', n_version = 1, n_syncStatus = Pending\<rparr>"

definition direct_material :: string where
  "direct_material = ''password:v4:argon2id:m=19456,t=2,p=1:AAAA''"

lemma plain_text_no_colon: "CHR '':'' \<notin> set v \<Longrightarrow> plain_text v"
proof -
  assume c: "CHR '':'' \<notin> set v"
  then have "encryptedEnvelope v = None" by (simp add: encryptedEnvelope_def split_on_plain)
  moreover have "\<not> looks_encrypted v"
  proof
    assume "looks_encrypted v"
    then have "dropWhile is_digit (drop 5 v) \<noteq> []" "hd (dropWhile is_digit (drop 5 v)) = CHR '':''"
      by (auto simp: looks_encrypted_def Let_def)
    then have "CHR '':'' \<in> set (dropWhile is_digit (drop 5 v))" by (metis hd_in_set)
    then show False using c by (meson in_set_dropD set_dropWhileD)
  qed
  ultimately show ?thesis by (simp add: plain_text_def)
qed

lemma plain_sample_note: "plain_note plain_sample"
  by (simp add: plain_note_def plain_text_no_colon plain_sample_def)

lemma usable_direct_material: "usable_material direct_material"
  by (simp add: usable_material_def activeEncryptionDescriptor_def parseKeyringMaterial_def starts_with_def
      direct_material_def KEYRING_MATERIAL_PREFIX_def directDescriptor_def DIRECT_KEY_ID_def)

theorem note_encryption_round_trip_witness:
  "\<exists>n' fx'. encryptNoteFields plain_crypto direct_material plain_sample start_effects = Inr (n', fx') \<and>
     isCurrentEncryptedText (n_title n')"
  using note_encryption_round_trip [OF plain_crypto_ok usable_direct_material plain_sample_note] by blast

lemma base64_inject [simp]: "base64UrlEncode x = base64UrlEncode y \<longleftrightarrow> x = y"
  by (metis base64_round_trip option.inject)

lemma utf8_inject [simp]: "utf8_encode x = utf8_encode y \<longleftrightarrow> x = y"
  by (metis utf8_round_trip option.inject)

text \<open>Two different texts with the same keyed hash in one context.\<close>

definition hash_collision :: "crypto \<Rightarrow> string \<Rightarrow> string \<Rightarrow> string \<Rightarrow> string \<Rightarrow> bool" where
  "hash_collision cr material context x y \<longleftrightarrow>
     x \<noteq> y \<and> (case fieldHashKey material of Inl e \<Rightarrow> False
       | Inr k \<Rightarrow> cp_hmac cr k (utf8_encode (context @ nul @ x)) = cp_hmac cr k (utf8_encode (context @ nul @ y)))"

lemma fieldHash_differ:
  assumes "fieldHash cr x material ctx = Inr h" "fieldHash cr y material ctx = Inr h'"
  shows "h \<noteq> h' \<longleftrightarrow> x \<noteq> y \<and> \<not> hash_collision cr material ctx x y"
  using assms by (auto simp: fieldHash_def and_then_Inr hash_collision_def split: sum.splits)

text \<open>
  C22. The server can compare encrypted notes: for two plain notes with the same identifier, when the
  comparison of their encrypted forms, which looks at the keyed hashes, finds a difference, then the plain
  forms differ; and when the plain forms differ and it finds none, then their titles or their bodies are
  a collision of the keyed hash, two different texts with the same HMAC.
\<close>

theorem encrypted_comparison_faithful:
  assumes ok: "crypto_ok cr" and mat: "usable_material material"
    and a: "plain_note a" "n_titleHash a = None" "n_bodyHash a = None"
    and b: "plain_note b" "n_titleHash b = None" "n_bodyHash b = None" and ids: "n_id a = n_id b"
    and ea: "encryptNoteFields cr material a fx = Inr (a', fx1)" and eb: "encryptNoteFields cr material b fx2 = Inr (b', fx3)"
  shows "(notesDiffer a' b' \<longrightarrow> notesDiffer a b) \<and>
    (notesDiffer a b \<longrightarrow> notesDiffer a' b' \<or> hash_collision cr material (titleContext (n_id a)) (n_title a) (n_title b) \<or>
       hash_collision cr material (bodyContext (n_id a)) (n_body a) (n_body b))"
proof -
  have differ: "fieldDiffers ha hb u v \<longleftrightarrow> x \<noteq> y \<and> \<not> hash_collision cr material ctx x y"
    if "ha = Some h" "hb = Some h'" "truthy h" "fieldHash cr x material ctx = Inr h" "fieldHash cr y material ctx = Inr h'"
    for ha hb u v h h' x y ctx
    using that fieldHash_differ [OF that(4,5)] by (simp add: fieldDiffers_def)
  have tr: "truthy h" if "fieldHash cr x material ctx = Inr h" for x ctx h
    using that by (auto simp: fieldHash_def and_then_Inr HASH_V3_PREFIX_def)
  obtain ta ba tha bha where ae: "a' = a\<lparr>n_titleHash := Some tha, n_bodyHash := Some bha, n_title := ta, n_body := ba\<rparr>"
      "fieldHash cr (n_title a) material (titleContext (n_id a)) = Inr tha" "fieldHash cr (n_body a) material (bodyContext (n_id a)) = Inr bha"
    using encryptNoteFields_plainD [OF ok mat a(1) ea] by blast
  obtain tb bb thb bhb where be: "b' = b\<lparr>n_titleHash := Some thb, n_bodyHash := Some bhb, n_title := tb, n_body := bb\<rparr>"
      "fieldHash cr (n_title b) material (titleContext (n_id b)) = Inr thb" "fieldHash cr (n_body b) material (bodyContext (n_id b)) = Inr bhb"
    using encryptNoteFields_plainD [OF ok mat b(1) eb] by blast
  have t: "fieldDiffers (n_titleHash a') (n_titleHash b') (n_title a') (n_title b') \<longleftrightarrow>
      n_title a \<noteq> n_title b \<and> \<not> hash_collision cr material (titleContext (n_id a)) (n_title a) (n_title b)"
    using differ [OF _ _ tr ae(2)] ae be ids by simp
  have bo: "fieldDiffers (n_bodyHash a') (n_bodyHash b') (n_body a') (n_body b') \<longleftrightarrow>
      n_body a \<noteq> n_body b \<and> \<not> hash_collision cr material (bodyContext (n_id a)) (n_body a) (n_body b)"
    using differ [OF _ _ tr ae(3)] ae be ids by simp
  have nb: "sortedNotebookIds a' = sortedNotebookIds a" "sortedNotebookIds b' = sortedNotebookIds b"
    by (simp_all add: ae(1) be(1) sortedNotebookIds_def noteNotebookIds_def)
  show ?thesis unfolding notesDiffer_def t bo nb using a(2,3) b(2,3)
    by (simp add: ae(1) be(1) fieldDiffers_def) blast
qed

theorem encrypted_comparison_faithful_witness:
  "\<exists>a' b' fx1 fx3. encryptNoteFields plain_crypto direct_material plain_sample start_effects = Inr (a', fx1) \<and>
     encryptNoteFields plain_crypto direct_material (plain_sample\<lparr>n_title := ''Other''\<rparr>) start_effects = Inr (b', fx3) \<and>
     notesDiffer a' b'"
proof -
  have o: "plain_note (plain_sample\<lparr>n_title := ''Other''\<rparr>)"
    by (simp add: plain_note_def plain_text_no_colon plain_sample_def)
  obtain a' fx1 where a: "encryptNoteFields plain_crypto direct_material plain_sample start_effects = Inr (a', fx1)"
    using encryptNoteFields_plain [OF plain_crypto_ok usable_direct_material plain_sample_note] by blast
  obtain b' fx3 where b: "encryptNoteFields plain_crypto direct_material (plain_sample\<lparr>n_title := ''Other''\<rparr>) start_effects = Inr (b', fx3)"
    using encryptNoteFields_plain [OF plain_crypto_ok usable_direct_material o] by blast
  have inj: "\<not> hash_collision plain_crypto direct_material ctx x y" for ctx x y
    by (simp add: hash_collision_def plain_crypto_def split: sum.split)
  have d: "notesDiffer plain_sample (plain_sample\<lparr>n_title := ''Other''\<rparr>)"
    by (simp add: notesDiffer_def fieldDiffers_def plain_sample_def)
  have n: "n_titleHash plain_sample = None" "n_bodyHash plain_sample = None" "n_titleHash (plain_sample\<lparr>n_title := ''Other''\<rparr>) = None"
      "n_bodyHash (plain_sample\<lparr>n_title := ''Other''\<rparr>) = None" "n_id plain_sample = n_id (plain_sample\<lparr>n_title := ''Other''\<rparr>)"
    by (simp_all add: plain_sample_def)
  show ?thesis using a b d
    encrypted_comparison_faithful [OF plain_crypto_ok usable_direct_material plain_sample_note n(1,2) o n(3-5) a b] inj by blast
qed

text \<open>
  C23. A text that begins like an envelope but is none is refused: a note with such a title or body
  cannot be encrypted, whatever the key material.
\<close>

theorem envelope_lookalike_refused:
  assumes mat: "usable_material material"
    and bad: "isUnsupportedEncryptedText (n_title n) \<or> plain_text (n_title n) \<and> isUnsupportedEncryptedText (n_body n)"
  shows "encryptNoteFields cr material n fx = Inl Unsupported_field_version"
proof -
  obtain d where d: "activeEncryptionDescriptor material = Inr d" using mat by (auto simp: usable_material_def split: sum.splits)
  have no: "canDecryptEncryptedTextWithPrimaryMaterial cr v material ctx = Inr False" "decryptText cr v material ctx = Inl Unsupported_field_version"
    if "isUnsupportedEncryptedText v" for v ctx
    using that by (simp_all add: isUnsupportedEncryptedText_def canDecryptEncryptedTextWithPrimaryMaterial_def decryptText_def)
  have some: "\<exists>x. canDecryptEncryptedTextWithPrimaryMaterial cr v material ctx = Inr x" for v ctx
    by (auto simp: canDecryptEncryptedTextWithPrimaryMaterial_def d split: option.split)
  from bad show ?thesis
  proof
    assume t: "isUnsupportedEncryptedText (n_title n)"
    obtain x where "canDecryptEncryptedTextWithPrimaryMaterial cr (n_body n) material (bodyContext (n_id n)) = Inr x" using some by blast
    then show ?thesis by (simp add: encryptNoteFields_def no [OF t] plain_field_def)
  next
    assume "plain_text (n_title n) \<and> isUnsupportedEncryptedText (n_body n)"
    then show ?thesis
      by (simp add: encryptNoteFields_def no plain_text_not_sealed plain_text_decrypts plain_field_def)
  qed
qed

theorem envelope_lookalike_refused_witness:
  "encryptNoteFields plain_crypto direct_material (plain_sample\<lparr>n_title := ''enc:v1: notes''\<rparr>) start_effects = Inl Unsupported_field_version"
  by (rule envelope_lookalike_refused [OF usable_direct_material]) code_simp

end
