(* ===== verification/Actions.thy ===== *)
theory Actions
  imports Prelude
begin

text \<open>
  Operations that change a state and may throw after some of their writes have been stored: state
  transformers that return an error or a value together with the state reached. An operation of the
  client (\<open>ClientDb\<close>) or of the accounts (\<open>AuthDb\<close>) is composed with \<open>bnd\<close> and \<open>seq\<close>, in the order of the
  code; the rules \<open>keeps_intros\<close> carry an invariant through the composition.
\<close>

section \<open>Combinators\<close>

type_synonym ('e, 's, 'a) act = "'s \<Rightarrow> ('e + 'a) \<times> 's"

definition ret :: "'a \<Rightarrow> ('e, 's, 'a) act" where
  "ret x = (\<lambda>c. (Inr x, c))"

definition raise :: "'e \<Rightarrow> ('e, 's, 'a) act" where
  "raise e = (\<lambda>c. (Inl e, c))"

definition bnd :: "('e, 's, 'a) act \<Rightarrow> ('a \<Rightarrow> ('e, 's, 'b) act) \<Rightarrow> ('e, 's, 'b) act" where
  "bnd m f = (\<lambda>c. case m c of (Inl e, c') \<Rightarrow> (Inl e, c') | (Inr x, c') \<Rightarrow> f x c')"

definition seq :: "('e, 's, 'a) act \<Rightarrow> ('e, 's, 'b) act \<Rightarrow> ('e, 's, 'b) act" where
  "seq m k = bnd m (\<lambda>_. k)"

definition asks :: "('s \<Rightarrow> 'a) \<Rightarrow> ('e, 's, 'a) act" where
  "asks f = (\<lambda>c. (Inr (f c), c))"

definition modify :: "('s \<Rightarrow> 's) \<Rightarrow> ('e, 's, unit) act" where
  "modify f = (\<lambda>c. (Inr (), f c))"

primrec for_each :: "('a \<Rightarrow> ('e, 's, unit) act) \<Rightarrow> 'a list \<Rightarrow> ('e, 's, unit) act" where
  "for_each f [] = ret ()"
| "for_each f (x # xs) = seq (f x) (for_each f xs)"

primrec map_each :: "('a \<Rightarrow> ('e, 's, 'b) act) \<Rightarrow> 'a list \<Rightarrow> ('e, 's, 'b list) act" where
  "map_each f [] = ret []"
| "map_each f (x # xs) = bnd (f x) (\<lambda>y. bnd (map_each f xs) (\<lambda>ys. ret (y # ys)))"

definition check :: "'e + 'a \<Rightarrow> ('e, 's, 'a) act" where
  "check r = (\<lambda>c. (r, c))"

section \<open>Running actions\<close>

lemma action_simps [simp]:
  "ret x c = (Inr x, c)" "raise e c = (Inl e, c)" "asks f c = (Inr (f c), c)" "modify g c = (Inr (), g c)"
  "check r c = (r, c)"
  by (simp_all add: ret_def raise_def asks_def modify_def check_def)

lemma bnd_ret [simp]: "bnd (ret x) f = f x"
  by (simp add: bnd_def ret_def)

lemma bnd_run: "bnd m f c = (case m c of (Inl e, c') \<Rightarrow> (Inl e, c') | (Inr x, c') \<Rightarrow> f x c')"
  by (simp add: bnd_def)

lemma seq_run: "seq m k c = (case m c of (Inl e, c') \<Rightarrow> (Inl e, c') | (Inr x, c') \<Rightarrow> k c')"
  by (simp add: seq_def bnd_def)

lemma bnd_Inr: "bnd m f c = (Inr y, c') \<longleftrightarrow> (\<exists>x c1. m c = (Inr x, c1) \<and> f x c1 = (Inr y, c'))"
  by (auto simp: bnd_def split: prod.splits sum.splits)

lemma seq_Inr: "seq m k c = (Inr y, c') \<longleftrightarrow> (\<exists>x c1. m c = (Inr x, c1) \<and> k c1 = (Inr y, c'))"
  by (simp add: seq_def bnd_Inr)

text \<open>
  \<open>leads P Q m\<close>: from a state in \<open>P\<close> the action ends, with an error or a value, in a state in \<open>Q\<close>;
  an invariant is kept on both ways out.
\<close>

definition leads :: "('s \<Rightarrow> bool) \<Rightarrow> ('s \<Rightarrow> bool) \<Rightarrow> ('e, 's, 'a) act \<Rightarrow> bool" where
  "leads P Q m \<longleftrightarrow> (\<forall>c. P c \<longrightarrow> Q (snd (m c)))"

definition keeps :: "('s \<Rightarrow> bool) \<Rightarrow> ('e, 's, 'a) act \<Rightarrow> bool" where
  "keeps I m \<longleftrightarrow> (\<forall>c. I c \<longrightarrow> I (snd (m c)))"

named_theorems keeps_intros \<open>rules that show an invariant kept by an action\<close>

lemma keepsD: "keeps I m \<Longrightarrow> I c \<Longrightarrow> m c = (r, c') \<Longrightarrow> I c'"
  unfolding keeps_def by (metis snd_conv)

lemma keeps_ret [keeps_intros]: "keeps I (ret x)"
  by (simp add: keeps_def)

lemma keeps_raise [keeps_intros]: "keeps I (raise e)"
  by (simp add: keeps_def)

lemma keeps_asks [keeps_intros]: "keeps I (asks f)"
  by (simp add: keeps_def)

lemma keeps_check [keeps_intros]: "keeps I (check r)"
  by (simp add: keeps_def)

lemma keeps_bnd [keeps_intros]: "keeps I m \<Longrightarrow> (\<And>x. keeps I (f x)) \<Longrightarrow> keeps I (bnd m f)"
  unfolding keeps_def bnd_def by (auto split: prod.splits sum.splits; metis snd_conv)

lemma keeps_seq [keeps_intros]: "keeps I m \<Longrightarrow> keeps I k \<Longrightarrow> keeps I (seq m k)"
  unfolding seq_def by (rule keeps_bnd)

lemma keeps_if [keeps_intros]: "(b \<Longrightarrow> keeps I m) \<Longrightarrow> (\<not> b \<Longrightarrow> keeps I k) \<Longrightarrow> keeps I (if b then m else k)"
  by simp

lemma keeps_option [keeps_intros]:
  "(x = None \<Longrightarrow> keeps I m) \<Longrightarrow> (\<And>y. x = Some y \<Longrightarrow> keeps I (f y)) \<Longrightarrow> keeps I (case x of None \<Rightarrow> m | Some y \<Rightarrow> f y)"
  by (cases x) auto

lemma keeps_for_each [keeps_intros]: "(\<And>x. x \<in> set xs \<Longrightarrow> keeps I (f x)) \<Longrightarrow> keeps I (for_each f xs)"
  by (induction xs) (auto intro: keeps_intros)

lemma keeps_map_each [keeps_intros]: "(\<And>x. x \<in> set xs \<Longrightarrow> keeps I (f x)) \<Longrightarrow> keeps I (map_each f xs)"
  by (induction xs) (auto intro: keeps_intros)

lemma keeps_modify: "(\<And>c. I c \<Longrightarrow> I (g c)) \<Longrightarrow> keeps I (modify g)"
  by (simp add: keeps_def)

text \<open>After a read the rest of the action may use what was read.\<close>

lemma keeps_leads: "keeps I m \<longleftrightarrow> leads I I m"
  by (simp add: keeps_def leads_def)

lemma leads_weaken: "leads P' Q' m \<Longrightarrow> (\<And>c. P c \<Longrightarrow> P' c) \<Longrightarrow> (\<And>c. Q' c \<Longrightarrow> Q c) \<Longrightarrow> leads P Q m"
  unfolding leads_def by blast

lemma leads_bnd: "keeps P m \<Longrightarrow> (\<And>x. leads P Q (f x)) \<Longrightarrow> (\<And>c. P c \<Longrightarrow> Q c) \<Longrightarrow> leads P Q (bnd m f)"
  unfolding keeps_def leads_def bnd_def by (auto split: prod.splits sum.splits; metis snd_conv)

lemma leads_seq: "keeps P m \<Longrightarrow> leads P Q k \<Longrightarrow> (\<And>c. P c \<Longrightarrow> Q c) \<Longrightarrow> leads P Q (seq m k)"
  unfolding seq_def by (rule leads_bnd)

lemma leads_then: "leads P R m \<Longrightarrow> leads R Q k \<Longrightarrow> (\<And>c. R c \<Longrightarrow> Q c) \<Longrightarrow> leads P Q (seq m k)"
  unfolding leads_def seq_def bnd_def by (auto split: prod.splits sum.splits; metis snd_conv)

lemma leads_asks_bnd: "(\<And>x. leads (\<lambda>c. P c \<and> g c = x) Q (f x)) \<Longrightarrow> leads P Q (bnd (asks g) f)"
  by (auto simp: leads_def bnd_def)

lemma leads_modify: "(\<And>c. P c \<Longrightarrow> Q (g c)) \<Longrightarrow> leads P Q (modify g)"
  by (simp add: leads_def)

lemma leads_stop: "(\<And>c. P c \<Longrightarrow> Q c) \<Longrightarrow> leads P Q (ret x)" "(\<And>c. P c \<Longrightarrow> Q c) \<Longrightarrow> leads P Q (raise e)"
  by (simp_all add: leads_def)

lemma leads_if: "(b \<Longrightarrow> leads P Q m) \<Longrightarrow> (\<not> b \<Longrightarrow> leads P Q k) \<Longrightarrow> leads P Q (if b then m else k)"
  by simp

lemma leads_keeps: "keeps P m \<Longrightarrow> (\<And>c. P c \<Longrightarrow> Q c) \<Longrightarrow> leads P Q m"
  by (simp add: leads_def keeps_def)

lemma leadsD: "leads P Q m \<Longrightarrow> P c \<Longrightarrow> m c = (r, c') \<Longrightarrow> Q c'"
  unfolding leads_def by (metis snd_conv)

end
