(* ===== verification/ClientDb.thy ===== *)
theory ClientDb
  imports Encryption KeyStorage Actions
begin

text \<open>
  The client's database (\<open>apps/web/src/lib/client/db.ts\<close>) and the device identity kept in
  \<open>local-state.ts\<close>. An IndexedDB store is a keyed table (theory \<open>Tables\<close>), enumerated in key order.

  The client's operations are asynchronous and may throw after some of their writes have been stored,
  so an operation is a state transformer that returns an error or a value together with the state
  reached (type \<open>action\<close>). A Dexie transaction is one step. Between the reads and the writes of an
  operation that awaits the Web Crypto API other code may run, such as an edit of the user: \<open>await\<close>
  marks these points, and the parameter \<open>cx_others k\<close> is what happens to the database at the \<open>k\<close>-th.
\<close>

section \<open>Tables\<close>

record LocalNote = Note +
  ln_lastSyncedVersion :: int
  ln_lastSyncedAt :: "string option"

record LocalNotebook = Notebook +
  lnb_lastSyncedVersion :: int
  lnb_lastSyncedAt :: "string option"

record sync_meta =
  sm_key :: string
  sm_value :: string

datatype conflict_status = Open_conflict | Resolved_conflict

record LocalConflict =
  lc_id :: string
  lc_entityType :: entity_type
  lc_entityId :: string
  lc_status :: conflict_status
  lc_createdAt :: string
  lc_conflict :: any_conflict

datatype snapshot_reason = Edit_reason | Trash_reason | Restore_reason

record LocalNoteSnapshot = LocalNote +
  sn_snapshotId :: string
  sn_savedAt :: string
  sn_reason :: snapshot_reason

record client =
  cl_notes :: "LocalNote list"
  cl_notebooks :: "LocalNotebook list"
  cl_snapshots :: "LocalNoteSnapshot list"
  cl_devices :: "Device list"
  cl_meta :: "sync_meta list"
  cl_conflicts :: "LocalConflict list"
  cl_deviceId :: "string option"
  cl_fx :: effects
  cl_awaits :: nat

definition wf_client :: "client \<Rightarrow> bool" where
  "wf_client c \<longleftrightarrow>
     wf_table n_id (cl_notes c) \<and> wf_table nb_id (cl_notebooks c) \<and> wf_table sn_snapshotId (cl_snapshots c) \<and>
     wf_table d_id (cl_devices c) \<and> wf_table sm_key (cl_meta c) \<and> wf_table lc_id (cl_conflicts c)"

text \<open>What an operation is given: the environment, Web Crypto, the current key material, the platform.\<close>

record ctxt =
  cx_env :: env
  cx_crypto :: crypto
  cx_material :: string
  cx_android :: bool
  cx_others :: "nat \<Rightarrow> client \<Rightarrow> client"

section \<open>Actions\<close>

type_synonym 'a action = "(client_error, client, 'a) act"

text \<open>Computations of the crypto theories: those that may fail, and those that also use effects.\<close>

definition effect :: "(effects \<Rightarrow> 'a \<times> effects) \<Rightarrow> 'a action" where
  "effect f = (\<lambda>c. let (x, fx) = f (cl_fx c) in (Inr x, c\<lparr>cl_fx := fx\<rparr>))"

definition check_effect :: "(effects \<Rightarrow> client_error + 'a \<times> effects) \<Rightarrow> 'a action" where
  "check_effect f = (\<lambda>c. case f (cl_fx c) of Inl e \<Rightarrow> (Inl e, c) | Inr (x, fx) \<Rightarrow> (Inr x, c\<lparr>cl_fx := fx\<rparr>))"

definition await :: "ctxt \<Rightarrow> unit action" where
  "await cx = (\<lambda>c. (Inr (), (cx_others cx (cl_awaits c) c)\<lparr>cl_awaits := Suc (cl_awaits c)\<rparr>))"

text \<open>No other code touches the database.\<close>

definition quiet :: "ctxt \<Rightarrow> bool" where
  "quiet cx \<longleftrightarrow> (\<forall>k c. cx_others cx k c = c)"

abbreviation storedNote :: "string \<Rightarrow> client \<Rightarrow> LocalNote option" where
  "storedNote i c \<equiv> tget n_id i (cl_notes c)"

abbreviation storedNotebook :: "string \<Rightarrow> client \<Rightarrow> LocalNotebook option" where
  "storedNotebook i c \<equiv> tget nb_id i (cl_notebooks c)"

abbreviation getConflict :: "string \<Rightarrow> client \<Rightarrow> LocalConflict option" where
  "getConflict i c \<equiv> tget lc_id i (cl_conflicts c)"

definition putNote :: "LocalNote \<Rightarrow> unit action" where
  "putNote n = modify (\<lambda>c. c\<lparr>cl_notes := tput n_id n (cl_notes c)\<rparr>)"

definition putNotebook :: "LocalNotebook \<Rightarrow> unit action" where
  "putNotebook nb = modify (\<lambda>c. c\<lparr>cl_notebooks := tput nb_id nb (cl_notebooks c)\<rparr>)"

definition putConflict :: "LocalConflict \<Rightarrow> unit action" where
  "putConflict lc = modify (\<lambda>c. c\<lparr>cl_conflicts := tput lc_id lc (cl_conflicts c)\<rparr>)"

definition putMeta :: "string \<Rightarrow> string \<Rightarrow> unit action" where
  "putMeta k v = modify (\<lambda>c. c\<lparr>cl_meta := tput sm_key \<lparr>sm_key = k, sm_value = v\<rparr> (cl_meta c)\<rparr>)"

definition now_action :: "ctxt \<Rightarrow> string action" where
  "now_action cx = effect (nowIso (cx_env cx))"

definition id_action :: "ctxt \<Rightarrow> string action" where
  "id_action cx = effect (newId (cx_env cx))"

section \<open>The device\<close>

definition getOrCreateDevice :: "ctxt \<Rightarrow> Device action" where
  "getOrCreateDevice cx =
     bnd (asks cl_deviceId) (\<lambda>stored.
     bnd (if truthy_opt stored then ret (or_empty stored)
          else bnd (id_action cx) (\<lambda>i. seq (modify (\<lambda>c. c\<lparr>cl_deviceId := Some i\<rparr>)) (ret i))) (\<lambda>i.
     bnd (asks (\<lambda>c. tget d_id i (cl_devices c))) (\<lambda>existing.
       case existing of
         Some d \<Rightarrow> ret d
       | None \<Rightarrow>
           let d = \<lparr>d_id = i, d_name = (if cx_android cx then ''Android browser'' else ''This browser'')\<rparr>
           in seq (modify (\<lambda>c. c\<lparr>cl_devices := tput d_id d (cl_devices c)\<rparr>)) (ret d))))"

definition renameCurrentDevice :: "ctxt \<Rightarrow> string \<Rightarrow> Device action" where
  "renameCurrentDevice cx name =
     (if \<not> truthy (trim name) then raise Device_name_required
      else bnd (getOrCreateDevice cx) (\<lambda>current.
        let d = current\<lparr>d_name := take 80 (trim name)\<rparr>
        in seq (modify (\<lambda>c. c\<lparr>cl_devices := tput d_id d (cl_devices c)\<rparr>)) (ret d)))"

section \<open>Running actions\<close>

lemma check_effect_Inr:
  "check_effect f c = (Inr x, c') \<longleftrightarrow> (\<exists>fx. f (cl_fx c) = Inr (x, fx) \<and> c' = c\<lparr>cl_fx := fx\<rparr>)"
  by (auto simp: check_effect_def split: sum.splits prod.splits)

text \<open>Invariants that do not look at the effects of a run.\<close>

definition data_only :: "(client \<Rightarrow> bool) \<Rightarrow> bool" where
  "data_only I \<longleftrightarrow> (\<forall>c fx k. I c \<longrightarrow> I (c\<lparr>cl_fx := fx\<rparr>) \<and> I (c\<lparr>cl_awaits := k\<rparr>))"

lemma keeps_effect: "data_only I \<Longrightarrow> keeps I (effect f)"
  by (simp add: keeps_def effect_def data_only_def Let_def case_prod_beta)

lemma keeps_check_effect: "data_only I \<Longrightarrow> keeps I (check_effect f)"
  by (auto simp: keeps_def check_effect_def data_only_def split: sum.splits prod.splits)

lemma keeps_now: "data_only I \<Longrightarrow> keeps I (now_action cx)"
  by (simp add: now_action_def keeps_effect)

lemma keeps_id: "data_only I \<Longrightarrow> keeps I (id_action cx)"
  by (simp add: id_action_def keeps_effect)

lemma keeps_await:
  "data_only I \<Longrightarrow> (\<And>k c. I c \<Longrightarrow> I (cx_others cx k c)) \<Longrightarrow> keeps I (await cx)"
  by (simp add: keeps_def await_def data_only_def)

lemma quiet_await [simp]: "quiet cx \<Longrightarrow> await cx c = (Inr (), c\<lparr>cl_awaits := Suc (cl_awaits c)\<rparr>)"
  by (simp add: await_def quiet_def)

lemma keeps_device:
  assumes "data_only I" and "\<And>c v. I c \<Longrightarrow> I (c\<lparr>cl_deviceId := v\<rparr>)"
    and "\<And>c d. I c \<Longrightarrow> I (c\<lparr>cl_devices := tput d_id d (cl_devices c)\<rparr>)"
  shows "keeps I (getOrCreateDevice cx)"
  unfolding getOrCreateDevice_def Let_def
  by (intro keeps_intros keeps_id keeps_modify assms)

lemma getOrCreateDevice_Inr: "\<exists>d c'. getOrCreateDevice cx c = (Inr d, c')"
  by (auto simp: getOrCreateDevice_def bnd_run seq_run id_action_def effect_def Let_def split: prod.splits option.splits)

text \<open>Records with the fields of a longer record, read as the shorter one and back.\<close>

lemma note_truncate_simps [simp]:
  "n_id (Note.truncate n) = n_id n" "n_title (Note.truncate n) = n_title n" "n_body (Note.truncate n) = n_body n"
  "n_version (Note.truncate n) = n_version n" "n_updatedAt (Note.truncate n) = n_updatedAt n"
  "n_titleHash (Note.truncate n) = n_titleHash n" "n_bodyHash (Note.truncate n) = n_bodyHash n"
  "n_syncStatus (Note.truncate n) = n_syncStatus n" "n_deletedAt (Note.truncate n) = n_deletedAt n"
  "n_deviceId (Note.truncate n) = n_deviceId n"
  by (simp_all add: Note.truncate_def)

lemma notebook_truncate_simps [simp]:
  "nb_id (Notebook.truncate n) = nb_id n" "nb_name (Notebook.truncate n) = nb_name n"
  "nb_version (Notebook.truncate n) = nb_version n" "nb_updatedAt (Notebook.truncate n) = nb_updatedAt n"
  "nb_nameHash (Notebook.truncate n) = nb_nameHash n" "nb_deletedAt (Notebook.truncate n) = nb_deletedAt n"
  by (simp_all add: Notebook.truncate_def)

definition as_local :: "Note \<Rightarrow> int \<Rightarrow> string option \<Rightarrow> LocalNote" where
  "as_local n base syncedAt = Note.extend n (LocalNote.fields base syncedAt)"

definition as_local_notebook :: "Notebook \<Rightarrow> int \<Rightarrow> string option \<Rightarrow> LocalNotebook" where
  "as_local_notebook n base syncedAt = Notebook.extend n (LocalNotebook.fields base syncedAt)"

lemma as_local_simps [simp]:
  "n_id (as_local n b s) = n_id n" "n_title (as_local n b s) = n_title n" "n_body (as_local n b s) = n_body n"
  "n_titleHash (as_local n b s) = n_titleHash n" "n_bodyHash (as_local n b s) = n_bodyHash n"
  "n_notebookIds (as_local n b s) = n_notebookIds n" "n_notebookId (as_local n b s) = n_notebookId n"
  "n_updatedAt (as_local n b s) = n_updatedAt n" "n_deletedAt (as_local n b s) = n_deletedAt n"
  "n_trashedAt (as_local n b s) = n_trashedAt n" "n_isFavorite (as_local n b s) = n_isFavorite n"
  "n_version (as_local n b s) = n_version n" "n_syncStatus (as_local n b s) = n_syncStatus n"
  "n_deviceId (as_local n b s) = n_deviceId n" "n_createdAt (as_local n b s) = n_createdAt n"
  "ln_lastSyncedVersion (as_local n b s) = b" "ln_lastSyncedAt (as_local n b s) = s"
  by (simp_all add: as_local_def Note.extend_def LocalNote.fields_def)

lemma as_local_notebook_simps [simp]:
  "nb_id (as_local_notebook n b s) = nb_id n" "nb_name (as_local_notebook n b s) = nb_name n"
  "nb_nameHash (as_local_notebook n b s) = nb_nameHash n" "nb_deletedAt (as_local_notebook n b s) = nb_deletedAt n"
  "nb_version (as_local_notebook n b s) = nb_version n" "nb_syncStatus (as_local_notebook n b s) = nb_syncStatus n"
  "nb_updatedAt (as_local_notebook n b s) = nb_updatedAt n" "nb_createdAt (as_local_notebook n b s) = nb_createdAt n"
  "nb_deviceId (as_local_notebook n b s) = nb_deviceId n"
  "lnb_lastSyncedVersion (as_local_notebook n b s) = b" "lnb_lastSyncedAt (as_local_notebook n b s) = s"
  by (simp_all add: as_local_notebook_def Notebook.extend_def LocalNotebook.fields_def)

end
