(* ===== verification/ClientSamples.thy ===== *)
theory ClientSamples
  imports Samples EncTheorems ClientDb
begin

text \<open>
  A small client for the witnesses: one device, one notebook, one note, a browser where nothing else
  runs, and the transparent crypto of theory \<open>KeyTheorems\<close>.
\<close>

definition sample_ctxt :: ctxt where
  "sample_ctxt = \<lparr>cx_env = sample_env, cx_crypto = plain_crypto, cx_material = direct_material, cx_android = False,
     cx_others = \<lambda>k c. c\<rparr>"

definition sample_note :: LocalNote where
  "sample_note = as_local (plain_sample\<lparr>n_syncStatus := Pending\<rparr>) 1 None"

definition sample_notebook :: LocalNotebook where
  "sample_notebook = as_local_notebook notebook_a 1 None"

definition sample_client :: client where
  "sample_client = \<lparr>cl_notes = [sample_note], cl_notebooks = [sample_notebook], cl_snapshots = [], cl_devices = [device_a],
     cl_meta = [], cl_conflicts = [], cl_deviceId = Some ''d1'', cl_fx = start_effects, cl_awaits = 0\<rparr>"

lemma quiet_sample [simp]: "quiet sample_ctxt"
  by (simp add: quiet_def sample_ctxt_def)

lemma sample_ctxt_simps [simp]:
  "cx_env sample_ctxt = sample_env" "cx_crypto sample_ctxt = plain_crypto" "cx_material sample_ctxt = direct_material"
  by (simp_all add: sample_ctxt_def)

lemma sample_env_fresh: "inj (uuid sample_env)"
  by (auto simp: sample_env_def inj_def)

text \<open>A conflict over the note, as the server reports it.\<close>

definition sample_version :: "conflict_source \<Rightarrow> string \<Rightarrow> int \<Rightarrow> Note \<Rightarrow> Note conflict_version" where
  "sample_version src dev v n = \<lparr>cv_source = src, cv_deviceId = dev, cv_deviceName = dev,
     cv_updatedAt = n_updatedAt n, cv_version = v, cv_previewText = [], cv_record = n\<rparr>"

definition sample_conflict :: "Note sync_conflict" where
  "sample_conflict = \<lparr>sc_id = ''k1'', sc_entityType = Note_entity, sc_entityId = ''n1'', sc_reason = Remote_changed,
     sc_local = sample_version Local_source ''d1'' 2 plain_sample,
     sc_remote = sample_version Remote_source ''d2'' 4 (plain_sample\<lparr>n_title := ''Other''\<rparr>)\<rparr>"

end
