(* ===== verification/ClientStore.thy ===== *)
theory ClientStore
  imports ClientDb
begin

text \<open>
  The client's side of synchronisation (\<open>apps/web/src/lib/client/sync-store.ts\<close>): remote changes are
  merged into the local tables, accepted pushes are marked, conflicts are stored and resolved. The
  functions for notes and for notebooks are written out for both, as in the source.
\<close>

section \<open>Versions, identifiers, names\<close>

definition saveDevices :: "Device list \<Rightarrow> unit action" where
  "saveDevices ds = modify (\<lambda>c. c\<lparr>cl_devices := fold (tput d_id) ds (cl_devices c)\<rparr>)"

definition deviceName :: "string \<Rightarrow> string action" where
  "deviceName i = asks (\<lambda>c. case tget d_id i (cl_devices c) of Some d \<Rightarrow> d_name d | None \<Rightarrow> i)"

definition canApplyRemoteDelete :: "sync_status \<Rightarrow> bool" where
  "canApplyRemoteDelete s \<longleftrightarrow> s \<noteq> Pending \<and> s \<noteq> Conflict"

definition remoteCameFromThisDevice :: "ctxt \<Rightarrow> string \<Rightarrow> bool action" where
  "remoteCameFromThisDevice cx deviceId = bnd (getOrCreateDevice cx) (\<lambda>d. ret (deviceId = d_id d))"

definition safeBaseVersion :: "int \<Rightarrow> int" where
  "safeBaseVersion lastSynced = (if is_safe_integer lastSynced \<and> 0 \<le> lastSynced then lastSynced else 0)"

definition safePendingVersion :: "int \<Rightarrow> int \<Rightarrow> int" where
  "safePendingVersion v lastSynced =
     (let base = safeBaseVersion lastSynced
      in if is_safe_integer v \<and> base < v \<and> 0 < v then v else nextVersionAfter base)"

definition primaryNotebookId :: "string list \<Rightarrow> string option" where
  "primaryNotebookId ids = first_or_null ids"

definition remappedNotebookIds :: "string list \<Rightarrow> string \<Rightarrow> string \<Rightarrow> string list" where
  "remappedNotebookIds ids fromId toId =
     normalizedNotebookIds (map (\<lambda>i. if i = fromId then toId else i) ids)"

definition normalizedNotebookName :: "string \<Rightarrow> string" where
  "normalizedNotebookName name = to_lower (trim name)"

text \<open>
  The loop over the suffixes, with fuel: among one more candidate than there are taken names one is
  free (lemma \<open>copy_name_from_free\<close> of theory \<open>CopyNames\<close>), so the fuel given below never runs out.
\<close>

primrec copy_name_from :: "nat \<Rightarrow> string \<Rightarrow> string list \<Rightarrow> nat \<Rightarrow> string \<Rightarrow> string" where
  "copy_name_from 0 base taken suffix candidate = candidate"
| "copy_name_from (Suc fuel) base taken suffix candidate =
     (if normalizedNotebookName candidate \<in> set taken
      then copy_name_from fuel base taken (Suc suffix) (base @ '' copy '' @ nat_to_string suffix)
      else candidate)"

definition taken_names :: "LocalNotebook list \<Rightarrow> string list \<Rightarrow> string list" where
  "taken_names nbs excluded =
     map (\<lambda>nb. normalizedNotebookName (nb_name nb))
       (filter (\<lambda>nb. \<not> truthy_opt (nb_deletedAt nb) \<and> nb_id nb \<notin> set excluded) nbs)"

definition notebookCopyName :: "string \<Rightarrow> LocalNotebook list \<Rightarrow> string list \<Rightarrow> string" where
  "notebookCopyName baseName nbs excluded =
     (let base = or_str (trim baseName) ''Notebook'';
          taken = taken_names nbs excluded
      in copy_name_from (Suc (length taken)) base taken 2 (base @ '' copy''))"

definition uniqueNotebookCopyName :: "ctxt \<Rightarrow> string \<Rightarrow> string list \<Rightarrow> string action" where
  "uniqueNotebookCopyName cx baseName excluded =
     bnd (asks cl_notebooks) (\<lambda>rows.
     bnd (map_each (\<lambda>nb. check (decryptNotebookFields (cx_crypto cx) (cx_material cx) nb)) rows) (\<lambda>nbs.
       ret (notebookCopyName baseName nbs excluded)))"

section \<open>References of notes to notebooks\<close>

text \<open>One note of the loops in \<open>remap-\<close> and \<open>removeLocalNoteNotebookReferences\<close>: the update, if any.\<close>

definition reference_update ::
  "(string list \<Rightarrow> string list) \<Rightarrow> string \<Rightarrow> Device \<Rightarrow> string \<Rightarrow> LocalNote \<Rightarrow> LocalNote list" where
  "reference_update change notebookId d updatedAt n =
     (if n_syncStatus n = Conflict \<or> n_syncStatus n = Deleted \<or> truthy_opt (n_deletedAt n) then []
      else let ids = noteNotebookIds n; next_ids = change ids
           in if notebookId \<notin> set ids then []
              else if join nul next_ids = join nul ids then []
              else [n\<lparr>n_notebookIds := next_ids, n_notebookId := primaryNotebookId next_ids,
                      n_updatedAt := updatedAt, n_deviceId := d_id d, n_version := safePendingVersion (n_version n) (ln_lastSyncedVersion n),
                      n_syncStatus := Pending, ln_lastSyncedAt := None\<rparr>])"

definition update_references :: "(string list \<Rightarrow> string list) \<Rightarrow> string \<Rightarrow> Device \<Rightarrow> string \<Rightarrow> client \<Rightarrow> client" where
  "update_references change notebookId d updatedAt c =
     c\<lparr>cl_notes := fold (tput n_id) (concat (map (reference_update change notebookId d updatedAt) (cl_notes c))) (cl_notes c)\<rparr>"

definition remapLocalNoteNotebookReferences :: "string \<Rightarrow> string \<Rightarrow> Device \<Rightarrow> string \<Rightarrow> unit action" where
  "remapLocalNoteNotebookReferences fromId toId d updatedAt =
     modify (update_references (\<lambda>ids. remappedNotebookIds ids fromId toId) fromId d updatedAt)"

definition removeLocalNoteNotebookReferences :: "string \<Rightarrow> Device \<Rightarrow> string \<Rightarrow> unit action" where
  "removeLocalNoteNotebookReferences notebookId d updatedAt =
     modify (update_references (\<lambda>ids. normalizedNotebookIds (filter (\<lambda>i. i \<noteq> notebookId) ids)) notebookId d updatedAt)"

section \<open>Remote deletions\<close>

definition delete_note_if_allowed :: "string \<Rightarrow> client \<Rightarrow> client" where
  "delete_note_if_allowed i c =
     (case storedNote i c of
        Some n \<Rightarrow> if canApplyRemoteDelete (n_syncStatus n) then c\<lparr>cl_notes := tdel n_id i (cl_notes c)\<rparr> else c
      | None \<Rightarrow> c)"

definition delete_notebook_if_allowed :: "string \<Rightarrow> client \<times> string list \<Rightarrow> client \<times> string list" where
  "delete_notebook_if_allowed i = (\<lambda>(c, gone).
     case storedNotebook i c of
       None \<Rightarrow> (c, gone @ [i])
     | Some nb \<Rightarrow> if canApplyRemoteDelete (nb_syncStatus nb)
                  then (c\<lparr>cl_notebooks := tdel nb_id i (cl_notebooks c)\<rparr>, gone @ [i]) else (c, gone))"

definition applyRemoteDeletes :: "string list \<Rightarrow> string list \<Rightarrow> string list \<Rightarrow> string list action" where
  "applyRemoteDeletes deletedNoteIds deletedNotebookIds deletedDeviceIds = (\<lambda>c.
     let noteIds = filter truthy (dedupe deletedNoteIds);
         notebookIds = filter truthy (dedupe deletedNotebookIds);
         deviceIds = filter truthy (dedupe deletedDeviceIds);
         (c2, gone) = fold delete_notebook_if_allowed notebookIds (fold delete_note_if_allowed noteIds c, [])
     in (Inr gone, c2\<lparr>cl_devices := fold (tdel d_id) deviceIds (cl_devices c2)\<rparr>))"

definition removeDeletedNotebookReferences :: "ctxt \<Rightarrow> string list \<Rightarrow> string \<Rightarrow> unit action" where
  "removeDeletedNotebookReferences cx deletedNotebookIds updatedAt =
     (let ids = filter truthy (dedupe deletedNotebookIds)
      in if ids = [] then ret ()
         else bnd (getOrCreateDevice cx) (\<lambda>d.
           for_each (\<lambda>i. removeLocalNoteNotebookReferences i d updatedAt) ids))"

section \<open>Accepted pushes\<close>

text \<open>The last pushed change with a key counts, as the entries of a \<open>Map\<close> overwrite one another.\<close>

definition pushed_change :: "accepted_change list \<Rightarrow> entity_type \<Rightarrow> string \<Rightarrow> accepted_change option" where
  "pushed_change pushed ty i = find (\<lambda>p. ac_entityType p = ty \<and> ac_id p = i) (rev pushed)"

definition still_matches :: "accepted_change option \<Rightarrow> int \<Rightarrow> string \<Rightarrow> bool" where
  "still_matches p version updatedAt \<longleftrightarrow>
     (case p of None \<Rightarrow> True | Some a \<Rightarrow> version = ac_version a \<and> updatedAt = ac_updatedAt a)"

definition mark_accepted :: "string \<Rightarrow> accepted_change list \<Rightarrow> accepted_change \<Rightarrow> client \<Rightarrow> client" where
  "mark_accepted syncedAt pushed a c =
     (if ac_entityType a = Note_entity then
        (case storedNote (ac_id a) c of
           None \<Rightarrow> c
         | Some n \<Rightarrow>
             let same = still_matches (pushed_change pushed Note_entity (ac_id a)) (n_version n) (n_updatedAt n)
             in c\<lparr>cl_notes := tput n_id (n\<lparr>n_version := (if same then ac_version a else n_version n),
                    n_syncStatus := (if same then Synced else Pending),
                    ln_lastSyncedVersion := ac_version a, ln_lastSyncedAt := Some syncedAt\<rparr>) (cl_notes c)\<rparr>)
      else
        (case storedNotebook (ac_id a) c of
           None \<Rightarrow> c
         | Some n \<Rightarrow>
             let same = still_matches (pushed_change pushed Notebook_entity (ac_id a)) (nb_version n) (nb_updatedAt n)
             in c\<lparr>cl_notebooks := tput nb_id (n\<lparr>nb_version := (if same then ac_version a else nb_version n),
                    nb_syncStatus := (if same then Synced else Pending),
                    lnb_lastSyncedVersion := ac_version a, lnb_lastSyncedAt := Some syncedAt\<rparr>) (cl_notebooks c)\<rparr>))"

definition markAcceptedChanges :: "accepted_change list \<Rightarrow> string \<Rightarrow> accepted_change list \<Rightarrow> unit action" where
  "markAcceptedChanges accepted_changes syncedAt pushed = modify (fold (mark_accepted syncedAt pushed) accepted_changes)"

section \<open>Storing a conflict\<close>

text \<open>The two reasons to read the record again: it changed, or it appeared with an edit.\<close>

definition changed_meanwhile ::
  "(int \<times> string) option \<Rightarrow> (int \<times> string) option \<Rightarrow> (int \<times> string) option \<Rightarrow> bool" where
  "changed_meanwhile current latest pushed \<longleftrightarrow>
     (case current of
        Some cur \<Rightarrow> latest \<noteq> Some cur
      | None \<Rightarrow> (case (latest, pushed) of (Some l, Some p) \<Rightarrow> l \<noteq> p | _ \<Rightarrow> False))"

definition note_stamp :: "LocalNote \<Rightarrow> int \<times> string" where
  "note_stamp n = (n_version n, n_updatedAt n)"

definition notebook_stamp :: "LocalNotebook \<Rightarrow> int \<times> string" where
  "notebook_stamp n = (nb_version n, nb_updatedAt n)"

definition note_conflict_of :: "Note sync_conflict \<Rightarrow> LocalNote option \<Rightarrow> Note sync_conflict" where
  "note_conflict_of conf current =
     (case current of
        None \<Rightarrow> conf
      | Some n \<Rightarrow> conf\<lparr>sc_local := (sc_local conf)\<lparr>cv_deviceId := n_deviceId n, cv_updatedAt := n_updatedAt n,
                          cv_version := n_version n, cv_record := Note.truncate n\<rparr>\<rparr>)"

definition notebook_conflict_of :: "Notebook sync_conflict \<Rightarrow> LocalNotebook option \<Rightarrow> Notebook sync_conflict" where
  "notebook_conflict_of conf current =
     (case current of
        None \<Rightarrow> conf
      | Some n \<Rightarrow> conf\<lparr>sc_local := (sc_local conf)\<lparr>cv_deviceId := nb_deviceId n, cv_updatedAt := nb_updatedAt n,
                          cv_version := nb_version n, cv_record := Notebook.truncate n\<rparr>\<rparr>)"

definition open_conflict :: "string \<Rightarrow> entity_type \<Rightarrow> string \<Rightarrow> string \<Rightarrow> any_conflict \<Rightarrow> LocalConflict" where
  "open_conflict i ty entityId createdAt stored =
     \<lparr>lc_id = i, lc_entityType = ty, lc_entityId = entityId, lc_status = Open_conflict, lc_createdAt = createdAt,
      lc_conflict = stored\<rparr>"

text \<open>The writes of the transaction: the entry, and the mark on the row it is about.\<close>

definition store_note_conflict :: "LocalConflict \<Rightarrow> client \<Rightarrow> client" where
  "store_note_conflict lc c =
     c\<lparr>cl_conflicts := tput lc_id lc (cl_conflicts c),
       cl_notes := (case storedNote (lc_entityId lc) c of
                      None \<Rightarrow> cl_notes c | Some n \<Rightarrow> tput n_id (n\<lparr>n_syncStatus := Conflict\<rparr>) (cl_notes c))\<rparr>"

definition store_notebook_conflict :: "LocalConflict \<Rightarrow> client \<Rightarrow> client" where
  "store_notebook_conflict lc c =
     c\<lparr>cl_conflicts := tput lc_id lc (cl_conflicts c),
       cl_notebooks := (case storedNotebook (lc_entityId lc) c of
                      None \<Rightarrow> cl_notebooks c | Some n \<Rightarrow> tput nb_id (n\<lparr>nb_syncStatus := Conflict\<rparr>) (cl_notebooks c))\<rparr>"

text \<open>One attempt: read, encrypt (other code may run), and one transaction that checks and writes.\<close>

definition save_note_conflict ::
  "ctxt \<Rightarrow> string \<Rightarrow> Note sync_conflict \<Rightarrow> (int \<times> string) option \<Rightarrow> bool action" where
  "save_note_conflict cx createdAt conf pushed =
     bnd (asks (storedNote (sc_entityId conf))) (\<lambda>current.
     bnd (check_effect (encryptConflictForStorage (cx_crypto cx) (cx_material cx)
            (NoteConflict (note_conflict_of conf current)))) (\<lambda>stored.
     seq (await cx)
     (bnd (asks (storedNote (sc_entityId conf))) (\<lambda>latest.
       if changed_meanwhile (map_option note_stamp current) (map_option note_stamp latest) pushed then ret False
       else seq (modify (store_note_conflict
                   (open_conflict (sc_id conf) (sc_entityType conf) (sc_entityId conf) createdAt stored))) (ret True)))))"

definition save_notebook_conflict ::
  "ctxt \<Rightarrow> string \<Rightarrow> Notebook sync_conflict \<Rightarrow> (int \<times> string) option \<Rightarrow> bool action" where
  "save_notebook_conflict cx createdAt conf pushed =
     bnd (asks (storedNotebook (sc_entityId conf))) (\<lambda>current.
     bnd (check_effect (encryptConflictForStorage (cx_crypto cx) (cx_material cx)
            (NotebookConflict (notebook_conflict_of conf current)))) (\<lambda>stored.
     seq (await cx)
     (bnd (asks (storedNotebook (sc_entityId conf))) (\<lambda>latest.
       if changed_meanwhile (map_option notebook_stamp current) (map_option notebook_stamp latest) pushed then ret False
       else seq (modify (store_notebook_conflict
                   (open_conflict (sc_id conf) (sc_entityType conf) (sc_entityId conf) createdAt stored))) (ret True)))))"

fun save_conflict_once :: "ctxt \<Rightarrow> string \<Rightarrow> any_conflict \<Rightarrow> (int \<times> string) option \<Rightarrow> bool action" where
  "save_conflict_once cx createdAt (NoteConflict conf) pushed = save_note_conflict cx createdAt conf pushed"
| "save_conflict_once cx createdAt (NotebookConflict conf) pushed = save_notebook_conflict cx createdAt conf pushed"

primrec save_conflict_attempts :: "nat \<Rightarrow> ctxt \<Rightarrow> string \<Rightarrow> any_conflict \<Rightarrow> (int \<times> string) option \<Rightarrow> unit action" where
  "save_conflict_attempts 0 cx createdAt conf pushed = raise Kept_changing"
| "save_conflict_attempts (Suc attempts) cx createdAt conf pushed =
     bnd (save_conflict_once cx createdAt conf pushed) (\<lambda>saved.
       if saved then ret () else save_conflict_attempts attempts cx createdAt conf pushed)"

definition saveConflict :: "ctxt \<Rightarrow> any_conflict \<Rightarrow> (int \<times> string) option \<Rightarrow> unit action" where
  "saveConflict cx conf pushed =
     bnd (now_action cx) (\<lambda>createdAt. save_conflict_attempts 3 cx createdAt conf pushed)"

fun remote_device_of :: "any_conflict \<Rightarrow> string" where
  "remote_device_of (NoteConflict conf) = cv_deviceId (sc_remote conf)"
| "remote_device_of (NotebookConflict conf) = cv_deviceId (sc_remote conf)"

definition absorb_status :: "sync_status \<Rightarrow> sync_status" where
  "absorb_status s = (if s = Deleted then Deleted else Pending)"

fun absorb :: "any_conflict \<Rightarrow> string \<Rightarrow> client \<Rightarrow> client" where
  "absorb (NoteConflict conf) syncedAt c =
     (case storedNote (sc_entityId conf) c of
        None \<Rightarrow> c
      | Some n \<Rightarrow> c\<lparr>cl_notes := tput n_id (n\<lparr>n_syncStatus := absorb_status (n_syncStatus n),
            ln_lastSyncedVersion := max (ln_lastSyncedVersion n) (n_version (cv_record (sc_remote conf))),
            ln_lastSyncedAt := Some syncedAt\<rparr>) (cl_notes c)\<rparr>)"
| "absorb (NotebookConflict conf) syncedAt c =
     (case storedNotebook (sc_entityId conf) c of
        None \<Rightarrow> c
      | Some n \<Rightarrow> c\<lparr>cl_notebooks := tput nb_id (n\<lparr>nb_syncStatus := absorb_status (nb_syncStatus n),
            lnb_lastSyncedVersion := max (lnb_lastSyncedVersion n) (nb_version (cv_record (sc_remote conf))),
            lnb_lastSyncedAt := Some syncedAt\<rparr>) (cl_notebooks c)\<rparr>)"

definition absorbSameDevicePushConflict :: "ctxt \<Rightarrow> any_conflict \<Rightarrow> string \<Rightarrow> bool action" where
  "absorbSameDevicePushConflict cx conf syncedAt =
     (if conflict_reason_of conf \<noteq> Remote_changed then ret False
      else bnd (getOrCreateDevice cx) (\<lambda>d.
        if remote_device_of conf \<noteq> d_id d then ret False
        else seq (modify (absorb conf syncedAt)) (ret True)))"

definition repairSameDevicePendingConflicts :: "ctxt \<Rightarrow> string \<Rightarrow> unit action" where
  "repairSameDevicePendingConflicts cx syncedAt =
     bnd (asks (\<lambda>c. filter (\<lambda>lc. lc_status lc = Open_conflict) (cl_conflicts c))) (\<lambda>conflicts.
       for_each (\<lambda>lc. bnd (absorbSameDevicePushConflict cx (lc_conflict lc) syncedAt) (\<lambda>absorbed.
         if absorbed then putConflict (lc\<lparr>lc_status := Resolved_conflict\<rparr>) else ret ())) conflicts)"

end
