(* ===== verification/ClientMerge.thy ===== *)
theory ClientMerge
  imports ClientStore
begin

text \<open>
  Merging pulled records into the local tables and resolving conflicts (the second half of
  \<open>apps/web/src/lib/client/sync-store.ts\<close>).
\<close>

section \<open>Merging remote records\<close>

definition assertSupportedRemoteEncryptedText :: "string \<Rightarrow> unit action" where
  "assertSupportedRemoteEncryptedText v = (if isUnsupportedEncryptedText v then raise Upgrade_required else ret ())"

definition assertRemoteNoteDoesNotNeedLegacyMigration :: "Note \<Rightarrow> unit action" where
  "assertRemoteNoteDoesNotNeedLegacyMigration remote =
     seq (assertSupportedRemoteEncryptedText (n_title remote)) (assertSupportedRemoteEncryptedText (n_body remote))"

definition assertRemoteNotebookDoesNotNeedLegacyMigration :: "Notebook \<Rightarrow> unit action" where
  "assertRemoteNotebookDoesNotNeedLegacyMigration remote = assertSupportedRemoteEncryptedText (nb_name remote)"

definition noteNeedsEncryptionRepublish :: "Note \<Rightarrow> Note \<Rightarrow> bool" where
  "noteNeedsEncryptionRepublish remote stored \<longleftrightarrow>
     \<not> isCurrentEncryptedText (n_title remote) \<or> \<not> isCurrentEncryptedText (n_body remote) \<or>
     n_titleHash remote \<noteq> n_titleHash stored \<or> n_bodyHash remote \<noteq> n_bodyHash stored"

definition notebookNeedsEncryptionRepublish :: "Notebook \<Rightarrow> Notebook \<Rightarrow> bool" where
  "notebookNeedsEncryptionRepublish remote stored \<longleftrightarrow>
     \<not> isCurrentEncryptedText (nb_name remote) \<or> nb_nameHash remote \<noteq> nb_nameHash stored"

definition device_if :: "ctxt \<Rightarrow> bool \<Rightarrow> Device option action" where
  "device_if cx b = (if b then bnd (getOrCreateDevice cx) (\<lambda>d. ret (Some d)) else ret None)"

text \<open>\<open>remoteLocal\<close>: the row the remote record becomes.\<close>

definition remote_row :: "Note \<Rightarrow> Note \<Rightarrow> Device option \<Rightarrow> bool \<Rightarrow> string \<Rightarrow> LocalNote" where
  "remote_row remote stored republishDevice republish syncedAt =
     as_local (stored\<lparr>n_deviceId := (case republishDevice of Some d \<Rightarrow> d_id d | None \<Rightarrow> n_deviceId stored),
                      n_version := (case republishDevice of Some d \<Rightarrow> nextVersionAfter (n_version remote) | None \<Rightarrow> n_version stored),
                      n_syncStatus := (if republish then Pending else Synced)\<rparr>)
       (n_version remote) (Some syncedAt)"

definition remote_notebook_row :: "Notebook \<Rightarrow> Notebook \<Rightarrow> Device option \<Rightarrow> bool \<Rightarrow> string \<Rightarrow> LocalNotebook" where
  "remote_notebook_row remote stored republishDevice republish syncedAt =
     as_local_notebook (stored\<lparr>nb_deviceId := (case republishDevice of Some d \<Rightarrow> d_id d | None \<Rightarrow> nb_deviceId stored),
                      nb_version := (case republishDevice of Some d \<Rightarrow> nextVersionAfter (nb_version remote) | None \<Rightarrow> nb_version stored),
                      nb_syncStatus := (if republish then Pending else Synced)\<rparr>)
       (nb_version remote) (Some syncedAt)"

text \<open>The conflict built from the local and the remote record, both decrypted.\<close>

definition merge_conflict :: "string \<Rightarrow> LocalNote \<Rightarrow> LocalNote \<Rightarrow> Note \<Rightarrow> Note \<Rightarrow> string \<Rightarrow> string \<Rightarrow> Note sync_conflict" where
  "merge_conflict i l localPlain remote remotePlain localName remoteName =
     \<lparr>sc_id = i, sc_entityType = Note_entity, sc_entityId = n_id remote, sc_reason = Remote_changed,
      sc_local = \<lparr>cv_source = Local_source, cv_deviceId = n_deviceId l, cv_deviceName = localName,
        cv_updatedAt = n_updatedAt l, cv_version = n_version l, cv_previewText = previewNote localPlain,
        cv_record = Note.truncate localPlain\<rparr>,
      sc_remote = \<lparr>cv_source = Remote_source, cv_deviceId = n_deviceId remote, cv_deviceName = remoteName,
        cv_updatedAt = n_updatedAt remote, cv_version = n_version remote, cv_previewText = previewNote remotePlain,
        cv_record = remotePlain\<rparr>\<rparr>"

definition merge_notebook_conflict ::
  "string \<Rightarrow> LocalNotebook \<Rightarrow> LocalNotebook \<Rightarrow> Notebook \<Rightarrow> Notebook \<Rightarrow> string \<Rightarrow> string \<Rightarrow> Notebook sync_conflict" where
  "merge_notebook_conflict i l localPlain remote remotePlain localName remoteName =
     \<lparr>sc_id = i, sc_entityType = Notebook_entity, sc_entityId = nb_id remote, sc_reason = Remote_changed,
      sc_local = \<lparr>cv_source = Local_source, cv_deviceId = nb_deviceId l, cv_deviceName = localName,
        cv_updatedAt = nb_updatedAt l, cv_version = nb_version l, cv_previewText = previewNotebook localPlain,
        cv_record = Notebook.truncate localPlain\<rparr>,
      sc_remote = \<lparr>cv_source = Remote_source, cv_deviceId = nb_deviceId remote, cv_deviceName = remoteName,
        cv_updatedAt = nb_updatedAt remote, cv_version = nb_version remote, cv_previewText = previewNotebook remotePlain,
        cv_record = remotePlain\<rparr>\<rparr>"

text \<open>What the merge does with a local row: \<open>l\<close> was read before the remote record was re-encrypted.\<close>

definition merge_existing_note ::
  "ctxt \<Rightarrow> Note \<Rightarrow> Note \<Rightarrow> LocalNote \<Rightarrow> string \<Rightarrow> LocalNote \<Rightarrow> unit action" where
  "merge_existing_note cx remote remotePlain remoteLocal syncedAt l =
     bnd (check (decryptNoteFields (cx_crypto cx) (cx_material cx) l)) (\<lambda>localPlain.
       if n_syncStatus l = Pending \<and> ln_lastSyncedVersion l \<noteq> n_version remote \<and> notesDiffer localPlain remotePlain
       then bnd (remoteCameFromThisDevice cx (n_deviceId remote)) (\<lambda>own.
         if own then
           (if n_version remote > ln_lastSyncedVersion l
            then putNote (l\<lparr>ln_lastSyncedVersion := n_version remote, ln_lastSyncedAt := Some syncedAt\<rparr>) else ret ())
         else
           bnd (id_action cx) (\<lambda>i.
           bnd (getOrCreateDevice cx) (\<lambda>d.
           bnd (deviceName (n_deviceId remote)) (\<lambda>remoteName.
             saveConflict cx (NoteConflict (merge_conflict i l localPlain remote remotePlain (d_name d) remoteName)) None))))
       else if n_syncStatus l \<noteq> Pending \<and> n_syncStatus l \<noteq> Conflict then putNote remoteLocal
       else ret ())"

definition mergeRemoteNote :: "ctxt \<Rightarrow> Note \<Rightarrow> string \<Rightarrow> unit action" where
  "mergeRemoteNote cx remote syncedAt =
     seq (assertRemoteNoteDoesNotNeedLegacyMigration remote)
     (bnd (asks (storedNote (n_id remote))) (\<lambda>existing.
      bnd (check (decryptNoteFields (cx_crypto cx) (cx_material cx) remote)) (\<lambda>remotePlain.
      bnd (check_effect (encryptNoteFields (cx_crypto cx) (cx_material cx) remotePlain)) (\<lambda>remoteStored.
      let republish = noteNeedsEncryptionRepublish remote remoteStored
      in bnd (device_if cx republish) (\<lambda>republishDevice.
      let remoteLocal = remote_row remote remoteStored republishDevice republish syncedAt
      in seq (await cx)
        (case existing of
           None \<Rightarrow> putNote remoteLocal
         | Some l \<Rightarrow> merge_existing_note cx remote remotePlain remoteLocal syncedAt l))))))"

definition merge_existing_notebook ::
  "ctxt \<Rightarrow> Notebook \<Rightarrow> Notebook \<Rightarrow> LocalNotebook \<Rightarrow> string \<Rightarrow> LocalNotebook \<Rightarrow> unit action" where
  "merge_existing_notebook cx remote remotePlain remoteLocal syncedAt l =
     bnd (check (decryptNotebookFields (cx_crypto cx) (cx_material cx) l)) (\<lambda>localPlain.
       if nb_syncStatus l = Pending \<and> lnb_lastSyncedVersion l \<noteq> nb_version remote \<and> notebooksDiffer localPlain remotePlain
       then bnd (remoteCameFromThisDevice cx (nb_deviceId remote)) (\<lambda>own.
         if own then
           (if nb_version remote > lnb_lastSyncedVersion l
            then putNotebook (l\<lparr>lnb_lastSyncedVersion := nb_version remote, lnb_lastSyncedAt := Some syncedAt\<rparr>) else ret ())
         else
           bnd (id_action cx) (\<lambda>i.
           bnd (getOrCreateDevice cx) (\<lambda>d.
           bnd (deviceName (nb_deviceId remote)) (\<lambda>remoteName.
             saveConflict cx (NotebookConflict (merge_notebook_conflict i l localPlain remote remotePlain (d_name d) remoteName)) None))))
       else if nb_syncStatus l \<noteq> Pending \<and> nb_syncStatus l \<noteq> Conflict then putNotebook remoteLocal
       else ret ())"

definition mergeRemoteNotebook :: "ctxt \<Rightarrow> Notebook \<Rightarrow> string \<Rightarrow> unit action" where
  "mergeRemoteNotebook cx remote syncedAt =
     seq (assertRemoteNotebookDoesNotNeedLegacyMigration remote)
     (bnd (asks (storedNotebook (nb_id remote))) (\<lambda>existing.
      bnd (check (decryptNotebookFields (cx_crypto cx) (cx_material cx) remote)) (\<lambda>remotePlain.
      bnd (check_effect (encryptNotebookFields (cx_crypto cx) (cx_material cx) remotePlain)) (\<lambda>remoteStored.
      let republish = notebookNeedsEncryptionRepublish remote remoteStored
      in bnd (device_if cx republish) (\<lambda>republishDevice.
      let remoteLocal = remote_notebook_row remote remoteStored republishDevice republish syncedAt
      in seq (await cx)
        (case existing of
           None \<Rightarrow> putNotebook remoteLocal
         | Some l \<Rightarrow> merge_existing_notebook cx remote remotePlain remoteLocal syncedAt l))))))"

definition deleted_notebook_ids :: "Notebook list \<Rightarrow> client \<Rightarrow> string list" where
  "deleted_notebook_ids nbs c =
     map nb_id (filter (\<lambda>nb. truthy_opt (nb_deletedAt nb) \<and>
       (case storedNotebook (nb_id nb) c of
          Some l \<Rightarrow> truthy_opt (nb_deletedAt l) \<and> canApplyRemoteDelete (nb_syncStatus l) | None \<Rightarrow> False)) nbs)"

definition mergeRemoteChanges :: "ctxt \<Rightarrow> Note list \<Rightarrow> Notebook list \<Rightarrow> string \<Rightarrow> unit action" where
  "mergeRemoteChanges cx remote_notes remote_notebooks syncedAt =
     seq (for_each (\<lambda>nb. mergeRemoteNotebook cx nb syncedAt) remote_notebooks)
     (seq (for_each (\<lambda>n. mergeRemoteNote cx n syncedAt) remote_notes)
     (bnd (asks (deleted_notebook_ids remote_notebooks)) (\<lambda>ids.
        removeDeletedNotebookReferences cx ids syncedAt)))"

section \<open>Resolving a conflict\<close>

definition put_encrypted_note :: "ctxt \<Rightarrow> LocalNote \<Rightarrow> unit action" where
  "put_encrypted_note cx n =
     bnd (check_effect (encryptNoteFields (cx_crypto cx) (cx_material cx) n)) (\<lambda>stored. seq (await cx) (putNote stored))"

definition put_encrypted_notebook :: "ctxt \<Rightarrow> LocalNotebook \<Rightarrow> unit action" where
  "put_encrypted_notebook cx n =
     bnd (check_effect (encryptNotebookFields (cx_crypto cx) (cx_material cx) n)) (\<lambda>stored. seq (await cx) (putNotebook stored))"

text \<open>The remote record as a synchronised row, and the local one as a new record.\<close>

definition synced_note :: "Note \<Rightarrow> string \<Rightarrow> LocalNote" where
  "synced_note remote now = as_local (remote\<lparr>n_syncStatus := Synced\<rparr>) (n_version remote) (Some now)"

definition synced_notebook :: "Notebook \<Rightarrow> string \<Rightarrow> LocalNotebook" where
  "synced_notebook remote now = as_local_notebook (remote\<lparr>nb_syncStatus := Synced\<rparr>) (nb_version remote) (Some now)"

definition note_copy :: "Note \<Rightarrow> string \<Rightarrow> Device \<Rightarrow> string \<Rightarrow> LocalNote" where
  "note_copy l i d now =
     as_local (l\<lparr>n_id := i, n_title := (if truthy (n_title l) then n_title l @ '' copy'' else []),
                 n_createdAt := now, n_updatedAt := now, n_deviceId := d_id d, n_version := 1, n_syncStatus := Pending\<rparr>) 0 None"

definition notebook_copy :: "Notebook \<Rightarrow> string \<Rightarrow> string \<Rightarrow> string option \<Rightarrow> Device \<Rightarrow> string \<Rightarrow> LocalNotebook" where
  "notebook_copy l i name nameHash d now =
     as_local_notebook (l\<lparr>nb_id := i, nb_name := name, nb_nameHash := nameHash,
                 nb_createdAt := now, nb_updatedAt := now, nb_deviceId := d_id d, nb_version := 1, nb_syncStatus := Pending\<rparr>) 0 None"

definition chosen_note :: "Note conflict_version \<Rightarrow> int \<Rightarrow> Device \<Rightarrow> string \<Rightarrow> LocalNote" where
  "chosen_note selected remoteVersion d now =
     (let r = cv_record selected; isRemote = (cv_source selected = Remote_source)
      in as_local (r\<lparr>n_deviceId := (if isRemote then n_deviceId r else d_id d),
                     n_version := (if isRemote then remoteVersion else nextVersionAfter remoteVersion),
                     n_syncStatus := (if isRemote then Synced else Pending)\<rparr>)
           remoteVersion (if isRemote then Some now else None))"

definition chosen_notebook :: "Notebook conflict_version \<Rightarrow> int \<Rightarrow> Device \<Rightarrow> string \<Rightarrow> LocalNotebook" where
  "chosen_notebook selected remoteVersion d now =
     (let r = cv_record selected; isRemote = (cv_source selected = Remote_source)
      in as_local_notebook (r\<lparr>nb_deviceId := (if isRemote then nb_deviceId r else d_id d),
                     nb_version := (if isRemote then remoteVersion else nextVersionAfter remoteVersion),
                     nb_syncStatus := (if isRemote then Synced else Pending)\<rparr>)
           remoteVersion (if isRemote then Some now else None))"

definition resolveDuplicateNotebookNameConflict ::
  "ctxt \<Rightarrow> Notebook sync_conflict \<Rightarrow> conflict_choice \<Rightarrow> Device \<Rightarrow> string \<Rightarrow> unit action" where
  "resolveDuplicateNotebookNameConflict cx conf choice d now =
     (let l = cv_record (sc_local conf); remote = cv_record (sc_remote conf);
          selected = (if choice = Duplicate_both then sc_local conf else chooseConflictVersion (cx_env cx) conf choice);
          keepRemote = (choice \<noteq> Duplicate_both \<and> cv_source selected = Remote_source)
      in seq (put_encrypted_notebook cx (synced_notebook remote now))
        (if keepRemote then
           seq (remapLocalNoteNotebookReferences (nb_id l) (nb_id remote) d now)
             (if nb_id l \<noteq> nb_id remote
              then modify (\<lambda>c. c\<lparr>cl_notebooks := tdel nb_id (nb_id l) (cl_notebooks c)\<rparr>) else ret ())
         else
           bnd (id_action cx) (\<lambda>copyId.
           bnd (uniqueNotebookCopyName cx (nb_name l) [nb_id l, nb_id remote, copyId]) (\<lambda>copyName.
           seq (put_encrypted_notebook cx (notebook_copy l copyId copyName None d now))
           (seq (remapLocalNoteNotebookReferences (nb_id l) copyId d now)
             (if nb_id l \<noteq> copyId
              then modify (\<lambda>c. c\<lparr>cl_notebooks := tdel nb_id (nb_id l) (cl_notebooks c)\<rparr>) else ret ()))))))"

fun resolve_choice :: "ctxt \<Rightarrow> any_conflict \<Rightarrow> conflict_choice \<Rightarrow> Device \<Rightarrow> string \<Rightarrow> unit action" where
  "resolve_choice cx (NoteConflict conf) choice d now =
     (if choice = Duplicate_both then
        seq (put_encrypted_note cx (synced_note (cv_record (sc_remote conf)) now))
          (bnd (id_action cx) (\<lambda>copyId. put_encrypted_note cx (note_copy (cv_record (sc_local conf)) copyId d now)))
      else put_encrypted_note cx
             (chosen_note (chooseConflictVersion (cx_env cx) conf choice) (cv_version (sc_remote conf)) d now))"
| "resolve_choice cx (NotebookConflict conf) choice d now =
     (if sc_reason conf = Duplicate_name then resolveDuplicateNotebookNameConflict cx conf choice d now
      else if choice = Duplicate_both then
        (let l = cv_record (sc_local conf)
         in bnd (id_action cx) (\<lambda>copyId.
            seq (put_encrypted_notebook cx (synced_notebook (cv_record (sc_remote conf)) now))
            (seq (put_encrypted_notebook cx (notebook_copy l copyId (nb_name l @ '' copy'') (nb_nameHash l) d now))
              (remapLocalNoteNotebookReferences (nb_id l) copyId d now))))
      else
        (let selected = chooseConflictVersion (cx_env cx) conf choice; r = cv_record selected
         in seq (put_encrypted_notebook cx (chosen_notebook selected (cv_version (sc_remote conf)) d now))
              (if cv_source selected = Remote_source \<and> truthy_opt (nb_deletedAt r)
               then removeLocalNoteNotebookReferences (nb_id r) d now else ret ())))"

definition resolveConflict :: "ctxt \<Rightarrow> string \<Rightarrow> conflict_choice \<Rightarrow> unit action" where
  "resolveConflict cx conflictId choice =
     bnd (asks (getConflict conflictId)) (\<lambda>found.
       case found of
         None \<Rightarrow> ret ()
       | Some lc \<Rightarrow>
           if lc_status lc = Resolved_conflict then ret ()
           else
             bnd (check (decryptConflictForDisplay (cx_crypto cx) (cx_material cx) (lc_conflict lc))) (\<lambda>conf.
             bnd (getOrCreateDevice cx) (\<lambda>d.
             bnd (now_action cx) (\<lambda>now.
             seq (resolve_choice cx conf choice d now)
               (putConflict (lc\<lparr>lc_status := Resolved_conflict\<rparr>))))))"

end
