(* ===== verification/StoreLemmas.thy ===== *)
theory StoreLemmas
  imports ClientMerge
begin

text \<open>
  Facts about the client's store operations that the properties share: what they leave alone, what
  they do to the rows, and the frame rules for invariants that only look at the three tables of
  records.
\<close>

section \<open>Effects\<close>

text \<open>The calls of the crypto library draw random bytes but no identifiers.\<close>

definition draws_no_id :: "(effects \<Rightarrow> client_error + 'a \<times> effects) \<Rightarrow> bool" where
  "draws_no_id g \<longleftrightarrow> (\<forall>fx. case g fx of Inl e \<Rightarrow> True | Inr r \<Rightarrow> f_fresh (snd r) = f_fresh fx)"

named_theorems no_id_rules \<open>effects that draw no identifier\<close>

lemma draws_no_idD: "draws_no_id g \<Longrightarrow> g fx = Inr (x, fx') \<Longrightarrow> f_fresh fx' = f_fresh fx"
  by (auto simp: draws_no_id_def dest!: spec [of _ fx])

lemma draws_no_idI: "(\<And>fx x fx'. g fx = Inr (x, fx') \<Longrightarrow> f_fresh fx' = f_fresh fx) \<Longrightarrow> draws_no_id g"
  unfolding draws_no_id_def by (auto split: sum.split)

lemma no_id_encryptText [no_id_rules]: "draws_no_id (encryptText cr v m ctx)"
  by (rule draws_no_idI)
    (auto simp: encryptText_def and_then_Inr encryptionIv_def randomBytes_def Let_def split: if_splits)

lemma no_id_encrypt_field [no_id_rules]: "draws_no_id (encrypt_field cr b p v m ctx)"
  by (rule draws_no_idI) (auto simp: encrypt_field_def split: if_splits dest: draws_no_idD [OF no_id_encryptText])

lemma no_id_encryptNoteFields [no_id_rules]: "draws_no_id (encryptNoteFields cr m n)"
  by (rule draws_no_idI)
    (auto simp: encryptNoteFields_def Let_def and_then_Inr dest!: draws_no_idD [OF no_id_encrypt_field])

lemma no_id_encryptNotebookFields [no_id_rules]: "draws_no_id (encryptNotebookFields cr m n)"
  by (rule draws_no_idI)
    (auto simp: encryptNotebookFields_def Let_def and_then_Inr dest!: draws_no_idD [OF no_id_encrypt_field])

lemma no_id_encryptConflict [no_id_rules]: "draws_no_id (encryptConflictForStorage cr m conf)"
  by (rule draws_no_idI, cases conf)
    (auto simp: and_then_Inr dest!: draws_no_idD [OF no_id_encryptNoteFields] draws_no_idD [OF no_id_encryptNotebookFields])

section \<open>Frames\<close>

text \<open>
  Predicates that only look at the tables of records and are not disturbed by drawing more identifiers.
\<close>

definition store_only :: "(client \<Rightarrow> bool) \<Rightarrow> bool" where
  "store_only P \<longleftrightarrow> (\<forall>c c'. cl_notes c' = cl_notes c \<and> cl_notebooks c' = cl_notebooks c \<and> cl_conflicts c' = cl_conflicts c \<and>
     f_fresh (cl_fx c) \<le> f_fresh (cl_fx c') \<longrightarrow> P c \<longrightarrow> P c')"

lemma store_onlyD: "store_only P \<Longrightarrow> P c \<Longrightarrow> cl_notes c' = cl_notes c \<Longrightarrow> cl_notebooks c' = cl_notebooks c \<Longrightarrow>
    cl_conflicts c' = cl_conflicts c \<Longrightarrow> f_fresh (cl_fx c) \<le> f_fresh (cl_fx c') \<Longrightarrow> P c'"
  unfolding store_only_def by blast

lemma store_only_conj: "store_only P \<Longrightarrow> store_only Q \<Longrightarrow> store_only (\<lambda>c. P c \<and> Q c)"
  unfolding store_only_def by blast

lemma store_only_read:
  "store_only (\<lambda>c. storedNote i c = x)" "store_only (\<lambda>c. storedNotebook i c = y)" "store_only (\<lambda>c. getConflict i c = z)"
  unfolding store_only_def by auto

named_theorems frame_rules \<open>what keeps an invariant that only looks at the tables of records\<close>

lemma frame_effect [frame_rules]:
  "store_only P \<Longrightarrow> (\<And>fx. f_fresh fx \<le> f_fresh (snd (f fx))) \<Longrightarrow> keeps P (effect f)"
  by (auto simp: keeps_def effect_def Let_def case_prod_beta elim: store_onlyD)

lemma frame_modify: "store_only P \<Longrightarrow> (\<And>c. cl_notes (g c) = cl_notes c \<and> cl_notebooks (g c) = cl_notebooks c \<and>
    cl_conflicts (g c) = cl_conflicts c \<and> cl_fx (g c) = cl_fx c) \<Longrightarrow> keeps P (modify g)"
  by (auto simp: keeps_def elim!: store_onlyD)

lemma frame_check_effect [frame_rules]: "store_only P \<Longrightarrow> draws_no_id f \<Longrightarrow> keeps P (check_effect f)"
  by (auto simp: keeps_def check_effect_def split: sum.splits prod.splits dest: draws_no_idD elim!: store_onlyD)

lemma frame_now [frame_rules]: "store_only P \<Longrightarrow> keeps P (now_action cx)"
  unfolding now_action_def by (rule frame_effect) (simp_all add: nowIso_def)

lemma frame_id [frame_rules]: "store_only P \<Longrightarrow> keeps P (id_action cx)"
  unfolding id_action_def by (rule frame_effect) (simp_all add: newId_def)

lemma frame_device [frame_rules]: "store_only P \<Longrightarrow> keeps P (getOrCreateDevice cx)"
  unfolding getOrCreateDevice_def Let_def by (intro keeps_intros frame_id frame_modify) auto

text \<open>What other code does to the database between two steps respects the invariant.\<close>

definition others_keep :: "(client \<Rightarrow> bool) \<Rightarrow> ctxt \<Rightarrow> bool" where
  "others_keep P cx \<longleftrightarrow> (\<forall>k c. P c \<longrightarrow> P (cx_others cx k c))"

lemma quiet_others_keep: "quiet cx \<Longrightarrow> others_keep P cx"
  by (simp add: quiet_def others_keep_def)

lemma frame_await:
  assumes s: "store_only P" and o: "others_keep P cx"
  shows "keeps P (await cx)"
  unfolding keeps_def
proof (intro allI impI)
  fix c assume "P c"
  then have "P (cx_others cx (cl_awaits c) c)" using o by (simp add: others_keep_def)
  then show "P (snd (await cx c))"
    using store_onlyD [OF s, of "cx_others cx (cl_awaits c) c" "(cx_others cx (cl_awaits c) c)\<lparr>cl_awaits := Suc (cl_awaits c)\<rparr>"]
    by (simp add: await_def)
qed

lemma frame_name [frame_rules]: "keeps P (deviceName i)"
  by (simp add: deviceName_def keeps_asks)

lemma frame_own [frame_rules]: "store_only P \<Longrightarrow> keeps P (remoteCameFromThisDevice cx i)"
  unfolding remoteCameFromThisDevice_def by (intro keeps_intros frame_device)

lemma frame_device_if [frame_rules]: "store_only P \<Longrightarrow> keeps P (device_if cx b)"
  unfolding device_if_def by (intro keeps_intros frame_device)

lemma frame_support [frame_rules]: "keeps P (assertSupportedRemoteEncryptedText v)"
  unfolding assertSupportedRemoteEncryptedText_def by (intro keeps_intros)

lemma frame_note_support [frame_rules]: "keeps P (assertRemoteNoteDoesNotNeedLegacyMigration n)"
  unfolding assertRemoteNoteDoesNotNeedLegacyMigration_def by (intro keeps_intros frame_support)

lemma frame_notebook_support [frame_rules]: "keeps P (assertRemoteNotebookDoesNotNeedLegacyMigration n)"
  unfolding assertRemoteNotebookDoesNotNeedLegacyMigration_def by (intro frame_support)

lemma leads_check_bnd:
  "(\<And>x. r = Inr x \<Longrightarrow> leads P Q (f x)) \<Longrightarrow> (\<And>c. P c \<Longrightarrow> Q c) \<Longrightarrow> leads P Q (bnd (check r) f)"
  by (cases r) (auto simp: leads_def bnd_run)

lemma leads_check_effect_bnd:
  assumes so: "store_only P" and no: "draws_no_id g" and f: "\<And>x fx fx'. g fx = Inr (x, fx') \<Longrightarrow> leads P Q (f x)"
    and pq: "\<And>c. P c \<Longrightarrow> Q c"
  shows "leads P Q (bnd (check_effect g) f)"
  unfolding leads_def
proof (intro allI impI)
  fix c assume c: "P c"
  show "Q (snd (bnd (check_effect g) f c))"
  proof (cases "g (cl_fx c)")
    case (Inl e)
    then show ?thesis using c pq by (simp add: bnd_run check_effect_def)
  next
    case (Inr r)
    obtain x fx' where r: "g (cl_fx c) = Inr (x, fx')" using Inr by (cases r) simp
    have "P (c\<lparr>cl_fx := fx'\<rparr>)" using so c draws_no_idD [OF no r] by (auto elim!: store_onlyD)
    then show ?thesis using f [OF r] r by (simp add: bnd_run check_effect_def leads_def)
  qed
qed

section \<open>Encryption leaves the other fields alone\<close>

lemma decryptNoteFieldsD:
  "decryptNoteFields cr m n = Inr p \<Longrightarrow> \<exists>t b. p = n\<lparr>n_title := t, n_body := b\<rparr>"
  by (auto simp: decryptNoteFields_def and_then_Inr)

lemma encryptNoteFieldsD:
  "encryptNoteFields cr m n fx = Inr (p, fx') \<Longrightarrow>
   \<exists>th bh t b. p = n\<lparr>n_titleHash := th, n_bodyHash := bh, n_title := t, n_body := b\<rparr>"
  by (fastforce simp: encryptNoteFields_def Let_def and_then_Inr case_prod_beta)

lemma decryptNotebookFieldsD:
  "decryptNotebookFields cr m n = Inr p \<Longrightarrow> \<exists>t. p = n\<lparr>nb_name := t\<rparr>"
  by (auto simp: decryptNotebookFields_def and_then_Inr)

lemma encryptNotebookFieldsD:
  "encryptNotebookFields cr m n fx = Inr (p, fx') \<Longrightarrow> \<exists>h t. p = n\<lparr>nb_nameHash := h, nb_name := t\<rparr>"
  by (fastforce simp: encryptNotebookFields_def Let_def and_then_Inr case_prod_beta)

section \<open>Updates of references\<close>

lemma fold_put_updates:
  fixes key :: "'r \<Rightarrow> 'k::linorder"
  assumes wf: "wf_table key t"
    and keys: "\<And>r r'. r' \<in> set (f r) \<Longrightarrow> key r' = key r" and one: "\<And>r. length (f r) \<le> 1"
  shows "tget key k (fold (tput key) (concat (map f t)) t) =
    (case tget key k t of None \<Rightarrow> None | Some r \<Rightarrow> (case f r of [] \<Rightarrow> Some r | r' # _ \<Rightarrow> Some r'))"
proof -
  have sub: "key ` set (concat (map f xs)) \<subseteq> key ` set xs" for xs
    using keys by (induction xs) auto
  have dist: "distinct (map key (concat (map f xs)))" if "distinct (map key xs)" for xs
    using that
  proof (induction xs)
    case (Cons x xs)
    have "f x = [] \<or> (\<exists>r'. f x = [r'] \<and> key r' = key x)"
      using one [of x] keys [of _ x] by (cases "f x") auto
    moreover have "distinct (map key (concat (map f xs)))" "key x \<notin> key ` set (concat (map f xs))"
      using Cons sub [of xs] by auto
    ultimately show ?case by auto
  qed simp
  show ?thesis
  proof (cases "tget key k t")
    case None
    then have "k \<notin> key ` set (concat (map f t))" using sub [of t] by (auto simp: tget_None)
    then show ?thesis using None by (simp add: table.get_fold_put_other)
  next
    case (Some r)
    then have r: "r \<in> set t" "key r = k" by (auto dest: tget_set tget_key)
    show ?thesis
    proof (cases "f r")
      case Nil
      have "k \<notin> key ` set (concat (map f t))"
      proof
        assume "k \<in> key ` set (concat (map f t))"
        then obtain x r' where x: "x \<in> set t" "r' \<in> set (f x)" "key r' = k" by auto
        then have "key x = key r" using keys r by metis
        then have "x = r" using wf_table_inj [OF wf x(1) r(1)] by simp
        then show False using x Nil by simp
      qed
      then show ?thesis using Some Nil by (simp add: table.get_fold_put_other)
    next
      case (Cons r' rs)
      then have "r' \<in> set (concat (map f t))" "key r' = k" using r keys [of r' r] by (auto intro!: bexI [of _ r])
      then show ?thesis
        using table.get_fold_put_mem [OF dist [OF wf_table_distinct [OF wf]], of r' t] Some Cons by simp
    qed
  qed
qed

lemma reference_update_id: "r' \<in> set (reference_update ch nid d t r) \<Longrightarrow> n_id r' = n_id r"
  by (auto simp: reference_update_def Let_def split: if_splits)

lemma reference_update_one: "length (reference_update ch nid d t r) \<le> 1"
  by (simp add: reference_update_def Let_def)

lemma update_references_simps [simp]:
  "cl_notebooks (update_references ch nid d t c) = cl_notebooks c"
  "cl_conflicts (update_references ch nid d t c) = cl_conflicts c"
  "cl_devices (update_references ch nid d t c) = cl_devices c"
  "cl_snapshots (update_references ch nid d t c) = cl_snapshots c"
  by (simp_all add: update_references_def)

lemma getNote_update_references:
  "wf_table n_id (cl_notes c) \<Longrightarrow> storedNote i (update_references ch nid d t c) =
     (case storedNote i c of None \<Rightarrow> None | Some n \<Rightarrow>
        (case reference_update ch nid d t n of [] \<Rightarrow> Some n | n' # _ \<Rightarrow> Some n'))"
  unfolding update_references_def
  using fold_put_updates [where f = "reference_update ch nid d t" and key = n_id and t = "cl_notes c" and k = i]
    reference_update_id [of _ ch nid d t] reference_update_one [of ch nid d t] by simp

lemma wf_update_references:
  "wf_table n_id (cl_notes c) \<Longrightarrow> wf_table n_id (cl_notes (update_references ch nid d t c))"
  by (simp add: update_references_def table.wf_fold_put)

section \<open>Edits that are not synchronised yet\<close>

definition unsynced :: "LocalNote \<Rightarrow> bool" where
  "unsynced n \<longleftrightarrow> n_syncStatus n = Pending \<or> n_syncStatus n = Conflict"

text \<open>What the user wrote, as opposed to what synchronisation adds.\<close>

definition note_content :: "'a Note_scheme \<Rightarrow> string \<times> string \<times> string option \<times> string option \<times> bool" where
  "note_content n = (n_title n, n_body n, n_deletedAt n, n_trashedAt n, n_isFavorite n)"

definition note_held :: "string \<Rightarrow> LocalNote \<Rightarrow> client \<Rightarrow> bool" where
  "note_held i l c \<longleftrightarrow> wf_table n_id (cl_notes c) \<and>
     (\<exists>n. storedNote i c = Some n \<and> unsynced n \<and> note_content n = note_content l)"

lemma note_held_store: "store_only (note_held i l)"
  unfolding store_only_def note_held_def by auto

lemma reference_update_cases:
  "reference_update ch nid d t n = [] \<or>
   (\<exists>n'. reference_update ch nid d t n = [n'] \<and> n_syncStatus n \<noteq> Conflict \<and> n_syncStatus n' = Pending \<and>
      n_id n' = n_id n \<and> note_content n' = note_content n \<and> ln_lastSyncedVersion n' = ln_lastSyncedVersion n)"
  by (simp add: reference_update_def Let_def note_content_def)

lemma note_held_references: "note_held i l c \<Longrightarrow> note_held i l (update_references ch nid d t c)"
proof -
  assume "note_held i l c"
  then obtain n where wf: "wf_table n_id (cl_notes c)" and n: "storedNote i c = Some n" "unsynced n" "note_content n = note_content l"
    by (auto simp: note_held_def)
  from reference_update_cases [of ch nid d t n] show ?thesis
    using n by (auto simp: note_held_def getNote_update_references [OF wf] wf_update_references [OF wf] unsynced_def)
qed

lemma note_held_put:
  assumes "note_held i l c" and "n_id r = i \<Longrightarrow> unsynced r \<and> note_content r = note_content l"
  shows "note_held i l (c\<lparr>cl_notes := tput n_id r (cl_notes c)\<rparr>)"
  using assms by (auto simp: note_held_def tget_tput wf_table_tput)

lemma note_held_other:
  "note_held i l c \<Longrightarrow> cl_notes c' = cl_notes c \<Longrightarrow> note_held i l c'"
  by (simp add: note_held_def)

section \<open>Saving a conflict\<close>

fun conflict_id :: "any_conflict \<Rightarrow> string" where
  "conflict_id (NoteConflict cf) = sc_id cf"
| "conflict_id (NotebookConflict cf) = sc_id cf"

text \<open>How the stored entry is related to the conflict: the records keep their identifiers.\<close>

fun stored_like :: "any_conflict \<Rightarrow> any_conflict \<Rightarrow> bool" where
  "stored_like (NoteConflict cf) (NoteConflict st) \<longleftrightarrow> sc_reason st = sc_reason cf \<and> sc_entityId st = sc_entityId cf \<and>
     n_id (cv_record (sc_local st)) \<in> {n_id (cv_record (sc_local cf)), sc_entityId cf} \<and>
     n_id (cv_record (sc_remote st)) = n_id (cv_record (sc_remote cf))"
| "stored_like (NotebookConflict cf) (NotebookConflict st) \<longleftrightarrow> sc_reason st = sc_reason cf \<and> sc_entityId st = sc_entityId cf \<and>
     nb_id (cv_record (sc_local st)) \<in> {nb_id (cv_record (sc_local cf)), sc_entityId cf} \<and>
     nb_id (cv_record (sc_remote st)) = nb_id (cv_record (sc_remote cf))"
| "stored_like _ _ \<longleftrightarrow> False"

fun store_conflict :: "any_conflict \<Rightarrow> string \<Rightarrow> any_conflict \<Rightarrow> client \<Rightarrow> client" where
  "store_conflict (NoteConflict cf) t st =
     store_note_conflict (open_conflict (sc_id cf) (sc_entityType cf) (sc_entityId cf) t st)"
| "store_conflict (NotebookConflict cf) t st =
     store_notebook_conflict (open_conflict (sc_id cf) (sc_entityType cf) (sc_entityId cf) t st)"

lemma encryptConflict_noteD:
  assumes "encryptConflictForStorage cr m (NoteConflict conf) fx = Inr (stored, fx')"
  shows "\<exists>cf. stored = NoteConflict cf \<and> cv_version (sc_local cf) = cv_version (sc_local conf) \<and>
    cv_updatedAt (sc_local cf) = cv_updatedAt (sc_local conf) \<and> sc_reason cf = sc_reason conf \<and> sc_entityId cf = sc_entityId conf \<and>
    n_id (cv_record (sc_local cf)) = n_id (cv_record (sc_local conf)) \<and>
    n_id (cv_record (sc_remote cf)) = n_id (cv_record (sc_remote conf))"
  using assms by (auto simp: and_then_Inr case_prod_beta dest!: decryptNoteFieldsD) (fastforce dest: encryptNoteFieldsD)+

lemma encryptConflict_notebookD:
  assumes "encryptConflictForStorage cr m (NotebookConflict conf) fx = Inr (stored, fx')"
  shows "\<exists>cf. stored = NotebookConflict cf \<and> cv_version (sc_local cf) = cv_version (sc_local conf) \<and>
    cv_updatedAt (sc_local cf) = cv_updatedAt (sc_local conf) \<and> sc_reason cf = sc_reason conf \<and> sc_entityId cf = sc_entityId conf \<and>
    nb_id (cv_record (sc_local cf)) = nb_id (cv_record (sc_local conf)) \<and>
    nb_id (cv_record (sc_remote cf)) = nb_id (cv_record (sc_remote conf))"
  using assms by (auto simp: and_then_Inr case_prod_beta dest!: decryptNotebookFieldsD) (fastforce dest: encryptNotebookFieldsD)+

lemma note_conflict_of_ids:
  "sc_reason (note_conflict_of cf x) = sc_reason cf \<and> sc_entityId (note_conflict_of cf x) = sc_entityId cf"
  "cv_record (sc_remote (note_conflict_of cf x)) = cv_record (sc_remote cf)"
  "x = storedNote (sc_entityId cf) c \<Longrightarrow>
     n_id (cv_record (sc_local (note_conflict_of cf x))) \<in> {n_id (cv_record (sc_local cf)), sc_entityId cf}"
  by (auto simp: note_conflict_of_def split: option.splits dest: tget_key)

lemma notebook_conflict_of_ids:
  "sc_reason (notebook_conflict_of cf x) = sc_reason cf \<and> sc_entityId (notebook_conflict_of cf x) = sc_entityId cf"
  "cv_record (sc_remote (notebook_conflict_of cf x)) = cv_record (sc_remote cf)"
  "x = storedNotebook (sc_entityId cf) c \<Longrightarrow>
     nb_id (cv_record (sc_local (notebook_conflict_of cf x))) \<in> {nb_id (cv_record (sc_local cf)), sc_entityId cf}"
  by (auto simp: notebook_conflict_of_def split: option.splits dest: tget_key)

lemma save_note_conflict_cases:
  assumes s: "store_only P" and o: "others_keep P cx" and c: "P c"
    and run: "save_note_conflict cx t cf pushed c = (r, c')"
  shows "P c' \<and> r \<noteq> Inr True \<or>
    r = Inr True \<and> (\<exists>c2 st. P c2 \<and> stored_like (NoteConflict cf) st \<and> c' = store_conflict (NoteConflict cf) t st c2)"
proof -
  define x where "x = storedNote (sc_entityId cf) c"
  let ?g = "encryptConflictForStorage (cx_crypto cx) (cx_material cx) (NoteConflict (note_conflict_of cf x))"
  show ?thesis
  proof (cases "?g (cl_fx c)")
    case (Inl e)
    then show ?thesis using run c by (auto simp: save_note_conflict_def bnd_run check_effect_def x_def [symmetric]
          simp del: encryptConflictForStorage.simps)
  next
    case (Inr q)
    obtain st fx' where q: "?g (cl_fx c) = Inr (st, fx')" using Inr by (cases q) simp
    let ?c2 = "(cx_others cx (cl_awaits c) (c\<lparr>cl_fx := fx'\<rparr>))\<lparr>cl_awaits := Suc (cl_awaits c)\<rparr>"
    have "P (c\<lparr>cl_fx := fx'\<rparr>)" using s c draws_no_idD [OF no_id_encryptConflict q] by (auto elim!: store_onlyD)
    then have "P (cx_others cx (cl_awaits c) (c\<lparr>cl_fx := fx'\<rparr>))" using o by (simp add: others_keep_def)
    then have p2: "P ?c2" by (rule store_onlyD [OF s]) simp_all
    obtain cf' where "st = NoteConflict cf'" "stored_like (NoteConflict cf) st"
      using encryptConflict_noteD [OF q] note_conflict_of_ids(1,2) [of cf x] note_conflict_of_ids(3) [OF x_def] by auto
    moreover have "P c' \<and> r \<noteq> Inr True \<or> r = Inr True \<and> c' = store_conflict (NoteConflict cf) t st ?c2"
      using run p2 q
      by (auto simp: save_note_conflict_def bnd_run seq_run check_effect_def await_def x_def [symmetric]
          simp del: encryptConflictForStorage.simps split: if_splits)
    ultimately show ?thesis using p2 by blast
  qed
qed

lemma save_notebook_conflict_cases:
  assumes s: "store_only P" and o: "others_keep P cx" and c: "P c"
    and run: "save_notebook_conflict cx t cf pushed c = (r, c')"
  shows "P c' \<and> r \<noteq> Inr True \<or>
    r = Inr True \<and> (\<exists>c2 st. P c2 \<and> stored_like (NotebookConflict cf) st \<and> c' = store_conflict (NotebookConflict cf) t st c2)"
proof -
  define x where "x = storedNotebook (sc_entityId cf) c"
  let ?g = "encryptConflictForStorage (cx_crypto cx) (cx_material cx) (NotebookConflict (notebook_conflict_of cf x))"
  show ?thesis
  proof (cases "?g (cl_fx c)")
    case (Inl e)
    then show ?thesis using run c by (auto simp: save_notebook_conflict_def bnd_run check_effect_def x_def [symmetric]
          simp del: encryptConflictForStorage.simps)
  next
    case (Inr q)
    obtain st fx' where q: "?g (cl_fx c) = Inr (st, fx')" using Inr by (cases q) simp
    let ?c2 = "(cx_others cx (cl_awaits c) (c\<lparr>cl_fx := fx'\<rparr>))\<lparr>cl_awaits := Suc (cl_awaits c)\<rparr>"
    have "P (c\<lparr>cl_fx := fx'\<rparr>)" using s c draws_no_idD [OF no_id_encryptConflict q] by (auto elim!: store_onlyD)
    then have "P (cx_others cx (cl_awaits c) (c\<lparr>cl_fx := fx'\<rparr>))" using o by (simp add: others_keep_def)
    then have p2: "P ?c2" by (rule store_onlyD [OF s]) simp_all
    obtain cf' where "st = NotebookConflict cf'" "stored_like (NotebookConflict cf) st"
      using encryptConflict_notebookD [OF q] notebook_conflict_of_ids(1,2) [of cf x] notebook_conflict_of_ids(3) [OF x_def] by auto
    moreover have "P c' \<and> r \<noteq> Inr True \<or> r = Inr True \<and> c' = store_conflict (NotebookConflict cf) t st ?c2"
      using run p2 q
      by (auto simp: save_notebook_conflict_def bnd_run seq_run check_effect_def await_def x_def [symmetric]
          simp del: encryptConflictForStorage.simps split: if_splits)
    ultimately show ?thesis using p2 by blast
  qed
qed

lemma save_conflict_once_cases:
  assumes "store_only P" "others_keep P cx" "P c" "save_conflict_once cx t conf pushed c = (r, c')"
  shows "P c' \<and> r \<noteq> Inr True \<or> r = Inr True \<and> (\<exists>c2 st. P c2 \<and> stored_like conf st \<and> c' = store_conflict conf t st c2)"
proof (cases conf)
  case (NoteConflict cf)
  then show ?thesis using save_note_conflict_cases [OF assms(1-3)] assms(4) by simp
next
  case (NotebookConflict cf)
  then show ?thesis using save_notebook_conflict_cases [OF assms(1-3)] assms(4) by simp
qed

text \<open>Storing a conflict either leaves the tables to the others or ends with the transaction that writes it.\<close>

lemma leads_saveConflict:
  assumes s: "store_only P" and o: "others_keep P cx" and pq: "\<And>c. P c \<Longrightarrow> Q c"
    and st: "\<And>c t st. P c \<Longrightarrow> stored_like conf st \<Longrightarrow> Q (store_conflict conf t st c)"
  shows "leads P Q (saveConflict cx conf pushed)"
proof -
  have attempts: "leads P Q (save_conflict_attempts k cx t conf pushed)" for k t
  proof (induction k)
    case 0
    then show ?case by (simp add: leads_def pq)
  next
    case (Suc k)
    show ?case unfolding leads_def
    proof (intro allI impI)
      fix c assume c: "P c"
      obtain r c1 where run: "save_conflict_once cx t conf pushed c = (r, c1)" by fastforce
      from save_conflict_once_cases [OF s o c run] show "Q (snd (save_conflict_attempts (Suc k) cx t conf pushed c))"
        using Suc pq st by (cases r) (auto simp: bnd_run run leads_def)
    qed
  qed
  show ?thesis unfolding saveConflict_def
    by (rule leads_bnd [OF frame_now [OF s] attempts pq])
qed

text \<open>An invariant that every conflict entry for the records of \<open>conf\<close> keeps.\<close>

definition conflict_safe :: "(client \<Rightarrow> bool) \<Rightarrow> any_conflict \<Rightarrow> bool" where
  "conflict_safe P conf \<longleftrightarrow> (\<forall>c t st. P c \<longrightarrow> stored_like conf st \<longrightarrow> P (store_conflict conf t st c))"

lemma keeps_saveConflict:
  "store_only P \<Longrightarrow> others_keep P cx \<Longrightarrow> conflict_safe P conf \<Longrightarrow> keeps P (saveConflict cx conf pushed)"
  unfolding keeps_leads by (rule leads_saveConflict) (auto simp: conflict_safe_def)

lemma note_held_conflict_safe: "conflict_safe (note_held i l) conf"
proof -
  have "note_held i l (store_note_conflict lc c)" if h: "note_held i l c" for lc c
  proof (cases "storedNote (lc_entityId lc) c")
    case None
    then show ?thesis using h by (simp add: store_note_conflict_def note_held_def)
  next
    case (Some n)
    have "note_held i l (c\<lparr>cl_notes := tput n_id (n\<lparr>n_syncStatus := Conflict\<rparr>) (cl_notes c)\<rparr>)"
      by (rule note_held_put [OF h]) (use h tget_key [OF Some] Some in \<open>auto simp: note_held_def unsynced_def note_content_def\<close>)
    then show ?thesis using Some by (simp add: store_note_conflict_def note_held_def)
  qed
  then show ?thesis by (cases conf) (auto simp: conflict_safe_def store_notebook_conflict_def note_held_def)
qed

section \<open>Merging keeps edits\<close>

text \<open>
  Other code may run at the awaits, as long as it keeps the edit; a row read earlier is only used for the
  record it belongs to.
\<close>

lemma merge_existing_note_held:
  assumes o: "others_keep (note_held i l) cx" and loc: "n_id remoteLocal = n_id remote" and l0: "n_id l0 = n_id remote"
    and held: "n_id remote = i \<Longrightarrow> unsynced l0 \<and> note_content l0 = note_content l"
  shows "keeps (note_held i l) (merge_existing_note cx remote remotePlain remoteLocal t l0)"
proof -
  have put: "keeps (note_held i l) (putNote r)"
    if "n_id r = n_id remote" "n_id remote = i \<Longrightarrow> unsynced r \<and> note_content r = note_content l" for r
    unfolding putNote_def by (rule keeps_modify, rule note_held_put) (use that in auto)
  have own: "keeps (note_held i l) (putNote (l0\<lparr>ln_lastSyncedVersion := v, ln_lastSyncedAt := s\<rparr>))" for v s
    by (rule put) (use held l0 in \<open>auto simp: unsynced_def note_content_def\<close>)
  have new: "keeps (note_held i l) (putNote remoteLocal)" if "n_syncStatus l0 \<noteq> Pending \<and> n_syncStatus l0 \<noteq> Conflict"
    by (rule put [OF loc]) (use held that in \<open>auto simp: unsynced_def\<close>)
  show ?thesis unfolding merge_existing_note_def
    by (intro keeps_intros frame_rules note_held_store keeps_saveConflict o note_held_conflict_safe own new)
qed

lemma keeps_mergeRemoteNote_held:
  assumes o: "others_keep (note_held i l) cx"
  shows "keeps (note_held i l) (mergeRemoteNote cx remote t)"
  unfolding keeps_leads mergeRemoteNote_def Let_def
proof (rule leads_seq [OF frame_note_support], rule leads_asks_bnd, goal_cases)
  case (1 existing)
  let ?ok = "\<forall>l0. existing = Some l0 \<longrightarrow> n_id l0 = n_id remote \<and> (n_id remote = i \<longrightarrow> unsynced l0 \<and> note_content l0 = note_content l)"
  have fin: "keeps (note_held i l) (case existing of None \<Rightarrow> putNote r | Some l0 \<Rightarrow> merge_existing_note cx remote rp r t l0)"
    if "n_id r = n_id remote" ?ok "existing = None \<longrightarrow> n_id remote \<noteq> i" for r rp
    using that by (cases existing) (auto simp: putNote_def intro!: keeps_modify note_held_put merge_existing_note_held [OF o])
  have "leads (note_held i l) (note_held i l)
     (bnd (check (decryptNoteFields (cx_crypto cx) (cx_material cx) remote)) (\<lambda>remotePlain.
      bnd (check_effect (encryptNoteFields (cx_crypto cx) (cx_material cx) remotePlain)) (\<lambda>remoteStored.
      bnd (device_if cx (noteNeedsEncryptionRepublish remote remoteStored)) (\<lambda>republishDevice.
      seq (await cx)
        (case existing of
           None \<Rightarrow> putNote (remote_row remote remoteStored republishDevice (noteNeedsEncryptionRepublish remote remoteStored) t)
         | Some l0 \<Rightarrow> merge_existing_note cx remote remotePlain
             (remote_row remote remoteStored republishDevice (noteNeedsEncryptionRepublish remote remoteStored) t) t l0)))))"
    if ok: ?ok "existing = None \<longrightarrow> n_id remote \<noteq> i"
    apply (rule leads_check_bnd, rule leads_check_effect_bnd [OF note_held_store no_id_encryptNoteFields],
        rule leads_bnd [OF frame_device_if [OF note_held_store]],
        rule leads_seq [OF frame_await [OF note_held_store o]], rule fin [OF _ ok, unfolded keeps_leads])
    by (auto simp: remote_row_def dest!: encryptNoteFieldsD decryptNoteFieldsD)
  moreover have "?ok \<and> (existing = None \<longrightarrow> n_id remote \<noteq> i)" if "note_held i l c" "storedNote (n_id remote) c = existing" for c
    using that by (auto simp: note_held_def dest: tget_key)
  ultimately show ?case by (auto simp: leads_def)
qed simp

end
