(* ===== verification/StoreTheorems.thy ===== *)
theory StoreTheorems
  imports ClientSamples StoreLemmas
begin

text \<open>
  What the client's store guarantees while it synchronises: merging pulled records and applying remote
  deletions never lose an edit that is not synchronised yet, accepted pushes do not hide a later edit,
  and a stored conflict holds the row as it is at that moment, whatever other code did meanwhile.
\<close>

section \<open>Merging\<close>

lemma keeps_notebook_merge_frame:
  assumes o: "others_keep P cx" and st: "store_only P" and nb: "\<And>c r. P c \<Longrightarrow> P (c\<lparr>cl_notebooks := r\<rparr>)"
    and cs: "\<And>conf. conflict_safe P conf"
  shows "keeps P (mergeRemoteNotebook cx remote t)"
proof -
  note fr = frame_await [OF st o] keeps_saveConflict [OF st o cs]
  have "keeps P (merge_existing_notebook cx remote rp r t l0)" for rp r l0
    unfolding merge_existing_notebook_def putNotebook_def
    by (intro keeps_intros frame_rules no_id_rules fr st keeps_modify nb; assumption)
  then show ?thesis
    unfolding mergeRemoteNotebook_def Let_def putNotebook_def
    by (intro keeps_intros frame_rules no_id_rules fr st keeps_modify nb; assumption?)
qed

lemma keeps_references_held:
  "keeps (note_held i l) (removeDeletedNotebookReferences cx ids t)"
  unfolding removeDeletedNotebookReferences_def Let_def removeLocalNoteNotebookReferences_def
  by (intro keeps_intros frame_device note_held_store keeps_modify note_held_references; assumption)

text \<open>
  C26. Merging what a pull returned never loses an edit: a note that is pending or in conflict is still
  there afterwards, with its title, body, trash, deletion and favourite marks, and still pending or in
  conflict, also when the merge fails on a later record, and whatever other code does at the awaits of the
  merge to any other record and to this note's other fields. (An edit of this very note that falls
  between the merge's read and its write may be overwritten: lemma \<open>stored_edit_overwritten\<close>.)
\<close>

theorem merge_keeps_unsynced_notes:
  assumes others: "\<forall>k c. note_held i l c \<longrightarrow> note_held i l (cx_others cx k c)"
    and "wf_table n_id (cl_notes c)" and "storedNote i c = Some l" and "unsynced l"
    and "mergeRemoteChanges cx remote_notes remote_notebooks t c = (r, c')"
  shows "\<exists>n. storedNote i c' = Some n \<and> unsynced n \<and> note_content n = note_content l"
proof -
  have o: "others_keep (note_held i l) cx" using others by (simp add: others_keep_def)
  have "keeps (note_held i l) (mergeRemoteChanges cx remote_notes remote_notebooks t)"
    unfolding mergeRemoteChanges_def
    by (intro keeps_intros keeps_mergeRemoteNote_held [OF o] keeps_notebook_merge_frame [OF o] keeps_references_held
        note_held_store note_held_conflict_safe) (simp add: note_held_def)
  moreover have "note_held i l c" using assms by (auto simp: note_held_def)
  ultimately show ?thesis using assms(5) by (auto simp: note_held_def dest!: keepsD)
qed

text \<open>While the merge waits, the user stores an edit of another note.\<close>

definition other_note :: LocalNote where
  "other_note = sample_note\<lparr>n_id := ''n9''\<rparr>"

definition busy_ctxt :: ctxt where
  "busy_ctxt = sample_ctxt\<lparr>cx_others := (\<lambda>k c. c\<lparr>cl_notes := tput n_id other_note (cl_notes c)\<rparr>)\<rparr>"

theorem merge_keeps_unsynced_notes_witness:
  "\<exists>r c' n. mergeRemoteChanges busy_ctxt [plain_sample\<lparr>n_title := ''Other'', n_version := 4\<rparr>] [] ''t'' sample_client = (r, c') \<and>
     storedNote ''n1'' c' = Some n \<and> n_title n = ''Title''"
proof -
  obtain r c' where run: "mergeRemoteChanges busy_ctxt [plain_sample\<lparr>n_title := ''Other'', n_version := 4\<rparr>] [] ''t'' sample_client = (r, c')"
    by fastforce
  have s: "wf_table n_id (cl_notes sample_client)" "storedNote ''n1'' sample_client = Some sample_note" "unsynced sample_note"
    by (simp_all add: sample_client_def sample_note_def plain_sample_def unsynced_def wf_table_def tget_def)
  have o: "\<forall>k c. note_held ''n1'' sample_note c \<longrightarrow> note_held ''n1'' sample_note (cx_others busy_ctxt k c)"
    by (auto simp: busy_ctxt_def other_note_def intro!: note_held_put)
  from merge_keeps_unsynced_notes [OF o s run] run show ?thesis
    by (auto simp: note_content_def sample_note_def plain_sample_def)
qed

section \<open>A remote record arrives\<close>

lemma sealed_current:
  assumes "sealed cr m ctx v c"
  shows "isCurrentEncryptedText c" "\<not> isUnsupportedEncryptedText c"
  using assms by (auto simp: sealed_def canDecryptEncryptedTextWithPrimaryMaterial_def isCurrentEncryptedText_def
      isUnsupportedEncryptedText_def split: option.splits if_splits)

lemma sealed_note_frame:
  "sealed_note cr m p n \<Longrightarrow> n_id n' = n_id n \<Longrightarrow> n_title n' = n_title n \<Longrightarrow> n_body n' = n_body n \<Longrightarrow>
   n_titleHash n' = n_titleHash n \<Longrightarrow> n_bodyHash n' = n_bodyHash n \<Longrightarrow> sealed_note cr m p n'"
  by (simp add: sealed_note_def)

text \<open>
  The row a remote note becomes. A note that was not sealed under the primary key is encrypted again and
  counts as a change of this device, to be pushed.
\<close>

definition holds_remote :: "ctxt \<Rightarrow> Note \<Rightarrow> Note \<Rightarrow> LocalNote \<Rightarrow> bool" where
  "holds_remote cx remote p n \<longleftrightarrow>
     sealed_note (cx_crypto cx) (cx_material cx) p n \<and> ln_lastSyncedVersion n = n_version remote \<and>
     n_notebookIds n = n_notebookIds remote \<and> n_trashedAt n = n_trashedAt remote \<and> n_deletedAt n = n_deletedAt remote \<and>
     n_isFavorite n = n_isFavorite remote \<and>
     (if n_syncStatus n = Synced then n_version n = n_version remote
      else n_syncStatus n = Pending \<and> n_version n = nextVersionAfter (n_version remote) \<and>
        \<not> sealed_note (cx_crypto cx) (cx_material cx) p remote)"

lemma remote_row_holds:
  assumes ok: "crypto_ok (cx_crypto cx)" and mat: "usable_material (cx_material cx)" and pl: "plain_note p"
    and p: "p = remote\<lparr>n_title := u, n_body := v\<rparr>"
    and e: "encryptNoteFields (cx_crypto cx) (cx_material cx) p fx = Inr (stored, fx')"
    and d: "d = None \<longleftrightarrow> \<not> noteNeedsEncryptionRepublish remote stored"
  shows "holds_remote cx remote p (remote_row remote stored d (noteNeedsEncryptionRepublish remote stored) t)"
proof -
  let ?cr = "cx_crypto cx" and ?m = "cx_material cx"
  obtain tt bb th bh where st: "stored = p\<lparr>n_titleHash := th, n_bodyHash := bh, n_title := tt, n_body := bb\<rparr>"
    and s: "sealed_note ?cr ?m p stored"
    using encryptNoteFields_plain [OF ok mat pl, of fx] e by auto
  have row: "sealed_note ?cr ?m p (remote_row remote stored d r t)" for r
    by (rule sealed_note_frame [OF s]) (simp_all add: remote_row_def)
  have "\<not> noteNeedsEncryptionRepublish remote stored" if "sealed_note ?cr ?m p remote"
  proof -
    have "n_titleHash stored = n_titleHash remote" "n_bodyHash stored = n_bodyHash remote"
      using that s by (auto simp: sealed_note_def note_hashes_def st p)
    moreover have "isCurrentEncryptedText (n_title remote)" "isCurrentEncryptedText (n_body remote)"
      using that by (auto simp: sealed_note_def intro: sealed_current)
    ultimately show ?thesis by (simp add: noteNeedsEncryptionRepublish_def)
  qed
  then show ?thesis using row d by (auto simp: holds_remote_def remote_row_def st p split: option.split)
qed

text \<open>
  Without a condition on the other code, an edit that is stored while the remote note is encrypted again is
  overwritten: the row read before the encryption decides.
\<close>

lemma stored_edit_overwritten:
  assumes ok: "crypto_ok (cx_crypto cx)" "usable_material (cx_material cx)"
    and p: "decryptNoteFields (cx_crypto cx) (cx_material cx) remote = Inr p" "plain_note p"
    and sup: "\<not> isUnsupportedEncryptedText (n_title remote)" "\<not> isUnsupportedEncryptedText (n_body remote)"
    and clean: "\<forall>l. storedNote (n_id remote) c = Some l \<longrightarrow> \<not> unsynced l \<and> (\<exists>lp. decryptNoteFields (cx_crypto cx) (cx_material cx) l = Inr lp)"
    and run: "mergeRemoteNote cx remote t c = (r, c')"
  shows "r = Inr () \<and> (\<exists>n. storedNote (n_id remote) c' = Some n \<and> holds_remote cx remote p n)"
proof -
  obtain u v where pr: "p = remote\<lparr>n_title := u, n_body := v\<rparr>" using decryptNoteFieldsD [OF p(1)] by blast
  obtain stored fx' where e: "encryptNoteFields (cx_crypto cx) (cx_material cx) p (cl_fx c) = Inr (stored, fx')"
    using encryptNoteFields_plain [OF ok p(2), of "cl_fx c"] by blast
  have i: "n_id stored = n_id remote" using encryptNoteFieldsD [OF e] by (auto simp: pr)
  let ?r = "noteNeedsEncryptionRepublish remote stored"
  obtain d c1 where dev: "device_if cx ?r (c\<lparr>cl_fx := fx'\<rparr>) = (Inr d, c1)" "d = None \<longleftrightarrow> \<not> ?r"
    using getOrCreateDevice_Inr [of cx "c\<lparr>cl_fx := fx'\<rparr>"] by (cases ?r) (auto simp: device_if_def bnd_run)
  let ?row = "remote_row remote stored d ?r t"
  have id: "n_id ?row = n_id remote" by (simp add: remote_row_def i)
  have sup': "assertRemoteNoteDoesNotNeedLegacyMigration remote c = (Inr (), c)"
    using sup by (simp add: assertRemoteNoteDoesNotNeedLegacyMigration_def assertSupportedRemoteEncryptedText_def seq_run)
  let ?c2 = "(cx_others cx (cl_awaits c1) c1)\<lparr>cl_awaits := Suc (cl_awaits c1)\<rparr>"
  have "r = Inr () \<and> c' = ?c2\<lparr>cl_notes := tput n_id ?row (cl_notes ?c2)\<rparr>"
    using run clean
    by (cases "storedNote (n_id remote) c")
      (auto simp: mergeRemoteNote_def seq_run sup' bnd_run p(1) check_effect_def e dev(1) Let_def await_def putNote_def
        merge_existing_note_def unsynced_def)
  then show ?thesis using remote_row_holds [OF ok p(2) pr e dev(2)] id by (auto simp: tget_tput)
qed

text \<open>
  C27. When a note written by another device arrives that this client can decrypt, the local row is missing
  or synchronised, and no other code writes that row meanwhile, the row becomes the remote note: it
  decrypts to the same title and body under the primary key, has the remote flags and notebooks and the
  remote version as its base. It counts as synchronised at that version; only a note that was not
  sealed under the primary key counts as pending with the next version, because it was encrypted again.
\<close>

theorem merge_takes_remote:
  assumes "crypto_ok (cx_crypto cx)" and "usable_material (cx_material cx)"
    and "decryptNoteFields (cx_crypto cx) (cx_material cx) remote = Inr p" and "plain_note p"
    and "\<not> isUnsupportedEncryptedText (n_title remote)" and "\<not> isUnsupportedEncryptedText (n_body remote)"
    and "\<forall>l. storedNote (n_id remote) c = Some l \<longrightarrow> \<not> unsynced l \<and> (\<exists>lp. decryptNoteFields (cx_crypto cx) (cx_material cx) l = Inr lp)"
    and "\<forall>k s. storedNote (n_id remote) (cx_others cx k s) = storedNote (n_id remote) s"
    and "mergeRemoteNote cx remote t c = (r, c')"
  shows "r = Inr () \<and> (\<exists>n np. storedNote (n_id remote) c' = Some n \<and>
     decryptNoteFields (cx_crypto cx) (cx_material cx) n = Inr np \<and> n_title np = n_title p \<and> n_body np = n_body p \<and>
     ln_lastSyncedVersion n = n_version remote \<and> n_notebookIds n = n_notebookIds remote \<and> n_trashedAt n = n_trashedAt remote \<and>
     n_deletedAt n = n_deletedAt remote \<and> n_isFavorite n = n_isFavorite remote \<and>
     (if sealed_note (cx_crypto cx) (cx_material cx) p remote then n_syncStatus n = Synced \<and> n_version n = n_version remote
      else n_syncStatus n = Synced \<and> n_version n = n_version remote \<or>
        n_syncStatus n = Pending \<and> n_version n = nextVersionAfter (n_version remote)))"
proof -
  from stored_edit_overwritten [OF assms(1-7,9)] obtain n where
    n: "r = Inr ()" "storedNote (n_id remote) c' = Some n" "holds_remote cx remote p n" by blast
  have "sealed_note (cx_crypto cx) (cx_material cx) p n" using n(3) by (simp add: holds_remote_def)
  from decryptNoteFields_sealed [OF this] n show ?thesis by (auto simp: holds_remote_def split: if_splits)
qed

theorem merge_takes_remote_witness:
  "\<exists>remote c' n np. mergeRemoteNote sample_ctxt remote ''t'' (sample_client\<lparr>cl_notes := []\<rparr>) = (Inr (), c') \<and>
     storedNote ''n1'' c' = Some n \<and> decryptNoteFields plain_crypto direct_material n = Inr np \<and> n_title np = ''Title'' \<and>
     n_syncStatus n = Synced"
proof -
  obtain remote fx' where e: "encryptNoteFields plain_crypto direct_material plain_sample start_effects = Inr (remote, fx')"
    and s: "sealed_note plain_crypto direct_material plain_sample remote" and i: "n_id plain_sample = n_id remote"
    using encryptNoteFields_plain [OF plain_crypto_ok usable_direct_material plain_sample_note, of start_effects] by auto
  obtain r c' where run: "mergeRemoteNote sample_ctxt remote ''t'' (sample_client\<lparr>cl_notes := []\<rparr>) = (r, c')" by fastforce
  define p where "p = remote\<lparr>n_title := n_title plain_sample, n_body := n_body plain_sample\<rparr>"
  have ok: "crypto_ok (cx_crypto sample_ctxt)" "usable_material (cx_material sample_ctxt)"
    using plain_crypto_ok usable_direct_material by simp_all
  have d: "decryptNoteFields (cx_crypto sample_ctxt) (cx_material sample_ctxt) remote = Inr p"
    using decryptNoteFields_sealed [OF s] by (simp add: p_def)
  have pl: "plain_note p" using plain_sample_note by (simp add: plain_note_def p_def)
  have sp: "sealed_note (cx_crypto sample_ctxt) (cx_material sample_ctxt) p remote" using s by (simp add: sealed_note_def p_def)
  have sup: "\<not> isUnsupportedEncryptedText (n_title remote)" "\<not> isUnsupportedEncryptedText (n_body remote)"
    using s by (auto simp: sealed_note_def dest: sealed_current(2))
  have quiet: "\<forall>k s. storedNote (n_id remote) (cx_others sample_ctxt k s) = storedNote (n_id remote) s"
    using quiet_sample by (simp add: quiet_def)
  from merge_takes_remote [OF ok d pl sup _ quiet run] sp
  have "r = Inr () \<and> (\<exists>n np. storedNote (n_id remote) c' = Some n \<and> decryptNoteFields plain_crypto direct_material n = Inr np \<and>
      n_title np = ''Title'' \<and> n_syncStatus n = Synced)"
    by (auto simp: sample_client_def p_def plain_sample_def tget_def)
  then show ?thesis using run i by (auto simp: plain_sample_def)
qed

section \<open>Storing a conflict\<close>

lemma save_attempts_last:
  "save_conflict_attempts k cx t conf pushed c = (Inr (), c') \<Longrightarrow> \<exists>c1. save_conflict_once cx t conf pushed c1 = (Inr True, c')"
proof (induction k arbitrary: c)
  case 0
  then show ?case by simp
next
  case (Suc k)
  obtain r c1 where o: "save_conflict_once cx t conf pushed c = (r, c1)" by fastforce
  show ?case
  proof (cases r)
    case (Inl e)
    then show ?thesis using Suc.prems o by (simp add: bnd_run)
  next
    case (Inr b)
    then show ?thesis using Suc o by (cases b) (auto simp: bnd_run)
  qed
qed

lemma save_note_conflictD:
  assumes run: "save_note_conflict cx t conf pushed c1 = (Inr True, c')"
  shows "\<exists>stored fx c2. (\<exists>fx'. encryptConflictForStorage (cx_crypto cx) (cx_material cx)
      (NoteConflict (note_conflict_of conf (storedNote (sc_entityId conf) c1))) fx' = Inr (stored, fx)) \<and>
    c2 = (cx_others cx (cl_awaits c1) (c1\<lparr>cl_fx := fx\<rparr>))\<lparr>cl_awaits := Suc (cl_awaits c1)\<rparr> \<and>
    \<not> changed_meanwhile (map_option note_stamp (storedNote (sc_entityId conf) c1))
        (map_option note_stamp (storedNote (sc_entityId conf) c2)) pushed \<and>
    c' = store_note_conflict (open_conflict (sc_id conf) (sc_entityType conf) (sc_entityId conf) t stored) c2"
proof -
  let ?enc = "encryptConflictForStorage (cx_crypto cx) (cx_material cx) (NoteConflict (note_conflict_of conf (storedNote (sc_entityId conf) c1)))"
  obtain stored fx' where e: "?enc (cl_fx c1) = Inr (stored, fx')"
    using run by (cases "?enc (cl_fx c1)") (auto simp: save_note_conflict_def bnd_run check_effect_def simp del: encryptConflictForStorage.simps)
  show ?thesis using run e
    by (intro exI [of _ stored] exI [of _ fx'] exI) (auto simp: save_note_conflict_def bnd_run seq_run check_effect_def await_def
        simp del: encryptConflictForStorage.simps split: if_splits)
qed

lemma save_notebook_conflictD:
  assumes run: "save_notebook_conflict cx t conf pushed c1 = (Inr True, c')"
  shows "\<exists>stored fx c2. (\<exists>fx'. encryptConflictForStorage (cx_crypto cx) (cx_material cx)
      (NotebookConflict (notebook_conflict_of conf (storedNotebook (sc_entityId conf) c1))) fx' = Inr (stored, fx)) \<and>
    c2 = (cx_others cx (cl_awaits c1) (c1\<lparr>cl_fx := fx\<rparr>))\<lparr>cl_awaits := Suc (cl_awaits c1)\<rparr> \<and>
    \<not> changed_meanwhile (map_option notebook_stamp (storedNotebook (sc_entityId conf) c1))
        (map_option notebook_stamp (storedNotebook (sc_entityId conf) c2)) pushed \<and>
    c' = store_notebook_conflict (open_conflict (sc_id conf) (sc_entityType conf) (sc_entityId conf) t stored) c2"
proof -
  let ?enc = "encryptConflictForStorage (cx_crypto cx) (cx_material cx) (NotebookConflict (notebook_conflict_of conf (storedNotebook (sc_entityId conf) c1)))"
  obtain stored fx' where e: "?enc (cl_fx c1) = Inr (stored, fx')"
    using run by (cases "?enc (cl_fx c1)") (auto simp: save_notebook_conflict_def bnd_run check_effect_def simp del: encryptConflictForStorage.simps)
  show ?thesis using run e
    by (intro exI [of _ stored] exI [of _ fx'] exI) (auto simp: save_notebook_conflict_def bnd_run seq_run check_effect_def await_def
        simp del: encryptConflictForStorage.simps split: if_splits)
qed

text \<open>The version and time of the row a conflict is about, its status, and those of the conflict's local side.\<close>

fun row_stamp :: "any_conflict \<Rightarrow> client \<Rightarrow> (int \<times> string) option" where
  "row_stamp (NoteConflict conf) c = map_option note_stamp (storedNote (sc_entityId conf) c)"
| "row_stamp (NotebookConflict conf) c = map_option notebook_stamp (storedNotebook (sc_entityId conf) c)"

fun row_status :: "any_conflict \<Rightarrow> client \<Rightarrow> sync_status option" where
  "row_status (NoteConflict conf) c = map_option n_syncStatus (storedNote (sc_entityId conf) c)"
| "row_status (NotebookConflict conf) c = map_option nb_syncStatus (storedNotebook (sc_entityId conf) c)"

fun local_stamp :: "any_conflict \<Rightarrow> int \<times> string" where
  "local_stamp (NoteConflict conf) = (cv_version (sc_local conf), cv_updatedAt (sc_local conf))"
| "local_stamp (NotebookConflict conf) = (cv_version (sc_local conf), cv_updatedAt (sc_local conf))"

text \<open>The entry describes the row: it is open, the row is marked, and the local side has the row's stamp.\<close>

definition entry_holds_row :: "any_conflict \<Rightarrow> client \<Rightarrow> bool" where
  "entry_holds_row conf c \<longleftrightarrow>
     (case getConflict (conflict_id conf) c of
        None \<Rightarrow> False
      | Some lc \<Rightarrow> lc_status lc = Open_conflict \<and> lc_entityType lc = conflict_entity_type conf \<and> lc_entityId lc = conflict_entity_id conf \<and>
          (row_stamp conf c = None \<or> row_status conf c = Some Conflict \<and> row_stamp conf c = Some (local_stamp (lc_conflict lc))))"

text \<open>
  When the record was missing at the read, the check needs the stamp of the push: without one, a record
  that appears meanwhile is not compared.
\<close>

definition appearance_checked :: "ctxt \<Rightarrow> any_conflict \<Rightarrow> (int \<times> string) option \<Rightarrow> bool" where
  "appearance_checked cx conf pushed \<longleftrightarrow> pushed = Some (local_stamp conf) \<or>
     (\<forall>k c. row_stamp conf c = None \<longrightarrow> row_stamp conf (cx_others cx k c) = None)"

lemma stamp_current:
  assumes "\<not> changed_meanwhile current latest pushed" "latest = Some stamp"
    and "pushed = Some local \<or> (current = None \<longrightarrow> latest = None)"
  shows "stamp = (case current of Some cur \<Rightarrow> cur | None \<Rightarrow> local)"
  using assms by (auto simp: changed_meanwhile_def split: option.splits)

lemma note_entry_holds:
  assumes "save_note_conflict cx t conf pushed c1 = (Inr True, c')" "appearance_checked cx (NoteConflict conf) pushed"
  shows "entry_holds_row (NoteConflict conf) c'"
proof -
  define current where "current = storedNote (sc_entityId conf) c1"
  obtain stored fx c2 fx' where enc: "encryptConflictForStorage (cx_crypto cx) (cx_material cx) (NoteConflict (note_conflict_of conf current)) fx' = Inr (stored, fx)"
    and c2: "c2 = (cx_others cx (cl_awaits c1) (c1\<lparr>cl_fx := fx\<rparr>))\<lparr>cl_awaits := Suc (cl_awaits c1)\<rparr>"
    and ok: "\<not> changed_meanwhile (map_option note_stamp current) (map_option note_stamp (storedNote (sc_entityId conf) c2)) pushed"
    and c': "c' = store_note_conflict (open_conflict (sc_id conf) (sc_entityType conf) (sc_entityId conf) t stored) c2"
    using save_note_conflictD [OF assms(1)] unfolding current_def by blast
  have seen: "pushed = Some (local_stamp (NoteConflict conf)) \<or>
      (map_option note_stamp current = None \<longrightarrow> map_option note_stamp (storedNote (sc_entityId conf) c2) = None)"
    using assms(2) by (auto simp: appearance_checked_def current_def c2)
  obtain cf where cf: "stored = NoteConflict cf"
      "local_stamp stored = local_stamp (NoteConflict (note_conflict_of conf current))"
    using encryptConflict_noteD [OF enc] by auto
  have "note_stamp n = local_stamp stored" if "storedNote (sc_entityId conf) c2 = Some n" for n
    using stamp_current [OF ok _ seen, of "note_stamp n"] that
    by (cases current) (auto simp: cf(2) note_conflict_of_def note_stamp_def)
  then show ?thesis
    by (auto simp: entry_holds_row_def c' store_note_conflict_def open_conflict_def tget_tput note_stamp_def
        split: option.splits dest: tget_key)
qed

lemma notebook_entry_holds:
  assumes "save_notebook_conflict cx t conf pushed c1 = (Inr True, c')" "appearance_checked cx (NotebookConflict conf) pushed"
  shows "entry_holds_row (NotebookConflict conf) c'"
proof -
  define current where "current = storedNotebook (sc_entityId conf) c1"
  obtain stored fx c2 fx' where enc: "encryptConflictForStorage (cx_crypto cx) (cx_material cx) (NotebookConflict (notebook_conflict_of conf current)) fx' = Inr (stored, fx)"
    and c2: "c2 = (cx_others cx (cl_awaits c1) (c1\<lparr>cl_fx := fx\<rparr>))\<lparr>cl_awaits := Suc (cl_awaits c1)\<rparr>"
    and ok: "\<not> changed_meanwhile (map_option notebook_stamp current) (map_option notebook_stamp (storedNotebook (sc_entityId conf) c2)) pushed"
    and c': "c' = store_notebook_conflict (open_conflict (sc_id conf) (sc_entityType conf) (sc_entityId conf) t stored) c2"
    using save_notebook_conflictD [OF assms(1)] unfolding current_def by blast
  have seen: "pushed = Some (local_stamp (NotebookConflict conf)) \<or>
      (map_option notebook_stamp current = None \<longrightarrow> map_option notebook_stamp (storedNotebook (sc_entityId conf) c2) = None)"
    using assms(2) by (auto simp: appearance_checked_def current_def c2)
  obtain cf where cf: "stored = NotebookConflict cf"
      "local_stamp stored = local_stamp (NotebookConflict (notebook_conflict_of conf current))"
    using encryptConflict_notebookD [OF enc] by auto
  have "notebook_stamp n = local_stamp stored" if "storedNotebook (sc_entityId conf) c2 = Some n" for n
    using stamp_current [OF ok _ seen, of "notebook_stamp n"] that
    by (cases current) (auto simp: cf(2) notebook_conflict_of_def notebook_stamp_def)
  then show ?thesis
    by (auto simp: entry_holds_row_def c' store_notebook_conflict_def open_conflict_def tget_tput notebook_stamp_def
        split: option.splits dest: tget_key)
qed

text \<open>
  C28. A stored conflict holds the row as it is, for notes and for notebooks, for conflicts of a push and of
  a merge: when \<open>saveConflict\<close> returns, the open entry is there, the record, if it exists, is marked, and the
  entry's local side has the version and the time of the row in the table. Edits that other code
  stored while the conflict was being encrypted are part of the entry; the only other outcome is an
  error after three attempts. A merge gives no stamp of a push; for its conflicts the record must not
  appear out of nothing meanwhile.
\<close>

theorem save_conflict_holds_latest:
  assumes "appearance_checked cx conf pushed" and "saveConflict cx conf pushed c = (Inr (), c')"
  shows "entry_holds_row conf c'"
proof -
  obtain t fx1 where "save_conflict_attempts 3 cx t conf pushed (c\<lparr>cl_fx := fx1\<rparr>) = (Inr (), c')"
    using assms(2) by (auto simp: saveConflict_def bnd_run now_action_def effect_def nowIso_def Let_def)
  then obtain c1 where "save_conflict_once cx t conf pushed c1 = (Inr True, c')" using save_attempts_last by blast
  then show ?thesis using assms(1) note_entry_holds notebook_entry_holds by (cases conf) auto
qed

lemma plain_note_decrypts: "plain_note n \<Longrightarrow> decryptNoteFields cr m n = Inr n"
  by (simp add: decryptNoteFields_def plain_note_def plain_text_decrypts)

lemma encrypt_plain_conflict:
  assumes "crypto_ok cr" "usable_material m" "plain_note (cv_record (sc_local cf))" "plain_note (cv_record (sc_remote cf))"
  shows "\<exists>stored fx'. encryptConflictForStorage cr m (NoteConflict cf) fx = Inr (stored, fx')"
proof -
  obtain l fx1 where l: "encryptNoteFields cr m (cv_record (sc_local cf)) fx = Inr (l, fx1)"
    using encryptNoteFields_plain [OF assms(1-3), of fx] by blast
  obtain r fx2 where r: "encryptNoteFields cr m (cv_record (sc_remote cf)) fx1 = Inr (r, fx2)"
    using encryptNoteFields_plain [OF assms(1,2,4), of fx1] by blast
  show ?thesis using l r assms by (simp add: plain_note_decrypts)
qed

lemma saveConflict_runs:
  assumes q: "quiet cx" and ok: "crypto_ok (cx_crypto cx)" "usable_material (cx_material cx)"
    and pl: "plain_note (cv_record (sc_local conf))" "plain_note (cv_record (sc_remote conf))"
    and cur: "\<And>n. storedNote (sc_entityId conf) c = Some n \<Longrightarrow> plain_note n"
  shows "\<exists>c'. saveConflict cx (NoteConflict conf) pushed c = (Inr (), c')"
proof -
  obtain t fx where now: "now_action cx c = (Inr t, c\<lparr>cl_fx := fx\<rparr>)"
    by (simp add: now_action_def effect_def nowIso_def)
  let ?cf = "note_conflict_of conf (storedNote (sc_entityId conf) c)"
  have "plain_note (cv_record (sc_local ?cf))" "plain_note (cv_record (sc_remote ?cf))"
    using pl cur by (auto simp: note_conflict_of_def plain_note_def split: option.splits)
  then obtain stored fx' where e: "encryptConflictForStorage (cx_crypto cx) (cx_material cx) (NoteConflict ?cf) fx = Inr (stored, fx')"
    using encrypt_plain_conflict [OF ok, of ?cf fx] by blast
  have "\<exists>c'. save_conflict_once cx t (NoteConflict conf) pushed (c\<lparr>cl_fx := fx\<rparr>) = (Inr True, c')"
    using q e by (auto simp: save_note_conflict_def bnd_run seq_run check_effect_def changed_meanwhile_def
        simp del: encryptConflictForStorage.simps split: option.splits)
  then show ?thesis using now by (auto simp: saveConflict_def bnd_run eval_nat_numeral simp del: save_conflict_once.simps)
qed

lemma sample_conflict_saved:
  "\<exists>c'. saveConflict sample_ctxt (NoteConflict sample_conflict) pushed sample_client = (Inr (), c')"
  by (rule saveConflict_runs) (auto simp: plain_crypto_ok usable_direct_material sample_conflict_def sample_version_def
      sample_client_def sample_note_def plain_note_def plain_text_no_colon plain_sample_def tget_def)

theorem save_conflict_holds_latest_witness:
  "\<exists>c' lc. saveConflict sample_ctxt (NoteConflict sample_conflict) None sample_client = (Inr (), c') \<and>
     getConflict ''k1'' c' = Some lc \<and> lc_status lc = Open_conflict"
proof -
  obtain c' where run: "saveConflict sample_ctxt (NoteConflict sample_conflict) None sample_client = (Inr (), c')"
    using sample_conflict_saved by blast
  have "appearance_checked sample_ctxt (NoteConflict sample_conflict) None"
    using quiet_sample by (simp add: appearance_checked_def quiet_def)
  from save_conflict_holds_latest [OF this run] run show ?thesis
    by (auto simp: entry_holds_row_def sample_conflict_def sample_version_def plain_sample_def split: option.splits)
qed

end
