(* ===== verification/ConflictInv.thy ===== *)
theory ConflictInv
  imports StoreLemmas
begin

text \<open>
  The invariant that no record gets stuck in a conflict: every note or notebook marked as in conflict
  has an open entry in the conflict table, which the user can resolve. The operations of the store keep
  it, and resolving the last entry of a record takes the mark away.
\<close>

section \<open>The invariant\<close>

definition covered :: "client \<Rightarrow> entity_type \<Rightarrow> string \<Rightarrow> bool" where
  "covered c ty i \<longleftrightarrow>
     (\<exists>k lc. getConflict k c = Some lc \<and> lc_status lc = Open_conflict \<and> lc_entityType lc = ty \<and> lc_entityId lc = i)"

text \<open>The records in a conflict are about the entity the entry names.\<close>

fun conflict_form :: "entity_type \<Rightarrow> string \<Rightarrow> any_conflict \<Rightarrow> bool" where
  "conflict_form ty i (NoteConflict cf) \<longleftrightarrow>
     ty = Note_entity \<and> sc_entityId cf = i \<and> n_id (cv_record (sc_local cf)) = i \<and> n_id (cv_record (sc_remote cf)) = i"
| "conflict_form ty i (NotebookConflict cf) \<longleftrightarrow>
     ty = Notebook_entity \<and> sc_entityId cf = i \<and> nb_id (cv_record (sc_local cf)) = i \<and>
     (sc_reason cf = Duplicate_name \<or> nb_id (cv_record (sc_remote cf)) = i)"

definition conflict_free_note :: "string \<Rightarrow> client \<Rightarrow> bool" where
  "conflict_free_note i c \<longleftrightarrow> (\<forall>n. storedNote i c = Some n \<longrightarrow> n_syncStatus n \<noteq> Conflict)"

definition conflict_free_notebook :: "string \<Rightarrow> client \<Rightarrow> bool" where
  "conflict_free_notebook i c \<longleftrightarrow> (\<forall>n. storedNotebook i c = Some n \<longrightarrow> nb_syncStatus n \<noteq> Conflict)"

definition conflicts_listed :: "env \<Rightarrow> client \<Rightarrow> bool" where
  "conflicts_listed e c \<longleftrightarrow>
     wf_table n_id (cl_notes c) \<and> wf_table nb_id (cl_notebooks c) \<and> wf_table lc_id (cl_conflicts c) \<and>
     (\<forall>i. covered c Note_entity i \<or> conflict_free_note i c) \<and>
     (\<forall>i. covered c Notebook_entity i \<or> conflict_free_notebook i c) \<and>
     (\<forall>k lc. getConflict k c = Some lc \<longrightarrow> conflict_form (lc_entityType lc) (lc_entityId lc) (lc_conflict lc)) \<and>
     (\<forall>k j lc. getConflict k c = Some lc \<longrightarrow> f_fresh (cl_fx c) \<le> j \<longrightarrow> lc_id lc \<noteq> uuid e j)"

lemma listed_store: "store_only (conflicts_listed e)"
  unfolding store_only_def conflicts_listed_def covered_def conflict_free_note_def conflict_free_notebook_def
  by (auto simp: le_trans)

lemma listedD:
  assumes "conflicts_listed e c"
  shows "wf_table n_id (cl_notes c)" "wf_table nb_id (cl_notebooks c)" "wf_table lc_id (cl_conflicts c)"
    "covered c Note_entity i \<or> conflict_free_note i c" "covered c Notebook_entity i \<or> conflict_free_notebook i c"
    "getConflict k c = Some lc \<Longrightarrow> conflict_form (lc_entityType lc) (lc_entityId lc) (lc_conflict lc)"
  using assms by (auto simp: conflicts_listed_def)

lemma listed_fresh:
  assumes "conflicts_listed e c" and "f_fresh (cl_fx c) \<le> j"
  shows "getConflict (uuid e j) c = None"
proof (rule ccontr)
  assume "getConflict (uuid e j) c \<noteq> None"
  then obtain lc where g: "getConflict (uuid e j) c = Some lc" by blast
  then have "lc_id lc = uuid e j" by (rule tget_key)
  then show False using g assms by (auto simp: conflicts_listed_def)
qed

text \<open>The invariant after a change of the note table that creates no new mark.\<close>

lemma listed_notes:
  assumes I: "conflicts_listed e c" and wf: "wf_table n_id ns"
    and m: "\<And>i n. tget n_id i ns = Some n \<Longrightarrow> n_syncStatus n = Conflict \<Longrightarrow> \<exists>m. storedNote i c = Some m \<and> n_syncStatus m = Conflict"
  shows "conflicts_listed e (c\<lparr>cl_notes := ns\<rparr>)"
proof -
  have "covered c Note_entity i \<or> (\<forall>n. tget n_id i ns = Some n \<longrightarrow> n_syncStatus n \<noteq> Conflict)" for i
    using listedD(4) [OF I, of i] m [of i] by (auto simp: conflict_free_note_def)
  then show ?thesis using I wf by (auto simp: conflicts_listed_def covered_def conflict_free_note_def conflict_free_notebook_def)
qed

lemma listed_notebooks:
  assumes I: "conflicts_listed e c" and wf: "wf_table nb_id ns"
    and m: "\<And>i n. tget nb_id i ns = Some n \<Longrightarrow> nb_syncStatus n = Conflict \<Longrightarrow> \<exists>m. storedNotebook i c = Some m \<and> nb_syncStatus m = Conflict"
  shows "conflicts_listed e (c\<lparr>cl_notebooks := ns\<rparr>)"
proof -
  have "covered c Notebook_entity i \<or> (\<forall>n. tget nb_id i ns = Some n \<longrightarrow> nb_syncStatus n \<noteq> Conflict)" for i
    using listedD(5) [OF I, of i] m [of i] by (auto simp: conflict_free_notebook_def)
  then show ?thesis using I wf by (auto simp: conflicts_listed_def covered_def conflict_free_note_def conflict_free_notebook_def)
qed

lemma listed_put_note:
  "conflicts_listed e c \<Longrightarrow> n_syncStatus r \<noteq> Conflict \<Longrightarrow> conflicts_listed e (c\<lparr>cl_notes := tput n_id r (cl_notes c)\<rparr>)"
  by (rule listed_notes) (auto simp: tget_tput split: if_splits dest: listedD intro!: wf_table_tput)

lemma listed_put_notebook:
  "conflicts_listed e c \<Longrightarrow> nb_syncStatus r \<noteq> Conflict \<Longrightarrow>
   conflicts_listed e (c\<lparr>cl_notebooks := tput nb_id r (cl_notebooks c)\<rparr>)"
  by (rule listed_notebooks) (auto simp: tget_tput split: if_splits dest: listedD intro!: wf_table_tput)

lemma listed_del_note:
  "conflicts_listed e c \<Longrightarrow> conflicts_listed e (c\<lparr>cl_notes := tdel n_id i (cl_notes c)\<rparr>)"
  by (rule listed_notes) (auto simp: tget_tdel split: if_splits dest: listedD intro!: wf_table_tdel)

lemma listed_del_notebook:
  "conflicts_listed e c \<Longrightarrow> conflicts_listed e (c\<lparr>cl_notebooks := tdel nb_id i (cl_notebooks c)\<rparr>)"
  by (rule listed_notebooks) (auto simp: tget_tdel split: if_splits dest: listedD intro!: wf_table_tdel)

lemma listed_references: "conflicts_listed e c \<Longrightarrow> conflicts_listed e (update_references ch nid d t c)"
proof -
  assume I: "conflicts_listed e c"
  note wf = listedD(1) [OF I]
  have eq: "update_references ch nid d t c = c\<lparr>cl_notes := cl_notes (update_references ch nid d t c)\<rparr>"
    by (simp add: update_references_def)
  have m: "\<exists>m. storedNote i c = Some m \<and> n_syncStatus m = Conflict"
    if g: "storedNote i (update_references ch nid d t c) = Some n" "n_syncStatus n = Conflict" for i n
  proof -
    obtain m where gm: "storedNote i c = Some m" using g(1) by (auto simp: getNote_update_references [OF wf] split: option.splits)
    with g reference_update_cases [of ch nid d t m] show ?thesis
      by (auto simp: getNote_update_references [OF wf])
  qed
  show ?thesis by (subst eq, rule listed_notes [OF I wf_update_references [OF wf] m]) auto
qed

text \<open>A new entry with its mark, and an entry that is closed once its record is unmarked.\<close>

lemma covered_put_new:
  assumes new: "getConflict (lc_id lc) c = None" and c': "cl_conflicts c' = tput lc_id lc (cl_conflicts c)"
  shows "covered c' ty i \<longleftrightarrow> covered c ty i \<or> lc_status lc = Open_conflict \<and> lc_entityType lc = ty \<and> lc_entityId lc = i"
proof -
  have g: "getConflict k c' = (if k = lc_id lc then Some lc else getConflict k c)" for k by (simp add: c' tget_tput)
  show ?thesis
  proof
    assume "covered c' ty i"
    then show "covered c ty i \<or> lc_status lc = Open_conflict \<and> lc_entityType lc = ty \<and> lc_entityId lc = i"
      by (auto simp: covered_def g split: if_splits)
  next
    assume "covered c ty i \<or> lc_status lc = Open_conflict \<and> lc_entityType lc = ty \<and> lc_entityId lc = i"
    then show "covered c' ty i"
    proof
      assume "covered c ty i"
      then obtain k x where x: "getConflict k c = Some x" "lc_status x = Open_conflict" "lc_entityType x = ty" "lc_entityId x = i"
        by (auto simp: covered_def)
      then have "k \<noteq> lc_id lc" using new by auto
      then show ?thesis using x by (auto simp: covered_def g intro!: exI [of _ k])
    qed (auto simp: covered_def g)
  qed
qed

lemma stored_form:
  "conflict_form (conflict_entity_type conf) (conflict_entity_id conf) conf \<Longrightarrow> stored_like conf st \<Longrightarrow>
   conflict_form (conflict_entity_type conf) (conflict_entity_id conf) st"
  by (cases conf; cases st) auto

lemma getNote_store_conflict:
  "storedNote i (store_note_conflict lc c) =
     (if i = lc_entityId lc then map_option (n_syncStatus_update (\<lambda>_. Conflict)) (storedNote i c) else storedNote i c)"
  "storedNotebook i (store_note_conflict lc c) = storedNotebook i c"
proof -
  show "storedNotebook i (store_note_conflict lc c) = storedNotebook i c" by (simp add: store_note_conflict_def)
  show "storedNote i (store_note_conflict lc c) =
     (if i = lc_entityId lc then map_option (n_syncStatus_update (\<lambda>_. Conflict)) (storedNote i c) else storedNote i c)"
  proof (cases "storedNote (lc_entityId lc) c")
    case (Some n)
    then show ?thesis using tget_key [OF Some] by (simp add: store_note_conflict_def tget_tput)
  qed (simp add: store_note_conflict_def)
qed

lemma getNotebook_store_conflict:
  "storedNotebook i (store_notebook_conflict lc c) =
     (if i = lc_entityId lc then map_option (nb_syncStatus_update (\<lambda>_. Conflict)) (storedNotebook i c) else storedNotebook i c)"
  "storedNote i (store_notebook_conflict lc c) = storedNote i c"
proof -
  show "storedNote i (store_notebook_conflict lc c) = storedNote i c" by (simp add: store_notebook_conflict_def)
  show "storedNotebook i (store_notebook_conflict lc c) =
     (if i = lc_entityId lc then map_option (nb_syncStatus_update (\<lambda>_. Conflict)) (storedNotebook i c) else storedNotebook i c)"
  proof (cases "storedNotebook (lc_entityId lc) c")
    case (Some n)
    then show ?thesis using tget_key [OF Some] by (simp add: store_notebook_conflict_def tget_tput)
  qed (simp add: store_notebook_conflict_def)
qed

lemma listed_store_conflict:
  assumes I: "conflicts_listed e c" and new: "getConflict (conflict_id conf) c = None"
    and fresh: "\<And>j. f_fresh (cl_fx c) \<le> j \<Longrightarrow> conflict_id conf \<noteq> uuid e j"
    and form: "conflict_form (conflict_entity_type conf) (conflict_entity_id conf) conf" and st: "stored_like conf st"
  shows "conflicts_listed e (store_conflict conf t st c)"
proof -
  define lc where "lc = open_conflict (conflict_id conf) (conflict_entity_type conf) (conflict_entity_id conf) t st"
  have lc: "lc_id lc = conflict_id conf" "lc_status lc = Open_conflict" "lc_entityType lc = conflict_entity_type conf"
      "lc_entityId lc = conflict_entity_id conf" "lc_conflict lc = st"
    by (simp_all add: lc_def open_conflict_def)
  define c' where "c' = store_conflict conf t st c"
  have tables: "cl_conflicts c' = tput lc_id lc (cl_conflicts c)" "cl_fx c' = cl_fx c"
    by (cases conf; simp add: c'_def store_note_conflict_def store_notebook_conflict_def lc_def)+
  note cov = covered_put_new [OF new [folded lc(1)] tables(1)]
  have rows: "storedNote i c' = (if lc_entityType lc = Note_entity \<and> i = lc_entityId lc
        then map_option (n_syncStatus_update (\<lambda>_. Conflict)) (storedNote i c) else storedNote i c)"
    "storedNotebook i c' = (if lc_entityType lc = Notebook_entity \<and> i = lc_entityId lc
        then map_option (nb_syncStatus_update (\<lambda>_. Conflict)) (storedNotebook i c) else storedNotebook i c)" for i
    using form unfolding c'_def
    by (cases conf; simp add: lc getNote_store_conflict getNotebook_store_conflict open_conflict_def)+
  have wf: "wf_table n_id (cl_notes c')" "wf_table nb_id (cl_notebooks c')" "wf_table lc_id (cl_conflicts c')"
    using listedD(1-3) [OF I] by (cases conf; simp add: c'_def store_note_conflict_def store_notebook_conflict_def wf_table_tput split: option.split)+
  have n: "covered c' Note_entity i \<or> conflict_free_note i c'" for i
    using listedD(4) [OF I, of i] lc(2) by (cases "lc_entityType lc = Note_entity \<and> i = lc_entityId lc") (auto simp: cov conflict_free_note_def rows)
  have nb: "covered c' Notebook_entity i \<or> conflict_free_notebook i c'" for i
    using listedD(5) [OF I, of i] lc(2)
    by (cases "lc_entityType lc = Notebook_entity \<and> i = lc_entityId lc") (auto simp: cov conflict_free_notebook_def rows)
  have f: "conflict_form (lc_entityType x) (lc_entityId x) (lc_conflict x)" if "getConflict k c' = Some x" for k x
    using that listedD(6) [OF I] stored_form [OF form st] lc by (auto simp: tables tget_tput split: if_splits)
  have u: "lc_id x \<noteq> uuid e j" if "getConflict k c' = Some x" "f_fresh (cl_fx c') \<le> j" for k x j
    using that I fresh lc by (auto simp: tables tget_tput conflicts_listed_def split: if_splits)
  show ?thesis unfolding conflicts_listed_def c'_def [symmetric] using wf n nb f u by blast
qed

lemma listed_close:
  assumes I: "conflicts_listed e c" and g: "getConflict (lc_id lc) c = Some lc0" and same: "lc_entityType lc = lc_entityType lc0"
      "lc_entityId lc = lc_entityId lc0" "lc_conflict lc = lc_conflict lc0"
    and n: "lc_entityType lc = Note_entity \<Longrightarrow> conflict_free_note (lc_entityId lc) c"
    and nb: "lc_entityType lc = Notebook_entity \<Longrightarrow> conflict_free_notebook (lc_entityId lc) c"
  shows "conflicts_listed e (c\<lparr>cl_conflicts := tput lc_id lc (cl_conflicts c)\<rparr>)" (is "conflicts_listed e ?c")
proof -
  have cov: "covered ?c ty i" if "covered c ty i" "\<not> (ty = lc_entityType lc \<and> i = lc_entityId lc)" for ty i
  proof -
    obtain k x where x: "getConflict k c = Some x" "lc_status x = Open_conflict" "lc_entityType x = ty" "lc_entityId x = i"
      using \<open>covered c ty i\<close> by (auto simp: covered_def)
    then have "k \<noteq> lc_id lc" using that g same by auto
    then show ?thesis using x by (auto simp: covered_def tget_tput intro!: exI [of _ k])
  qed
  have free: "conflict_free_note i ?c = conflict_free_note i c" "conflict_free_notebook i ?c = conflict_free_notebook i c" for i
    by (simp_all add: conflict_free_note_def conflict_free_notebook_def)
  have f: "conflict_form (lc_entityType x) (lc_entityId x) (lc_conflict x)" if "getConflict k ?c = Some x" for k x
    using that listedD(6) [OF I] g same by (auto simp: tget_tput split: if_splits)
  have u: "lc_id x \<noteq> uuid e j" if "getConflict k ?c = Some x" "f_fresh (cl_fx c) \<le> j" for k x j
    using that(1) listed_fresh [OF I that(2)] g tget_key [of lc_id k "cl_conflicts c" x] by (auto simp: tget_tput split: if_splits)
  have a: "covered ?c Note_entity i \<or> conflict_free_note i ?c" for i
    using listedD(4) [OF I, of i] cov [of Note_entity i] n unfolding free
    by (cases "lc_entityType lc = Note_entity \<and> i = lc_entityId lc") auto
  have b: "covered ?c Notebook_entity i \<or> conflict_free_notebook i ?c" for i
    using listedD(5) [OF I, of i] cov [of Notebook_entity i] nb unfolding free
    by (cases "lc_entityType lc = Notebook_entity \<and> i = lc_entityId lc") auto
  have w: "wf_table n_id (cl_notes ?c) \<and> wf_table nb_id (cl_notebooks ?c) \<and> wf_table lc_id (cl_conflicts ?c)"
    using listedD(1-3) [OF I] by (simp add: wf_table_tput)
  have fx: "cl_fx ?c = cl_fx c" by simp
  show ?thesis
    unfolding conflicts_listed_def using w a b f u unfolding fx by blast
qed

section \<open>The operations keep it\<close>

lemma listed_devices: "conflicts_listed e c \<Longrightarrow> conflicts_listed e (c\<lparr>cl_devices := d\<rparr>)"
  by (simp add: conflicts_listed_def covered_def conflict_free_note_def conflict_free_notebook_def)

lemma listed_mark_accepted: "conflicts_listed e c \<Longrightarrow> conflicts_listed e (mark_accepted t pushed a c)"
  by (auto simp: mark_accepted_def Let_def split: option.split intro!: listed_put_note listed_put_notebook)

lemma keeps_listed_markAccepted: "keeps (conflicts_listed e) (markAcceptedChanges acc t pushed)"
proof -
  have "conflicts_listed e c \<Longrightarrow> conflicts_listed e (fold (mark_accepted t pushed) acc c)" for c
    by (induction acc arbitrary: c) (auto simp: listed_mark_accepted)
  then show ?thesis unfolding markAcceptedChanges_def by (rule keeps_modify)
qed

lemma listed_deletes: "conflicts_listed e c \<Longrightarrow> conflicts_listed e (snd (applyRemoteDeletes ns nbs ds c))"
proof -
  assume I: "conflicts_listed e c"
  have a: "conflicts_listed e x \<Longrightarrow> conflicts_listed e (fold delete_note_if_allowed is x)" for x "is"
    by (induction "is" arbitrary: x) (auto simp: delete_note_if_allowed_def listed_del_note split: option.splits)
  have b: "conflicts_listed e (fst x) \<Longrightarrow> conflicts_listed e (fst (fold delete_notebook_if_allowed is x))" for x "is"
    by (induction "is" arbitrary: x)
      (auto simp: delete_notebook_if_allowed_def listed_del_notebook case_prod_beta split: option.splits)
  show ?thesis unfolding applyRemoteDeletes_def Let_def case_prod_beta
    using b [of "(_, _)"] a [OF I] by (simp add: listed_devices)
qed

lemma listed_absorb: "conflicts_listed e c \<Longrightarrow> conflicts_listed e (absorb conf t c)"
  by (cases conf) (auto simp: absorb_status_def split: option.split intro!: listed_put_note listed_put_notebook)

lemma keeps_listed_absorb: "keeps (conflicts_listed e) (absorbSameDevicePushConflict cx conf t)"
  unfolding absorbSameDevicePushConflict_def
  by (intro keeps_intros frame_device listed_store keeps_modify listed_absorb)

text \<open>A merge draws the identifier of the conflict it stores.\<close>

lemma leads_id_bnd:
  assumes so: "store_only P" and I: "\<And>c. P c \<Longrightarrow> conflicts_listed (cx_env cx) c"
    and f: "\<And>k. leads (\<lambda>c. P c \<and> k < f_fresh (cl_fx c) \<and> getConflict (uuid (cx_env cx) k) c = None) Q (f (uuid (cx_env cx) k))"
  shows "leads P Q (bnd (id_action cx) f)"
  unfolding leads_def
proof (intro allI impI)
  fix c assume c: "P c"
  let ?k = "f_fresh (cl_fx c)" and ?c = "c\<lparr>cl_fx := (cl_fx c)\<lparr>f_fresh := Suc (f_fresh (cl_fx c))\<rparr>\<rparr>"
  have "P ?c" using so c by (auto elim!: store_onlyD)
  moreover have "getConflict (uuid (cx_env cx) ?k) ?c = None" using listed_fresh [OF I [OF c]] by simp
  ultimately show "Q (snd (bnd (id_action cx) f c))"
    using f [of ?k] by (simp add: leads_def bnd_run id_action_def effect_def newId_def)
qed

lemma fresh_bound_store: "store_only (\<lambda>c. k < f_fresh (cl_fx c))"
  by (auto simp: store_only_def)

lemma leads_listed_saveConflict:
  assumes q: "quiet cx" and e: "cx_env cx = e" and inj: "inj (uuid e)" and id: "conflict_id conf = uuid e k"
    and form: "conflict_form (conflict_entity_type conf) (conflict_entity_id conf) conf"
  shows "leads (\<lambda>c. conflicts_listed e c \<and> k < f_fresh (cl_fx c) \<and> getConflict (uuid e k) c = None) (conflicts_listed e)
    (saveConflict cx conf pushed)"
proof (rule leads_saveConflict)
  show "store_only (\<lambda>c. conflicts_listed e c \<and> k < f_fresh (cl_fx c) \<and> getConflict (uuid e k) c = None)"
    by (intro store_only_conj listed_store fresh_bound_store store_only_read)
  fix c t st assume c: "conflicts_listed e c \<and> k < f_fresh (cl_fx c) \<and> getConflict (uuid e k) c = None" and st: "stored_like conf st"
  show "conflicts_listed e (store_conflict conf t st c)"
    by (rule listed_store_conflict [OF _ _ _ form st]) (use c id inj in \<open>auto dest: injD\<close>)
qed (use q in \<open>auto intro: quiet_others_keep\<close>)

lemma listed_merge_existing_note:
  assumes q: "quiet cx" and e: "cx_env cx = e" and inj: "inj (uuid e)" and ids: "n_id remotePlain = n_id remote"
    and row: "n_syncStatus r \<noteq> Conflict"
  shows "leads (\<lambda>c. conflicts_listed e c \<and> storedNote (n_id remote) c = Some l0) (conflicts_listed e)
    (merge_existing_note cx remote remotePlain r t l0)"
proof -
  let ?P = "\<lambda>c. conflicts_listed e c \<and> storedNote (n_id remote) c = Some l0"
  have so: "store_only ?P" by (intro store_only_conj listed_store store_only_read)
  have put: "leads ?P (conflicts_listed e) (putNote x)" if "n_syncStatus x \<noteq> Conflict" for x
    unfolding putNote_def by (rule leads_modify) (use that listed_put_note in auto)
  have nothing: "leads ?P (conflicts_listed e) (ret ())" by (simp add: leads_def)
  show ?thesis
  proof (cases "n_id l0 = n_id remote")
    case False
    then show ?thesis by (auto simp: leads_def dest: tget_key)
  next
    case True
    have save: "leads ?P (conflicts_listed e) (bnd (id_action cx) (\<lambda>i. bnd (getOrCreateDevice cx) (\<lambda>d. bnd (deviceName (n_deviceId remote))
        (\<lambda>nm. saveConflict cx (NoteConflict (merge_conflict i l0 (l0\<lparr>n_title := a, n_body := b\<rparr>) remote remotePlain (d_name d) nm)) None))))"
      for a b
    proof (rule leads_id_bnd [OF so])
      fix k
      let ?R = "\<lambda>c. conflicts_listed e c \<and> k < f_fresh (cl_fx c) \<and> getConflict (uuid e k) c = None"
      have R: "store_only ?R" by (intro store_only_conj listed_store fresh_bound_store store_only_read)
      have l: "leads ?R (conflicts_listed e) (bnd (getOrCreateDevice cx) (\<lambda>d. bnd (deviceName (n_deviceId remote))
        (\<lambda>nm. saveConflict cx (NoteConflict (merge_conflict (uuid e k) l0 (l0\<lparr>n_title := a, n_body := b\<rparr>) remote remotePlain (d_name d) nm)) None)))"
        apply (rule leads_bnd [OF frame_device [OF R]], rule leads_bnd [OF frame_name], rule leads_listed_saveConflict [OF q e inj])
        using True ids by (simp_all add: merge_conflict_def)
      show "leads (\<lambda>c. ?P c \<and> k < f_fresh (cl_fx c) \<and> getConflict (uuid (cx_env cx) k) c = None) (conflicts_listed e)
          (bnd (getOrCreateDevice cx) (\<lambda>d. bnd (deviceName (n_deviceId remote)) (\<lambda>nm. saveConflict cx
            (NoteConflict (merge_conflict (uuid (cx_env cx) k) l0 (l0\<lparr>n_title := a, n_body := b\<rparr>) remote remotePlain (d_name d) nm)) None)))"
        unfolding e by (rule leads_weaken [OF l]) auto
    qed (simp add: e)
    show ?thesis unfolding merge_existing_note_def
    proof (rule leads_check_bnd)
      fix lp assume "decryptNoteFields (cx_crypto cx) (cx_material cx) l0 = Inr lp"
      then obtain a b where lp: "lp = l0\<lparr>n_title := a, n_body := b\<rparr>" by (auto dest: decryptNoteFieldsD)
      show "leads ?P (conflicts_listed e)
        (if n_syncStatus l0 = Pending \<and> ln_lastSyncedVersion l0 \<noteq> n_version remote \<and> notesDiffer lp remotePlain
         then bnd (remoteCameFromThisDevice cx (n_deviceId remote)) (\<lambda>own.
           if own then (if n_version remote > ln_lastSyncedVersion l0
              then putNote (l0\<lparr>ln_lastSyncedVersion := n_version remote, ln_lastSyncedAt := Some t\<rparr>) else ret ())
           else bnd (id_action cx) (\<lambda>i. bnd (getOrCreateDevice cx) (\<lambda>d. bnd (deviceName (n_deviceId remote)) (\<lambda>nm.
              saveConflict cx (NoteConflict (merge_conflict i l0 lp remote remotePlain (d_name d) nm)) None))))
         else if n_syncStatus l0 \<noteq> Pending \<and> n_syncStatus l0 \<noteq> Conflict then putNote r else ret ())"
        unfolding lp
        by (intro leads_if leads_bnd [OF frame_own [OF so]] put nothing save) (auto simp: row leads_def)
    qed simp
  qed
qed

lemma keeps_listed_mergeRemoteNote:
  assumes q: "quiet cx" and e: "cx_env cx = e" and inj: "inj (uuid e)"
  shows "keeps (conflicts_listed e) (mergeRemoteNote cx remote t)"
  unfolding keeps_leads mergeRemoteNote_def Let_def
proof (rule leads_seq [OF frame_note_support], rule leads_asks_bnd, goal_cases)
  case (1 existing)
  let ?P = "\<lambda>c. conflicts_listed e c \<and> storedNote (n_id remote) c = existing"
  have so: "store_only ?P" by (intro store_only_conj listed_store store_only_read)
  have fin: "leads ?P (conflicts_listed e) (case existing of None \<Rightarrow> putNote r | Some l0 \<Rightarrow> merge_existing_note cx remote rp r t l0)"
    if "n_id rp = n_id remote" "n_syncStatus r \<noteq> Conflict" for r rp
    using listed_merge_existing_note [OF q e inj that(1,2)] listed_put_note that(2)
    by (cases existing) (auto simp: putNote_def intro!: leads_modify)
  show ?case
    apply (rule leads_check_bnd, rule leads_check_effect_bnd [OF so no_id_encryptNoteFields], rule leads_bnd [OF frame_device_if [OF so]],
        rule leads_seq [OF frame_await [OF so quiet_others_keep [OF q]]], rule fin)
    by (auto simp: remote_row_def dest!: decryptNoteFieldsD)
qed simp

lemma listed_merge_existing_notebook:
  assumes q: "quiet cx" and e: "cx_env cx = e" and inj: "inj (uuid e)" and ids: "nb_id remotePlain = nb_id remote"
    and row: "nb_syncStatus r \<noteq> Conflict"
  shows "leads (\<lambda>c. conflicts_listed e c \<and> storedNotebook (nb_id remote) c = Some l0) (conflicts_listed e)
    (merge_existing_notebook cx remote remotePlain r t l0)"
proof -
  let ?P = "\<lambda>c. conflicts_listed e c \<and> storedNotebook (nb_id remote) c = Some l0"
  have so: "store_only ?P" by (intro store_only_conj listed_store store_only_read)
  have put: "leads ?P (conflicts_listed e) (putNotebook x)" if "nb_syncStatus x \<noteq> Conflict" for x
    unfolding putNotebook_def by (rule leads_modify) (use that listed_put_notebook in auto)
  have nothing: "leads ?P (conflicts_listed e) (ret ())" by (simp add: leads_def)
  show ?thesis
  proof (cases "nb_id l0 = nb_id remote")
    case False
    then show ?thesis by (auto simp: leads_def dest: tget_key)
  next
    case True
    have save: "leads ?P (conflicts_listed e) (bnd (id_action cx) (\<lambda>i. bnd (getOrCreateDevice cx) (\<lambda>d. bnd (deviceName (nb_deviceId remote))
        (\<lambda>nm. saveConflict cx (NotebookConflict (merge_notebook_conflict i l0 (l0\<lparr>nb_name := a\<rparr>) remote remotePlain (d_name d) nm)) None))))"
      for a
    proof (rule leads_id_bnd [OF so])
      fix k
      let ?R = "\<lambda>c. conflicts_listed e c \<and> k < f_fresh (cl_fx c) \<and> getConflict (uuid e k) c = None"
      have R: "store_only ?R" by (intro store_only_conj listed_store fresh_bound_store store_only_read)
      have l: "leads ?R (conflicts_listed e) (bnd (getOrCreateDevice cx) (\<lambda>d. bnd (deviceName (nb_deviceId remote))
        (\<lambda>nm. saveConflict cx (NotebookConflict (merge_notebook_conflict (uuid e k) l0 (l0\<lparr>nb_name := a\<rparr>) remote remotePlain (d_name d) nm)) None)))"
        apply (rule leads_bnd [OF frame_device [OF R]], rule leads_bnd [OF frame_name], rule leads_listed_saveConflict [OF q e inj])
        using True ids by (simp_all add: merge_notebook_conflict_def)
      show "leads (\<lambda>c. ?P c \<and> k < f_fresh (cl_fx c) \<and> getConflict (uuid (cx_env cx) k) c = None) (conflicts_listed e)
          (bnd (getOrCreateDevice cx) (\<lambda>d. bnd (deviceName (nb_deviceId remote)) (\<lambda>nm. saveConflict cx
            (NotebookConflict (merge_notebook_conflict (uuid (cx_env cx) k) l0 (l0\<lparr>nb_name := a\<rparr>) remote remotePlain (d_name d) nm)) None)))"
        unfolding e by (rule leads_weaken [OF l]) auto
    qed (simp add: e)
    show ?thesis unfolding merge_existing_notebook_def
    proof (rule leads_check_bnd)
      fix lp assume "decryptNotebookFields (cx_crypto cx) (cx_material cx) l0 = Inr lp"
      then obtain a where lp: "lp = l0\<lparr>nb_name := a\<rparr>" by (auto dest: decryptNotebookFieldsD)
      show "leads ?P (conflicts_listed e)
        (if nb_syncStatus l0 = Pending \<and> lnb_lastSyncedVersion l0 \<noteq> nb_version remote \<and> notebooksDiffer lp remotePlain
         then bnd (remoteCameFromThisDevice cx (nb_deviceId remote)) (\<lambda>own.
           if own then (if nb_version remote > lnb_lastSyncedVersion l0
              then putNotebook (l0\<lparr>lnb_lastSyncedVersion := nb_version remote, lnb_lastSyncedAt := Some t\<rparr>) else ret ())
           else bnd (id_action cx) (\<lambda>i. bnd (getOrCreateDevice cx) (\<lambda>d. bnd (deviceName (nb_deviceId remote)) (\<lambda>nm.
              saveConflict cx (NotebookConflict (merge_notebook_conflict i l0 lp remote remotePlain (d_name d) nm)) None))))
         else if nb_syncStatus l0 \<noteq> Pending \<and> nb_syncStatus l0 \<noteq> Conflict then putNotebook r else ret ())"
        unfolding lp
        by (intro leads_if leads_bnd [OF frame_own [OF so]] put nothing save) (auto simp: row leads_def)
    qed simp
  qed
qed

lemma keeps_listed_mergeRemoteNotebook:
  assumes q: "quiet cx" and e: "cx_env cx = e" and inj: "inj (uuid e)"
  shows "keeps (conflicts_listed e) (mergeRemoteNotebook cx remote t)"
  unfolding keeps_leads mergeRemoteNotebook_def Let_def
proof (rule leads_seq [OF frame_notebook_support], rule leads_asks_bnd, goal_cases)
  case (1 existing)
  let ?P = "\<lambda>c. conflicts_listed e c \<and> storedNotebook (nb_id remote) c = existing"
  have so: "store_only ?P" by (intro store_only_conj listed_store store_only_read)
  have fin: "leads ?P (conflicts_listed e) (case existing of None \<Rightarrow> putNotebook r | Some l0 \<Rightarrow> merge_existing_notebook cx remote rp r t l0)"
    if "nb_id rp = nb_id remote" "nb_syncStatus r \<noteq> Conflict" for r rp
    using listed_merge_existing_notebook [OF q e inj that(1,2)] listed_put_notebook that(2)
    by (cases existing) (auto simp: putNotebook_def intro!: leads_modify)
  show ?case
    apply (rule leads_check_bnd, rule leads_check_effect_bnd [OF so no_id_encryptNotebookFields], rule leads_bnd [OF frame_device_if [OF so]],
        rule leads_seq [OF frame_await [OF so quiet_others_keep [OF q]]], rule fin)
    by (auto simp: remote_notebook_row_def dest!: decryptNotebookFieldsD)
qed simp

lemma keeps_listed_references:
  "keeps (conflicts_listed e) (removeDeletedNotebookReferences cx ids t)"
  unfolding removeDeletedNotebookReferences_def removeLocalNoteNotebookReferences_def Let_def
  by (intro keeps_intros frame_device listed_store keeps_modify listed_references; assumption)

lemma keeps_listed_mergeRemoteChanges:
  assumes "quiet cx" and "cx_env cx = e" and "inj (uuid e)"
  shows "keeps (conflicts_listed e) (mergeRemoteChanges cx ns nbs t)"
  unfolding mergeRemoteChanges_def
  by (intro keeps_intros keeps_listed_mergeRemoteNote keeps_listed_mergeRemoteNotebook keeps_listed_references assms)

text \<open>A conflict the server answered: its identifier is none of this client's.\<close>

lemma leads_listed_saveServerConflict:
  assumes q: "quiet cx" and id: "\<And>j. conflict_id conf \<noteq> uuid e j"
    and form: "conflict_form (conflict_entity_type conf) (conflict_entity_id conf) conf"
  shows "leads (\<lambda>c. conflicts_listed e c \<and> getConflict (conflict_id conf) c = None) (conflicts_listed e) (saveConflict cx conf pushed)"
proof (rule leads_saveConflict)
  show "store_only (\<lambda>c. conflicts_listed e c \<and> getConflict (conflict_id conf) c = None)"
    by (intro store_only_conj listed_store store_only_read)
  fix c t st assume c: "conflicts_listed e c \<and> getConflict (conflict_id conf) c = None" and st: "stored_like conf st"
  show "conflicts_listed e (store_conflict conf t st c)"
    by (rule listed_store_conflict [OF _ _ _ form st]) (use c id in auto)
qed (use q in \<open>auto intro: quiet_others_keep\<close>)

section \<open>Resolving\<close>

text \<open>
  \<open>ends P E Q m\<close>: from \<open>P\<close> an error leaves a state in \<open>E\<close> and a normal end one in \<open>Q\<close>.
\<close>

definition ends :: "('s \<Rightarrow> bool) \<Rightarrow> ('s \<Rightarrow> bool) \<Rightarrow> ('s \<Rightarrow> bool) \<Rightarrow> ('e, 's, 'a) act \<Rightarrow> bool" where
  "ends P E Q m \<longleftrightarrow> (\<forall>c. P c \<longrightarrow> (case m c of (Inl _, c') \<Rightarrow> E c' | (Inr _, c') \<Rightarrow> Q c'))"

lemma ends_bnd: "ends P E R m \<Longrightarrow> (\<And>x. ends R E Q (f x)) \<Longrightarrow> ends P E Q (bnd m f)"
  unfolding ends_def bnd_def by (fastforce split: prod.splits sum.splits)

lemma ends_seq: "ends P E R m \<Longrightarrow> ends R E Q k \<Longrightarrow> ends P E Q (seq m k)"
  unfolding seq_def by (rule ends_bnd)

lemma ends_keeps: "keeps P m \<Longrightarrow> (\<And>c. P c \<Longrightarrow> E c) \<Longrightarrow> ends P E P m"
  unfolding ends_def keeps_def by (auto split: prod.splits sum.splits; metis snd_conv)

lemma ends_if: "(b \<Longrightarrow> ends P E Q m) \<Longrightarrow> (\<not> b \<Longrightarrow> ends P E Q k) \<Longrightarrow> ends P E Q (if b then m else k)"
  by simp

lemma ends_ret: "(\<And>c. P c \<Longrightarrow> Q c) \<Longrightarrow> ends P E Q (ret x)"
  by (simp add: ends_def)

lemma ends_modify: "(\<And>c. P c \<Longrightarrow> Q (g c)) \<Longrightarrow> ends P E Q (modify g)"
  by (simp add: ends_def)

lemma ends_leads: "ends P E Q m \<Longrightarrow> (\<And>c. E c \<Longrightarrow> Q c) \<Longrightarrow> leads P Q m"
  unfolding ends_def leads_def by (fastforce split: prod.splits sum.splits)

lemma ends_weaken: "ends P E Q m \<Longrightarrow> (\<And>c. E c \<Longrightarrow> E' c) \<Longrightarrow> (\<And>c. Q c \<Longrightarrow> Q' c) \<Longrightarrow> ends P E' Q' m"
  unfolding ends_def by (fastforce split: prod.splits sum.splits)

lemma ends_check_effect_bnd:
  assumes so: "store_only P" and no: "draws_no_id g" and f: "\<And>x fx fx'. g fx = Inr (x, fx') \<Longrightarrow> ends P E Q (f x)"
    and pe: "\<And>c. P c \<Longrightarrow> E c"
  shows "ends P E Q (bnd (check_effect g) f)"
  unfolding ends_def
proof (intro allI impI)
  fix c assume c: "P c"
  show "case bnd (check_effect g) f c of (Inl _, c') \<Rightarrow> E c' | (Inr _, c') \<Rightarrow> Q c'"
  proof (cases "g (cl_fx c)")
    case (Inl e)
    then show ?thesis using c pe by (simp add: bnd_run check_effect_def)
  next
    case (Inr r)
    obtain x fx' where r: "g (cl_fx c) = Inr (x, fx')" using Inr by (cases r) simp
    have "P (c\<lparr>cl_fx := fx'\<rparr>)" using so c draws_no_idD [OF no r] by (auto elim!: store_onlyD)
    then show ?thesis using f [OF r] r by (simp add: bnd_run check_effect_def ends_def)
  qed
qed

lemma ends_check_bnd:
  "(\<And>x. r = Inr x \<Longrightarrow> ends P E Q (f x)) \<Longrightarrow> (\<And>c. P c \<Longrightarrow> E c) \<Longrightarrow> ends P E Q (bnd (check r) f)"
  by (cases r) (auto simp: ends_def bnd_run)

text \<open>The entry that is being resolved stays as it is until the end.\<close>

definition resolving :: "env \<Rightarrow> LocalConflict \<Rightarrow> client \<Rightarrow> bool" where
  "resolving e lc c \<longleftrightarrow> conflicts_listed e c \<and> getConflict (lc_id lc) c = Some lc"

lemma resolving_store: "store_only (resolving e lc)"
  unfolding resolving_def by (intro store_only_conj listed_store store_only_read)

lemma free_store: "store_only (conflict_free_note i)" "store_only (conflict_free_notebook i)"
  by (auto simp: store_only_def conflict_free_note_def conflict_free_notebook_def)

lemma resolving_put_note:
  "resolving e lc c \<Longrightarrow> n_syncStatus r \<noteq> Conflict \<Longrightarrow> resolving e lc (c\<lparr>cl_notes := tput n_id r (cl_notes c)\<rparr>)"
  by (simp add: resolving_def listed_put_note)

lemma resolving_put_notebook:
  "resolving e lc c \<Longrightarrow> nb_syncStatus r \<noteq> Conflict \<Longrightarrow> resolving e lc (c\<lparr>cl_notebooks := tput nb_id r (cl_notebooks c)\<rparr>)"
  by (simp add: resolving_def listed_put_notebook)

lemma ends_put_note:
  assumes q: "quiet cx" and st: "n_syncStatus n \<noteq> Conflict" and P: "store_only P" "\<And>c. P c \<Longrightarrow> E c"
    and put: "\<And>c r. P c \<Longrightarrow> n_syncStatus r \<noteq> Conflict \<Longrightarrow> n_id r = n_id n \<Longrightarrow> Q (c\<lparr>cl_notes := tput n_id r (cl_notes c)\<rparr>)"
  shows "ends P E Q (put_encrypted_note cx n)"
  unfolding put_encrypted_note_def putNote_def
  apply (rule ends_check_effect_bnd [OF P(1) no_id_encryptNoteFields _ P(2)])
   apply (rule ends_seq [OF ends_keeps [OF frame_await [OF P(1) quiet_others_keep [OF q]] P(2)]])
    apply (auto dest!: encryptNoteFieldsD intro!: ends_modify put simp: st)
  done

lemma ends_put_notebook:
  assumes q: "quiet cx" and st: "nb_syncStatus n \<noteq> Conflict" and P: "store_only P" "\<And>c. P c \<Longrightarrow> E c"
    and put: "\<And>c r. P c \<Longrightarrow> nb_syncStatus r \<noteq> Conflict \<Longrightarrow> nb_id r = nb_id n \<Longrightarrow> Q (c\<lparr>cl_notebooks := tput nb_id r (cl_notebooks c)\<rparr>)"
  shows "ends P E Q (put_encrypted_notebook cx n)"
  unfolding put_encrypted_notebook_def putNotebook_def
  apply (rule ends_check_effect_bnd [OF P(1) no_id_encryptNotebookFields _ P(2)])
   apply (rule ends_seq [OF ends_keeps [OF frame_await [OF P(1) quiet_others_keep [OF q]] P(2)]])
    apply (auto dest!: encryptNotebookFieldsD intro!: ends_modify put simp: st)
  done

lemma free_put_note:
  "n_syncStatus r \<noteq> Conflict \<Longrightarrow> conflict_free_note i c \<or> n_id r = i \<Longrightarrow> conflict_free_note i (c\<lparr>cl_notes := tput n_id r (cl_notes c)\<rparr>)"
  by (auto simp: conflict_free_note_def tget_tput)

lemma free_put_notebook:
  "nb_syncStatus r \<noteq> Conflict \<Longrightarrow> conflict_free_notebook i c \<or> nb_id r = i \<Longrightarrow>
   conflict_free_notebook i (c\<lparr>cl_notebooks := tput nb_id r (cl_notebooks c)\<rparr>)"
  by (auto simp: conflict_free_notebook_def tget_tput)

lemma chosen_ids:
  "n_id (chosen_note (chooseConflictVersion e cf ch) v d t) \<in> {n_id (cv_record (sc_local cf)), n_id (cv_record (sc_remote cf))}"
  "nb_id (chosen_notebook (chooseConflictVersion e cf2 ch) v d t) \<in> {nb_id (cv_record (sc_local cf2)), nb_id (cv_record (sc_remote cf2))}"
  by (simp_all add: chosen_note_def chosen_notebook_def chooseConflictVersion_def Let_def)

lemma chosen_status:
  "n_syncStatus (chosen_note s v d t) \<noteq> Conflict" "nb_syncStatus (chosen_notebook s2 v d t) \<noteq> Conflict"
  by (simp_all add: chosen_note_def chosen_notebook_def Let_def)

lemma copy_simps:
  "n_id (note_copy l i d t) = i" "n_syncStatus (note_copy l i d t) = Pending"
  "nb_id (notebook_copy nb i nm h d t) = i" "nb_syncStatus (notebook_copy nb i nm h d t) = Pending"
  "n_id (synced_note r t) = n_id r" "n_syncStatus (synced_note r t) = Synced"
  "nb_id (synced_notebook nr t) = nb_id nr" "nb_syncStatus (synced_notebook nr t) = Synced"
  by (simp_all add: note_copy_def notebook_copy_def synced_note_def synced_notebook_def)

lemma resolving_references: "resolving e lc c \<Longrightarrow> resolving e lc (update_references ch nid d t c)"
  by (simp add: resolving_def listed_references)

lemma resolving_del: "resolving e lc c \<Longrightarrow> resolving e lc (c\<lparr>cl_notebooks := tdel nb_id i (cl_notebooks c)\<rparr>)"
  by (simp add: resolving_def listed_del_notebook)

lemma free_references: "conflict_free_notebook i (update_references ch nid d t c) = conflict_free_notebook i c"
  by (simp add: conflict_free_notebook_def)

lemma free_del: "conflict_free_notebook i (c\<lparr>cl_notebooks := tdel nb_id i (cl_notebooks c)\<rparr>)"
  by (simp add: conflict_free_notebook_def tget_tdel)

lemma frame_unique_name: "store_only P \<Longrightarrow> keeps P (uniqueNotebookCopyName cx nm ex)"
  unfolding uniqueNotebookCopyName_def by (intro keeps_intros)

lemma ends_resolve_note:
  assumes q: "quiet cx" and l: "n_id (cv_record (sc_local cf)) = i" and r: "n_id (cv_record (sc_remote cf)) = i"
  shows "ends (resolving e lc) (resolving e lc) (\<lambda>c. resolving e lc c \<and> conflict_free_note i c)
    (resolve_choice cx (NoteConflict cf) ch d t)"
proof -
  let ?Q = "\<lambda>c. resolving e lc c \<and> conflict_free_note i c"
  have Q: "store_only ?Q" by (intro store_only_conj resolving_store free_store)
  have copy: "ends ?Q (resolving e lc) ?Q (bnd (id_action cx) (\<lambda>k. put_encrypted_note cx (note_copy (cv_record (sc_local cf)) k d t)))"
    by (rule ends_bnd [OF ends_keeps [OF frame_id [OF Q]]], simp, rule ends_put_note [OF q])
      (auto simp: copy_simps Q intro: resolving_put_note free_put_note)
  have first: "ends (resolving e lc) (resolving e lc) ?Q (put_encrypted_note cx n)" if "n_syncStatus n \<noteq> Conflict" "n_id n = i" for n
    by (rule ends_put_note [OF q that(1) resolving_store]) (use that in \<open>auto intro: resolving_put_note free_put_note\<close>)
  have chosen: "n_id (chosen_note (chooseConflictVersion (cx_env cx) cf ch) (cv_version (sc_remote cf)) d t) = i"
    using chosen_ids(1) [of "cx_env cx" cf ch "cv_version (sc_remote cf)" d t] l r by auto
  have dup: "ends (resolving e lc) (resolving e lc) ?Q (seq (put_encrypted_note cx (synced_note (cv_record (sc_remote cf)) t))
      (bnd (id_action cx) (\<lambda>k. put_encrypted_note cx (note_copy (cv_record (sc_local cf)) k d t))))"
    by (rule ends_seq [OF first copy]) (simp_all add: copy_simps r)
  show ?thesis
  proof (cases "ch = Duplicate_both")
    case True
    then show ?thesis using dup by simp
  next
    case False
    then show ?thesis using first [OF chosen_status(1) chosen] by simp
  qed
qed

lemma ends_resolve_duplicate_name:
  assumes q: "quiet cx" and l: "nb_id (cv_record (sc_local cf)) = i"
  shows "ends (resolving e lc) (resolving e lc) (\<lambda>c. resolving e lc c \<and> conflict_free_notebook i c)
    (resolveDuplicateNotebookNameConflict cx cf ch d t)"
proof -
  let ?P = "resolving e lc" and ?Q = "\<lambda>c. resolving e lc c \<and> conflict_free_notebook i c"
  have put: "ends ?P ?P (\<lambda>c. ?P c \<and> conflict_free_notebook (nb_id n) c) (put_encrypted_notebook cx n)"
    if "nb_syncStatus n \<noteq> Conflict" for n
    by (rule ends_put_notebook [OF q that resolving_store]) (use that in \<open>auto intro: resolving_put_notebook free_put_notebook\<close>)
  have fin: "ends (\<lambda>c. ?P c \<and> conflict_free_notebook j c) ?P ?Q (seq (remapLocalNoteNotebookReferences a b d t)
      (if i \<noteq> j then modify (\<lambda>c. c\<lparr>cl_notebooks := tdel nb_id i (cl_notebooks c)\<rparr>) else ret ()))" for a b j
    unfolding remapLocalNoteNotebookReferences_def
    by (rule ends_seq [where R = "\<lambda>c. ?P c \<and> conflict_free_notebook j c"])
      (auto intro!: ends_modify ends_if ends_ret simp: resolving_references free_references resolving_del free_del)
  have remote: "store_only (\<lambda>c. ?P c \<and> conflict_free_notebook j c)" for j by (intro store_only_conj resolving_store free_store)
  have put2: "ends (\<lambda>c. ?P c \<and> conflict_free_notebook j c) ?P (\<lambda>c. ?P c \<and> conflict_free_notebook k c)
      (put_encrypted_notebook cx (notebook_copy x k nm h d t))" for j k x nm h
    by (rule ends_put_notebook [OF q _ remote]) (auto simp: copy_simps intro: resolving_put_notebook free_put_notebook)
  show ?thesis
    unfolding resolveDuplicateNotebookNameConflict_def Let_def l
    apply (rule ends_seq [OF put], simp add: copy_simps, rule ends_if)
     apply (subst copy_simps, rule fin)
    apply (rule ends_bnd [OF ends_keeps [OF frame_id [OF remote]]], simp)
    apply (rule ends_bnd [OF ends_keeps [OF frame_unique_name [OF remote]]], simp)
    apply (rule ends_seq [OF put2 fin])
    done
qed

lemma ends_resolve_notebook:
  assumes q: "quiet cx" and l: "nb_id (cv_record (sc_local cf)) = i"
    and r: "sc_reason cf = Duplicate_name \<or> nb_id (cv_record (sc_remote cf)) = i"
  shows "ends (resolving e lc) (resolving e lc) (\<lambda>c. resolving e lc c \<and> conflict_free_notebook i c)
    (resolve_choice cx (NotebookConflict cf) ch d t)"
proof (cases "sc_reason cf = Duplicate_name")
  case True
  then show ?thesis using ends_resolve_duplicate_name [OF q l] by simp
next
  case False
  let ?P = "resolving e lc" and ?Q = "\<lambda>c. resolving e lc c \<and> conflict_free_notebook i c"
  have r': "nb_id (cv_record (sc_remote cf)) = i" using r False by simp
  have Q: "store_only ?Q" by (intro store_only_conj resolving_store free_store)
  have first: "ends ?P ?P ?Q (put_encrypted_notebook cx n)" if "nb_syncStatus n \<noteq> Conflict" "nb_id n = i" for n
    by (rule ends_put_notebook [OF q that(1) resolving_store]) (use that in \<open>auto intro: resolving_put_notebook free_put_notebook\<close>)
  have copy: "ends ?Q ?P ?Q (put_encrypted_notebook cx n)" if "nb_syncStatus n \<noteq> Conflict" for n
    by (rule ends_put_notebook [OF q that Q]) (use that in \<open>auto intro: resolving_put_notebook free_put_notebook\<close>)
  have refs: "ends ?Q ?P ?Q (modify (update_references f a d t))" for f a
    by (rule ends_modify) (simp add: resolving_references free_references)
  have chosen: "nb_id (chosen_notebook (chooseConflictVersion (cx_env cx) cf ch) (cv_version (sc_remote cf)) d t) = i"
    using chosen_ids(2) [of "cx_env cx" cf ch "cv_version (sc_remote cf)" d t] l r' by auto
  have dup: "ends ?P ?P ?Q (bnd (id_action cx) (\<lambda>k. seq (put_encrypted_notebook cx (synced_notebook (cv_record (sc_remote cf)) t))
       (seq (put_encrypted_notebook cx (notebook_copy (cv_record (sc_local cf)) k nm h d t))
          (modify (update_references (\<lambda>ids. remappedNotebookIds ids i k) i d t)))))" for nm h
    by (rule ends_bnd [OF ends_keeps [OF frame_id [OF resolving_store]]], simp,
        rule ends_seq [OF first ends_seq [OF copy refs]]) (simp_all add: copy_simps r')
  have one: "ends ?P ?P ?Q (seq (put_encrypted_notebook cx (chosen_notebook (chooseConflictVersion (cx_env cx) cf ch) (cv_version (sc_remote cf)) d t))
       (if b then modify (update_references f a d t) else ret ()))" for b f a
    by (rule ends_seq [OF first], simp add: chosen_status, rule chosen, rule ends_if, rule refs, rule ends_ret)
  show ?thesis
  proof (cases "ch = Duplicate_both")
    case True
    then show ?thesis using False dup by (simp add: Let_def l remapLocalNoteNotebookReferences_def)
  next
    case other: False
    let ?s = "chooseConflictVersion (cx_env cx) cf ch"
    have eq: "resolve_choice cx (NotebookConflict cf) ch d t =
      seq (put_encrypted_notebook cx (chosen_notebook ?s (cv_version (sc_remote cf)) d t))
       (if cv_source ?s = Remote_source \<and> truthy_opt (nb_deletedAt (cv_record ?s))
        then modify (update_references (\<lambda>ids. normalizedNotebookIds (filter (\<lambda>i. i \<noteq> nb_id (cv_record ?s)) ids)) (nb_id (cv_record ?s)) d t)
        else ret ())"
      using False other by (simp add: Let_def removeLocalNoteNotebookReferences_def)
    show ?thesis unfolding eq by (rule one)
  qed
qed

lemma display_form:
  "decryptConflictForDisplay cr m conf = Inr d \<Longrightarrow> conflict_form ty i conf \<Longrightarrow> conflict_form ty i d"
  by (cases conf) (auto simp: and_then_Inr dest!: decryptNoteFieldsD decryptNotebookFieldsD)

lemma keeps_listed_resolveConflict:
  assumes q: "quiet cx"
  shows "keeps (conflicts_listed e) (resolveConflict cx k ch)"
  unfolding keeps_leads resolveConflict_def
proof (rule leads_asks_bnd, goal_cases)
  case (1 found)
  show ?case
  proof (cases found)
    case None
    then show ?thesis by (simp add: leads_def)
  next
    case (Some lc)
    let ?P = "\<lambda>c. conflicts_listed e c \<and> getConflict k c = Some lc"
    have close: "ends (\<lambda>c. resolving e lc c \<and> (lc_entityType lc = Note_entity \<longrightarrow> conflict_free_note (lc_entityId lc) c) \<and>
          (lc_entityType lc = Notebook_entity \<longrightarrow> conflict_free_notebook (lc_entityId lc) c)) (conflicts_listed e) (conflicts_listed e)
        (putConflict (lc\<lparr>lc_status := Resolved_conflict\<rparr>))"
      unfolding putConflict_def
      by (rule ends_modify, rule listed_close [where ?lc0.0 = lc]) (auto simp: resolving_def)
    have choice: "ends (resolving e lc) (conflicts_listed e) (\<lambda>c. resolving e lc c \<and>
          (lc_entityType lc = Note_entity \<longrightarrow> conflict_free_note (lc_entityId lc) c) \<and>
          (lc_entityType lc = Notebook_entity \<longrightarrow> conflict_free_notebook (lc_entityId lc) c)) (resolve_choice cx conf ch d t)"
      if "conflict_form (lc_entityType lc) (lc_entityId lc) conf" for conf d t
    proof (cases conf)
      case (NoteConflict cf)
      then show ?thesis using that ends_resolve_note [OF q, of cf "lc_entityId lc" e lc ch d t]
        by (auto simp: resolving_def elim!: ends_weaken)
    next
      case (NotebookConflict cf)
      then show ?thesis using that ends_resolve_notebook [OF q, of cf "lc_entityId lc" e lc ch d t]
        by (auto simp: resolving_def elim!: ends_weaken)
    qed
    have body: "leads (resolving e lc) (conflicts_listed e)
        (bnd (getOrCreateDevice cx) (\<lambda>d. bnd (now_action cx) (\<lambda>t. seq (resolve_choice cx conf ch d t)
           (putConflict (lc\<lparr>lc_status := Resolved_conflict\<rparr>)))))"
      if "conflict_form (lc_entityType lc) (lc_entityId lc) conf" for conf
      by (rule leads_bnd [OF frame_device [OF resolving_store]], rule leads_bnd [OF frame_now [OF resolving_store]],
          rule ends_leads [OF ends_seq [OF choice [OF that] close]]) (auto simp: resolving_def)
    show ?thesis
    proof (cases "\<exists>c. ?P c \<and> lc_status lc = Open_conflict")
      case False
      then show ?thesis using Some by (auto simp: leads_def) (metis conflict_status.exhaust)
    next
      case True
      then obtain c where c: "?P c" "lc_status lc = Open_conflict" by blast
      then have k: "lc_id lc = k" and form: "conflict_form (lc_entityType lc) (lc_entityId lc) (lc_conflict lc)"
        by (auto dest: tget_key listedD(6))
      have "leads ?P (conflicts_listed e) (bnd (check (decryptConflictForDisplay (cx_crypto cx) (cx_material cx) (lc_conflict lc))) (\<lambda>conf.
          bnd (getOrCreateDevice cx) (\<lambda>d. bnd (now_action cx) (\<lambda>t. seq (resolve_choice cx conf ch d t)
           (putConflict (lc\<lparr>lc_status := Resolved_conflict\<rparr>))))))"
        by (rule leads_check_bnd, rule leads_weaken [OF body]) (auto simp: resolving_def k intro: display_form [OF _ form])
      then show ?thesis using Some c(2) by simp
    qed
  qed
qed

end
