(* ===== verification/ClientNotes.thy ===== *)
theory ClientNotes
  imports ClientMerge
begin

text \<open>
  What the user does to notes and notebooks (\<open>apps/web/src/lib/client/entity-store-notes.ts\<close>,
  \<open>entity-store-notebooks.ts\<close>, \<open>entity-store-queries.ts\<close>, \<open>entity-store-records.ts\<close>).
  Every change of a record increments its version and marks it pending; title and body changes, trash
  and restore first keep a snapshot of the note.
\<close>

section \<open>Sorting\<close>

text \<open>
  \<open>Array.prototype.sort\<close> with a comparison function: a stable sort. The comparisons passed are
  consistent as long as \<open>localeCompare\<close> is; for others ECMAScript leaves the order open.
\<close>

fun insert_by :: "('a \<Rightarrow> 'a \<Rightarrow> int) \<Rightarrow> 'a \<Rightarrow> 'a list \<Rightarrow> 'a list" where
  "insert_by cmp x [] = [x]"
| "insert_by cmp x (y # ys) = (if cmp x y \<le> 0 then x # y # ys else y # insert_by cmp x ys)"

definition sort_by :: "('a \<Rightarrow> 'a \<Rightarrow> int) \<Rightarrow> 'a list \<Rightarrow> 'a list" where
  "sort_by cmp xs = foldr (insert_by cmp) xs []"

section \<open>Snapshots\<close>

definition MAX_LOCAL_NOTE_SNAPSHOTS_PER_NOTE :: nat where
  "MAX_LOCAL_NOTE_SNAPSHOTS_PER_NOTE = 50"

definition isLocalOnlyRecord :: "int \<Rightarrow> bool" where
  "isLocalOnlyRecord lastSyncedVersion \<longleftrightarrow> lastSyncedVersion = 0"

definition snapshot_of :: "LocalNote \<Rightarrow> string \<Rightarrow> string \<Rightarrow> snapshot_reason \<Rightarrow> LocalNoteSnapshot" where
  "snapshot_of n i savedAt reason = LocalNote.extend n (LocalNoteSnapshot.fields i savedAt reason)"

definition compare_snapshots :: "env \<Rightarrow> LocalNoteSnapshot \<Rightarrow> LocalNoteSnapshot \<Rightarrow> int" where
  "compare_snapshots e a b =
     (let byTime = locale_compare e (sn_savedAt b) (sn_savedAt a)
      in if byTime \<noteq> 0 then byTime else locale_compare e (sn_snapshotId b) (sn_snapshotId a))"

definition sortLocalNoteSnapshots :: "env \<Rightarrow> LocalNoteSnapshot list \<Rightarrow> LocalNoteSnapshot list" where
  "sortLocalNoteSnapshots e ss = sort_by (compare_snapshots e) ss"

definition snapshots_of_note :: "string \<Rightarrow> client \<Rightarrow> LocalNoteSnapshot list" where
  "snapshots_of_note noteId c = filter (\<lambda>s. n_id s = noteId) (cl_snapshots c)"

definition pruneLocalNoteSnapshots :: "ctxt \<Rightarrow> string \<Rightarrow> unit action" where
  "pruneLocalNoteSnapshots cx noteId = modify (\<lambda>c.
     let expired = drop MAX_LOCAL_NOTE_SNAPSHOTS_PER_NOTE (sortLocalNoteSnapshots (cx_env cx) (snapshots_of_note noteId c))
     in c\<lparr>cl_snapshots := fold (tdel sn_snapshotId) (map sn_snapshotId expired) (cl_snapshots c)\<rparr>)"

definition recordLocalNoteSnapshot :: "ctxt \<Rightarrow> LocalNote \<Rightarrow> snapshot_reason \<Rightarrow> unit action" where
  "recordLocalNoteSnapshot cx n reason =
     (if truthy_opt (n_deletedAt n) then ret ()
      else bnd (now_action cx) (\<lambda>savedAt.
        bnd (id_action cx) (\<lambda>i.
        bnd (check_effect (encryptNoteFields (cx_crypto cx) (cx_material cx) (snapshot_of n i savedAt reason))) (\<lambda>stored.
        seq (await cx)
        (seq (modify (\<lambda>c. c\<lparr>cl_snapshots := tput sn_snapshotId stored (cl_snapshots c)\<rparr>))
          (pruneLocalNoteSnapshots cx (n_id n)))))))"

definition deleteLocalNoteSnapshots :: "string \<Rightarrow> unit action" where
  "deleteLocalNoteSnapshots noteId = modify (\<lambda>c. c\<lparr>cl_snapshots := filter (\<lambda>s. n_id s \<noteq> noteId) (cl_snapshots c)\<rparr>)"

section \<open>Notes\<close>

definition createBlankNote :: "ctxt \<Rightarrow> string option \<Rightarrow> string option \<Rightarrow> string option \<Rightarrow> LocalNote action" where
  "createBlankNote cx title body notebookId =
     bnd (getOrCreateDevice cx) (\<lambda>d.
     bnd (now_action cx) (\<lambda>now.
     bnd (id_action cx) (\<lambda>i.
       let notebookIds = (if truthy_opt notebookId then [or_empty notebookId] else []);
           n = as_local \<lparr>n_id = i, n_title = trim (or_empty title), n_body = or_empty body, n_titleHash = None,
                 n_bodyHash = None, n_notebookIds = notebookIds, n_notebookId = primaryNotebookId notebookIds,
                 n_createdAt = now, n_updatedAt = now, n_deletedAt = None, n_trashedAt = None, n_isFavorite = False,
                 n_deviceId = d_id d, n_version = 1, n_syncStatus = Pending\<rparr> 0 None
       in seq (put_encrypted_note cx n) (ret n))))"

text \<open>\<open>updatedAt\<close>, \<open>deviceId\<close>, \<open>version + 1\<close>, \<open>pending\<close>: what every edit sets.\<close>

definition touched :: "Device \<Rightarrow> string \<Rightarrow> LocalNote \<Rightarrow> LocalNote" where
  "touched d now n = n\<lparr>n_updatedAt := now, n_deviceId := d_id d, n_version := js_add1 (n_version n), n_syncStatus := Pending\<rparr>"

definition decrypted :: "ctxt \<Rightarrow> LocalNote \<Rightarrow> LocalNote action" where
  "decrypted cx n = check (decryptNoteFields (cx_crypto cx) (cx_material cx) n)"

definition updateNoteContent :: "ctxt \<Rightarrow> string \<Rightarrow> string \<Rightarrow> string \<Rightarrow> LocalNote option action" where
  "updateNoteContent cx noteId title body =
     bnd (asks (storedNote noteId)) (\<lambda>found.
       case found of
         None \<Rightarrow> ret None
       | Some n \<Rightarrow>
           if truthy_opt (n_deletedAt n) then ret None
           else bnd (decrypted cx n) (\<lambda>plain.
             if n_title plain = trim title \<and> n_body plain = body then ret (Some plain)
             else bnd (getOrCreateDevice cx) (\<lambda>d.
               bnd (now_action cx) (\<lambda>now.
               let updated = (touched d now n)\<lparr>n_title := trim title, n_body := body\<rparr>
               in seq (recordLocalNoteSnapshot cx n Edit_reason)
                 (seq (put_encrypted_note cx updated) (ret (Some updated)))))))"

definition assigned_ids :: "string list \<Rightarrow> string option \<Rightarrow> bool \<Rightarrow> string list" where
  "assigned_ids currentIds notebookId assigned =
     (if truthy_opt notebookId then
        (let i = or_empty notebookId
         in if assigned then (if i \<in> set currentIds then currentIds else currentIds @ [i])
            else filter (\<lambda>x. x \<noteq> i) currentIds)
      else [])"

definition assignNoteToNotebook :: "ctxt \<Rightarrow> string \<Rightarrow> string option \<Rightarrow> bool \<Rightarrow> LocalNote option action" where
  "assignNoteToNotebook cx noteId notebookId assigned =
     bnd (asks (storedNote noteId)) (\<lambda>found.
       case found of
         None \<Rightarrow> ret None
       | Some n \<Rightarrow>
           if truthy_opt (n_deletedAt n) then ret (Some n)
           else let currentIds = noteNotebookIds n; ids = assigned_ids currentIds notebookId assigned
             in if join nul currentIds = join nul ids then bnd (decrypted cx n) (\<lambda>p. ret (Some p))
                else bnd (getOrCreateDevice cx) (\<lambda>d.
                  bnd (now_action cx) (\<lambda>now.
                  let updated = (touched d now n)\<lparr>n_notebookIds := ids, n_notebookId := primaryNotebookId ids\<rparr>
                  in seq (putNote updated) (bnd (decrypted cx updated) (\<lambda>p. ret (Some p))))))"

definition setNoteFavorite :: "ctxt \<Rightarrow> string \<Rightarrow> bool \<Rightarrow> LocalNote option action" where
  "setNoteFavorite cx noteId isFavorite =
     bnd (asks (storedNote noteId)) (\<lambda>found.
       case found of
         None \<Rightarrow> ret None
       | Some n \<Rightarrow>
           if truthy_opt (n_deletedAt n) then ret (Some n)
           else if n_isFavorite n = isFavorite then bnd (decrypted cx n) (\<lambda>p. ret (Some p))
           else bnd (getOrCreateDevice cx) (\<lambda>d.
             bnd (now_action cx) (\<lambda>now.
             let updated = (touched d now n)\<lparr>n_isFavorite := isFavorite\<rparr>
             in seq (putNote updated) (bnd (decrypted cx updated) (\<lambda>p. ret (Some p))))))"

definition moveNoteToTrash :: "ctxt \<Rightarrow> string \<Rightarrow> unit action" where
  "moveNoteToTrash cx noteId =
     bnd (asks (storedNote noteId)) (\<lambda>found.
       case found of
         None \<Rightarrow> ret ()
       | Some n \<Rightarrow>
           if truthy_opt (n_trashedAt n) then ret ()
           else bnd (getOrCreateDevice cx) (\<lambda>d.
             bnd (now_action cx) (\<lambda>now.
             seq (recordLocalNoteSnapshot cx n Trash_reason)
               (putNote ((touched d now n)\<lparr>n_trashedAt := Some now\<rparr>)))))"

definition restoreNote :: "ctxt \<Rightarrow> string \<Rightarrow> unit action" where
  "restoreNote cx noteId =
     bnd (asks (storedNote noteId)) (\<lambda>found.
       case found of
         None \<Rightarrow> ret ()
       | Some n \<Rightarrow>
           if \<not> truthy_opt (n_trashedAt n) then ret ()
           else bnd (getOrCreateDevice cx) (\<lambda>d.
             bnd (now_action cx) (\<lambda>now.
             seq (recordLocalNoteSnapshot cx n Restore_reason)
               (putNote ((touched d now n)\<lparr>n_trashedAt := None\<rparr>)))))"

definition deleteNotePermanently :: "ctxt \<Rightarrow> string \<Rightarrow> unit action" where
  "deleteNotePermanently cx noteId =
     bnd (asks (storedNote noteId)) (\<lambda>found.
       case found of
         None \<Rightarrow> ret ()
       | Some n \<Rightarrow>
           if truthy_opt (n_deletedAt n) then ret ()
           else seq (deleteLocalNoteSnapshots noteId)
             (if isLocalOnlyRecord (ln_lastSyncedVersion n)
              then modify (\<lambda>c. c\<lparr>cl_notes := tdel n_id noteId (cl_notes c)\<rparr>)
              else bnd (getOrCreateDevice cx) (\<lambda>d.
                bnd (now_action cx) (\<lambda>now.
                  putNote ((touched d now n)\<lparr>n_deletedAt := Some now,
                    n_trashedAt := (case n_trashedAt n of Some t \<Rightarrow> Some t | None \<Rightarrow> Some now)\<rparr>)))))"

definition loadNoteSnapshots :: "ctxt \<Rightarrow> string \<Rightarrow> nat \<Rightarrow> LocalNoteSnapshot list action" where
  "loadNoteSnapshots cx noteId limit =
     bnd (asks (snapshots_of_note noteId)) (\<lambda>ss.
       map_each (\<lambda>s. check (decryptNoteFields (cx_crypto cx) (cx_material cx) s))
         (take limit (sortLocalNoteSnapshots (cx_env cx) ss)))"

definition restoreLoadedNoteSnapshot :: "ctxt \<Rightarrow> string \<Rightarrow> LocalNoteSnapshot \<Rightarrow> LocalNote option action" where
  "restoreLoadedNoteSnapshot cx noteId s =
     bnd (asks (storedNote noteId)) (\<lambda>found.
       case found of
         None \<Rightarrow> ret None
       | Some n \<Rightarrow>
           if truthy_opt (n_deletedAt n) \<or> truthy_opt (n_trashedAt n) then ret None
           else bnd (getOrCreateDevice cx) (\<lambda>d.
             bnd (now_action cx) (\<lambda>now.
             let updated = (touched d now n)\<lparr>n_title := n_title s, n_body := n_body s\<rparr>
             in seq (recordLocalNoteSnapshot cx n Restore_reason)
               (seq (put_encrypted_note cx updated) (ret (Some updated))))))"

definition restoreLatestNoteSnapshot :: "ctxt \<Rightarrow> string \<Rightarrow> LocalNote option action" where
  "restoreLatestNoteSnapshot cx noteId =
     bnd (loadNoteSnapshots cx noteId 1) (\<lambda>ss.
       case ss of [] \<Rightarrow> ret None | s # _ \<Rightarrow> restoreLoadedNoteSnapshot cx noteId s)"

definition restoreNoteSnapshot :: "ctxt \<Rightarrow> string \<Rightarrow> string \<Rightarrow> LocalNote option action" where
  "restoreNoteSnapshot cx noteId snapshotId =
     bnd (asks (\<lambda>c. tget sn_snapshotId snapshotId (cl_snapshots c))) (\<lambda>found.
       case found of
         None \<Rightarrow> ret None
       | Some s \<Rightarrow>
           if n_id s \<noteq> noteId then ret None
           else bnd (check (decryptNoteFields (cx_crypto cx) (cx_material cx) s)) (restoreLoadedNoteSnapshot cx noteId))"

section \<open>Notebooks\<close>

definition decrypted_notebooks :: "ctxt \<Rightarrow> LocalNotebook list action" where
  "decrypted_notebooks cx =
     bnd (asks cl_notebooks) (map_each (\<lambda>nb. check (decryptNotebookFields (cx_crypto cx) (cx_material cx) nb)))"

definition notebookNameExists :: "ctxt \<Rightarrow> string \<Rightarrow> string option \<Rightarrow> bool action" where
  "notebookNameExists cx name excludeId =
     (if \<not> truthy (normalizeNotebookName name) then ret False
      else bnd (decrypted_notebooks cx) (\<lambda>nbs. ret (\<exists>nb \<in> set nbs.
        \<not> truthy_opt (nb_deletedAt nb) \<and> Some (nb_id nb) \<noteq> excludeId \<and>
        normalizeNotebookName (nb_name nb) = normalizeNotebookName name)))"

definition createNotebook :: "ctxt \<Rightarrow> string \<Rightarrow> LocalNotebook option action" where
  "createNotebook cx name =
     (if \<not> truthy (trim name) then ret None
      else bnd (notebookNameExists cx (trim name) None) (\<lambda>taken.
        if taken then ret None
        else bnd (getOrCreateDevice cx) (\<lambda>d.
          bnd (now_action cx) (\<lambda>now.
          bnd (id_action cx) (\<lambda>i.
          let nb = as_local_notebook \<lparr>nb_id = i, nb_name = trim name, nb_nameHash = None, nb_createdAt = now,
                nb_updatedAt = now, nb_deletedAt = None, nb_deviceId = d_id d, nb_version = 1, nb_syncStatus = Pending\<rparr> 0 None
          in seq (put_encrypted_notebook cx nb) (ret (Some nb)))))))"

definition renameNotebook :: "ctxt \<Rightarrow> string \<Rightarrow> string \<Rightarrow> LocalNotebook option action" where
  "renameNotebook cx notebookId name =
     (if \<not> truthy (trim name) then ret None
      else bnd (notebookNameExists cx (trim name) (Some notebookId)) (\<lambda>taken.
        if taken then ret None
        else bnd (asks (storedNotebook notebookId)) (\<lambda>found.
          case found of
            None \<Rightarrow> ret None
          | Some nb \<Rightarrow>
              if truthy_opt (nb_deletedAt nb) then ret None
              else bnd (check (decryptNotebookFields (cx_crypto cx) (cx_material cx) nb)) (\<lambda>plain.
                if nb_name plain = trim name then ret (Some plain)
                else bnd (getOrCreateDevice cx) (\<lambda>d.
                  bnd (now_action cx) (\<lambda>now.
                  let updated = plain\<lparr>nb_name := trim name, nb_updatedAt := now, nb_deviceId := d_id d,
                        nb_version := js_add1 (nb_version nb), nb_syncStatus := Pending\<rparr>
                  in seq (put_encrypted_notebook cx updated) (ret (Some updated))))))))"

definition unassigned :: "string \<Rightarrow> Device \<Rightarrow> string \<Rightarrow> LocalNote \<Rightarrow> LocalNote list" where
  "unassigned notebookId d now n =
     (if \<not> truthy_opt (n_deletedAt n) \<and> \<not> truthy_opt (n_trashedAt n) \<and> notebookId \<in> set (noteNotebookIds n)
      then let ids = filter (\<lambda>i. i \<noteq> notebookId) (noteNotebookIds n)
           in [(touched d now n)\<lparr>n_notebookIds := ids, n_notebookId := primaryNotebookId ids\<rparr>]
      else [])"

definition delete_notebook_rows :: "string \<Rightarrow> LocalNotebook \<Rightarrow> Device \<Rightarrow> string \<Rightarrow> client \<Rightarrow> client" where
  "delete_notebook_rows notebookId nb d now c =
     c\<lparr>cl_notebooks :=
         (if isLocalOnlyRecord (lnb_lastSyncedVersion nb) then tdel nb_id notebookId (cl_notebooks c)
          else tput nb_id (nb\<lparr>nb_deletedAt := Some now, nb_updatedAt := now, nb_deviceId := d_id d,
                 nb_version := js_add1 (nb_version nb), nb_syncStatus := Pending\<rparr>) (cl_notebooks c)),
       cl_notes := fold (tput n_id) (concat (map (unassigned notebookId d now) (cl_notes c))) (cl_notes c)\<rparr>"

definition deleteNotebook :: "ctxt \<Rightarrow> string \<Rightarrow> unit action" where
  "deleteNotebook cx notebookId =
     bnd (asks (storedNotebook notebookId)) (\<lambda>found.
       case found of
         None \<Rightarrow> ret ()
       | Some nb \<Rightarrow>
           if truthy_opt (nb_deletedAt nb) then ret ()
           else bnd (getOrCreateDevice cx) (\<lambda>d.
             bnd (now_action cx) (\<lambda>now. modify (delete_notebook_rows notebookId nb d now))))"

section \<open>Queries\<close>

definition decrypted_notes :: "ctxt \<Rightarrow> LocalNote list action" where
  "decrypted_notes cx = bnd (asks cl_notes) (map_each (decrypted cx))"

definition loadNotes :: "ctxt \<Rightarrow> LocalNote list action" where
  "loadNotes cx = bnd (decrypted_notes cx) (\<lambda>ns.
     ret (sort_by (\<lambda>a b. locale_compare (cx_env cx) (n_updatedAt b) (n_updatedAt a))
       (filter (\<lambda>n. \<not> truthy_opt (n_deletedAt n) \<and> \<not> truthy_opt (n_trashedAt n)) ns)))"

definition loadTrash :: "ctxt \<Rightarrow> LocalNote list action" where
  "loadTrash cx = bnd (decrypted_notes cx) (\<lambda>ns.
     ret (sort_by (\<lambda>a b. locale_compare (cx_env cx) (or_empty (n_trashedAt b)) (or_empty (n_trashedAt a)))
       (filter (\<lambda>n. \<not> truthy_opt (n_deletedAt n) \<and> truthy_opt (n_trashedAt n)) ns)))"

definition loadNotebooks :: "ctxt \<Rightarrow> LocalNotebook list action" where
  "loadNotebooks cx = bnd (decrypted_notebooks cx) (\<lambda>nbs.
     ret (sort_by (\<lambda>a b. locale_compare (cx_env cx) (nb_name a) (nb_name b))
       (filter (\<lambda>nb. \<not> truthy_opt (nb_deletedAt nb)) nbs)))"

definition loadPendingConflicts :: "ctxt \<Rightarrow> LocalConflict list action" where
  "loadPendingConflicts cx =
     bnd (asks (\<lambda>c. sort_key lc_createdAt (filter (\<lambda>lc. lc_status lc = Open_conflict) (cl_conflicts c)))) (\<lambda>lcs.
       map_each (\<lambda>lc. bnd (check (decryptConflictForDisplay (cx_crypto cx) (cx_material cx) (lc_conflict lc)))
         (\<lambda>conf. ret (lc\<lparr>lc_conflict := conf\<rparr>))) lcs)"

definition loadDevices :: "Device list action" where
  "loadDevices = asks cl_devices"

definition loadPendingSyncCount :: "nat action" where
  "loadPendingSyncCount = asks (\<lambda>c.
     length (filter (\<lambda>n. n_syncStatus n = Pending) (cl_notes c)) +
     length (filter (\<lambda>nb. nb_syncStatus nb = Pending) (cl_notebooks c)))"

end
