(* ===== verification/ClientReencrypt.thy ===== *)
theory ClientReencrypt
  imports ClientNotes
begin

text \<open>
  Bringing the whole local database under a key (\<open>apps/web/src/lib/client/entity-store-encryption.ts\<close>)
  and giving it to an account (\<open>entity-store-workspace.ts\<close>). The current key material is part of the
  context; \<open>reencryptLocalNotes\<close> names both keys.
\<close>

section \<open>Support checks\<close>

definition ENCRYPTION_AUDIT_META_KEY :: string where
  "ENCRYPTION_AUDIT_META_KEY = ''localEncryptionAuditVersion''"

definition ENCRYPTION_AUDIT_VERSION :: string where
  "ENCRYPTION_AUDIT_VERSION = ''keyring-aes:v7''"

definition LOCAL_WORKSPACE_OWNER_KEY :: string where
  "LOCAL_WORKSPACE_OWNER_KEY = ''localWorkspaceOwner''"

definition getMeta :: "string \<Rightarrow> client \<Rightarrow> string option" where
  "getMeta k c = map_option sm_value (tget sm_key k (cl_meta c))"

definition assertSupportedEncryptedText :: "string \<Rightarrow> unit action" where
  "assertSupportedEncryptedText v = (if isUnsupportedEncryptedText v then raise Upgrade_required else ret ())"

definition assertNotesDoNotNeedLegacyMigration :: "'a Note_scheme list \<Rightarrow> unit action" where
  "assertNotesDoNotNeedLegacyMigration ns =
     for_each (\<lambda>n. seq (assertSupportedEncryptedText (n_title n)) (assertSupportedEncryptedText (n_body n))) ns"

definition assertNotebooksDoNotNeedLegacyMigration :: "'a Notebook_scheme list \<Rightarrow> unit action" where
  "assertNotebooksDoNotNeedLegacyMigration nbs = for_each (\<lambda>nb. assertSupportedEncryptedText (nb_name nb)) nbs"

definition isNoteConflict :: "LocalConflict \<Rightarrow> bool" where
  "isNoteConflict lc \<longleftrightarrow> lc_entityType lc = Note_entity \<and> (case lc_conflict lc of NoteConflict _ \<Rightarrow> True | _ \<Rightarrow> False)"

definition isNotebookConflict :: "LocalConflict \<Rightarrow> bool" where
  "isNotebookConflict lc \<longleftrightarrow> lc_entityType lc = Notebook_entity \<and> (case lc_conflict lc of NotebookConflict _ \<Rightarrow> True | _ \<Rightarrow> False)"

definition assertConflictDoesNotNeedLegacyMigration :: "LocalConflict \<Rightarrow> unit action" where
  "assertConflictDoesNotNeedLegacyMigration lc =
     (if isNoteConflict lc \<or> isNotebookConflict lc then
        (case lc_conflict lc of
           NoteConflict cf \<Rightarrow> assertNotesDoNotNeedLegacyMigration [cv_record (sc_local cf), cv_record (sc_remote cf)]
         | NotebookConflict cf \<Rightarrow> assertNotebooksDoNotNeedLegacyMigration [cv_record (sc_local cf), cv_record (sc_remote cf)])
      else ret ())"

section \<open>Saving what changed\<close>

definition noteEncryptedFieldsChanged :: "'a Note_scheme \<Rightarrow> 'a Note_scheme \<Rightarrow> bool" where
  "noteEncryptedFieldsChanged a b \<longleftrightarrow>
     n_title a \<noteq> n_title b \<or> n_body a \<noteq> n_body b \<or> n_titleHash a \<noteq> n_titleHash b \<or> n_bodyHash a \<noteq> n_bodyHash b"

definition notebookEncryptedFieldsChanged :: "'a Notebook_scheme \<Rightarrow> 'a Notebook_scheme \<Rightarrow> bool" where
  "notebookEncryptedFieldsChanged a b \<longleftrightarrow> nb_name a \<noteq> nb_name b \<or> nb_nameHash a \<noteq> nb_nameHash b"

definition reencrypted_status :: "sync_status \<Rightarrow> sync_status" where
  "reencrypted_status s = (if s = Conflict \<or> s = Deleted then s else Pending)"

definition saveNoteEncryptionChanges :: "ctxt \<Rightarrow> (LocalNote \<times> LocalNote) list \<Rightarrow> unit action" where
  "saveNoteEncryptionChanges cx changes =
     (let changed = filter (\<lambda>(a, b). noteEncryptedFieldsChanged a b) changes
      in if changed = [] then ret ()
         else bnd (getOrCreateDevice cx) (\<lambda>d. modify (\<lambda>c. c\<lparr>cl_notes := fold (tput n_id)
           (map (\<lambda>(a, b). b\<lparr>n_deviceId := d_id d, n_version := js_add1 (n_version a),
              n_syncStatus := reencrypted_status (n_syncStatus a)\<rparr>) changed) (cl_notes c)\<rparr>)))"

definition saveNoteSnapshotEncryptionChanges :: "(LocalNoteSnapshot \<times> LocalNoteSnapshot) list \<Rightarrow> unit action" where
  "saveNoteSnapshotEncryptionChanges changes = modify (\<lambda>c. c\<lparr>cl_snapshots :=
     fold (tput sn_snapshotId) (map snd (filter (\<lambda>(a, b). noteEncryptedFieldsChanged a b) changes)) (cl_snapshots c)\<rparr>)"

definition saveNotebookEncryptionChanges :: "ctxt \<Rightarrow> (LocalNotebook \<times> LocalNotebook) list \<Rightarrow> unit action" where
  "saveNotebookEncryptionChanges cx changes =
     (let changed = filter (\<lambda>(a, b). notebookEncryptedFieldsChanged a b) changes
      in if changed = [] then ret ()
         else bnd (getOrCreateDevice cx) (\<lambda>d. modify (\<lambda>c. c\<lparr>cl_notebooks := fold (tput nb_id)
           (map (\<lambda>(a, b). b\<lparr>nb_deviceId := d_id d, nb_version := js_add1 (nb_version a),
              nb_syncStatus := reencrypted_status (nb_syncStatus a)\<rparr>) changed) (cl_notebooks c)\<rparr>)))"

definition conflict_text_changed :: "'r conflict_version \<Rightarrow> 'r conflict_version \<Rightarrow> bool" where
  "conflict_text_changed a b \<longleftrightarrow> cv_previewText a \<noteq> cv_previewText b"

definition conflictEncryptedFieldsChanged :: "LocalConflict \<Rightarrow> any_conflict \<Rightarrow> bool" where
  "conflictEncryptedFieldsChanged before after \<longleftrightarrow>
     (case (lc_entityType before, lc_conflict before, after) of
        (Note_entity, NoteConflict a, NoteConflict b) \<Rightarrow>
          conflict_text_changed (sc_local a) (sc_local b) \<or> conflict_text_changed (sc_remote a) (sc_remote b) \<or>
          noteEncryptedFieldsChanged (cv_record (sc_local a)) (cv_record (sc_local b)) \<or>
          noteEncryptedFieldsChanged (cv_record (sc_remote a)) (cv_record (sc_remote b))
      | (Notebook_entity, NotebookConflict a, NotebookConflict b) \<Rightarrow>
          conflict_text_changed (sc_local a) (sc_local b) \<or> conflict_text_changed (sc_remote a) (sc_remote b) \<or>
          notebookEncryptedFieldsChanged (cv_record (sc_local a)) (cv_record (sc_local b)) \<or>
          notebookEncryptedFieldsChanged (cv_record (sc_remote a)) (cv_record (sc_remote b))
      | _ \<Rightarrow> False)"

definition saveConflictEncryptionChanges :: "(LocalConflict \<times> any_conflict) list \<Rightarrow> unit action" where
  "saveConflictEncryptionChanges changes = modify (\<lambda>c. c\<lparr>cl_conflicts := fold (tput lc_id)
     (map (\<lambda>(a, b). a\<lparr>lc_conflict := b\<rparr>) (filter (\<lambda>(a, b). conflictEncryptedFieldsChanged a b) changes)) (cl_conflicts c)\<rparr>)"

definition markEncryptionAuditCurrent :: "unit action" where
  "markEncryptionAuditCurrent = putMeta ENCRYPTION_AUDIT_META_KEY ENCRYPTION_AUDIT_VERSION"

text \<open>\<open>Promise.all(records.map(async r => ({ before: r, after: await f(r) })))\<close>.\<close>

definition before_after :: "ctxt \<Rightarrow> ('a \<Rightarrow> 'b action) \<Rightarrow> 'a list \<Rightarrow> ('a \<times> 'b) list action" where
  "before_after cx f xs =
     bnd (map_each (\<lambda>x. bnd (f x) (\<lambda>y. ret (x, y))) xs) (\<lambda>pairs. seq (await cx) (ret pairs))"

section \<open>Encrypting what is not encrypted yet\<close>

definition note_needs_encryption :: "ctxt \<Rightarrow> 'a Note_scheme \<Rightarrow> client_error + bool" where
  "note_needs_encryption cx n =
     and_then (canDecryptEncryptedTextWithPrimaryMaterial (cx_crypto cx) (n_title n) (cx_material cx) (titleContext (n_id n))) (\<lambda>t.
     and_then (canDecryptEncryptedTextWithPrimaryMaterial (cx_crypto cx) (n_body n) (cx_material cx) (bodyContext (n_id n))) (\<lambda>b.
       Inr (\<not> isCurrentEncryptedText (n_title n) \<or> \<not> t \<or> \<not> isCurrentEncryptedText (n_body n) \<or> \<not> b \<or>
            \<not> isCurrentFieldHash (n_titleHash n) \<or> \<not> isCurrentFieldHash (n_bodyHash n))))"

definition notebook_needs_encryption :: "ctxt \<Rightarrow> 'a Notebook_scheme \<Rightarrow> client_error + bool" where
  "notebook_needs_encryption cx nb =
     and_then (canDecryptEncryptedTextWithPrimaryMaterial (cx_crypto cx) (nb_name nb) (cx_material cx) (notebookNameContext (nb_id nb))) (\<lambda>t.
       Inr (\<not> isCurrentEncryptedText (nb_name nb) \<or> \<not> t \<or> \<not> isCurrentFieldHash (nb_nameHash nb)))"

definition needing :: "('a \<Rightarrow> client_error + bool) \<Rightarrow> 'a list \<Rightarrow> 'a list action" where
  "needing f xs = bnd (map_each (\<lambda>x. check (and_then (f x) (\<lambda>b. Inr (x, b)))) xs) (\<lambda>ps. ret (map fst (filter snd ps)))"

definition refresh_note :: "ctxt \<Rightarrow> 'a Note_scheme \<Rightarrow> 'a Note_scheme action" where
  "refresh_note cx n =
     bnd (check (decryptNoteFields (cx_crypto cx) (cx_material cx) n)) (\<lambda>p.
       check_effect (encryptNoteFields (cx_crypto cx) (cx_material cx) p))"

definition refresh_notebook :: "ctxt \<Rightarrow> 'a Notebook_scheme \<Rightarrow> 'a Notebook_scheme action" where
  "refresh_notebook cx nb =
     bnd (check (decryptNotebookFields (cx_crypto cx) (cx_material cx) nb)) (\<lambda>p.
       check_effect (encryptNotebookFields (cx_crypto cx) (cx_material cx) p))"

definition noteConflictNeedsEncryption :: "Note sync_conflict \<Rightarrow> bool" where
  "noteConflictNeedsEncryption cf \<longleftrightarrow>
     cv_previewText (sc_local cf) \<noteq> [] \<or> cv_previewText (sc_remote cf) \<noteq> [] \<or>
     (\<exists>n \<in> {cv_record (sc_local cf), cv_record (sc_remote cf)}.
        \<not> isCurrentEncryptedText (n_title n) \<or> \<not> isCurrentEncryptedText (n_body n) \<or>
        \<not> isCurrentFieldHash (n_titleHash n) \<or> \<not> isCurrentFieldHash (n_bodyHash n))"

definition notebookConflictNeedsEncryption :: "Notebook sync_conflict \<Rightarrow> bool" where
  "notebookConflictNeedsEncryption cf \<longleftrightarrow>
     cv_previewText (sc_local cf) \<noteq> [] \<or> cv_previewText (sc_remote cf) \<noteq> [] \<or>
     (\<exists>n \<in> {cv_record (sc_local cf), cv_record (sc_remote cf)}.
        \<not> isCurrentEncryptedText (nb_name n) \<or> \<not> isCurrentFieldHash (nb_nameHash n))"

definition conflict_needs_encryption :: "LocalConflict \<Rightarrow> bool" where
  "conflict_needs_encryption lc \<longleftrightarrow>
     (case lc_conflict lc of
        NoteConflict cf \<Rightarrow> isNoteConflict lc \<and> noteConflictNeedsEncryption cf
      | NotebookConflict cf \<Rightarrow> isNotebookConflict lc \<and> notebookConflictNeedsEncryption cf)"

definition ensureLocalConflictsEncrypted :: "ctxt \<Rightarrow> unit action" where
  "ensureLocalConflictsEncrypted cx =
     bnd (asks cl_conflicts) (\<lambda>lcs.
     seq (for_each assertConflictDoesNotNeedLegacyMigration lcs)
     (bnd (before_after cx (\<lambda>lc. check_effect (encryptConflictForStorage (cx_crypto cx) (cx_material cx) (lc_conflict lc)))
            (filter conflict_needs_encryption lcs))
        saveConflictEncryptionChanges))"

definition ensureLocalNotesEncrypted :: "ctxt \<Rightarrow> unit action" where
  "ensureLocalNotesEncrypted cx =
     seq (check (assertSupportedEncryptionKeyMaterial (cx_material cx)))
     (bnd (asks (getMeta ENCRYPTION_AUDIT_META_KEY)) (\<lambda>audit.
       if audit = Some ENCRYPTION_AUDIT_VERSION then ret ()
       else
         bnd (asks cl_notes) (\<lambda>ns.
         seq (assertNotesDoNotNeedLegacyMigration ns)
         (bnd (needing (note_needs_encryption cx) ns) (\<lambda>todo.
         seq (bnd (before_after cx (refresh_note cx) todo) (saveNoteEncryptionChanges cx))
         (bnd (asks cl_snapshots) (\<lambda>ss.
         seq (assertNotesDoNotNeedLegacyMigration ss)
         (bnd (needing (note_needs_encryption cx) ss) (\<lambda>todo.
         seq (bnd (before_after cx (refresh_note cx) todo) saveNoteSnapshotEncryptionChanges)
         (bnd (asks cl_notebooks) (\<lambda>nbs.
         seq (assertNotebooksDoNotNeedLegacyMigration nbs)
         (bnd (needing (notebook_needs_encryption cx) nbs) (\<lambda>todo.
         seq (bnd (before_after cx (refresh_notebook cx) todo) (saveNotebookEncryptionChanges cx))
         (seq (ensureLocalConflictsEncrypted cx) markEncryptionAuditCurrent))))))))))))))"

section \<open>Changing the key\<close>

definition reencrypt_note_action :: "ctxt \<Rightarrow> string \<Rightarrow> string \<Rightarrow> 'a Note_scheme \<Rightarrow> 'a Note_scheme action" where
  "reencrypt_note_action cx previousMaterial nextMaterial n =
     check_effect (reencryptNoteFields (cx_crypto cx) n previousMaterial nextMaterial)"

definition reencrypt_notebook_action :: "ctxt \<Rightarrow> string \<Rightarrow> string \<Rightarrow> 'a Notebook_scheme \<Rightarrow> 'a Notebook_scheme action" where
  "reencrypt_notebook_action cx previousMaterial nextMaterial nb =
     check_effect (reencryptNotebookFields (cx_crypto cx) nb previousMaterial nextMaterial)"

definition reencrypt_conflict_action :: "ctxt \<Rightarrow> string \<Rightarrow> string \<Rightarrow> LocalConflict \<Rightarrow> any_conflict action" where
  "reencrypt_conflict_action cx previousMaterial nextMaterial lc =
     check_effect (reencryptConflictForStorage (cx_crypto cx) (lc_conflict lc) previousMaterial nextMaterial)"

definition known_conflicts :: "client \<Rightarrow> LocalConflict list" where
  "known_conflicts c = filter (\<lambda>lc. isNoteConflict lc \<or> isNotebookConflict lc) (cl_conflicts c)"

definition reencryptLocalConflicts :: "ctxt \<Rightarrow> string \<Rightarrow> string \<Rightarrow> unit action" where
  "reencryptLocalConflicts cx previousMaterial nextMaterial =
     bnd (asks known_conflicts) (\<lambda>lcs.
     bnd (before_after cx (reencrypt_conflict_action cx previousMaterial nextMaterial) lcs) saveConflictEncryptionChanges)"

definition reencryptLocalNotes :: "ctxt \<Rightarrow> string \<Rightarrow> string \<Rightarrow> unit action" where
  "reencryptLocalNotes cx previousMaterial nextMaterial =
     (if previousMaterial = nextMaterial then ret ()
      else
        bnd (asks cl_notes) (\<lambda>ns.
        seq (bnd (before_after cx (reencrypt_note_action cx previousMaterial nextMaterial) ns) (saveNoteEncryptionChanges cx))
        (bnd (asks cl_snapshots) (\<lambda>ss.
        seq (bnd (before_after cx (reencrypt_note_action cx previousMaterial nextMaterial) ss) saveNoteSnapshotEncryptionChanges)
        (bnd (asks cl_notebooks) (\<lambda>nbs.
        seq (bnd (before_after cx (reencrypt_notebook_action cx previousMaterial nextMaterial) nbs) (saveNotebookEncryptionChanges cx))
        (seq (reencryptLocalConflicts cx previousMaterial nextMaterial) markEncryptionAuditCurrent)))))))"

definition preflightReencryptLocalNotes :: "ctxt \<Rightarrow> string \<Rightarrow> string \<Rightarrow> unit action" where
  "preflightReencryptLocalNotes cx previousMaterial nextMaterial =
     bnd (asks (\<lambda>c. (cl_notes c, cl_snapshots c, cl_notebooks c, cl_conflicts c, known_conflicts c))) (\<lambda>(ns, ss, nbs, lcs, known).
       seq (assertNotesDoNotNeedLegacyMigration ns)
      (seq (assertNotesDoNotNeedLegacyMigration ss)
      (seq (assertNotebooksDoNotNeedLegacyMigration nbs)
      (seq (for_each assertConflictDoesNotNeedLegacyMigration lcs)
      (seq (map_each (reencrypt_note_action cx previousMaterial nextMaterial) ns)
      (seq (map_each (reencrypt_note_action cx previousMaterial nextMaterial) ss)
      (seq (map_each (reencrypt_notebook_action cx previousMaterial nextMaterial) nbs)
      (seq (map_each (reencrypt_conflict_action cx previousMaterial nextMaterial) known) (ret ())))))))))"

section \<open>The owner of the local data\<close>

definition normalizeAccountUsername :: "string \<Rightarrow> string" where
  "normalizeAccountUsername username = to_lower (trim username)"

definition localWorkspaceHasUserData :: "client \<Rightarrow> bool" where
  "localWorkspaceHasUserData c \<longleftrightarrow>
     0 < length (cl_notes c) + length (cl_notebooks c) + length (cl_snapshots c) + length (cl_conflicts c)"

definition localWorkspaceHasUnsyncedUserData :: "client \<Rightarrow> bool" where
  "localWorkspaceHasUnsyncedUserData c \<longleftrightarrow>
     cl_snapshots c \<noteq> [] \<or> (\<exists>n \<in> set (cl_notes c). n_syncStatus n \<noteq> Synced) \<or>
     (\<exists>nb \<in> set (cl_notebooks c). nb_syncStatus nb \<noteq> Synced) \<or>
     (\<exists>lc \<in> set (cl_conflicts c). lc_status lc \<noteq> Resolved_conflict)"

definition rememberLocalWorkspaceAccount :: "string \<Rightarrow> unit action" where
  "rememberLocalWorkspaceAccount username =
     (if \<not> truthy (normalizeAccountUsername username) then ret ()
      else putMeta LOCAL_WORKSPACE_OWNER_KEY (normalizeAccountUsername username))"

definition localWorkspaceNeedsAccountUnlock :: "browser \<Rightarrow> client \<Rightarrow> bool" where
  "localWorkspaceNeedsAccountUnlock b c \<longleftrightarrow>
     \<not> hasStoredEncryptionKeyMaterial b \<and>
     truthy_opt (map_option trim (getMeta LOCAL_WORKSPACE_OWNER_KEY c)) \<and> localWorkspaceHasUserData c"

definition localWorkspaceOwnerConflict :: "string \<Rightarrow> string option \<Rightarrow> client \<Rightarrow> string option" where
  "localWorkspaceOwnerConflict username fallbackOwnerUsername c =
     (let storedOwner = getMeta LOCAL_WORKSPACE_OWNER_KEY c;
          fallbackOwner = (if truthy_opt fallbackOwnerUsername
            then Some (normalizeAccountUsername (or_empty fallbackOwnerUsername)) else None);
          currentOwner = (case storedOwner of Some o1 \<Rightarrow> Some o1 | None \<Rightarrow> fallbackOwner)
      in if truthy_opt currentOwner \<and> currentOwner \<noteq> Some (normalizeAccountUsername username) \<and> localWorkspaceHasUserData c
         then currentOwner else None)"

definition assertLocalWorkspaceCanUseAccount :: "string \<Rightarrow> string option \<Rightarrow> unit action" where
  "assertLocalWorkspaceCanUseAccount username fallbackOwnerUsername =
     bnd (asks (localWorkspaceOwnerConflict username fallbackOwnerUsername)) (\<lambda>owner.
       case owner of
         None \<Rightarrow> ret ()
       | Some o1 \<Rightarrow> bnd (asks localWorkspaceHasUnsyncedUserData) (\<lambda>unsynced_data.
           if unsynced_data then raise (Workspace_belongs_to o1) else ret ()))"

definition clearLocalWorkspace :: "unit action" where
  "clearLocalWorkspace = modify (\<lambda>c. c\<lparr>cl_notes := [], cl_notebooks := [], cl_snapshots := [], cl_devices := [],
     cl_meta := [], cl_conflicts := []\<rparr>)"

definition prepareLocalWorkspaceForAccount :: "string \<Rightarrow> string option \<Rightarrow> (bool \<times> string option) action" where
  "prepareLocalWorkspaceForAccount username fallbackOwnerUsername =
     bnd (asks (localWorkspaceOwnerConflict username fallbackOwnerUsername)) (\<lambda>owner.
       case owner of
         None \<Rightarrow> ret (False, None)
       | Some o1 \<Rightarrow> seq (assertLocalWorkspaceCanUseAccount username fallbackOwnerUsername)
           (seq clearLocalWorkspace (ret (True, Some o1))))"

definition preflightLocalWorkspaceAdoption :: "ctxt \<Rightarrow> string \<Rightarrow> string \<Rightarrow> string action" where
  "preflightLocalWorkspaceAdoption cx previousMaterial nextMaterial = (\<lambda>c.
     case preflightReencryptLocalNotes cx previousMaterial nextMaterial c of
       (Inr _, c') \<Rightarrow> (Inr previousMaterial, c')
     | (Inl e, c') \<Rightarrow>
         if previousMaterial \<noteq> nextMaterial \<and> e = Decrypt_failed
         then seq (preflightReencryptLocalNotes cx nextMaterial nextMaterial) (ret nextMaterial) c'
         else (Inl e, c'))"

definition adoptLocalWorkspaceForAccount :: "ctxt \<Rightarrow> string \<Rightarrow> string option \<Rightarrow> string \<Rightarrow> string \<Rightarrow> unit action" where
  "adoptLocalWorkspaceForAccount cx username fallbackOwnerUsername previousMaterial nextMaterial =
     seq (assertLocalWorkspaceCanUseAccount username fallbackOwnerUsername)
     (bnd (preflightLocalWorkspaceAdoption cx previousMaterial nextMaterial) (\<lambda>adopted.
      seq (reencryptLocalNotes cx adopted nextMaterial)
        (rememberLocalWorkspaceAccount (normalizeAccountUsername username))))"

end
