(* ===== verification/Lease.thy ===== *)
theory Lease
  imports ClientDb
begin

text \<open>
  The sync lease in the local database (\<open>tryAcquireSyncLease\<close>, \<open>refreshSyncLease\<close>,
  \<open>releaseSyncLease\<close>, \<open>assertActiveSyncLease\<close> of \<open>apps/web/src/lib/client/sync.ts\<close>): where the browser
  has no lock manager, one entry of \<open>syncMeta\<close> names the tab that synchronises and until when. Each of
  the three operations is a transaction, so tabs interleave between them only.

  The locale \<open>lease\<close> is the contract of such a cell, with the consequences a holder relies on; it is
  interpreted on the operations of the source.
\<close>

section \<open>The contract\<close>

datatype lease_op = Try_acquire string | Do_refresh string | Do_release string

fun lease_actor :: "lease_op \<Rightarrow> string" where
  "lease_actor (Try_acquire a) = a"
| "lease_actor (Do_refresh a) = a"
| "lease_actor (Do_release a) = a"

text \<open>One operation at a time of the clock, over the three functions of a cell.\<close>

fun lease_step ::
  "(string \<Rightarrow> int \<Rightarrow> 'c \<Rightarrow> bool \<times> 'c) \<Rightarrow> (string \<Rightarrow> int \<Rightarrow> 'c \<Rightarrow> 'c) \<Rightarrow> (string \<Rightarrow> 'c \<Rightarrow> 'c) \<Rightarrow> lease_op \<times> int \<Rightarrow> 'c \<Rightarrow> 'c" where
  "lease_step acquire refresh release (Try_acquire a, t) c = snd (acquire a t c)"
| "lease_step acquire refresh release (Do_refresh a, t) c = refresh a t c"
| "lease_step acquire refresh release (Do_release a, t) c = release a c"

locale lease =
  fixes holds :: "'c \<Rightarrow> int \<Rightarrow> string \<Rightarrow> bool"
    and acquire :: "string \<Rightarrow> int \<Rightarrow> 'c \<Rightarrow> bool \<times> 'c"
    and refresh :: "string \<Rightarrow> int \<Rightarrow> 'c \<Rightarrow> 'c"
    and release :: "string \<Rightarrow> 'c \<Rightarrow> 'c"
    and ttl :: int
  assumes ttl_pos: "0 < ttl"
    and one_holder: "holds c t a \<Longrightarrow> holds c t b \<Longrightarrow> a = b"
    and refused: "holds c t a \<Longrightarrow> a \<noteq> b \<Longrightarrow> acquire b t c = (False, c)"
    and granted: "acquire a t c = (True, c') \<Longrightarrow> t' < t + ttl \<Longrightarrow> holds c' t' a"
    and others_refresh: "holds c t a \<Longrightarrow> a \<noteq> b \<Longrightarrow> refresh b t' c = c"
    and others_release: "holds c t a \<Longrightarrow> a \<noteq> b \<Longrightarrow> release b c = c"
    and prolonged: "holds c t a \<Longrightarrow> t' < t + ttl \<Longrightarrow> holds (refresh a t c) t' a"
begin

abbreviation step :: "lease_op \<times> int \<Rightarrow> 'c \<Rightarrow> 'c" where
  "step \<equiv> lease_step acquire refresh release"

text \<open>While a lease runs, nothing the others do changes the cell.\<close>

lemma undisturbed_step: "holds c t a \<Longrightarrow> lease_actor op \<noteq> a \<Longrightarrow> step (op, t) c = c"
  by (cases op) (auto simp: refused others_refresh others_release)

lemma undisturbed: "\<forall>x \<in> set ops. lease_actor (fst x) \<noteq> a \<and> holds c (snd x) a \<Longrightarrow> fold step ops c = c"
proof (induction ops)
  case Nil
  then show ?case by simp
next
  case (Cons x ops)
  have "step (fst x, snd x) c = c" using Cons.prems undisturbed_step [of c "snd x" a "fst x"] by simp
  then show ?case using Cons by simp
qed

lemma exclusive_after_grant:
  assumes g: "acquire a t c = (True, c')"
    and ops: "\<forall>x \<in> set ops. lease_actor (fst x) \<noteq> a \<and> snd x < t + ttl" and t1: "t1 < t + ttl"
  shows "fold step ops c' = c'" "holds c' t1 a" "b \<noteq> a \<Longrightarrow> \<not> holds c' t1 b" "b \<noteq> a \<Longrightarrow> acquire b t1 c' = (False, c')"
proof -
  have h: "holds c' t' a" if "t' < t + ttl" for t' using granted [OF g that] .
  show "fold step ops c' = c'" by (rule undisturbed) (use ops h in auto)
  show "holds c' t1 a" by (rule h [OF t1])
  show "b \<noteq> a \<Longrightarrow> \<not> holds c' t1 b" using one_holder [OF h [OF t1]] by auto
  show "b \<noteq> a \<Longrightarrow> acquire b t1 c' = (False, c')" using refused [OF h [OF t1]] by auto
qed

end

section \<open>The lease of \<open>sync.ts\<close>\<close>

definition SYNC_LOCK_STORAGE_KEY :: string where
  "SYNC_LOCK_STORAGE_KEY = ''author-sync-lock-v2''"

definition SYNC_LOCK_TTL_MS :: int where
  "SYNC_LOCK_TTL_MS = 60000"

record sync_lease =
  sl_owner :: string
  sl_expiresAt :: int

definition parseSyncLease :: "string option \<Rightarrow> sync_lease option" where
  "parseSyncLease v =
     (if \<not> truthy_opt v then None
      else case parse_json (or_empty v) of
        None \<Rightarrow> None
      | Some j \<Rightarrow>
          (case (get_prop j ''owner'', get_prop j ''expiresAt'') of
             (Some (JStr a), Some (JNum t)) \<Rightarrow> Some \<lparr>sl_owner = a, sl_expiresAt = t\<rparr>
           | _ \<Rightarrow> None))"

definition lease_text :: "string \<Rightarrow> int \<Rightarrow> string" where
  "lease_text a t = stringify (JObj [(''owner'', JStr a), (''expiresAt'', JNum t)])"

text \<open>The three transactions, as functions of the stored value and of the time they read.\<close>

definition acquire_cell :: "string \<Rightarrow> int \<Rightarrow> string option \<Rightarrow> bool \<times> string option" where
  "acquire_cell a now v =
     (case parseSyncLease v of
        Some l \<Rightarrow> if sl_owner l \<noteq> a \<and> now < sl_expiresAt l then (False, v)
                  else (True, Some (lease_text a (now + SYNC_LOCK_TTL_MS)))
      | None \<Rightarrow> (True, Some (lease_text a (now + SYNC_LOCK_TTL_MS))))"

definition refresh_cell :: "string \<Rightarrow> int \<Rightarrow> string option \<Rightarrow> string option" where
  "refresh_cell a now v =
     (if map_option sl_owner (parseSyncLease v) \<noteq> Some a then v else Some (lease_text a (now + SYNC_LOCK_TTL_MS)))"

definition release_cell :: "string \<Rightarrow> string option \<Rightarrow> string option" where
  "release_cell a v = (if map_option sl_owner (parseSyncLease v) = Some a then None else v)"

definition lease_held :: "string option \<Rightarrow> int \<Rightarrow> string \<Rightarrow> bool" where
  "lease_held v now a \<longleftrightarrow>
     (case parseSyncLease v of Some l \<Rightarrow> sl_owner l = a \<and> now < sl_expiresAt l | None \<Rightarrow> False)"

definition lease_cell :: "client \<Rightarrow> string option" where
  "lease_cell c = map_option sm_value (tget sm_key SYNC_LOCK_STORAGE_KEY (cl_meta c))"

definition set_lease_cell :: "string option \<Rightarrow> client \<Rightarrow> client" where
  "set_lease_cell v c =
     (case v of
        Some s \<Rightarrow> c\<lparr>cl_meta := tput sm_key \<lparr>sm_key = SYNC_LOCK_STORAGE_KEY, sm_value = s\<rparr> (cl_meta c)\<rparr>
      | None \<Rightarrow> c\<lparr>cl_meta := tdel sm_key SYNC_LOCK_STORAGE_KEY (cl_meta c)\<rparr>)"

text \<open>\<open>Date.now()\<close>.\<close>

definition clock_action :: "ctxt \<Rightarrow> int action" where
  "clock_action cx = effect (\<lambda>fx. (clock (cx_env cx) (f_ticks fx), fx\<lparr>f_ticks := Suc (f_ticks fx)\<rparr>))"

definition tryAcquireSyncLease :: "ctxt \<Rightarrow> string \<Rightarrow> bool action" where
  "tryAcquireSyncLease cx owner =
     bnd (clock_action cx) (\<lambda>now.
     bnd (asks lease_cell) (\<lambda>v.
       let (ok, v') = acquire_cell owner now v
       in if ok then seq (modify (set_lease_cell v')) (ret True) else ret False))"

definition refreshSyncLease :: "ctxt \<Rightarrow> string \<Rightarrow> unit action" where
  "refreshSyncLease cx owner =
     bnd (clock_action cx) (\<lambda>now.
     bnd (asks lease_cell) (\<lambda>v.
       if map_option sl_owner (parseSyncLease v) \<noteq> Some owner then ret ()
       else modify (set_lease_cell (refresh_cell owner now v))))"

definition releaseSyncLease :: "string \<Rightarrow> unit action" where
  "releaseSyncLease owner =
     bnd (asks lease_cell) (\<lambda>v.
       if map_option sl_owner (parseSyncLease v) = Some owner then modify (set_lease_cell (release_cell owner v)) else ret ())"

text \<open>\<open>activeFallbackLeaseOwner\<close> is the argument: \<open>null\<close> when the lock manager of the browser is used.\<close>

definition assertActiveSyncLease :: "ctxt \<Rightarrow> string option \<Rightarrow> unit action" where
  "assertActiveSyncLease cx activeOwner =
     (if \<not> truthy_opt activeOwner then ret ()
      else bnd (asks lease_cell) (\<lambda>v.
        bnd (clock_action cx) (\<lambda>now.
          if lease_held v now (or_empty activeOwner) then ret () else raise Lease_lost)))"

lemma parse_lease_text: "parseSyncLease (Some (lease_text a t)) = Some \<lparr>sl_owner = a, sl_expiresAt = t\<rparr>"
proof -
  have "parse_json (lease_text a t) = Some (JObj [(''owner'', JStr a), (''expiresAt'', JNum t)])"
    unfolding lease_text_def by (rule json_round_trip) simp
  moreover have "truthy (lease_text a t)" by (simp add: lease_text_def json_object_def)
  ultimately show ?thesis by (simp add: parseSyncLease_def)
qed

interpretation sync_lease: lease lease_held acquire_cell refresh_cell release_cell SYNC_LOCK_TTL_MS
proof unfold_locales
  show "0 < SYNC_LOCK_TTL_MS" by (simp add: SYNC_LOCK_TTL_MS_def)
qed (auto simp: lease_held_def acquire_cell_def refresh_cell_def release_cell_def parse_lease_text split: option.splits if_splits)

end
