(* ===== verification/ClientSync.thy ===== *)
theory ClientSync
  imports ClientReencrypt Lease
begin

text \<open>
  A synchronisation run (\<open>apps/web/src/lib/client/sync.ts\<close>): pending records are repaired and pushed
  in batches, the answers are applied, then the change log is pulled page by page. The state is the
  client with a server behind an interface, the record \<open>api\<close>: what \<open>pushSyncChanges\<close> and
  \<open>pullSyncChanges\<close> answer is a parameter here; theory \<open>Acknowledge\<close> takes the answers of the modelled server.
  Other code may run while a request is under way (\<open>await\<close>). Progress callbacks and the debug log are
  left out. The heartbeat that refreshes the lease belongs to the other code.
\<close>

section \<open>The two sides\<close>

record pull_request =
  rq_since :: "string option"
  rq_sinceRevision :: int
  rq_limit :: int

record 'srv api =
  ap_push :: "push_request \<Rightarrow> 'srv \<Rightarrow> (client_error + push_response) \<times> 'srv"
  ap_pull :: "pull_request \<Rightarrow> 'srv \<Rightarrow> (client_error + pull_response) \<times> 'srv"

record 'srv world =
  w_client :: client
  w_server :: 'srv

type_synonym ('srv, 'a) job = "(client_error, 'srv world, 'a) act"

definition on_client :: "'a action \<Rightarrow> ('srv, 'a) job" where
  "on_client m = (\<lambda>w. let (r, c) = m (w_client w) in (r, w\<lparr>w_client := c\<rparr>))"

definition on_server :: "('srv \<Rightarrow> (client_error + 'a) \<times> 'srv) \<Rightarrow> ('srv, 'a) job" where
  "on_server m = (\<lambda>w. let (r, s) = m (w_server w) in (r, w\<lparr>w_server := s\<rparr>))"

section \<open>Pending records\<close>

definition PUSH_BATCH_SIZE :: nat where
  "PUSH_BATCH_SIZE = 20"

definition PULL_BATCH_SIZE :: int where
  "PULL_BATCH_SIZE = 1000"

definition LAST_PUSHED_DEVICE_SIGNATURE_KEY :: string where
  "LAST_PUSHED_DEVICE_SIGNATURE_KEY = ''lastPushedDeviceSignature''"

definition pendingNotebookIds :: "LocalNote \<Rightarrow> string list" where
  "pendingNotebookIds n =
     (let ids = dedupe (filter truthy (map trim (n_notebookIds n)))
      in if ids \<noteq> [] then ids
         else let i = trim (or_empty (n_notebookId n)) in if truthy i then [i] else [])"

definition preparePendingNote :: "Device \<Rightarrow> LocalNote \<Rightarrow> LocalNote" where
  "preparePendingNote d n =
     n\<lparr>n_notebookIds := pendingNotebookIds n, n_notebookId := first_or_null (pendingNotebookIds n), n_deviceId := d_id d,
       n_version := safePendingVersion (n_version n) (ln_lastSyncedVersion n), n_syncStatus := Pending,
       ln_lastSyncedVersion := safeBaseVersion (ln_lastSyncedVersion n)\<rparr>"

definition preparePendingNotebook :: "Device \<Rightarrow> LocalNotebook \<Rightarrow> LocalNotebook" where
  "preparePendingNotebook d n =
     n\<lparr>nb_deviceId := d_id d, nb_version := safePendingVersion (nb_version n) (lnb_lastSyncedVersion n),
       nb_syncStatus := Pending, lnb_lastSyncedVersion := safeBaseVersion (lnb_lastSyncedVersion n)\<rparr>"

definition noteNeedsRepair :: "LocalNote \<Rightarrow> LocalNote \<Rightarrow> bool" where
  "noteNeedsRepair before after \<longleftrightarrow>
     n_deviceId before \<noteq> n_deviceId after \<or> n_version before \<noteq> n_version after \<or>
     n_syncStatus before \<noteq> n_syncStatus after \<or> ln_lastSyncedVersion before \<noteq> ln_lastSyncedVersion after \<or>
     ln_lastSyncedAt before \<noteq> ln_lastSyncedAt after \<or> n_deletedAt before \<noteq> n_deletedAt after \<or>
     n_trashedAt before \<noteq> n_trashedAt after \<or> n_isFavorite before \<noteq> n_isFavorite after \<or>
     n_notebookId before \<noteq> n_notebookId after \<or> join nul (n_notebookIds before) \<noteq> join nul (n_notebookIds after)"

definition notebookNeedsRepair :: "LocalNotebook \<Rightarrow> LocalNotebook \<Rightarrow> bool" where
  "notebookNeedsRepair before after \<longleftrightarrow>
     nb_deviceId before \<noteq> nb_deviceId after \<or> nb_version before \<noteq> nb_version after \<or>
     nb_syncStatus before \<noteq> nb_syncStatus after \<or> lnb_lastSyncedVersion before \<noteq> lnb_lastSyncedVersion after \<or>
     lnb_lastSyncedAt before \<noteq> lnb_lastSyncedAt after \<or> nb_deletedAt before \<noteq> nb_deletedAt after"

definition deviceSignature :: "Device \<Rightarrow> string" where
  "deviceSignature d = d_id d @ nul @ d_name d"

definition isLocalOnlyDeleted :: "string option \<Rightarrow> int \<Rightarrow> bool" where
  "isLocalOnlyDeleted deletedAt lastSynced \<longleftrightarrow> safeBaseVersion lastSynced = 0 \<and> truthy_opt deletedAt"

definition rememberPushedDevice :: "Device \<Rightarrow> unit action" where
  "rememberPushedDevice d = putMeta LAST_PUSHED_DEVICE_SIGNATURE_KEY (deviceSignature d)"

text \<open>Records that never reached the server and are deleted again go; the others are prepared and repaired in place.\<close>

definition note_dropped :: "LocalNote \<Rightarrow> bool" where
  "note_dropped n \<longleftrightarrow> isLocalOnlyDeleted (n_deletedAt n) (ln_lastSyncedVersion n)"

definition notebook_dropped :: "LocalNotebook \<Rightarrow> bool" where
  "notebook_dropped n \<longleftrightarrow> isLocalOnlyDeleted (nb_deletedAt n) (lnb_lastSyncedVersion n)"

definition collectPending :: "Device \<Rightarrow> (LocalNote list \<times> LocalNotebook list) action" where
  "collectPending d = (\<lambda>c.
     let ns = filter (\<lambda>n. n_syncStatus n = Pending) (cl_notes c);
         nbs = filter (\<lambda>n. nb_syncStatus n = Pending) (cl_notebooks c);
         syncableNotes = filter (\<lambda>n. \<not> note_dropped n) ns;
         syncableNotebooks = filter (\<lambda>n. \<not> notebook_dropped n) nbs;
         repairedNotes = filter (\<lambda>n. noteNeedsRepair n (preparePendingNote d n)) syncableNotes;
         repairedNotebooks = filter (\<lambda>n. notebookNeedsRepair n (preparePendingNotebook d n)) syncableNotebooks
     in (Inr (map (preparePendingNote d) syncableNotes, map (preparePendingNotebook d) syncableNotebooks),
         c\<lparr>cl_notes := fold (tput n_id) (map (preparePendingNote d) repairedNotes)
             (fold (tdel n_id) (map n_id (filter note_dropped ns)) (cl_notes c)),
           cl_notebooks := fold (tput nb_id) (map (preparePendingNotebook d) repairedNotebooks)
             (fold (tdel nb_id) (map nb_id (filter notebook_dropped nbs)) (cl_notebooks c))\<rparr>))"

section \<open>Pushing\<close>

text \<open>Twenty records at a time, notebooks before notes.\<close>

function push_batches :: "'n list \<Rightarrow> 'b list \<Rightarrow> ('n list \<times> 'b list) list" where
  "push_batches ns nbs =
     (if ns = [] \<and> nbs = [] then []
      else let b = take PUSH_BATCH_SIZE nbs; slots = PUSH_BATCH_SIZE - length b
           in (take slots ns, b) # push_batches (drop slots ns) (drop PUSH_BATCH_SIZE nbs))"
  by pat_completeness auto
termination
  by (relation "measure (\<lambda>(ns, nbs). length ns + length nbs)") (auto simp: PUSH_BATCH_SIZE_def, (case_tac ns; case_tac nbs; simp)+)

declare push_batches.simps [simp del]

definition note_change :: "LocalNote \<Rightarrow> Note entity_change" where
  "note_change n = \<lparr>c_record = Note.truncate n, c_baseVersion = ln_lastSyncedVersion n\<rparr>"

definition notebook_change :: "LocalNotebook \<Rightarrow> Notebook entity_change" where
  "notebook_change n = \<lparr>c_record = Notebook.truncate n, c_baseVersion = lnb_lastSyncedVersion n\<rparr>"

definition push_payload :: "Device \<Rightarrow> LocalNote list \<times> LocalNotebook list \<Rightarrow> push_request" where
  "push_payload d b = \<lparr>pr_device = d, pr_notes = map note_change (fst b), pr_notebooks = map notebook_change (snd b)\<rparr>"

text \<open>The list of pushed stamps given to \<open>markAcceptedChanges\<close>.\<close>

definition pushed_stamps :: "push_request \<Rightarrow> accepted_change list" where
  "pushed_stamps p =
     map (\<lambda>ch. \<lparr>ac_entityType = Note_entity, ac_id = n_id (c_record ch), ac_version = n_version (c_record ch),
                ac_updatedAt = n_updatedAt (c_record ch)\<rparr>) (pr_notes p) @
     map (\<lambda>ch. \<lparr>ac_entityType = Notebook_entity, ac_id = nb_id (c_record ch), ac_version = nb_version (c_record ch),
                ac_updatedAt = nb_updatedAt (c_record ch)\<rparr>) (pr_notebooks p)"

fun pushed_stamp :: "push_request \<Rightarrow> any_conflict \<Rightarrow> (int \<times> string) option" where
  "pushed_stamp p (NoteConflict cf) =
     map_option (\<lambda>ch. (n_version (c_record ch), n_updatedAt (c_record ch)))
       (find (\<lambda>ch. n_id (c_record ch) = sc_entityId cf) (pr_notes p))"
| "pushed_stamp p (NotebookConflict cf) =
     map_option (\<lambda>ch. (nb_version (c_record ch), nb_updatedAt (c_record ch)))
       (find (\<lambda>ch. nb_id (c_record ch) = sc_entityId cf) (pr_notebooks p))"

definition handleConflict :: "ctxt \<Rightarrow> push_request \<Rightarrow> string \<Rightarrow> any_conflict \<Rightarrow> nat action" where
  "handleConflict cx p serverTime conf =
     bnd (absorbSameDevicePushConflict cx conf serverTime) (\<lambda>absorbed.
       if absorbed then ret 0 else seq (saveConflict cx conf (pushed_stamp p conf)) (ret 1))"

definition applyPushResponse :: "ctxt \<Rightarrow> Device \<Rightarrow> push_request \<Rightarrow> push_response \<Rightarrow> nat action" where
  "applyPushResponse cx d p resp =
     seq (rememberPushedDevice d)
     (seq (markAcceptedChanges (ps_accepted resp) (ps_serverTime resp) (pushed_stamps p))
     (bnd (map_each (handleConflict cx p (ps_serverTime resp)) (ps_conflicts resp)) (\<lambda>counts. ret (sum_list counts))))"

text \<open>A request between two checks of the lease; other code runs while it is under way.\<close>

definition leased :: "ctxt \<Rightarrow> string option \<Rightarrow> ('srv, 'a) job \<Rightarrow> ('srv, 'a) job" where
  "leased cx activeOwner request =
     seq (on_client (assertActiveSyncLease cx activeOwner))
     (bnd request (\<lambda>resp. seq (on_client (await cx)) (seq (on_client (assertActiveSyncLease cx activeOwner)) (ret resp))))"

definition pushBatch ::
  "ctxt \<Rightarrow> 'srv api \<Rightarrow> string option \<Rightarrow> Device \<Rightarrow> LocalNote list \<times> LocalNotebook list \<Rightarrow> ('srv, nat) job" where
  "pushBatch cx api activeOwner d b =
     (let p = push_payload d b
      in bnd (leased cx activeOwner (on_server (ap_push api p))) (\<lambda>resp. on_client (applyPushResponse cx d p resp)))"

definition pushDeviceOnly :: "ctxt \<Rightarrow> 'srv api \<Rightarrow> string option \<Rightarrow> Device \<Rightarrow> ('srv, unit) job" where
  "pushDeviceOnly cx api activeOwner d =
     bnd (on_client (asks (getMeta LAST_PUSHED_DEVICE_SIGNATURE_KEY))) (\<lambda>stored.
       if or_empty stored \<noteq> deviceSignature d
       then seq (leased cx activeOwner (on_server (ap_push api \<lparr>pr_device = d, pr_notes = [], pr_notebooks = []\<rparr>)))
              (on_client (rememberPushedDevice d))
       else ret ())"

text \<open>The whole push phase: how many records were pushed, and how many conflicts were stored.\<close>

definition pushPending ::
  "ctxt \<Rightarrow> 'srv api \<Rightarrow> string option \<Rightarrow> Device \<Rightarrow> LocalNote list \<times> LocalNotebook list \<Rightarrow> ('srv, nat \<times> nat) job" where
  "pushPending cx api activeOwner d pending =
     seq (if fst pending = [] \<and> snd pending = [] then pushDeviceOnly cx api activeOwner d else ret ())
     (bnd (map_each (pushBatch cx api activeOwner d) (push_batches (fst pending) (snd pending))) (\<lambda>conflicts.
        ret (length (fst pending) + length (snd pending), sum_list conflicts)))"

section \<open>Pulling\<close>

text \<open>
  \<open>Number(value)\<close> for the values the code stores, which are decimal integers; any other text counts
  as no safe integer.
\<close>

definition number_of_text :: "string \<Rightarrow> int option" where
  "number_of_text s =
     (let (neg, t) = (case s of x # r \<Rightarrow> if x = CHR ''-'' then (True, r) else (False, s) | [] \<Rightarrow> (False, s))
      in if t \<noteq> [] \<and> (\<forall>x \<in> set t. is_digit x) then Some ((if neg then - 1 else 1) * int (nat_of_digits t)) else None)"

definition storedPullRevision :: "client \<Rightarrow> int" where
  "storedPullRevision c =
     (case Option.bind (getMeta ''lastPulledRevision'' c) number_of_text of
        Some r \<Rightarrow> if is_safe_integer r \<and> 0 \<le> r then r else 0
      | None \<Rightarrow> 0)"

definition pull_size :: "pull_response \<Rightarrow> nat" where
  "pull_size r = length (pl_notes r) + length (pl_notebooks r) + length (pl_deletedNoteIds r) + length (pl_deletedNotebookIds r)"

definition applyPullResponse :: "ctxt \<Rightarrow> pull_response \<Rightarrow> int \<Rightarrow> unit action" where
  "applyPullResponse cx r nextPullCursor =
     seq (saveDevices (pl_devices r))
     (bnd (applyRemoteDeletes (pl_deletedNoteIds r) (pl_deletedNotebookIds r) (pl_deletedDeviceIds r)) (\<lambda>gone.
      seq (mergeRemoteChanges cx (pl_notes r) (pl_notebooks r) (pl_serverTime r))
     (seq (removeDeletedNotebookReferences cx gone (pl_serverTime r))
     (seq (putMeta ''lastPulledAt'' (pl_serverTime r))
       (putMeta ''lastPulledRevision'' (int_to_string nextPullCursor))))))"

definition reset_pull_cursor :: "client \<Rightarrow> client" where
  "reset_pull_cursor c =
     c\<lparr>cl_meta := tdel sm_key ''lastPulledAt''
         (tput sm_key \<lparr>sm_key = ''lastPulledRevision'', sm_value = ''0''\<rparr> (cl_meta c))\<rparr>"

definition pullRequest :: "ctxt \<Rightarrow> 'srv api \<Rightarrow> string option \<Rightarrow> string option \<Rightarrow> int \<Rightarrow> ('srv, pull_response) job" where
  "pullRequest cx api activeOwner lastPulledAt cursor =
     leased cx activeOwner (on_server (ap_pull api
       \<lparr>rq_since = lastPulledAt, rq_sinceRevision = cursor, rq_limit = PULL_BATCH_SIZE\<rparr>))"

definition pull_measure :: "bool \<Rightarrow> int \<Rightarrow> nat" where
  "pull_measure wasReset cursor = (if wasReset then 0 else Suc (nat (2 ^ 53))) + nat (2 ^ 53 - cursor)"

lemma pull_measure_reset: "pull_measure True 0 < pull_measure False cursor"
  by (simp add: pull_measure_def)

lemma pull_measure_advance:
  assumes "safeRevisionCursor s cursor True = Inr c"
  shows "pull_measure b c < pull_measure b cursor"
proof -
  have "cursor < c" "c \<le> 2 ^ 53 - 1"
    using assms by (auto simp: safeRevisionCursor_Inr is_safe_integer_def max_safe_integer_def)
  then have "nat (2 ^ 53 - c) < nat (2 ^ 53 - cursor)" by simp
  then show ?thesis by (simp add: pull_measure_def)
qed

text \<open>
  The loop ends whatever the server answers: the cursor is reset at most once, and a page with more to
  come must move it forward within the safe integers.
\<close>

function pull_loop ::
  "ctxt \<Rightarrow> 'srv api \<Rightarrow> string option \<Rightarrow> bool \<Rightarrow> string option \<Rightarrow> int \<Rightarrow> nat \<Rightarrow> 'srv world \<Rightarrow> (client_error + nat) \<times> 'srv world" where
  "pull_loop cx api activeOwner wasReset lastPulledAt cursor pulled w =
     (case pullRequest cx api activeOwner lastPulledAt cursor w of
        (Inl e, w1) \<Rightarrow> (Inl e, w1)
      | (Inr resp, w1) \<Rightarrow>
          if pl_serverRevision resp < cursor \<and> \<not> wasReset
          then pull_loop cx api activeOwner True None 0 pulled (w1\<lparr>w_client := reset_pull_cursor (w_client w1)\<rparr>)
          else case safeRevisionCursor (pl_serverRevision resp) cursor (pl_hasMore resp) of
            Inl ce \<Rightarrow> (Inl (Bad_cursor ce), w1)
          | Inr next_cursor \<Rightarrow>
              (case on_client (applyPullResponse cx resp next_cursor) w1 of
                 (Inl e, w2) \<Rightarrow> (Inl e, w2)
               | (Inr _, w2) \<Rightarrow>
                   if pl_hasMore resp
                   then pull_loop cx api activeOwner wasReset (Some (pl_serverTime resp)) next_cursor (pulled + pull_size resp) w2
                   else (Inr (pulled + pull_size resp), w2)))"
  by pat_completeness auto

termination
  by (relation "measure (\<lambda>(cx, api, a, wasReset, t, cursor, pulled, w). pull_measure wasReset cursor)")
    (auto simp: pull_measure_reset intro: pull_measure_advance)

declare pull_loop.simps [simp del]

section \<open>The run\<close>

record sync_result =
  sy_pushed :: nat
  sy_pulled :: nat
  sy_conflicts :: nat

definition preparePush :: "ctxt \<Rightarrow> browser \<Rightarrow> Device action" where
  "preparePush cx b =
     (if \<not> hasStoredEncryptionKeyMaterial b then raise Sign_in_again
      else bnd (getOrCreateDevice cx) (\<lambda>d.
        seq (ensureLocalNotesEncrypted cx)
        (bnd (now_action cx) (\<lambda>syncedAt.
         seq (repairSameDevicePendingConflicts cx syncedAt) (ret d)))))"

definition runSyncUnlocked :: "ctxt \<Rightarrow> 'srv api \<Rightarrow> browser \<Rightarrow> string option \<Rightarrow> ('srv, sync_result) job" where
  "runSyncUnlocked cx api b activeOwner =
     bnd (on_client (preparePush cx b)) (\<lambda>d.
     bnd (on_client (collectPending d)) (\<lambda>pending.
     bnd (pushPending cx api activeOwner d pending) (\<lambda>(pushed, conflicts).
     bnd (on_client (asks (\<lambda>c. (getMeta ''lastPulledAt'' c, storedPullRevision c)))) (\<lambda>(lastPulledAt, cursor).
     bnd (pull_loop cx api activeOwner False lastPulledAt cursor 0) (\<lambda>pulled.
       ret \<lparr>sy_pushed = pushed, sy_pulled = pulled, sy_conflicts = conflicts\<rparr>)))))"

definition SYNC_LOCK_WAIT_MS :: int where
  "SYNC_LOCK_WAIT_MS = 60000"

text \<open>
  Waiting for the lease. The fuel counts the attempts; \<open>None\<close> means that the tab is still waiting
  when it runs out. The source sets no bound but the clock.
\<close>

primrec acquire_loop :: "nat \<Rightarrow> ctxt \<Rightarrow> string \<Rightarrow> int \<Rightarrow> unit option action" where
  "acquire_loop 0 cx owner waitUntil = ret None"
| "acquire_loop (Suc fuel) cx owner waitUntil =
     bnd (tryAcquireSyncLease cx owner) (\<lambda>ok.
       if ok then ret (Some ())
       else bnd (clock_action cx) (\<lambda>now.
         if waitUntil \<le> now then raise Sync_running_elsewhere
         else seq (await cx) (acquire_loop fuel cx owner waitUntil)))"

definition try_finally :: "('e, 's, 'a) act \<Rightarrow> ('e, 's, unit) act \<Rightarrow> ('e, 's, 'a) act" where
  "try_finally m fin = (\<lambda>s. let (r, s1) = m s; (r2, s2) = fin s1 in (case r2 of Inl e \<Rightarrow> Inl e | Inr _ \<Rightarrow> r, s2))"

definition withStorageSyncLease :: "nat \<Rightarrow> ctxt \<Rightarrow> (string \<Rightarrow> ('srv, 'a) job) \<Rightarrow> ('srv, 'a option) job" where
  "withStorageSyncLease fuel cx operation =
     bnd (on_client (id_action cx)) (\<lambda>owner.
     bnd (on_client (clock_action cx)) (\<lambda>start.
     bnd (on_client (acquire_loop fuel cx owner (start + SYNC_LOCK_WAIT_MS))) (\<lambda>acquired.
       case acquired of
         None \<Rightarrow> ret None
       | Some _ \<Rightarrow> bnd (try_finally (operation owner) (on_client (releaseSyncLease owner))) (\<lambda>x. ret (Some x)))))"

definition runSync :: "nat \<Rightarrow> bool \<Rightarrow> ctxt \<Rightarrow> 'srv api \<Rightarrow> browser \<Rightarrow> ('srv, sync_result option) job" where
  "runSync fuel hasLockManager cx api b =
     (if hasLockManager then bnd (runSyncUnlocked cx api b None) (\<lambda>r. ret (Some r))
      else withStorageSyncLease fuel cx (\<lambda>owner. runSyncUnlocked cx api b (Some owner)))"

end
