(* ===== verification/CopyNames.thy ===== *)
theory CopyNames
  imports ClientStore
begin

text \<open>
  The loop that looks for the name of a notebook copy always finds a free one: the candidates are
  pairwise different after normalisation, and there are more of them than taken names.
\<close>

lemma digit_plain: "is_digit c \<Longrightarrow> lower_char c = c \<and> \<not> js_space c"
  by (auto simp: is_digit_def lower_char_def js_space_def Let_def)

text \<open>The \<open>k\<close>-th candidate.\<close>

definition copy_candidate :: "string \<Rightarrow> nat \<Rightarrow> string" where
  "copy_candidate base k = (if k = 0 then base @ '' copy'' else base @ '' copy '' @ nat_to_string (Suc k))"

lemma copy_name_from_free:
  assumes "\<exists>j < fuel. normalizedNotebookName (copy_candidate base (k + j)) \<notin> set taken"
  shows "normalizedNotebookName (copy_name_from fuel base taken (Suc (Suc k)) (copy_candidate base k)) \<notin> set taken"
  using assms
proof (induction fuel arbitrary: k)
  case 0
  then show ?case by simp
next
  case (Suc fuel)
  show ?case
  proof (cases "normalizedNotebookName (copy_candidate base k) \<in> set taken")
    case False
    then show ?thesis by simp
  next
    case True
    obtain j where j: "j < Suc fuel" "normalizedNotebookName (copy_candidate base (k + j)) \<notin> set taken"
      using Suc.prems by blast
    with True have "j \<noteq> 0" by (metis add.right_neutral)
    then have "\<exists>i < fuel. normalizedNotebookName (copy_candidate base (Suc k + i)) \<notin> set taken"
      using j by (intro exI [of _ "j - 1"]) auto
    from Suc.IH [OF this] True show ?thesis by (simp add: copy_candidate_def)
  qed
qed

lemma candidate_normalized:
  assumes "base \<noteq> []" "\<not> js_space (hd base)"
  shows "normalizedNotebookName (copy_candidate base k) =
    to_lower base @ '' copy'' @ (if k = 0 then [] else CHR '' '' # nat_to_string (Suc k))"
proof (cases "k = 0")
  case True
  have "trim (base @ '' copy'') = base @ '' copy''" by (rule trim_id) (use assms in \<open>auto simp: js_space_def\<close>)
  then show ?thesis using True by (simp add: normalizedNotebookName_def copy_candidate_def to_lower_def lower_char_def)
next
  case False
  have d: "\<forall>c \<in> set (nat_to_string (Suc k)). lower_char c = c \<and> \<not> js_space c"
    using nat_to_string_digits [of "Suc k"] digit_plain by blast
  have "trim (base @ '' copy '' @ nat_to_string (Suc k)) = base @ '' copy '' @ nat_to_string (Suc k)"
    by (rule trim_id) (use assms d in \<open>auto simp: nat_to_string_nonempty\<close>)
  moreover have "map lower_char (nat_to_string (Suc k)) = nat_to_string (Suc k)" using d by (simp add: map_idI)
  ultimately show ?thesis
    using False by (simp add: normalizedNotebookName_def copy_candidate_def to_lower_def lower_char_def)
qed

lemma candidates_differ:
  assumes "base \<noteq> []" "\<not> js_space (hd base)"
  shows "inj (\<lambda>k. normalizedNotebookName (copy_candidate base k))"
proof (rule injI)
  fix k j assume "normalizedNotebookName (copy_candidate base k) = normalizedNotebookName (copy_candidate base j)"
  then have "k = 0 \<longleftrightarrow> j = 0" "k \<noteq> 0 \<Longrightarrow> nat_to_string (Suc k) = nat_to_string (Suc j)"
    by (auto simp: candidate_normalized [OF assms] split: if_splits)
  then show "k = j" by (metis nat_to_string_value nat.inject)
qed

text \<open>
  C29. The name chosen for the copy of a notebook is free: after trimming and lowering it differs from
  the name of every notebook that is neither deleted nor excluded. The search always ends with such a
  name, after at most one candidate more than there are taken names.
\<close>

theorem copy_name_is_free:
  "normalizedNotebookName (notebookCopyName baseName nbs excluded) \<notin> set (taken_names nbs excluded)"
proof -
  define base where "base = or_str (trim baseName) ''Notebook''"
  define taken where "taken = taken_names nbs excluded"
  have b: "base \<noteq> []" "\<not> js_space (hd base)"
    using trim_no_lead [of baseName] by (auto simp: base_def or_str_def truthy_def js_space_def)
  let ?f = "\<lambda>k. normalizedNotebookName (copy_candidate base k)"
  have "\<exists>j < Suc (length taken). ?f (0 + j) \<notin> set taken"
  proof (rule ccontr)
    assume "\<not> ?thesis"
    then have "?f ` {..< Suc (length taken)} \<subseteq> set taken" by auto
    then have "card (?f ` {..< Suc (length taken)}) \<le> length taken"
      by (meson List.finite_set card_length card_mono le_trans)
    moreover have "card (?f ` {..< Suc (length taken)}) = Suc (length taken)"
      using candidates_differ [OF b] by (simp add: card_image inj_on_def inj_def)
    ultimately show False by simp
  qed
  from copy_name_from_free [OF this] show ?thesis
    by (simp add: notebookCopyName_def Let_def base_def [symmetric] taken_def [symmetric] copy_candidate_def numeral_2_eq_2)
qed

end
