(* ===== verification/ListedOps.thy ===== *)
theory ListedOps
  imports ConflictInv ClientSync
begin

text \<open>
  The remaining operations of the client keep the invariant of theory \<open>ConflictInv\<close>: what the user does,
  the preparation of a push, the answers, re-encryption and the change of the account.
\<close>

section \<open>Writes of several rows\<close>

lemma listed_put_notes:
  assumes I: "conflicts_listed e c"
    and m: "\<And>r. r \<in> set rs \<Longrightarrow> n_syncStatus r = Conflict \<Longrightarrow> \<exists>m. storedNote (n_id r) c = Some m \<and> n_syncStatus m = Conflict"
  shows "conflicts_listed e (c\<lparr>cl_notes := fold (tput n_id) rs (cl_notes c)\<rparr>)"
proof (rule listed_notes [OF I])
  show "wf_table n_id (fold (tput n_id) rs (cl_notes c))" by (rule table.wf_fold_put [OF listedD(1) [OF I]])
  fix i n assume g: "tget n_id i (fold (tput n_id) rs (cl_notes c)) = Some n" and n: "n_syncStatus n = Conflict"
  from table.get_fold_put_cases [OF g] show "\<exists>m. storedNote i c = Some m \<and> n_syncStatus m = Conflict"
    using m n tget_key [OF g] by auto
qed

lemma listed_put_notebooks:
  assumes I: "conflicts_listed e c"
    and m: "\<And>r. r \<in> set rs \<Longrightarrow> nb_syncStatus r = Conflict \<Longrightarrow> \<exists>m. storedNotebook (nb_id r) c = Some m \<and> nb_syncStatus m = Conflict"
  shows "conflicts_listed e (c\<lparr>cl_notebooks := fold (tput nb_id) rs (cl_notebooks c)\<rparr>)"
proof (rule listed_notebooks [OF I])
  show "wf_table nb_id (fold (tput nb_id) rs (cl_notebooks c))" by (rule table.wf_fold_put [OF listedD(2) [OF I]])
  fix i n assume g: "tget nb_id i (fold (tput nb_id) rs (cl_notebooks c)) = Some n" and n: "nb_syncStatus n = Conflict"
  from table.get_fold_put_cases [OF g] show "\<exists>m. storedNotebook i c = Some m \<and> nb_syncStatus m = Conflict"
    using m n tget_key [OF g] by auto
qed

lemma listed_del_notes: "conflicts_listed e c \<Longrightarrow> conflicts_listed e (c\<lparr>cl_notes := fold (tdel n_id) is (cl_notes c)\<rparr>)"
proof (induction "is" arbitrary: c)
  case (Cons i "is")
  from Cons.IH [OF listed_del_note [OF Cons.prems, of i]] show ?case by simp
qed simp

lemma listed_del_notebooks:
  "conflicts_listed e c \<Longrightarrow> conflicts_listed e (c\<lparr>cl_notebooks := fold (tdel nb_id) is (cl_notebooks c)\<rparr>)"
proof (induction "is" arbitrary: c)
  case (Cons i "is")
  from Cons.IH [OF listed_del_notebook [OF Cons.prems, of i]] show ?case by simp
qed simp

section \<open>What the user does\<close>

named_theorems listed_rules \<open>operations that keep the invariant\<close>

lemma listed_put [listed_rules]: "n_syncStatus n \<noteq> Conflict \<Longrightarrow> keeps (conflicts_listed e) (putNote n)"
  unfolding putNote_def by (rule keeps_modify) (rule listed_put_note)

lemma listed_put_encrypted [listed_rules]:
  assumes "quiet cx" and "n_syncStatus n \<noteq> Conflict"
  shows "keeps (conflicts_listed e) (put_encrypted_note cx n)"
  unfolding put_encrypted_note_def keeps_leads
  by (rule leads_check_effect_bnd [OF listed_store no_id_encryptNoteFields], unfold keeps_leads [symmetric])
    (use assms in \<open>auto intro!: keeps_intros frame_await listed_store quiet_others_keep listed_put dest!: encryptNoteFieldsD\<close>)

lemma listed_put_encrypted_notebook [listed_rules]:
  assumes "quiet cx" and "nb_syncStatus n \<noteq> Conflict"
  shows "keeps (conflicts_listed e) (put_encrypted_notebook cx n)"
  unfolding put_encrypted_notebook_def keeps_leads
  by (rule leads_check_effect_bnd [OF listed_store no_id_encryptNotebookFields], unfold keeps_leads [symmetric] putNotebook_def)
    (use assms in \<open>auto intro!: keeps_intros frame_await listed_store quiet_others_keep keeps_modify listed_put_notebook
       dest!: encryptNotebookFieldsD\<close>)

lemma listed_frame [listed_rules]:
  "keeps (conflicts_listed e) (getOrCreateDevice cx)" "keeps (conflicts_listed e) (now_action cx)"
  "keeps (conflicts_listed e) (id_action cx)"
  by (intro frame_rules listed_store)+

lemma listed_await [listed_rules]: "quiet cx \<Longrightarrow> keeps (conflicts_listed e) (await cx)"
  by (intro frame_await listed_store quiet_others_keep)

lemma listed_snapshot [listed_rules]: "quiet cx \<Longrightarrow> keeps (conflicts_listed e) (recordLocalNoteSnapshot cx n reason)"
  unfolding recordLocalNoteSnapshot_def pruneLocalNoteSnapshots_def Let_def
  by (intro keeps_intros listed_rules frame_check_effect frame_modify listed_store no_id_rules) simp_all

lemma listed_snapshots_gone [listed_rules]: "keeps (conflicts_listed e) (deleteLocalNoteSnapshots i)"
  unfolding deleteLocalNoteSnapshots_def by (intro frame_modify listed_store) simp_all

lemma touched_simps [simp]: "n_syncStatus (touched d t n) = Pending" "n_id (touched d t n) = n_id n"
  by (simp_all add: touched_def)

lemma listed_decrypted [listed_rules]: "keeps (conflicts_listed e) (decrypted cx n)"
  unfolding decrypted_def by (rule keeps_check)

lemma listed_decrypted_notebooks [listed_rules]: "keeps (conflicts_listed e) (decrypted_notebooks cx)"
  unfolding decrypted_notebooks_def by (intro keeps_intros)

lemma listed_name_exists [listed_rules]: "keeps (conflicts_listed e) (notebookNameExists cx name ex)"
  unfolding notebookNameExists_def by (intro keeps_intros listed_rules)

lemma listed_user_notes [listed_rules]:
  assumes "quiet cx"
  shows "keeps (conflicts_listed e) (createBlankNote cx title body nb)"
    "keeps (conflicts_listed e) (updateNoteContent cx i s b)"
    "keeps (conflicts_listed e) (assignNoteToNotebook cx i nb' as)"
    "keeps (conflicts_listed e) (setNoteFavorite cx i fav)"
    "keeps (conflicts_listed e) (moveNoteToTrash cx i)"
    "keeps (conflicts_listed e) (restoreNote cx i)"
    "keeps (conflicts_listed e) (restoreLoadedNoteSnapshot cx i sn)"
  unfolding createBlankNote_def updateNoteContent_def assignNoteToNotebook_def setNoteFavorite_def moveNoteToTrash_def
    restoreNote_def restoreLoadedNoteSnapshot_def Let_def
  by (intro keeps_intros listed_rules assms; simp)+

lemma listed_delete_note [listed_rules]: "keeps (conflicts_listed e) (deleteNotePermanently cx i)"
  unfolding deleteNotePermanently_def
  by (intro keeps_intros listed_rules keeps_modify listed_del_note; simp)

lemma listed_restore_snapshot [listed_rules]:
  assumes "quiet cx"
  shows "keeps (conflicts_listed e) (restoreLatestNoteSnapshot cx i)" "keeps (conflicts_listed e) (restoreNoteSnapshot cx i k)"
proof -
  have "keeps (conflicts_listed e) (case ss of [] \<Rightarrow> ret None | s # r \<Rightarrow> restoreLoadedNoteSnapshot cx i s)" for ss
    using assms by (cases ss) (auto intro!: keeps_intros listed_rules)
  then show "keeps (conflicts_listed e) (restoreLatestNoteSnapshot cx i)"
    unfolding restoreLatestNoteSnapshot_def loadNoteSnapshots_def by (intro keeps_intros) auto
  show "keeps (conflicts_listed e) (restoreNoteSnapshot cx i k)"
    unfolding restoreNoteSnapshot_def by (intro keeps_intros listed_rules assms)
qed

lemma listed_user_notebooks [listed_rules]:
  assumes "quiet cx"
  shows "keeps (conflicts_listed e) (createNotebook cx name)" "keeps (conflicts_listed e) (renameNotebook cx i name)"
  unfolding createNotebook_def renameNotebook_def Let_def
  by (intro keeps_intros listed_rules assms; simp)+

lemma listed_delete_notebook_rows:
  assumes "conflicts_listed e c"
  shows "conflicts_listed e (delete_notebook_rows i nb d t c)"
proof -
  have a: "conflicts_listed e (c\<lparr>cl_notebooks := (if isLocalOnlyRecord (lnb_lastSyncedVersion nb) then tdel nb_id i (cl_notebooks c)
          else tput nb_id (nb\<lparr>nb_deletedAt := Some t, nb_updatedAt := t, nb_deviceId := d_id d,
                 nb_version := js_add1 (nb_version nb), nb_syncStatus := Pending\<rparr>) (cl_notebooks c))\<rparr>)" (is "conflicts_listed e ?c")
    using listed_del_notebook [OF assms] listed_put_notebook [OF assms] by simp
  have "r \<in> set (concat (map (unassigned i d t) ns)) \<Longrightarrow> n_syncStatus r = Pending" for r ns
    by (auto simp: unassigned_def Let_def split: if_splits)
  then have "conflicts_listed e (?c\<lparr>cl_notes := fold (tput n_id) (concat (map (unassigned i d t) (cl_notes ?c))) (cl_notes ?c)\<rparr>)"
    by (intro listed_put_notes [OF a]) fastforce
  then show ?thesis by (simp add: delete_notebook_rows_def)
qed

lemma listed_delete_notebook [listed_rules]: "keeps (conflicts_listed e) (deleteNotebook cx i)"
  unfolding deleteNotebook_def by (intro keeps_intros listed_rules keeps_modify listed_delete_notebook_rows)

section \<open>A run of the synchronisation\<close>

lemma listed_meta [listed_rules]: "keeps (conflicts_listed e) (putMeta k v)"
  unfolding putMeta_def by (intro frame_modify listed_store) simp_all

lemma listed_devices_saved [listed_rules]: "keeps (conflicts_listed e) (saveDevices ds)"
  unfolding saveDevices_def by (intro frame_modify listed_store) simp_all

lemma listed_remote_deletes [listed_rules]: "keeps (conflicts_listed e) (applyRemoteDeletes ns nbs ds)"
  by (simp add: keeps_def listed_deletes)

lemma listed_collect [listed_rules]: "keeps (conflicts_listed e) (collectPending d)"
  unfolding keeps_def
proof (intro allI impI)
  fix c assume I: "conflicts_listed e c"
  let ?ns = "filter (\<lambda>n. n_syncStatus n = Pending) (cl_notes c)" and ?nbs = "filter (\<lambda>n. nb_syncStatus n = Pending) (cl_notebooks c)"
  let ?c1 = "c\<lparr>cl_notes := fold (tdel n_id) (map n_id (filter note_dropped ?ns)) (cl_notes c)\<rparr>"
  let ?c2 = "?c1\<lparr>cl_notebooks := fold (tdel nb_id) (map nb_id (filter notebook_dropped ?nbs)) (cl_notebooks ?c1)\<rparr>"
  have c2: "conflicts_listed e ?c2" by (intro listed_del_notebooks listed_del_notes I)
  have c3: "conflicts_listed e (?c2\<lparr>cl_notes := fold (tput n_id) (map (preparePendingNote d) ns) (cl_notes ?c2)\<rparr>)" (is "conflicts_listed e ?c3") for ns
    by (rule listed_put_notes [OF c2]) (auto simp: preparePendingNote_def)
  have c4: "conflicts_listed e (?c3 ns\<lparr>cl_notebooks := fold (tput nb_id) (map (preparePendingNotebook d) nbs) (cl_notebooks (?c3 ns))\<rparr>)" for ns nbs
    by (rule listed_put_notebooks [OF c3]) (auto simp: preparePendingNotebook_def)
  show "conflicts_listed e (snd (collectPending d c))"
    using c4 [of "filter (\<lambda>n. notebookNeedsRepair n (preparePendingNotebook d n)) (filter (\<lambda>n. \<not> notebook_dropped n) ?nbs)"
      "filter (\<lambda>n. noteNeedsRepair n (preparePendingNote d n)) (filter (\<lambda>n. \<not> note_dropped n) ?ns)"]
    by (simp add: collectPending_def Let_def)
qed

lemma listed_pull_response [listed_rules]:
  assumes "quiet cx" and "cx_env cx = e" and "inj (uuid e)"
  shows "keeps (conflicts_listed e) (applyPullResponse cx r cursor)"
  unfolding applyPullResponse_def
  by (intro keeps_intros listed_rules keeps_listed_mergeRemoteChanges keeps_listed_references assms)

text \<open>The loop over the open entries: an absorbed entry is closed when its record is free of the mark.\<close>

lemma absorb_other_tables: "cl_conflicts (absorb conf t c) = cl_conflicts c" "cl_fx (absorb conf t c) = cl_fx c"
  by (cases conf; simp split: option.split)+

lemma absorb_frees:
  assumes "conflict_form ty i conf"
  shows "ty = Note_entity \<Longrightarrow> conflict_free_note i (absorb conf t c)"
    "ty = Notebook_entity \<Longrightarrow> conflict_free_notebook i (absorb conf t c)"
  using assms
  by (cases conf; auto simp: conflict_free_note_def conflict_free_notebook_def absorb_status_def tget_tput
      split: option.splits if_splits dest: tget_key)+

lemma absorbSame_cases:
  assumes P: "store_only P" "P c" and run: "absorbSameDevicePushConflict cx conf t c = (r, c')"
  shows "r = Inr False \<and> P c' \<or> r = Inr True \<and> (\<exists>c1. P c1 \<and> c' = absorb conf t c1)"
proof (cases "conflict_reason_of conf = Remote_changed")
  case False
  then show ?thesis using run P by (simp add: absorbSameDevicePushConflict_def)
next
  case True
  obtain d c1 where d: "getOrCreateDevice cx c = (Inr d, c1)" using getOrCreateDevice_Inr by blast
  then have "P c1" using keepsD [OF frame_device [OF P(1)] P(2)] by blast
  then show ?thesis using run True d by (auto simp: absorbSameDevicePushConflict_def bnd_run seq_run split: if_splits)
qed

definition entries_there :: "LocalConflict list \<Rightarrow> client \<Rightarrow> bool" where
  "entries_there lcs c \<longleftrightarrow> (\<forall>lc \<in> set lcs. getConflict (lc_id lc) c = Some lc)"

lemma entries_store: "store_only (entries_there lcs)"
  by (auto simp: store_only_def entries_there_def)

lemma repair_loop:
  assumes "distinct (map lc_id lcs)" and "conflicts_listed e c" and "entries_there lcs c"
  shows "conflicts_listed e (snd (for_each (\<lambda>lc. bnd (absorbSameDevicePushConflict cx (lc_conflict lc) t) (\<lambda>absorbed.
         if absorbed then putConflict (lc\<lparr>lc_status := Resolved_conflict\<rparr>) else ret ())) lcs c))"
  using assms
proof (induction lcs arbitrary: c)
  case (Cons lc lcs)
  let ?P = "\<lambda>c. conflicts_listed e c \<and> entries_there (lc # lcs) c"
  obtain r c' where a: "absorbSameDevicePushConflict cx (lc_conflict lc) t c = (r, c')" by fastforce
  have P: "store_only ?P" "?P c" using Cons.prems by (auto intro: store_only_conj listed_store entries_store)
  from absorbSame_cases [OF P a] show ?case
  proof
    assume "r = Inr False \<and> ?P c'"
    then show ?thesis using Cons.IH [of c'] Cons.prems(1) a by (simp add: seq_run bnd_run entries_there_def)
  next
    assume "r = Inr True \<and> (\<exists>c1. ?P c1 \<and> c' = absorb (lc_conflict lc) t c1)"
    then obtain c1 where r: "r = Inr True" and c1: "?P c1" and c': "c' = absorb (lc_conflict lc) t c1" by blast
    have there: "getConflict (lc_id x) c' = Some x" if "x \<in> set (lc # lcs)" for x
      using c1 that by (auto simp: c' absorb_other_tables entries_there_def)
    have I: "conflicts_listed e c'" using c1 by (simp add: c' listed_absorb)
    have form: "conflict_form (lc_entityType lc) (lc_entityId lc) (lc_conflict lc)"
      using listedD(6) [OF I there] by simp
    define c2 where "c2 = c'\<lparr>cl_conflicts := tput lc_id (lc\<lparr>lc_status := Resolved_conflict\<rparr>) (cl_conflicts c')\<rparr>"
    have "conflicts_listed e c2" unfolding c2_def
      by (rule listed_close [OF I, where ?lc0.0 = lc]) (use there absorb_frees [OF form] in \<open>auto simp: c'\<close>)
    moreover have "getConflict (lc_id x) c2 = Some x" if "x \<in> set lcs" for x
    proof -
      have "lc_id lc \<notin> lc_id ` set lcs" "lc_id x \<in> lc_id ` set lcs" using that Cons.prems(1) by simp_all
      then have "lc_id x \<noteq> lc_id lc" by metis
      then show ?thesis using there that by (simp add: c2_def tget_tput)
    qed
    then have "entries_there lcs c2" by (simp add: entries_there_def)
    ultimately show ?thesis using Cons.IH [of c2] Cons.prems(1) a r by (simp add: seq_run bnd_run putConflict_def c2_def)
  qed
qed simp

lemma listed_repair [listed_rules]: "keeps (conflicts_listed e) (repairSameDevicePendingConflicts cx t)"
  unfolding keeps_def
proof (intro allI impI)
  fix c assume I: "conflicts_listed e c"
  note wf = listedD(3) [OF I]
  let ?lcs = "filter (\<lambda>lc. lc_status lc = Open_conflict) (cl_conflicts c)"
  have "distinct (map lc_id ?lcs)" using wf_table_distinct [OF wf] by (simp add: distinct_map_filter)
  moreover have "entries_there ?lcs c" using wf_table_tget [OF wf] by (simp add: entries_there_def)
  ultimately show "conflicts_listed e (snd (repairSameDevicePendingConflicts cx t c))"
    using repair_loop I by (simp add: repairSameDevicePendingConflicts_def bnd_run)
qed

section \<open>Re-encryption\<close>

lemma map_each_all:
  "(\<And>x y c c'. x \<in> set xs \<Longrightarrow> g x c = (Inr y, c') \<Longrightarrow> T y) \<Longrightarrow> map_each g xs c = (Inr ys, c') \<Longrightarrow> \<forall>y \<in> set ys. T y"
proof (induction xs arbitrary: ys c)
  case (Cons x xs)
  from Cons.prems(2) obtain y c1 zs where y: "g x c = (Inr y, c1)" and z: "map_each g xs c1 = (Inr zs, c')" and ys: "ys = y # zs"
    by (auto simp: bnd_Inr)
  have "\<forall>y \<in> set zs. T y" by (rule Cons.IH [OF _ z]) (rule Cons.prems(1), auto)
  moreover have "T y" using Cons.prems(1) [OF _ y] by simp
  ultimately show ?case by (simp add: ys)
qed simp

lemma map_each_state: "(\<And>x c. snd (g x c) = c) \<Longrightarrow> snd (map_each g xs c) = c"
proof (induction xs arbitrary: c)
  case (Cons x xs)
  then show ?case by (auto simp: bnd_run split: prod.split sum.split) (metis snd_conv)+
qed simp

lemma leads_before_after:
  assumes so: "store_only P" and q: "quiet cx" and f: "\<And>x. x \<in> set xs \<Longrightarrow> keeps P (f x)"
    and R: "\<And>x y c c'. x \<in> set xs \<Longrightarrow> f x c = (Inr y, c') \<Longrightarrow> R x y"
    and k: "\<And>ps. \<forall>p \<in> set ps. fst p \<in> set xs \<and> R (fst p) (snd p) \<Longrightarrow> leads P Q (k ps)" and PQ: "\<And>c. P c \<Longrightarrow> Q c"
  shows "leads P Q (bnd (before_after cx f xs) k)"
  unfolding leads_def
proof (intro allI impI)
  fix c assume c: "P c"
  let ?g = "\<lambda>x. bnd (f x) (\<lambda>y. ret (x, y))"
  obtain r c1 where m: "map_each ?g xs c = (r, c1)" by fastforce
  have "keeps P (map_each ?g xs)" using f by (intro keeps_intros)
  then have c1: "P c1" using c m by (rule keepsD)
  then have c2: "P (c1\<lparr>cl_awaits := Suc (cl_awaits c1)\<rparr>)" by (rule store_onlyD [OF so]) simp_all
  show "Q (snd (bnd (before_after cx f xs) k c))"
  proof (cases r)
    case (Inl e)
    then show ?thesis using m PQ c1 by (simp add: before_after_def bnd_run)
  next
    case (Inr ps)
    have "fst p \<in> set xs \<and> R (fst p) (snd p)" if "x \<in> set xs" "?g x d = (Inr p, d')" for x p d d'
      using that R by (auto simp: bnd_Inr)
    from map_each_all [OF this m [unfolded Inr]] have "leads P Q (k ps)" by (rule k)
    then show ?thesis using m Inr c2 q by (simp add: before_after_def bnd_run seq_run leads_def)
  qed
qed

lemma needing_cases:
  assumes "needing f xs c = (r, c')"
  shows "c' = c \<and> (\<forall>ys. r = Inr ys \<longrightarrow> set ys \<subseteq> set xs)"
proof -
  define g :: "_ \<Rightarrow> (_ \<times> bool) action" where "g = (\<lambda>x. check (and_then (f x) (\<lambda>b. Inr (x, b))))"
  obtain r1 c1 where m: "map_each g xs c = (r1, c1)" by fastforce
  have "c1 = c" using map_each_state [of g xs c] m by (simp add: g_def)
  moreover have "\<forall>p \<in> set ps. fst p \<in> set xs" if "r1 = Inr ps" for ps
    by (rule map_each_all [OF _ m [unfolded that]]) (auto simp: g_def and_then_Inr)
  ultimately show ?thesis using assms m
    by (cases r1) (force simp: needing_def g_def [symmetric] bnd_run)+
qed

lemma leads_needing:
  assumes "\<And>ys. set ys \<subseteq> set xs \<Longrightarrow> leads P Q (k ys)" and "\<And>c. P c \<Longrightarrow> Q c"
  shows "leads P Q (bnd (needing f xs) k)"
  unfolding leads_def
proof (intro allI impI)
  fix c assume c: "P c"
  obtain r c1 where n: "needing f xs c = (r, c1)" by fastforce
  show "Q (snd (bnd (needing f xs) k c))"
    using needing_cases [OF n] n c assms by (cases r) (auto simp: bnd_run leads_def)
qed

lemma listed_save_notes:
  assumes ps: "\<forall>p \<in> set ps. fst p \<in> set ns \<and> n_id (snd p) = n_id (fst p)"
  shows "leads (\<lambda>c. conflicts_listed e c \<and> cl_notes c = ns) (conflicts_listed e) (saveNoteEncryptionChanges cx ps)"
    (is "leads ?P ?Q _")
proof -
  have so: "store_only ?P" by (auto simp: store_only_def elim: store_onlyD [OF listed_store])
  have put: "leads ?P ?Q (modify (\<lambda>c. c\<lparr>cl_notes := fold (tput n_id) (map (\<lambda>(a, b). b\<lparr>n_deviceId := d_id d, n_version := js_add1 (n_version a),
        n_syncStatus := reencrypted_status (n_syncStatus a)\<rparr>) (filter (\<lambda>(a, b). noteEncryptedFieldsChanged a b) ps)) (cl_notes c)\<rparr>))" for d
  proof (rule leads_modify, elim conjE, rule listed_put_notes, assumption, goal_cases)
    case (1 c r)
    then obtain a b where ab: "(a, b) \<in> set ps" "n_id r = n_id b" "n_syncStatus a = Conflict"
      by (auto simp: reencrypted_status_def split: if_splits)
    with ps 1 have "storedNote (n_id r) c = Some a" using wf_table_tget [OF listedD(1)] by fastforce
    with ab show ?case by blast
  qed
  show ?thesis unfolding saveNoteEncryptionChanges_def Let_def
    by (intro leads_if leads_stop leads_bnd [OF frame_device [OF so]] put) auto
qed

lemma listed_save_notebooks:
  assumes ps: "\<forall>p \<in> set ps. fst p \<in> set nbs \<and> nb_id (snd p) = nb_id (fst p)"
  shows "leads (\<lambda>c. conflicts_listed e c \<and> cl_notebooks c = nbs) (conflicts_listed e) (saveNotebookEncryptionChanges cx ps)"
    (is "leads ?P ?Q _")
proof -
  have so: "store_only ?P" by (auto simp: store_only_def elim: store_onlyD [OF listed_store])
  have put: "leads ?P ?Q (modify (\<lambda>c. c\<lparr>cl_notebooks := fold (tput nb_id) (map (\<lambda>(a, b). b\<lparr>nb_deviceId := d_id d, nb_version := js_add1 (nb_version a),
        nb_syncStatus := reencrypted_status (nb_syncStatus a)\<rparr>) (filter (\<lambda>(a, b). notebookEncryptedFieldsChanged a b) ps)) (cl_notebooks c)\<rparr>))" for d
  proof (rule leads_modify, elim conjE, rule listed_put_notebooks, assumption, goal_cases)
    case (1 c r)
    then obtain a b where ab: "(a, b) \<in> set ps" "nb_id r = nb_id b" "nb_syncStatus a = Conflict"
      by (auto simp: reencrypted_status_def split: if_splits)
    with ps 1 have "storedNotebook (nb_id r) c = Some a" using wf_table_tget [OF listedD(2)] by fastforce
    with ab show ?case by blast
  qed
  show ?thesis unfolding saveNotebookEncryptionChanges_def Let_def
    by (intro leads_if leads_stop leads_bnd [OF frame_device [OF so]] put) auto
qed

text \<open>Entries of the conflict table that keep everything but their texts.\<close>

definition same_entry :: "client \<Rightarrow> LocalConflict \<Rightarrow> bool" where
  "same_entry c r \<longleftrightarrow> (\<exists>a. getConflict (lc_id r) c = Some a \<and> lc_status a = lc_status r \<and> lc_entityType a = lc_entityType r \<and>
     lc_entityId a = lc_entityId r) \<and> conflict_form (lc_entityType r) (lc_entityId r) (lc_conflict r)"

lemma listed_put_conflict:
  assumes I: "conflicts_listed e c" and r: "same_entry c r"
  shows "conflicts_listed e (c\<lparr>cl_conflicts := tput lc_id r (cl_conflicts c)\<rparr>)" (is "conflicts_listed e ?c")
proof -
  obtain a where a: "getConflict (lc_id r) c = Some a" "lc_status a = lc_status r" "lc_entityType a = lc_entityType r"
      "lc_entityId a = lc_entityId r" and form: "conflict_form (lc_entityType r) (lc_entityId r) (lc_conflict r)"
    using r by (auto simp: same_entry_def)
  have cov: "covered ?c ty i" if cv: "covered c ty i" for ty i
  proof -
    obtain k x where x: "getConflict k c = Some x" "lc_status x = Open_conflict" "lc_entityType x = ty" "lc_entityId x = i"
      using cv by (auto simp: covered_def)
    then show ?thesis using a
      by (cases "k = lc_id r") (auto simp: covered_def tget_tput intro!: exI [of _ k])
  qed
  have free: "conflict_free_note i ?c = conflict_free_note i c" "conflict_free_notebook i ?c = conflict_free_notebook i c" for i
    by (simp_all add: conflict_free_note_def conflict_free_notebook_def)
  have f: "conflict_form (lc_entityType x) (lc_entityId x) (lc_conflict x)" if "getConflict k ?c = Some x" for k x
    using that listedD(6) [OF I] form by (auto simp: tget_tput split: if_splits)
  have u: "lc_id x \<noteq> uuid e j" if "getConflict k ?c = Some x" "f_fresh (cl_fx c) \<le> j" for k x j
    using that(1) listed_fresh [OF I that(2)] a(1) tget_key [of lc_id k "cl_conflicts c" x] by (auto simp: tget_tput split: if_splits)
  have "covered ?c Note_entity i \<or> conflict_free_note i ?c" "covered ?c Notebook_entity i \<or> conflict_free_notebook i ?c" for i
    using listedD(4,5) [OF I, of i] cov unfolding free by blast+
  moreover have "wf_table n_id (cl_notes ?c) \<and> wf_table nb_id (cl_notebooks ?c) \<and> wf_table lc_id (cl_conflicts ?c)"
    using listedD(1-3) [OF I] by (simp add: wf_table_tput)
  moreover have fx: "cl_fx ?c = cl_fx c" by simp
  ultimately show ?thesis unfolding conflicts_listed_def using f u unfolding fx by blast
qed

lemma same_entry_put: "same_entry c r \<Longrightarrow> same_entry c x \<Longrightarrow> same_entry (c\<lparr>cl_conflicts := tput lc_id x (cl_conflicts c)\<rparr>) r"
  by (auto simp: same_entry_def tget_tput)

lemma listed_put_conflicts:
  "conflicts_listed e c \<Longrightarrow> \<forall>r \<in> set rs. same_entry c r \<Longrightarrow>
   conflicts_listed e (c\<lparr>cl_conflicts := fold (tput lc_id) rs (cl_conflicts c)\<rparr>)"
proof (induction rs arbitrary: c)
  case (Cons r rs)
  let ?c = "c\<lparr>cl_conflicts := tput lc_id r (cl_conflicts c)\<rparr>"
  have "conflicts_listed e ?c" using Cons.prems by (simp add: listed_put_conflict)
  moreover have "\<forall>x \<in> set rs. same_entry ?c x" using Cons.prems by (simp add: same_entry_put)
  ultimately show ?case using Cons.IH [of ?c] by simp
qed simp

lemma encrypted_form:
  "encryptConflictForStorage cr m conf fx = Inr (st, fx') \<Longrightarrow> conflict_form ty i conf \<Longrightarrow> conflict_form ty i st"
  by (cases conf) (auto dest!: encryptConflict_noteD encryptConflict_notebookD simp del: encryptConflictForStorage.simps)

lemma reencrypted_form:
  "reencryptConflictForStorage cr conf m n fx = Inr (st, fx') \<Longrightarrow> conflict_form ty i conf \<Longrightarrow> conflict_form ty i st"
  unfolding reencryptConflictForStorage_def by (auto simp: and_then_Inr dest: display_form encrypted_form)

lemma no_id_reencryptConflict [no_id_rules]: "draws_no_id (reencryptConflictForStorage cr conf m n)"
  by (rule draws_no_idI) (auto simp: reencryptConflictForStorage_def and_then_Inr dest: draws_no_idD [OF no_id_encryptConflict])

lemma listed_save_conflicts:
  assumes ps: "\<forall>p \<in> set ps. fst p \<in> set lcs \<and> (\<forall>ty i. conflict_form ty i (lc_conflict (fst p)) \<longrightarrow> conflict_form ty i (snd p))"
  shows "leads (\<lambda>c. conflicts_listed e c \<and> set lcs \<subseteq> set (cl_conflicts c)) (conflicts_listed e) (saveConflictEncryptionChanges ps)"
  unfolding saveConflictEncryptionChanges_def
proof (rule leads_modify, elim conjE, rule listed_put_conflicts, assumption, rule ballI, goal_cases)
  case (1 c r)
  then obtain a b where ab: "(a, b) \<in> set ps" "r = a\<lparr>lc_conflict := b\<rparr>" by auto
  with ps 1 have g: "getConflict (lc_id a) c = Some a" using wf_table_tget [OF listedD(3)] by fastforce
  have "conflict_form (lc_entityType a) (lc_entityId a) b" using ps ab listedD(6) [OF 1(1) g] by fastforce
  then show ?case using ab g by (simp add: same_entry_def)
qed

lemma conflicts_there_store: "store_only (\<lambda>c. conflicts_listed e c \<and> set lcs \<subseteq> set (cl_conflicts c))"
  by (auto simp: store_only_def elim: store_onlyD [OF listed_store])

text \<open>The support checks change nothing.\<close>

lemma frame_supported [frame_rules]:
  "keeps P (assertSupportedEncryptedText v)" "keeps P (assertNotesDoNotNeedLegacyMigration ns)"
  "keeps P (assertNotebooksDoNotNeedLegacyMigration nbs)"
  unfolding assertSupportedEncryptedText_def assertNotesDoNotNeedLegacyMigration_def assertNotebooksDoNotNeedLegacyMigration_def
  by (intro keeps_intros)+

lemma frame_supported_conflict [frame_rules]: "keeps P (assertConflictDoesNotNeedLegacyMigration lc)"
  unfolding assertConflictDoesNotNeedLegacyMigration_def
  by (cases "lc_conflict lc") (auto intro!: keeps_intros frame_supported)

lemma frame_refresh [frame_rules]: "store_only P \<Longrightarrow> keeps P (refresh_note cx n)" "store_only P \<Longrightarrow> keeps P (refresh_notebook cx nb)"
  unfolding refresh_note_def refresh_notebook_def by (intro keeps_intros frame_check_effect no_id_rules; assumption)+

lemma refresh_ids:
  "refresh_note cx n c = (Inr m, c') \<Longrightarrow> n_id m = n_id n"
  "refresh_notebook cx nb c = (Inr mb, c') \<Longrightarrow> nb_id mb = nb_id nb"
  unfolding refresh_note_def refresh_notebook_def
  by (auto simp: bnd_Inr check_effect_Inr dest!: decryptNoteFieldsD encryptNoteFieldsD decryptNotebookFieldsD encryptNotebookFieldsD)

text \<open>One round of reading a table, working on its rows and storing what changed.\<close>

lemma round_store:
  "store_only (\<lambda>c. conflicts_listed e c \<and> cl_notes c = ns)" "store_only (\<lambda>c. conflicts_listed e c \<and> cl_notebooks c = nbs)"
  by (auto simp: store_only_def elim: store_onlyD [OF listed_store])

lemma listed_note_round:
  assumes q: "quiet cx" and ys: "set ys \<subseteq> set ns" and f: "\<And>P x. store_only P \<Longrightarrow> keeps P (f x)"
    and ids: "\<And>x y c c'. f x c = (Inr y, c') \<Longrightarrow> n_id y = n_id x"
  shows "leads (\<lambda>c. conflicts_listed e c \<and> cl_notes c = ns) (conflicts_listed e) (bnd (before_after cx f ys) (saveNoteEncryptionChanges cx))"
  by (rule leads_before_after [where R = "\<lambda>x y. n_id y = n_id x", OF round_store(1) q f [OF round_store(1)] ids listed_save_notes])
    (use ys in auto)

lemma listed_notebook_round:
  assumes q: "quiet cx" and ys: "set ys \<subseteq> set nbs" and f: "\<And>P x. store_only P \<Longrightarrow> keeps P (f x)"
    and ids: "\<And>x y c c'. f x c = (Inr y, c') \<Longrightarrow> nb_id y = nb_id x"
  shows "leads (\<lambda>c. conflicts_listed e c \<and> cl_notebooks c = nbs) (conflicts_listed e) (bnd (before_after cx f ys) (saveNotebookEncryptionChanges cx))"
  by (rule leads_before_after [where R = "\<lambda>x y. nb_id y = nb_id x", OF round_store(2) q f [OF round_store(2)] ids listed_save_notebooks])
    (use ys in auto)

lemma listed_snapshot_round:
  assumes q: "quiet cx" and f: "\<And>P x. store_only P \<Longrightarrow> keeps P (f x)"
  shows "keeps (conflicts_listed e) (bnd (before_after cx f ys) saveNoteSnapshotEncryptionChanges)"
  unfolding before_after_def saveNoteSnapshotEncryptionChanges_def
  by (intro keeps_intros frame_modify listed_store listed_await q f) simp_all

lemma listed_conflict_round:
  assumes q: "quiet cx" and ys: "set ys \<subseteq> set lcs" and f: "\<And>P x. store_only P \<Longrightarrow> keeps P (f x)"
    and form: "\<And>x y c c' ty i. f x c = (Inr y, c') \<Longrightarrow> conflict_form ty i (lc_conflict x) \<Longrightarrow> conflict_form ty i y"
  shows "leads (\<lambda>c. conflicts_listed e c \<and> set lcs \<subseteq> set (cl_conflicts c)) (conflicts_listed e) (bnd (before_after cx f ys) saveConflictEncryptionChanges)"
  by (rule leads_before_after [where R = "\<lambda>x y. \<forall>ty i. conflict_form ty i (lc_conflict x) \<longrightarrow> conflict_form ty i y",
        OF conflicts_there_store q f [OF conflicts_there_store] _ listed_save_conflicts])
    (use ys form in auto)

lemma listed_ensure_conflicts [listed_rules]: "quiet cx \<Longrightarrow> keeps (conflicts_listed e) (ensureLocalConflictsEncrypted cx)"
  unfolding ensureLocalConflictsEncrypted_def keeps_leads
proof (rule leads_asks_bnd, goal_cases)
  case (1 lcs)
  have f: "store_only P \<Longrightarrow> keeps P (check_effect (encryptConflictForStorage (cx_crypto cx) (cx_material cx) (lc_conflict x)))" for P x
    by (intro frame_check_effect no_id_rules)
  have "leads (\<lambda>c. conflicts_listed e c \<and> set lcs \<subseteq> set (cl_conflicts c)) (conflicts_listed e)
     (bnd (before_after cx (\<lambda>lc. check_effect (encryptConflictForStorage (cx_crypto cx) (cx_material cx) (lc_conflict lc)))
        (filter conflict_needs_encryption lcs)) saveConflictEncryptionChanges)"
    by (rule listed_conflict_round [OF 1 _ f])
      (auto simp: check_effect_Inr simp del: encryptConflictForStorage.simps dest: encrypted_form)
  then show ?case
    by (intro leads_seq keeps_intros frame_rules; (rule leads_weaken)?; auto)
qed

lemma leads_read: "(\<And>x. leads (\<lambda>c. P c \<and> g c = x) Q (f x)) \<Longrightarrow> leads P Q (bnd (asks g) f)"
  by (rule leads_asks_bnd)

lemma listed_ensure [listed_rules]:
  assumes q: "quiet cx"
  shows "keeps (conflicts_listed e) (ensureLocalNotesEncrypted cx)"
proof -
  let ?I = "conflicts_listed e"
  have fin: "leads ?I ?I (seq (ensureLocalConflictsEncrypted cx) markEncryptionAuditCurrent)"
    unfolding keeps_leads [symmetric] markEncryptionAuditCurrent_def by (intro keeps_intros listed_rules q)
  have nbs: "leads ?I ?I (bnd (asks cl_notebooks) (\<lambda>nbs. seq (assertNotebooksDoNotNeedLegacyMigration nbs)
      (bnd (needing (notebook_needs_encryption cx) nbs) (\<lambda>todo.
       seq (bnd (before_after cx (refresh_notebook cx) todo) (saveNotebookEncryptionChanges cx))
         (seq (ensureLocalConflictsEncrypted cx) markEncryptionAuditCurrent)))))"
    by (rule leads_read, rule leads_seq [OF frame_supported(3)], rule leads_needing,
        rule leads_then [OF listed_notebook_round [OF q _ frame_refresh(2) refresh_ids(2)] fin]) auto
  have ss: "leads ?I ?I (bnd (asks cl_snapshots) (\<lambda>ss. seq (assertNotesDoNotNeedLegacyMigration ss)
      (bnd (needing (note_needs_encryption cx) ss) (\<lambda>todo.
       seq (bnd (before_after cx (refresh_note cx) todo) saveNoteSnapshotEncryptionChanges) k))))" if "leads ?I ?I k" for k
    by (rule leads_read, rule leads_seq [OF frame_supported(2)], rule leads_needing,
        rule leads_then [OF leads_weaken [OF listed_snapshot_round [OF q frame_refresh(1), unfolded keeps_leads]] that]) auto
  have ns: "leads ?I ?I (bnd (asks cl_notes) (\<lambda>ns. seq (assertNotesDoNotNeedLegacyMigration ns)
      (bnd (needing (note_needs_encryption cx) ns) (\<lambda>todo.
       seq (bnd (before_after cx (refresh_note cx) todo) (saveNoteEncryptionChanges cx)) k))))" if "leads ?I ?I k" for k
    by (rule leads_read, rule leads_seq [OF frame_supported(2)], rule leads_needing,
        rule leads_then [OF listed_note_round [OF q _ frame_refresh(1) refresh_ids(1)] that]) auto
  show ?thesis unfolding ensureLocalNotesEncrypted_def keeps_leads
    by (rule leads_seq [OF keeps_check], rule leads_bnd [OF keeps_asks], rule leads_if, rule leads_stop, assumption,
        rule ns [OF ss [OF nbs]]) auto
qed

lemma frame_reencrypt [frame_rules]:
  assumes "store_only P"
  shows "keeps P (reencrypt_note_action cx m1 m2 n)" "keeps P (reencrypt_notebook_action cx m1 m2 nb)"
    "keeps P (reencrypt_conflict_action cx m1 m2 lc)"
proof -
  have "draws_no_id (reencryptNoteFields cr n m1 m2)" for cr
    by (rule draws_no_idI) (auto simp: reencryptNoteFields_def and_then_Inr dest: draws_no_idD [OF no_id_encryptNoteFields])
  then show "keeps P (reencrypt_note_action cx m1 m2 n)" unfolding reencrypt_note_action_def by (rule frame_check_effect [OF assms])
  have "draws_no_id (reencryptNotebookFields cr nb m1 m2)" for cr
    by (rule draws_no_idI) (auto simp: reencryptNotebookFields_def and_then_Inr dest: draws_no_idD [OF no_id_encryptNotebookFields])
  then show "keeps P (reencrypt_notebook_action cx m1 m2 nb)" unfolding reencrypt_notebook_action_def by (rule frame_check_effect [OF assms])
  show "keeps P (reencrypt_conflict_action cx m1 m2 lc)"
    unfolding reencrypt_conflict_action_def by (rule frame_check_effect [OF assms no_id_reencryptConflict])
qed

lemma reencrypt_ids:
  "reencrypt_note_action cx m1 m2 n c = (Inr m, c') \<Longrightarrow> n_id m = n_id n"
  "reencrypt_notebook_action cx m1 m2 nb c = (Inr mb, c') \<Longrightarrow> nb_id mb = nb_id nb"
  unfolding reencrypt_note_action_def reencrypt_notebook_action_def
  by (auto simp: check_effect_Inr reencryptNoteFields_def reencryptNotebookFields_def and_then_Inr
      dest!: decryptNoteFieldsD encryptNoteFieldsD decryptNotebookFieldsD encryptNotebookFieldsD)

lemma listed_reencrypt_conflicts [listed_rules]: "quiet cx \<Longrightarrow> keeps (conflicts_listed e) (reencryptLocalConflicts cx m1 m2)"
  unfolding reencryptLocalConflicts_def keeps_leads
proof (rule leads_asks_bnd, goal_cases)
  case (1 lcs)
  have "leads (\<lambda>c. conflicts_listed e c \<and> set lcs \<subseteq> set (cl_conflicts c)) (conflicts_listed e)
     (bnd (before_after cx (reencrypt_conflict_action cx m1 m2) lcs) saveConflictEncryptionChanges)"
    by (rule listed_conflict_round [OF 1 _ frame_reencrypt(3)])
      (auto simp: reencrypt_conflict_action_def check_effect_Inr dest: reencrypted_form)
  then show ?case by (rule leads_weaken) (auto simp: known_conflicts_def)
qed

lemma listed_reencrypt [listed_rules]:
  assumes q: "quiet cx"
  shows "keeps (conflicts_listed e) (reencryptLocalNotes cx m1 m2)"
proof -
  let ?I = "conflicts_listed e"
  have fin: "leads ?I ?I (seq (reencryptLocalConflicts cx m1 m2) markEncryptionAuditCurrent)"
    unfolding keeps_leads [symmetric] markEncryptionAuditCurrent_def by (intro keeps_intros listed_rules q)
  have nbs: "leads ?I ?I (bnd (asks cl_notebooks) (\<lambda>nbs.
       seq (bnd (before_after cx (reencrypt_notebook_action cx m1 m2) nbs) (saveNotebookEncryptionChanges cx))
         (seq (reencryptLocalConflicts cx m1 m2) markEncryptionAuditCurrent)))"
    by (rule leads_read, rule leads_then [OF listed_notebook_round [OF q _ frame_reencrypt(2) reencrypt_ids(2)] fin]) auto
  have ss: "leads ?I ?I (bnd (asks cl_snapshots) (\<lambda>ss.
       seq (bnd (before_after cx (reencrypt_note_action cx m1 m2) ss) saveNoteSnapshotEncryptionChanges) k))" if "leads ?I ?I k" for k
    by (rule leads_read, rule leads_then [OF leads_weaken [OF listed_snapshot_round [OF q frame_reencrypt(1), unfolded keeps_leads]] that]) auto
  have ns: "leads ?I ?I (bnd (asks cl_notes) (\<lambda>ns.
       seq (bnd (before_after cx (reencrypt_note_action cx m1 m2) ns) (saveNoteEncryptionChanges cx)) k))" if "leads ?I ?I k" for k
    by (rule leads_read, rule leads_then [OF listed_note_round [OF q _ frame_reencrypt(1) reencrypt_ids(1)] that]) auto
  show ?thesis unfolding reencryptLocalNotes_def keeps_leads
    by (rule leads_if, rule leads_stop, assumption, rule ns [OF ss [OF nbs]])
qed

lemma listed_clear [listed_rules]: "keeps (conflicts_listed e) clearLocalWorkspace"
  unfolding clearLocalWorkspace_def
  by (rule keeps_modify) (simp add: conflicts_listed_def conflict_free_note_def conflict_free_notebook_def tget_def)

lemma listed_prepare [listed_rules]: "keeps (conflicts_listed e) (prepareLocalWorkspaceForAccount u f)"
  unfolding prepareLocalWorkspaceForAccount_def assertLocalWorkspaceCanUseAccount_def
  by (intro keeps_intros listed_rules)

lemma listed_preflight [listed_rules]: "keeps (conflicts_listed e) (preflightReencryptLocalNotes cx m1 m2)"
  unfolding preflightReencryptLocalNotes_def case_prod_beta
  by (intro keeps_intros frame_supported frame_supported_conflict frame_reencrypt listed_store)

lemma listed_preflight_adoption [listed_rules]: "keeps (conflicts_listed e) (preflightLocalWorkspaceAdoption cx m1 m2)"
  unfolding keeps_def
proof (intro allI impI)
  fix c assume c: "conflicts_listed e c"
  obtain r c1 where p: "preflightReencryptLocalNotes cx m1 m2 c = (r, c1)" by fastforce
  have c1: "conflicts_listed e c1" using keepsD [OF listed_preflight c p] .
  have "keeps (conflicts_listed e) (seq (preflightReencryptLocalNotes cx m2 m2) (ret m2))"
    by (intro keeps_intros listed_rules)
  then show "conflicts_listed e (snd (preflightLocalWorkspaceAdoption cx m1 m2 c))"
    using p c1 by (cases r) (auto simp: preflightLocalWorkspaceAdoption_def keeps_def)
qed

lemma listed_adopt [listed_rules]:
  "quiet cx \<Longrightarrow> keeps (conflicts_listed e) (adoptLocalWorkspaceForAccount cx u f m1 m2)"
  unfolding adoptLocalWorkspaceForAccount_def assertLocalWorkspaceCanUseAccount_def rememberLocalWorkspaceAccount_def
  by (intro keeps_intros listed_rules)

end
