(* ===== verification/ClientMachine.thy ===== *)
theory ClientMachine
  imports ListedOps ClientSamples
begin

text \<open>
  The client as a state machine: the operations of the store in any order and number, each of them run
  to its end or to its error. The steps of a synchronisation (preparing, applying an answer, storing a
  conflict the server reports) are steps of their own, so that what the user does falls between them.
  Within a step no other code writes (\<open>quiet\<close>); lemma \<open>stale_conflict_written_back\<close> shows why that is needed.
\<close>

section \<open>The steps\<close>

text \<open>
  A conflict a server may report to this client: about one record, and with an identifier the client
  neither has stored nor will draw itself.
\<close>

definition reported_conflict :: "env \<Rightarrow> any_conflict \<Rightarrow> client \<Rightarrow> bool" where
  "reported_conflict e conf c \<longleftrightarrow>
     conflict_form (conflict_entity_type conf) (conflict_entity_id conf) conf \<and>
     (\<forall>j. conflict_id conf \<noteq> uuid e j) \<and> getConflict (conflict_id conf) c = None"

inductive client_step :: "ctxt \<Rightarrow> client \<Rightarrow> client \<Rightarrow> bool" for cx where
  create_note: "client_step cx c (snd (createBlankNote cx title body nb c))"
| edit_note: "client_step cx c (snd (updateNoteContent cx i title' body' c))"
| assign_note: "client_step cx c (snd (assignNoteToNotebook cx i nb b c))"
| favourite: "client_step cx c (snd (setNoteFavorite cx i b c))"
| trash_note: "client_step cx c (snd (moveNoteToTrash cx i c))"
| restore_note: "client_step cx c (snd (restoreNote cx i c))"
| delete_note: "client_step cx c (snd (deleteNotePermanently cx i c))"
| restore_latest: "client_step cx c (snd (restoreLatestNoteSnapshot cx i c))"
| restore_snapshot: "client_step cx c (snd (restoreNoteSnapshot cx i k c))"
| create_notebook: "client_step cx c (snd (createNotebook cx name c))"
| rename_notebook: "client_step cx c (snd (renameNotebook cx i name c))"
| delete_notebook: "client_step cx c (snd (deleteNotebook cx i c))"
| rename_device: "client_step cx c (snd (renameCurrentDevice cx name c))"
| resolve: "client_step cx c (snd (resolveConflict cx k choice c))"
| ensure: "client_step cx c (snd (ensureLocalNotesEncrypted cx c))"
| repair: "client_step cx c (snd (repairSameDevicePendingConflicts cx t c))"
| collect: "client_step cx c (snd (collectPending d c))"
| accepted_push: "client_step cx c (snd (markAcceptedChanges acc t pushed c))"
| absorbed_push: "client_step cx c (snd (absorbSameDevicePushConflict cx conf t c))"
| server_conflict: "reported_conflict (cx_env cx) conf c \<Longrightarrow> client_step cx c (snd (saveConflict cx conf pushed c))"
| pull_page: "client_step cx c (snd (applyPullResponse cx r cursor c))"
| pull_reset: "client_step cx c (reset_pull_cursor c)"
| reencrypt: "client_step cx c (snd (reencryptLocalNotes cx m1 m2 c))"
| prepare_account: "client_step cx c (snd (prepareLocalWorkspaceForAccount u fb c))"
| adopt_account: "client_step cx c (snd (adoptLocalWorkspaceForAccount cx u fb m1 m2 c))"

inductive_cases client_step_cases: "client_step cx c c'"

inductive reachable :: "ctxt \<Rightarrow> client \<Rightarrow> client \<Rightarrow> bool" for cx where
  start: "reachable cx c c"
| more: "reachable cx c c1 \<Longrightarrow> client_step cx c1 c2 \<Longrightarrow> reachable cx c c2"

lemma reachable_invariant:
  "reachable cx c c' \<Longrightarrow> (\<And>x y. I x \<Longrightarrow> client_step cx x y \<Longrightarrow> I y) \<Longrightarrow> I c \<Longrightarrow> I c'"
  by (induction rule: reachable.induct) auto

text \<open>A new browser profile.\<close>

definition fresh_client :: "client \<Rightarrow> bool" where
  "fresh_client c \<longleftrightarrow> cl_notes c = [] \<and> cl_notebooks c = [] \<and> cl_snapshots c = [] \<and> cl_conflicts c = []"

section \<open>No record is stuck in a conflict\<close>

lemma listed_fresh_client: "fresh_client c \<Longrightarrow> conflicts_listed e c"
  by (simp add: fresh_client_def conflicts_listed_def conflict_free_note_def conflict_free_notebook_def tget_def)

lemma listed_rename [listed_rules]: "keeps (conflicts_listed e) (renameCurrentDevice cx name)"
  unfolding renameCurrentDevice_def Let_def by (intro keeps_intros listed_rules frame_modify listed_store) simp_all

lemma listed_reset: "conflicts_listed e c \<Longrightarrow> conflicts_listed e (reset_pull_cursor c)"
  by (erule store_onlyD [OF listed_store]) (simp_all add: reset_pull_cursor_def)

lemma keeps_snd: "keeps I m \<Longrightarrow> I c \<Longrightarrow> I (snd (m c))"
  by (simp add: keeps_def)

lemma listed_step:
  assumes q: "quiet cx" and inj: "inj (uuid (cx_env cx))" and I: "conflicts_listed (cx_env cx) c" and st: "client_step cx c c'"
  shows "conflicts_listed (cx_env cx) c'"
  using st
proof cases
  case (server_conflict conf pushed)
  then show ?thesis
    using leads_listed_saveServerConflict [OF q, of conf "cx_env cx" pushed] I
    by (simp add: reported_conflict_def leads_def)
next
  case pull_reset
  then show ?thesis using listed_reset [OF I] by simp
qed (erule ssubst, rule keeps_snd [of "conflicts_listed (cx_env cx)", OF _ I],
    (intro listed_rules keeps_listed_resolveConflict keeps_listed_markAccepted keeps_listed_absorb q inj refl)[1])+

lemma covered_entry:
  "covered c ty i \<Longrightarrow> \<exists>lc \<in> set (cl_conflicts c). lc_status lc = Open_conflict \<and> lc_entityType lc = ty \<and> lc_entityId lc = i"
  by (auto simp: covered_def dest: tget_set)

text \<open>
  Operations that overlap do not keep it: the write of a re-encryption puts back the row it has read, so a
  note whose conflict was resolved meanwhile is in conflict again, with the entries as they are.
\<close>

lemma stale_conflict_written_back:
  assumes "noteEncryptedFieldsChanged a b" and "n_syncStatus a = Conflict" and "saveNoteEncryptionChanges cx [(a, b)] c = (r, c')"
  shows "\<exists>n. storedNote (n_id b) c' = Some n \<and> n_syncStatus n = Conflict \<and> cl_conflicts c' = cl_conflicts c"
proof -
  obtain d c1 where d: "getOrCreateDevice cx c = (Inr d, c1)" using getOrCreateDevice_Inr by blast
  have "cl_conflicts c1 = cl_conflicts c" using d
    by (auto simp: getOrCreateDevice_def bnd_run seq_run id_action_def effect_def Let_def split: prod.splits option.splits if_splits)
  then show ?thesis using assms d
    by (auto simp: saveNoteEncryptionChanges_def bnd_run tget_tput reencrypted_status_def)
qed

text \<open>
  C30. Whatever the user, the synchronisation and the account changes do, in any order, each operation running
  to its end before the next begins: a note or notebook that is marked as in conflict has an open
  entry in the list of conflicts, so the user can always resolve it, and the tables stay sorted by
  their keys without duplicates.
\<close>

theorem conflicts_always_listed:
  assumes "fresh_client c0" and "quiet cx" and "inj (uuid (cx_env cx))" and "reachable cx c0 c"
  shows "(\<forall>n \<in> set (cl_notes c). n_syncStatus n = Conflict \<longrightarrow>
      (\<exists>lc \<in> set (cl_conflicts c). lc_status lc = Open_conflict \<and> lc_entityType lc = Note_entity \<and> lc_entityId lc = n_id n)) \<and>
    (\<forall>nb \<in> set (cl_notebooks c). nb_syncStatus nb = Conflict \<longrightarrow>
      (\<exists>lc \<in> set (cl_conflicts c). lc_status lc = Open_conflict \<and> lc_entityType lc = Notebook_entity \<and> lc_entityId lc = nb_id nb)) \<and>
    wf_table n_id (cl_notes c) \<and> wf_table nb_id (cl_notebooks c) \<and> wf_table lc_id (cl_conflicts c)"
proof -
  have I: "conflicts_listed (cx_env cx) c"
    by (rule reachable_invariant [OF assms(4), where I = "conflicts_listed (cx_env cx)"])
      (use listed_step [OF assms(2,3)] listed_fresh_client [OF assms(1)] in auto)
  note wf = listedD(1-3) [OF I]
  have "covered c Note_entity (n_id n)" if "n \<in> set (cl_notes c)" "n_syncStatus n = Conflict" for n
    using listedD(4) [OF I, of "n_id n"] wf_table_tget [OF wf(1) that(1)] that(2) by (auto simp: conflict_free_note_def)
  moreover have "covered c Notebook_entity (nb_id n)" if "n \<in> set (cl_notebooks c)" "nb_syncStatus n = Conflict" for n
    using listedD(5) [OF I, of "nb_id n"] wf_table_tget [OF wf(2) that(1)] that(2) by (auto simp: conflict_free_notebook_def)
  ultimately show ?thesis using wf covered_entry by blast
qed

definition empty_client :: client where
  "empty_client = sample_client\<lparr>cl_notes := [], cl_notebooks := []\<rparr>"

text \<open>A note is created and then trashed.\<close>

definition sample_trail :: client where
  "sample_trail = (let c = snd (createBlankNote sample_ctxt (Some ''a'') None None empty_client)
     in snd (moveNoteToTrash sample_ctxt (uuid sample_env 0) c))"

theorem conflicts_always_listed_witness:
  "reachable sample_ctxt empty_client sample_trail \<and> wf_table n_id (cl_notes sample_trail) \<and>
   {n \<in> set (cl_notes sample_trail). n_syncStatus n = Conflict \<and> n_id n \<notin> lc_entityId ` set (cl_conflicts sample_trail)} = {}"
proof -
  have f: "fresh_client empty_client" by (simp add: fresh_client_def empty_client_def sample_client_def)
  have r: "reachable sample_ctxt empty_client sample_trail"
    unfolding sample_trail_def Let_def
    by (rule reachable.more [OF reachable.more [OF reachable.start client_step.create_note] client_step.trash_note])
  have inj: "inj (uuid (cx_env sample_ctxt))" by (simp add: sample_env_fresh)
  note listed = conflicts_always_listed [OF f quiet_sample inj r]
  have "n_id n \<in> lc_entityId ` set (cl_conflicts sample_trail)"
    if marked: "n \<in> set (cl_notes sample_trail)" "n_syncStatus n = Conflict" for n
  proof -
    obtain lc where "lc \<in> set (cl_conflicts sample_trail)" "lc_entityId lc = n_id n" using listed marked by blast
    then show ?thesis by (metis imageI)
  qed
  then show ?thesis using r listed by blast
qed

end
