(* ===== verification/NotesTheorems.thy ===== *)
theory NotesTheorems
  imports StoreTheorems ClientMachine "HOL-Library.Multiset"
begin

text \<open>
  What the editing operations promise: an edit is stored and the text it replaces is kept as a
  snapshot, and the history of a note stays within its bound.
\<close>

section \<open>The history of a note\<close>

lemma mset_sort_by [simp]: "mset (sort_by cmp xs) = mset xs"
proof -
  have "mset (insert_by cmp x ys) = add_mset x (mset ys)" for x ys by (induction ys) auto
  then have "mset (foldr (insert_by cmp) xs []) = mset xs" by (induction xs) auto
  then show ?thesis by (simp add: sort_by_def)
qed

lemma set_sort_by [simp]: "set (sort_by cmp xs) = set xs"
  by (metis mset_sort_by set_mset_mset)

lemma length_sort_by [simp]: "length (sort_by cmp xs) = length xs"
  by (metis mset_sort_by size_mset)

lemma fold_tdel: "fold (tdel key) ks t = filter (\<lambda>r. key r \<notin> set ks) t"
  by (induction ks arbitrary: t) (auto simp: tdel_def intro: filter_cong)

text \<open>What pruning leaves of a snapshot table.\<close>

definition pruned :: "env \<Rightarrow> string \<Rightarrow> LocalNoteSnapshot list \<Rightarrow> LocalNoteSnapshot list" where
  "pruned e i ss = fold (tdel sn_snapshotId) (map sn_snapshotId (drop MAX_LOCAL_NOTE_SNAPSHOTS_PER_NOTE
     (sortLocalNoteSnapshots e (filter (\<lambda>s. n_id s = i) ss)))) ss"

lemma prune_run: "pruneLocalNoteSnapshots cx i c = (Inr (), c\<lparr>cl_snapshots := pruned (cx_env cx) i (cl_snapshots c)\<rparr>)"
  by (simp add: pruneLocalNoteSnapshots_def pruned_def snapshots_of_note_def)

lemma pruned_others: "wf_table sn_snapshotId ss \<Longrightarrow> j \<noteq> i \<Longrightarrow> filter (\<lambda>s. n_id s = j) (pruned e i ss) = filter (\<lambda>s. n_id s = j) ss"
proof -
  assume wf: "wf_table sn_snapshotId ss" and j: "j \<noteq> i"
  let ?old = "drop MAX_LOCAL_NOTE_SNAPSHOTS_PER_NOTE (sortLocalNoteSnapshots e (filter (\<lambda>s. n_id s = i) ss))"
  have old: "x \<in> set ss \<and> n_id x = i" if "x \<in> set ?old" for x
    using in_set_dropD [OF that] by (simp add: sortLocalNoteSnapshots_def)
  have "sn_snapshotId s \<notin> set (map sn_snapshotId ?old)" if s: "s \<in> set ss" "n_id s = j" for s
  proof
    assume "sn_snapshotId s \<in> set (map sn_snapshotId ?old)"
    then obtain x where x: "x \<in> set ?old" "sn_snapshotId x = sn_snapshotId s" by force
    then have "x = s" using old wf_table_inj [OF wf _ s(1)] by blast
    then show False using old [OF x(1)] s(2) j by simp
  qed
  then show ?thesis by (auto simp: pruned_def fold_tdel intro: filter_cong)
qed

lemma pruned_bound:
  assumes wf: "wf_table sn_snapshotId ss"
  shows "length (filter (\<lambda>s. n_id s = i) (pruned e i ss)) \<le> MAX_LOCAL_NOTE_SNAPSHOTS_PER_NOTE"
proof -
  let ?k = MAX_LOCAL_NOTE_SNAPSHOTS_PER_NOTE and ?mine = "filter (\<lambda>s. n_id s = i) ss"
  let ?sorted = "sortLocalNoteSnapshots e ?mine"
  have set: "set ?sorted = set ?mine" by (simp add: sortLocalNoteSnapshots_def)
  let ?kept = "filter (\<lambda>s. n_id s = i) (pruned e i ss)"
  have sub: "set ?kept \<subseteq> set (take ?k ?sorted)"
  proof
    fix s assume s: "s \<in> set ?kept"
    then have m: "s \<in> set ?mine" "s \<notin> set (drop ?k ?sorted)" by (auto simp: pruned_def fold_tdel)
    then have "s \<in> set (take ?k ?sorted @ drop ?k ?sorted)" using set by (simp only: append_take_drop_id)
    then show "s \<in> set (take ?k ?sorted)" using m(2) by (simp only: set_append) blast
  qed
  have "distinct ss" using wf_table_distinct [OF wf] by (simp add: distinct_map)
  then have "distinct ?kept" by (simp add: pruned_def fold_tdel)
  then have "length ?kept = card (set ?kept)" by (rule distinct_card [symmetric])
  also have "\<dots> \<le> card (set (take ?k ?sorted))" using sub by (rule card_mono [OF List.finite_set])
  also have "\<dots> \<le> ?k" using card_length [of "take ?k ?sorted"] by simp
  finally show ?thesis .
qed

lemma pruned_short: "length (filter (\<lambda>s. n_id s = i) ss) \<le> MAX_LOCAL_NOTE_SNAPSHOTS_PER_NOTE \<Longrightarrow> pruned e i ss = ss"
  by (simp add: pruned_def sortLocalNoteSnapshots_def)

text \<open>The newest entry comes first in the sorted history, so pruning keeps it.\<close>

lemma sort_by_first:
  assumes "s \<in> set xs" "distinct xs" "\<And>x. x \<in> set xs \<Longrightarrow> x \<noteq> s \<Longrightarrow> cmp s x \<le> 0 \<and> cmp x s > 0"
  shows "\<exists>zs. sort_by cmp xs = s # zs"
  using assms
proof (induction xs)
  case Nil
  then show ?case by simp
next
  case (Cons y ys)
  have eq: "sort_by cmp (y # ys) = insert_by cmp y (sort_by cmp ys)" by (simp add: sort_by_def)
  show ?case
  proof (cases "y = s")
    case True
    have "z \<in> set ys" if "sort_by cmp ys = z # zs" for z zs using set_sort_by [of cmp ys] that by auto
    then show ?thesis using True Cons.prems unfolding eq by (cases "sort_by cmp ys") auto
  next
    case False
    with Cons.prems(1) have s: "s \<in> set ys" by simp
    obtain zs where "sort_by cmp ys = s # zs" using Cons.IH [OF s] Cons.prems by auto
    moreover have "cmp y s > 0" using Cons.prems(3) [of y] False by simp
    ultimately show ?thesis unfolding eq by simp
  qed
qed

definition earlier :: "env \<Rightarrow> string \<Rightarrow> string \<Rightarrow> bool" where
  "earlier e a b \<longleftrightarrow> locale_compare e a b < 0 \<and> 0 < locale_compare e b a"

lemma pruned_newest:
  assumes wf: "wf_table sn_snapshotId ss" and s: "s \<in> set ss" "n_id s = i"
    and new: "\<And>x. x \<in> set ss \<Longrightarrow> n_id x = i \<Longrightarrow> x \<noteq> s \<Longrightarrow> earlier e (sn_savedAt x) (sn_savedAt s)"
  shows "s \<in> set (pruned e i ss)"
proof -
  let ?mine = "filter (\<lambda>s. n_id s = i) ss"
  let ?sorted = "sortLocalNoteSnapshots e ?mine"
  have d: "distinct ?mine" using wf_table_distinct [OF wf] by (simp add: distinct_map)
  obtain zs where z: "?sorted = s # zs" unfolding sortLocalNoteSnapshots_def
    using sort_by_first [of s ?mine "compare_snapshots e"] s d new by (fastforce simp: compare_snapshots_def earlier_def)
  have "mset ?sorted = mset ?mine" by (simp add: sortLocalNoteSnapshots_def)
  then have "distinct ?sorted" using d mset_eq_imp_distinct_iff by blast
  then have fresh: "s \<notin> set (drop MAX_LOCAL_NOTE_SNAPSHOTS_PER_NOTE ?sorted)"
    by (auto simp: z MAX_LOCAL_NOTE_SNAPSHOTS_PER_NOTE_def drop_Cons' dest: in_set_dropD)
  have "sn_snapshotId x \<noteq> sn_snapshotId s" if x: "x \<in> set (drop MAX_LOCAL_NOTE_SNAPSHOTS_PER_NOTE ?sorted)" for x
  proof
    assume "sn_snapshotId x = sn_snapshotId s"
    moreover have "x \<in> set ss" using in_set_dropD [OF x] by (simp add: sortLocalNoteSnapshots_def)
    ultimately have "x = s" using wf_table_inj [OF wf _ s(1)] by blast
    with x fresh show False by simp
  qed
  then show ?thesis using s(1) unfolding pruned_def fold_tdel by fastforce
qed

lemma snapshot_of_simps [simp]:
  "n_id (snapshot_of n i t r) = n_id n" "n_title (snapshot_of n i t r) = n_title n" "n_body (snapshot_of n i t r) = n_body n"
  "n_titleHash (snapshot_of n i t r) = n_titleHash n" "n_bodyHash (snapshot_of n i t r) = n_bodyHash n"
  "sn_snapshotId (snapshot_of n i t r) = i" "sn_reason (snapshot_of n i t r) = r" "sn_savedAt (snapshot_of n i t r) = t"
  by (simp_all add: snapshot_of_def LocalNote.extend_def LocalNoteSnapshot.fields_def)

lemma record_snapshotD:
  assumes q: "quiet cx" and d: "\<not> truthy_opt (n_deletedAt n)" and run: "recordLocalNoteSnapshot cx n reason c = (Inr (), c')"
  shows "\<exists>t stored fx fx' k. encryptNoteFields (cx_crypto cx) (cx_material cx)
        (snapshot_of n (uuid (cx_env cx) (f_fresh (cl_fx c))) t reason) fx = Inr (stored, fx') \<and>
      c' = c\<lparr>cl_fx := fx', cl_awaits := k, cl_snapshots := pruned (cx_env cx) (n_id n) (tput sn_snapshotId stored (cl_snapshots c))\<rparr>"
proof -
  let ?t = "to_iso (clock (cx_env cx) (f_ticks (cl_fx c)))"
  let ?fx = "(cl_fx c)\<lparr>f_ticks := Suc (f_ticks (cl_fx c)), f_fresh := Suc (f_fresh (cl_fx c))\<rparr>"
  obtain stored fx' where "encryptNoteFields (cx_crypto cx) (cx_material cx)
        (snapshot_of n (uuid (cx_env cx) (f_fresh (cl_fx c))) ?t reason) ?fx = Inr (stored, fx')"
      "c' = c\<lparr>cl_fx := fx', cl_awaits := Suc (cl_awaits c),
         cl_snapshots := pruned (cx_env cx) (n_id n) (tput sn_snapshotId stored (cl_snapshots c))\<rparr>"
    using run d q
    by (auto simp: recordLocalNoteSnapshot_def bnd_Inr seq_Inr now_action_def id_action_def effect_def nowIso_def newId_def
        check_effect_Inr prune_run)
  then show ?thesis by blast
qed

lemma record_snapshot_sealed:
  assumes "quiet cx" and "usable_material (cx_material cx)" and "\<not> truthy_opt (n_deletedAt n)"
    and s: "sealed_note (cx_crypto cx) (cx_material cx) p n"
  shows "\<exists>k fx. recordLocalNoteSnapshot cx n reason c = (Inr (), c\<lparr>cl_fx := fx, cl_awaits := k, cl_snapshots :=
    pruned (cx_env cx) (n_id n) (tput sn_snapshotId (snapshot_of n (uuid (cx_env cx) (f_fresh (cl_fx c)))
      (to_iso (clock (cx_env cx) (f_ticks (cl_fx c)))) reason) (cl_snapshots c))\<rparr>)"
proof -
  have "sealed_note (cx_crypto cx) (cx_material cx) p (snapshot_of n i t reason)" for i t
    by (rule sealed_note_frame [OF s]) simp_all
  note e = encryptNoteFields_sealed [OF assms(2) this]
  show ?thesis
    by (simp add: recordLocalNoteSnapshot_def assms bnd_run seq_run now_action_def id_action_def effect_def nowIso_def newId_def
        check_effect_def e prune_run) blast
qed

lemma filter_tput:
  "\<forall>s \<in> set t. key s \<noteq> key r \<Longrightarrow> \<not> P r \<Longrightarrow> filter P (tput key r t) = filter P t"
  "\<forall>s \<in> set t. key s \<noteq> key r \<Longrightarrow> P r \<Longrightarrow> length (filter P (tput key r t)) = Suc (length (filter P t))"
  "\<forall>s \<in> set t. key s \<noteq> key r \<Longrightarrow> set (tput key r t) = insert r (set t)"
  by (induction t) auto

lemma snapshot_storedD:
  "encryptNoteFields cr m (snapshot_of n i t r) fx = Inr (stored, fx') \<Longrightarrow> n_id stored = n_id n \<and> sn_snapshotId stored = i"
  by (auto dest!: encryptNoteFieldsD)

text \<open>
  Recording a snapshot keeps the history of the note within fifty entries, loses none of them while
  there are fewer, and leaves the histories of all other notes alone.
\<close>

lemma snapshot_history_bounded:
  assumes "quiet cx" and "wf_table sn_snapshotId (cl_snapshots c)" and "\<not> truthy_opt (n_deletedAt n)"
    and "\<forall>s \<in> set (cl_snapshots c). sn_snapshotId s \<noteq> uuid (cx_env cx) (f_fresh (cl_fx c))"
    and "recordLocalNoteSnapshot cx n reason c = (Inr (), c')"
  shows "length (snapshots_of_note (n_id n) c') \<le> 50 \<and>
    (length (snapshots_of_note (n_id n) c) < 50 \<longrightarrow>
       length (snapshots_of_note (n_id n) c') = Suc (length (snapshots_of_note (n_id n) c)) \<and>
       set (snapshots_of_note (n_id n) c) \<subseteq> set (snapshots_of_note (n_id n) c')) \<and>
    (\<forall>j. j \<noteq> n_id n \<longrightarrow> snapshots_of_note j c' = snapshots_of_note j c)"
proof -
  obtain t stored fx fx' k where e: "encryptNoteFields (cx_crypto cx) (cx_material cx)
        (snapshot_of n (uuid (cx_env cx) (f_fresh (cl_fx c))) t reason) fx = Inr (stored, fx')"
    and c': "c' = c\<lparr>cl_fx := fx', cl_awaits := k, cl_snapshots := pruned (cx_env cx) (n_id n) (tput sn_snapshotId stored (cl_snapshots c))\<rparr>"
    using record_snapshotD [OF assms(1,3,5)] by blast
  note id = snapshot_storedD [OF e]
  let ?ss = "tput sn_snapshotId stored (cl_snapshots c)"
  have wf: "wf_table sn_snapshotId ?ss" by (rule wf_table_tput [OF assms(2)])
  have fr: "\<forall>s \<in> set (cl_snapshots c). sn_snapshotId s \<noteq> sn_snapshotId stored" using assms(4) id by simp
  have of: "snapshots_of_note j c' = filter (\<lambda>s. n_id s = j) (pruned (cx_env cx) (n_id n) ?ss)" for j
    by (simp add: snapshots_of_note_def c')
  have a: "length (snapshots_of_note (n_id n) c') \<le> 50"
    using pruned_bound [OF wf, of "n_id n" "cx_env cx"] by (simp add: of MAX_LOCAL_NOTE_SNAPSHOTS_PER_NOTE_def)
  have b: "snapshots_of_note j c' = snapshots_of_note j c" if "j \<noteq> n_id n" for j
    using pruned_others [OF wf that] filter_tput(1) [OF fr, of "\<lambda>s. n_id s = j"] that id by (simp add: c' snapshots_of_note_def)
  have len: "length (filter (\<lambda>s. n_id s = n_id n) ?ss) = Suc (length (snapshots_of_note (n_id n) c))"
    using filter_tput(2) [OF fr, of "\<lambda>s. n_id s = n_id n"] id by (simp add: snapshots_of_note_def)
  have s: "snapshots_of_note (n_id n) c' = filter (\<lambda>s. n_id s = n_id n) ?ss" if "length (snapshots_of_note (n_id n) c) < 50"
    using pruned_short [of "n_id n" ?ss] len that by (simp add: of MAX_LOCAL_NOTE_SNAPSHOTS_PER_NOTE_def)
  have sub: "set (snapshots_of_note (n_id n) c) \<subseteq> set (filter (\<lambda>s. n_id s = n_id n) ?ss)"
    using filter_tput(3) [OF fr] by (auto simp: snapshots_of_note_def)
  show ?thesis using a b len s sub by simp
qed

lemma sealed_sample:
  "\<exists>n::LocalNote. sealed_note plain_crypto direct_material sample_note n \<and> n_id n = ''n1'' \<and> n_deletedAt n = None"
proof -
  have "plain_note sample_note" using plain_sample_note by (simp add: plain_note_def sample_note_def)
  from encryptNoteFields_plain [OF plain_crypto_ok usable_direct_material this, of start_effects]
  obtain t b th bh where "sealed_note plain_crypto direct_material sample_note
    (sample_note\<lparr>n_titleHash := th, n_bodyHash := bh, n_title := t, n_body := b\<rparr>)" by blast
  then show ?thesis
    by (intro exI [of _ "sample_note\<lparr>n_titleHash := th, n_bodyHash := bh, n_title := t, n_body := b\<rparr>"])
      (simp add: sample_note_def plain_sample_def)
qed

lemma snapshot_history_bounded_witness:
  "\<exists>n c'. recordLocalNoteSnapshot sample_ctxt n Edit_reason sample_client = (Inr (), c') \<and>
     length (snapshots_of_note ''n1'' c') = 1"
proof -
  obtain n :: LocalNote where n: "sealed_note plain_crypto direct_material sample_note n" "n_id n = ''n1''" "n_deletedAt n = None"
    using sealed_sample by blast
  have s: "sealed_note (cx_crypto sample_ctxt) (cx_material sample_ctxt) sample_note n"
    and d: "\<not> truthy_opt (n_deletedAt n)" and m: "usable_material (cx_material sample_ctxt)" using n usable_direct_material by simp_all
  obtain c' where run: "recordLocalNoteSnapshot sample_ctxt n Edit_reason sample_client = (Inr (), c')"
    using record_snapshot_sealed [OF quiet_sample m d s, of Edit_reason sample_client] by blast
  have e: "cl_snapshots sample_client = []" by (simp add: sample_client_def)
  have "wf_table sn_snapshotId (cl_snapshots sample_client)"
    "\<forall>s \<in> set (cl_snapshots sample_client). sn_snapshotId s \<noteq> uuid (cx_env sample_ctxt) (f_fresh (cl_fx sample_client))"
    by (simp_all add: e wf_table_def)
  from snapshot_history_bounded [OF quiet_sample this(1) d this(2) run] run n(2) show ?thesis
    by (auto simp: snapshots_of_note_def e)
qed

section \<open>Edits\<close>

lemma device_frame:
  assumes "getOrCreateDevice cx c = (r, c')"
  shows "cl_notes c' = cl_notes c" "cl_snapshots c' = cl_snapshots c" "cl_notebooks c' = cl_notebooks c"
    "f_fresh (cl_fx c) \<le> f_fresh (cl_fx c')" "f_ticks (cl_fx c') = f_ticks (cl_fx c)"
  using assms
  by (auto simp: getOrCreateDevice_def bnd_run seq_run id_action_def effect_def newId_def Let_def split: option.splits if_splits)

lemma now_run: "\<exists>t fx. now_action cx c = (Inr t, c\<lparr>cl_fx := fx\<rparr>) \<and> f_fresh fx = f_fresh (cl_fx c) \<and> f_ticks fx = Suc (f_ticks (cl_fx c))"
  by (auto simp: now_action_def effect_def nowIso_def)

lemma put_encrypted_plain:
  assumes "quiet cx" and "crypto_ok (cx_crypto cx)" and "usable_material (cx_material cx)" and "plain_note n"
  shows "\<exists>fx k t b th bh. put_encrypted_note cx n c = (Inr (), c\<lparr>cl_fx := fx, cl_awaits := k, cl_notes := tput n_id
      (n\<lparr>n_titleHash := th, n_bodyHash := bh, n_title := t, n_body := b\<rparr>) (cl_notes c)\<rparr>) \<and>
    sealed_note (cx_crypto cx) (cx_material cx) n (n\<lparr>n_titleHash := th, n_bodyHash := bh, n_title := t, n_body := b\<rparr>)"
proof -
  from encryptNoteFields_plain [OF assms(2-4), of "cl_fx c"] obtain t b th bh fx where
    e: "encryptNoteFields (cx_crypto cx) (cx_material cx) n (cl_fx c) = Inr (n\<lparr>n_titleHash := th, n_bodyHash := bh, n_title := t, n_body := b\<rparr>, fx)"
    and s: "sealed_note (cx_crypto cx) (cx_material cx) n (n\<lparr>n_titleHash := th, n_bodyHash := bh, n_title := t, n_body := b\<rparr>)" by blast
  show ?thesis using s
    by (intro exI [of _ fx] exI [of _ "Suc (cl_awaits c)"] exI [of _ t] exI [of _ b] exI [of _ th] exI [of _ bh])
      (simp add: put_encrypted_note_def bnd_run seq_run check_effect_def e assms(1) putNote_def)
qed

lemma updateNoteContent_run:
  assumes q: "quiet cx" and ok: "crypto_ok (cx_crypto cx)" "usable_material (cx_material cx)"
    and n: "storedNote i c = Some n" "\<not> truthy_opt (n_deletedAt n)" and s: "sealed_note (cx_crypto cx) (cx_material cx) p n"
    and new: "plain_text (trim title)" "plain_text body" "n_title p \<noteq> trim title \<or> n_body p \<noteq> body"
  shows "\<exists>d t1 j c1 fx k stored. f_ticks (cl_fx c) \<le> j \<and> f_fresh (cl_fx c) \<le> f_fresh (cl_fx c1) \<and>
    updateNoteContent cx i title body c = (Inr (Some ((touched d t1 n)\<lparr>n_title := trim title, n_body := body\<rparr>)),
      c1\<lparr>cl_fx := fx, cl_awaits := k, cl_notes := tput n_id stored (cl_notes c),
        cl_snapshots := pruned (cx_env cx) i (tput sn_snapshotId (snapshot_of n (uuid (cx_env cx) (f_fresh (cl_fx c1))) (to_iso (clock (cx_env cx) j)) Edit_reason) (cl_snapshots c))\<rparr>) \<and>
    sealed_note (cx_crypto cx) (cx_material cx) ((touched d t1 n)\<lparr>n_title := trim title, n_body := body\<rparr>) stored \<and>
    (\<exists>t b th bh. stored = (touched d t1 n)\<lparr>n_titleHash := th, n_bodyHash := bh, n_title := t, n_body := b\<rparr>)"
proof -
  obtain d c1 where d: "getOrCreateDevice cx c = (Inr d, c1)" using getOrCreateDevice_Inr by blast
  note fr = device_frame [OF d]
  obtain t1 fx1 where t1: "now_action cx c1 = (Inr t1, c1\<lparr>cl_fx := fx1\<rparr>)" "f_fresh fx1 = f_fresh (cl_fx c1)"
    "f_ticks fx1 = Suc (f_ticks (cl_fx c1))" using now_run by blast
  let ?u = "(touched d t1 n)\<lparr>n_title := trim title, n_body := body\<rparr>"
  have i: "n_id n = i" using n(1) by (rule tget_key)
  let ?t2 = "to_iso (clock (cx_env cx) (Suc (f_ticks (cl_fx c))))"
  obtain k fx2 where r: "recordLocalNoteSnapshot cx n Edit_reason (c1\<lparr>cl_fx := fx1\<rparr>) = (Inr (), c1\<lparr>cl_fx := fx2, cl_awaits := k,
      cl_snapshots := pruned (cx_env cx) i (tput sn_snapshotId (snapshot_of n (uuid (cx_env cx) (f_fresh (cl_fx c1))) ?t2 Edit_reason) (cl_snapshots c))\<rparr>)"
    using record_snapshot_sealed [OF q ok(2) n(2) s, of Edit_reason "c1\<lparr>cl_fx := fx1\<rparr>"] fr(2,5) t1(2,3) i by auto
  have pl: "plain_note ?u" using new by (simp add: plain_note_def)
  let ?ss = "pruned (cx_env cx) i (tput sn_snapshotId (snapshot_of n (uuid (cx_env cx) (f_fresh (cl_fx c1))) ?t2 Edit_reason) (cl_snapshots c))"
  let ?c = "c1\<lparr>cl_fx := fx2, cl_awaits := k, cl_snapshots := ?ss\<rparr>"
  obtain fx3 k3 t b th bh where
    p: "put_encrypted_note cx ?u ?c = (Inr (), ?c\<lparr>cl_fx := fx3, cl_awaits := k3, cl_notes := tput n_id
      (?u\<lparr>n_titleHash := th, n_bodyHash := bh, n_title := t, n_body := b\<rparr>) (cl_notes ?c)\<rparr>)"
    and sp: "sealed_note (cx_crypto cx) (cx_material cx) ?u (?u\<lparr>n_titleHash := th, n_bodyHash := bh, n_title := t, n_body := b\<rparr>)"
    using put_encrypted_plain [OF q ok pl, of ?c] by blast
  let ?st = "?u\<lparr>n_titleHash := th, n_bodyHash := bh, n_title := t, n_body := b\<rparr>"
  have dec: "decrypted cx n c = (Inr (n\<lparr>n_title := n_title p, n_body := n_body p\<rparr>), c)"
    by (simp add: decrypted_def decryptNoteFields_sealed [OF s])
  have "updateNoteContent cx i title body c = (Inr (Some ?u), c1\<lparr>cl_fx := fx3, cl_awaits := k3, cl_notes := tput n_id ?st (cl_notes c), cl_snapshots := ?ss\<rparr>)"
  proof -
    have ne: "\<not> (n_title p = trim title \<and> n_body p = body)" using new(3) by blast
    show ?thesis by (simp add: updateNoteContent_def bnd_run seq_run n dec d t1(1) r p fr(1) ne Let_def del: de_Morgan_conj)
  qed
  moreover have "?st = (touched d t1 n)\<lparr>n_titleHash := th, n_bodyHash := bh, n_title := t, n_body := b\<rparr>" by simp
  moreover have "f_ticks (cl_fx c) \<le> Suc (f_ticks (cl_fx c))" by simp
  ultimately show ?thesis using fr(4) sp by blast
qed

text \<open>
  C32. Editing a note that is sealed under the primary key, with new texts that do not look like envelopes, never
  loses the text it replaces: the note takes the new title and body, counts
  as pending with the next version and keeps everything else; the previous title and body are in the
  history of the note and can be decrypted, also when the history is full and its oldest entry is pruned,
  provided the clock has not gone back behind the earlier entries; below fifty entries the history loses
  none; no other note changes. (The edit is not interrupted by other writes: \<open>quiet\<close>.)
\<close>

theorem edit_keeps_previous_text:
  assumes "quiet cx" and "crypto_ok (cx_crypto cx)" and "usable_material (cx_material cx)"
    and "storedNote i c = Some n" and "\<not> truthy_opt (n_deletedAt n)" and "sealed_note (cx_crypto cx) (cx_material cx) p n"
    and "plain_text (trim title)" and "plain_text body" and "n_title p \<noteq> trim title \<or> n_body p \<noteq> body"
    and "wf_table sn_snapshotId (cl_snapshots c)"
    and "length (snapshots_of_note i c) < 50 \<or> (\<forall>j s. f_ticks (cl_fx c) \<le> j \<longrightarrow> s \<in> set (snapshots_of_note i c) \<longrightarrow>
      earlier (cx_env cx) (sn_savedAt s) (to_iso (clock (cx_env cx) j)))"
    and "\<forall>j s. f_fresh (cl_fx c) \<le> j \<longrightarrow> s \<in> set (cl_snapshots c) \<longrightarrow> sn_snapshotId s \<noteq> uuid (cx_env cx) j"
    and "updateNoteContent cx i title body c = (r, c')"
  shows "(\<exists>n' np. storedNote i c' = Some n' \<and> decryptNoteFields (cx_crypto cx) (cx_material cx) n' = Inr np \<and>
       n_title np = trim title \<and> n_body np = body \<and> n_version n' = js_add1 (n_version n) \<and> n_syncStatus n' = Pending \<and>
       ln_lastSyncedVersion n' = ln_lastSyncedVersion n \<and> n_notebookIds n' = n_notebookIds n \<and>
       n_trashedAt n' = n_trashedAt n \<and> n_deletedAt n' = n_deletedAt n \<and> n_isFavorite n' = n_isFavorite n) \<and>
    (\<exists>s sp. s \<in> set (snapshots_of_note i c') \<and> sn_reason s = Edit_reason \<and>
       decryptNoteFields (cx_crypto cx) (cx_material cx) s = Inr sp \<and> n_title sp = n_title p \<and> n_body sp = n_body p) \<and>
    (length (snapshots_of_note i c) < 50 \<longrightarrow> set (snapshots_of_note i c) \<subseteq> set (snapshots_of_note i c')) \<and>
    (\<forall>j. j \<noteq> i \<longrightarrow> storedNote j c' = storedNote j c)"
proof -
  obtain d t1 j c1 fx k stored where later: "f_ticks (cl_fx c) \<le> j" and fr: "f_fresh (cl_fx c) \<le> f_fresh (cl_fx c1)" and
    run: "updateNoteContent cx i title body c = (Inr (Some ((touched d t1 n)\<lparr>n_title := trim title, n_body := body\<rparr>)),
      c1\<lparr>cl_fx := fx, cl_awaits := k, cl_notes := tput n_id stored (cl_notes c),
        cl_snapshots := pruned (cx_env cx) i (tput sn_snapshotId (snapshot_of n (uuid (cx_env cx) (f_fresh (cl_fx c1)))
          (to_iso (clock (cx_env cx) j)) Edit_reason) (cl_snapshots c))\<rparr>)"
    and sealed: "sealed_note (cx_crypto cx) (cx_material cx) ((touched d t1 n)\<lparr>n_title := trim title, n_body := body\<rparr>) stored"
    and st: "\<exists>t b th bh. stored = (touched d t1 n)\<lparr>n_titleHash := th, n_bodyHash := bh, n_title := t, n_body := b\<rparr>"
    using updateNoteContent_run [OF assms(1-9)] by blast
  let ?s = "snapshot_of n (uuid (cx_env cx) (f_fresh (cl_fx c1))) (to_iso (clock (cx_env cx) j)) Edit_reason"
  let ?ss = "tput sn_snapshotId ?s (cl_snapshots c)"
  have i: "n_id n = i" using assms(4) by (rule tget_key)
  have c': "cl_notes c' = tput n_id stored (cl_notes c)" "cl_snapshots c' = pruned (cx_env cx) i ?ss"
    using run assms(13) by auto
  have id: "n_id stored = i" using st i by auto
  have fresh: "\<forall>s \<in> set (cl_snapshots c). sn_snapshotId s \<noteq> sn_snapshotId ?s" using assms(12) fr by simp
  have all: "set ?ss = insert ?s (set (cl_snapshots c))" by (rule filter_tput(3) [OF fresh])
  have "length (filter (\<lambda>s. n_id s = i) ?ss) = Suc (length (snapshots_of_note i c))"
    using filter_tput(2) [OF fresh, of "\<lambda>s. n_id s = i"] i by (simp add: snapshots_of_note_def)
  then have few: "cl_snapshots c' = ?ss" if "length (snapshots_of_note i c) < 50"
    using that c'(2) pruned_short [of i ?ss "cx_env cx"] by (simp add: MAX_LOCAL_NOTE_SNAPSHOTS_PER_NOTE_def)
  have full: "?s \<in> set (pruned (cx_env cx) i ?ss)" if "\<not> length (snapshots_of_note i c) < 50"
    by (rule pruned_newest [OF wf_table_tput [OF assms(10)]])
      (use all i that assms(11) later in \<open>auto simp: snapshots_of_note_def\<close>)
  have kept: "?s \<in> set (snapshots_of_note i c')"
    using few full c'(2) all i by (cases "length (snapshots_of_note i c) < 50") (simp_all add: snapshots_of_note_def)
  have old: "set (snapshots_of_note i c) \<subseteq> set (snapshots_of_note i c')" if "length (snapshots_of_note i c) < 50"
    using few [OF that] all by (auto simp: snapshots_of_note_def)
  have "sealed_note (cx_crypto cx) (cx_material cx) p ?s" by (rule sealed_note_frame [OF assms(6)]) simp_all
  note dec = decryptNoteFields_sealed [OF this]
  have "storedNote i c' = Some stored" "\<forall>j. j \<noteq> i \<longrightarrow> storedNote j c' = storedNote j c" by (simp_all add: c' tget_tput id)
  moreover have "\<exists>s sp. s \<in> set (snapshots_of_note i c') \<and> sn_reason s = Edit_reason \<and>
       decryptNoteFields (cx_crypto cx) (cx_material cx) s = Inr sp \<and> n_title sp = n_title p \<and> n_body sp = n_body p"
    using kept dec by (intro exI [of _ ?s] exI [of _ "?s\<lparr>n_title := n_title p, n_body := n_body p\<rparr>"] conjI) simp_all
  ultimately show ?thesis using old decryptNoteFields_sealed [OF sealed] st by (auto simp: touched_def)
qed

theorem edit_keeps_previous_text_witness:
  "\<exists>c n r c'. storedNote ''n1'' c = Some n \<and> updateNoteContent sample_ctxt ''n1'' ''New'' ''Text'' c = (r, c') \<and>
     (\<exists>s sp. s \<in> set (snapshots_of_note ''n1'' c') \<and> decryptNoteFields plain_crypto direct_material s = Inr sp \<and>
       n_title sp = ''Title'' \<and> n_body sp = ''Body'')"
proof -
  obtain n :: LocalNote where n: "sealed_note plain_crypto direct_material sample_note n" "n_id n = ''n1''" "n_deletedAt n = None"
    using sealed_sample by blast
  let ?c = "sample_client\<lparr>cl_notes := [n]\<rparr>"
  have s: "sealed_note (cx_crypto sample_ctxt) (cx_material sample_ctxt) sample_note n" using n by simp
  have d: "\<not> truthy_opt (n_deletedAt n)" using n by simp
  have g: "storedNote ''n1'' ?c = Some n" using n by (simp add: tget_def)
  have pl: "plain_text (trim ''New'')" "plain_text ''Text''" by code_simp+
  have ch: "n_title sample_note \<noteq> trim ''New'' \<or> n_body sample_note \<noteq> ''Text''" by (simp add: sample_note_def plain_sample_def)
  have few: "wf_table sn_snapshotId (cl_snapshots ?c)"
    "length (snapshots_of_note ''n1'' ?c) < 50 \<or> (\<forall>j s. f_ticks (cl_fx ?c) \<le> j \<longrightarrow> s \<in> set (snapshots_of_note ''n1'' ?c) \<longrightarrow>
      earlier (cx_env sample_ctxt) (sn_savedAt s) (to_iso (clock (cx_env sample_ctxt) j)))"
    "\<forall>j s. f_fresh (cl_fx ?c) \<le> j \<longrightarrow> s \<in> set (cl_snapshots ?c) \<longrightarrow> sn_snapshotId s \<noteq> uuid (cx_env sample_ctxt) j"
    by (simp_all add: snapshots_of_note_def sample_client_def wf_table_def)
  obtain r c' where run: "updateNoteContent sample_ctxt ''n1'' ''New'' ''Text'' ?c = (r, c')" by fastforce
  have ok: "crypto_ok (cx_crypto sample_ctxt)" "usable_material (cx_material sample_ctxt)" using plain_crypto_ok usable_direct_material by simp_all
  have "n_title sample_note = ''Title''" "n_body sample_note = ''Body''" by (simp_all add: sample_note_def plain_sample_def)
  with edit_keeps_previous_text [OF quiet_sample ok g d s pl ch few run] g run show ?thesis
    by (intro exI [of _ ?c] exI [of _ n] exI [of _ r] exI [of _ c']) auto
qed

end
