(* ===== verification/PushRefinement.thy ===== *)
theory PushRefinement
  imports PushTheorems
begin

text \<open>
  The contract of the server for notes: every account has one versioned register per note, and a push
  is a sequence of compare-and-set operations on these registers. \<open>registers\<close> reads the registers
  off the database, \<open>spec_push\<close> is the abstract operation, and the theorem shows that \<open>pushChanges\<close>
  implements it, whatever happens to devices, notebooks, snapshots and the change log around it.
\<close>

section \<open>The abstract registers\<close>

datatype note_register = Absent | Live Note | Gone int

type_synonym registers = "string \<Rightarrow> note_register"

definition registers :: "server \<Rightarrow> string \<Rightarrow> registers" where
  "registers s owner i =
     (case getNote s i owner of
        Some n \<Rightarrow> Live n
      | None \<Rightarrow> (case getEntityTombstone s owner Note_entity i of Some t \<Rightarrow> Gone (t_version t) | None \<Rightarrow> Absent))"

text \<open>A note keeps the notebooks that are active; \<open>stripped\<close> tells whether that changed its references.\<close>

definition with_active_notebooks :: "(string \<Rightarrow> bool) \<Rightarrow> Note \<Rightarrow> Note \<times> bool" where
  "with_active_notebooks active n =
     (let ids = filter active (noteNotebookIds n);
          n' = n\<lparr>n_notebookIds := ids, n_notebookId := first_or_null ids\<rparr>
      in (n', noteNotebookRefsChanged n n'))"

fun compare_and_set :: "int \<Rightarrow> Note \<times> bool \<Rightarrow> note_register \<Rightarrow> note_register \<times> bool" where
  "compare_and_set base (n, stripped) Absent = (Live (n\<lparr>n_version := 1, n_syncStatus := Synced\<rparr>), True)"
| "compare_and_set base (n, stripped) (Gone v) =
     (if base = v then (Live (n\<lparr>n_version := js_add1 v, n_syncStatus := Synced\<rparr>), True) else (Gone v, False))"
| "compare_and_set base (n, stripped) (Live r) =
     (if notesDiffer n r \<and> base \<noteq> n_version r then (Live r, False)
      else if \<not> notesDiffer n r \<and> \<not> stripped then (Live r, True)
      else (Live (n\<lparr>n_version := js_add1 (n_version r), n_syncStatus := Synced\<rparr>), True))"

definition register_step :: "(string \<Rightarrow> bool) \<Rightarrow> Note entity_change \<Rightarrow> note_register \<Rightarrow> note_register \<times> bool" where
  "register_step active c = compare_and_set (c_baseVersion c) (with_active_notebooks active (c_record c))"

text \<open>The changes of a request in order: the registers reached and the identifiers accepted.\<close>

fun spec_push :: "(string \<Rightarrow> bool) \<Rightarrow> Note entity_change list \<Rightarrow> registers \<Rightarrow> registers \<times> string list" where
  "spec_push active [] m = (m, [])"
| "spec_push active (c # cs) m =
     (let i = n_id (c_record c);
          (r, ok) = register_step active c (m i);
          (m', ids) = spec_push active cs (m(i := r))
      in (m', (if ok then [i] else []) @ ids))"

section \<open>Folding distinct changes\<close>

lemma spec_push_other: "i \<notin> set (map (n_id \<circ> c_record) cs) \<Longrightarrow> fst (spec_push active cs m) i = m i"
  by (induction cs arbitrary: m) (auto simp: Let_def split: prod.splits, metis fst_conv fun_upd_other)

lemma spec_push_distinct:
  assumes "distinct (map (n_id \<circ> c_record) cs)" and "\<forall>c \<in> set cs. m (n_id (c_record c)) = m0 (n_id (c_record c))"
  shows "snd (spec_push active cs m) =
      map (n_id \<circ> c_record) (filter (\<lambda>c. snd (register_step active c (m0 (n_id (c_record c))))) cs) \<and>
    (\<forall>c \<in> set cs. fst (spec_push active cs m) (n_id (c_record c)) = fst (register_step active c (m0 (n_id (c_record c)))))"
  using assms
proof (induction cs arbitrary: m)
  case (Cons x cs)
  let ?i = "n_id (c_record x)"
  define m1 where "m1 = m(?i := fst (register_step active x (m ?i)))"
  have fresh: "?i \<notin> set (map (n_id \<circ> c_record) cs)" and d: "distinct (map (n_id \<circ> c_record) cs)" using Cons.prems(1) by (simp_all add: comp_def)
  have eq: "m ?i = m0 ?i" using Cons.prems(2) by simp
  have same: "\<forall>c \<in> set cs. m1 (n_id (c_record c)) = m0 (n_id (c_record c))" using Cons.prems(2) fresh by (auto simp: image_iff m1_def)
  have run: "spec_push active (x # cs) m = (fst (spec_push active cs m1),
      (if snd (register_step active x (m ?i)) then [?i] else []) @ snd (spec_push active cs m1))"
    by (simp add: Let_def case_prod_beta m1_def)
  have first: "fst (spec_push active cs m1) ?i = fst (register_step active x (m0 ?i))"
    using spec_push_other [OF fresh, of active m1] eq by (simp add: m1_def)
  show ?case unfolding run using Cons.IH [of m1, OF d same] first by (simp add: eq)
qed simp

section \<open>One change\<close>

lemma notebook_ids_truthy: "i \<in> set (noteNotebookIds n) \<Longrightarrow> truthy i"
proof -
  assume "i \<in> set (noteNotebookIds n)"
  then have "i \<in> {trim i |i. i \<in> set (noteNotebookIds n) \<and> trim i \<noteq> []}"
    using set_normalizedNotebookIds [of "noteNotebookIds n"] by simp
  then have "i \<noteq> []" by auto
  then show ?thesis by (simp add: truthy_def)
qed

text \<open>The notebooks of the request and the stored ones together say which references are kept.\<close>

lemma syncable_lookup:
  assumes wf: "wf_server s" and st: "\<And>nb. nb \<in> set nbs \<Longrightarrow> getNotebook s (nb_id nb) owner = Some nb"
    and c: "c \<in> set (pr_notes req)" and i: "i \<in> set (noteNotebookIds (c_record c))"
  shows "map_of (syncable_notebooks req owner nbs s) i = getNotebook s i owner"
proof -
  let ?m = "getNotebooksByIds s (concat (map (noteNotebookIds \<circ> c_record) (pr_notes req))) owner"
  have m: "map_of ?m i = getNotebook s i owner"
    using wf c i notebook_ids_truthy [OF i] by (auto simp: getNotebooksByIds_lookup wf_server_def wf_tables_def)
  have "map_of (fold (\<lambda>nb. map_set (nb_id nb) nb) nbs m) i = getNotebook s i owner"
    if "map_of m i = getNotebook s i owner" "\<forall>nb \<in> set nbs. getNotebook s (nb_id nb) owner = Some nb" for nbs m
    using that by (induction nbs arbitrary: m) (auto simp: update_conv')
  from this [OF m, of nbs] st show ?thesis by (simp add: syncable_notebooks_def)
qed

lemma with_active_notebooks_eq:
  assumes "\<And>i. i \<in> set (noteNotebookIds n) \<Longrightarrow>
      active i \<longleftrightarrow> (case map_of nbs i of Some nb \<Rightarrow> \<not> truthy_opt (nb_deletedAt nb) | None \<Rightarrow> False)"
  shows "noteWithSyncableNotebookRefsFromMap n nbs = with_active_notebooks active n"
proof -
  have "filter (\<lambda>i. case map_of nbs i of Some nb \<Rightarrow> \<not> truthy_opt (nb_deletedAt nb) | None \<Rightarrow> False) (noteNotebookIds n)
      = filter active (noteNotebookIds n)"
    using assms by (intro filter_cong) auto
  then show ?thesis by (simp add: noteWithSyncableNotebookRefsFromMap_def with_active_notebooks_def Let_def)
qed

lemma with_active_notebooks_id: "n_id (fst (with_active_notebooks active n)) = n_id n"
  by (simp add: with_active_notebooks_def Let_def)

text \<open>What the loop decides is the outcome of the compare-and-set.\<close>

definition outcome :: "note_register \<Rightarrow> Note decision \<Rightarrow> note_register \<times> bool" where
  "outcome old d = (case d of Accept n True \<Rightarrow> (Live n, True) | Accept n False \<Rightarrow> (old, True) | Reject _ _ _ \<Rightarrow> (old, False))"

lemma decideNote_compare_and_set:
  assumes "\<not> po_preserve opts" and "\<not> po_allowTombstoneOverwrite opts"
    and "noteWithSyncableNotebookRefsFromMap (c_record c) nbs = with_active_notebooks active (c_record c)"
    and "map_of remotes (n_id (c_record c)) = remote" and "map_of ts (n_id (c_record c)) = (if remote = None then tomb else None)"
    and "old = (case remote of Some n \<Rightarrow> Live n | None \<Rightarrow> (case tomb of Some t \<Rightarrow> Gone (t_version t) | None \<Rightarrow> Absent))"
  shows "outcome old (decideNote e opts remotes ts nbs c) = register_step active c old"
proof -
  obtain n stripped where w: "with_active_notebooks active (c_record c) = (n, stripped)" by fastforce
  show ?thesis
  proof (cases remote)
    case None
    then show ?thesis using assms w
      by (cases tomb) (auto simp: decideNote_def register_step_def outcome_def tombstoneOverwriteAllowed_def accepted_version_def
          acceptedNewRecordVersion_def nextVersionAfter_def Let_def)
  next
    case (Some r)
    then show ?thesis using assms w
      by (auto simp: decideNote_def register_step_def outcome_def shouldConflict_def accepted_version_def Let_def)
  qed
qed

lemma toNote_written:
  assumes "n_syncStatus n = Synced" and "n_notebookIds n = noteNotebookIds n" and "n_notebookId n = first_or_null (noteNotebookIds n)"
  shows "toNote (written_note_row owner now n old) = n"
proof -
  have w: "nr_note (written_note_row owner now n old) = n" using assms by (simp add: written_note_row_def)
  have norm: "normalizedNotebookIds (n_notebookIds n) = n_notebookIds n" by (metis assms(2) noteNotebookIds_normalized)
  have "noteNotebookIdsFromRow n = n_notebookIds n"
    using norm assms by (cases "noteNotebookIds n") (auto simp: noteNotebookIdsFromRow_def Let_def normalizedNotebookId_def)
  then show ?thesis using assms by (cases "noteNotebookIds n") (simp_all add: toNote_def w Let_def normalizedNotebookId_def)
qed


section \<open>The refinement\<close>

lemma register_frame:
  assumes wf: "wf_server s" and v: "valid_ids req" and run: "push_run e req owner opts s now s1 nbAcc s2 nAcc s3"
    and i: "i \<notin> set (note_ids_of req)"
  shows "registers s3 owner i = registers s owner i"
proof -
  note facts = push_run_facts [OF wf v run]
  from run have d: "distinct (note_ids_of req)" "distinct (notebook_ids_of req)"
    and p1: "pushNotebookPhase e req owner opts now s1 = (nbAcc, s2)"
    and p2: "pushNotePhase e req owner opts now (pa_toWrite nbAcc) s2 = Inr (nAcc, s3)"
    unfolding push_run_def by - (elim conjE, assumption)+
  have row: "get_note_row s3 owner i = get_note_row s owner i"
    using note_row_changed [OF wf v run, of owner i] i by (force simp: note_ids_of_def)
  have "n_id ` set (pa_toWrite nAcc) \<subseteq> set (note_ids_of req)"
    using notes_written(3) [OF facts(2) d(1) v, of "pa_toWrite nAcc" e owner opts "pa_toWrite nbAcc"] note_phase(2) [OF facts(2) d(1) v p2]
    by auto
  then have "getEntityTombstone s3 owner Note_entity i = getEntityTombstone s owner Note_entity i"
    using note_phase(7) [OF facts(2) d(1) v p2, of owner Note_entity i] notebook_phase(7) [OF facts(1) d(2) v p1, of owner Note_entity i] i
    by (auto simp: facts(9))
  then show ?thesis by (simp add: registers_def getNote_def row split: option.split)
qed

lemma register_written:
  assumes wf: "wf_server s" and v: "valid_ids req" and run: "push_run e req owner opts s now s1 nbAcc s2 nAcc s3"
    and client: "\<not> po_preserve opts" "\<not> po_allowTombstoneOverwrite opts" and c: "c \<in> set (pr_notes req)"
  shows "register_step (\<lambda>i. \<exists>nb. getNotebook s3 i owner = Some nb \<and> \<not> truthy_opt (nb_deletedAt nb)) c
       (registers s owner (n_id (c_record c))) =
     (registers s3 owner (n_id (c_record c)), decision_accepts (note_decision e req owner opts (pa_toWrite nbAcc) s2 c) \<noteq> [])"
    (is "register_step ?active c ?old = (?new, _)")
proof -
  note facts = push_run_facts [OF wf v run] and dec = push_run_note_decision [OF wf v run c]
  from run have d: "distinct (note_ids_of req)" "distinct (notebook_ids_of req)"
    and p1: "pushNotebookPhase e req owner opts now s1 = (nbAcc, s2)"
    and p2: "pushNotePhase e req owner opts now (pa_toWrite nbAcc) s2 = Inr (nAcc, s3)"
    unfolding push_run_def by - (elim conjE, assumption)+
  let ?i = "n_id (c_record c)"
  let ?d = "note_decision e req owner opts (pa_toWrite nbAcc) s2 c"
  have st: "nb \<in> set (pa_toWrite nbAcc) \<Longrightarrow> getNotebook s2 (nb_id nb) owner = Some nb" for nb using facts(10) by blast
  have same: "getNotebook s3 j owner = getNotebook s2 j owner" for j by (simp add: getNotebook_def facts(8))
  have refs: "noteWithSyncableNotebookRefsFromMap (c_record c) (syncable_notebooks req owner (pa_toWrite nbAcc) s2)
      = with_active_notebooks ?active (c_record c)"
    by (rule with_active_notebooks_eq) (auto simp: syncable_lookup [OF facts(2) st c] same split: option.splits)
  have out: "outcome ?old ?d = register_step ?active c ?old"
    unfolding note_decision_def Let_def
    by (rule decideNote_compare_and_set [OF client refs dec(2,3)]) (simp add: registers_def)
  show ?thesis
  proof (cases "\<exists>n. ?d = Accept n True")
    case True
    then obtain n where n: "?d = Accept n True" by blast
    note w = note_decision_refs [OF facts(2) st n]
    have "getNote s3 ?i owner = Some n" using dec(4) n toNote_written [OF w(3)] w(4) by (simp add: getNote_def)
    then show ?thesis using out n by (simp add: outcome_def registers_def)
  next
    case False
    have row: "get_note_row s3 owner ?i = get_note_row s owner ?i" using dec(4) False by (cases ?d) (auto split: bool.splits)
    have "?i \<notin> n_id ` set (pa_toWrite nAcc)"
    proof
      assume "?i \<in> n_id ` set (pa_toWrite nAcc)"
      then obtain n where n: "n \<in> set (pa_toWrite nAcc)" "n_id n = ?i" by auto
      with notes_written(4) [OF facts(2) d(1) v, of "pa_toWrite nAcc" e owner opts "pa_toWrite nbAcc"] dec(1)
      obtain c' where c': "c' \<in> set (pr_notes req)" "n_id (c_record c') = ?i"
        "note_decision e req owner opts (pa_toWrite nbAcc) s2 c' = Accept n True" by auto
      have "c' = c" using distinct_change_eq [OF d(1) [unfolded note_ids_of_def] c'(1) c] c'(2) by simp
      with c'(3) False show False by blast
    qed
    then have "getEntityTombstone s3 owner Note_entity ?i = getEntityTombstone s owner Note_entity ?i"
      using note_phase(7) [OF facts(2) d(1) v p2, of owner Note_entity ?i]
        notebook_phase(7) [OF facts(1) d(2) v p1, of owner Note_entity ?i] by (simp add: facts(9))
    then have "?new = ?old" by (simp add: registers_def getNote_def row split: option.split)
    then show ?thesis using out False by (cases ?d) (auto simp: outcome_def split: bool.splits)
  qed
qed

text \<open>
  C37. The database refines the registers: read as versioned registers, what a push of a client leaves
  is what the compare-and-set operations of its note changes, in order, make of the registers before,
  with the references to notebooks that are not active stripped; the notes it answers as accepted are
  those whose operation succeeds.
\<close>

theorem push_refines_registers:
  assumes wf: "wf_server s" and v: "valid_ids req" and push: "pushChanges e req owner opts s = Inr (resp, s')"
    and client: "\<not> po_preserveRecordVersions opts" "\<not> po_preserveNewRecordVersions opts" "\<not> po_allowTombstoneOverwrite opts"
  shows "spec_push (\<lambda>i. \<exists>nb. getNotebook s' i owner = Some nb \<and> \<not> truthy_opt (nb_deletedAt nb)) (pr_notes req) (registers s owner) =
    (registers s' owner, map ac_id (filter (\<lambda>a. ac_entityType a = Note_entity) (ps_accepted resp)))"
    (is "spec_push ?active _ _ = _")
proof -
  from pushChanges_Inr [OF push] obtain now s1 nbAcc s2 nAcc
    where run: "push_run e req owner opts s now s1 nbAcc s2 nAcc s'"
      and resp: "ps_accepted resp = pa_accepted nbAcc @ pa_accepted nAcc" by auto
  note facts = push_run_facts [OF wf v run]
  from run have d: "distinct (map (n_id \<circ> c_record) (pr_notes req))" "distinct (notebook_ids_of req)"
    and p1: "pushNotebookPhase e req owner opts now s1 = (nbAcc, s2)"
    and p2: "pushNotePhase e req owner opts now (pa_toWrite nbAcc) s2 = Inr (nAcc, s')"
    unfolding push_run_def note_ids_of_def by - (elim conjE, assumption)+
  have pres: "\<not> po_preserve opts" using client by simp
  note step = register_written [OF wf v run pres client(3)]
  note spec = spec_push_distinct [OF d(1), of "registers s owner" "registers s owner" ?active, simplified]
  have nacc: "nAcc = pushNotes e req owner opts (pa_toWrite nbAcc) s2"
    using note_phase(2) [OF facts(2) d(1) [folded note_ids_of_def] v p2] .
  let ?d = "note_decision e req owner opts (pa_toWrite nbAcc) s2"
  have cells: "fst (spec_push ?active (pr_notes req) (registers s owner)) = registers s' owner"
  proof
    fix i
    show "fst (spec_push ?active (pr_notes req) (registers s owner)) i = registers s' owner i"
    proof (cases "i \<in> set (note_ids_of req)")
      case True
      then obtain c where "c \<in> set (pr_notes req)" "i = n_id (c_record c)" by (auto simp: note_ids_of_def)
      then show ?thesis using spec step by simp
    next
      case False
      then show ?thesis using register_frame [OF wf v run False] by (simp add: spec_push_other note_ids_of_def)
    qed
  qed
  have t: "wf_table note_key (s_notes s2)" using facts(2) by (simp add: wf_server_def wf_tables_def)
  have ids: "map ac_id (map (accepted note_ops) (concat (map (decision_accepts \<circ> ?d) cs))) =
      map (n_id \<circ> c_record) (filter (\<lambda>c. decision_accepts (?d c) \<noteq> []) cs)" for cs
  proof (induction cs)
    case (Cons c cs)
    have "r \<in> set (decision_accepts (?d c)) \<Longrightarrow> n_id r = n_id (c_record c)" for r
      using note_decision_id(1) [OF t refl, of e req owner opts "pa_toWrite nbAcc" c] by blast
    then show ?case using Cons.IH by (cases "?d c") (auto simp: accepted_def)
  qed simp
  have "filter (\<lambda>c. snd (register_step ?active c (registers s owner (n_id (c_record c))))) (pr_notes req) =
      filter (\<lambda>c. decision_accepts (?d c) \<noteq> []) (pr_notes req)"
    using step by (intro filter_cong) auto
  then have "snd (spec_push ?active (pr_notes req) (registers s owner)) = map ac_id (pa_accepted nAcc)"
    using spec ids [of "pr_notes req"] by (simp add: nacc pushNotes_trace(2) comp_def)
  moreover have "filter (\<lambda>a. ac_entityType a = Note_entity) (pa_accepted nAcc) = pa_accepted nAcc"
    "filter (\<lambda>a. ac_entityType a = Note_entity) (pa_accepted nbAcc) = []"
    using pushNotes_answers(2) [OF t nacc] pushNotebooks_answers(2) [OF _ notebook_phase(2) [OF facts(1) d(2) v p1]] facts(1)
    by (auto simp: filter_id_conv filter_empty_conv wf_server_def wf_tables_def)
  ultimately show ?thesis using cells by (simp add: resp prod_eq_iff)
qed

theorem push_refines_registers_witness:
  "\<exists>resp s'. pushChanges sample_env (sample_push 3) ''ann'' sample_options sample_server = Inr (resp, s') \<and>
     (\<exists>n. registers s' ''ann'' ''n1'' = Live n \<and> n_title n = ''New'' \<and> n_version n = 4)"
proof -
  from sample_push_ok obtain resp s' where p: "pushChanges sample_env (sample_push 3) ''ann'' sample_options sample_server = Inr (resp, s')"
    by blast
  have o: "\<not> po_preserveRecordVersions sample_options" "\<not> po_preserveNewRecordVersions sample_options"
      "\<not> po_allowTombstoneOverwrite sample_options"
    by (simp_all add: sample_options_def)
  have r: "registers sample_server ''ann'' ''n1'' = Live note_a" by (simp add: registers_def sample_getNote)
  have n: "pr_notes (sample_push 3) = [\<lparr>c_record = note_a\<lparr>n_title := ''New'', n_syncStatus := Pending\<rparr>, c_baseVersion = 3\<rparr>]"
    by (simp add: sample_push_def)
  have i: "n_id note_a = ''n1''" "n_version note_a = 3" "n_title note_a = ''Title''" "n_titleHash note_a = None"
    by (simp_all add: note_a_def)
  from push_refines_registers [OF wf_sample_server valid_sample_push p o]
  have "registers s' ''ann'' ''n1'' = fst (register_step (\<lambda>i. \<exists>nb. getNotebook s' i ''ann'' = Some nb \<and> \<not> truthy_opt (nb_deletedAt nb))
     \<lparr>c_record = note_a\<lparr>n_title := ''New'', n_syncStatus := Pending\<rparr>, c_baseVersion = 3\<rparr> (Live note_a))"
    unfolding n by (auto simp: r i Let_def case_prod_beta dest!: fun_cong [of _ _ "''n1''"])
  then have "\<exists>n. registers s' ''ann'' ''n1'' = Live n \<and> n_title n = ''New'' \<and> n_version n = 4"
    by (simp add: register_step_def with_active_notebooks_def Let_def i notesDiffer_def fieldDiffers_def js_add1_def max_safe_integer_def)
  with p show ?thesis by blast
qed

end
