(* ===== verification/PayloadValidation.thy ===== *)
theory PayloadValidation
  imports ServerPush Keyring
begin

text \<open>
  The checks of request bodies (\<open>apps/web/src/lib/server/payload-validation.ts\<close>): a body is an unknown
  JSON value, and the checks decide whether the code may go on to use it as the declared type. A missing
  property is \<open>None\<close>, which is \<open>undefined\<close>. The records the code then reads are \<open>note_of_json\<close>,
  \<open>notebook_of_json\<close> and \<open>push_of_json\<close>: they only look at the types of the properties, and the checks are
  shown to accept exactly the values that have these types and are within the limits.

  Numbers are the integers of \<open>JsonValue\<close>; \<open>TextEncoder\<close> is \<open>utf8_length\<close>.
\<close>

section \<open>Values\<close>

definition is_object :: "js_value \<Rightarrow> bool" where
  "is_object v \<longleftrightarrow> (case v of JObj _ \<Rightarrow> True | JArr _ \<Rightarrow> True | _ \<Rightarrow> False)"

text \<open>\<open>v ?? d\<close>.\<close>

definition coalesce :: "js_value option \<Rightarrow> js_value \<Rightarrow> js_value option" where
  "coalesce v d = (case v of None \<Rightarrow> Some d | Some JNull \<Rightarrow> Some d | Some x \<Rightarrow> Some x)"

text \<open>The regular expression \<open>/^hash:v3:[A-Za-z0-9_-]+$/\<close>.\<close>

definition CURRENT_HASH_PATTERN :: "string \<Rightarrow> bool" where
  "CURRENT_HASH_PATTERN s \<longleftrightarrow> starts_with ''hash:v3:'' s \<and> BASE64URL_PATTERN (drop 8 s)"

definition payloadTextBytes :: "string \<Rightarrow> int" where
  "payloadTextBytes v = int (utf8_length v)"

definition stringWithinBytes :: "js_value option \<Rightarrow> int \<Rightarrow> bool" where
  "stringWithinBytes v maxBytes \<longleftrightarrow> (case v of Some (JStr s) \<Rightarrow> payloadTextBytes s \<le> maxBytes | _ \<Rightarrow> False)"

definition nonEmptyStringWithinBytes :: "js_value option \<Rightarrow> int \<Rightarrow> bool" where
  "nonEmptyStringWithinBytes v maxBytes \<longleftrightarrow>
     (case v of Some (JStr s) \<Rightarrow> length (trim s) > 0 \<and> payloadTextBytes s \<le> maxBytes | _ \<Rightarrow> False)"

definition isNullableString :: "js_value option \<Rightarrow> bool" where
  "isNullableString v \<longleftrightarrow> (case v of Some JNull \<Rightarrow> True | Some (JStr s) \<Rightarrow> True | _ \<Rightarrow> False)"

definition isNullableStringWithinBytes :: "js_value option \<Rightarrow> int \<Rightarrow> bool" where
  "isNullableStringWithinBytes v maxBytes \<longleftrightarrow> v = Some JNull \<or> stringWithinBytes v maxBytes"

definition isIsoDate :: "env \<Rightarrow> js_value option \<Rightarrow> bool" where
  "isIsoDate e v \<longleftrightarrow> stringWithinBytes v (timestampBytes SYNC_LIMITS) \<and>
     (case v of Some (JStr s) \<Rightarrow> date_parse e s \<noteq> None | _ \<Rightarrow> False)"

definition isNullableIsoDate :: "env \<Rightarrow> js_value option \<Rightarrow> bool" where
  "isNullableIsoDate e v \<longleftrightarrow> (if v = Some JNull then True else isIsoDate e v)"

definition isStringArray :: "js_value option \<Rightarrow> bool" where
  "isStringArray v \<longleftrightarrow>
     (case v of
        Some (JArr xs) \<Rightarrow> int (length xs) \<le> notebookAssignments SYNC_LIMITS \<and>
          (\<forall>x \<in> set xs. nonEmptyStringWithinBytes (Some x) (entityIdBytes SYNC_LIMITS))
      | _ \<Rightarrow> False)"

definition isNonNegativeInteger :: "js_value option \<Rightarrow> bool" where
  "isNonNegativeInteger v \<longleftrightarrow> (case v of Some (JNum i) \<Rightarrow> i \<ge> 0 | _ \<Rightarrow> False)"

definition isPositiveInteger :: "js_value option \<Rightarrow> bool" where
  "isPositiveInteger v \<longleftrightarrow> (case v of Some (JNum i) \<Rightarrow> i > 0 | _ \<Rightarrow> False)"

section \<open>Encrypted fields\<close>

definition isCurrentEncryptedEnvelope :: "string \<Rightarrow> bool" where
  "isCurrentEncryptedEnvelope v \<longleftrightarrow>
     (case split_on (CHR '':'') v of
        [p0, p1, p2, p3, p4] \<Rightarrow>
          p0 = ''enc'' \<and> p1 = ''v4'' \<and> truthy p2 \<and> BASE64URL_PATTERN p2 \<and> BASE64URL_PATTERN p3 \<and> BASE64URL_PATTERN p4 \<and>
          length p3 = 16 \<and> length p4 \<ge> 22
      | _ \<Rightarrow> False)"

definition validFieldHash :: "string option \<Rightarrow> bool" where
  "validFieldHash v \<longleftrightarrow> (case v of None \<Rightarrow> False | Some h \<Rightarrow> truthy h \<and> CURRENT_HASH_PATTERN h)"

definition hasCurrentEncryptedNoteFields :: "Note \<Rightarrow> bool" where
  "hasCurrentEncryptedNoteFields n \<longleftrightarrow>
     isCurrentEncryptedEnvelope (n_title n) \<and> isCurrentEncryptedEnvelope (n_body n) \<and>
     validFieldHash (n_titleHash n) \<and> validFieldHash (n_bodyHash n)"

definition hasCurrentEncryptedNotebookFields :: "Notebook \<Rightarrow> bool" where
  "hasCurrentEncryptedNotebookFields nb \<longleftrightarrow>
     isCurrentEncryptedEnvelope (nb_name nb) \<and> validFieldHash (nb_nameHash nb)"

section \<open>Records\<close>

definition SYNC_STATUSES :: "string list" where
  "SYNC_STATUSES = [''synced'', ''pending'', ''conflict'', ''deleted'']"

definition has_status :: "js_value option \<Rightarrow> bool" where
  "has_status v \<longleftrightarrow> (case v of Some (JStr s) \<Rightarrow> truthy s \<and> s \<in> set SYNC_STATUSES | _ \<Rightarrow> False)"

definition is_boolean :: "js_value option \<Rightarrow> bool" where
  "is_boolean v \<longleftrightarrow> (case v of Some (JBool _) \<Rightarrow> True | _ \<Rightarrow> False)"

definition hasNoteRecord :: "env \<Rightarrow> js_value \<Rightarrow> bool" where
  "hasNoteRecord e v \<longleftrightarrow>
     (if \<not> is_object v then False
      else nonEmptyStringWithinBytes (get_prop v ''id'') (entityIdBytes SYNC_LIMITS) \<and>
        stringWithinBytes (get_prop v ''title'') (titleBytes SYNC_LIMITS) \<and>
        stringWithinBytes (get_prop v ''body'') (bodyBytes SYNC_LIMITS) \<and>
        isNullableStringWithinBytes (coalesce (get_prop v ''titleHash'') JNull) (fieldHashBytes SYNC_LIMITS) \<and>
        isNullableStringWithinBytes (coalesce (get_prop v ''bodyHash'') JNull) (fieldHashBytes SYNC_LIMITS) \<and>
        isStringArray (get_prop v ''notebookIds'') \<and>
        isNullableStringWithinBytes (get_prop v ''notebookId'') (entityIdBytes SYNC_LIMITS) \<and>
        isIsoDate e (get_prop v ''createdAt'') \<and>
        isIsoDate e (get_prop v ''updatedAt'') \<and>
        isNullableIsoDate e (get_prop v ''deletedAt'') \<and>
        isNullableIsoDate e (get_prop v ''trashedAt'') \<and>
        is_boolean (coalesce (get_prop v ''isFavorite'') (JBool False)) \<and>
        nonEmptyStringWithinBytes (get_prop v ''deviceId'') (deviceIdBytes SYNC_LIMITS) \<and>
        isPositiveInteger (get_prop v ''version'') \<and>
        has_status (get_prop v ''syncStatus''))"

definition hasNotebookRecord :: "env \<Rightarrow> js_value \<Rightarrow> bool" where
  "hasNotebookRecord e v \<longleftrightarrow>
     (if \<not> is_object v then False
      else nonEmptyStringWithinBytes (get_prop v ''id'') (entityIdBytes SYNC_LIMITS) \<and>
        stringWithinBytes (get_prop v ''name'') (notebookNameBytes SYNC_LIMITS) \<and>
        isNullableStringWithinBytes (coalesce (get_prop v ''nameHash'') JNull) (fieldHashBytes SYNC_LIMITS) \<and>
        isIsoDate e (get_prop v ''createdAt'') \<and>
        isIsoDate e (get_prop v ''updatedAt'') \<and>
        isNullableIsoDate e (get_prop v ''deletedAt'') \<and>
        nonEmptyStringWithinBytes (get_prop v ''deviceId'') (deviceIdBytes SYNC_LIMITS) \<and>
        isPositiveInteger (get_prop v ''version'') \<and>
        has_status (get_prop v ''syncStatus''))"

definition hasDeviceRecord :: "js_value \<Rightarrow> bool" where
  "hasDeviceRecord v \<longleftrightarrow>
     (if \<not> is_object v then False
      else nonEmptyStringWithinBytes (get_prop v ''id'') (deviceIdBytes SYNC_LIMITS) \<and>
        nonEmptyStringWithinBytes (get_prop v ''name'') (deviceNameBytes SYNC_LIMITS))"

definition hasEntityChanges :: "js_value option \<Rightarrow> (js_value \<Rightarrow> bool) \<Rightarrow> bool" where
  "hasEntityChanges v hasRecord \<longleftrightarrow>
     (case v of
        Some (JArr cs) \<Rightarrow>
          (\<forall>c \<in> set cs.
             if \<not> is_object c then False
             else isNonNegativeInteger (get_prop c ''baseVersion'') \<and>
               (case get_prop c ''record'' of Some r \<Rightarrow> hasRecord r | None \<Rightarrow> False))
      | _ \<Rightarrow> False)"

fun unique_ids_from :: "string set \<Rightarrow> string list \<Rightarrow> bool" where
  "unique_ids_from ids [] = True"
| "unique_ids_from ids (i # rest) = (if i \<in> ids then False else unique_ids_from (insert i ids) rest)"

definition hasUniqueEntityChangeIds :: "('r \<Rightarrow> string) \<Rightarrow> 'r entity_change list \<Rightarrow> bool" where
  "hasUniqueEntityChangeIds idf changes = unique_ids_from {} (map (idf \<circ> c_record) changes)"

section \<open>The typed values behind accepted bodies\<close>

definition nullable_of :: "js_value option \<Rightarrow> string option option" where
  "nullable_of v = (case v of Some JNull \<Rightarrow> Some None | Some (JStr s) \<Rightarrow> Some (Some s) | _ \<Rightarrow> None)"

definition optional_of :: "js_value option \<Rightarrow> string option option" where
  "optional_of v = nullable_of (coalesce v JNull)"

definition bool_of :: "js_value option \<Rightarrow> bool option" where
  "bool_of v = (case coalesce v (JBool False) of Some (JBool b) \<Rightarrow> Some b | _ \<Rightarrow> None)"

definition status_of :: "js_value option \<Rightarrow> sync_status option" where
  "status_of v =
     (case v of
        Some (JStr s) \<Rightarrow>
          if s = ''synced'' then Some Synced else if s = ''pending'' then Some Pending
          else if s = ''conflict'' then Some Conflict else if s = ''deleted'' then Some Deleted else None
      | _ \<Rightarrow> None)"

definition note_of_json :: "js_value \<Rightarrow> Note option" where
  "note_of_json v =
     (case (str_of (get_prop v ''id''), str_of (get_prop v ''title''), str_of (get_prop v ''body''),
            optional_of (get_prop v ''titleHash''), optional_of (get_prop v ''bodyHash''),
            strs_of (get_prop v ''notebookIds''), nullable_of (get_prop v ''notebookId''),
            str_of (get_prop v ''createdAt''), str_of (get_prop v ''updatedAt''),
            nullable_of (get_prop v ''deletedAt''), nullable_of (get_prop v ''trashedAt''),
            bool_of (get_prop v ''isFavorite''), str_of (get_prop v ''deviceId''),
            num_of (get_prop v ''version''), status_of (get_prop v ''syncStatus'')) of
        (Some i, Some t, Some b, Some th, Some bh, Some ids, Some nid, Some ca, Some ua, Some da, Some ta,
         Some fav, Some dev, Some ver, Some st) \<Rightarrow>
          Some \<lparr>n_id = i, n_title = t, n_body = b, n_titleHash = th, n_bodyHash = bh, n_notebookIds = ids,
            n_notebookId = nid, n_createdAt = ca, n_updatedAt = ua, n_deletedAt = da, n_trashedAt = ta,
            n_isFavorite = fav, n_deviceId = dev, n_version = ver, n_syncStatus = st\<rparr>
      | _ \<Rightarrow> None)"

definition notebook_of_json :: "js_value \<Rightarrow> Notebook option" where
  "notebook_of_json v =
     (case (str_of (get_prop v ''id''), str_of (get_prop v ''name''), optional_of (get_prop v ''nameHash''),
            str_of (get_prop v ''createdAt''), str_of (get_prop v ''updatedAt''), nullable_of (get_prop v ''deletedAt''),
            str_of (get_prop v ''deviceId''), num_of (get_prop v ''version''), status_of (get_prop v ''syncStatus'')) of
        (Some i, Some nm, Some h, Some ca, Some ua, Some da, Some dev, Some ver, Some st) \<Rightarrow>
          Some \<lparr>nb_id = i, nb_name = nm, nb_nameHash = h, nb_createdAt = ca, nb_updatedAt = ua, nb_deletedAt = da,
            nb_deviceId = dev, nb_version = ver, nb_syncStatus = st\<rparr>
      | _ \<Rightarrow> None)"

definition device_of_json :: "js_value \<Rightarrow> Device option" where
  "device_of_json v =
     (case (str_of (get_prop v ''id''), str_of (get_prop v ''name'')) of
        (Some i, Some nm) \<Rightarrow> Some \<lparr>d_id = i, d_name = nm\<rparr>
      | _ \<Rightarrow> None)"

definition change_of_json :: "(js_value \<Rightarrow> 'r option) \<Rightarrow> js_value \<Rightarrow> 'r entity_change option" where
  "change_of_json rec c =
     (case (num_of (get_prop c ''baseVersion''), Option.bind (get_prop c ''record'') rec) of
        (Some b, Some r) \<Rightarrow> Some \<lparr>c_record = r, c_baseVersion = b\<rparr>
      | _ \<Rightarrow> None)"

definition changes_of_json :: "(js_value \<Rightarrow> 'r option) \<Rightarrow> js_value option \<Rightarrow> 'r entity_change list option" where
  "changes_of_json rec v = (case v of Some (JArr cs) \<Rightarrow> all_some (map (change_of_json rec) cs) | _ \<Rightarrow> None)"

text \<open>The limits, stated on the typed records.\<close>

definition id_within :: "string \<Rightarrow> int \<Rightarrow> bool" where
  "id_within s maxBytes \<longleftrightarrow> trim s \<noteq> [] \<and> payloadTextBytes s \<le> maxBytes"

definition opt_within :: "string option \<Rightarrow> int \<Rightarrow> bool" where
  "opt_within s maxBytes \<longleftrightarrow> (case s of None \<Rightarrow> True | Some x \<Rightarrow> payloadTextBytes x \<le> maxBytes)"

definition date_within :: "env \<Rightarrow> string \<Rightarrow> bool" where
  "date_within e s \<longleftrightarrow> payloadTextBytes s \<le> 64 \<and> date_parse e s \<noteq> None"

definition note_within_limits :: "env \<Rightarrow> Note \<Rightarrow> bool" where
  "note_within_limits e n \<longleftrightarrow>
     id_within (n_id n) 128 \<and> payloadTextBytes (n_title n) \<le> 524288 \<and> payloadTextBytes (n_body n) \<le> 4194304 \<and>
     opt_within (n_titleHash n) 256 \<and> opt_within (n_bodyHash n) 256 \<and>
     length (n_notebookIds n) \<le> 128 \<and> (\<forall>i \<in> set (n_notebookIds n). id_within i 128) \<and> opt_within (n_notebookId n) 128 \<and>
     date_within e (n_createdAt n) \<and> date_within e (n_updatedAt n) \<and>
     pred_option (date_within e) (n_deletedAt n) \<and> pred_option (date_within e) (n_trashedAt n) \<and>
     id_within (n_deviceId n) 128 \<and> n_version n > 0"

definition notebook_within_limits :: "env \<Rightarrow> Notebook \<Rightarrow> bool" where
  "notebook_within_limits e nb \<longleftrightarrow>
     id_within (nb_id nb) 128 \<and> payloadTextBytes (nb_name nb) \<le> 16384 \<and> opt_within (nb_nameHash nb) 256 \<and>
     date_within e (nb_createdAt nb) \<and> date_within e (nb_updatedAt nb) \<and> pred_option (date_within e) (nb_deletedAt nb) \<and>
     id_within (nb_deviceId nb) 128 \<and> nb_version nb > 0"

section \<open>The checks accept exactly the typed values\<close>

lemma coalesce_simps:
  "coalesce None d = Some d" "coalesce (Some JNull) d = Some d" "coalesce (Some (JStr s)) d = Some (JStr s)"
  "coalesce (Some (JBool b)) d = Some (JBool b)" "coalesce (Some (JNum i)) d = Some (JNum i)"
  "coalesce (Some (JArr xs)) d = Some (JArr xs)" "coalesce (Some (JObj kvs)) d = Some (JObj kvs)"
  by (simp_all add: coalesce_def)

lemma check_string: "stringWithinBytes v k \<longleftrightarrow> (\<exists>s. str_of v = Some s \<and> payloadTextBytes s \<le> k)"
  by (cases v rule: str_of.cases) (auto simp: stringWithinBytes_def)

lemma check_id: "nonEmptyStringWithinBytes v k \<longleftrightarrow> (\<exists>s. str_of v = Some s \<and> id_within s k)"
  by (cases v rule: str_of.cases) (auto simp: nonEmptyStringWithinBytes_def id_within_def)

lemma check_nullable: "isNullableStringWithinBytes v k \<longleftrightarrow> (\<exists>s. nullable_of v = Some s \<and> opt_within s k)"
  by (auto simp: isNullableStringWithinBytes_def stringWithinBytes_def nullable_of_def opt_within_def
      split: option.splits js_value.splits)

lemma check_date: "isIsoDate e v \<longleftrightarrow> (\<exists>s. str_of v = Some s \<and> date_within e s)"
  by (cases v rule: str_of.cases) (auto simp: isIsoDate_def stringWithinBytes_def date_within_def SYNC_LIMITS_def)

lemma check_nullable_date: "isNullableIsoDate e v \<longleftrightarrow> (\<exists>s. nullable_of v = Some s \<and> pred_option (date_within e) s)"
  by (auto simp: isNullableIsoDate_def isIsoDate_def stringWithinBytes_def nullable_of_def date_within_def SYNC_LIMITS_def
      split: option.splits js_value.splits)

lemma all_some_values: "all_some (map f xs) = Some ys \<longleftrightarrow> list_all2 (\<lambda>x y. f x = Some y) xs ys"
  by (induction xs arbitrary: ys) (auto simp: list_all2_Cons1 split: option.splits)

lemma all_some_ex: "(\<exists>ys. all_some (map f xs) = Some ys \<and> list_all P ys) \<longleftrightarrow> (\<forall>x \<in> set xs. \<exists>y. f x = Some y \<and> P y)"
proof (induction xs)
  case (Cons a xs)
  then show ?case by (cases "f a") (auto simp: Cons.IH [symmetric])
qed simp

lemma all_some_length: "all_some (map f xs) = Some ys \<Longrightarrow> length ys = length xs"
  by (simp add: all_some_values list_all2_lengthD)

lemma check_strings:
  "isStringArray v \<longleftrightarrow> (\<exists>ids. strs_of v = Some ids \<and> length ids \<le> 128 \<and> (\<forall>i \<in> set ids. id_within i 128))"
proof (cases "\<exists>xs. v = Some (JArr xs)")
  case True
  then obtain xs where v: "v = Some (JArr xs)" by blast
  have len: "\<And>ids. all_some (map (\<lambda>x. str_of (Some x)) xs) = Some ids \<Longrightarrow> length ids = length xs"
    by (rule all_some_length)
  show ?thesis
    using all_some_ex [of "\<lambda>x. str_of (Some x)" xs "\<lambda>i. id_within i 128"]
    by (auto simp: v isStringArray_def strs_of_def check_id SYNC_LIMITS_def list_all_iff len)
qed (auto simp: isStringArray_def strs_of_def split: option.splits js_value.splits)

lemma check_number: "isNonNegativeInteger v \<longleftrightarrow> (\<exists>i. num_of v = Some i \<and> i \<ge> 0)" "isPositiveInteger v \<longleftrightarrow> (\<exists>i. num_of v = Some i \<and> i > 0)"
  by (cases v rule: num_of.cases; auto simp: isNonNegativeInteger_def isPositiveInteger_def)+

lemma check_status: "has_status v \<longleftrightarrow> (\<exists>s. status_of v = Some s)"
  by (auto simp: has_status_def status_of_def SYNC_STATUSES_def split: option.splits js_value.splits)

lemma check_boolean: "is_boolean (coalesce v (JBool False)) \<longleftrightarrow> (\<exists>b. bool_of v = Some b)"
  by (auto simp: is_boolean_def bool_of_def split: option.splits js_value.splits)

lemmas check_simps = check_string check_id check_nullable optional_of_def check_date check_nullable_date check_strings check_number
  check_status check_boolean

lemma get_prop_object: "get_prop v k = Some x \<Longrightarrow> is_object v"
  by (cases v) (auto simp: is_object_def)

lemma str_of_object: "str_of (get_prop v k) = Some s \<Longrightarrow> is_object v"
  by (cases "get_prop v k") (auto dest: get_prop_object)

lemma hasNoteRecord_exact: "hasNoteRecord e v \<longleftrightarrow> (\<exists>n. note_of_json v = Some n \<and> note_within_limits e n)"
proof
  assume h: "hasNoteRecord e v"
  then have "\<exists>i t b th bh ids nid ca ua da ta fav dev ver st.
      str_of (get_prop v ''id'') = Some i \<and> str_of (get_prop v ''title'') = Some t \<and> str_of (get_prop v ''body'') = Some b \<and>
      optional_of (get_prop v ''titleHash'') = Some th \<and> optional_of (get_prop v ''bodyHash'') = Some bh \<and>
      strs_of (get_prop v ''notebookIds'') = Some ids \<and> nullable_of (get_prop v ''notebookId'') = Some nid \<and>
      str_of (get_prop v ''createdAt'') = Some ca \<and> str_of (get_prop v ''updatedAt'') = Some ua \<and>
      nullable_of (get_prop v ''deletedAt'') = Some da \<and> nullable_of (get_prop v ''trashedAt'') = Some ta \<and>
      bool_of (get_prop v ''isFavorite'') = Some fav \<and> str_of (get_prop v ''deviceId'') = Some dev \<and>
      num_of (get_prop v ''version'') = Some ver \<and> status_of (get_prop v ''syncStatus'') = Some st \<and>
      note_within_limits e \<lparr>n_id = i, n_title = t, n_body = b, n_titleHash = th, n_bodyHash = bh, n_notebookIds = ids,
            n_notebookId = nid, n_createdAt = ca, n_updatedAt = ua, n_deletedAt = da, n_trashedAt = ta,
            n_isFavorite = fav, n_deviceId = dev, n_version = ver, n_syncStatus = st\<rparr>"
    unfolding hasNoteRecord_def note_within_limits_def
    by (auto simp: check_simps SYNC_LIMITS_def split: if_splits)
  then show "\<exists>n. note_of_json v = Some n \<and> note_within_limits e n" by (auto simp: note_of_json_def)
next
  assume "\<exists>n. note_of_json v = Some n \<and> note_within_limits e n"
  then obtain n where n: "note_of_json v = Some n" "note_within_limits e n" by blast
  then show "hasNoteRecord e v"
    by (auto simp: hasNoteRecord_def note_of_json_def note_within_limits_def check_simps SYNC_LIMITS_def dest: str_of_object
        split: option.splits)
qed

lemma hasNotebookRecord_exact:
  "hasNotebookRecord e v \<longleftrightarrow> (\<exists>nb. notebook_of_json v = Some nb \<and> notebook_within_limits e nb)"
proof
  assume "hasNotebookRecord e v"
  then show "\<exists>nb. notebook_of_json v = Some nb \<and> notebook_within_limits e nb"
    by (auto simp: hasNotebookRecord_def notebook_of_json_def notebook_within_limits_def check_simps SYNC_LIMITS_def
        split: if_splits)
next
  assume "\<exists>nb. notebook_of_json v = Some nb \<and> notebook_within_limits e nb"
  then show "hasNotebookRecord e v"
    by (auto simp: hasNotebookRecord_def notebook_of_json_def notebook_within_limits_def check_simps SYNC_LIMITS_def
        dest: str_of_object split: option.splits)
qed

lemma hasDeviceRecord_exact:
  "hasDeviceRecord v \<longleftrightarrow> (\<exists>d. device_of_json v = Some d \<and> id_within (d_id d) 128 \<and> id_within (d_name d) 256)"
  by (auto simp: hasDeviceRecord_def device_of_json_def check_simps SYNC_LIMITS_def dest: str_of_object split: option.splits if_splits)

lemma hasEntityChanges_exact:
  assumes rec: "\<And>v. hasRecord v \<longleftrightarrow> (\<exists>r. rec v = Some r \<and> ok r)"
  shows "hasEntityChanges v hasRecord \<longleftrightarrow>
    (\<exists>cs. changes_of_json rec v = Some cs \<and> list_all (\<lambda>c. ok (c_record c) \<and> c_baseVersion c \<ge> 0) cs)"
proof (cases "\<exists>xs. v = Some (JArr xs)")
  case True
  then obtain xs where v: "v = Some (JArr xs)" by blast
  have "(if \<not> is_object c then False
        else isNonNegativeInteger (get_prop c ''baseVersion'') \<and> (case get_prop c ''record'' of Some r \<Rightarrow> hasRecord r | None \<Rightarrow> False)) \<longleftrightarrow>
      (\<exists>y. change_of_json rec c = Some y \<and> ok (c_record y) \<and> c_baseVersion y \<ge> 0)" for c
    by (auto simp: change_of_json_def check_simps rec dest: get_prop_object split: option.splits)
  then show ?thesis using all_some_ex [of "change_of_json rec" xs "\<lambda>c. ok (c_record c) \<and> c_baseVersion c \<ge> 0"]
    by (simp add: v hasEntityChanges_def changes_of_json_def)
qed (auto simp: hasEntityChanges_def changes_of_json_def split: option.splits js_value.splits)

lemma hasUniqueEntityChangeIds_distinct: "hasUniqueEntityChangeIds idf cs \<longleftrightarrow> distinct (map (idf \<circ> c_record) cs)"
proof -
  have "unique_ids_from ids ks \<longleftrightarrow> distinct ks \<and> set ks \<inter> ids = {}" for ids ks
    by (induction ids ks rule: unique_ids_from.induct) auto
  then show ?thesis by (simp add: hasUniqueEntityChangeIds_def)
qed

end
