(* ===== verification/AuthProof.thy ===== *)
theory AuthProof
  imports Bytes JsonValue Keyring
begin

text \<open>
  The password proof (\<open>apps/web/src/lib/shared/auth-proof.ts\<close>, \<open>password-policy.ts\<close>), a SCRAM-style
  protocol used on both sides: the verifier of a password that the server stores, the proof a client
  computes for a challenge, and the server's proof that the client checks. SHA-256, HMAC and Argon2id
  are the parameters of the record \<open>crypto\<close>; what the protocol needs of them is \<open>hash_lengths\<close>, their
  output length.
\<close>

section \<open>Parameters and messages\<close>

datatype auth_purpose = Login_purpose | Password_change_purpose | Keyring_update_purpose | Totp_purpose | Delete_account_purpose

fun purpose_text :: "auth_purpose \<Rightarrow> string" where
  "purpose_text Login_purpose = ''login''"
| "purpose_text Password_change_purpose = ''password_change''"
| "purpose_text Keyring_update_purpose = ''keyring_update''"
| "purpose_text Totp_purpose = ''totp''"
| "purpose_text Delete_account_purpose = ''delete_account''"

record kdf_params =
  kp_algorithm :: string
  kp_memoryKiB :: int
  kp_iterations :: int
  kp_parallelism :: int
  kp_keyLength :: int

record password_verifier =
  pv_algorithm :: string
  pv_salt :: string
  pv_params :: kdf_params
  pv_storedKey :: string
  pv_serverKey :: string

record auth_proof =
  ap_challengeId :: string
  ap_clientNonce :: string
  ap_proof :: string

datatype challenge_mode = Proof_mode | Bootstrap_mode

record auth_challenge_response =
  cr_mode :: challenge_mode
  cr_challengeId :: string
  cr_username :: string
  cr_purpose :: auth_purpose
  cr_clientNonce :: string
  cr_serverNonce :: string
  cr_expiresAt :: string
  cr_salt :: string
  cr_params :: kdf_params

record auth_proof_material =
  am_proof :: auth_proof
  am_expectedServerProof :: string

datatype proof_error =
    Proof_challenge_unavailable
  | Unsupported_proof_parameters
  | Invalid_proof_salt
  | Xor_length_mismatch

definition AUTH_PROOF_ALGORITHM :: string where
  "AUTH_PROOF_ALGORITHM = ''argon2id-scram-sha256''"

definition AUTH_PROOF_KDF_PARAMS :: kdf_params where
  "AUTH_PROOF_KDF_PARAMS = \<lparr>kp_algorithm = ''argon2id'', kp_memoryKiB = 19456, kp_iterations = 2,
     kp_parallelism = 1, kp_keyLength = 32\<rparr>"

definition AUTH_MESSAGE_VERSION :: string where
  "AUTH_MESSAGE_VERSION = ''author-auth-proof-v1''"

definition CLIENT_KEY_LABEL :: string where
  "CLIENT_KEY_LABEL = ''Client Key''"

definition SERVER_KEY_LABEL :: string where
  "SERVER_KEY_LABEL = ''Server Key''"

definition authKdfParamsString :: "kdf_params \<Rightarrow> string" where
  "authKdfParamsString ps = ''m='' @ int_to_string (kp_memoryKiB ps) @ '',t='' @ int_to_string (kp_iterations ps)
     @ '',p='' @ int_to_string (kp_parallelism ps)"

definition authKdfParamsAreCurrent :: "kdf_params option \<Rightarrow> bool" where
  "authKdfParamsAreCurrent ps \<longleftrightarrow>
     (case ps of
        None \<Rightarrow> False
      | Some k \<Rightarrow> kp_algorithm k = kp_algorithm AUTH_PROOF_KDF_PARAMS \<and>
          kp_memoryKiB k = kp_memoryKiB AUTH_PROOF_KDF_PARAMS \<and>
          kp_iterations k = kp_iterations AUTH_PROOF_KDF_PARAMS \<and>
          kp_parallelism k = kp_parallelism AUTH_PROOF_KDF_PARAMS \<and>
          kp_keyLength k = kp_keyLength AUTH_PROOF_KDF_PARAMS)"

text \<open>The message both sides sign; the challenge is given by its parts.\<close>

definition authProofMessage :: "string \<Rightarrow> string \<Rightarrow> auth_purpose \<Rightarrow> string \<Rightarrow> string \<Rightarrow> string \<Rightarrow> kdf_params \<Rightarrow> string" where
  "authProofMessage challengeId username purpose clientNonce serverNonce salt ps =
     join [CHR 0x0A]
       [AUTH_MESSAGE_VERSION,
        ''username='' @ username,
        ''purpose='' @ purpose_text purpose,
        ''challenge='' @ challengeId,
        ''clientNonce='' @ clientNonce,
        ''serverNonce='' @ serverNonce,
        ''salt='' @ salt,
        ''params='' @ authKdfParamsString ps]"

definition MIN_PASSWORD_LENGTH :: nat where
  "MIN_PASSWORD_LENGTH = 15"

text \<open>\<open>Array.from(password).length\<close>: one element per code point, here one per character.\<close>

definition passwordCharacterLength :: "string \<Rightarrow> nat" where
  "passwordCharacterLength password = length password"

definition passwordMeetsMinimumLength :: "string \<Rightarrow> bool" where
  "passwordMeetsMinimumLength password \<longleftrightarrow> passwordCharacterLength password \<ge> MIN_PASSWORD_LENGTH"

section \<open>Bytes\<close>

definition decodeBase64UrlStrict :: "string \<Rightarrow> byte list option" where
  "decodeBase64UrlStrict v =
     (if \<not> BASE64URL_PATTERN v \<or> length v mod 4 = 1 then None
      else case base64UrlDecode v of
             None \<Rightarrow> None
           | Some bytes \<Rightarrow> if length bytes > 0 then Some bytes else None)"

text \<open>The loop \<open>difference |= actual[i] ^ expected[i]\<close> over all indices.\<close>

definition difference :: "byte list \<Rightarrow> byte list \<Rightarrow> byte" where
  "difference actual expected = fold (\<lambda>(a, b) d. or d (xor a b)) (zip actual expected) 0"

definition constantTimeEqual :: "byte list \<Rightarrow> byte list \<Rightarrow> bool" where
  "constantTimeEqual actual expected \<longleftrightarrow>
     (if length actual \<noteq> length expected then False else difference actual expected = 0)"

definition xorBytes :: "byte list \<Rightarrow> byte list \<Rightarrow> proof_error + byte list" where
  "xorBytes left right =
     (if length left \<noteq> length right then Inl Xor_length_mismatch
      else Inr (map (\<lambda>(a, b). xor a b) (zip left right)))"

definition hmacSha256 :: "'a crypto_scheme \<Rightarrow> byte list \<Rightarrow> string \<Rightarrow> byte list" where
  "hmacSha256 cr key message = cp_hmac cr key (utf8_encode message)"

section \<open>Verifiers and proofs\<close>

definition deriveAuthPasswordBytes :: "'a crypto_scheme \<Rightarrow> string \<Rightarrow> string \<Rightarrow> kdf_params \<Rightarrow> proof_error + byte list" where
  "deriveAuthPasswordBytes cr password salt ps =
     (if \<not> authKdfParamsAreCurrent (Some ps) then Inl Unsupported_proof_parameters
      else case decodeBase64UrlStrict salt of
             None \<Rightarrow> Inl Invalid_proof_salt
           | Some saltBytes \<Rightarrow>
               if length saltBytes < 16 then Inl Invalid_proof_salt
               else Inr (cp_argon2id cr (utf8_encode password) saltBytes))"

definition passwordVerifierFromPassword :: "'a crypto_scheme \<Rightarrow> string \<Rightarrow> string \<Rightarrow> kdf_params \<Rightarrow> proof_error + password_verifier" where
  "passwordVerifierFromPassword cr password salt ps =
     and_then (deriveAuthPasswordBytes cr password salt ps) (\<lambda>saltedPassword.
       let clientKey = hmacSha256 cr saltedPassword CLIENT_KEY_LABEL;
           storedKey = cp_sha256 cr clientKey;
           serverKey = hmacSha256 cr saltedPassword SERVER_KEY_LABEL
       in Inr \<lparr>pv_algorithm = AUTH_PROOF_ALGORITHM, pv_salt = salt, pv_params = ps,
                pv_storedKey = base64UrlEncode storedKey, pv_serverKey = base64UrlEncode serverKey\<rparr>)"

definition challenge_message :: "auth_challenge_response \<Rightarrow> string" where
  "challenge_message ch = authProofMessage (cr_challengeId ch) (cr_username ch) (cr_purpose ch) (cr_clientNonce ch)
     (cr_serverNonce ch) (cr_salt ch) (cr_params ch)"

definition authProofFromPassword :: "'a crypto_scheme \<Rightarrow> string \<Rightarrow> auth_challenge_response \<Rightarrow> proof_error + auth_proof_material" where
  "authProofFromPassword cr password ch =
     (if cr_mode ch \<noteq> Proof_mode then Inl Proof_challenge_unavailable
      else if \<not> authKdfParamsAreCurrent (Some (cr_params ch)) then Inl Unsupported_proof_parameters
      else and_then (deriveAuthPasswordBytes cr password (cr_salt ch) (cr_params ch)) (\<lambda>saltedPassword.
        let clientKey = hmacSha256 cr saltedPassword CLIENT_KEY_LABEL;
            storedKey = cp_sha256 cr clientKey;
            message = challenge_message ch;
            clientSignature = hmacSha256 cr storedKey message
        in and_then (xorBytes clientKey clientSignature) (\<lambda>proof.
             let serverKey = hmacSha256 cr saltedPassword SERVER_KEY_LABEL
             in Inr \<lparr>am_proof = \<lparr>ap_challengeId = cr_challengeId ch, ap_clientNonce = cr_clientNonce ch,
                       ap_proof = base64UrlEncode proof\<rparr>,
                     am_expectedServerProof = base64UrlEncode (hmacSha256 cr serverKey message)\<rparr>)))"

definition verifyAuthServerProof :: "string \<Rightarrow> string option \<Rightarrow> bool" where
  "verifyAuthServerProof expectedServerProof serverProof \<longleftrightarrow>
     (case serverProof of
        None \<Rightarrow> False
      | Some sp \<Rightarrow>
          if \<not> truthy sp then False
          else (case (decodeBase64UrlStrict sp, decodeBase64UrlStrict expectedServerProof) of
                  (Some actual, Some expected) \<Rightarrow> constantTimeEqual actual expected
                | _ \<Rightarrow> False))"

section \<open>Lemmas\<close>

definition hash_lengths :: "'a crypto_scheme \<Rightarrow> bool" where
  "hash_lengths cr \<longleftrightarrow> (\<forall>b. length (cp_sha256 cr b) = 32) \<and> (\<forall>k m. length (cp_hmac cr k m) = 32)"

lemma decodeBase64UrlStrict_encode: "bs \<noteq> [] \<Longrightarrow> decodeBase64UrlStrict (base64UrlEncode bs) = Some bs"
  using sextets_length [of bs]
  by (simp add: decodeBase64UrlStrict_def base64url_text) (simp add: base64UrlEncode_sextets)

lemma difference_acc: "fold (\<lambda>(a, b) d. or d (xor a b)) ps x = 0 \<longleftrightarrow> x = (0::byte) \<and> (\<forall>(a, b) \<in> set ps. a = b)"
proof (induction ps arbitrary: x)
  case (Cons p ps)
  have "or x y = 0 \<longleftrightarrow> x = 0 \<and> y = 0" for x y :: byte by (auto simp: or_eq_0_iff)
  moreover have "xor x y = 0 \<longleftrightarrow> x = y" for x y :: byte by (metis xor.assoc xor_self_eq xor.right_neutral)
  ultimately show ?case by (auto simp: Cons.IH split: prod.splits)
qed simp

lemma constantTimeEqual_eq [simp]: "constantTimeEqual a b \<longleftrightarrow> a = b"
proof (cases "length a = length b")
  case True
  then have "(\<forall>(x, y) \<in> set (zip a b). x = y) \<longleftrightarrow> a = b" by (induction a b rule: list_induct2) auto
  then show ?thesis by (simp add: constantTimeEqual_def difference_def difference_acc True)
qed (auto simp: constantTimeEqual_def)

lemma xorBytes_length: "xorBytes a b = Inr c \<Longrightarrow> length c = length a \<and> length a = length b"
  by (auto simp: xorBytes_def split: if_splits)

lemma xorBytes_undo:
  assumes "length a = length b"
  shows "\<exists>c. xorBytes a b = Inr c \<and> length c = length b \<and> xorBytes c b = Inr a"
proof -
  have "map (\<lambda>(x, y). xor x y) (zip (map (\<lambda>(x, y). xor x y) (zip a b)) b) = a"
    using assms by (induction a b rule: list_induct2) (auto simp: xor.assoc)
  then show ?thesis using assms by (simp add: xorBytes_def)
qed

end
