(* ===== verification/AuthDb.thy ===== *)
theory AuthDb
  imports AuthProof PayloadValidation Actions ServerInv
begin

text \<open>
  The account tables of the server database (\<open>apps/web/src/lib/server/db.ts\<close>) and the state the account
  operations of \<open>auth.ts\<close> run on. The state extends the database \<open>server\<close> of the repository, since
  deleting an account deletes its notes, and adds the tables only the account operations use, the map
  of failed attempts that \<open>hono.ts\<close> keeps in memory, and a count of the requests for random bytes.

  Foreign keys: a session names a user, a trusted device names a user and a device of that user
  (migration 16), the email of a user is unique when it is not null.
\<close>

section \<open>Tables\<close>

record challenge_row =
  hc_id :: string
  hc_username :: string
  hc_purpose :: auth_purpose
  hc_clientNonce :: string
  hc_serverNonce :: string
  hc_createdAt :: string
  hc_expiresAt :: string

record rate_row =
  rt_keyHash :: string
  rt_count :: int
  rt_resetAt :: int

record invitation_row =
  iv_tokenHash :: string
  iv_consumedAt :: string

record login_attempt =
  la_count :: int
  la_resetAt :: int

record authdb = server +
  a_challenges :: "challenge_row list"
  a_rateLimits :: "rate_row list"
  a_allowedEmails :: "string list"
  a_invitations :: "invitation_row list"
  a_attempts :: "(string \<times> login_attempt) list"
  a_rands :: nat

definition trusted_key :: "trusted_row \<Rightarrow> string \<times> string" where
  "trusted_key r = (tr_username r, tr_deviceId r)"

text \<open>
  What the process is configured with: the environment, the crypto libraries (with HMAC-SHA-1 for
  one-time codes), and the values \<open>config.ts\<close> reads from environment variables.
\<close>

record auth_config =
  g_env :: env
  g_crypto :: crypto
  g_hmacSha1 :: "byte list \<Rightarrow> byte list \<Rightarrow> byte list"
  g_legacyToken :: "string option"
  g_loginUsername :: string
  g_loginPassword :: "string option"
  g_serverSecret :: string
  g_sessionDays :: int

datatype auth_error =
    Username_invalid
  | Email_invalid
  | Password_required
  | Password_too_short
  | Profile_picture_type
  | Profile_picture_size
  | Invalid_keyring_text
  | Verifier_unsupported
  | Verifier_invalid
  | Username_deleted
  | Keyring_replacement_required
  | Device_required
  | Device_trust_secret_required
  | Server_secret_required
  | User_not_found
  | Invitation_expiry_invalid
  | Email_taken
  | Type_error
  | Foreign_key_failed
  | Primary_key_failed
  | Proof_failed proof_error
  | Server_failed server_error

type_synonym 'a auth = "(auth_error, authdb, 'a) act"

section \<open>Clock, random bytes, transactions\<close>

definition clock_ms :: "auth_config \<Rightarrow> int auth" where
  "clock_ms g = (\<lambda>s. (Inr (clock (g_env g) (s_ticks s)), s\<lparr>s_ticks := Suc (s_ticks s)\<rparr>))"

definition now_iso :: "auth_config \<Rightarrow> string auth" where
  "now_iso g = bnd (clock_ms g) (\<lambda>t. ret (to_iso t))"

definition random_bytes :: "auth_config \<Rightarrow> nat \<Rightarrow> byte list auth" where
  "random_bytes g n = (\<lambda>s. (Inr (map (cp_random (g_crypto g) (a_rands s)) [0..<n]), s\<lparr>a_rands := Suc (a_rands s)\<rparr>))"

text \<open>\<open>withWriteTransaction\<close>: an error undoes the writes, not the readings of clock and random bytes.\<close>

definition withWriteTransaction :: "'a auth \<Rightarrow> 'a auth" where
  "withWriteTransaction m = (\<lambda>s.
     case m s of
       (Inr x, s') \<Rightarrow> (Inr x, s')
     | (Inl err, s') \<Rightarrow> (Inl err, s\<lparr>s_ticks := s_ticks s', s_fresh := s_fresh s', a_rands := a_rands s'\<rparr>))"

section \<open>Rows\<close>

definition user_row_of :: "string \<Rightarrow> authdb \<Rightarrow> user_row option" where
  "user_row_of username s = tget u_username username (s_users s)"

definition user_row_by_email :: "string \<Rightarrow> authdb \<Rightarrow> user_row option" where
  "user_row_by_email email s = find (\<lambda>u. u_email u = Some email) (s_users s)"

text \<open>An insert or update of a user row: the unique index on the email is checked.\<close>

definition put_user :: "user_row \<Rightarrow> unit auth" where
  "put_user u = (\<lambda>s.
     if u_email u \<noteq> None \<and> (\<exists>v \<in> set (s_users s). u_username v \<noteq> u_username u \<and> u_email v = u_email u)
     then (Inl Email_taken, s)
     else (Inr (), s\<lparr>s_users := tput u_username u (s_users s)\<rparr>))"

definition delete_sessions_of :: "string \<Rightarrow> unit auth" where
  "delete_sessions_of username = modify (\<lambda>s. s\<lparr>s_sessions := filter (\<lambda>r. se_username r \<noteq> username) (s_sessions s)\<rparr>)"

definition delete_trusted_of :: "string \<Rightarrow> unit auth" where
  "delete_trusted_of username = modify (\<lambda>s. s\<lparr>s_trusted := filter (\<lambda>r. tr_username r \<noteq> username) (s_trusted s)\<rparr>)"

definition insert_session :: "session_row \<Rightarrow> unit auth" where
  "insert_session r = (\<lambda>s.
     if user_row_of (se_username r) s = None then (Inl Foreign_key_failed, s)
     else if tget se_tokenHash (se_tokenHash r) (s_sessions s) \<noteq> None then (Inl Primary_key_failed, s)
     else (Inr (), s\<lparr>s_sessions := tput se_tokenHash r (s_sessions s)\<rparr>))"

definition put_trusted :: "trusted_row \<Rightarrow> unit auth" where
  "put_trusted r = (\<lambda>s.
     if user_row_of (tr_username r) s = None \<or> tget device_key (tr_username r, tr_deviceId r) (s_devices s) = None
     then (Inl Foreign_key_failed, s)
     else (Inr (), s\<lparr>s_trusted := tput trusted_key r (s_trusted s)\<rparr>))"

text \<open>The repository's view of the state: its tables, without the account tables.\<close>

definition base_server :: "authdb \<Rightarrow> server" where
  "base_server s = server.truncate s"

definition with_server :: "server \<Rightarrow> authdb \<Rightarrow> authdb" where
  "with_server t s = server.extend t
     (authdb.fields (a_challenges s) (a_rateLimits s) (a_allowedEmails s) (a_invitations s) (a_attempts s) (a_rands s))"

lemma with_server_simps [simp]:
  "base_server (with_server t s) = t" "with_server (base_server s) s = s"
  "a_challenges (with_server t s) = a_challenges s" "a_rateLimits (with_server t s) = a_rateLimits s"
  "a_allowedEmails (with_server t s) = a_allowedEmails s" "a_invitations (with_server t s) = a_invitations s"
  "a_attempts (with_server t s) = a_attempts s" "a_rands (with_server t s) = a_rands s"
  "s_users (with_server t s) = s_users t" "s_sessions (with_server t s) = s_sessions t"
  "s_trusted (with_server t s) = s_trusted t" "s_devices (with_server t s) = s_devices t"
  "s_notes (with_server t s) = s_notes t" "s_notebooks (with_server t s) = s_notebooks t"
  by (cases s; cases t; simp add: base_server_def with_server_def server.truncate_def server.extend_def authdb.fields_def)+

text \<open>A repository operation run inside an account operation, with and without a result.\<close>

definition on_server_with :: "(server \<Rightarrow> server_error + 'a \<times> server) \<Rightarrow> 'a auth" where
  "on_server_with f = (\<lambda>s. case f (base_server s) of Inl err \<Rightarrow> (Inl (Server_failed err), s) | Inr (x, t) \<Rightarrow> (Inr x, with_server t s))"

definition on_server :: "(server \<Rightarrow> server_error + server) \<Rightarrow> unit auth" where
  "on_server f = (\<lambda>s. case f (base_server s) of Inl err \<Rightarrow> (Inl (Server_failed err), s) | Inr t \<Rightarrow> (Inr (), with_server t s))"

text \<open>
  The tables of a well-formed state: sorted by their keys, emails unique, sessions and trusted devices
  of existing users only.
\<close>

definition wf_accounts :: "authdb \<Rightarrow> bool" where
  "wf_accounts s \<longleftrightarrow>
     wf_table u_username (s_users s) \<and> wf_table se_tokenHash (s_sessions s) \<and> wf_table trusted_key (s_trusted s) \<and>
     wf_table at_username (s_accountTombstones s) \<and> wf_table hc_id (a_challenges s) \<and> wf_table rt_keyHash (a_rateLimits s) \<and>
     wf_table iv_tokenHash (a_invitations s) \<and>
     (\<forall>u \<in> set (s_users s). \<forall>v \<in> set (s_users s). u_email u \<noteq> None \<longrightarrow> u_email u = u_email v \<longrightarrow> u = v) \<and>
     (\<forall>r \<in> set (s_sessions s). user_row_of (se_username r) s \<noteq> None) \<and>
     (\<forall>r \<in> set (s_trusted s). user_row_of (tr_username r) s \<noteq> None)"

end
