(* ===== verification/Totp.thy ===== *)
theory Totp
  imports AuthDb
begin

text \<open>
  One-time codes (\<open>apps/web/src/lib/server/auth.ts\<close>): Base32 with the 32-bit shifts of JavaScript, the
  HOTP value of RFC 4226 over HMAC-SHA-1, and the shared secret, which is stored under AES-GCM with a key
  derived from the server's secret.
\<close>

unbundle bit_operations_syntax

section \<open>Base32\<close>

definition BASE32_ALPHABET :: string where
  "BASE32_ALPHABET = ''ABCDEFGHIJKLMNOPQRSTUVWXYZ234567''"

definition b32_char :: "32 word \<Rightarrow> char" where
  "b32_char i = BASE32_ALPHABET ! unat (i AND 31)"

text \<open>The inner loop of \<open>base32Encode\<close>: what it appends to the output, and the bits that are left.\<close>

fun base32_drain :: "nat \<Rightarrow> 32 word \<Rightarrow> string \<times> nat" where
  "base32_drain bits v =
     (if bits \<ge> 5
      then (let (out, rest) = base32_drain (bits - 5) v in (b32_char (drop_bit (bits - 5) v) # out, rest))
      else ([], bits))"

declare base32_drain.simps [simp del]

fun base32_bytes :: "nat \<Rightarrow> 32 word \<Rightarrow> byte list \<Rightarrow> string" where
  "base32_bytes bits v [] = (if bits > 0 then [b32_char (push_bit (5 - bits) v)] else [])"
| "base32_bytes bits v (b # bs) =
     (let v1 = push_bit 8 v OR ucast b;
          (out, rest) = base32_drain (bits + 8) v1
      in out @ base32_bytes rest v1 bs)"

definition base32Encode :: "byte list \<Rightarrow> string" where
  "base32Encode bytes = base32_bytes 0 0 bytes"

text \<open>\<open>toUpperCase\<close>: the letters within U+00FF; the sharp s becomes two letters.\<close>

definition upper_char :: "char \<Rightarrow> string" where
  "upper_char c =
     (let n = (of_char c :: nat)
      in if (97 \<le> n \<and> n \<le> 122) \<or> (224 \<le> n \<and> n \<le> 254 \<and> n \<noteq> 247) then [char_of (n - 32)]
         else if n = 223 then ''SS'' else [c])"

definition to_upper :: "string \<Rightarrow> string" where
  "to_upper s = concat (map upper_char s)"

definition b32_clean :: "string \<Rightarrow> string" where
  "b32_clean v = filter (\<lambda>c. \<not> js_space c \<and> c \<noteq> CHR ''='') (to_upper v)"

fun index_of :: "'a \<Rightarrow> 'a list \<Rightarrow> nat option" where
  "index_of x [] = None"
| "index_of x (y # ys) = (if x = y then Some 0 else map_option Suc (index_of x ys))"

fun base32_chars :: "nat \<Rightarrow> 32 word \<Rightarrow> string \<Rightarrow> byte list option" where
  "base32_chars bits buffer [] = Some []"
| "base32_chars bits buffer (c # cs) =
     (case index_of c BASE32_ALPHABET of
        None \<Rightarrow> None
      | Some i \<Rightarrow>
          let buffer1 = push_bit 5 buffer OR of_nat i
          in if bits + 5 \<ge> 8
             then map_option (Cons (ucast (drop_bit (bits + 5 - 8) buffer1 AND 255))) (base32_chars (bits + 5 - 8) buffer1 cs)
             else base32_chars (bits + 5) buffer1 cs)"

definition base32Decode :: "string \<Rightarrow> byte list option" where
  "base32Decode v = (if b32_clean v = [] then None else base32_chars 0 0 (b32_clean v))"

section \<open>Codes\<close>

definition cleanTotpCode :: "js_value option \<Rightarrow> string option" where
  "cleanTotpCode v =
     (case v of
        Some (JStr s) \<Rightarrow>
          let digits = filter (\<lambda>c. \<not> js_space c \<and> c \<noteq> CHR ''-'') s
          in if length digits = 6 \<and> (\<forall>c \<in> set digits. is_digit c) then Some digits else None
      | _ \<Rightarrow> None)"

definition cleanTotpSecret :: "js_value option \<Rightarrow> string option" where
  "cleanTotpSecret v =
     (case v of
        Some (JStr s) \<Rightarrow> (case base32Decode (b32_clean s) of Some _ \<Rightarrow> Some (b32_clean s) | None \<Rightarrow> None)
      | _ \<Rightarrow> None)"

text \<open>The eight bytes of the counter, and a byte that reads as 0 outside the array.\<close>

definition counter_bytes :: "int \<Rightarrow> byte list" where
  "counter_bytes counter = map (\<lambda>k. of_int (counter div 256 ^ (7 - k))) [0..<8]"

definition byte_at :: "byte list \<Rightarrow> nat \<Rightarrow> 32 word" where
  "byte_at bs k = (if k < length bs then ucast (bs ! k) else 0)"

definition padStart0 :: "nat \<Rightarrow> string \<Rightarrow> string" where
  "padStart0 n s = replicate (n - length s) CHR ''0'' @ s"

definition TOTP_DIGITS :: nat where
  "TOTP_DIGITS = 6"

definition TOTP_PERIOD_SECONDS :: int where
  "TOTP_PERIOD_SECONDS = 30"

definition hotp :: "auth_config \<Rightarrow> string \<Rightarrow> int \<Rightarrow> string option" where
  "hotp g secret counter =
     (case base32Decode secret of
        None \<Rightarrow> None
      | Some secretBytes \<Rightarrow>
          let signature = g_hmacSha1 g secretBytes (counter_bytes counter);
              offset = unat (byte_at signature (length signature - 1) AND 15);
              truncated = push_bit 24 (byte_at signature offset AND 127) OR push_bit 16 (byte_at signature (offset + 1)) OR
                push_bit 8 (byte_at signature (offset + 2)) OR byte_at signature (offset + 3)
          in Some (padStart0 TOTP_DIGITS (nat_to_string (unat truncated mod 10 ^ TOTP_DIGITS))))"

section \<open>The stored secret\<close>

definition SERVER_SECRET_PREFIX :: string where
  "SERVER_SECRET_PREFIX = ''srvenc:v1:''"

definition serverSecretKey :: "auth_config \<Rightarrow> string \<Rightarrow> byte list" where
  "serverSecretKey g keyMaterial = cp_sha256 (g_crypto g) (utf8_encode (''author:server-secret:v1:'' @ keyMaterial))"

definition totp_aad :: "byte list" where
  "totp_aad = utf8_encode ''author:totp-secret:v1''"

text \<open>
  \<open>Buffer.from(s, 'base64url')\<close>: characters outside the two Base64 alphabets are skipped, the text ends at
  a padding character, bits that do not fill a byte are dropped.
\<close>

definition buffer_from_base64 :: "string \<Rightarrow> byte list" where
  "buffer_from_base64 s =
     (let t = replace_char (CHR ''_'') (CHR ''/'') (replace_char (CHR ''-'') (CHR ''+'') (takeWhile (\<lambda>c. c \<noteq> CHR ''='') s));
          ns = map (\<lambda>c. the (b64_index c)) (filter (\<lambda>c. b64_index c \<noteq> None) t);
          ns' = (if length ns mod 4 = 1 then butlast ns else ns)
      in case decode_sextets ns' of Some bs \<Rightarrow> bs | None \<Rightarrow> [])"

definition encryptServerSecret :: "auth_config \<Rightarrow> string \<Rightarrow> string auth" where
  "encryptServerSecret g v =
     (if \<not> truthy (g_serverSecret g) then raise Server_secret_required
      else bnd (random_bytes g 12) (\<lambda>iv.
        ret (SERVER_SECRET_PREFIX @ base64UrlEncode iv @ '':'' @
          base64UrlEncode (cp_encrypt (g_crypto g) (serverSecretKey g (g_serverSecret g)) iv totp_aad (utf8_encode v)))))"

definition decryptServerSecret :: "auth_config \<Rightarrow> string \<Rightarrow> string" where
  "decryptServerSecret g v =
     (if \<not> starts_with SERVER_SECRET_PREFIX v then v
      else case split_on (CHR '':'') (drop (length SERVER_SECRET_PREFIX) v) of
             iv # encrypted # _ \<Rightarrow>
               if \<not> truthy iv \<or> \<not> truthy encrypted \<or> \<not> truthy (g_serverSecret g) then v
               else (case Option.bind (cp_decrypt (g_crypto g) (serverSecretKey g (g_serverSecret g)) (buffer_from_base64 iv) totp_aad
                            (buffer_from_base64 encrypted)) utf8_decode of
                       Some p \<Rightarrow> p
                     | None \<Rightarrow> v)
           | _ \<Rightarrow> v)"

definition readableTotpSecret :: "auth_config \<Rightarrow> string option \<Rightarrow> string option" where
  "readableTotpSecret g secret =
     (if \<not> truthy_opt secret then None else cleanTotpSecret (Some (JStr (decryptServerSecret g (or_empty secret)))))"

definition verifyTotpCode_at :: "auth_config \<Rightarrow> string option \<Rightarrow> js_value option \<Rightarrow> int \<Rightarrow> bool" where
  "verifyTotpCode_at g secret v now =
     (case (readableTotpSecret g secret, cleanTotpCode v) of
        (Some cleanSecret, Some code) \<Rightarrow>
          if \<not> truthy cleanSecret then False
          else let counter = now div 1000 div TOTP_PERIOD_SECONDS
            in \<exists>offset \<in> {- 1, 0, 1}. case hotp g cleanSecret (counter + offset) of
                 Some expected \<Rightarrow> truthy expected \<and> constantTimeEqual (utf8_encode code) (utf8_encode expected)
               | None \<Rightarrow> False
      | _ \<Rightarrow> False)"

text \<open>The default argument \<open>now = Date.now()\<close> reads the clock.\<close>

definition verifyTotpCode :: "auth_config \<Rightarrow> string option \<Rightarrow> js_value option \<Rightarrow> bool auth" where
  "verifyTotpCode g secret v = bnd (clock_ms g) (\<lambda>now. ret (verifyTotpCode_at g secret v now))"

definition TOTP_SECRET_BYTES :: nat where
  "TOTP_SECRET_BYTES = 20"

definition generateTotpSecret :: "auth_config \<Rightarrow> string auth" where
  "generateTotpSecret g = bnd (random_bytes g TOTP_SECRET_BYTES) (\<lambda>bytes. ret (base32Encode bytes))"

end
