(* ===== verification/TotpTheorems.thy ===== *)
theory TotpTheorems
  imports Totp
begin

text \<open>
  Base32 round trip: the bits the encoder holds back and the bits the decoder is still collecting are,
  together, the last byte. \<open>pending e v d w b\<close> says so bit by bit.
\<close>

unbundle bit_operations_syntax

lemma index_of_nth: "distinct xs \<Longrightarrow> n < length xs \<Longrightarrow> index_of (xs ! n) xs = Some n"
proof (induction xs arbitrary: n)
  case (Cons x xs)
  then show ?case by (cases n) auto
qed simp

lemma distinct_alphabet: "distinct BASE32_ALPHABET" "length BASE32_ALPHABET = 32"
  by (simp_all add: BASE32_ALPHABET_def)

lemma and_masks: "x AND 31 = take_bit 5 x" "x AND 255 = take_bit 8 x" for x :: "32 word"
  by (simp_all add: take_bit_eq_mask mask_eq_exp_minus_1)

lemma digit_less: "unat (take_bit 5 x) < 32" for x :: "32 word"
  using take_bit_nat_less_exp [of 5 "unat x"] by (simp add: unsigned_take_bit_eq)

lemma index_of_b32: "index_of (b32_char x) BASE32_ALPHABET = Some (unat (take_bit 5 x))"
  using digit_less [of x] by (simp add: b32_char_def and_masks index_of_nth distinct_alphabet)

lemma chars_step:
  "base32_chars bits w (b32_char x # cs) =
     (let w1 = push_bit 5 w OR take_bit 5 x
      in if bits \<ge> 3 then map_option (Cons (ucast (take_bit 8 (drop_bit (bits - 3) w1)))) (base32_chars (bits - 3) w1 cs)
         else base32_chars (bits + 5) w1 cs)"
  by (simp add: index_of_b32 and_masks Let_def)

declare base32_chars.simps(2) [simp del]

definition pending :: "nat \<Rightarrow> 32 word \<Rightarrow> nat \<Rightarrow> 32 word \<Rightarrow> byte \<Rightarrow> bool" where
  "pending e v d w b \<longleftrightarrow> e \<le> 4 \<and> d = 8 - e \<and> (\<forall>i < e. bit v i = bit b i) \<and> (\<forall>i < d. bit w i = bit b (i + e))"


text \<open>One digit completes the pending byte and starts the next.\<close>

lemma digit_completes:
  assumes p: "pending e v d w b" and e: "0 < e" and v1: "v1 = push_bit 8 v OR ucast (b1 :: byte)"
    and w1: "w1 = push_bit 5 w OR take_bit 5 (drop_bit (e + 3) v1)"
  shows "ucast (take_bit 8 (drop_bit (d - 3) w1)) = b" and "\<forall>i < 5 - e. bit w1 i = bit b1 (i + e + 3)"
proof -
  have d: "e \<le> 4" "d = 8 - e" and bv: "\<And>i. i < e \<Longrightarrow> bit v i = bit b i" and bw: "\<And>i. i < d \<Longrightarrow> bit w i = bit b (i + e)"
    using p by (auto simp: pending_def)
  show "ucast (take_bit 8 (drop_bit (d - 3) w1)) = b"
  proof (rule bit_word_eqI)
    fix i assume i: "i < LENGTH(8)"
    then have i8: "i < 8" by simp
    have "bit (ucast (take_bit 8 (drop_bit (d - 3) w1)) :: byte) i = bit w1 (5 - e + i)"
      using i8 d by (simp add: bit_simps add.commute)
    also have "\<dots> = bit b i"
    proof (cases "e \<le> i")
      case True
      then have "bit w1 (5 - e + i) = bit w (i - e)" using i8 d by (auto simp: w1 bit_simps)
      then show ?thesis using True i8 d bw [of "i - e"] by simp
    next
      case False
      then have "bit w1 (5 - e + i) = bit v i" using i8 d by (auto simp: w1 v1 bit_simps dest: bit_imp_le_length)
      then show ?thesis using False bv [of i] by simp
    qed
    finally show "bit (ucast (take_bit 8 (drop_bit (d - 3) w1)) :: byte) i = bit b i" .
  qed
  show "\<forall>i < 5 - e. bit w1 i = bit b1 (i + e + 3)" using d by (auto simp: w1 v1 bit_simps ac_simps)
qed

text \<open>The digit that pads the last byte.\<close>

lemma padding_completes:
  assumes p: "pending e v d w b" and e: "0 < e" and w1: "w1 = push_bit 5 w OR take_bit 5 (push_bit (5 - e) v)"
  shows "ucast (take_bit 8 (drop_bit (d - 3) w1)) = b"
proof (rule bit_word_eqI)
  fix i assume "i < LENGTH(8)"
  then have i8: "i < 8" by simp
  have d: "e \<le> 4" "d = 8 - e" and bv: "\<And>i. i < e \<Longrightarrow> bit v i = bit b i" and bw: "\<And>i. i < d \<Longrightarrow> bit w i = bit b (i + e)"
    using p by (auto simp: pending_def)
  have "bit (ucast (take_bit 8 (drop_bit (d - 3) w1)) :: byte) i = bit w1 (5 - e + i)"
    using i8 d by (simp add: bit_simps add.commute)
  also have "\<dots> = bit b i"
  proof (cases "e \<le> i")
    case True
    then have "bit w1 (5 - e + i) = bit w (i - e)" using i8 d by (auto simp: w1 bit_simps)
    then show ?thesis using True i8 d bw [of "i - e"] by simp
  next
    case False
    then have "bit w1 (5 - e + i) = bit v i" using i8 d by (auto simp: w1 bit_simps)
    then show ?thesis using False bv [of i] by simp
  qed
  finally show "bit (ucast (take_bit 8 (drop_bit (d - 3) w1)) :: byte) i = bit b i" .
qed

lemma drain_step:
  assumes "e \<le> 4"
  shows "base32_drain (e + 8) v = (b32_char (drop_bit (e + 3) v) # (if e \<ge> 2 then [b32_char (drop_bit (e - 2) v)] else []),
    if e \<ge> 2 then e - 2 else e + 3)"
proof -
  have "base32_drain (e + 3) v = (if e \<ge> 2 then [b32_char (drop_bit (e - 2) v)] else [], if e \<ge> 2 then e - 2 else e + 3)"
    using assms by (subst base32_drain.simps) (auto simp: base32_drain.simps [of "e - 2"])
  then show ?thesis by (subst base32_drain.simps) (simp add: add.commute)
qed

lemma base32_bytes_decode:
  "base32_chars 0 w (base32_bytes 0 v bs) = Some bs \<and>
   (\<forall>e v d w b. 0 < e \<longrightarrow> pending e v d w b \<longrightarrow> base32_chars d w (base32_bytes e v bs) = Some (b # bs))"
proof (induction bs arbitrary: v w)
  case Nil
  have "base32_chars d w (base32_bytes e v []) = Some [b]" if "0 < e" "pending e v d w b" for e v d w b
  proof -
    have "3 \<le> d" using that by (auto simp: pending_def)
    then show ?thesis using padding_completes [OF that(2,1) refl] that(1) by (simp add: chars_step Let_def)
  qed
  then show ?case by simp
next
  case (Cons b1 bs)
  note stop = Cons.IH [THEN conjunct1] and go = Cons.IH [THEN conjunct2, rule_format]
  have zero: "base32_chars 0 w (base32_bytes 0 v (b1 # bs)) = Some (b1 # bs)"
  proof -
    define v1 :: "32 word" where "v1 = push_bit 8 v OR ucast b1"
    define w1 where "w1 = push_bit 5 w OR take_bit 5 (drop_bit 3 v1)"
    have "pending 3 v1 5 w1 b1" by (auto simp: pending_def v1_def w1_def bit_simps add.commute)
    from go [OF _ this] show ?thesis
      using drain_step [of 0 v1] by (simp add: v1_def [symmetric] chars_step w1_def [symmetric] Let_def)
  qed
  have "base32_chars d w (base32_bytes e v (b1 # bs)) = Some (b # b1 # bs)" if e: "0 < e" and p: "pending e v d w b" for e v d w b
  proof -
    define v1 :: "32 word" where "v1 = push_bit 8 v OR ucast b1"
    define w1 where "w1 = push_bit 5 w OR take_bit 5 (drop_bit (e + 3) v1)"
    define w2 where "w2 = push_bit 5 w1 OR take_bit 5 (drop_bit (e - 2) v1)"
    have e4: "e \<le> 4" "d = 8 - e" using p by (auto simp: pending_def)
    note out = digit_completes [OF p e v1_def w1_def]
    have low: "bit v1 i = bit b1 i" if "i < 8" for i using that by (simp add: v1_def bit_simps)
    show ?thesis
    proof (cases "e = 1")
      case True
      have "pending 4 v1 4 w1 b1" using out(2) low by (auto simp: pending_def True add.commute)
      have w: "push_bit 5 w OR take_bit 5 (drop_bit 4 v1) = w1" by (simp add: w1_def True)
      from go [OF _ \<open>pending 4 v1 4 w1 b1\<close>] show ?thesis
        using drain_step [OF e4(1), of v1] out(1) e4(2) True
        by (simp add: v1_def [symmetric] chars_step w Let_def)
    next
      case False
      then have e2: "e \<ge> 2" using e by simp
      have bits: "bit w2 i = bit b1 (i + e - 2)" if i: "i < 10 - e" for i
      proof (cases "i < 5")
        case True
        then have "bit w2 i = bit v1 (e - 2 + i)" by (auto simp: w2_def bit_simps)
        also have "e - 2 + i = i + e - 2" using e2 by arith
        also have "bit v1 (i + e - 2) = bit b1 (i + e - 2)" by (rule low) (use True e4(1) in arith)
        finally show ?thesis .
      next
        case False
        then have "bit w2 i = bit w1 (i - 5)" using i e2 by (auto simp: w2_def bit_simps)
        also have "\<dots> = bit b1 (i - 5 + e + 3)" using out(2) i False by simp
        also have "i - 5 + e + 3 = i + e - 2" using False by arith
        finally show ?thesis .
      qed
      show ?thesis
      proof (cases "e = 2")
        case True
        have "ucast (take_bit 8 w2) = b1"
          by (rule bit_word_eqI) (use bits in \<open>auto simp: bit_simps True\<close>)
        moreover have "push_bit 5 w OR take_bit 5 (drop_bit 5 v1) = w1" "push_bit 5 w1 OR take_bit 5 v1 = w2"
          by (simp_all add: w1_def w2_def True)
        ultimately show ?thesis
          using drain_step [OF e4(1), of v1] out(1) e4(2) True stop
          by (simp add: v1_def [symmetric] chars_step Let_def del: take_bit_or)
      next
        case False
        have "pending (e - 2) v1 (10 - e) w2 b1" using bits low e2 False e4 by (auto simp: pending_def)
        note rest = go [OF _ this]
        have n: "3 \<le> d" "\<not> 3 \<le> d - 3" "d - 3 + 5 = 10 - e" "0 < e - 2" using e2 False e4 by arith+
        show ?thesis
          using drain_step [OF e4(1), of v1] out(1) rest [OF n(4)] e2 n
          by (simp add: v1_def [symmetric] chars_step w1_def [symmetric] w2_def [symmetric] Let_def)
      qed
    qed
  qed
  then show ?case using zero by blast
qed

lemma alphabet_clean: "c \<in> set BASE32_ALPHABET \<Longrightarrow> upper_char c = [c] \<and> \<not> js_space c \<and> c \<noteq> CHR ''=''"
proof -
  assume "c \<in> set BASE32_ALPHABET"
  then have n: "(65 \<le> (of_char c :: nat) \<and> (of_char c :: nat) \<le> 90) \<or> (50 \<le> (of_char c :: nat) \<and> (of_char c :: nat) \<le> 55)"
    by (auto simp: BASE32_ALPHABET_def)
  then have "c \<noteq> d" if "(of_char d :: nat) \<in> {9, 10, 11, 12, 13, 32, 160, 61}" for d using that by auto
  then show ?thesis using n by (auto simp: upper_char_def js_space_def Let_def)
qed

lemma b32_char_mem: "b32_char x \<in> set BASE32_ALPHABET"
  using digit_less [of x] by (simp add: b32_char_def and_masks distinct_alphabet)

lemma drain_chars: "set (fst (base32_drain bits v)) \<subseteq> set BASE32_ALPHABET"
  by (induction bits v rule: base32_drain.induct)
    (subst base32_drain.simps, auto simp: case_prod_beta Let_def b32_char_mem)

lemma base32_bytes_chars: "set (base32_bytes bits v bs) \<subseteq> set BASE32_ALPHABET"
proof (induction bs arbitrary: bits v)
  case (Cons b bs)
  let ?v = "push_bit 8 v OR ucast b"
  show ?case using drain_chars [of "bits + 8" ?v] Cons.IH [of "snd (base32_drain (bits + 8) ?v)" ?v]
    by (simp add: case_prod_beta Let_def)
qed (auto simp: b32_char_mem)

lemma b32_clean_id:
  "\<forall>c \<in> set s. upper_char c = [c] \<and> \<not> js_space c \<and> c \<noteq> CHR ''='' \<Longrightarrow> b32_clean s = s"
proof -
  assume a: "\<forall>c \<in> set s. upper_char c = [c] \<and> \<not> js_space c \<and> c \<noteq> CHR ''=''"
  have "to_upper s = s" using a by (induction s) (simp_all add: to_upper_def)
  moreover have "filter (\<lambda>c. \<not> js_space c \<and> c \<noteq> CHR ''='') s = s" using a by (induction s) simp_all
  ultimately show ?thesis by (simp add: b32_clean_def)
qed

lemma b32_clean_encode: "b32_clean (base32Encode bytes) = base32Encode bytes"
proof (rule b32_clean_id, rule ballI)
  fix c assume "c \<in> set (base32Encode bytes)"
  then have "c \<in> set BASE32_ALPHABET" using base32_bytes_chars [of 0 0 bytes] by (simp only: base32Encode_def) blast
  then show "upper_char c = [c] \<and> \<not> js_space c \<and> c \<noteq> CHR ''=''" by (rule alphabet_clean)
qed

text \<open>
  The text a new one-time-code secret is shown as decodes to the secret's bytes, whatever their
  number: the 32-bit shifts of the encoder and the decoder lose nothing.
\<close>

lemma base32_round_trip:
  assumes "bytes \<noteq> []"
  shows "base32Decode (base32Encode bytes) = Some bytes"
proof -
  obtain b bs where b: "bytes = b # bs" using assms by (cases bytes) auto
  have "base32Encode bytes \<noteq> []" using drain_step [of 0 "push_bit 8 0 OR ucast b"] by (simp add: base32Encode_def b case_prod_beta Let_def)
  then show ?thesis using base32_bytes_decode [of 0 0 bytes] unfolding base32Decode_def b32_clean_encode by (simp add: base32Encode_def)
qed

lemma base32_round_trip_witness:
  "base32Decode (base32Encode [72, 105, 255]) = Some [72, 105, 255]"
  by (rule base32_round_trip) simp

end
