(* ===== verification/Accounts.thy ===== *)
theory Accounts
  imports Totp
begin

text \<open>
  Accounts (\<open>apps/web/src/lib/server/auth.ts\<close>): names and emails, tokens, invitations, password verifiers,
  challenges and proofs, and the operations on user rows. The picture of a profile is checked in theory
  \<open>ProfileImage\<close>, sessions and trusted devices are in theory \<open>Sessions\<close>.

  \<open>toLocaleLowerCase\<close> is the default-locale mapping \<open>to_lower\<close>. A failed \<open>DELETE\<close> that the code ignores
  (\<open>.catch(() => {})\<close>) does not occur here, as the modelled tables never fail to delete.
\<close>

section \<open>Names\<close>

definition name_alnum :: "char \<Rightarrow> bool" where
  "name_alnum c \<longleftrightarrow> (let n = (of_char c :: nat) in (97 \<le> n \<and> n \<le> 122) \<or> (48 \<le> n \<and> n \<le> 57))"

text \<open>\<open>/^[a-z0-9][a-z0-9._-]{0,62}[a-z0-9]$|^[a-z0-9]$/\<close>.\<close>

definition USERNAME_PATTERN :: "string \<Rightarrow> bool" where
  "USERNAME_PATTERN s \<longleftrightarrow> s \<noteq> [] \<and> length s \<le> 64 \<and> name_alnum (hd s) \<and> name_alnum (last s) \<and>
     (\<forall>c \<in> set s. name_alnum c \<or> c = CHR ''.'' \<or> c = CHR ''_'' \<or> c = CHR ''-'')"

text \<open>\<open>/^[^\s@]+@[^\s@]+\.[^\s@]+$/\<close>.\<close>

definition EMAIL_PATTERN :: "string \<Rightarrow> bool" where
  "EMAIL_PATTERN s \<longleftrightarrow> (\<forall>c \<in> set s. \<not> js_space c) \<and>
     (case split_on (CHR ''@'') s of
        [l, d] \<Rightarrow> l \<noteq> [] \<and> (\<exists>i \<in> {1..<length d - 1}. d ! i = CHR ''.'')
      | _ \<Rightarrow> False)"

definition normalizeUsername :: "string option \<Rightarrow> string option" where
  "normalizeUsername username =
     (case username of
        None \<Rightarrow> None
      | Some u \<Rightarrow> let n = to_lower (trim u) in if \<not> truthy n \<or> \<not> USERNAME_PATTERN n then None else Some n)"

definition normalizeEmail :: "string option \<Rightarrow> string option" where
  "normalizeEmail email =
     (case email of
        None \<Rightarrow> None
      | Some u \<Rightarrow> let n = to_lower (trim u)
          in if \<not> truthy n \<or> length n > 254 \<or> \<not> EMAIL_PATTERN n then None else Some n)"

definition requireUsername :: "string \<Rightarrow> auth_error + string" where
  "requireUsername username = (case normalizeUsername (Some username) of None \<Rightarrow> Inl Username_invalid | Some n \<Rightarrow> Inr n)"

definition requireEmail :: "string \<Rightarrow> auth_error + string" where
  "requireEmail email = (case normalizeEmail (Some email) of None \<Rightarrow> Inl Email_invalid | Some n \<Rightarrow> Inr n)"

definition cleanLoginIdentifier :: "string option \<Rightarrow> string option" where
  "cleanLoginIdentifier login = (case normalizeUsername login of Some u \<Rightarrow> Some u | None \<Rightarrow> normalizeEmail login)"

definition requirePassword :: "string \<Rightarrow> auth_error + string" where
  "requirePassword password =
     (if \<not> truthy (trim password) then Inl Password_required
      else if \<not> passwordMeetsMinimumLength password then Inl Password_too_short
      else Inr password)"

text \<open>\<open>displayName?.trim()\<close>: the signup route passes on any JSON value, and only strings have a \<open>trim\<close>.\<close>

definition cleanDisplayName :: "js_value option \<Rightarrow> auth_error + string option" where
  "cleanDisplayName displayName =
     (case displayName of
        None \<Rightarrow> Inr None
      | Some JNull \<Rightarrow> Inr None
      | Some (JStr d) \<Rightarrow> Inr (if \<not> truthy (trim d) then None else Some (take 80 (trim d)))
      | _ \<Rightarrow> Inl Type_error)"

section \<open>Tokens\<close>

definition byte_hex :: "byte \<Rightarrow> string" where
  "byte_hex b = [hex_char (unat b div 16), hex_char (unat b mod 16)]"

definition sha256_text :: "auth_config \<Rightarrow> string \<Rightarrow> byte list" where
  "sha256_text g v = cp_sha256 (g_crypto g) (utf8_encode v)"

definition tokenHash :: "auth_config \<Rightarrow> string \<Rightarrow> string" where
  "tokenHash g token = concat (map byte_hex (sha256_text g token))"

text \<open>
  \<open>difference\<close> starts as the exclusive or of the two lengths; an index beyond the end reads as 0.
\<close>

definition string_byte :: "byte list \<Rightarrow> nat \<Rightarrow> 32 word" where
  "string_byte bs k = (if k < length bs then ucast (bs ! k) else 0)"

definition constantTimeStringEqual :: "string \<Rightarrow> string \<Rightarrow> bool" where
  "constantTimeStringEqual actual expected \<longleftrightarrow>
     (let a = utf8_encode actual; b = utf8_encode expected; len = max (max (length a) (length b)) 1
      in fold (\<lambda>k d. or d (xor (string_byte a k) (string_byte b k))) [0..<len]
           (xor (of_nat (length a)) (of_nat (length b))) = (0 :: 32 word))"

definition tokensMatch :: "string option \<Rightarrow> string \<Rightarrow> bool" where
  "tokensMatch actual expected \<longleftrightarrow>
     (case actual of None \<Rightarrow> False | Some a \<Rightarrow> if \<not> truthy a then False else constantTimeStringEqual a expected)"

definition deviceTrustSecretHash :: "auth_config \<Rightarrow> string \<Rightarrow> string \<Rightarrow> string \<Rightarrow> string" where
  "deviceTrustSecretHash g username deviceId secret =
     tokenHash g (''trusted-device:v1'' @ nul @ username @ nul @ deviceId @ nul @ secret)"

definition normalizeDeviceTrustSecret :: "string option \<Rightarrow> string option" where
  "normalizeDeviceTrustSecret secret =
     (case secret of
        None \<Rightarrow> None
      | Some x \<Rightarrow> if \<not> truthy (trim x) \<or> length (trim x) < 32 then None else Some (trim x))"

definition requireDeviceTrustSecret :: "string option \<Rightarrow> auth_error + string" where
  "requireDeviceTrustSecret secret =
     (case normalizeDeviceTrustSecret secret of None \<Rightarrow> Inl Device_trust_secret_required | Some x \<Rightarrow> Inr x)"

section \<open>Invitations\<close>

definition SIGNUP_INVITATION_PREFIX :: string where
  "SIGNUP_INVITATION_PREFIX = ''invite:v1:''"

definition SIGNUP_INVITATION_MAX_TTL_MS :: int where
  "SIGNUP_INVITATION_MAX_TTL_MS = 90 * 24 * 60 * 60000"

definition hasSignupAllowedEmails :: "authdb \<Rightarrow> bool" where
  "hasSignupAllowedEmails s \<longleftrightarrow> a_allowedEmails s \<noteq> []"

definition isSignupEmailAllowed :: "string \<Rightarrow> bool auth" where
  "isSignupEmailAllowed email =
     bnd (check (requireEmail email)) (\<lambda>normalized. asks (\<lambda>s. normalized \<in> set (a_allowedEmails s)))"

definition signupInvitationSignature :: "auth_config \<Rightarrow> string \<Rightarrow> string" where
  "signupInvitationSignature g payload =
     base64UrlEncode (hmacSha256 (g_crypto g) (utf8_encode (g_serverSecret g)) (''author:signup-invitation:v1:'' @ payload))"

text \<open>\<open>expiresAt\<close> is the time in milliseconds; its default is seven days from now. Two readings of the clock.\<close>

definition createSignupInvitation :: "auth_config \<Rightarrow> string \<Rightarrow> int option \<Rightarrow> string auth" where
  "createSignupInvitation g email expiresAt =
     bnd (case expiresAt of
            Some t \<Rightarrow> ret t
          | None \<Rightarrow> bnd (clock_ms g) (\<lambda>now. ret (now + 7 * 24 * 60 * 60000))) (\<lambda>expiry.
     bnd (check (requireEmail email)) (\<lambda>normalizedEmail.
     bnd (clock_ms g) (\<lambda>now.
       let ttl = expiry - now
       in if ttl \<le> 0 \<or> ttl > SIGNUP_INVITATION_MAX_TTL_MS then raise Invitation_expiry_invalid
          else bnd (random_bytes g 16) (\<lambda>nonce.
            let payload = stringify (JObj [(''email'', JStr normalizedEmail), (''expiresAt'', JStr (to_iso expiry)),
                  (''nonce'', JStr (base64UrlEncode nonce))]);
                encoded = base64UrlEncode (utf8_encode payload)
            in ret (SIGNUP_INVITATION_PREFIX @ encoded @ '':'' @ signupInvitationSignature g encoded)))))"

definition signupInvitationIsValid_at :: "auth_config \<Rightarrow> string \<Rightarrow> string option \<Rightarrow> int \<Rightarrow> bool" where
  "signupInvitationIsValid_at g email invitationCode now \<longleftrightarrow>
     (case (normalizeEmail (Some email), invitationCode) of
        (Some normalizedEmail, Some code) \<Rightarrow>
          let v = trim code
          in if \<not> starts_with SIGNUP_INVITATION_PREFIX v then False
             else (case split_on (CHR '':'') (drop (length SIGNUP_INVITATION_PREFIX) v) of
                     [payload_text, sig_text] \<Rightarrow>
                       if \<not> tokensMatch (Some sig_text) (signupInvitationSignature g payload_text) then False
                       else (case Option.bind (utf8_decode (buffer_from_base64 payload_text)) parse_json of
                               None \<Rightarrow> False
                             | Some payload \<Rightarrow>
                                 let expiry = date_parse (g_env g) (case get_prop payload ''expiresAt'' of Some (JStr t) \<Rightarrow> t | _ \<Rightarrow> [])
                                 in get_prop payload ''email'' = Some (JStr normalizedEmail) \<and>
                                    (case get_prop payload ''nonce'' of Some (JStr t) \<Rightarrow> length t \<ge> 16 | _ \<Rightarrow> False) \<and>
                                    (case expiry of None \<Rightarrow> False | Some t \<Rightarrow> t > now \<and> t - now \<le> SIGNUP_INVITATION_MAX_TTL_MS))
                   | _ \<Rightarrow> False)
      | _ \<Rightarrow> False)"

definition signupInvitationIsValid :: "auth_config \<Rightarrow> string \<Rightarrow> string option \<Rightarrow> bool auth" where
  "signupInvitationIsValid g email invitationCode =
     bnd (clock_ms g) (\<lambda>now. ret (signupInvitationIsValid_at g email invitationCode now))"

section \<open>Key rings\<close>

definition E2EE_KEYRING_MAX_BYTES :: int where
  "E2EE_KEYRING_MAX_BYTES = 64 * 1024"

definition validWrappedKeyringBox_server :: "js_value option \<Rightarrow> string \<Rightarrow> bool" where
  "validWrappedKeyringBox_server v context_name \<longleftrightarrow>
     (case v of
        None \<Rightarrow> False
      | Some box \<Rightarrow>
          if \<not> is_object box then False
          else get_prop box ''alg'' = Some (JStr ''AES-256-GCM'') \<and> get_prop box ''kdf'' = Some (JStr ''sha256'') \<and>
            get_prop box ''context'' = Some (JStr context_name) \<and>
            (case get_prop box ''iv'' of Some (JStr t) \<Rightarrow> BASE64URL_PATTERN t \<and> length t = 16 | _ \<Rightarrow> False) \<and>
            (case get_prop box ''ciphertext'' of Some (JStr t) \<Rightarrow> BASE64URL_PATTERN t \<and> length t \<ge> 22 | _ \<Rightarrow> False))"

definition validE2eeKeyring :: "auth_config \<Rightarrow> string \<Rightarrow> bool" where
  "validE2eeKeyring g v \<longleftrightarrow>
     (case parse_json v of
        None \<Rightarrow> False
      | Some parsed \<Rightarrow>
          get_prop parsed ''version'' = Some (JNum 1) \<and>
          (case get_prop parsed ''activeKeyId'' of
             Some (JStr t) \<Rightarrow> BASE64URL_PATTERN t \<and> 8 \<le> length t \<and> length t \<le> 128 | _ \<Rightarrow> False) \<and>
          (case get_prop parsed ''wrappedAt'' of Some (JStr t) \<Rightarrow> date_parse (g_env g) t \<noteq> None | _ \<Rightarrow> False) \<and>
          validWrappedKeyringBox_server (get_prop parsed ''passwordWrap'') ''password'' \<and>
          (get_prop parsed ''recoveryWrap'' = None \<or>
           validWrappedKeyringBox_server (get_prop parsed ''recoveryWrap'') ''recovery''))"

definition cleanE2eeKeyring :: "auth_config \<Rightarrow> string option \<Rightarrow> auth_error + string option" where
  "cleanE2eeKeyring g v =
     (case v of
        None \<Rightarrow> Inr None
      | Some t \<Rightarrow>
          if \<not> truthy (trim t) \<or> int (utf8_length (trim t)) > E2EE_KEYRING_MAX_BYTES \<or> \<not> validE2eeKeyring g (trim t)
          then Inl Invalid_keyring_text
          else Inr (Some (trim t)))"

definition e2eeKeyringHash :: "auth_config \<Rightarrow> string option \<Rightarrow> string option" where
  "e2eeKeyringHash g v = (if truthy_opt v then Some (base64UrlEncode (sha256_text g (or_empty v))) else None)"

section \<open>Password verifiers\<close>

definition PASSWORD_KEY_LENGTH :: nat where
  "PASSWORD_KEY_LENGTH = 32"

definition PASSWORD_VERIFIER_PREFIX :: string where
  "PASSWORD_VERIFIER_PREFIX = AUTH_PROOF_ALGORITHM @ '':v1:''"

record parsed_verifier =
  vf_params :: kdf_params
  vf_storedKey :: "byte list"
  vf_serverKey :: "byte list"
  vf_salt :: string

definition requirePasswordVerifier :: "password_verifier \<Rightarrow> auth_error + password_verifier" where
  "requirePasswordVerifier v =
     (if pv_algorithm v \<noteq> AUTH_PROOF_ALGORITHM \<or> \<not> authKdfParamsAreCurrent (Some (pv_params v)) then Inl Verifier_unsupported
      else case (decodeBase64UrlStrict (pv_salt v), decodeBase64UrlStrict (pv_storedKey v), decodeBase64UrlStrict (pv_serverKey v)) of
             (Some salt, Some storedKey, Some serverKey) \<Rightarrow>
               if length salt < 16 \<or> length storedKey \<noteq> PASSWORD_KEY_LENGTH \<or> length serverKey \<noteq> PASSWORD_KEY_LENGTH
               then Inl Verifier_invalid else Inr v
           | _ \<Rightarrow> Inl Verifier_invalid)"

definition passwordHashFromVerifier :: "password_verifier \<Rightarrow> auth_error + string \<times> string" where
  "passwordHashFromVerifier v =
     and_then (requirePasswordVerifier v) (\<lambda>n.
       Inr (PASSWORD_VERIFIER_PREFIX @ authKdfParamsString (pv_params n) @ '':'' @ pv_storedKey n @ '':'' @ pv_serverKey n, pv_salt n))"

definition parsePasswordVerifier :: "user_row \<Rightarrow> parsed_verifier option" where
  "parsePasswordVerifier row =
     (if \<not> starts_with PASSWORD_VERIFIER_PREFIX (u_passwordHash row) then None
      else case split_on (CHR '':'') (drop (length PASSWORD_VERIFIER_PREFIX) (u_passwordHash row)) of
             [params, storedKeyValue, serverKeyValue] \<Rightarrow>
               if params \<noteq> authKdfParamsString AUTH_PROOF_KDF_PARAMS then None
               else (case (decodeBase64UrlStrict storedKeyValue, decodeBase64UrlStrict serverKeyValue,
                           decodeBase64UrlStrict (u_passwordSalt row)) of
                       (Some storedKey, Some serverKey, Some salt) \<Rightarrow>
                         if length storedKey \<noteq> PASSWORD_KEY_LENGTH \<or> length serverKey \<noteq> PASSWORD_KEY_LENGTH \<or> length salt < 16
                         then None
                         else Some \<lparr>vf_params = AUTH_PROOF_KDF_PARAMS, vf_storedKey = storedKey, vf_serverKey = serverKey,
                                    vf_salt = u_passwordSalt row\<rparr>
                     | _ \<Rightarrow> None)
           | _ \<Rightarrow> None)"

definition verifyPassword :: "auth_config \<Rightarrow> string \<Rightarrow> user_row \<Rightarrow> auth_error + bool" where
  "verifyPassword g password row =
     (case parsePasswordVerifier row of
        None \<Rightarrow> Inr False
      | Some verifier \<Rightarrow>
          (case passwordVerifierFromPassword (g_crypto g) password (vf_salt verifier) (vf_params verifier) of
             Inl err \<Rightarrow> Inl (Proof_failed err)
           | Inr candidate \<Rightarrow>
               Inr (case decodeBase64UrlStrict (pv_storedKey candidate) of
                      None \<Rightarrow> False
                    | Some k \<Rightarrow> constantTimeEqual k (vf_storedKey verifier))))"

section \<open>Users\<close>

record auth_user =
  au_username :: string
  au_email :: "string option"
  au_displayName :: "string option"
  au_profileImage :: "string option"
  au_twoFactorEnabled :: bool

definition rowToAuthUser :: "user_row \<Rightarrow> auth_user" where
  "rowToAuthUser row = \<lparr>au_username = u_username row, au_email = u_email row, au_displayName = u_displayName row,
     au_profileImage = u_profileImage row, au_twoFactorEnabled = (truthy_opt (u_totpSecret row) \<and> truthy_opt (u_totpEnabledAt row))\<rparr>"

definition getUserRow :: "string \<Rightarrow> user_row option auth" where
  "getUserRow username = asks (user_row_of username)"

definition getUserRowByEmail :: "string \<Rightarrow> user_row option auth" where
  "getUserRowByEmail email = asks (user_row_by_email email)"

definition getUserRowByLogin :: "string option \<Rightarrow> user_row option auth" where
  "getUserRowByLogin login =
     (case normalizeUsername login of
        Some username \<Rightarrow> getUserRow username
      | None \<Rightarrow> (case normalizeEmail login of Some email \<Rightarrow> getUserRowByEmail email | None \<Rightarrow> ret None))"

definition getUserE2eeKeyring :: "string \<Rightarrow> string option auth" where
  "getUserE2eeKeyring username =
     bnd (check (requireUsername username)) (\<lambda>n. bnd (getUserRow n) (\<lambda>row. ret (Option.bind row u_e2eeKeyring)))"

definition accountDeleted :: "string \<Rightarrow> authdb \<Rightarrow> bool" where
  "accountDeleted username s \<longleftrightarrow> tget at_username username (s_accountTombstones s) \<noteq> None"

definition authCredentialsChanged :: "user_row option \<Rightarrow> user_row \<Rightarrow> bool" where
  "authCredentialsChanged existing next_row \<longleftrightarrow>
     (case existing of
        None \<Rightarrow> True
      | Some x \<Rightarrow> u_passwordHash x \<noteq> u_passwordHash next_row \<or> u_passwordSalt x \<noteq> u_passwordSalt next_row \<or>
          u_totpSecret x \<noteq> u_totpSecret next_row \<or> u_totpEnabledAt x \<noteq> u_totpEnabledAt next_row)"

text \<open>The upsert of a user row by a password change: the columns it sets, given the row that is there.\<close>

definition password_row :: "string \<Rightarrow> string \<times> string \<Rightarrow> string option \<Rightarrow> string \<Rightarrow> user_row option \<Rightarrow> user_row" where
  "password_row username hash keyring now existing =
     (case existing of
        Some x \<Rightarrow> x\<lparr>u_passwordHash := fst hash, u_passwordSalt := snd hash,
                   u_e2eeKeyring := (case keyring of Some k \<Rightarrow> Some k | None \<Rightarrow> u_e2eeKeyring x), u_updatedAt := now\<rparr>
      | None \<Rightarrow> \<lparr>u_username = username, u_email = None, u_displayName = None, u_profileImage = None,
                 u_passwordHash = fst hash, u_passwordSalt = snd hash, u_e2eeKeyring = keyring, u_totpSecret = None,
                 u_totpEnabledAt = None, u_createdAt = now, u_updatedAt = now\<rparr>)"

text \<open>The argument \<open>e2eeKeyring\<close> may be absent (\<open>None\<close>), \<open>null\<close> (\<open>Some None\<close>) or a text.\<close>

definition clean_optional_keyring :: "auth_config \<Rightarrow> string option option \<Rightarrow> auth_error + string option" where
  "clean_optional_keyring g k = (case k of None \<Rightarrow> Inr None | Some v \<Rightarrow> cleanE2eeKeyring g v)"

definition setUserPasswordVerifier :: "auth_config \<Rightarrow> string \<Rightarrow> password_verifier \<Rightarrow> string option option \<Rightarrow> auth_user auth" where
  "setUserPasswordVerifier g username verifier e2eeKeyring =
     bnd (check (requireUsername username)) (\<lambda>normalized.
     bnd (asks (\<lambda>s. accountDeleted normalized s \<and> user_row_of normalized s = None)) (\<lambda>deleted.
       if deleted then raise Username_deleted
       else bnd (now_iso g) (\<lambda>now.
         bnd (check (passwordHashFromVerifier verifier)) (\<lambda>hash.
         bnd (getUserRow normalized) (\<lambda>existing.
         bnd (check (clean_optional_keyring g e2eeKeyring)) (\<lambda>nextKeyring.
           if truthy_opt (Option.bind existing u_e2eeKeyring) \<and> \<not> truthy_opt nextKeyring then raise Keyring_replacement_required
           else seq (delete_sessions_of normalized)
             (seq (delete_trusted_of normalized)
             (seq (put_user (password_row normalized hash nextKeyring now existing))
               (ret \<lparr>au_username = normalized, au_email = None, au_displayName = None, au_profileImage = None,
                     au_twoFactorEnabled = False\<rparr>)))))))))"

definition proof_check :: "proof_error + 'a \<Rightarrow> 'a auth" where
  "proof_check r = check (case r of Inl err \<Rightarrow> Inl (Proof_failed err) | Inr x \<Rightarrow> Inr x)"

definition setUserPassword :: "auth_config \<Rightarrow> string \<Rightarrow> string \<Rightarrow> auth_user auth" where
  "setUserPassword g username password =
     bnd (check (requirePassword password)) (\<lambda>safePassword.
     bnd (random_bytes g 16) (\<lambda>salt.
     bnd (proof_check (passwordVerifierFromPassword (g_crypto g) safePassword (base64UrlEncode salt) AUTH_PROOF_KDF_PARAMS))
       (\<lambda>verifier. setUserPasswordVerifier g username verifier None)))"

definition createUserAccount ::
  "auth_config \<Rightarrow> string \<Rightarrow> string \<Rightarrow> password_verifier \<Rightarrow> js_value option \<Rightarrow> string option \<Rightarrow> auth_user option auth" where
  "createUserAccount g username email verifier displayName e2eeKeyring =
     bnd (check (requireUsername username)) (\<lambda>normalized.
     bnd (check (requireEmail email)) (\<lambda>normalizedEmail.
     bnd (asks (\<lambda>s. user_row_of normalized s \<noteq> None \<or> user_row_by_email normalizedEmail s \<noteq> None \<or> accountDeleted normalized s)) (\<lambda>taken.
       if taken then ret None
       else bnd (now_iso g) (\<lambda>now.
         bnd (check (passwordHashFromVerifier verifier)) (\<lambda>hash.
         bnd (check (cleanDisplayName displayName)) (\<lambda>nextDisplayName.
            bnd (check (cleanE2eeKeyring g e2eeKeyring)) (\<lambda>nextKeyring.
            seq (put_user \<lparr>u_username = normalized, u_email = Some normalizedEmail, u_displayName = nextDisplayName,
                   u_profileImage = None, u_passwordHash = fst hash, u_passwordSalt = snd hash, u_e2eeKeyring = nextKeyring,
                   u_totpSecret = None, u_totpEnabledAt = None, u_createdAt = now, u_updatedAt = now\<rparr>)
              (ret (Some \<lparr>au_username = normalized, au_email = Some normalizedEmail, au_displayName = nextDisplayName,
                     au_profileImage = None, au_twoFactorEnabled = False\<rparr>)))))))))"

definition createInvitedUserAccount ::
  "auth_config \<Rightarrow> string \<Rightarrow> string \<Rightarrow> string \<Rightarrow> password_verifier \<Rightarrow> js_value option \<Rightarrow> string option \<Rightarrow> auth_user option auth" where
  "createInvitedUserAccount g username email invitationCode verifier displayName e2eeKeyring =
     withWriteTransaction
       (bnd (isSignupEmailAllowed email) (\<lambda>allowed.
        bnd (if allowed then signupInvitationIsValid g email (Some invitationCode) else ret False) (\<lambda>valid.
          if \<not> valid then ret None
          else let hash = base64UrlEncode (sha256_text g (trim invitationCode))
            in bnd (asks (\<lambda>s. tget iv_tokenHash hash (a_invitations s) \<noteq> None)) (\<lambda>consumed.
              if consumed then ret None
              else bnd (createUserAccount g username email verifier displayName e2eeKeyring) (\<lambda>user.
                case user of
                  None \<Rightarrow> ret None
                | Some u \<Rightarrow>
                    bnd (now_iso g) (\<lambda>now.
                    seq (modify (\<lambda>s. s\<lparr>a_invitations := tput iv_tokenHash \<lparr>iv_tokenHash = hash, iv_consumedAt = now\<rparr> (a_invitations s)\<rparr>))
                      (ret (Some u))))))))"

end
