(* ===== verification/Challenges.thy ===== *)
theory Challenges
  imports Accounts
begin

text \<open>
  Challenges and proofs of the password (\<open>apps/web/src/lib/server/auth.ts\<close>): a challenge is stored when it
  is handed out, is removed by the first attempt to answer it, and expires; and the account operations
  that a proof authorises.
\<close>

section \<open>Handing out a challenge\<close>

definition AUTH_CHALLENGE_TTL_MS :: int where
  "AUTH_CHALLENGE_TTL_MS = 5 * 60000"

definition MAX_AUTH_CHALLENGE_ROWS :: nat where
  "MAX_AUTH_CHALLENGE_ROWS = 1000"

definition MAX_AUTH_CHALLENGES_PER_USER_PURPOSE :: nat where
  "MAX_AUTH_CHALLENGES_PER_USER_PURPOSE = 5"

definition fakeAuthSalt :: "auth_config \<Rightarrow> string \<Rightarrow> string" where
  "fakeAuthSalt g identifier =
     base64UrlEncode (take 16 (sha256_text g (''author:auth-proof-fake-salt:v1'' @ nul @ g_serverSecret g @ nul @ identifier)))"

abbreviation same_slot :: "string \<Rightarrow> auth_purpose \<Rightarrow> challenge_row \<Rightarrow> bool" where
  "same_slot username purpose r \<equiv> hc_username r = username \<and> hc_purpose r = purpose"

definition drop_challenges :: "(challenge_row \<Rightarrow> bool) \<Rightarrow> unit auth" where
  "drop_challenges P = modify (\<lambda>s. s\<lparr>a_challenges := filter (\<lambda>r. \<not> P r) (a_challenges s)\<rparr>)"

definition insert_challenge :: "challenge_row \<Rightarrow> unit auth" where
  "insert_challenge r = (\<lambda>s.
     if tget hc_id (hc_id r) (a_challenges s) \<noteq> None then (Inl Primary_key_failed, s)
     else (Inr (), s\<lparr>a_challenges := tput hc_id r (a_challenges s)\<rparr>))"

text \<open>\<open>ORDER BY created_at DESC, id DESC LIMIT n\<close> among the challenges of a user for a purpose.\<close>

definition newest_challenges :: "string \<Rightarrow> auth_purpose \<Rightarrow> authdb \<Rightarrow> string list" where
  "newest_challenges username purpose s =
     map hc_id (take MAX_AUTH_CHALLENGES_PER_USER_PURPOSE
       (rev (sort_key (\<lambda>r. (hc_createdAt r, hc_id r)) (filter (same_slot username purpose) (a_challenges s)))))"

definition keep_newest_challenges :: "string \<Rightarrow> auth_purpose \<Rightarrow> unit auth" where
  "keep_newest_challenges username purpose =
     modify (\<lambda>s. s\<lparr>a_challenges := filter (\<lambda>r. \<not> (same_slot username purpose r \<and> hc_id r \<notin> set (newest_challenges username purpose s)))
       (a_challenges s)\<rparr>)"

text \<open>\<open>ORDER BY created_at ASC LIMIT count - 1000\<close>.\<close>

definition oldest_challenges :: "authdb \<Rightarrow> string list" where
  "oldest_challenges s =
     map hc_id (take (length (a_challenges s) - MAX_AUTH_CHALLENGE_ROWS) (sort_key hc_createdAt (a_challenges s)))"

definition cap_challenges :: "unit auth" where
  "cap_challenges =
     modify (\<lambda>s. if length (a_challenges s) > MAX_AUTH_CHALLENGE_ROWS
       then s\<lparr>a_challenges := filter (\<lambda>r. hc_id r \<notin> set (oldest_challenges s)) (a_challenges s)\<rparr> else s)"

definition challenge_mode_for :: "auth_config \<Rightarrow> auth_purpose \<Rightarrow> user_row option \<Rightarrow> string \<Rightarrow> challenge_mode" where
  "challenge_mode_for g purpose row username =
     (let bootstrapUsername = normalizeUsername (Some (g_loginUsername g))
      in if purpose = Login_purpose \<and> row = None \<and> bootstrapUsername \<noteq> None \<and> truthy_opt (g_loginPassword g) \<and>
            bootstrapUsername = Some username
         then Bootstrap_mode else Proof_mode)"

definition createAuthChallenge ::
  "auth_config \<Rightarrow> string option \<Rightarrow> auth_purpose \<Rightarrow> string \<Rightarrow> auth_challenge_response option auth" where
  "createAuthChallenge g login purpose clientNonce =
     (case (cleanLoginIdentifier login, decodeBase64UrlStrict clientNonce) of
        (Some username, Some clientNonceBytes) \<Rightarrow>
          if length clientNonceBytes < 16 then ret None
          else bnd (getUserRowByLogin (Some username)) (\<lambda>row.
            let verifier = Option.bind row parsePasswordVerifier
            in bnd (clock_ms g) (\<lambda>now.
               bnd (random_bytes g 24) (\<lambda>idBytes.
               bnd (random_bytes g 32) (\<lambda>nonceBytes.
               let challengeId = base64UrlEncode idBytes; serverNonce = base64UrlEncode nonceBytes;
                   nowIso = to_iso now; expiresAt = to_iso (now + AUTH_CHALLENGE_TTL_MS);
                   salt = (case verifier of Some v \<Rightarrow> vf_salt v | None \<Rightarrow> fakeAuthSalt g username)
               in seq (drop_challenges (\<lambda>r. hc_expiresAt r \<le> nowIso))
                 (seq (drop_challenges (\<lambda>r. same_slot username purpose r \<and> hc_createdAt r < to_iso (now - AUTH_CHALLENGE_TTL_MS)))
                 (seq (insert_challenge \<lparr>hc_id = challengeId, hc_username = username, hc_purpose = purpose,
                    hc_clientNonce = clientNonce, hc_serverNonce = serverNonce, hc_createdAt = nowIso, hc_expiresAt = expiresAt\<rparr>)
                 (seq (keep_newest_challenges username purpose)
                 (seq cap_challenges
                   (ret (Some \<lparr>cr_mode = challenge_mode_for g purpose row username, cr_challengeId = challengeId,
                      cr_username = username, cr_purpose = purpose, cr_clientNonce = clientNonce, cr_serverNonce = serverNonce,
                      cr_expiresAt = expiresAt, cr_salt = salt,
                      cr_params = (case verifier of Some v \<Rightarrow> vf_params v | None \<Rightarrow> AUTH_PROOF_KDF_PARAMS)\<rparr>))))))))))
      | _ \<Rightarrow> ret None)"

section \<open>Answering a challenge\<close>

definition consumeAuthChallenge :: "auth_config \<Rightarrow> auth_proof option \<Rightarrow> auth_purpose \<Rightarrow> challenge_row option auth" where
  "consumeAuthChallenge g proof purpose =
     (case proof of
        None \<Rightarrow> ret None
      | Some p \<Rightarrow>
          bnd (asks (\<lambda>s. tget hc_id (ap_challengeId p) (a_challenges s))) (\<lambda>row.
            case row of
              None \<Rightarrow> ret None
            | Some r \<Rightarrow>
                seq (modify (\<lambda>s. s\<lparr>a_challenges := tdel hc_id (ap_challengeId p) (a_challenges s)\<rparr>))
                  (if hc_purpose r \<noteq> purpose then ret None
                   else if hc_clientNonce r \<noteq> ap_clientNonce p then ret None
                   else bnd (now_iso g) (\<lambda>now. if hc_expiresAt r \<le> now then ret None else ret (Some r)))))"

definition verifyProofForRow :: "auth_config \<Rightarrow> user_row \<Rightarrow> challenge_row \<Rightarrow> auth_proof \<Rightarrow> auth_error + string option" where
  "verifyProofForRow g row challenge proof =
     (case (parsePasswordVerifier row, decodeBase64UrlStrict (ap_proof proof)) of
        (Some verifier, Some proofBytes) \<Rightarrow>
          if length proofBytes \<noteq> PASSWORD_KEY_LENGTH then Inr None
          else let message = authProofMessage (hc_id challenge) (hc_username challenge) (hc_purpose challenge)
                     (hc_clientNonce challenge) (hc_serverNonce challenge) (vf_salt verifier) (vf_params verifier);
                   clientSignature = hmacSha256 (g_crypto g) (vf_storedKey verifier) message
            in (case xorBytes proofBytes clientSignature of
                  Inl err \<Rightarrow> Inl (Proof_failed err)
                | Inr clientKey \<Rightarrow>
                    if \<not> constantTimeEqual (cp_sha256 (g_crypto g) clientKey) (vf_storedKey verifier) then Inr None
                    else Inr (Some (base64UrlEncode (hmacSha256 (g_crypto g) (vf_serverKey verifier) message))))
      | _ \<Rightarrow> Inr None)"

record verified_proof =
  vp_user :: auth_user
  vp_serverProof :: string

text \<open>\<open>row.totp_secret && !(await verifyTotpCode(...))\<close>.\<close>

definition totp_refused :: "auth_config \<Rightarrow> user_row \<Rightarrow> js_value option \<Rightarrow> bool auth" where
  "totp_refused g row totpCode =
     (if truthy_opt (u_totpSecret row) then bnd (verifyTotpCode g (u_totpSecret row) totpCode) (\<lambda>ok. ret (\<not> ok)) else ret False)"

definition authenticateUserProof ::
  "auth_config \<Rightarrow> string option \<Rightarrow> auth_proof option \<Rightarrow> js_value option \<Rightarrow> verified_proof option auth" where
  "authenticateUserProof g login proof totpCode =
     bnd (consumeAuthChallenge g proof Login_purpose) (\<lambda>challenge.
       case (challenge, proof) of
         (Some ch, Some p) \<Rightarrow>
           (if (case cleanLoginIdentifier login of Some l \<Rightarrow> l \<noteq> hc_username ch | None \<Rightarrow> False) then ret None
            else bnd (getUserRowByLogin (Some (hc_username ch))) (\<lambda>found.
              case found of
                None \<Rightarrow> ret None
              | Some row \<Rightarrow>
                  bnd (check (verifyProofForRow g row ch p)) (\<lambda>serverProof.
                    case serverProof of
                      None \<Rightarrow> ret None
                    | Some sp \<Rightarrow> bnd (totp_refused g row totpCode) (\<lambda>refused.
                        if refused then ret None else ret (Some \<lparr>vp_user = rowToAuthUser row, vp_serverProof = sp\<rparr>)))))
       | _ \<Rightarrow> ret None)"

definition verifyUserProof :: "auth_config \<Rightarrow> string \<Rightarrow> auth_proof option \<Rightarrow> auth_purpose \<Rightarrow> user_row option auth" where
  "verifyUserProof g username proof purpose =
     bnd (check (requireUsername username)) (\<lambda>normalized.
     bnd (consumeAuthChallenge g proof purpose) (\<lambda>challenge.
       case (challenge, proof) of
         (Some ch, Some p) \<Rightarrow>
           (if hc_username ch \<noteq> normalized then ret None
            else bnd (getUserRow normalized) (\<lambda>found.
              case found of
                None \<Rightarrow> ret None
              | Some row \<Rightarrow> bnd (check (verifyProofForRow g row ch p)) (\<lambda>sp. ret (if sp = None then None else Some row))))
       | _ \<Rightarrow> ret None))"

section \<open>Operations a proof authorises\<close>

definition as_user :: "user_row option \<Rightarrow> auth_user option" where
  "as_user row = map_option rowToAuthUser row"

definition set_keyring :: "string \<Rightarrow> string option \<Rightarrow> string \<Rightarrow> unit auth" where
  "set_keyring username keyring now =
     modify (\<lambda>s. s\<lparr>s_users := map (\<lambda>u. if u_username u = username then u\<lparr>u_e2eeKeyring := keyring, u_updatedAt := now\<rparr> else u) (s_users s)\<rparr>)"

definition updateUserE2eeKeyring ::
  "auth_config \<Rightarrow> string \<Rightarrow> auth_proof option \<Rightarrow> string option \<Rightarrow> string option option \<Rightarrow> auth_user option auth" where
  "updateUserE2eeKeyring g username proof e2eeKeyring expectedHash =
     (case e2eeKeyring of
        None \<Rightarrow> ret None
      | Some keyring \<Rightarrow>
          if \<not> truthy (trim keyring) then ret None
          else bnd (check (requireUsername username)) (\<lambda>normalized.
            withWriteTransaction
              (bnd (verifyUserProof g normalized proof Keyring_update_purpose) (\<lambda>found.
                case found of
                  None \<Rightarrow> ret None
                | Some row \<Rightarrow>
                    if expectedHash \<noteq> Some (e2eeKeyringHash g (u_e2eeKeyring row)) then ret None
                    else bnd (check (cleanE2eeKeyring g (Some keyring))) (\<lambda>nextKeyring.
                      bnd (now_iso g) (\<lambda>now.
                      seq (set_keyring normalized nextKeyring now)
                        (bnd (getUserRow normalized) (\<lambda>updated. ret (as_user updated)))))))))"

definition changeUserPassword ::
  "auth_config \<Rightarrow> string \<Rightarrow> auth_proof option \<Rightarrow> password_verifier option \<Rightarrow> string option option \<Rightarrow> auth_user option auth" where
  "changeUserPassword g username proof newVerifier e2eeKeyring =
     bnd (check (requireUsername username)) (\<lambda>normalized.
     bnd (verifyUserProof g normalized proof Password_change_purpose) (\<lambda>row.
       case (row, newVerifier) of
         (Some _, Some v) \<Rightarrow>
           seq (setUserPasswordVerifier g normalized v e2eeKeyring)
             (bnd (getUserRow normalized) (\<lambda>updated. ret (as_user updated)))
       | _ \<Rightarrow> ret None))"

definition set_totp :: "string \<Rightarrow> string option \<Rightarrow> string option \<Rightarrow> string \<Rightarrow> unit auth" where
  "set_totp username secret enabledAt now =
     modify (\<lambda>s. s\<lparr>s_users := map (\<lambda>u. if u_username u = username
        then u\<lparr>u_totpSecret := secret, u_totpEnabledAt := enabledAt, u_updatedAt := now\<rparr> else u) (s_users s)\<rparr>)"

definition enableUserTotp ::
  "auth_config \<Rightarrow> string \<Rightarrow> auth_proof option \<Rightarrow> js_value option \<Rightarrow> js_value option \<Rightarrow> auth_user option auth" where
  "enableUserTotp g username proof secret totpCode =
     bnd (check (requireUsername username)) (\<lambda>normalized.
     bnd (verifyUserProof g normalized proof Totp_purpose) (\<lambda>row.
       case (row, cleanTotpSecret secret) of
         (Some _, Some cleanSecret) \<Rightarrow>
           if \<not> truthy cleanSecret then ret None
           else bnd (verifyTotpCode g (Some cleanSecret) totpCode) (\<lambda>ok.
             if \<not> ok then ret None
             else bnd (encryptServerSecret g cleanSecret) (\<lambda>stored.
               bnd (now_iso g) (\<lambda>enabledAt.
               bnd (now_iso g) (\<lambda>updatedAt.
               seq (set_totp normalized (Some stored) (Some enabledAt) updatedAt)
                 (seq (delete_sessions_of normalized)
                   (bnd (getUserRow normalized) (\<lambda>updated. ret (as_user updated))))))))
       | _ \<Rightarrow> ret None))"

definition disableUserTotp :: "auth_config \<Rightarrow> string \<Rightarrow> auth_proof option \<Rightarrow> js_value option \<Rightarrow> auth_user option auth" where
  "disableUserTotp g username proof totpCode =
     bnd (check (requireUsername username)) (\<lambda>normalized.
     bnd (verifyUserProof g normalized proof Totp_purpose) (\<lambda>found.
       case found of
         None \<Rightarrow> ret None
       | Some row \<Rightarrow>
           bnd (totp_refused g row totpCode) (\<lambda>refused.
             if refused then ret None
             else bnd (now_iso g) (\<lambda>now.
               seq (set_totp normalized None None now)
                 (seq (delete_sessions_of normalized)
                   (bnd (getUserRow normalized) (\<lambda>updated. ret (as_user updated))))))))"

text \<open>\<open>ON CONFLICT(username) DO NOTHING\<close>.\<close>

definition insert_account_tombstone :: "account_tombstone \<Rightarrow> unit auth" where
  "insert_account_tombstone t =
     modify (\<lambda>s. if tget at_username (at_username t) (s_accountTombstones s) \<noteq> None then s
       else s\<lparr>s_accountTombstones := tput at_username t (s_accountTombstones s)\<rparr>)"

text \<open>The statements that remove everything an account owns, in the order of the code.\<close>

definition delete_owned :: "string \<Rightarrow> unit auth" where
  "delete_owned owner =
     seq (delete_sessions_of owner)
    (seq (modify (\<lambda>s. s\<lparr>s_noteVersions := filter (\<lambda>r. nv_owner r \<noteq> owner) (s_noteVersions s)\<rparr>))
    (seq (modify (\<lambda>s. s\<lparr>s_notebookVersions := filter (\<lambda>r. nbv_owner r \<noteq> owner) (s_notebookVersions s)\<rparr>))
    (seq (modify (\<lambda>s. s\<lparr>s_tombstones := filter (\<lambda>r. t_owner r \<noteq> owner) (s_tombstones s)\<rparr>))
    (seq (modify (\<lambda>s. s\<lparr>s_changes := filter (\<lambda>r. ch_owner r \<noteq> owner) (s_changes s)\<rparr>))
    (seq (modify (\<lambda>s. s\<lparr>s_notes := filter (\<lambda>r. nr_owner r \<noteq> owner) (s_notes s)\<rparr>))
    (seq (modify (\<lambda>s. s\<lparr>s_notebooks := filter (\<lambda>r. nbr_owner r \<noteq> owner) (s_notebooks s)\<rparr>))
    (seq (delete_trusted_of owner)
    (seq (modify (\<lambda>s. s\<lparr>s_devices := filter (\<lambda>r. dr_owner r \<noteq> owner) (s_devices s)\<rparr>))
      (modify (\<lambda>s. s\<lparr>s_users := filter (\<lambda>r. u_username r \<noteq> owner) (s_users s)\<rparr>))))))))))"

definition deleteUserAccount :: "auth_config \<Rightarrow> string \<Rightarrow> auth_proof option \<Rightarrow> bool auth" where
  "deleteUserAccount g username proof =
     bnd (check (requireUsername username)) (\<lambda>normalized.
     withWriteTransaction
       (bnd (verifyUserProof g normalized proof Delete_account_purpose) (\<lambda>row.
         if row = None then ret False
         else bnd (random_bytes g 16) (\<lambda>deletionId.
           bnd (now_iso g) (\<lambda>now.
           seq (insert_account_tombstone \<lparr>at_username = normalized, at_deletionId = base64UrlEncode deletionId, at_deletedAt = now\<rparr>)
             (seq (delete_owned normalized) (ret True)))))))"

text \<open>\<open>maybeBootstrapEnvUser\<close>, \<open>bootstrapUserWithVerifier\<close> and the login with a plain password.\<close>

definition maybeBootstrapEnvUser :: "auth_config \<Rightarrow> string \<Rightarrow> string \<Rightarrow> user_row option auth" where
  "maybeBootstrapEnvUser g username password =
     (case (normalizeUsername (Some (g_loginUsername g)), g_loginPassword g) of
        (Some bootstrapUsername, Some bootstrapPassword) \<Rightarrow>
          if \<not> truthy bootstrapPassword \<or> username \<noteq> bootstrapUsername then ret None
          else if \<not> tokensMatch (Some password) bootstrapPassword then ret None
          else seq (setUserPassword g username password) (getUserRow username)
      | _ \<Rightarrow> ret None)"

definition bootstrapUserWithVerifier ::
  "auth_config \<Rightarrow> string option \<Rightarrow> string option \<Rightarrow> password_verifier option \<Rightarrow> auth_user option auth" where
  "bootstrapUserWithVerifier g username bootstrapPassword verifier =
     (case (normalizeUsername username, normalizeUsername (Some (g_loginUsername g)), bootstrapPassword, g_loginPassword g, verifier) of
        (Some normalized, Some bootstrapUsername, Some given, Some configured, Some v) \<Rightarrow>
          if normalized \<noteq> bootstrapUsername \<or> \<not> truthy configured \<or> \<not> tokensMatch (Some given) configured then ret None
          else bnd (getUserRow normalized) (\<lambda>row.
            if row \<noteq> None then ret None
            else bnd (setUserPasswordVerifier g normalized v None) (\<lambda>u. ret (Some u)))
      | _ \<Rightarrow> ret None)"

definition authenticateUser ::
  "auth_config \<Rightarrow> string option \<Rightarrow> string option \<Rightarrow> js_value option \<Rightarrow> auth_user option auth" where
  "authenticateUser g username password totpCode =
     (let login = (case username of Some u \<Rightarrow> u | None \<Rightarrow> g_loginUsername g);
          bootstrapUsername = normalizeUsername (Some login)
      in case password of
           None \<Rightarrow> ret None
         | Some pw \<Rightarrow>
             if bootstrapUsername = None \<and> normalizeEmail (Some login) = None then ret None
             else bnd (getUserRowByLogin (Some login)) (\<lambda>found.
               bnd (case found of
                      Some r \<Rightarrow> ret (Some r)
                    | None \<Rightarrow> (case bootstrapUsername of
                                Some b \<Rightarrow> maybeBootstrapEnvUser g b pw
                              | None \<Rightarrow> ret None)) (\<lambda>row.
               case row of
                 None \<Rightarrow> ret None
               | Some r \<Rightarrow>
                   bnd (check (verifyPassword g pw r)) (\<lambda>ok.
                     if \<not> ok then ret None
                     else bnd (totp_refused g r totpCode) (\<lambda>refused.
                       if refused then ret None else ret (Some (rowToAuthUser r)))))))"

end
