(* ===== verification/ProfileImage.thy ===== *)
theory ProfileImage
  imports Accounts
begin

text \<open>
  The picture of a profile (\<open>cleanProfileImage\<close> of \<open>apps/web/src/lib/server/auth.ts\<close>): a data URL with
  Base64 contents, whose header and dimensions are read from the bytes. A read beyond the end of the
  bytes is \<open>undefined\<close> in the source and \<open>None\<close> here.
\<close>

section \<open>JPEG\<close>

definition be16 :: "byte list \<Rightarrow> nat \<Rightarrow> nat" where
  "be16 bytes k = 256 * unat (bytes ! k) + unat (bytes ! (k + 1))"

definition byte_opt :: "byte list \<Rightarrow> nat \<Rightarrow> byte option" where
  "byte_opt bytes k = (if k < length bytes then Some (bytes ! k) else None)"

definition startOfFrameMarkers :: "byte list" where
  "startOfFrameMarkers = [0xc0, 0xc1, 0xc2, 0xc3, 0xc5, 0xc6, 0xc7, 0xc9, 0xca, 0xcb, 0xcd, 0xce, 0xcf]"

text \<open>\<open>while (bytes[offset] === 0xff) offset += 1\<close>.\<close>

function skip_fill :: "byte list \<Rightarrow> nat \<Rightarrow> nat" where
  "skip_fill bytes k = (if k < length bytes \<and> bytes ! k = 0xff then skip_fill bytes (k + 1) else k)"
  by pat_completeness auto
termination by (relation "measure (\<lambda>(bytes, k). length bytes - k)") auto

declare skip_fill.simps [simp del]

lemma skip_fill_ge: "k \<le> skip_fill bytes k"
proof (induction bytes k rule: skip_fill.induct)
  case (1 bytes k)
  then show ?case by (subst skip_fill.simps) (simp, linarith?)
qed

definition standalone_marker :: "byte option \<Rightarrow> bool" where
  "standalone_marker marker \<longleftrightarrow> (case marker of Some m \<Rightarrow> m = 0xd8 \<or> (0xd0 \<le> m \<and> m \<le> 0xd7) | None \<Rightarrow> False)"

function jpeg_scan :: "byte list \<Rightarrow> nat \<Rightarrow> (nat \<times> nat) option" where
  "jpeg_scan bytes k =
     (if \<not> k + 3 < length bytes then None
      else if bytes ! k \<noteq> 0xff then jpeg_scan bytes (k + 1)
      else let marker = byte_opt bytes (skip_fill bytes k); p = skip_fill bytes k + 1
        in if marker = Some 0xd9 \<or> marker = Some 0xda then None
           else if standalone_marker marker then jpeg_scan bytes p
           else if p + 2 > length bytes then None
           else if be16 bytes p < 2 \<or> p + be16 bytes p > length bytes then None
           else if marker \<in> Some ` set startOfFrameMarkers \<and> be16 bytes p \<ge> 7 then Some (be16 bytes (p + 5), be16 bytes (p + 3))
           else jpeg_scan bytes (p + be16 bytes p))"
  by pat_completeness auto
termination
proof (relation "measure (\<lambda>(bytes, k). length bytes - k)")
  fix bytes :: "byte list" and k marker p
  assume *: "\<not> \<not> k + 3 < length bytes" "p = skip_fill bytes k + 1"
  with skip_fill_ge [of k bytes] show "((bytes, p), (bytes, k)) \<in> measure (\<lambda>(bytes, k). length bytes - k)"
    and "((bytes, p + be16 bytes p), (bytes, k)) \<in> measure (\<lambda>(bytes, k). length bytes - k)"
    by auto
qed auto

declare jpeg_scan.simps [simp del]

definition jpegDimensions :: "byte list \<Rightarrow> (nat \<times> nat) option" where
  "jpegDimensions bytes = jpeg_scan bytes 2"

section \<open>PNG and WebP\<close>

text \<open>\<open>String.fromCharCode(...bytes.slice(a, a + 4)) === text\<close>.\<close>

definition chunk_is :: "byte list \<Rightarrow> nat \<Rightarrow> string \<Rightarrow> bool" where
  "chunk_is bytes k t \<longleftrightarrow> map (\<lambda>b. char_of (unat b)) (take 4 (drop k bytes)) = t"

definition be32 :: "byte list \<Rightarrow> nat \<Rightarrow> nat" where
  "be32 bytes k = 65536 * be16 bytes k + be16 bytes (k + 2)"

definition le16 :: "byte list \<Rightarrow> nat \<Rightarrow> nat" where
  "le16 bytes k = unat (bytes ! k) + 256 * unat (bytes ! (k + 1))"

definition profileImageDimensions :: "string \<Rightarrow> byte list \<Rightarrow> (nat \<times> nat) option" where
  "profileImageDimensions mime bytes =
     (let b = (\<lambda>k. unat (bytes ! k))
      in if mime = ''jpeg'' then jpegDimensions bytes
         else if mime = ''png'' then
           if length bytes < 24 \<or> \<not> chunk_is bytes 12 ''IHDR'' then None
           else Some (be32 bytes 16, be32 bytes 20)
         else if mime \<noteq> ''webp'' \<or> length bytes < 25 then None
         else if chunk_is bytes 12 ''VP8X'' \<and> length bytes \<ge> 30 then
           Some (1 + b 24 + 256 * b 25 + 65536 * b 26, 1 + b 27 + 256 * b 28 + 65536 * b 29)
         else if chunk_is bytes 12 ''VP8L'' \<and> bytes ! 20 = 0x2f then
           Some (1 + b 21 + 256 * (b 22 mod 64), 1 + b 22 div 64 + 4 * b 23 + 1024 * (b 24 mod 16))
         else if chunk_is bytes 12 ''VP8 '' \<and> length bytes \<ge> 30 \<and> bytes ! 23 = 0x9d \<and> bytes ! 24 = 0x01 \<and> bytes ! 25 = 0x2a then
           Some (le16 bytes 26 mod 16384, le16 bytes 28 mod 16384)
         else None)"

section \<open>The data URL\<close>

definition PROFILE_IMAGE_MAX_BYTES :: nat where
  "PROFILE_IMAGE_MAX_BYTES = 128 * 1024"

text \<open>The two groups of \<open>/^data:image\/(jpeg|png|webp);base64,([A-Za-z0-9+/]+={0,2})$/\<close>.\<close>

definition base64_group :: "string \<Rightarrow> bool" where
  "base64_group s \<longleftrightarrow>
     (let digits = takeWhile (\<lambda>c. c \<noteq> CHR ''='') s
      in digits \<noteq> [] \<and> (\<forall>c \<in> set digits. b64_index c \<noteq> None) \<and>
         drop (length digits) s \<in> {[], ''='', ''==''})"

definition PROFILE_IMAGE_PATTERN :: "string \<Rightarrow> (string \<times> string) option" where
  "PROFILE_IMAGE_PATTERN s =
     List.find (\<lambda>(mime, encoded). s = ''data:image/'' @ mime @ '';base64,'' @ encoded \<and> base64_group encoded)
       (map (\<lambda>mime. (mime, drop (length (''data:image/'' @ mime @ '';base64,'')) s)) [''jpeg'', ''png'', ''webp''])"

definition valid_header :: "string \<Rightarrow> byte list \<Rightarrow> bool" where
  "valid_header mime bytes \<longleftrightarrow>
     mime = ''jpeg'' \<and> take 3 bytes = [0xff, 0xd8, 0xff] \<or>
     mime = ''png'' \<and> take 8 bytes = [0x89, 0x50, 0x4e, 0x47, 0x0d, 0x0a, 0x1a, 0x0a] \<or>
     mime = ''webp'' \<and> length bytes \<ge> 12 \<and> chunk_is bytes 0 ''RIFF'' \<and> chunk_is bytes 8 ''WEBP''"

definition cleanProfileImage :: "string option \<Rightarrow> auth_error + string option" where
  "cleanProfileImage profileImage =
     (case profileImage of
        None \<Rightarrow> Inr None
      | Some picture \<Rightarrow>
          (case PROFILE_IMAGE_PATTERN picture of
             None \<Rightarrow> Inl Profile_picture_type
           | Some (mime, encoded) \<Rightarrow>
               if length encoded mod 4 \<noteq> 0 then Inl Profile_picture_type
               else (case atob encoded of
                       None \<Rightarrow> Inl Profile_picture_type
                     | Some bytes \<Rightarrow>
                         if bytes = [] \<or> length bytes > PROFILE_IMAGE_MAX_BYTES then Inl Profile_picture_size
                         else (case (if valid_header mime bytes then profileImageDimensions mime bytes else None) of
                                 None \<Rightarrow> Inl Profile_picture_type
                               | Some (width, height) \<Rightarrow>
                                   if width = 0 \<or> height = 0 \<or> width > 4096 \<or> height > 4096 \<or> width * height > 16777216
                                   then Inl Profile_picture_type
                                   else Inr (Some picture)))))"

end
