(* ===== verification/Sessions.thy ===== *)
theory Sessions
  imports Challenges ProfileImage
begin

text \<open>
  Sessions, cookies, trusted devices and profiles (\<open>apps/web/src/lib/server/auth.ts\<close>). A request is the
  function \<open>headers.get\<close>, which takes the lower-case name of a header, and its body, given as the decoded
  text of the chunks it arrives in (\<open>None\<close> for a request without a body).
\<close>

record request =
  rq_header :: "string \<Rightarrow> string option"
  rq_chunks :: "string list option"

section \<open>Tokens of a request\<close>

definition AUTH_SESSION_COOKIE_NAME :: string where
  "AUTH_SESSION_COOKIE_NAME = ''author_session''"

text \<open>
  \<open>encodeURIComponent\<close> and \<open>decodeURIComponent\<close> on text up to U+00FF; a malformed or longer sequence is
  the \<open>URIError\<close> \<open>None\<close>.
\<close>

definition uri_plain :: "char \<Rightarrow> bool" where
  "uri_plain c \<longleftrightarrow> (let n = (of_char c :: nat)
     in (65 \<le> n \<and> n \<le> 90) \<or> (97 \<le> n \<and> n \<le> 122) \<or> (48 \<le> n \<and> n \<le> 57) \<or> c \<in> set ''-_.!~*'' \<or> n \<in> {39, 40, 41})"

definition percent_byte :: "byte \<Rightarrow> string" where
  "percent_byte b = CHR 0x25 # map (\<lambda>n. if n < 10 then char_of (48 + n) else char_of (55 + n)) [unat b div 16, unat b mod 16]"

definition encodeURIComponent :: "string \<Rightarrow> string" where
  "encodeURIComponent s = concat (map (\<lambda>c. if uri_plain c then [c] else concat (map percent_byte (encode_char c))) s)"

text \<open>The address an authenticator application reads.\<close>

definition totpOtpauthUrl :: "auth_user \<Rightarrow> string \<Rightarrow> string" where
  "totpOtpauthUrl user secret =
     ''otpauth://totp/'' @ encodeURIComponent (''author:'' @ (case au_email user of Some e \<Rightarrow> e | None \<Rightarrow> au_username user)) @
     ''?secret='' @ secret @ ''&issuer='' @ encodeURIComponent ''author'' @ ''&algorithm=SHA1&digits='' @
     nat_to_string TOTP_DIGITS @ ''&period='' @ int_to_string TOTP_PERIOD_SECONDS"

definition hex_pair :: "char \<Rightarrow> char \<Rightarrow> nat option" where
  "hex_pair h l = (case (hex_value h, hex_value l) of (Some x, Some y) \<Rightarrow> Some (16 * x + y) | _ \<Rightarrow> None)"

fun decodeURIComponent :: "string \<Rightarrow> string option" where
  "decodeURIComponent [] = Some []"
| "decodeURIComponent (c # cs) =
     (if c \<noteq> CHR 0x25 then map_option (Cons c) (decodeURIComponent cs)
      else case cs of
        h # l # rest \<Rightarrow>
          (case hex_pair h l of
             None \<Rightarrow> None
           | Some n \<Rightarrow>
               if n < 128 then map_option (Cons (char_of n)) (decodeURIComponent rest)
               else if n \<noteq> 194 \<and> n \<noteq> 195 then None
               else (case rest of
                       p # h' # l' # tail \<Rightarrow>
                         (case hex_pair h' l' of
                            Some m \<Rightarrow>
                              if p \<noteq> CHR 0x25 \<or> m < 128 \<or> m > 191 then None
                              else map_option (Cons (char_of (64 * (n - 192) + (m - 128)))) (decodeURIComponent tail)
                          | None \<Rightarrow> None)
                     | _ \<Rightarrow> None))
      | _ \<Rightarrow> None)"

definition nonempty_text :: "string \<Rightarrow> string option" where
  "nonempty_text s = (if truthy s then Some s else None)"

text \<open>The parts of a cookie header up to the first with the name; the value may contain \<open>=\<close>.\<close>

definition cookie_part :: "string \<Rightarrow> string \<times> string" where
  "cookie_part part = (case split_on (CHR ''='') (trim part) of [] \<Rightarrow> ([], []) | k # vs \<Rightarrow> (k, join ''='' vs))"

definition cookieValue :: "string option \<Rightarrow> string \<Rightarrow> string option" where
  "cookieValue header name =
     (if \<not> truthy_opt header then None
      else case List.find (\<lambda>(k, v). k = name) (map cookie_part (split_on (CHR '';'') (or_empty header))) of
             None \<Rightarrow> None
           | Some (k, v) \<Rightarrow> (case decodeURIComponent v of Some t \<Rightarrow> nonempty_text t | None \<Rightarrow> nonempty_text v))"

definition bearerToken :: "request \<Rightarrow> string option" where
  "bearerToken request =
     (case rq_header request ''authorization'' of
        Some auth \<Rightarrow> if starts_with ''bearer '' (to_lower auth) then nonempty_text (trim (drop 7 auth)) else None
      | None \<Rightarrow> None)"

definition tokenFromRequest :: "request \<Rightarrow> string option" where
  "tokenFromRequest request =
     (if (case rq_header request ''authorization'' of Some auth \<Rightarrow> starts_with ''bearer '' (to_lower auth) | None \<Rightarrow> False)
      then bearerToken request
      else let legacyToken = map_option trim (rq_header request ''x-notes-token'')
        in if truthy_opt legacyToken then legacyToken
           else cookieValue (rq_header request ''cookie'') AUTH_SESSION_COOKIE_NAME)"

section \<open>Sessions\<close>

record auth_session =
  ss_user :: auth_user
  ss_deviceId :: "string option"
  ss_expiresAt :: "string option"
  ss_legacy :: bool

record created_session =
  cs_token :: string
  cs_user :: auth_user
  cs_deviceId :: "string option"
  cs_expiresAt :: string

definition SESSION_TOKEN_BYTES :: nat where
  "SESSION_TOKEN_BYTES = 32"

definition SESSION_TOUCH_INTERVAL_MS :: int where
  "SESSION_TOUCH_INTERVAL_MS = 60000"

definition drop_sessions :: "(session_row \<Rightarrow> bool) \<Rightarrow> unit auth" where
  "drop_sessions P = modify (\<lambda>s. s\<lparr>s_sessions := filter (\<lambda>r. \<not> P r) (s_sessions s)\<rparr>)"

definition createAuthSession :: "auth_config \<Rightarrow> auth_user \<Rightarrow> string option \<Rightarrow> created_session auth" where
  "createAuthSession g user deviceId =
     bnd (random_bytes g SESSION_TOKEN_BYTES) (\<lambda>bytes.
     bnd (clock_ms g) (\<lambda>now.
       let token = base64UrlEncode bytes; nowIso = to_iso now; expiresAt = to_iso (now + g_sessionDays g * 86400000)
       in seq (drop_sessions (\<lambda>r. se_expiresAt r \<le> nowIso))
         (seq (insert_session \<lparr>se_tokenHash = tokenHash g token, se_username = au_username user, se_deviceId = deviceId,
                 se_createdAt = nowIso, se_lastSeenAt = nowIso, se_expiresAt = expiresAt\<rparr>)
           (ret \<lparr>cs_token = token, cs_user = user, cs_deviceId = deviceId, cs_expiresAt = expiresAt\<rparr>))))"

definition legacy_session :: auth_session where
  "legacy_session = \<lparr>ss_user = \<lparr>au_username = ''legacy-token'', au_email = None, au_displayName = None, au_profileImage = None,
     au_twoFactorEnabled = False\<rparr>, ss_deviceId = None, ss_expiresAt = None, ss_legacy = True\<rparr>"

text \<open>The row of the left join of sessions with users.\<close>

definition joined_user :: "string \<Rightarrow> user_row option \<Rightarrow> auth_user" where
  "joined_user username row =
     (case row of
        None \<Rightarrow> \<lparr>au_username = username, au_email = None, au_displayName = None, au_profileImage = None, au_twoFactorEnabled = False\<rparr>
      | Some u \<Rightarrow> (rowToAuthUser u)\<lparr>au_username := username\<rparr>)"

definition touch_session :: "string \<Rightarrow> string \<Rightarrow> unit auth" where
  "touch_session hash now =
     modify (\<lambda>s. s\<lparr>s_sessions := map (\<lambda>r. if se_tokenHash r = hash then r\<lparr>se_lastSeenAt := now\<rparr> else r) (s_sessions s)\<rparr>)"

definition sessionFromToken :: "auth_config \<Rightarrow> string option \<Rightarrow> auth_session option auth" where
  "sessionFromToken g token =
     (if \<not> truthy_opt token then ret None
      else if truthy_opt (g_legacyToken g) \<and> tokensMatch token (or_empty (g_legacyToken g)) then ret (Some legacy_session)
      else let hash = tokenHash g (or_empty token)
        in bnd (asks (\<lambda>s. tget se_tokenHash hash (s_sessions s))) (\<lambda>found.
           case found of
             None \<Rightarrow> ret None
           | Some row \<Rightarrow>
               bnd (asks (user_row_of (se_username row))) (\<lambda>user.
               bnd (now_iso g) (\<lambda>now.
                 if se_expiresAt row \<le> now then seq (drop_sessions (\<lambda>r. se_tokenHash r = hash)) (ret None)
                 else bnd (case date_parse (g_env g) (se_lastSeenAt row) of
                             None \<Rightarrow> touch_session hash now
                           | Some lastSeenAt \<Rightarrow>
                               bnd (clock_ms g) (\<lambda>t. if t - lastSeenAt > SESSION_TOUCH_INTERVAL_MS then touch_session hash now else ret ()))
                   (\<lambda>_. ret (Some \<lparr>ss_user = joined_user (se_username row) user, ss_deviceId = se_deviceId row,
                           ss_expiresAt = Some (se_expiresAt row), ss_legacy = False\<rparr>))))))"

definition sessionFromRequest :: "auth_config \<Rightarrow> request \<Rightarrow> auth_session option auth" where
  "sessionFromRequest g request = sessionFromToken g (tokenFromRequest request)"

definition deleteSessionFromRequest :: "auth_config \<Rightarrow> request \<Rightarrow> unit auth" where
  "deleteSessionFromRequest g request =
     (let token = tokenFromRequest request
      in if \<not> truthy_opt token \<or> tokensMatch token (or_empty (g_legacyToken g)) then ret ()
         else drop_sessions (\<lambda>r. se_tokenHash r = tokenHash g (or_empty token)))"

text \<open>With the time given (\<open>now = new Date()\<close> by default).\<close>

definition pruneExpiredAuthState :: "auth_config \<Rightarrow> unit auth" where
  "pruneExpiredAuthState g =
     bnd (clock_ms g) (\<lambda>now.
       seq (drop_sessions (\<lambda>r. se_expiresAt r \<le> to_iso now))
      (seq (drop_challenges (\<lambda>r. hc_expiresAt r \<le> to_iso now))
        (modify (\<lambda>s. s\<lparr>a_rateLimits := filter (\<lambda>r. \<not> rt_resetAt r \<le> now) (a_rateLimits s)\<rparr>))))"

section \<open>Trusted devices\<close>

record trusted_device =
  td_deviceId :: string
  td_deviceName :: string
  td_createdAt :: string
  td_lastUsedAt :: string
  td_current :: bool

definition device_id_required :: "string \<Rightarrow> auth_error + string" where
  "device_id_required deviceId = (if truthy (trim deviceId) then Inr (trim deviceId) else Inl Device_required)"

definition trustAuthDevice :: "auth_config \<Rightarrow> string \<Rightarrow> string \<Rightarrow> string option \<Rightarrow> unit auth" where
  "trustAuthDevice g username deviceId secret =
     bnd (check (requireUsername username)) (\<lambda>normalized.
     bnd (check (device_id_required deviceId)) (\<lambda>safeDeviceId.
     bnd (check (requireDeviceTrustSecret secret)) (\<lambda>safeSecret.
     bnd (now_iso g) (\<lambda>now.
     bnd (asks (\<lambda>s. tget trusted_key (normalized, safeDeviceId) (s_trusted s))) (\<lambda>existing.
       put_trusted \<lparr>tr_username = normalized, tr_deviceId = safeDeviceId,
         tr_secretHash = Some (deviceTrustSecretHash g normalized safeDeviceId safeSecret),
         tr_createdAt = (case existing of Some r \<Rightarrow> tr_createdAt r | None \<Rightarrow> now), tr_lastUsedAt = now\<rparr>)))))"

text \<open>
  \<open>ORDER BY last_used_at DESC, created_at DESC\<close>; rows equal in both come in reverse table order here, an
  order SQL leaves open.
\<close>

definition listTrustedAuthDevices :: "string \<Rightarrow> string option \<Rightarrow> trusted_device list auth" where
  "listTrustedAuthDevices username currentDeviceId =
     bnd (check (requireUsername username)) (\<lambda>normalized. asks (\<lambda>s.
       map (\<lambda>r. \<lparr>td_deviceId = tr_deviceId r,
                 td_deviceName = (case tget device_key (normalized, tr_deviceId r) (s_devices s) of
                    Some d \<Rightarrow> d_name (dr_device d) | None \<Rightarrow> tr_deviceId r),
                 td_createdAt = tr_createdAt r, td_lastUsedAt = tr_lastUsedAt r,
                 td_current = (currentDeviceId = Some (tr_deviceId r))\<rparr>)
         (rev (sort_key (\<lambda>r. (tr_lastUsedAt r, tr_createdAt r))
            (filter (\<lambda>r. tr_username r = normalized \<and> tr_secretHash r \<noteq> None) (s_trusted s))))))"

definition revokeTrustedAuthDevice :: "string \<Rightarrow> string \<Rightarrow> unit auth" where
  "revokeTrustedAuthDevice username deviceId =
     bnd (check (requireUsername username)) (\<lambda>normalized.
     bnd (check (device_id_required deviceId)) (\<lambda>safeDeviceId.
       modify (\<lambda>s. s\<lparr>s_trusted := tdel trusted_key (normalized, safeDeviceId) (s_trusted s)\<rparr>)))"

definition isTrustedAuthDevice :: "auth_config \<Rightarrow> string \<Rightarrow> string \<Rightarrow> string option \<Rightarrow> bool auth" where
  "isTrustedAuthDevice g username deviceId secret =
     (if \<not> truthy (trim deviceId) then ret False
      else case normalizeDeviceTrustSecret secret of
             None \<Rightarrow> ret False
           | Some safeSecret \<Rightarrow>
               bnd (asks (\<lambda>s. Option.bind (tget trusted_key (username, trim deviceId) (s_trusted s)) tr_secretHash)) (\<lambda>expected.
                 ret (tokensMatch (Some (deviceTrustSecretHash g username (trim deviceId) safeSecret)) (or_empty expected))))"

definition authenticateTrustedDevice ::
  "auth_config \<Rightarrow> string option \<Rightarrow> string option \<Rightarrow> string option \<Rightarrow> js_value option \<Rightarrow> auth_user option auth" where
  "authenticateTrustedDevice g username deviceId secret totpCode =
     (case deviceId of
        None \<Rightarrow> ret None
      | Some d \<Rightarrow>
          if \<not> truthy (trim d) then ret None
          else bnd (getUserRowByLogin username) (\<lambda>found.
            case found of
              None \<Rightarrow> ret None
            | Some row \<Rightarrow>
                if \<not> truthy_opt (u_totpSecret row) \<or> \<not> truthy_opt (u_totpEnabledAt row) then ret None
                else bnd (isTrustedAuthDevice g (u_username row) (trim d) secret) (\<lambda>trusted.
                  if \<not> trusted then ret None
                  else bnd (verifyTotpCode g (u_totpSecret row) totpCode) (\<lambda>ok.
                    if \<not> ok then ret None
                    else seq (trustAuthDevice g (u_username row) (trim d) secret) (ret (Some (rowToAuthUser row)))))))"

section \<open>Profiles\<close>

text \<open>An absent argument is \<open>None\<close>, \<open>null\<close> is \<open>Some None\<close>.\<close>

definition optional_check :: "(string option \<Rightarrow> 'e + string option) \<Rightarrow> string option option \<Rightarrow> 'e + string option option" where
  "optional_check f v = (case v of None \<Rightarrow> Inr None | Some x \<Rightarrow> (case f x of Inl err \<Rightarrow> Inl err | Inr y \<Rightarrow> Inr (Some y)))"

definition clean_email :: "string option \<Rightarrow> auth_error + string option" where
  "clean_email email = (case email of None \<Rightarrow> Inr None | Some t \<Rightarrow> (case requireEmail t of Inl err \<Rightarrow> Inl err | Inr n \<Rightarrow> Inr (Some n)))"

definition given :: "'a option \<Rightarrow> 'a \<Rightarrow> 'a" where
  "given v old = (case v of Some x \<Rightarrow> x | None \<Rightarrow> old)"

definition profile_row ::
  "string option option \<Rightarrow> string option option \<Rightarrow> string option option \<Rightarrow> string option option \<Rightarrow> string \<Rightarrow> user_row \<Rightarrow> user_row" where
  "profile_row displayName email keyring picture now u =
     u\<lparr>u_email := given email (u_email u), u_displayName := given displayName (u_displayName u),
       u_e2eeKeyring := given keyring (u_e2eeKeyring u), u_profileImage := given picture (u_profileImage u), u_updatedAt := now\<rparr>"

definition updateUserProfile ::
  "auth_config \<Rightarrow> string \<Rightarrow> string option option \<Rightarrow> string option option \<Rightarrow> string option option \<Rightarrow> string option option \<Rightarrow> auth_user auth" where
  "updateUserProfile g username displayName email e2eeKeyring profileImage =
     bnd (check (requireUsername username)) (\<lambda>normalized.
     bnd (check (optional_check (\<lambda>d. cleanDisplayName (map_option JStr d)) displayName)) (\<lambda>nextDisplayName.
        bnd (check (optional_check clean_email email)) (\<lambda>nextEmail.
        bnd (check (optional_check (cleanE2eeKeyring g) e2eeKeyring)) (\<lambda>nextKeyring.
        bnd (check (optional_check cleanProfileImage profileImage)) (\<lambda>nextImage.
        seq (if nextEmail = None \<and> nextDisplayName = None \<and> nextKeyring = None \<and> nextImage = None then ret ()
             else bnd (now_iso g) (\<lambda>now. bnd (getUserRow normalized) (\<lambda>row.
               case row of
                 None \<Rightarrow> ret ()
               | Some u \<Rightarrow> put_user (profile_row nextDisplayName nextEmail nextKeyring nextImage now u))))
          (bnd (getUserRow normalized) (\<lambda>row.
             case row of None \<Rightarrow> raise User_not_found | Some u \<Rightarrow> ret (rowToAuthUser u))))))))"

text \<open>The account of the mirror copied into the local database: \<open>source\<close> is another database.\<close>

definition mirrored_row :: "user_row \<Rightarrow> string \<Rightarrow> user_row option \<Rightarrow> user_row" where
  "mirrored_row u now existing = u\<lparr>u_createdAt := (case existing of Some x \<Rightarrow> u_createdAt x | None \<Rightarrow> now), u_updatedAt := now\<rparr>"

definition mirrorUserForLocalSession :: "auth_config \<Rightarrow> authdb \<Rightarrow> string \<Rightarrow> auth_user option auth" where
  "mirrorUserForLocalSession g source username =
     bnd (check (requireUsername username)) (\<lambda>normalized.
       case user_row_of normalized source of
         None \<Rightarrow> ret None
       | Some sourceUser \<Rightarrow>
           bnd (getUserRow normalized) (\<lambda>existing.
             seq (if authCredentialsChanged existing sourceUser
                  then seq (delete_sessions_of normalized) (delete_trusted_of normalized) else ret ())
             (bnd (now_iso g) (\<lambda>now.
              seq (put_user (mirrored_row sourceUser now existing))
                (ret (Some (rowToAuthUser sourceUser)))))))"

end
