(* ===== verification/RateLimit.thy ===== *)
theory RateLimit
  imports Sessions
begin

text \<open>
  Limits on attempts (\<open>apps/web/src/lib/server/hono.ts\<close>): a map in memory that forgets its oldest keys, and
  the table \<open>auth_rate_limits\<close>, which does not.
\<close>

section \<open>Keys\<close>

text \<open>The configuration of the HTTP layer beside that of the account operations.\<close>

record api_config =
  h_auth :: auth_config
  h_trustCloudflare :: bool
  h_trustProxy :: bool
  h_tursoPrimary :: bool
  h_recordLimits :: record_limit_config

definition LOGIN_ATTEMPT_WINDOW_MS :: int where
  "LOGIN_ATTEMPT_WINDOW_MS = 60000"

definition MAX_FAILED_LOGIN_ATTEMPTS :: int where
  "MAX_FAILED_LOGIN_ATTEMPTS = 8"

definition MAX_AUTH_CHALLENGE_ATTEMPTS :: int where
  "MAX_AUTH_CHALLENGE_ATTEMPTS = 20"

definition MAX_AUTH_CHALLENGE_CLIENT_ATTEMPTS :: int where
  "MAX_AUTH_CHALLENGE_CLIENT_ATTEMPTS = 100"

definition MAX_SIGNUP_ATTEMPTS :: int where
  "MAX_SIGNUP_ATTEMPTS = 4"

definition MAX_SYNC_PUSHES_PER_MINUTE :: int where
  "MAX_SYNC_PUSHES_PER_MINUTE = 60"

definition MAX_LOGIN_ATTEMPT_KEYS :: nat where
  "MAX_LOGIN_ATTEMPT_KEYS = 500"

definition first_forwarded :: "string option \<Rightarrow> string option" where
  "first_forwarded header = map_option (\<lambda>v. case split_on (CHR '','') v of [] \<Rightarrow> [] | x # _ \<Rightarrow> trim x) header"

definition requestClientKey :: "api_config \<Rightarrow> request \<Rightarrow> string" where
  "requestClientKey h request =
     (let cloudflareIp = (if h_trustCloudflare h then map_option trim (rq_header request ''cf-connecting-ip'') else None);
          forwardedFor = (if h_trustProxy h then first_forwarded (rq_header request ''x-forwarded-for'') else None);
          realIp = (if h_trustProxy h then map_option trim (rq_header request ''x-real-ip'') else None)
      in if truthy_opt cloudflareIp then ''cf:'' @ or_empty cloudflareIp
         else if truthy_opt forwardedFor then or_empty forwardedFor
         else if truthy_opt realIp then or_empty realIp
         else ''local'')"

definition identity_of :: "string option \<Rightarrow> string" where
  "identity_of username = (case cleanLoginIdentifier username of Some n \<Rightarrow> n | None \<Rightarrow> ''unknown'')"

definition loginAttemptKey :: "api_config \<Rightarrow> request \<Rightarrow> string option \<Rightarrow> string" where
  "loginAttemptKey h request username = requestClientKey h request @ '':'' @ identity_of username"

definition signupAttemptKey :: "api_config \<Rightarrow> request \<Rightarrow> string" where
  "signupAttemptKey h request = ''signup:client:'' @ requestClientKey h request"

definition accountProofAttemptKey :: "api_config \<Rightarrow> request \<Rightarrow> string \<Rightarrow> auth_purpose \<Rightarrow> string" where
  "accountProofAttemptKey h request username purpose =
     purpose_text purpose @ '':'' @ loginAttemptKey h request (Some username)"

definition authChallengeAttemptLimits :: "api_config \<Rightarrow> request \<Rightarrow> string \<Rightarrow> auth_purpose \<Rightarrow> (string \<times> int) list" where
  "authChallengeAttemptLimits h request username purpose =
     [(''auth-challenge:client:'' @ requestClientKey h request, MAX_AUTH_CHALLENGE_CLIENT_ATTEMPTS),
      (''auth-challenge:'' @ purpose_text purpose @ '':'' @ requestClientKey h request @ '':'' @ identity_of (Some username),
       MAX_AUTH_CHALLENGE_ATTEMPTS)]"

section \<open>The map in memory\<close>

text \<open>A map that keeps the order of insertion: a new key goes to the end, a known key keeps its place.\<close>

definition delete_attempt :: "string \<Rightarrow> authdb \<Rightarrow> authdb" where
  "delete_attempt key s = s\<lparr>a_attempts := filter (\<lambda>(k, _). k \<noteq> key) (a_attempts s)\<rparr>"

fun drop_oldest :: "nat \<Rightarrow> (string \<times> 'v) list \<Rightarrow> (string \<times> 'v) list" where
  "drop_oldest n [] = []"
| "drop_oldest n ((oldestKey, v) # rest) =
     (if length rest + 1 \<le> n then (oldestKey, v) # rest
      else if \<not> truthy oldestKey then (oldestKey, v) # rest
      else drop_oldest n rest)"

definition pruneLoginAttempts :: "int \<Rightarrow> authdb \<Rightarrow> authdb" where
  "pruneLoginAttempts now s =
     s\<lparr>a_attempts := drop_oldest MAX_LOGIN_ATTEMPT_KEYS (filter (\<lambda>(_, attempt). \<not> la_resetAt attempt \<le> now) (a_attempts s))\<rparr>"

definition isLoginRateLimited :: "string \<Rightarrow> int \<Rightarrow> int \<Rightarrow> bool auth" where
  "isLoginRateLimited key now maxAttempts =
     bnd (asks (\<lambda>s. map_of (a_attempts s) key)) (\<lambda>attempt.
       case attempt of
         None \<Rightarrow> seq (modify (delete_attempt key)) (ret False)
       | Some a \<Rightarrow>
           if la_resetAt a \<le> now then seq (modify (delete_attempt key)) (ret False)
           else ret (la_count a \<ge> maxAttempts))"

definition count_attempt :: "string \<Rightarrow> int \<Rightarrow> authdb \<Rightarrow> authdb" where
  "count_attempt key now s =
     s\<lparr>a_attempts := map_set key
        (case map_of (a_attempts s) key of
           Some a \<Rightarrow> if la_resetAt a \<le> now then \<lparr>la_count = 1, la_resetAt = now + LOGIN_ATTEMPT_WINDOW_MS\<rparr>
                     else a\<lparr>la_count := la_count a + 1\<rparr>
         | None \<Rightarrow> \<lparr>la_count = 1, la_resetAt = now + LOGIN_ATTEMPT_WINDOW_MS\<rparr>) (a_attempts s)\<rparr>"

definition recordFailedLogin :: "string \<Rightarrow> int \<Rightarrow> unit auth" where
  "recordFailedLogin key now = seq (modify (pruneLoginAttempts now)) (modify (count_attempt key now))"

definition clearFailedLogins :: "string \<Rightarrow> unit auth" where
  "clearFailedLogins key = modify (delete_attempt key)"

section \<open>The table\<close>

definition persistentLoginAttemptKey :: "auth_config \<Rightarrow> string \<Rightarrow> string" where
  "persistentLoginAttemptKey g key = concat (map byte_hex (sha256_text g (''author-rate-limit:'' @ key)))"

definition isPersistentLoginRateLimited :: "auth_config \<Rightarrow> string \<Rightarrow> int \<Rightarrow> int \<Rightarrow> bool auth" where
  "isPersistentLoginRateLimited g key now maxAttempts =
     seq (modify (\<lambda>s. s\<lparr>a_rateLimits := filter (\<lambda>r. \<not> rt_resetAt r \<le> now) (a_rateLimits s)\<rparr>))
       (asks (\<lambda>s. case tget rt_keyHash (persistentLoginAttemptKey g key) (a_rateLimits s) of
          None \<Rightarrow> False
        | Some attempt \<Rightarrow> if rt_resetAt attempt \<le> now then False else rt_count attempt \<ge> maxAttempts))"

text \<open>The upsert with its \<open>CASE\<close> expressions.\<close>

definition counted_row :: "string \<Rightarrow> int \<Rightarrow> rate_row option \<Rightarrow> rate_row" where
  "counted_row keyHash now existing =
     (case existing of
        None \<Rightarrow> \<lparr>rt_keyHash = keyHash, rt_count = 1, rt_resetAt = now + LOGIN_ATTEMPT_WINDOW_MS\<rparr>
      | Some r \<Rightarrow> r\<lparr>rt_count := (if rt_resetAt r \<le> now then 1 else rt_count r + 1),
                    rt_resetAt := (if rt_resetAt r \<le> now then now + LOGIN_ATTEMPT_WINDOW_MS else rt_resetAt r)\<rparr>)"

definition recordPersistentFailedLogin :: "auth_config \<Rightarrow> string \<Rightarrow> int \<Rightarrow> unit auth" where
  "recordPersistentFailedLogin g key now =
     (let keyHash = persistentLoginAttemptKey g key
      in modify (\<lambda>s. s\<lparr>a_rateLimits := tput rt_keyHash (counted_row keyHash now (tget rt_keyHash keyHash (a_rateLimits s))) (a_rateLimits s)\<rparr>))"

definition clearPersistentFailedLogins :: "auth_config \<Rightarrow> string \<Rightarrow> unit auth" where
  "clearPersistentFailedLogins g key =
     modify (\<lambda>s. s\<lparr>a_rateLimits := tdel rt_keyHash (persistentLoginAttemptKey g key) (a_rateLimits s)\<rparr>)"

section \<open>Both\<close>

definition isRateLimited_at :: "auth_config \<Rightarrow> string \<Rightarrow> int \<Rightarrow> int \<Rightarrow> bool auth" where
  "isRateLimited_at g key now maxAttempts =
     bnd (isLoginRateLimited key now maxAttempts) (\<lambda>limited.
       if limited then ret True else isPersistentLoginRateLimited g key now maxAttempts)"

definition isRateLimited :: "auth_config \<Rightarrow> string \<Rightarrow> int \<Rightarrow> bool auth" where
  "isRateLimited g key maxAttempts = bnd (clock_ms g) (\<lambda>now. isRateLimited_at g key now maxAttempts)"

definition recordFailedAuthAttempt_at :: "auth_config \<Rightarrow> string \<Rightarrow> int \<Rightarrow> unit auth" where
  "recordFailedAuthAttempt_at g key now = seq (recordFailedLogin key now) (recordPersistentFailedLogin g key now)"

definition recordFailedAuthAttempt :: "auth_config \<Rightarrow> string \<Rightarrow> unit auth" where
  "recordFailedAuthAttempt g key = bnd (clock_ms g) (recordFailedAuthAttempt_at g key)"

definition clearFailedAuthAttempts :: "auth_config \<Rightarrow> string \<Rightarrow> unit auth" where
  "clearFailedAuthAttempts g key = seq (clearFailedLogins key) (clearPersistentFailedLogins g key)"

fun some_limited :: "auth_config \<Rightarrow> (string \<times> int) list \<Rightarrow> bool auth" where
  "some_limited g [] = ret False"
| "some_limited g ((key, maxAttempts) # limits) =
     bnd (isRateLimited g key maxAttempts) (\<lambda>limited. if limited then ret True else some_limited g limits)"

text \<open>
  \<open>True\<close>: the request is refused with status 429. The recordings of \<open>Promise.all\<close> run one after the
  other: they write different keys of the same two tables.
\<close>

definition authChallengeRateLimitError :: "api_config \<Rightarrow> request \<Rightarrow> string \<Rightarrow> auth_purpose \<Rightarrow> bool auth" where
  "authChallengeRateLimitError h request username purpose =
     (let limits = authChallengeAttemptLimits h request username purpose
      in bnd (some_limited (h_auth h) limits) (\<lambda>limited.
           if limited then ret True
           else seq (for_each (\<lambda>l. recordFailedAuthAttempt (h_auth h) (fst l)) limits) (ret False)))"

definition clearAuthChallengeAttempts :: "api_config \<Rightarrow> request \<Rightarrow> string \<Rightarrow> auth_purpose \<Rightarrow> unit auth" where
  "clearAuthChallengeAttempts h request username purpose =
     for_each (\<lambda>l. clearFailedAuthAttempts (h_auth h) (fst l)) (authChallengeAttemptLimits h request username purpose)"

definition accountProofRateLimitError :: "api_config \<Rightarrow> request \<Rightarrow> string \<Rightarrow> auth_purpose \<Rightarrow> (string \<times> bool) auth" where
  "accountProofRateLimitError h request username purpose =
     (let key = accountProofAttemptKey h request username purpose
      in bnd (isRateLimited (h_auth h) key MAX_FAILED_LOGIN_ATTEMPTS) (\<lambda>limited. ret (key, limited)))"

end
