(* ===== verification/Api.thy ===== *)
theory Api
  imports RateLimit ServerPull Maintenance
begin

text \<open>
  The HTTP handlers of \<open>apps/web/src/lib/server/hono.ts\<close> and \<open>request-body.ts\<close>, for a server without a
  mirror: \<open>remoteMirrorConfig\<close> is \<open>null\<close>, so the branches that open the remote database do not run and
  \<open>queueRemoteSyncSoon\<close> and \<open>queueRemoteSyncAfter\<close> return at once. The primary database is either the
  local file or the hosted one (\<open>h_tursoPrimary\<close>); the account operations run on the hosted one only.
  An error that no handler catches is the error of the action (status 500).

  A response is its JSON body, or a status with an error message; response headers are left out, the
  cookie of a new session is the session in the body of the model's reply.
\<close>

datatype failure = Message string | Thrown auth_error

datatype 'a reply = Reply 'a | Failed nat failure

section \<open>Request bodies\<close>

text \<open>\<open>Number(header)\<close> of the decimal \<open>content-length\<close>; another text counts as not a number.\<close>

definition number_of_text :: "string \<Rightarrow> nat option" where
  "number_of_text v = (if v \<noteq> [] \<and> (\<forall>c \<in> set v. is_digit c) then Some (nat_of_digits v) else None)"

definition requestBodyTooLarge :: "request \<Rightarrow> nat \<Rightarrow> bool" where
  "requestBodyTooLarge request maxBytes =
     (let contentLength = rq_header request ''content-length''
      in if \<not> truthy_opt contentLength then False
         else case number_of_text (or_empty contentLength) of Some bytes \<Rightarrow> bytes > maxBytes | None \<Rightarrow> False)"

fun read_chunks :: "nat \<Rightarrow> nat \<Rightarrow> string list \<Rightarrow> string option" where
  "read_chunks maxBytes bytes [] = Some []"
| "read_chunks maxBytes bytes (v # vs) =
     (if bytes + utf8_length v > maxBytes then None
      else map_option ((@) v) (read_chunks maxBytes (bytes + utf8_length v) vs))"

datatype body_error = RequestBodyTooLargeError

definition readJsonBody :: "request \<Rightarrow> nat \<Rightarrow> body_error + js_value option" where
  "readJsonBody request maxBytes =
     (if requestBodyTooLarge request maxBytes then Inl RequestBodyTooLargeError
      else case rq_chunks request of
             None \<Rightarrow> Inr None
           | Some vs \<Rightarrow>
               (case read_chunks maxBytes 0 vs of
                  None \<Rightarrow> Inl RequestBodyTooLargeError
                | Some t \<Rightarrow>
                    Inr (if \<not> truthy (trim t) then None
                         else case parse_json t of Some JNull \<Rightarrow> None | r \<Rightarrow> r)))"

definition jsonOrSizeError :: "request \<Rightarrow> nat \<Rightarrow> string \<Rightarrow> (js_value option \<Rightarrow> 'a reply auth) \<Rightarrow> 'a reply auth" where
  "jsonOrSizeError request maxBytes message k =
     (case readJsonBody request maxBytes of
        Inl RequestBodyTooLargeError \<Rightarrow> ret (Failed 413 (Message message))
      | Inr body \<Rightarrow> k body)"

definition MAX_LOGIN_BODY_BYTES :: nat where
  "MAX_LOGIN_BODY_BYTES = 16 * 1024"

definition MAX_ACCOUNT_BODY_BYTES :: nat where
  "MAX_ACCOUNT_BODY_BYTES = 256 * 1024"

definition MAX_SYNC_BODY_BYTES :: nat where
  "MAX_SYNC_BODY_BYTES = 5 * 1024 * 1024"

definition MAX_SYNC_CHANGES_PER_PUSH :: nat where
  "MAX_SYNC_CHANGES_PER_PUSH = 20"

section \<open>Fields of a body\<close>

definition jprop :: "js_value option \<Rightarrow> string \<Rightarrow> js_value option" where
  "jprop body k = Option.bind body (\<lambda>b. get_prop b k)"

definition object_field :: "js_value option \<Rightarrow> bool" where
  "object_field v = (case v of Some x \<Rightarrow> is_object x | None \<Rightarrow> False)"

text \<open>\<open>v !== undefined && v !== null && typeof v !== t\<close> does not hold.\<close>

definition optional_object :: "js_value option \<Rightarrow> bool" where
  "optional_object v \<longleftrightarrow> v = None \<or> v = Some JNull \<or> object_field v"

definition optional_string :: "js_value option \<Rightarrow> bool" where
  "optional_string v \<longleftrightarrow> v = None \<or> v = Some JNull \<or> str_of v \<noteq> None"

text \<open>\<open>v !== undefined && !isNullableString(v)\<close> does not hold; the value as an argument that may be absent.\<close>

definition optional_nullable :: "js_value option \<Rightarrow> bool" where
  "optional_nullable v \<longleftrightarrow> v = None \<or> isNullableString v"

definition argument_of :: "js_value option \<Rightarrow> string option option" where
  "argument_of v = (case v of None \<Rightarrow> None | Some _ \<Rightarrow> Some (str_of v))"

definition proof_of_json :: "js_value option \<Rightarrow> auth_proof option" where
  "proof_of_json v =
     (case (str_of (jprop v ''challengeId''), str_of (jprop v ''clientNonce''), str_of (jprop v ''proof'')) of
        (Some i, Some n, Some p) \<Rightarrow> Some \<lparr>ap_challengeId = i, ap_clientNonce = n, ap_proof = p\<rparr>
      | _ \<Rightarrow> None)"

text \<open>
  A verifier as it is checked by \<open>requirePasswordVerifier\<close>: a field of another type fails every check
  there, as do the empty text and 0.
\<close>

definition text_field :: "js_value option \<Rightarrow> string" where
  "text_field v = or_empty (str_of v)"

definition number_field :: "js_value option \<Rightarrow> int" where
  "number_field v = (case num_of v of Some i \<Rightarrow> i | None \<Rightarrow> 0)"

definition verifier_of_json :: "js_value option \<Rightarrow> password_verifier" where
  "verifier_of_json v =
     (let params = jprop v ''params''
      in \<lparr>pv_algorithm = text_field (jprop v ''algorithm''), pv_salt = text_field (jprop v ''salt''),
          pv_params = \<lparr>kp_algorithm = text_field (jprop params ''algorithm''), kp_memoryKiB = number_field (jprop params ''memoryKiB''),
            kp_iterations = number_field (jprop params ''iterations''), kp_parallelism = number_field (jprop params ''parallelism''),
            kp_keyLength = number_field (jprop params ''keyLength'')\<rparr>,
          pv_storedKey = text_field (jprop v ''storedKey''), pv_serverKey = text_field (jprop v ''serverKey'')\<rparr>)"

definition purpose_of_text :: "string \<Rightarrow> auth_purpose option" where
  "purpose_of_text t =
     List.find (\<lambda>p. purpose_text p = t)
       [Login_purpose, Password_change_purpose, Keyring_update_purpose, Totp_purpose, Delete_account_purpose]"

definition deviceTrustSecretFromBody :: "js_value option \<Rightarrow> string option" where
  "deviceTrustSecretFromBody body =
     (case str_of (jprop body ''deviceTrustSecret'') of
        None \<Rightarrow> None
      | Some secret \<Rightarrow> if length (trim secret) \<ge> 32 then Some (trim secret) else None)"

definition device_field :: "js_value option \<Rightarrow> Device option" where
  "device_field body =
     (case jprop body ''device'' of None \<Rightarrow> None | Some d \<Rightarrow> if hasDeviceRecord d then device_of_json d else None)"

section \<open>Sessions in handlers\<close>

definition syncOwner :: "auth_session \<Rightarrow> string" where
  "syncOwner session = au_username (ss_user session)"

definition unauthorized :: "'a reply" where
  "unauthorized = Failed 401 (Message ''Unauthorized'')"

definition with_session :: "api_config \<Rightarrow> request \<Rightarrow> (auth_session \<Rightarrow> 'a reply auth) \<Rightarrow> 'a reply auth" where
  "with_session h request k =
     bnd (sessionFromRequest (h_auth h) request) (\<lambda>session.
       case session of None \<Rightarrow> ret unauthorized | Some s \<Rightarrow> k s)"

text \<open>The same for the operations that refuse the session of a legacy token.\<close>

definition with_account :: "api_config \<Rightarrow> request \<Rightarrow> string \<Rightarrow> (auth_session \<Rightarrow> 'a reply auth) \<Rightarrow> 'a reply auth" where
  "with_account h request message k =
     with_session h request (\<lambda>s. if ss_legacy s then ret (Failed 400 (Message message)) else k s)"

definition try_catch :: "'a auth \<Rightarrow> (auth_error \<Rightarrow> 'a auth) \<Rightarrow> 'a auth" where
  "try_catch m handler = (\<lambda>s. case m s of (Inr x, s') \<Rightarrow> (Inr x, s') | (Inl err, s') \<Rightarrow> handler err s')"

definition bearerSessionRequested :: "request \<Rightarrow> bool" where
  "bearerSessionRequested request \<longleftrightarrow>
     map_option trim (rq_header request ''x-author-session-mode'') = Some ''bearer'' \<or> \<not> truthy_opt (rq_header request ''origin'')"

record account_reply =
  ar_user :: auth_user
  ar_e2eeKeyring :: "string option"
  ar_trustedDevices :: "trusted_device list"
  ar_session :: "(string option \<times> string) option"

definition accountResponse ::
  "auth_session \<Rightarrow> auth_user \<Rightarrow> created_session option \<Rightarrow> bool \<Rightarrow> account_reply reply auth" where
  "accountResponse session user replacement includeBearerToken =
     bnd (if ss_legacy session then ret None else getUserE2eeKeyring (au_username user)) (\<lambda>keyring.
     bnd (if ss_legacy session then ret [] else listTrustedAuthDevices (au_username user) (ss_deviceId session)) (\<lambda>devices.
       ret (Reply \<lparr>ar_user = user, ar_e2eeKeyring = keyring, ar_trustedDevices = devices,
         ar_session = map_option (\<lambda>r. (if includeBearerToken then Some (cs_token r) else None, cs_expiresAt r)) replacement\<rparr>)))"

definition upsert_device :: "auth_config \<Rightarrow> Device \<Rightarrow> string \<Rightarrow> unit auth" where
  "upsert_device g device owner = bnd (now_iso g) (\<lambda>seenAt. on_server (upsertDevice device seenAt owner (g_env g)))"

section \<open>Login and signup\<close>

record login_reply =
  lr_session :: created_session
  lr_token :: "string option"
  lr_user :: auth_user
  lr_device :: Device
  lr_serverProof :: "string option"
  lr_e2eeKeyring :: "string option"

definition auth_challenge :: "api_config \<Rightarrow> request \<Rightarrow> auth_challenge_response reply auth" where
  "auth_challenge h request =
     jsonOrSizeError request MAX_LOGIN_BODY_BYTES ''Auth challenge payload too large'' (\<lambda>body.
       let invalid = ret (Failed 400 (Message ''Invalid auth challenge payload''));
           limited = ret (Failed 429 (Message ''Too many auth challenge attempts. Try again shortly.''));
           challenge = (\<lambda>username purpose clientNonce.
             bnd (authChallengeRateLimitError h request username purpose) (\<lambda>refused.
               if refused then limited
               else bnd (createAuthChallenge (h_auth h) (Some username) purpose clientNonce) (\<lambda>c.
                 case c of None \<Rightarrow> invalid | Some r \<Rightarrow> ret (Reply r))))
       in case (Option.bind (str_of (jprop body ''purpose'')) purpose_of_text, str_of (jprop body ''clientNonce'')) of
            (Some purpose, Some clientNonce) \<Rightarrow>
              if purpose = Login_purpose then
                (case str_of (jprop body ''username'') of
                   None \<Rightarrow> invalid
                 | Some username \<Rightarrow> challenge username purpose clientNonce)
              else with_account h request ''Legacy token accounts cannot be edited''
                     (\<lambda>session. challenge (syncOwner session) purpose clientNonce)
          | _ \<Rightarrow> invalid)"

text \<open>The three ways to log in, tried by what the body contains.\<close>

definition login_user ::
  "auth_config \<Rightarrow> js_value option \<Rightarrow> Device \<Rightarrow> string option \<Rightarrow> (auth_user \<times> string option) option auth" where
  "login_user g body device secret =
     (let username = str_of (jprop body ''username''); totpCode = jprop body ''totpCode''
      in if object_field (jprop body ''proof'') then
           bnd (authenticateUserProof g username (proof_of_json (jprop body ''proof'')) totpCode) (\<lambda>verified.
             ret (map_option (\<lambda>v. (vp_user v, Some (vp_serverProof v))) verified))
         else if object_field (jprop body ''passwordVerifier'') \<and> truthy_opt (str_of (jprop body ''bootstrapPassword'')) then
           bnd (bootstrapUserWithVerifier g username (str_of (jprop body ''bootstrapPassword''))
                  (Some (verifier_of_json (jprop body ''passwordVerifier'')))) (\<lambda>user. ret (map_option (\<lambda>u. (u, None)) user))
         else
           bnd (authenticateTrustedDevice g username (Some (d_id device)) secret totpCode) (\<lambda>user.
             ret (map_option (\<lambda>u. (u, None)) user)))"

definition trust_if_secret :: "auth_config \<Rightarrow> auth_user \<Rightarrow> Device \<Rightarrow> string option \<Rightarrow> unit auth" where
  "trust_if_secret g user device secret =
     (if truthy_opt secret then trustAuthDevice g (au_username user) (d_id device) secret else ret ())"

text \<open>The device, its trust and the session of a user who has logged in or signed up.\<close>

definition start_session ::
  "api_config \<Rightarrow> request \<Rightarrow> auth_user \<Rightarrow> Device \<Rightarrow> string option \<Rightarrow> string option \<Rightarrow> login_reply reply auth" where
  "start_session h request user device secret serverProof =
     seq (upsert_device (h_auth h) device (au_username user))
    (seq (trust_if_secret (h_auth h) user device secret)
    (bnd (createAuthSession (h_auth h) user (Some (d_id device))) (\<lambda>session.
     bnd (getUserE2eeKeyring (au_username user)) (\<lambda>keyring.
       ret (Reply \<lparr>lr_session = session, lr_token = (if bearerSessionRequested request then Some (cs_token session) else None),
         lr_user = user, lr_device = device, lr_serverProof = serverProof, lr_e2eeKeyring = keyring\<rparr>)))))"

definition login_fields_ok :: "js_value option \<Rightarrow> bool" where
  "login_fields_ok body \<longleftrightarrow>
     str_of (jprop body ''username'') \<noteq> None \<and> optional_object (jprop body ''proof'') \<and>
     optional_object (jprop body ''passwordVerifier'') \<and> optional_string (jprop body ''bootstrapPassword'') \<and>
     optional_string (jprop body ''deviceTrustSecret'')"

text \<open>The login itself; an error of the database or of the proof is answered with status 400.\<close>

definition finish_login ::
  "api_config \<Rightarrow> request \<Rightarrow> js_value option \<Rightarrow> Device \<Rightarrow> string \<Rightarrow> login_reply reply auth" where
  "finish_login h request body device attemptKey =
     (let g = h_auth h; secret = deviceTrustSecretFromBody body
      in bnd (try_catch (bnd (login_user g body device secret) (\<lambda>u. ret (Inr u))) (\<lambda>err. ret (Inl err))) (\<lambda>outcome.
           case outcome of
             Inl err \<Rightarrow> ret (Failed 400 (Thrown err))
           | Inr None \<Rightarrow> seq (recordFailedAuthAttempt g attemptKey) (ret (Failed 401 (Message ''Invalid username or password'')))
           | Inr (Some (user, serverProof)) \<Rightarrow>
               seq (clearFailedAuthAttempts g attemptKey)
              (seq (clearAuthChallengeAttempts h request (text_field (jprop body ''username'')) Login_purpose)
                (start_session h request user device secret serverProof))))"

definition auth_login :: "api_config \<Rightarrow> request \<Rightarrow> login_reply reply auth" where
  "auth_login h request =
     jsonOrSizeError request MAX_LOGIN_BODY_BYTES ''Login payload too large'' (\<lambda>body.
       case (device_field body, login_fields_ok body) of
         (Some device, True) \<Rightarrow>
           let attemptKey = loginAttemptKey h request (str_of (jprop body ''username''))
           in bnd (isRateLimited (h_auth h) attemptKey MAX_FAILED_LOGIN_ATTEMPTS) (\<lambda>limited.
                if limited then ret (Failed 429 (Message ''Too many login attempts. Try again shortly.''))
                else finish_login h request body device attemptKey)
       | _ \<Rightarrow> ret (Failed 400 (Message ''Invalid login payload'')))"

definition signup_fields_ok :: "js_value option \<Rightarrow> bool" where
  "signup_fields_ok body \<longleftrightarrow>
     str_of (jprop body ''username'') \<noteq> None \<and> str_of (jprop body ''email'') \<noteq> None \<and>
     str_of (jprop body ''invitationCode'') \<noteq> None \<and> object_field (jprop body ''passwordVerifier'') \<and>
     optional_string (jprop body ''deviceTrustSecret'') \<and> optional_nullable (jprop body ''e2eeKeyring'')"

definition invitation_admits :: "auth_config \<Rightarrow> string \<Rightarrow> string \<Rightarrow> bool auth" where
  "invitation_admits g email invitationCode =
     bnd (asks hasSignupAllowedEmails) (\<lambda>open_list.
       if \<not> open_list then ret False
       else bnd (isSignupEmailAllowed email) (\<lambda>allowed.
         if \<not> allowed then ret False else signupInvitationIsValid g email (Some invitationCode)))"

definition auth_signup :: "api_config \<Rightarrow> request \<Rightarrow> login_reply reply auth" where
  "auth_signup h request =
     jsonOrSizeError request MAX_LOGIN_BODY_BYTES ''Signup payload too large'' (\<lambda>body.
       case (device_field body, signup_fields_ok body) of
         (Some device, True) \<Rightarrow>
           let g = h_auth h; secret = deviceTrustSecretFromBody body; attemptKey = signupAttemptKey h request;
               email = text_field (jprop body ''email''); code = text_field (jprop body ''invitationCode'');
               too_many = ret (Failed 429 (Message ''Too many signup attempts. Try again shortly.''));
               refuse = (\<lambda>status. seq (recordFailedAuthAttempt g attemptKey) (ret (Failed status (Message ''Signup could not be completed''))))
           in bnd (clock_ms g) (\<lambda>now. bnd (isLoginRateLimited attemptKey now MAX_SIGNUP_ATTEMPTS) (\<lambda>limited.
                if limited then too_many
                else if \<not> h_tursoPrimary h then
                  bnd (clock_ms g) (\<lambda>now'. seq (recordFailedLogin attemptKey now')
                    (ret (Failed 503 (Message ''Signup requires remote database access''))))
                else try_catch
                  (bnd (isRateLimited g attemptKey MAX_SIGNUP_ATTEMPTS) (\<lambda>limited'.
                     if limited' then too_many
                     else bnd (invitation_admits g email code) (\<lambda>admitted.
                       if \<not> admitted then refuse 403
                       else bnd (createInvitedUserAccount g (text_field (jprop body ''username'')) email code
                                   (verifier_of_json (jprop body ''passwordVerifier'')) (jprop body ''displayName'')
                                   (str_of (jprop body ''e2eeKeyring''))) (\<lambda>user.
                         case user of
                           None \<Rightarrow> refuse 409
                         | Some u \<Rightarrow> seq (clearFailedAuthAttempts g attemptKey) (start_session h request u device secret None)))))
                  (\<lambda>err. ret (Failed 400 (Thrown err)))))
       | _ \<Rightarrow> ret (Failed 400 (Message ''Invalid signup payload'')))"

text \<open>The time of the answer, the user and the end of the session.\<close>

definition auth_validate :: "api_config \<Rightarrow> request \<Rightarrow> (string \<times> auth_user \<times> string option) reply auth" where
  "auth_validate h request =
     with_session h request (\<lambda>s. bnd (now_iso (h_auth h)) (\<lambda>time. ret (Reply (time, ss_user s, ss_expiresAt s))))"

definition auth_logout :: "api_config \<Rightarrow> request \<Rightarrow> unit reply auth" where
  "auth_logout h request =
     with_session h request (\<lambda>_. seq (deleteSessionFromRequest (h_auth h) request) (ret (Reply ())))"

end
