(* ===== verification/AccountApi.thy ===== *)
theory AccountApi
  imports Api
begin

text \<open>
  The account routes of \<open>apps/web/src/lib/server/hono.ts\<close> for a server without a mirror: profile, key ring,
  password, one-time codes, trusted devices and deletion. Every change of credentials needs a proof of
  the password and counts the failed ones.
\<close>

definition get_account :: "api_config \<Rightarrow> request \<Rightarrow> account_reply reply auth" where
  "get_account h request = with_session h request (\<lambda>s. accountResponse s (ss_user s) None False)"

definition hosted_only :: "api_config \<Rightarrow> string \<Rightarrow> 'a reply auth \<Rightarrow> 'a reply auth" where
  "hosted_only h message k = (if h_tursoPrimary h then k else ret (Failed 503 (Message message)))"

text \<open>The steps after the rate limit: a refused operation is counted, a successful one clears the count.\<close>

definition counted :: "auth_config \<Rightarrow> string \<Rightarrow> nat \<Rightarrow> string \<Rightarrow> 'u option \<Rightarrow> ('u \<Rightarrow> 'a reply auth) \<Rightarrow> 'a reply auth" where
  "counted g key status message outcome k =
     (case outcome of
        None \<Rightarrow> seq (recordFailedAuthAttempt g key) (ret (Failed status (Message message)))
      | Some u \<Rightarrow> seq (clearFailedAuthAttempts g key) (k u))"

definition with_proof_limit :: "api_config \<Rightarrow> request \<Rightarrow> auth_session \<Rightarrow> auth_purpose \<Rightarrow> (string \<Rightarrow> 'a reply auth) \<Rightarrow> 'a reply auth" where
  "with_proof_limit h request session purpose k =
     bnd (accountProofRateLimitError h request (syncOwner session) purpose) (\<lambda>(key, limited).
       if limited then ret (Failed 429 (Message ''Too many verification attempts. Try again shortly.'')) else k key)"

section \<open>Profile and key ring\<close>

definition accountUpdateError :: "auth_error \<Rightarrow> 'a reply option" where
  "accountUpdateError err =
     (case err of
        Email_invalid \<Rightarrow> Some (Failed 400 (Thrown err))
      | Profile_picture_type \<Rightarrow> Some (Failed 400 (Thrown err))
      | Profile_picture_size \<Rightarrow> Some (Failed 400 (Thrown err))
      | Email_taken \<Rightarrow> Some (Failed 409 (Message ''Email is already taken''))
      | _ \<Rightarrow> None)"

definition update_fields_ok :: "js_value option \<Rightarrow> bool" where
  "update_fields_ok body \<longleftrightarrow>
     optional_nullable (jprop body ''displayName'') \<and> optional_nullable (jprop body ''email'') \<and>
     optional_nullable (jprop body ''profileImage'') \<and> optional_nullable (jprop body ''e2eeKeyring'') \<and>
     optional_object (jprop body ''proof'') \<and> optional_nullable (jprop body ''expectedE2eeKeyringHash'')"

definition keyring_update_ok :: "js_value option \<Rightarrow> bool" where
  "keyring_update_ok body \<longleftrightarrow>
     jprop body ''displayName'' = None \<and> jprop body ''email'' = None \<and> jprop body ''profileImage'' = None \<and>
     truthy (trim (text_field (jprop body ''e2eeKeyring''))) \<and> object_field (jprop body ''proof'')"

definition update_keyring :: "api_config \<Rightarrow> request \<Rightarrow> auth_session \<Rightarrow> js_value option \<Rightarrow> account_reply reply auth" where
  "update_keyring h request session body =
     with_proof_limit h request session Keyring_update_purpose (\<lambda>key.
       try_catch
         (bnd (updateUserE2eeKeyring (h_auth h) (syncOwner session) (proof_of_json (jprop body ''proof''))
                 (str_of (jprop body ''e2eeKeyring'')) (argument_of (jprop body ''expectedE2eeKeyringHash''))) (\<lambda>user.
           counted (h_auth h) key 409 ''Keyring authorization or current value did not match'' user
             (\<lambda>u. accountResponse session u None False)))
         (\<lambda>err. ret (Failed 400 (Thrown err))))"

definition update_profile :: "api_config \<Rightarrow> auth_session \<Rightarrow> js_value option \<Rightarrow> account_reply reply auth" where
  "update_profile h session body =
     hosted_only h ''Account updates require remote access''
       (try_catch
         (bnd (updateUserProfile (h_auth h) (syncOwner session) (argument_of (jprop body ''displayName''))
                 (argument_of (jprop body ''email'')) None (argument_of (jprop body ''profileImage''))) (\<lambda>user.
            accountResponse session user None False))
         (\<lambda>err. case accountUpdateError err of Some r \<Rightarrow> ret r | None \<Rightarrow> raise err))"

definition patch_account :: "api_config \<Rightarrow> request \<Rightarrow> account_reply reply auth" where
  "patch_account h request =
     with_account h request ''Legacy token accounts cannot be edited'' (\<lambda>session.
     jsonOrSizeError request MAX_ACCOUNT_BODY_BYTES ''Account payload too large'' (\<lambda>body.
       if \<not> update_fields_ok body then ret (Failed 400 (Message ''Invalid account payload''))
       else if jprop body ''e2eeKeyring'' \<noteq> None then
         (if \<not> keyring_update_ok body then ret (Failed 400 (Message ''Invalid encrypted keyring update''))
          else update_keyring h request session body)
       else update_profile h session body))"

section \<open>Password and one-time codes\<close>

definition post_password :: "api_config \<Rightarrow> request \<Rightarrow> account_reply reply auth" where
  "post_password h request =
     with_account h request ''Legacy token accounts cannot be edited'' (\<lambda>session.
     jsonOrSizeError request MAX_LOGIN_BODY_BYTES ''Password payload too large'' (\<lambda>body.
       if \<not> object_field (jprop body ''proof'') \<or> \<not> object_field (jprop body ''newPasswordVerifier'') \<or>
          \<not> optional_nullable (jprop body ''e2eeKeyring'')
       then ret (Failed 400 (Message ''Invalid password payload''))
       else with_proof_limit h request session Password_change_purpose (\<lambda>key.
         hosted_only h ''Password changes require remote access''
           (bnd (try_catch
              (bnd (changeUserPassword (h_auth h) (syncOwner session) (proof_of_json (jprop body ''proof''))
                      (Some (verifier_of_json (jprop body ''newPasswordVerifier''))) (argument_of (jprop body ''e2eeKeyring'')))
                 (\<lambda>u. ret (Inr u))) (\<lambda>err. ret (Inl err))) (\<lambda>outcome.
            case outcome of
              Inl err \<Rightarrow> ret (Failed 400 (Thrown err))
            | Inr user \<Rightarrow>
                counted (h_auth h) key 401 ''Current password is incorrect'' user (\<lambda>u.
                  bnd (createAuthSession (h_auth h) u (ss_deviceId session)) (\<lambda>r.
                    accountResponse (session\<lparr>ss_user := u, ss_expiresAt := Some (cs_expiresAt r)\<rparr>) u (Some r)
                      (bearerSessionRequested request))))))))"

definition post_totp_setup :: "api_config \<Rightarrow> request \<Rightarrow> (string \<times> string) reply auth" where
  "post_totp_setup h request =
     with_account h request ''Legacy token accounts cannot use 2FA'' (\<lambda>session.
       bnd (generateTotpSecret (h_auth h)) (\<lambda>secret. ret (Reply (secret, totpOtpauthUrl (ss_user session) secret))))"

definition post_totp :: "api_config \<Rightarrow> request \<Rightarrow> account_reply reply auth" where
  "post_totp h request =
     with_account h request ''Legacy token accounts cannot use 2FA'' (\<lambda>session.
     jsonOrSizeError request MAX_LOGIN_BODY_BYTES ''2FA payload too large'' (\<lambda>body.
       if \<not> object_field (jprop body ''proof'') \<or> str_of (jprop body ''secret'') = None \<or> str_of (jprop body ''totpCode'') = None
       then ret (Failed 400 (Message ''Invalid 2FA payload''))
       else with_proof_limit h request session Totp_purpose (\<lambda>key.
         hosted_only h ''2FA changes require remote access''
           (bnd (enableUserTotp (h_auth h) (syncOwner session) (proof_of_json (jprop body ''proof''))
                   (jprop body ''secret'') (jprop body ''totpCode'')) (\<lambda>user.
              counted (h_auth h) key 401 ''Could not verify 2FA setup'' user (\<lambda>u. accountResponse session u None False))))))"

definition delete_totp :: "api_config \<Rightarrow> request \<Rightarrow> account_reply reply auth" where
  "delete_totp h request =
     with_account h request ''Legacy token accounts cannot use 2FA'' (\<lambda>session.
     jsonOrSizeError request MAX_LOGIN_BODY_BYTES ''2FA payload too large'' (\<lambda>body.
       if \<not> object_field (jprop body ''proof'') then ret (Failed 400 (Message ''Invalid 2FA payload''))
       else with_proof_limit h request session Totp_purpose (\<lambda>key.
         hosted_only h ''2FA changes require remote access''
           (bnd (disableUserTotp (h_auth h) (syncOwner session) (proof_of_json (jprop body ''proof'')) (jprop body ''totpCode'')) (\<lambda>user.
              counted (h_auth h) key 401 ''Could not verify 2FA code'' user (\<lambda>u. accountResponse session u None False))))))"

section \<open>Trusted devices and deletion\<close>

text \<open>\<open>deviceId\<close> is the parameter of the path.\<close>

definition delete_trusted_device :: "api_config \<Rightarrow> request \<Rightarrow> string option \<Rightarrow> account_reply reply auth" where
  "delete_trusted_device h request deviceId =
     with_account h request ''Legacy token accounts cannot manage trusted devices'' (\<lambda>session.
       if \<not> truthy (trim (or_empty deviceId)) then ret (Failed 400 (Message ''Invalid device''))
       else hosted_only h ''Trusted device changes require remote access''
         (seq (revokeTrustedAuthDevice (syncOwner session) (trim (or_empty deviceId)))
           (accountResponse session (ss_user session) None False)))"

definition delete_account :: "api_config \<Rightarrow> request \<Rightarrow> unit reply auth" where
  "delete_account h request =
     with_account h request ''Legacy token accounts cannot be deleted'' (\<lambda>session.
     jsonOrSizeError request MAX_LOGIN_BODY_BYTES ''Delete payload too large'' (\<lambda>body.
       if \<not> object_field (jprop body ''proof'') then ret (Failed 400 (Message ''Invalid delete payload''))
       else with_proof_limit h request session Delete_account_purpose (\<lambda>key.
         hosted_only h ''Account deletion requires remote access''
           (bnd (deleteUserAccount (h_auth h) (syncOwner session) (proof_of_json (jprop body ''proof''))) (\<lambda>deleted.
              counted (h_auth h) key 401 ''Password is incorrect'' (if deleted then Some () else None) (\<lambda>_. ret (Reply ())))))))"

end
