(* ===== verification/SyncApi.thy ===== *)
theory SyncApi
  imports Api
begin

text \<open>
  The synchronisation routes of \<open>apps/web/src/lib/server/hono.ts\<close>: the lists of notes and notebooks, pull,
  push and the cleanup of the trash, each on the account of the session.
\<close>

definition get_notes :: "api_config \<Rightarrow> request \<Rightarrow> Note list reply auth" where
  "get_notes h request =
     with_session h request (\<lambda>session. asks (\<lambda>s. Reply (listNotes (base_server s) (syncOwner session))))"

definition get_notebooks :: "api_config \<Rightarrow> request \<Rightarrow> Notebook list reply auth" where
  "get_notebooks h request =
     with_session h request (\<lambda>session. asks (\<lambda>s. Reply (listNotebooks (base_server s) (syncOwner session))))"

section \<open>Pull\<close>

definition pullSince :: "env \<Rightarrow> js_value option \<Rightarrow> string option" where
  "pullSince e v = (case str_of v of Some t \<Rightarrow> if date_parse e t \<noteq> None then Some t else None | None \<Rightarrow> None)"

definition pullRevision :: "js_value option \<Rightarrow> int option" where
  "pullRevision v = (case num_of v of Some i \<Rightarrow> if is_safe_integer i \<and> i \<ge> 0 then Some i else None | None \<Rightarrow> None)"

definition requestedPullLimit :: "js_value option \<Rightarrow> int option" where
  "requestedPullLimit v = (case num_of v of Some i \<Rightarrow> if is_safe_integer i \<and> i > 0 then Some i else None | None \<Rightarrow> None)"

definition sync_pull :: "api_config \<Rightarrow> request \<Rightarrow> pull_response reply auth" where
  "sync_pull h request =
     with_session h request (\<lambda>session.
     jsonOrSizeError request MAX_LOGIN_BODY_BYTES ''Pull payload too large'' (\<lambda>body.
       let e = g_env (h_auth h)
       in bnd (on_server_with (pullChangesSince e (pullSince e (jprop body ''since'')) (pullRevision (jprop body ''sinceRevision''))
                 (syncOwner session) (requestedPullLimit (jprop body ''limit'')))) (\<lambda>r. ret (Reply r))))"

section \<open>Push\<close>

definition recordsBelongToDevice :: "push_request \<Rightarrow> bool" where
  "recordsBelongToDevice body \<longleftrightarrow>
     list_all (\<lambda>c. n_deviceId (c_record c) = d_id (pr_device body)) (pr_notes body) \<and>
     list_all (\<lambda>c. nb_deviceId (c_record c) = d_id (pr_device body)) (pr_notebooks body)"

definition pushChangeCount :: "push_request \<Rightarrow> nat" where
  "pushChangeCount body = length (pr_notes body) + length (pr_notebooks body)"

text \<open>
  The checks of the body, and the typed request they let through: the checks on JSON values first, as in
  the source, then those on the records.
\<close>

definition push_body :: "env \<Rightarrow> js_value option \<Rightarrow> push_request option" where
  "push_body e body =
     (if \<not> hasEntityChanges (jprop body ''notes'') (hasNoteRecord e) \<or> \<not> hasEntityChanges (jprop body ''notebooks'') (hasNotebookRecord e)
      then None
      else case (device_field body, changes_of_json note_of_json (jprop body ''notes''),
                 changes_of_json notebook_of_json (jprop body ''notebooks'')) of
             (Some device, Some notes, Some notebooks) \<Rightarrow>
               let request = \<lparr>pr_device = device, pr_notes = notes, pr_notebooks = notebooks\<rparr>
               in if \<not> hasUniqueEntityChangeIds n_id notes \<or> \<not> hasUniqueEntityChangeIds nb_id notebooks \<or>
                     \<not> recordsBelongToDevice request
                  then None else Some request
           | _ \<Rightarrow> None)"

definition sealed_request :: "push_request \<Rightarrow> bool" where
  "sealed_request body \<longleftrightarrow>
     list_all (\<lambda>c. hasCurrentEncryptedNoteFields (c_record c)) (pr_notes body) \<and>
     list_all (\<lambda>c. hasCurrentEncryptedNotebookFields (c_record c)) (pr_notebooks body)"

definition sync_push_options :: "api_config \<Rightarrow> push_options" where
  "sync_push_options h = \<lparr>po_allowTombstoneOverwrite = False, po_preserveRecordVersions = False,
     po_preserveNewRecordVersions = False, po_enforceRecordLimits = True, po_recordLimitConfig = h_recordLimits h\<rparr>"

definition run_push :: "api_config \<Rightarrow> auth_session \<Rightarrow> push_request \<Rightarrow> push_response reply auth" where
  "run_push h session body =
     try_catch
       (bnd (on_server_with (pushChanges (g_env (h_auth h)) body (syncOwner session) (sync_push_options h))) (\<lambda>r. ret (Reply r)))
       (\<lambda>err. case err of
          Server_failed (Record_limit_exceeded result) \<Rightarrow> ret (Failed 409 (Thrown err))
        | _ \<Rightarrow> raise err)"

definition session_device_ok :: "auth_session \<Rightarrow> push_request \<Rightarrow> bool" where
  "session_device_ok session body \<longleftrightarrow> \<not> (truthy_opt (ss_deviceId session) \<and> ss_deviceId session \<noteq> Some (d_id (pr_device body)))"

definition sync_push :: "api_config \<Rightarrow> request \<Rightarrow> push_response reply auth" where
  "sync_push h request =
     with_session h request (\<lambda>session.
     jsonOrSizeError request MAX_SYNC_BODY_BYTES ''Push payload too large'' (\<lambda>parsed.
       case push_body (g_env (h_auth h)) parsed of
         None \<Rightarrow> ret (Failed 400 (Message ''Invalid push payload''))
       | Some body \<Rightarrow>
           if pushChangeCount body > MAX_SYNC_CHANGES_PER_PUSH
           then ret (Failed 413 (Message ''Too many changes in one sync push; refresh author and try again.''))
           else if \<not> session_device_ok session body then ret (Failed 403 (Message ''Sync device does not match this session''))
           else bnd (if ss_legacy session then ret None else getUserE2eeKeyring (syncOwner session)) (\<lambda>accountKeyring.
             if truthy_opt accountKeyring \<and> \<not> sealed_request body
             then ret (Failed 400 (Message ''Sync-capable accounts require current encrypted fields and hashes''))
             else let syncRateKey = ''sync-push:'' @ syncOwner session
               in bnd (isRateLimited (h_auth h) syncRateKey MAX_SYNC_PUSHES_PER_MINUTE) (\<lambda>limited.
                 if limited then ret (Failed 429 (Message ''Too many sync pushes. Try again shortly.''))
                 else seq (recordFailedAuthAttempt (h_auth h) syncRateKey) (run_push h session body)))))"

section \<open>Cleanup\<close>

definition post_cleanup :: "api_config \<Rightarrow> request \<Rightarrow> cleanup_response reply auth" where
  "post_cleanup h request =
     with_session h request (\<lambda>session.
       let e = g_env (h_auth h)
       in bnd (clock_ms (h_auth h)) (\<lambda>now.
          bnd (on_server_with (cleanupTrash e now (Some (syncOwner session)))) (\<lambda>response.
          seq (pruneExpiredAuthState (h_auth h))
         (seq (on_server_with (\<lambda>s. Inr (pruneUnreferencedDevices e s)))
         (seq (on_server_with (\<lambda>s. Inr (compactEntityChanges (Some (syncOwner session)) s)))
           (ret (Reply response)))))))"

end
