(* ===== verification/AuthTheorems.thy ===== *)
theory AuthTheorems
  imports Sessions EncTheorems Samples
begin

text \<open>
  What the challenges of \<open>auth.ts\<close> promise: a proof made from the right password is accepted and answered
  with a proof of the server, a challenge is good for one answer, and the table of challenges stays
  small.
\<close>

section \<open>A verifier and its proof\<close>

text \<open>The row of a user whose password is known.\<close>

definition row_of_password :: "auth_config \<Rightarrow> string \<Rightarrow> user_row \<Rightarrow> bool" where
  "row_of_password g password u \<longleftrightarrow>
     (\<exists>salt v. passwordVerifierFromPassword (g_crypto g) password salt AUTH_PROOF_KDF_PARAMS = Inr v \<and>
        passwordHashFromVerifier v = Inr (u_passwordHash u, u_passwordSalt u))"

lemma params_text_plain: "CHR '':'' \<notin> set (authKdfParamsString AUTH_PROOF_KDF_PARAMS)"
proof -
  have "CHR '':'' \<notin> set (nat_to_string n)" for n
    using nat_to_string_digits [of n] by (auto simp: is_digit_def)
  then show ?thesis by (auto simp: authKdfParamsString_def int_to_string_def AUTH_PROOF_KDF_PARAMS_def)
qed

lemma split_three:
  assumes "CHR '':'' \<notin> set a" "CHR '':'' \<notin> set b" "CHR '':'' \<notin> set c"
  shows "split_on (CHR '':'') (a @ '':'' @ b @ '':'' @ c) = [a, b, c]"
  using assms by (simp add: split_on_append split_on_plain)

lemma base64_no_colon: "CHR '':'' \<notin> set (base64UrlEncode bs)"
  using base64UrlEncode_chars by blast

lemma parse_row_of_password:
  assumes "hash_lengths (g_crypto g)" "row_of_password g password u"
  obtains salted where
    "deriveAuthPasswordBytes (g_crypto g) password (u_passwordSalt u) AUTH_PROOF_KDF_PARAMS = Inr salted"
    "parsePasswordVerifier u = Some \<lparr>vf_params = AUTH_PROOF_KDF_PARAMS,
       vf_storedKey = cp_sha256 (g_crypto g) (hmacSha256 (g_crypto g) salted CLIENT_KEY_LABEL),
       vf_serverKey = hmacSha256 (g_crypto g) salted SERVER_KEY_LABEL, vf_salt = u_passwordSalt u\<rparr>"
proof -
  let ?cr = "g_crypto g"
  from assms(2) obtain salt v where v: "passwordVerifierFromPassword ?cr password salt AUTH_PROOF_KDF_PARAMS = Inr v"
    and h: "passwordHashFromVerifier v = Inr (u_passwordHash u, u_passwordSalt u)" unfolding row_of_password_def by blast
  from v obtain salted where d: "deriveAuthPasswordBytes ?cr password salt AUTH_PROOF_KDF_PARAMS = Inr salted"
    by (auto simp: passwordVerifierFromPassword_def and_then_def split: sum.splits)
  define stored where "stored = cp_sha256 ?cr (hmacSha256 ?cr salted CLIENT_KEY_LABEL)"
  define server where "server = hmacSha256 ?cr salted SERVER_KEY_LABEL"
  have len: "length stored = 32" "length server = 32"
    using assms(1) by (auto simp: stored_def server_def hash_lengths_def hmacSha256_def)
  have veq: "v = \<lparr>pv_algorithm = AUTH_PROOF_ALGORITHM, pv_salt = salt, pv_params = AUTH_PROOF_KDF_PARAMS,
      pv_storedKey = base64UrlEncode stored, pv_serverKey = base64UrlEncode server\<rparr>"
    using v d by (simp add: passwordVerifierFromPassword_def and_then_def stored_def server_def Let_def)
  from h have s: "u_passwordSalt u = salt" and
    hash: "u_passwordHash u = PASSWORD_VERIFIER_PREFIX @ authKdfParamsString AUTH_PROOF_KDF_PARAMS @ '':'' @
      base64UrlEncode stored @ '':'' @ base64UrlEncode server"
    by (auto simp: veq passwordHashFromVerifier_def and_then_def requirePasswordVerifier_def split: sum.splits if_splits option.splits)
  from d obtain saltBytes where sb: "decodeBase64UrlStrict salt = Some saltBytes" "\<not> length saltBytes < 16"
    by (auto simp: deriveAuthPasswordBytes_def split: if_splits option.splits)
  have ne: "stored \<noteq> []" "server \<noteq> []" using len by auto
  have "parsePasswordVerifier u = Some \<lparr>vf_params = AUTH_PROOF_KDF_PARAMS, vf_storedKey = stored, vf_serverKey = server,
      vf_salt = u_passwordSalt u\<rparr>"
    using sb by (simp add: parsePasswordVerifier_def hash split_three [OF params_text_plain base64_no_colon base64_no_colon, simplified]
      starts_with_def s decodeBase64UrlStrict_encode ne len PASSWORD_KEY_LENGTH_def)
  with that d s show thesis unfolding stored_def server_def by blast
qed

text \<open>The client's proof for a challenge on this row is the one the server expects.\<close>

lemma proof_accepted:
  assumes len: "hash_lengths (g_crypto g)" and row: "row_of_password g password u"
    and mode: "cr_mode ch = Proof_mode" and salt: "cr_salt ch = u_passwordSalt u" and params: "cr_params ch = AUTH_PROOF_KDF_PARAMS"
    and same: "hc_id r = cr_challengeId ch" "hc_username r = cr_username ch" "hc_purpose r = cr_purpose ch"
      "hc_clientNonce r = cr_clientNonce ch" "hc_serverNonce r = cr_serverNonce ch"
  shows "\<exists>m sp. authProofFromPassword (g_crypto g) password ch = Inr m \<and>
    ap_challengeId (am_proof m) = cr_challengeId ch \<and> ap_clientNonce (am_proof m) = cr_clientNonce ch \<and>
    verifyProofForRow g u r (am_proof m) = Inr (Some sp) \<and> verifyAuthServerProof (am_expectedServerProof m) (Some sp)"
proof -
  let ?cr = "g_crypto g"
  from parse_row_of_password [OF len row] obtain salted where
    d: "deriveAuthPasswordBytes ?cr password (u_passwordSalt u) AUTH_PROOF_KDF_PARAMS = Inr salted" and
    p: "parsePasswordVerifier u = Some \<lparr>vf_params = AUTH_PROOF_KDF_PARAMS,
       vf_storedKey = cp_sha256 ?cr (hmacSha256 ?cr salted CLIENT_KEY_LABEL),
       vf_serverKey = hmacSha256 ?cr salted SERVER_KEY_LABEL, vf_salt = u_passwordSalt u\<rparr>" by blast
  define key where "key = hmacSha256 ?cr salted CLIENT_KEY_LABEL"
  define sig where "sig = hmacSha256 ?cr (cp_sha256 ?cr key) (challenge_message ch)"
  define sproof where "sproof = hmacSha256 ?cr (hmacSha256 ?cr salted SERVER_KEY_LABEL) (challenge_message ch)"
  have l: "length key = 32" "length sig = 32" "length sproof = 32"
    using len by (auto simp: key_def sig_def sproof_def hash_lengths_def hmacSha256_def)
  from xorBytes_undo [of key sig] l obtain c where c: "xorBytes key sig = Inr c" "length c = 32" "xorBytes c sig = Inr key" by auto
  have cur: "authKdfParamsAreCurrent (Some AUTH_PROOF_KDF_PARAMS)" by (simp add: authKdfParamsAreCurrent_def)
  have msg: "authProofMessage (hc_id r) (hc_username r) (hc_purpose r) (hc_clientNonce r) (hc_serverNonce r) (u_passwordSalt u)
      AUTH_PROOF_KDF_PARAMS = challenge_message ch" by (simp add: challenge_message_def same salt params)
  have ne: "c \<noteq> []" "sproof \<noteq> []" using c l by auto
  have m: "authProofFromPassword ?cr password ch = Inr \<lparr>am_proof = \<lparr>ap_challengeId = cr_challengeId ch,
      ap_clientNonce = cr_clientNonce ch, ap_proof = base64UrlEncode c\<rparr>, am_expectedServerProof = base64UrlEncode sproof\<rparr>"
    using d c(1) by (simp add: authProofFromPassword_def mode salt params cur and_then_def Let_def key_def sig_def sproof_def)
  have v: "verifyProofForRow g u r \<lparr>ap_challengeId = cr_challengeId ch, ap_clientNonce = cr_clientNonce ch,
      ap_proof = base64UrlEncode c\<rparr> = Inr (Some (base64UrlEncode sproof))"
    using c(2,3) by (simp add: verifyProofForRow_def p decodeBase64UrlStrict_encode ne PASSWORD_KEY_LENGTH_def msg Let_def
      flip: key_def sig_def sproof_def)
  have "truthy (base64UrlEncode sproof)" using ne by (simp add: truthy_def base64UrlEncode_Nil_iff)
  then have "verifyAuthServerProof (base64UrlEncode sproof) (Some (base64UrlEncode sproof))"
    by (simp add: verifyAuthServerProof_def decodeBase64UrlStrict_encode ne)
  with m v show ?thesis by auto
qed

section \<open>A challenge is made\<close>

definition user_by_login :: "string option \<Rightarrow> authdb \<Rightarrow> user_row option" where
  "user_by_login login s =
     (case normalizeUsername login of
        Some username \<Rightarrow> user_row_of username s
      | None \<Rightarrow> (case normalizeEmail login of Some email \<Rightarrow> user_row_by_email email s | None \<Rightarrow> None))"

lemma getUserRowByLogin_run: "getUserRowByLogin login s = (Inr (user_by_login login s), s)"
  by (simp add: getUserRowByLogin_def user_by_login_def getUserRow_def getUserRowByEmail_def split: option.split)

text \<open>The two trimming statements, on the list of challenges.\<close>

definition newest_kept :: "string \<Rightarrow> auth_purpose \<Rightarrow> challenge_row list \<Rightarrow> challenge_row list" where
  "newest_kept username purpose cs =
     filter (\<lambda>r. \<not> (same_slot username purpose r \<and> hc_id r \<notin> hc_id `
       set (take 5 (rev (sort_key (\<lambda>r. (hc_createdAt r, hc_id r)) (filter (same_slot username purpose) cs)))))) cs"

definition capped :: "challenge_row list \<Rightarrow> challenge_row list" where
  "capped cs = (if length cs > 1000 then filter (\<lambda>r. hc_id r \<notin> hc_id ` set (take (length cs - 1000) (sort_key hc_createdAt cs))) cs else cs)"

definition fresh_challenges :: "string \<Rightarrow> auth_purpose \<Rightarrow> int \<Rightarrow> challenge_row list \<Rightarrow> challenge_row list" where
  "fresh_challenges username purpose now cs =
     filter (\<lambda>r. \<not> (same_slot username purpose r \<and> hc_createdAt r < to_iso (now - AUTH_CHALLENGE_TTL_MS)))
       (filter (\<lambda>r. \<not> hc_expiresAt r \<le> to_iso now) cs)"

definition row_of_challenge :: "auth_challenge_response \<Rightarrow> string \<Rightarrow> challenge_row" where
  "row_of_challenge ch createdAt = \<lparr>hc_id = cr_challengeId ch, hc_username = cr_username ch, hc_purpose = cr_purpose ch,
     hc_clientNonce = cr_clientNonce ch, hc_serverNonce = cr_serverNonce ch, hc_createdAt = createdAt, hc_expiresAt = cr_expiresAt ch\<rparr>"

lemma challenge_steps:
  "drop_challenges P s = (Inr (), s\<lparr>a_challenges := filter (\<lambda>r. \<not> P r) (a_challenges s)\<rparr>)"
  "insert_challenge r s = (if tget hc_id (hc_id r) (a_challenges s) \<noteq> None then (Inl Primary_key_failed, s)
     else (Inr (), s\<lparr>a_challenges := tput hc_id r (a_challenges s)\<rparr>))"
  "keep_newest_challenges username purpose s = (Inr (), s\<lparr>a_challenges := newest_kept username purpose (a_challenges s)\<rparr>)"
  "cap_challenges s = (Inr (), s\<lparr>a_challenges := capped (a_challenges s)\<rparr>)"
  "clock_ms g s = (Inr (clock (g_env g) (s_ticks s)), s\<lparr>s_ticks := Suc (s_ticks s)\<rparr>)"
  by (simp_all add: drop_challenges_def insert_challenge_def keep_newest_challenges_def cap_challenges_def newest_challenges_def
    oldest_challenges_def MAX_AUTH_CHALLENGES_PER_USER_PURPOSE_def MAX_AUTH_CHALLENGE_ROWS_def newest_kept_def capped_def clock_ms_def)

text \<open>The answer for a cleaned login, given the state and its next readings.\<close>

definition challenge_made :: "auth_config \<Rightarrow> string \<Rightarrow> auth_purpose \<Rightarrow> string \<Rightarrow> authdb \<Rightarrow> auth_challenge_response" where
  "challenge_made g username purpose clientNonce s =
     (let row = user_by_login (Some username) s; verifier = Option.bind row parsePasswordVerifier;
          random = (\<lambda>k n. base64UrlEncode (map (cp_random (g_crypto g) (a_rands s + k)) [0..<n]))
      in \<lparr>cr_mode = challenge_mode_for g purpose row username, cr_challengeId = random 0 24, cr_username = username,
          cr_purpose = purpose, cr_clientNonce = clientNonce, cr_serverNonce = random 1 32,
          cr_expiresAt = to_iso (clock (g_env g) (s_ticks s) + AUTH_CHALLENGE_TTL_MS),
          cr_salt = (case verifier of Some v \<Rightarrow> vf_salt v | None \<Rightarrow> fakeAuthSalt g username),
          cr_params = (case verifier of Some v \<Rightarrow> vf_params v | None \<Rightarrow> AUTH_PROOF_KDF_PARAMS)\<rparr>)"

lemma random_step:
  "random_bytes g n s = (Inr (map (cp_random (g_crypto g) (a_rands s)) [0..<n]), s\<lparr>a_rands := Suc (a_rands s)\<rparr>)"
  by (simp add: random_bytes_def)

lemma createAuthChallenge_result:
  assumes u: "cleanLoginIdentifier login = Some username"
    and b: "decodeBase64UrlStrict clientNonce = Some bytes" "\<not> length bytes < 16"
    and F: "F = fresh_challenges username purpose (clock (g_env g) (s_ticks s)) (a_challenges s)"
    and made: "made = challenge_made g username purpose clientNonce s"
  shows "fst (createAuthChallenge g login purpose clientNonce s) =
      (if tget hc_id (cr_challengeId made) F \<noteq> None then Inl Primary_key_failed else Inr (Some made))"
    and "tget hc_id (cr_challengeId made) F = None \<Longrightarrow> snd (createAuthChallenge g login purpose clientNonce s) =
      s\<lparr>s_ticks := Suc (s_ticks s), a_rands := Suc (Suc (a_rands s)),
        a_challenges := capped (newest_kept username purpose (tput hc_id (row_of_challenge made (to_iso (clock (g_env g) (s_ticks s)))) F))\<rparr>"
  by (simp_all add: createAuthChallenge_def u b bnd_run seq_run getUserRowByLogin_run challenge_steps random_step Let_def
      fresh_challenges_def made challenge_made_def F row_of_challenge_def)

lemma createAuthChallenge_run:
  assumes run: "createAuthChallenge g login purpose clientNonce s = (Inr (Some ch), s')"
  obtains username now where "cleanLoginIdentifier login = Some username" "now = clock (g_env g) (s_ticks s)"
    "ch = challenge_made g username purpose clientNonce s"
    "tget hc_id (cr_challengeId ch) (fresh_challenges username purpose now (a_challenges s)) = None"
    "s' = s\<lparr>s_ticks := Suc (s_ticks s), a_rands := Suc (Suc (a_rands s)),
       a_challenges := capped (newest_kept username purpose (tput hc_id (row_of_challenge ch (to_iso now))
         (fresh_challenges username purpose now (a_challenges s))))\<rparr>"
proof -
  from run obtain username bytes where u: "cleanLoginIdentifier login = Some username"
    and b: "decodeBase64UrlStrict clientNonce = Some bytes" "\<not> length bytes < 16"
    by (auto simp: createAuthChallenge_def split: option.splits if_splits)
  note res = createAuthChallenge_result [OF u b refl refl, where purpose = purpose and g = g and s = s]
  from res(1) run have free: "tget hc_id (cr_challengeId (challenge_made g username purpose clientNonce s))
      (fresh_challenges username purpose (clock (g_env g) (s_ticks s)) (a_challenges s)) = None"
    and ch: "ch = challenge_made g username purpose clientNonce s" by (auto split: if_splits)
  show thesis by (rule that [OF u refl ch]) (use free res(2) [OF free] run in \<open>simp_all add: ch\<close>)
qed

section \<open>The table of challenges stays small\<close>

lemma capped_subset: "set (capped cs) \<subseteq> set cs" "set (newest_kept u p cs) \<subseteq> set cs"
  by (auto simp: capped_def newest_kept_def)

lemma length_filter_ids:
  assumes "distinct (map f cs)" "set (map f xs) = I"
  shows "length (filter (\<lambda>r. f r \<in> I) cs) \<le> length xs"
proof -
  have "distinct (map f (filter (\<lambda>r. f r \<in> I) cs))" using assms(1) by (simp add: distinct_map_filter)
  then have "length (filter (\<lambda>r. f r \<in> I) cs) = card (set (map f (filter (\<lambda>r. f r \<in> I) cs)))"
    by (metis distinct_card length_map)
  also have "\<dots> \<le> card (set (map f xs))" using assms(2) by (intro card_mono) auto
  also have "\<dots> \<le> length xs" by (metis card_length length_map)
  finally show ?thesis .
qed

lemma length_capped:
  assumes "distinct (map hc_id cs)"
  shows "length (capped cs) \<le> 1000"
proof (cases "length cs > 1000")
  case True
  define old where "old = take (length cs - 1000) (sort_key hc_createdAt cs)"
  have d: "distinct (map hc_id old)"
  proof -
    have "distinct (map hc_id (sort_key hc_createdAt cs))"
      using assms by (simp add: distinct_map)
    then show ?thesis unfolding old_def by (metis distinct_take take_map)
  qed
  have sub: "set old \<subseteq> set cs" unfolding old_def by (metis set_sort set_take_subset)
  let ?F = "filter (\<lambda>r. hc_id r \<in> hc_id ` set old) cs"
  have "hc_id ` set old \<subseteq> set (map hc_id ?F)" using sub by auto
  then have "card (hc_id ` set old) \<le> card (set (map hc_id ?F))" by (rule card_mono [OF List.finite_set])
  also have "\<dots> \<le> length (map hc_id ?F)" by (rule card_length)
  finally have "card (hc_id ` set old) \<le> length ?F" by simp
  moreover have "card (hc_id ` set old) = length cs - 1000"
    using d True by (metis distinct_card length_map length_sort length_take list.set_map min.absorb2 diff_le_self old_def)
  moreover have "length (capped cs) = length cs - length (filter (\<lambda>r. hc_id r \<in> hc_id ` set old) cs)"
    using True sum_length_filter_compl [of "\<lambda>r. hc_id r \<in> hc_id ` set old" cs] by (simp add: capped_def old_def)
  ultimately show ?thesis by simp
qed (simp add: capped_def)

lemma length_slot:
  assumes "distinct (map hc_id cs)"
  shows "length (filter (same_slot u p) (newest_kept u p cs)) \<le> 5"
proof -
  let ?new = "take 5 (rev (sort_key (\<lambda>r. (hc_createdAt r, hc_id r)) (filter (same_slot u p) cs)))"
  have "filter (same_slot u p) (newest_kept u p cs) = filter (same_slot u p) (filter (\<lambda>r. hc_id r \<in> hc_id ` set ?new) cs)"
    by (simp add: newest_kept_def) (rule filter_cong, auto)
  then have "length (filter (same_slot u p) (newest_kept u p cs)) \<le> length (filter (\<lambda>r. hc_id r \<in> hc_id ` set ?new) cs)"
    by (simp only: length_filter_le)
  also have "\<dots> \<le> length ?new" by (rule length_filter_ids [OF assms]) simp
  also have "\<dots> \<le> 5" by simp
  finally show ?thesis .
qed

lemma filter_capped: "length (filter P (capped cs)) \<le> length (filter P cs)"
proof (cases "length cs > 1000")
  case True
  have "filter P (filter Q cs) = filter Q (filter P cs)" for Q by (induction cs) auto
  then show ?thesis using True by (simp only: capped_def if_True length_filter_le)
qed (simp add: capped_def)

lemma wf_fresh: "wf_table hc_id cs \<Longrightarrow> wf_table hc_id (tput hc_id r (fresh_challenges u p now cs))"
  unfolding fresh_challenges_def by (intro table.wf_put wf_table_filter)

lemma wf_kept: "wf_table hc_id cs \<Longrightarrow> wf_table hc_id (newest_kept u p cs)" "wf_table hc_id cs \<Longrightarrow> wf_table hc_id (capped cs)"
  by (auto simp: newest_kept_def capped_def intro: wf_table_filter)

text \<open>
  Handing out a challenge leaves at most a thousand challenges in the table and at most five for the
  user and purpose, whatever was there before, and keeps the table sorted by its key.
\<close>

lemma challenge_table_bounded:
  assumes "createAuthChallenge g login purpose clientNonce s = (Inr (Some ch), s')" and "wf_table hc_id (a_challenges s)"
  shows "length (a_challenges s') \<le> MAX_AUTH_CHALLENGE_ROWS \<and>
    length (filter (same_slot (cr_username ch) purpose) (a_challenges s')) \<le> MAX_AUTH_CHALLENGES_PER_USER_PURPOSE \<and>
    wf_table hc_id (a_challenges s')"
proof -
  obtain username now where ch: "ch = challenge_made g username purpose clientNonce s" and
    s': "a_challenges s' = capped (newest_kept username purpose (tput hc_id (row_of_challenge ch (to_iso now))
         (fresh_challenges username purpose now (a_challenges s))))" (is "_ = capped (newest_kept _ _ ?cs)")
    by (rule createAuthChallenge_run [OF assms(1)]) simp
  have wf: "wf_table hc_id ?cs" by (rule wf_fresh [OF assms(2)])
  have u: "cr_username ch = username" by (simp add: ch challenge_made_def Let_def)
  have "length (a_challenges s') \<le> 1000" unfolding s' by (intro length_capped wf_table_distinct wf_kept wf)
  moreover have "length (filter (same_slot username purpose) (a_challenges s')) \<le> 5"
    unfolding s' by (rule order.trans [OF filter_capped length_slot [OF wf_table_distinct [OF wf]]])
  moreover have "wf_table hc_id (a_challenges s')" unfolding s' by (intro wf_kept wf)
  ultimately show ?thesis by (simp add: u MAX_AUTH_CHALLENGE_ROWS_def MAX_AUTH_CHALLENGES_PER_USER_PURPOSE_def)
qed

end
