(* ===== verification/AuthSamples.thy ===== *)
theory AuthSamples
  imports AuthTheorems
begin

text \<open>
  A small installation for the witnesses of the account theorems: hash functions with constant values of
  the right lengths, one account made from a known password, and the database of theory \<open>Samples\<close>.
\<close>

definition hash_crypto :: crypto where
  "hash_crypto = plain_crypto\<lparr>cp_sha256 := (\<lambda>b. replicate 32 1), cp_hmac := (\<lambda>k m. replicate 32 2),
     cp_argon2id := (\<lambda>p s. replicate 32 3), cp_random := (\<lambda>i j. of_nat (i + j))\<rparr>"

definition sample_auth_config :: auth_config where
  "sample_auth_config = \<lparr>g_env = sample_env, g_crypto = hash_crypto, g_hmacSha1 = (\<lambda>k m. replicate 20 0), g_legacyToken = None,
     g_loginUsername = ''owner'', g_loginPassword = None, g_serverSecret = ''secret'', g_sessionDays = 90\<rparr>"

definition sample_password :: string where
  "sample_password = ''correct horse battery''"

definition sample_salt :: string where
  "sample_salt = base64UrlEncode (replicate 16 7)"

definition sample_hash :: "string \<times> string" where
  "sample_hash = (case passwordVerifierFromPassword hash_crypto sample_password sample_salt AUTH_PROOF_KDF_PARAMS of
     Inr v \<Rightarrow> (case passwordHashFromVerifier v of Inr h \<Rightarrow> h | Inl _ \<Rightarrow> ([], [])) | Inl _ \<Rightarrow> ([], []))"

definition sample_user :: user_row where
  "sample_user = \<lparr>u_username = ''ann'', u_email = None, u_displayName = None, u_profileImage = None,
     u_passwordHash = fst sample_hash, u_passwordSalt = snd sample_hash, u_e2eeKeyring = None, u_totpSecret = None,
     u_totpEnabledAt = None, u_createdAt = ''2025-01-01T00:00:00.000Z'', u_updatedAt = ''2025-01-01T00:00:00.000Z''\<rparr>"

definition sample_authdb :: authdb where
  "sample_authdb = server.extend (sample_server\<lparr>s_users := [sample_user]\<rparr>) (authdb.fields [] [] [] [] [] 0)"

lemma sample_config_simps [simp]:
  "g_env sample_auth_config = sample_env" "g_crypto sample_auth_config = hash_crypto"
  "g_loginPassword sample_auth_config = None" "g_loginUsername sample_auth_config = ''owner''"
  by (simp_all add: sample_auth_config_def)

lemma sample_hash_lengths: "hash_lengths hash_crypto"
  by (simp add: hash_lengths_def hash_crypto_def)

lemma verifier_exists:
  assumes "hash_lengths cr" "16 \<le> length salt"
  shows "\<exists>v. passwordVerifierFromPassword cr pw (base64UrlEncode salt) AUTH_PROOF_KDF_PARAMS = Inr v \<and>
    (\<exists>h. passwordHashFromVerifier v = Inr (h, base64UrlEncode salt))"
proof -
  have ne: "salt \<noteq> []" "cp_sha256 cr b \<noteq> []" "cp_hmac cr k m \<noteq> []" for b k m
    using assms unfolding hash_lengths_def by (auto, (metis list.size(3) zero_neq_numeral)+)
  show ?thesis using assms
    by (simp add: passwordVerifierFromPassword_def and_then_def deriveAuthPasswordBytes_def decodeBase64UrlStrict_encode ne
      passwordHashFromVerifier_def requirePasswordVerifier_def authKdfParamsAreCurrent_def hmacSha256_def Let_def
      hash_lengths_def PASSWORD_KEY_LENGTH_def)
qed

lemma sample_row_of_password: "row_of_password sample_auth_config sample_password sample_user"
proof -
  from verifier_exists [OF sample_hash_lengths, of "replicate 16 7" sample_password] obtain v h where
    v: "passwordVerifierFromPassword hash_crypto sample_password sample_salt AUTH_PROOF_KDF_PARAMS = Inr v"
    and h: "passwordHashFromVerifier v = Inr (h, sample_salt)" by (auto simp: sample_salt_def)
  then show ?thesis by (auto simp: row_of_password_def sample_user_def sample_hash_def)
qed

lemma sample_authdb_simps [simp]:
  "a_challenges sample_authdb = []" "a_rateLimits sample_authdb = []" "a_attempts sample_authdb = []" "a_rands sample_authdb = 0"
  "a_allowedEmails sample_authdb = []" "a_invitations sample_authdb = []"
  "s_users sample_authdb = [sample_user]" "s_notes sample_authdb = s_notes sample_server" "s_ticks sample_authdb = 0"
  "s_notebooks sample_authdb = s_notebooks sample_server" "base_server sample_authdb = sample_server\<lparr>s_users := [sample_user]\<rparr>"
  by (simp_all add: sample_authdb_def server.extend_def authdb.fields_def base_server_def server.truncate_def
    sample_server_def empty_server_def)

lemma sample_login: "cleanLoginIdentifier (Some ''ann'') = Some ''ann''" "requireUsername ''ann'' = Inr ''ann''"
    "normalizeUsername (Some ''ann'') = Some ''ann''"
proof -
  show n: "normalizeUsername (Some ''ann'') = Some ''ann''" by code_simp
  show "cleanLoginIdentifier (Some ''ann'') = Some ''ann''" "requireUsername ''ann'' = Inr ''ann''"
    by (simp_all add: cleanLoginIdentifier_def requireUsername_def n)
qed

definition sample_nonce :: string where
  "sample_nonce = base64UrlEncode (replicate 16 9)"

text \<open>Ann asks for a challenge.\<close>

definition sample_challenge :: "auth_purpose \<Rightarrow> auth_challenge_response" where
  "sample_challenge purpose = challenge_made sample_auth_config ''ann'' purpose sample_nonce sample_authdb"

lemma sample_challenge_run:
  "\<exists>s'. createAuthChallenge sample_auth_config (Some ''ann'') purpose sample_nonce sample_authdb = (Inr (Some (sample_challenge purpose)), s') \<and>
     s_ticks s' = 1 \<and> s_users s' = [sample_user]"
proof -
  have b: "decodeBase64UrlStrict sample_nonce = Some (replicate 16 9)" by (simp add: sample_nonce_def decodeBase64UrlStrict_encode)
  have long: "\<not> length (replicate 16 (9 :: 8 word)) < 16" by simp
  note res = createAuthChallenge_result [OF sample_login(1) b long refl refl, where purpose = purpose and g = sample_auth_config and s = sample_authdb]
  have free: "tget hc_id i (fresh_challenges u p now (a_challenges sample_authdb)) = None" for i u p now
    by (simp add: fresh_challenges_def tget_def)
  have "fst (createAuthChallenge sample_auth_config (Some ''ann'') purpose sample_nonce sample_authdb) = Inr (Some (sample_challenge purpose))"
    using res(1) by (simp only: free sample_challenge_def not_not simp_thms if_False)
  moreover have "s_ticks (snd (createAuthChallenge sample_auth_config (Some ''ann'') purpose sample_nonce sample_authdb)) = 1 \<and>
      s_users (snd (createAuthChallenge sample_auth_config (Some ''ann'') purpose sample_nonce sample_authdb)) = [sample_user]"
    unfolding res(2) [OF free] by simp
  ultimately show ?thesis by (metis prod.collapse)
qed

lemma sample_user_found: "user_by_login (Some ''ann'') sample_authdb = Some sample_user"
  by (simp add: user_by_login_def sample_login user_row_of_def tget_def sample_user_def)

lemma sample_in_time:
  assumes "s_ticks s = 1"
  shows "to_iso (clock (g_env sample_auth_config) (s_ticks s)) < cr_expiresAt (sample_challenge purpose)"
proof -
  have "to_iso 1750000000001 < to_iso 1750000300000" by code_simp
  then show ?thesis by (simp add: assms sample_challenge_def challenge_made_def Let_def sample_env_def AUTH_CHALLENGE_TTL_MS_def)
qed

end
