(* ===== verification/LoginTheorems.thy ===== *)
theory LoginTheorems
  imports AuthSamples
begin

text \<open>
  Logging in with a password: the steps of client and server put together. The new challenge outlives the
  trimming of the table, its proof is accepted, and it is spent by the first answer.
\<close>

section \<open>The new challenge is in the table\<close>

lemma last_sort_key:
  assumes r: "r \<in> set xs" and d: "distinct xs" and top: "\<And>y. y \<in> set xs \<Longrightarrow> y \<noteq> r \<Longrightarrow> f y < f r"
  obtains ys where "sort_key f xs = ys @ [r]"
proof -
  from r have "r \<in> set (sort_key f xs)" by simp
  then obtain ys zs where s: "sort_key f xs = ys @ r # zs" by (meson split_list)
  have "zs = []"
  proof (rule ccontr)
    assume "zs \<noteq> []"
    then obtain z where z: "z \<in> set zs" by (cases zs) auto
    have "distinct (ys @ r # zs)" using d s by (metis distinct_sort)
    with z have "z \<noteq> r" by auto
    moreover have "z \<in> set xs" using z s by (metis Un_iff list.set_intros(2) set_append set_sort)
    ultimately have "f z < f r" by (intro top)
    moreover have "sorted (map f (ys @ r # zs))" using s by (metis sorted_sort_key)
    ultimately show False using z by (auto simp: sorted_append)
  qed
  with s that show thesis by simp
qed

lemma newest_challenge_kept:
  assumes wf: "wf_table hc_id cs" and r: "r \<in> set cs" and slot: "same_slot u p r"
    and top: "\<And>y. y \<in> set cs \<Longrightarrow> y \<noteq> r \<Longrightarrow> hc_createdAt y < hc_createdAt r"
  shows "r \<in> set (capped (newest_kept u p cs))"
proof -
  have dist: "distinct (map hc_id cs)" by (rule wf_table_distinct [OF wf])
  let ?slot = "filter (same_slot u p) cs"
  obtain ys where "sort_key (\<lambda>r. (hc_createdAt r, hc_id r)) ?slot = ys @ [r]"
  proof (rule last_sort_key [of r ?slot "\<lambda>r. (hc_createdAt r, hc_id r)"])
    show "y \<in> set ?slot \<Longrightarrow> y \<noteq> r \<Longrightarrow> (hc_createdAt y, hc_id y) < (hc_createdAt r, hc_id r)" for y
      using top by (simp add: less_prod_def)
  qed (use r slot dist in \<open>auto simp: distinct_map intro: distinct_filter\<close>)
  then have kept: "r \<in> set (newest_kept u p cs)" using r by (simp add: newest_kept_def)
  define ks where "ks = newest_kept u p cs"
  have sub: "set ks \<subseteq> set cs" unfolding ks_def by (rule capped_subset)
  have dk: "distinct (map hc_id ks)" unfolding ks_def by (rule wf_table_distinct [OF wf_kept(1) [OF wf]])
  obtain zs where z: "sort_key hc_createdAt ks = zs @ [r]"
    by (rule last_sort_key [of r ks hc_createdAt]) (use kept sub top dk in \<open>auto simp: ks_def distinct_map\<close>)
  have len: "length ks = Suc (length zs)" using z by (metis length_append_singleton length_sort)
  have "distinct (map hc_id (zs @ [r]))"
    using dk z by (metis distinct_map distinct_sort set_sort)
  then have "hc_id r \<notin> hc_id ` set zs" by auto
  then have "hc_id r \<notin> hc_id ` set (take (length ks - 1000) (sort_key hc_createdAt ks))" if "length ks > 1000"
    using that by (auto simp: z len dest: in_set_takeD)
  then show ?thesis using kept by (auto simp: capped_def ks_def)
qed

lemma challenge_stored:
  assumes run: "createAuthChallenge g login purpose clientNonce s = (Inr (Some ch), s')"
    and wf: "wf_table hc_id (a_challenges s)"
    and older: "\<forall>r \<in> set (a_challenges s). hc_createdAt r < to_iso (clock (g_env g) (s_ticks s))"
  shows "tget hc_id (cr_challengeId ch) (a_challenges s') = Some (row_of_challenge ch (to_iso (clock (g_env g) (s_ticks s))))"
proof -
  obtain username where ch: "ch = challenge_made g username purpose clientNonce s" and
    s': "a_challenges s' = capped (newest_kept username purpose (tput hc_id (row_of_challenge ch (to_iso (clock (g_env g) (s_ticks s))))
         (fresh_challenges username purpose (clock (g_env g) (s_ticks s)) (a_challenges s))))" (is "_ = capped (newest_kept _ _ (tput _ ?r ?F))")
    by (rule createAuthChallenge_run [OF run]) simp
  have wf': "wf_table hc_id (tput hc_id ?r ?F)" by (rule wf_fresh [OF wf])
  have id: "hc_id ?r = cr_challengeId ch" "hc_createdAt ?r = to_iso (clock (g_env g) (s_ticks s))" "same_slot username purpose ?r"
    by (simp_all add: row_of_challenge_def ch challenge_made_def Let_def)
  have F: "set ?F \<subseteq> set (a_challenges s)" by (auto simp: fresh_challenges_def)
  have "tget hc_id (hc_id ?r) (tput hc_id ?r ?F) = Some ?r" by (rule table.get_put_same)
  then have "?r \<in> set (tput hc_id ?r ?F)" by (rule tget_set)
  moreover have "hc_createdAt y < hc_createdAt ?r" if "y \<in> set (tput hc_id ?r ?F)" "y \<noteq> ?r" for y
    using that set_tput_subset [of hc_id ?r ?F] F older by (auto simp: id(2))
  ultimately have "?r \<in> set (a_challenges s')" unfolding s' by (intro newest_challenge_kept wf' id(3))
  moreover have "wf_table hc_id (a_challenges s')" unfolding s' by (intro wf_kept wf')
  ultimately show ?thesis using wf_table_tget id(1) by metis
qed

section \<open>An answer spends the challenge\<close>

abbreviation spent :: "string \<Rightarrow> authdb \<Rightarrow> bool" where
  "spent i s \<equiv> tget hc_id i (a_challenges s) = None"

lemma leads_into: "leads P Q m \<Longrightarrow> (\<And>x. keeps Q (f x)) \<Longrightarrow> leads P Q (bnd m f)"
  unfolding leads_def keeps_def by (auto simp: bnd_run split: prod.splits sum.splits)

lemma user_by_login_cong: "s_users s' = s_users s \<Longrightarrow> user_by_login login s' = user_by_login login s"
  by (simp add: user_by_login_def user_row_of_def user_row_by_email_def cong: option.case_cong)

lemma keeps_clock: "(\<And>s. I s \<Longrightarrow> I (s\<lparr>s_ticks := Suc (s_ticks s)\<rparr>)) \<Longrightarrow> keeps I (clock_ms g)"
  by (simp add: keeps_def clock_ms_def)

lemma keeps_user_by_login: "keeps I (getUserRowByLogin login)"
  by (simp add: keeps_def getUserRowByLogin_run)

lemma keeps_totp_refused: "(\<And>s. I s \<Longrightarrow> I (s\<lparr>s_ticks := Suc (s_ticks s)\<rparr>)) \<Longrightarrow> keeps I (totp_refused g row code)"
  unfolding totp_refused_def verifyTotpCode_def by (intro keeps_intros keeps_clock)

lemma consumed_spent: "leads (\<lambda>_. True) (spent (ap_challengeId p)) (consumeAuthChallenge g (Some p) purpose)"
  by (auto simp: leads_def consumeAuthChallenge_def bnd_run seq_run now_iso_def clock_ms_def table.get_simps
      split: option.splits if_splits)

lemma spent_refused: "spent (ap_challengeId p) s \<Longrightarrow> consumeAuthChallenge g (Some p) purpose s = (Inr None, s)"
  by (simp add: consumeAuthChallenge_def bnd_run)

lemma login_spends: "leads (\<lambda>_. True) (spent (ap_challengeId p)) (authenticateUserProof g login (Some p) code)"
  unfolding authenticateUserProof_def
  by (rule leads_into [OF consumed_spent])
    (auto intro!: keeps_intros keeps_user_by_login keeps_totp_refused split: option.split)

text \<open>
  C15. A challenge is good for one answer: after an attempt to log in with it, right or wrong, no proof
  naming this challenge is accepted again, neither to log in nor to authorise a change of the account.
\<close>

theorem challenge_answered_once:
  assumes "authenticateUserProof g login (Some p) code s = (r, s')" and "ap_challengeId p' = ap_challengeId p"
  shows "authenticateUserProof g' login' (Some p') code' s' = (Inr None, s') \<and>
    verifyUserProof g' username (Some p') purpose s' =
      (case requireUsername username of Inl err \<Rightarrow> (Inl err, s') | Inr _ \<Rightarrow> (Inr None, s'))"
proof -
  have "spent (ap_challengeId p') s'" using leadsD [OF login_spends TrueI assms(1)] assms(2) by simp
  note gone = spent_refused [OF this]
  show ?thesis
    by (simp add: authenticateUserProof_def verifyUserProof_def bnd_run gone split: sum.split)
qed

section \<open>Logging in\<close>

theorem challenge_answered_once_witness:
  "\<exists>r s'. authenticateUserProof sample_auth_config (Some ''ann'') (Some \<lparr>ap_challengeId = ''k'', ap_clientNonce = [], ap_proof = []\<rparr>) None
       sample_authdb = (r, s') \<and>
     authenticateUserProof sample_auth_config (Some ''ann'') (Some \<lparr>ap_challengeId = ''k'', ap_clientNonce = ''x'', ap_proof = ''y''\<rparr>) None s' = (Inr None, s')"
proof -
  let ?p = "\<lparr>ap_challengeId = ''k'', ap_clientNonce = [], ap_proof = []\<rparr>"
  obtain r s' where "authenticateUserProof sample_auth_config (Some ''ann'') (Some ?p) None sample_authdb = (r, s')" by fastforce
  from challenge_answered_once [OF this, of "\<lparr>ap_challengeId = ''k'', ap_clientNonce = ''x'', ap_proof = ''y''\<rparr>"] this
  show ?thesis by auto
qed

text \<open>What the client and the server do with a challenge just handed out, for any purpose.\<close>

lemma fresh_challenge_proof:
  assumes len: "hash_lengths (g_crypto g)" and wf: "wf_table hc_id (a_challenges s)"
    and older: "\<forall>r \<in> set (a_challenges s). hc_createdAt r < to_iso (clock (g_env g) (s_ticks s))"
    and login: "cleanLoginIdentifier login = Some username" "user_by_login (Some username) s = Some u"
    and pw: "row_of_password g password u"
    and ch: "createAuthChallenge g login purpose clientNonce s = (Inr (Some ch), s1)"
    and in_time: "to_iso (clock (g_env g) (s_ticks s1)) < cr_expiresAt ch"
  obtains m sp r s2 where "authProofFromPassword (g_crypto g) password ch = Inr m"
    "consumeAuthChallenge g (Some (am_proof m)) purpose s1 = (Inr (Some r), s2)" "hc_username r = username"
    "verifyProofForRow g u r (am_proof m) = Inr (Some sp)" "verifyAuthServerProof (am_expectedServerProof m) (Some sp)"
    "spent (cr_challengeId ch) s2" "s_users s2 = s_users s"
proof -
  define r where "r = row_of_challenge ch (to_iso (clock (g_env g) (s_ticks s)))"
  have stored: "tget hc_id (cr_challengeId ch) (a_challenges s1) = Some r"
    unfolding r_def by (rule challenge_stored [OF ch wf older])
  have "ch = challenge_made g username purpose clientNonce s \<and> s_users s1 = s_users s"
    by (rule createAuthChallenge_run [OF ch]) (use login in simp)
  then have made: "ch = challenge_made g username purpose clientNonce s" and users: "s_users s1 = s_users s" by auto
  from parse_row_of_password [OF len pw] obtain v where v: "parsePasswordVerifier u = Some v"
      "vf_salt v = u_passwordSalt u" "vf_params v = AUTH_PROOF_KDF_PARAMS" by (metis parsed_verifier.select_convs(1,4))
  have c: "cr_mode ch = Proof_mode" "cr_salt ch = u_passwordSalt u" "cr_params ch = AUTH_PROOF_KDF_PARAMS"
      "cr_username ch = username" "cr_purpose ch = purpose"
    by (simp_all add: made challenge_made_def login v challenge_mode_for_def Let_def)
  have same: "hc_id r = cr_challengeId ch" "hc_username r = cr_username ch" "hc_purpose r = cr_purpose ch"
      "hc_clientNonce r = cr_clientNonce ch" "hc_serverNonce r = cr_serverNonce ch" "hc_expiresAt r = cr_expiresAt ch"
    by (simp_all add: r_def row_of_challenge_def)
  from proof_accepted [OF len pw c(1-3) same(1-5)] obtain m sp where m: "authProofFromPassword (g_crypto g) password ch = Inr m"
      "ap_challengeId (am_proof m) = cr_challengeId ch" "ap_clientNonce (am_proof m) = cr_clientNonce ch"
      "verifyProofForRow g u r (am_proof m) = Inr (Some sp)" "verifyAuthServerProof (am_expectedServerProof m) (Some sp)" by blast
  define s2 where "s2 = s1\<lparr>a_challenges := tdel hc_id (cr_challengeId ch) (a_challenges s1), s_ticks := Suc (s_ticks s1)\<rparr>"
  have taken: "consumeAuthChallenge g (Some (am_proof m)) purpose s1 = (Inr (Some r), s2)"
    using in_time by (simp add: consumeAuthChallenge_def bnd_run seq_run stored m same c(5) now_iso_def clock_ms_def s2_def)
  show thesis by (rule that [OF m(1) taken _ m(4,5)]) (simp_all add: same c s2_def users table.get_simps)
qed

text \<open>
  C14. A user who logs in with the right password succeeds and learns that the server knows the verifier:
  for a challenge handed out for the login, the proof the client makes from the password is accepted
  before it expires, the session user is the stored one, the client accepts the server's proof, and
  the challenge is spent. The hash functions are assumed to give 32 bytes; the account has no second
  factor; no other challenge was stored in the same millisecond.
\<close>

theorem login_with_password_succeeds:
  assumes len: "hash_lengths (g_crypto g)" and wf: "wf_table hc_id (a_challenges s)"
    and older: "\<forall>r \<in> set (a_challenges s). hc_createdAt r < to_iso (clock (g_env g) (s_ticks s))"
    and login: "cleanLoginIdentifier login = Some username" "user_by_login (Some username) s = Some u"
    and pw: "row_of_password g password u" and no_totp: "\<not> truthy_opt (u_totpSecret u)"
    and ch: "createAuthChallenge g login Login_purpose clientNonce s = (Inr (Some ch), s1)"
    and in_time: "to_iso (clock (g_env g) (s_ticks s1)) < cr_expiresAt ch"
  shows "\<exists>m sp s2. authProofFromPassword (g_crypto g) password ch = Inr m \<and>
    authenticateUserProof g login (Some (am_proof m)) None s1 = (Inr (Some \<lparr>vp_user = rowToAuthUser u, vp_serverProof = sp\<rparr>), s2) \<and>
    verifyAuthServerProof (am_expectedServerProof m) (Some sp) \<and> tget hc_id (cr_challengeId ch) (a_challenges s2) = None"
proof -
  obtain m sp r s2 where m: "authProofFromPassword (g_crypto g) password ch = Inr m"
    "consumeAuthChallenge g (Some (am_proof m)) Login_purpose s1 = (Inr (Some r), s2)" "hc_username r = username"
    "verifyProofForRow g u r (am_proof m) = Inr (Some sp)" "verifyAuthServerProof (am_expectedServerProof m) (Some sp)"
    "spent (cr_challengeId ch) s2" "s_users s2 = s_users s"
    by (rule fresh_challenge_proof [OF len wf older login pw ch in_time])
  then have "user_by_login (Some username) s2 = Some u" using user_by_login_cong [of s2 s] login(2) by simp
  then have "authenticateUserProof g login (Some (am_proof m)) None s1 =
      (Inr (Some \<lparr>vp_user = rowToAuthUser u, vp_serverProof = sp\<rparr>), s2)"
    by (simp add: authenticateUserProof_def bnd_run login m getUserRowByLogin_run totp_refused_def no_totp)
  then show ?thesis using m by blast
qed

theorem login_with_password_succeeds_witness:
  "\<exists>m sp s1 s2. authProofFromPassword hash_crypto sample_password (sample_challenge Login_purpose) = Inr m \<and>
     authenticateUserProof sample_auth_config (Some ''ann'') (Some (am_proof m)) None s1 =
       (Inr (Some \<lparr>vp_user = rowToAuthUser sample_user, vp_serverProof = sp\<rparr>), s2)"
proof -
  from sample_challenge_run [of Login_purpose] obtain s1 where
    ch: "createAuthChallenge sample_auth_config (Some ''ann'') Login_purpose sample_nonce sample_authdb = (Inr (Some (sample_challenge Login_purpose)), s1)"
    and s1: "s_ticks s1 = 1" by blast
  show ?thesis
    using login_with_password_succeeds [OF _ _ _ sample_login(1) sample_user_found sample_row_of_password _ ch sample_in_time [OF s1]]
    by (auto simp: sample_hash_lengths sample_user_def truthy_opt_def)
qed

lemma challenge_table_bounded_witness:
  "\<exists>s'. createAuthChallenge sample_auth_config (Some ''ann'') Totp_purpose sample_nonce sample_authdb =
      (Inr (Some (sample_challenge Totp_purpose)), s') \<and> length (a_challenges s') \<le> 1000"
proof -
  from sample_challenge_run [of Totp_purpose] obtain s' where
    ch: "createAuthChallenge sample_auth_config (Some ''ann'') Totp_purpose sample_nonce sample_authdb = (Inr (Some (sample_challenge Totp_purpose)), s')"
    by blast
  from challenge_table_bounded [OF ch] ch show ?thesis by (auto simp: MAX_AUTH_CHALLENGE_ROWS_def)
qed

end
