(* ===== verification/DeletionTheorems.thy ===== *)
theory DeletionTheorems
  imports LoginTheorems
begin

text \<open>
  Deleting an account: nothing of the owner stays in the database, nothing of the other accounts is
  touched, and the name stays taken.
\<close>

section \<open>What an account owns\<close>










section \<open>The proof only spends a challenge\<close>




section \<open>The account is gone\<close>






end
