(* ===== verification/RateTheorems.thy ===== *)
theory RateTheorems
  imports RateLimit AuthSamples
begin

text \<open>
  The limit on attempts: how many failing attempts of one key pass within a minute, when attempts overlap and
  the counts in memory are lost or belong to another process.
\<close>

section \<open>Attempts that overlap\<close>

text \<open>
  An attempt first asks whether its key is limited; while its proof is checked other attempts run, and when
  the proof turns out wrong it is recorded. \<open>Switch\<close> gives the next steps another map in memory, as
  after a restart or in another process of the server.
\<close>

datatype attempt_event = Ask string | Fail string | Switch "(string \<times> login_attempt) list"

record attempt_tally =
  tally_inFlight :: "string list"
  tally_admitted :: "string list"

text \<open>At most \<open>concurrent\<close> attempts of a key are in flight; only an admitted attempt fails.\<close>

fun attempt_step :: "auth_config \<Rightarrow> int \<Rightarrow> nat \<Rightarrow> attempt_event \<Rightarrow> attempt_tally \<Rightarrow> attempt_tally auth" where
  "attempt_step g maxAttempts concurrent (Ask key) t =
     (if count_list (tally_inFlight t) key \<ge> concurrent then ret t
      else bnd (isRateLimited g key maxAttempts) (\<lambda>limited.
        ret (if limited then t else t\<lparr>tally_inFlight := key # tally_inFlight t, tally_admitted := key # tally_admitted t\<rparr>)))"
| "attempt_step g maxAttempts concurrent (Fail key) t =
     (if key \<in> set (tally_inFlight t)
      then seq (recordFailedAuthAttempt g key) (ret (t\<lparr>tally_inFlight := remove1 key (tally_inFlight t)\<rparr>)) else ret t)"
| "attempt_step g maxAttempts concurrent (Switch memory) t = seq (modify (\<lambda>s. s\<lparr>a_attempts := memory\<rparr>)) (ret t)"

fun attempt_run :: "auth_config \<Rightarrow> int \<Rightarrow> nat \<Rightarrow> attempt_event list \<Rightarrow> attempt_tally \<Rightarrow> attempt_tally auth" where
  "attempt_run g maxAttempts concurrent [] t = ret t"
| "attempt_run g maxAttempts concurrent (ev # evs) t =
     bnd (attempt_step g maxAttempts concurrent ev t) (attempt_run g maxAttempts concurrent evs)"

section \<open>One attempt\<close>





section \<open>The window\<close>











text \<open>Two attempts at once, with a limit of one: the second is admitted before the first is recorded.\<close>

lemma overlapping_attempts_exceed:
  "\<exists>t s'. attempt_run sample_auth_config 1 2 [Ask ''k'', Ask ''k''] \<lparr>tally_inFlight = [], tally_admitted = []\<rparr> sample_authdb = (Inr t, s') \<and>
     tally_admitted t = [''k'', ''k'']"
proof -
  have "isRateLimited sample_auth_config ''k'' 1 s = (Inr False, s\<lparr>s_ticks := Suc (s_ticks s)\<rparr>)"
    if "a_rateLimits s = []" "a_attempts s = []" for s
    using that by (simp add: isRateLimited_def isRateLimited_at_def isLoginRateLimited_def isPersistentLoginRateLimited_def clock_ms_def
        bnd_run seq_run tget_def delete_attempt_def)
  then show ?thesis by (simp add: bnd_run)
qed


end
