(* ===== verification/SyncTheorems.thy ===== *)
theory SyncTheorems
  imports SyncApi PushTheorems LoginTheorems
begin

text \<open>
  What the push route promises: the body it accepts is exactly a request of typed records within the
  limits, and an account with a key ring only ever receives encrypted notes.
\<close>

section \<open>The body of a push\<close>

definition change_within_limits :: "('r \<Rightarrow> bool) \<Rightarrow> 'r entity_change \<Rightarrow> bool" where
  "change_within_limits ok c \<longleftrightarrow> ok (c_record c) \<and> c_baseVersion c \<ge> 0"

definition push_within_limits :: "env \<Rightarrow> push_request \<Rightarrow> bool" where
  "push_within_limits e req \<longleftrightarrow>
     id_within (d_id (pr_device req)) 128 \<and> id_within (d_name (pr_device req)) 256 \<and>
     list_all (change_within_limits (note_within_limits e)) (pr_notes req) \<and>
     list_all (change_within_limits (notebook_within_limits e)) (pr_notebooks req) \<and>
     distinct (note_ids_of req) \<and> distinct (notebook_ids_of req) \<and> recordsBelongToDevice req"

lemma device_field_Some:
  "device_field body = Some d \<longleftrightarrow>
     Option.bind (jprop body ''device'') device_of_json = Some d \<and> id_within (d_id d) 128 \<and> id_within (d_name d) 256"
  by (auto simp: device_field_def hasDeviceRecord_exact split: option.splits)

lemma push_body_Some:
  "push_body e body = Some req \<longleftrightarrow>
     Option.bind (jprop body ''device'') device_of_json = Some (pr_device req) \<and>
     changes_of_json note_of_json (jprop body ''notes'') = Some (pr_notes req) \<and>
     changes_of_json notebook_of_json (jprop body ''notebooks'') = Some (pr_notebooks req) \<and>
     push_within_limits e req"
proof -
  have n: "hasEntityChanges (jprop body ''notes'') (hasNoteRecord e) \<longleftrightarrow>
      (\<exists>cs. changes_of_json note_of_json (jprop body ''notes'') = Some cs \<and> list_all (change_within_limits (note_within_limits e)) cs)"
    unfolding change_within_limits_def by (rule hasEntityChanges_exact [OF hasNoteRecord_exact])
  have nb: "hasEntityChanges (jprop body ''notebooks'') (hasNotebookRecord e) \<longleftrightarrow>
      (\<exists>cs. changes_of_json notebook_of_json (jprop body ''notebooks'') = Some cs \<and>
        list_all (change_within_limits (notebook_within_limits e)) cs)"
    unfolding change_within_limits_def by (rule hasEntityChanges_exact [OF hasNotebookRecord_exact])
  have d: "Option.bind (jprop body ''device'') device_of_json = Some (pr_device req) \<and>
      id_within (d_id (pr_device req)) 128 \<and> id_within (d_name (pr_device req)) 256 \<longleftrightarrow> device_field body = Some (pr_device req)"
    by (simp add: device_field_Some)
  have "push_body e body = Some req \<longleftrightarrow> device_field body = Some (pr_device req) \<and>
     changes_of_json note_of_json (jprop body ''notes'') = Some (pr_notes req) \<and>
     changes_of_json notebook_of_json (jprop body ''notebooks'') = Some (pr_notebooks req) \<and>
     list_all (change_within_limits (note_within_limits e)) (pr_notes req) \<and>
     list_all (change_within_limits (notebook_within_limits e)) (pr_notebooks req) \<and>
     distinct (map (n_id \<circ> c_record) (pr_notes req)) \<and> distinct (map (nb_id \<circ> c_record) (pr_notebooks req)) \<and>
     recordsBelongToDevice req"
    unfolding push_body_def n nb hasUniqueEntityChangeIds_distinct
    by (cases req) (auto simp: Let_def split: option.splits if_splits)
  then show ?thesis unfolding push_within_limits_def note_ids_of_def notebook_ids_of_def comp_def d [symmetric] by blast
qed

lemma push_body_valid: "push_body e body = Some req \<Longrightarrow> valid_ids req"
  by (force simp: push_body_Some push_within_limits_def valid_ids_def note_ids_of_def notebook_ids_of_def list_all_iff
      change_within_limits_def note_within_limits_def notebook_within_limits_def id_within_def truthy_def trim_def)

section \<open>What the route leaves unchanged\<close>

lemma leads_result:
  assumes "keeps P m" "\<And>c x c'. P c \<Longrightarrow> m c = (Inr x, c') \<Longrightarrow> R x" "\<And>x. R x \<Longrightarrow> leads P Q (f x)" "\<And>c. P c \<Longrightarrow> Q c"
  shows "leads P Q (bnd m f)"
  unfolding leads_def
proof (intro allI impI)
  fix c assume P: "P c"
  obtain y c' where m: "m c = (y, c')" by (cases "m c")
  have "P c'" by (rule keepsD [OF assms(1) P m])
  then show "Q (snd (bnd m f c))"
    using assms(2) [OF P, of _ c'] assms(3,4) m by (auto simp: bnd_run leads_def split: sum.split)
qed

lemma leads_option: "leads P Q m \<Longrightarrow> (\<And>y. x = Some y \<Longrightarrow> leads P Q (f y)) \<Longrightarrow> leads P Q (case x of None \<Rightarrow> m | Some y \<Rightarrow> f y)"
  by (cases x) auto

lemma leads_sum: "(\<And>y. leads P Q (f y)) \<Longrightarrow> (\<And>y. leads P Q (g y)) \<Longrightarrow> leads P Q (case x of Inl y \<Rightarrow> f y | Inr y \<Rightarrow> g y)"
  by (cases x) auto

lemma leads_body_error: "leads P Q m \<Longrightarrow> leads P Q (case x of RequestBodyTooLargeError \<Rightarrow> m)"
  by (cases x) auto

text \<open>The tables of accounts and records; sessions and the counts of attempts may differ.\<close>

abbreviation same_records :: "authdb \<Rightarrow> authdb \<Rightarrow> bool" where
  "same_records s t \<equiv> s_users t = s_users s \<and> s_notes t = s_notes s \<and> s_notebooks t = s_notebooks s \<and>
     s_devices t = s_devices s \<and> s_tombstones t = s_tombstones s \<and> s_changes t = s_changes s \<and>
     s_lastRevision t = s_lastRevision s \<and> s_meta t = s_meta s"

lemma base_server_fields [simp]:
  "s_notes (base_server s) = s_notes s" "s_notebooks (base_server s) = s_notebooks s" "s_devices (base_server s) = s_devices s"
  "s_tombstones (base_server s) = s_tombstones s" "s_changes (base_server s) = s_changes s"
  "s_lastRevision (base_server s) = s_lastRevision s" "s_meta (base_server s) = s_meta s"
  by (simp_all add: base_server_def server.truncate_def)

lemma wf_same_records: "same_records s t \<Longrightarrow> wf_server (base_server t) = wf_server (base_server s)"
  by (rule wf_server_cong) simp_all

lemma note_row_same_records: "same_records s t \<Longrightarrow> get_note_row (base_server t) owner i = get_note_row (base_server s) owner i"
  by (simp add: get_note_row_def)

lemma keeps_session: "keeps (same_records s) (sessionFromRequest g request)"
  unfolding sessionFromRequest_def sessionFromToken_def touch_session_def drop_sessions_def now_iso_def Let_def
  by (intro keeps_intros keeps_modify keeps_clock) auto

lemma keeps_rate_limited:
  assumes "\<And>c. I c \<Longrightarrow> I (c\<lparr>s_ticks := Suc (s_ticks c)\<rparr>)" "\<And>c f. I c \<Longrightarrow> I (c\<lparr>a_rateLimits := f\<rparr>)" "\<And>c f. I c \<Longrightarrow> I (c\<lparr>a_attempts := f\<rparr>)"
  shows "keeps I (isRateLimited g key m)"
  unfolding isRateLimited_def isRateLimited_at_def isLoginRateLimited_def isPersistentLoginRateLimited_def delete_attempt_def
  by (intro keeps_intros keeps_modify keeps_clock assms)

lemma keeps_record_attempt:
  assumes "\<And>c. I c \<Longrightarrow> I (c\<lparr>s_ticks := Suc (s_ticks c)\<rparr>)" "\<And>c f. I c \<Longrightarrow> I (c\<lparr>a_rateLimits := f\<rparr>)" "\<And>c f. I c \<Longrightarrow> I (c\<lparr>a_attempts := f\<rparr>)"
  shows "keeps I (recordFailedAuthAttempt g key)"
  unfolding recordFailedAuthAttempt_def recordFailedAuthAttempt_at_def recordFailedLogin_def recordPersistentFailedLogin_def
    pruneLoginAttempts_def count_attempt_def Let_def
  by (intro keeps_intros keeps_modify keeps_clock assms)

lemma legacy_session_only:
  "sessionFromRequest g request c = (Inr (Some session), c') \<Longrightarrow> ss_legacy session \<Longrightarrow> session = legacy_session"
  by (auto simp: sessionFromRequest_def sessionFromToken_def bnd_run seq_run Let_def split: if_splits option.splits prod.splits sum.splits)

section \<open>An encrypted account stays encrypted\<close>

lemma written_note_fields:
  assumes "decideNote e opts remotes ts nbs c = Accept n True"
  shows "n_title n = n_title (c_record c) \<and> n_body n = n_body (c_record c) \<and> n_titleHash n = n_titleHash (c_record c) \<and>
    n_bodyHash n = n_bodyHash (c_record c)"
  using assms unfolding decideNote_def Let_def
  by (auto split: option.splits if_splits prod.splits simp: noteWithSyncableNotebookRefsFromMap_def Let_def)

lemma pushed_row_sealed:
  assumes "wf_server s" "valid_ids req" and push: "pushChanges e req owner opts s = Inr (resp, s')"
    and ch: "get_note_row s' o1 i \<noteq> get_note_row s o1 i"
  obtains "o1 = owner" "sealed_request req \<Longrightarrow> \<exists>row. get_note_row s' owner i = Some row \<and> hasCurrentEncryptedNoteFields (nr_note row)"
proof -
  from pushChanges_Inr [OF push] obtain now s1 nbAcc s2 nAcc
    where run: "push_run e req owner opts s now s1 nbAcc s2 nAcc s'" by auto
  from note_row_changed [OF assms(1,2) run ch] obtain c n where c: "o1 = owner" "c \<in> set (pr_notes req)"
      and d: "note_decision e req owner opts (pa_toWrite nbAcc) s2 c = Accept n True"
      and row: "get_note_row s' owner i = Some (written_note_row owner now n (get_note_row s owner i))" by metis
  have "hasCurrentEncryptedNoteFields (nr_note (written_note_row owner now n (get_note_row s owner i)))" if "sealed_request req"
  proof -
    have "hasCurrentEncryptedNoteFields (c_record c)" using that c(2) by (simp add: sealed_request_def list_all_iff)
    then show ?thesis using written_note_fields [OF d [unfolded note_decision_def Let_def]]
      by (simp add: hasCurrentEncryptedNoteFields_def written_note_row_def)
  qed
  then show thesis using that c(1) row by blast
qed

text \<open>A row of the account is as before or encrypted.\<close>

definition rows_sealed :: "string \<Rightarrow> authdb \<Rightarrow> authdb \<Rightarrow> bool" where
  "rows_sealed owner s s' \<longleftrightarrow> (\<forall>i. get_note_row (base_server s') owner i \<noteq> get_note_row (base_server s) owner i \<longrightarrow>
     (\<exists>row. get_note_row (base_server s') owner i = Some row \<and> hasCurrentEncryptedNoteFields (nr_note row)))"

lemma rows_sealed_same: "same_records s t \<Longrightarrow> rows_sealed owner s t"
  unfolding rows_sealed_def using note_row_same_records [of s t owner] by metis

lemma run_push_seals:
  assumes wf: "wf_server (base_server s)" and v: "valid_ids body"
    and k: "syncOwner session = owner \<Longrightarrow> sealed_request body"
  shows "leads (same_records s) (rows_sealed owner s) (run_push h session body)"
  unfolding leads_def
proof (intro allI impI)
  fix c assume c: "same_records s c"
  let ?push = "pushChanges (g_env (h_auth h)) body (syncOwner session) (sync_push_options h) (base_server c)"
  have wfc: "wf_server (base_server c)" using wf_same_records [OF c] wf by simp
  show "rows_sealed owner s (snd (run_push h session body c))"
  proof (cases "?push")
    case (Inl err)
    then have "snd (run_push h session body c) = c"
      by (simp add: run_push_def try_catch_def bnd_run on_server_with_def split: server_error.split)
    then show ?thesis using rows_sealed_same [OF c] by simp
  next
    case (Inr r)
    obtain resp t where r: "r = (resp, t)" by (cases r)
    have "snd (run_push h session body c) = with_server t c"
      by (simp add: run_push_def try_catch_def bnd_run on_server_with_def Inr r)
    moreover have "rows_sealed owner s (with_server t c)" unfolding rows_sealed_def with_server_simps
    proof (intro allI impI)
      fix i assume "get_note_row t owner i \<noteq> get_note_row (base_server s) owner i"
      then have ch: "get_note_row t owner i \<noteq> get_note_row (base_server c) owner i"
        using note_row_same_records [OF c] by simp
      show "\<exists>row. get_note_row t owner i = Some row \<and> hasCurrentEncryptedNoteFields (nr_note row)"
        by (rule pushed_row_sealed [OF wfc v Inr [unfolded r] ch]) (use k in simp)
    qed
    ultimately show ?thesis by simp
  qed
qed

lemma keeps_keyring: "keeps I (getUserE2eeKeyring username)"
  unfolding getUserE2eeKeyring_def getUserRow_def by (intro keeps_intros)

lemma keyring_read:
  "requireUsername owner = Inr owner \<Longrightarrow> user_row_of owner c = Some u \<Longrightarrow>
   getUserE2eeKeyring owner c = (Inr k, c') \<Longrightarrow> k = u_e2eeKeyring u"
  by (simp add: getUserE2eeKeyring_def getUserRow_def bnd_run)

lemma keyring_guard:
  assumes user: "user_row_of owner s = Some u" "truthy_opt (u_e2eeKeyring u)" "requireUsername owner = Inr owner"
    and own: "syncOwner session = owner \<Longrightarrow> \<not> ss_legacy session"
    and f: "(syncOwner session = owner \<Longrightarrow> sealed_request body) \<Longrightarrow> leads (same_records s) (rows_sealed owner s) f"
  shows "leads (same_records s) (rows_sealed owner s)
    (bnd (if ss_legacy session then ret None else getUserE2eeKeyring (syncOwner session)) (\<lambda>accountKeyring.
      if truthy_opt accountKeyring \<and> \<not> sealed_request body then ret x else f))"
proof (rule leads_result [where R = "\<lambda>k. syncOwner session = owner \<longrightarrow> k = u_e2eeKeyring u"])
  show "keeps (same_records s) (if ss_legacy session then ret None else getUserE2eeKeyring (syncOwner session))"
    by (intro keeps_intros keeps_keyring)
  show "syncOwner session = owner \<longrightarrow> k = u_e2eeKeyring u"
    if "same_records s c" "(if ss_legacy session then ret None else getUserE2eeKeyring (syncOwner session)) c = (Inr k, c')" for c k c'
    using that own keyring_read [OF user(3), of c u k c'] user(1) by (auto simp: user_row_of_def)
qed (use f user(2) in \<open>auto intro: leads_if leads_stop rows_sealed_same\<close>)

lemma sync_push_seals:
  assumes wf: "wf_server (base_server s)" and legacy: "owner \<noteq> ''legacy-token''"
    and user: "user_row_of owner s = Some u" "truthy_opt (u_e2eeKeyring u)" "requireUsername owner = Inr owner"
  shows "leads (same_records s) (rows_sealed owner s) (sync_push h request)"
  unfolding sync_push_def with_session_def jsonOrSizeError_def Let_def
proof (rule leads_result [where R = "\<lambda>found. \<forall>session. found = Some session \<longrightarrow> ss_legacy session \<longrightarrow> session = legacy_session"], goal_cases)
  case 1
  show ?case by (rule keeps_session)
next
  case 2
  then show ?case using legacy_session_only by blast
next
  case (3 found)
  have stop: "leads (same_records s) (rows_sealed owner s) (ret x)" for x :: "push_response reply"
    by (rule leads_stop) (rule rows_sealed_same)
  have own: "\<not> ss_legacy session" if "found = Some session" "syncOwner session = owner" for session
    using that 3 legacy by (auto simp: legacy_session_def syncOwner_def)
  have rate: "keeps (same_records s) (isRateLimited g key m)" "keeps (same_records s) (recordFailedAuthAttempt g key)" for g key m
    by (rule keeps_rate_limited keeps_record_attempt; simp)+
  show ?case
  proof (cases found)
    case (Some session)
    show ?thesis unfolding Some option.case
      by (intro leads_sum leads_body_error leads_option leads_if stop keyring_guard [OF user] leads_bnd [OF rate(1)]
          leads_seq [OF rate(2)] run_push_seals [OF wf] own [OF Some])
        (auto intro: rows_sealed_same push_body_valid)
  qed (simp add: stop)
next
  case 4
  then show ?case by (rule rows_sealed_same)
qed

text \<open>
  C12. Once an account has a key ring, the push route stores only encrypted notes for it: whatever a request
  does, and whoever sends it, a note row of the account that is different afterwards holds envelopes
  and hashes of the current format. (The account of the configured legacy token has no key ring and is
  not meant.)
\<close>

theorem sealed_account_stays_sealed:
  assumes "wf_server (base_server s)" and "sync_push h request s = (r, s')"
    and "user_row_of owner s = Some u" and "truthy_opt (u_e2eeKeyring u)" and "requireUsername owner = Inr owner"
    and "owner \<noteq> ''legacy-token''"
  shows "\<forall>i. get_note_row (base_server s') owner i \<noteq> get_note_row (base_server s) owner i \<longrightarrow>
    (\<exists>row. get_note_row (base_server s') owner i = Some row \<and> hasCurrentEncryptedNoteFields (nr_note row))"
  using leadsD [OF sync_push_seals [OF assms(1,6,3,4,5)] _ assms(2)] by (simp add: rows_sealed_def)

section \<open>What the route pushes\<close>

text \<open>The repository is untouched up to readings of the clock.\<close>

definition repository_unchanged :: "authdb \<Rightarrow> authdb \<Rightarrow> bool" where
  "repository_unchanged s t \<longleftrightarrow> (\<exists>k. base_server t = (base_server s)\<lparr>s_ticks := k\<rparr>)"

lemma repository_frame:
  "repository_unchanged s c \<Longrightarrow> repository_unchanged s (c\<lparr>s_ticks := k\<rparr>)"
  "repository_unchanged s c \<Longrightarrow> repository_unchanged s (c\<lparr>a_rateLimits := f\<rparr>)"
  "repository_unchanged s c \<Longrightarrow> repository_unchanged s (c\<lparr>a_attempts := g\<rparr>)"
  by (auto simp: repository_unchanged_def base_server_def server.truncate_def)

text \<open>The reasons to refuse a request that reads well, by status; 429 is the rate limit and 409 a record limit.\<close>

definition refusal :: "auth_session \<Rightarrow> push_request \<Rightarrow> nat \<Rightarrow> bool" where
  "refusal session req status \<longleftrightarrow>
     status = 413 \<and> pushChangeCount req > MAX_SYNC_CHANGES_PER_PUSH \<or> status = 403 \<and> \<not> session_device_ok session req \<or>
     status = 400 \<and> \<not> sealed_request req \<or> status = 429 \<or> status = 409"

text \<open>What a push with this request may answer.\<close>

definition push_outcome :: "api_config \<Rightarrow> auth_session \<Rightarrow> push_request \<Rightarrow> authdb \<Rightarrow> (auth_error + push_response reply) \<times> authdb \<Rightarrow> bool" where
  "push_outcome h session req s result \<longleftrightarrow>
     (case result of
        (Inr (Reply resp), s') \<Rightarrow> pushChangeCount req \<le> MAX_SYNC_CHANGES_PER_PUSH \<and> session_device_ok session req \<and> (\<exists>c t. repository_unchanged s c \<and> s' = with_server t c \<and>
          pushChanges (g_env (h_auth h)) req (syncOwner session) (sync_push_options h) (base_server c) = Inr (resp, t))
      | (Inr (Failed status message), s') \<Rightarrow> repository_unchanged s s' \<and> refusal session req status
      | (Inl err, s') \<Rightarrow> repository_unchanged s s')"

lemma outcome_bnd:
  assumes "keeps (repository_unchanged s) m" "repository_unchanged s c"
    and "\<And>x c'. repository_unchanged s c' \<Longrightarrow> push_outcome h session req s (f x c')"
  shows "push_outcome h session req s (bnd m f c)"
proof -
  obtain r c' where m: "m c = (r, c')" by (cases "m c")
  have "repository_unchanged s c'" by (rule keepsD [OF assms(1,2) m])
  then show ?thesis using assms(3) m by (auto simp: bnd_run push_outcome_def split: sum.split)
qed

lemma outcome_refused:
  "repository_unchanged s c \<Longrightarrow> refusal session req status \<Longrightarrow> push_outcome h session req s (ret (Failed status message) c)"
  by (simp add: push_outcome_def)

lemma outcome_run_push:
  assumes c: "repository_unchanged s c" and "pushChangeCount req \<le> MAX_SYNC_CHANGES_PER_PUSH" "session_device_ok session req"
  shows "push_outcome h session req s (run_push h session req c)"
proof (cases "pushChanges (g_env (h_auth h)) req (syncOwner session) (sync_push_options h) (base_server c)")
  case (Inl err)
  then show ?thesis using c
    by (simp add: run_push_def try_catch_def bnd_run on_server_with_def push_outcome_def refusal_def split: server_error.split)
next
  case (Inr r)
  then show ?thesis using assms
    by (cases r) (auto simp: run_push_def try_catch_def bnd_run on_server_with_def push_outcome_def)
qed

lemma outcome_accepted:
  assumes s: "repository_unchanged s c"
  shows "push_outcome h session body s
    ((if pushChangeCount body > MAX_SYNC_CHANGES_PER_PUSH
      then ret (Failed 413 (Message ''Too many changes in one sync push; refresh author and try again.''))
      else if \<not> session_device_ok session body then ret (Failed 403 (Message ''Sync device does not match this session''))
      else bnd (if ss_legacy session then ret None else getUserE2eeKeyring (syncOwner session)) (\<lambda>accountKeyring.
        if truthy_opt accountKeyring \<and> \<not> sealed_request body
        then ret (Failed 400 (Message ''Sync-capable accounts require current encrypted fields and hashes''))
        else let syncRateKey = ''sync-push:'' @ syncOwner session
          in bnd (isRateLimited (h_auth h) syncRateKey MAX_SYNC_PUSHES_PER_MINUTE) (\<lambda>limited.
            if limited then ret (Failed 429 (Message ''Too many sync pushes. Try again shortly.''))
            else seq (recordFailedAuthAttempt (h_auth h) syncRateKey) (run_push h session body)))) c)"
proof -
  have keyring: "keeps (repository_unchanged s) (if ss_legacy session then ret None else getUserE2eeKeyring (syncOwner session))"
    by (intro keeps_intros keeps_keyring)
  have limited: "keeps (repository_unchanged s) (isRateLimited g key m)" "keeps (repository_unchanged s) (recordFailedAuthAttempt g key)" for g key m
    by (rule keeps_rate_limited keeps_record_attempt; erule repository_frame)+
  show ?thesis
    using s by (auto simp: Let_def seq_def refusal_def simp del: action_simps
        intro!: outcome_bnd [OF keyring] outcome_bnd [OF keeps_keyring] outcome_bnd [OF limited(1)] outcome_bnd [OF limited(2)] outcome_run_push outcome_refused)
qed

text \<open>
  C38. What the push route does with a body, for a request of a session whose body is within the size limit: a
  body that does not read as a request (device, notes and notebooks of the declared types, within the
  limits of the protocol, with distinct identifiers, all from the device) is refused as invalid and
  nothing is written. Otherwise it reads as one such request; the answer is that of pushing exactly that
  request for the account of the session, or a refusal for another reason (too many changes, a device
  of another session, fields that are not encrypted, the rate limit, a record limit, an error), and then
  the repository is as before.
\<close>

theorem push_body_exact:
  assumes "sessionFromRequest (h_auth h) request s0 = (Inr (Some session), s)"
    and "readJsonBody request MAX_SYNC_BODY_BYTES = Inr body"
  shows "(\<nexists>req. Option.bind (jprop body ''device'') device_of_json = Some (pr_device req) \<and>
       changes_of_json note_of_json (jprop body ''notes'') = Some (pr_notes req) \<and>
       changes_of_json notebook_of_json (jprop body ''notebooks'') = Some (pr_notebooks req) \<and>
       push_within_limits (g_env (h_auth h)) req) \<and>
      sync_push h request s0 = (Inr (Failed 400 (Message ''Invalid push payload'')), s) \<or>
    (\<exists>!req. Option.bind (jprop body ''device'') device_of_json = Some (pr_device req) \<and>
       changes_of_json note_of_json (jprop body ''notes'') = Some (pr_notes req) \<and>
       changes_of_json notebook_of_json (jprop body ''notebooks'') = Some (pr_notebooks req) \<and>
       push_within_limits (g_env (h_auth h)) req \<and> push_outcome h session req s (sync_push h request s0))"
proof (cases "push_body (g_env (h_auth h)) body")
  case None
  then have "sync_push h request s0 = (Inr (Failed 400 (Message ''Invalid push payload'')), s)"
    using assms by (simp add: sync_push_def with_session_def bnd_run jsonOrSizeError_def)
  moreover have "push_body (g_env (h_auth h)) body \<noteq> Some req" for req using None by simp
  ultimately show ?thesis unfolding push_body_Some by blast
next
  case (Some req)
  have "repository_unchanged s s" unfolding repository_unchanged_def by (rule exI [of _ "s_ticks s"]) (simp add: base_server_def server.truncate_def)
  from outcome_accepted [OF this, of h session req] have "push_outcome h session req s (sync_push h request s0)"
    using assms Some by (simp add: sync_push_def with_session_def bnd_run jsonOrSizeError_def)
  moreover have "push_body (g_env (h_auth h)) body = Some req' \<Longrightarrow> req' = req" for req' using Some by simp
  ultimately show ?thesis using Some unfolding push_body_Some by blast
qed

end
