(* ===== verification/SyncSamples.thy ===== *)
theory SyncSamples
  imports SyncTheorems
begin

definition sample_box :: string where
  "sample_box = ''enc:v4:k:'' @ replicate 16 CHR ''A'' @ '':'' @ replicate 22 CHR ''B''"

definition sealed_note_json :: js_value where
  "sealed_note_json = JObj [(''id'', JStr ''n1''), (''title'', JStr sample_box), (''body'', JStr sample_box),
     (''titleHash'', JStr ''hash:v3:a''), (''bodyHash'', JStr ''hash:v3:b''), (''notebookIds'', JArr []), (''notebookId'', JNull),
     (''createdAt'', JStr ''2025-01-01T00:00:00.000Z''), (''updatedAt'', JStr ''2025-01-01T00:00:00.000Z''),
     (''deletedAt'', JNull), (''trashedAt'', JNull), (''isFavorite'', JBool False), (''deviceId'', JStr ''d1''),
     (''version'', JNum 3), (''syncStatus'', JStr ''pending'')]"

definition sample_body :: js_value where
  "sample_body = JObj [(''device'', JObj [(''id'', JStr ''d1''), (''name'', JStr ''Laptop'')]),
     (''notes'', JArr [JObj [(''baseVersion'', JNum 3), (''record'', sealed_note_json)]]), (''notebooks'', JArr [])]"

definition sealed_push :: push_request where
  "sealed_push = \<lparr>pr_device = device_a, pr_notes = [\<lparr>c_record = \<lparr>n_id = ''n1'', n_title = sample_box, n_body = sample_box,
     n_titleHash = Some ''hash:v3:a'', n_bodyHash = Some ''hash:v3:b'', n_notebookIds = [], n_notebookId = None,
     n_createdAt = ''2025-01-01T00:00:00.000Z'', n_updatedAt = ''2025-01-01T00:00:00.000Z'', n_deletedAt = None, n_trashedAt = None,
     n_isFavorite = False, n_deviceId = ''d1'', n_version = 3, n_syncStatus = Pending\<rparr>, c_baseVersion = 3\<rparr>], pr_notebooks = []\<rparr>"

definition sample_api :: api_config where
  "sample_api = \<lparr>h_auth = sample_auth_config, h_trustCloudflare = False, h_trustProxy = False, h_tursoPrimary = False,
     h_recordLimits = po_recordLimitConfig sample_options\<rparr>"

definition keyed_user :: user_row where
  "keyed_user = \<lparr>u_username = ''ann'', u_email = None, u_displayName = None, u_profileImage = None, u_passwordHash = ''h'',
     u_passwordSalt = ''s'', u_e2eeKeyring = Some ''{}'', u_totpSecret = None, u_totpEnabledAt = None,
     u_createdAt = ''2025-01-01T00:00:00.000Z'', u_updatedAt = ''2025-01-01T00:00:00.000Z''\<rparr>"

definition sample_session :: session_row where
  "sample_session = \<lparr>se_tokenHash = tokenHash sample_auth_config ''t'', se_username = ''ann'', se_deviceId = Some ''d1'',
     se_createdAt = ''2025-01-01T00:00:00.000Z'', se_lastSeenAt = ''2025-06-15T00:00:00.000Z'',
     se_expiresAt = ''2026-01-01T00:00:00.000Z''\<rparr>"

definition keyed_db :: authdb where
  "keyed_db = server.extend (sample_server\<lparr>s_users := [keyed_user], s_sessions := [sample_session]\<rparr>) (authdb.fields [] [] [] [] [] 0)"

definition sample_request :: request where
  "sample_request = \<lparr>rq_header = (\<lambda>k. if k = ''x-notes-token'' then Some ''t'' else None), rq_chunks = Some [stringify sample_body]\<rparr>"

lemma keyed_db_simps [simp]:
  "a_rateLimits keyed_db = []" "a_attempts keyed_db = []" "s_users keyed_db = [keyed_user]" "s_sessions keyed_db = [sample_session]"
  "s_ticks keyed_db = 0" "base_server keyed_db = sample_server\<lparr>s_users := [keyed_user], s_sessions := [sample_session]\<rparr>"
  by (simp_all add: keyed_db_def server.extend_def authdb.fields_def base_server_def server.truncate_def sample_server_def empty_server_def)

lemma sealed_push_ok: "sealed_request sealed_push"
  by code_simp

lemma sealed_body: "push_body sample_env (Some sample_body) = Some sealed_push"
proof -
  have "Option.bind (jprop (Some sample_body) ''device'') device_of_json = Some (pr_device sealed_push)"
    "changes_of_json note_of_json (jprop (Some sample_body) ''notes'') = Some (pr_notes sealed_push)"
    "changes_of_json notebook_of_json (jprop (Some sample_body) ''notebooks'') = Some (pr_notebooks sealed_push)"
    by code_simp+
  moreover have "push_within_limits sample_env sealed_push"
  proof -
    have "id_within ''d1'' 128" "id_within ''Laptop'' 256" "id_within ''n1'' 128" "payloadTextBytes sample_box = 48"
      "payloadTextBytes ''hash:v3:a'' = 9" "payloadTextBytes ''hash:v3:b'' = 9" "date_within sample_env ''2025-01-01T00:00:00.000Z''"
      by code_simp+
    then show ?thesis
      by (simp add: push_within_limits_def sealed_push_def device_a_def change_within_limits_def note_within_limits_def opt_within_def
        note_ids_of_def notebook_ids_of_def recordsBelongToDevice_def)
  qed
  ultimately show ?thesis by (simp add: push_body_Some)
qed

lemma sample_body_read: "readJsonBody sample_request MAX_SYNC_BODY_BYTES = Inr (Some sample_body)"
proof -
  have "json_ok sample_body" by code_simp
  then have "parse_json (stringify sample_body) = Some sample_body" by (rule json_round_trip)
  moreover have "int (utf8_length (stringify sample_body)) < 5000000" "trim (stringify sample_body) \<noteq> []" by code_simp+
  then have "\<not> utf8_length (stringify sample_body) > MAX_SYNC_BODY_BYTES" "truthy (trim (stringify sample_body))"
    by (simp_all add: MAX_SYNC_BODY_BYTES_def truthy_def)
  ultimately show ?thesis
    by (simp add: readJsonBody_def requestBodyTooLarge_def sample_request_def sample_body_def truthy_opt_def)
qed

lemma keyed_limits: "limit_error (snd (read_clock sample_env (sample_server\<lparr>s_users := [keyed_user], s_sessions := ss, s_ticks := k\<rparr>)))
    ''ann'' sealed_push (sync_push_options sample_api) = None"
  by code_simp

lemma sample_session_found:
  "\<exists>e. sessionFromRequest sample_auth_config sample_request keyed_db = (Inr (Some \<lparr>ss_user = joined_user ''ann'' (Some keyed_user),
     ss_deviceId = Some ''d1'', ss_expiresAt = Some e, ss_legacy = False\<rparr>), keyed_db\<lparr>s_ticks := Suc (Suc 0)\<rparr>)"
proof -
  have token: "tokenFromRequest sample_request = Some ''t''" by code_simp
  have row: "tget se_tokenHash (tokenHash sample_auth_config ''t'') [sample_session] = Some sample_session"
    "se_username sample_session = ''ann''" "se_deviceId sample_session = Some ''d1''"
    by (simp_all add: tget_def sample_session_def)
  have user: "user_row_of ''ann'' keyed_db = Some keyed_user" by (simp add: user_row_of_def tget_def keyed_user_def)
  have "\<not> ''2026-01-01T00:00:00.000Z'' \<le> to_iso 1750000000000"
    "sample_date_parse ''2025-06-15T00:00:00.000Z'' = Some 20250615000000000" by code_simp+
  then have time: "\<not> se_expiresAt sample_session \<le> to_iso 1750000000000"
    "sample_date_parse (se_lastSeenAt sample_session) = Some 20250615000000000" by (simp_all only: sample_session_def session_row.simps not_False_eq_True)
  have clock: "clock_ms sample_auth_config s = (Inr (1750000000000 + int (s_ticks s)), s\<lparr>s_ticks := Suc (s_ticks s)\<rparr>)" for s
    by (simp add: clock_ms_def sample_env_def)
  have config: "g_legacyToken sample_auth_config = None" "date_parse sample_env = sample_date_parse"
    by (simp_all add: sample_auth_config_def sample_env_def)
  have "now_iso sample_auth_config keyed_db = (Inr (to_iso 1750000000000), keyed_db\<lparr>s_ticks := 1\<rparr>)"
    by (simp add: now_iso_def bnd_run clock)
  then show ?thesis
    apply (simp add: sessionFromRequest_def sessionFromToken_def token truthy_opt_def truthy_def config(1) bnd_run row user time(1) clock Let_def)
    apply (simp only: config(2) time(2) option.case bnd_run clock prod.case sum.case SESSION_TOUCH_INTERVAL_MS_def)
    apply simp
    done
qed

lemma sealed_push_result:
  "\<exists>resp t. pushChanges sample_env sealed_push ''ann'' (sync_push_options sample_api)
     (sample_server\<lparr>s_users := [keyed_user], s_sessions := ss, s_ticks := k\<rparr>) = Inr (resp, t) \<and>
   get_note_row t ''ann'' ''n1'' \<noteq> get_note_row sample_server ''ann'' ''n1''"
proof -
  let ?s = "sample_server\<lparr>s_users := [keyed_user], s_sessions := ss, s_ticks := k\<rparr>"
  have rows: "get_note_row ?s = get_note_row sample_server" "get_device_row ?s = get_device_row sample_server"
    by (simp_all add: get_note_row_def get_device_row_def fun_eq_iff)
  have wf: "wf_server ?s" using wf_sample_server wf_server_cong [of ?s sample_server] by simp
  have ids: "valid_ids sealed_push" "distinct (notebook_ids_of sealed_push)" "distinct (note_ids_of sealed_push)"
    by (simp_all add: valid_ids_def notebook_ids_of_def note_ids_of_def sealed_push_def)
  have "d_id (pr_device sealed_push) = ''d1''" by (simp add: sealed_push_def device_a_def)
  moreover have "get_device_row sample_server ''ann'' ''d1'' \<noteq> None" by code_simp
  ultimately have dev: "get_device_row ?s ''ann'' (d_id (pr_device sealed_push)) \<noteq> None" unfolding rows by simp
  obtain resp t where p: "pushChanges sample_env sealed_push ''ann'' (sync_push_options sample_api) ?s = Inr (resp, t)"
    using push_succeeds [OF wf ids dev keyed_limits] by blast
  obtain c where c: "pr_notes sealed_push = [c]" by (simp add: sealed_push_def)
  have old: "getNote ?s (n_id (c_record c)) ''ann'' = Some note_a" "c_baseVersion c = n_version note_a"
      "note_content_differs (c_record c) note_a" "n_id (c_record c) = ''n1''" "n_title (c_record c) = sample_box"
    using c sample_getNote
    by (auto simp: getNote_def rows sealed_push_def note_a_def note_content_differs_def fieldDiffers_def)
  obtain new where "getNote t ''n1'' ''ann'' = Some new" "n_title new = sample_box"
    using current_edit_stored [OF wf ids(1) p _ old(1-3)] c old(4,5) by auto
  moreover have "getNote sample_server ''n1'' ''ann'' = Some note_a" by (rule sample_getNote)
  ultimately have "get_note_row t ''ann'' ''n1'' \<noteq> get_note_row sample_server ''ann'' ''n1''"
    by (auto simp: getNote_def note_a_def sample_box_def)
  with p show ?thesis by blast
qed

lemma sample_push_run:
  "\<exists>resp s'. sync_push sample_api sample_request keyed_db = (Inr (Reply resp), s') \<and>
     get_note_row (base_server s') ''ann'' ''n1'' \<noteq> get_note_row (base_server keyed_db) ''ann'' ''n1''"
proof -
  let ?c = "keyed_db\<lparr>s_ticks := Suc (Suc 0)\<rparr>"
  obtain e where session: "sessionFromRequest sample_auth_config sample_request keyed_db = (Inr (Some \<lparr>ss_user = joined_user ''ann'' (Some keyed_user),
     ss_deviceId = Some ''d1'', ss_expiresAt = Some e, ss_legacy = False\<rparr>), ?c)" (is "_ = (Inr (Some ?session), _)")
    using sample_session_found by blast
  have owner: "syncOwner ?session = ''ann''" by (simp add: syncOwner_def joined_user_def)
  have ready: "\<not> pushChangeCount sealed_push > MAX_SYNC_CHANGES_PER_PUSH" "session_device_ok ?session sealed_push"
    by (simp_all add: pushChangeCount_def sealed_push_def MAX_SYNC_CHANGES_PER_PUSH_def session_device_ok_def device_a_def)
  have ring: "getUserE2eeKeyring ''ann'' ?c = (Inr (Some ''{}''), ?c)"
    by (simp add: getUserE2eeKeyring_def getUserRow_def bnd_run sample_login user_row_of_def tget_def keyed_user_def)
  let ?key = "''sync-push:ann''"
  obtain c1 where c1: "isRateLimited sample_auth_config ?key MAX_SYNC_PUSHES_PER_MINUTE ?c = (Inr False, c1)"
  proof -
    have "fst (isRateLimited sample_auth_config key MAX_SYNC_PUSHES_PER_MINUTE ?c) = Inr False" for key
      by (simp add: isRateLimited_def isRateLimited_at_def isLoginRateLimited_def isPersistentLoginRateLimited_def clock_ms_def
        bnd_run seq_run tget_def delete_attempt_def)
    then show thesis using that by (metis prod.collapse)
  qed
  obtain c2 where c2: "recordFailedAuthAttempt sample_auth_config ?key c1 = (Inr (), c2)"
  proof -
    have "fst (recordFailedAuthAttempt sample_auth_config key c1) = Inr ()" for key
      by (simp add: recordFailedAuthAttempt_def recordFailedAuthAttempt_at_def recordFailedLogin_def recordPersistentFailedLogin_def
        clock_ms_def bnd_run seq_run Let_def)
    then show thesis using that by (metis prod.collapse)
  qed
  let ?I = "\<lambda>c. \<exists>k. base_server c = sample_server\<lparr>s_users := [keyed_user], s_sessions := [sample_session], s_ticks := k\<rparr>"
  have upd: "base_server (c\<lparr>s_ticks := k\<rparr>) = (base_server c)\<lparr>s_ticks := k\<rparr>" "base_server (c\<lparr>a_rateLimits := f\<rparr>) = base_server c"
    "base_server (c\<lparr>a_attempts := h\<rparr>) = base_server c" for c k f h
    by (simp_all add: base_server_def server.truncate_def)
  have k1: "keeps ?I (isRateLimited sample_auth_config ?key MAX_SYNC_PUSHES_PER_MINUTE)"
    by (rule keeps_rate_limited) (auto simp: upd)
  have k2: "keeps ?I (recordFailedAuthAttempt sample_auth_config ?key)"
    by (rule keeps_record_attempt) (auto simp: upd)
  have "?I ?c" by (auto simp: upd)
  from keepsD [OF k2 keepsD [OF k1 this c1] c2] have "?I c2" .
  then obtain k where k: "base_server c2 = sample_server\<lparr>s_users := [keyed_user], s_sessions := [sample_session], s_ticks := k\<rparr>" by blast
  obtain resp t where push: "pushChanges sample_env sealed_push ''ann'' (sync_push_options sample_api) (base_server c2) = Inr (resp, t)"
    and row: "get_note_row t ''ann'' ''n1'' \<noteq> get_note_row sample_server ''ann'' ''n1''"
    using sealed_push_result unfolding k by blast
  have config: "h_auth sample_api = sample_auth_config" by (simp add: sample_api_def)
  have env: "g_env sample_auth_config = sample_env" by simp
  have "run_push sample_api ?session sealed_push c2 = (Inr (Reply resp), with_server t c2)"
    by (simp add: run_push_def try_catch_def bnd_run on_server_with_def config owner push)
  then have run: "sync_push sample_api sample_request keyed_db = (Inr (Reply resp), with_server t c2)"
    unfolding sync_push_def with_session_def config bnd_run [of "sessionFromRequest _ _"] session prod.case sum.case option.case
      jsonOrSizeError_def sample_body_read env sealed_body if_not_P [OF ready(1)]
    using ready(2) by (simp add: bnd_run seq_run config ring owner sealed_push_ok c1 c2 Let_def)
  show ?thesis using run row by (auto simp: get_note_row_def)
qed

theorem sealed_account_stays_sealed_witness:
  "\<exists>resp s'. sync_push sample_api sample_request keyed_db = (Inr (Reply resp), s') \<and>
     get_note_row (base_server s') ''ann'' ''n1'' \<noteq> get_note_row (base_server keyed_db) ''ann'' ''n1'' \<and>
     (\<exists>row. get_note_row (base_server s') ''ann'' ''n1'' = Some row \<and> hasCurrentEncryptedNoteFields (nr_note row))"
proof -
  obtain resp s' where run: "sync_push sample_api sample_request keyed_db = (Inr (Reply resp), s')"
    and row: "get_note_row (base_server s') ''ann'' ''n1'' \<noteq> get_note_row (base_server keyed_db) ''ann'' ''n1''"
    using sample_push_run by blast
  have wf: "wf_server (base_server keyed_db)" using wf_sample_server wf_server_cong [of "base_server keyed_db" sample_server] by simp
  have "user_row_of ''ann'' keyed_db = Some keyed_user" "truthy_opt (u_e2eeKeyring keyed_user)"
    by (simp_all add: user_row_of_def tget_def keyed_user_def truthy_opt_def truthy_def)
  from sealed_account_stays_sealed [OF wf run this sample_login(2)] run row show ?thesis by blast
qed

theorem push_body_exact_witness:
  "\<exists>session s resp s' req. sync_push sample_api sample_request keyed_db = (Inr (Reply resp), s') \<and>
     push_outcome sample_api session req s (Inr (Reply resp), s')"
proof -
  obtain resp s' where run: "sync_push sample_api sample_request keyed_db = (Inr (Reply resp), s')" using sample_push_run by blast
  obtain session s where "sessionFromRequest sample_auth_config sample_request keyed_db = (Inr (Some session), s)"
    using sample_session_found by blast
  then have session: "sessionFromRequest (h_auth sample_api) sample_request keyed_db = (Inr (Some session), s)" by (simp add: sample_api_def)
  from push_body_exact [OF session sample_body_read] run show ?thesis by auto
qed

end
