(* ===== verification/EnvelopeTheorems.thy ===== *)
theory EnvelopeTheorems
  imports EncTheorems PayloadValidation
begin

text \<open>
  Client and server agree on the encrypted format: what the client encrypts passes the check of the
  server, which has its own reading of envelopes and hashes.
\<close>

lemma envelope_accepted:
  assumes kid: "BASE64URL_PATTERN kid" and len: "length iv = 12" "16 \<le> length ct"
  shows "isCurrentEncryptedEnvelope (ENCRYPTION_PREFIX @ kid @ '':'' @ base64UrlEncode iv @ '':'' @ base64UrlEncode ct)"
proof -
  have c: "CHR '':'' \<notin> set (base64UrlEncode bs)" for bs using base64UrlEncode_chars by blast
  have k: "CHR '':'' \<notin> set kid" using kid by (auto simp: BASE64URL_PATTERN_def base64url_char_def)
  have parts: "split_on (CHR '':'') (ENCRYPTION_PREFIX @ kid @ '':'' @ base64UrlEncode iv @ '':'' @ base64UrlEncode ct) =
      [''enc'', ''v4'', kid, base64UrlEncode iv, base64UrlEncode ct]"
    using c k by (simp add: ENCRYPTION_PREFIX_def split_on_append split_on_plain)
  have "iv \<noteq> []" "ct \<noteq> []" using len by auto
  then show ?thesis using kid len unfolding isCurrentEncryptedEnvelope_def parts
    by (simp add: base64url_text base64UrlEncode_length truthy_def) (simp add: BASE64URL_PATTERN_def)
qed

lemma encryptText_accepted:
  assumes ok: "crypto_ok cr" and pl: "plain_text v" and d: "activeEncryptionDescriptor material = Inr d" "BASE64URL_PATTERN (ds_keyId d)"
    and run: "encryptText cr v material context fx = Inr (c, fx')"
  shows "isCurrentEncryptedEnvelope c"
proof -
  obtain iv fx1 where iv: "encryptionIv cr fx = (iv, fx1)" by fastforce
  then have len: "length iv = 12" by (simp add: encryptionIv_def randomBytes_length)
  have "16 \<le> length (cp_encrypt cr k iv a p)" for k a p using ok by (simp add: crypto_ok_def)
  note accepted = envelope_accepted [OF d(2) len this]
  show ?thesis using run pl accepted
    by (auto simp: encryptText_def plain_text_def isUnsupportedEncryptedText_def
        canDecryptEncryptedTextWithPrimaryMaterial_def d(1) iv and_then_def)
qed

lemma fieldHash_accepted:
  assumes "\<forall>k m. cp_hmac cr k m \<noteq> []" "fieldHash cr v material context = Inr h"
  shows "validFieldHash (Some h)"
proof -
  have h: "\<exists>k. h = ''hash:v3:'' @ base64UrlEncode (cp_hmac cr k (utf8_encode (context @ nul @ v)))"
    using assms(2) by (auto simp: fieldHash_def and_then_Inr HASH_V3_PREFIX_def)
  then show ?thesis using assms(1)
    by (auto simp: validFieldHash_def truthy_def CURRENT_HASH_PATTERN_def starts_with_def base64url_text)
qed

text \<open>
  C40. A note the client encrypts is a note the server takes for an encrypted one: with usable key
  material whose key name is in the URL-safe alphabet, the title, body and hashes of an encrypted plain
  note pass the check that the push route makes for accounts with a key ring.
\<close>

theorem encrypted_note_accepted:
  assumes "crypto_ok cr" and "\<forall>k m. cp_hmac cr k m \<noteq> []" and "usable_material material"
    and "activeEncryptionDescriptor material = Inr d" and "BASE64URL_PATTERN (ds_keyId d)" and "plain_note n"
  shows "\<exists>n' fx'. encryptNoteFields cr material n fx = Inr (n', fx') \<and> hasCurrentEncryptedNoteFields n'"
proof -
  have p: "plain_text (n_title n)" "plain_text (n_body n)" using assms(6) by (simp_all add: plain_note_def)
  obtain t fx1 where t: "encryptText cr (n_title n) material (titleContext (n_id n)) fx = Inr (t, fx1)"
    using encryptText_plain [OF assms(1,3) p(1)] by blast
  obtain b fx2 where b: "encryptText cr (n_body n) material (bodyContext (n_id n)) fx1 = Inr (b, fx2)"
    using encryptText_plain [OF assms(1,3) p(2)] by blast
  obtain th where th: "fieldHash cr (n_title n) material (titleContext (n_id n)) = Inr th" using fieldHash_total [OF assms(3)] by blast
  obtain bh where bh: "fieldHash cr (n_body n) material (bodyContext (n_id n)) = Inr bh" using fieldHash_total [OF assms(3)] by blast
  have "encryptNoteFields cr material n fx =
      Inr (n\<lparr>n_titleHash := Some th, n_bodyHash := Some bh, n_title := t, n_body := b\<rparr>, fx2)"
    by (simp add: encryptNoteFields_def plain_text_not_sealed [OF p(1)] plain_text_not_sealed [OF p(2)] plain_field_def
        plain_text_decrypts [OF p(1)] plain_text_decrypts [OF p(2)] field_hash_def or_field_def th bh encrypt_field_def t(1) b(1))
  then show ?thesis
    using encryptText_accepted [OF assms(1) p(1) assms(4,5) t] encryptText_accepted [OF assms(1) p(2) assms(4,5) b]
      fieldHash_accepted [OF assms(2) th] fieldHash_accepted [OF assms(2) bh]
    by (simp add: hasCurrentEncryptedNoteFields_def)
qed

theorem encrypted_note_accepted_witness:
  "\<exists>n' fx'. encryptNoteFields (plain_crypto\<lparr>cp_hmac := \<lambda>k m. m @ [1]\<rparr>) direct_material plain_sample start_effects = Inr (n', fx') \<and>
     hasCurrentEncryptedNoteFields n'"
proof -
  have ok: "crypto_ok (plain_crypto\<lparr>cp_hmac := \<lambda>k m. m @ [1]\<rparr>)" using plain_crypto_ok by (simp add: crypto_ok_def)
  have d: "activeEncryptionDescriptor direct_material = Inr (directDescriptor direct_material V4 DIRECT_KEY_ID)"
    by (simp add: activeEncryptionDescriptor_def parseKeyringMaterial_def starts_with_def direct_material_def KEYRING_MATERIAL_PREFIX_def)
  have "BASE64URL_PATTERN (ds_keyId (directDescriptor direct_material V4 DIRECT_KEY_ID))" by code_simp
  from encrypted_note_accepted [OF ok _ usable_direct_material d this plain_sample_note] show ?thesis by simp
qed

end
