(* ===== verification/MirrorSync.thy ===== *)
theory MirrorSync
  imports ServerPull Maintenance Actions Keyring
begin

text \<open>
  The mirror of the server database (\<open>apps/web/src/lib/server/remote-sync.ts\<close>): the local database of the
  server and a remote one are brought together, account by account and page by page of their change
  logs. A change is copied when the other side has no change of its own that this side has not seen;
  otherwise the run stops with an error instead of choosing a winner.

  An operation acts on a pair of databases, the source and the target; \<open>syncDatabases\<close> runs in both
  directions, and \<open>exchanged\<close> swaps the roles. Each database has its own environment, as the readings of
  the clock for the one and for the other are independent. Every statement is its own transaction, so
  an error leaves what was written before; of a deletion of more than 200 notebooks that fails, the
  pieces before the failing one are not kept in the model. The four plans of a page that the code
  computes with \<open>Promise.all\<close> only read, and are computed one after the other. The interval that
  refreshes the leases is the operation \<open>refreshMirrorLease\<close>.
\<close>

section \<open>Errors and actions\<close>

datatype mirror_error =
    Database_failed server_error
  | Account_email_taken
  | Lock_unavailable
  | Divergence entity_type string
  | Mirror_conflicts string nat
  | Cursor_invalid cursor_error
  | Orphaned_owner_data "string list" "string list"
  | Missing_accounts "string list"
  | Out_of_fuel

type_synonym 'a database_act = "(mirror_error, server, 'a) act"
type_synonym 'a mirror_act = "(mirror_error, server \<times> server, 'a) act"

definition in_source :: "'a database_act \<Rightarrow> 'a mirror_act" where
  "in_source m = (\<lambda>(a, b). case m a of (r, a') \<Rightarrow> (r, (a', b)))"

definition in_target :: "'a database_act \<Rightarrow> 'a mirror_act" where
  "in_target m = (\<lambda>(a, b). case m b of (r, b') \<Rightarrow> (r, (a, b')))"

definition exchanged :: "'a mirror_act \<Rightarrow> 'a mirror_act" where
  "exchanged m = (\<lambda>(a, b). case m (b, a) of (r, (b', a')) \<Rightarrow> (r, (a', b')))"

definition statement :: "(server \<Rightarrow> server_error + server) \<Rightarrow> unit database_act" where
  "statement f = (\<lambda>s. case f s of Inl err \<Rightarrow> (Inl (Database_failed err), s) | Inr s' \<Rightarrow> (Inr (), s'))"

section \<open>The lock\<close>

definition MIRROR_DEVICE :: Device where
  "MIRROR_DEVICE = \<lparr>d_id = ''server-db-mirror'', d_name = ''Server DB mirror''\<rparr>"

definition MIRROR_LOCK_KEY :: string where
  "MIRROR_LOCK_KEY = ''mirror.lock.v1''"

definition MIRROR_LOCK_TTL_MS :: int where
  "MIRROR_LOCK_TTL_MS = 15 * 60000"

record mirror_lease =
  ml_owner :: string
  ml_expiresAt :: string

definition parseMirrorLease :: "string option \<Rightarrow> mirror_lease option" where
  "parseMirrorLease v =
     (if \<not> truthy_opt v then None
      else case parse_json (or_empty v) of
             None \<Rightarrow> None
           | Some parsed \<Rightarrow>
               (case (str_of (get_prop parsed ''owner''), str_of (get_prop parsed ''expiresAt'')) of
                  (Some owner, Some expiresAt) \<Rightarrow> Some \<lparr>ml_owner = owner, ml_expiresAt = expiresAt\<rparr>
                | _ \<Rightarrow> None))"

definition lockExpiresAt :: "int \<Rightarrow> string" where
  "lockExpiresAt now = to_iso (now + MIRROR_LOCK_TTL_MS)"

definition leaseIsActive :: "env \<Rightarrow> mirror_lease \<Rightarrow> int \<Rightarrow> bool" where
  "leaseIsActive e lease now = (case date_parse e (ml_expiresAt lease) of Some t \<Rightarrow> t > now | None \<Rightarrow> False)"

definition lease_json :: "string \<Rightarrow> int \<Rightarrow> string" where
  "lease_json owner now = stringify (JObj [(''owner'', JStr owner), (''expiresAt'', JStr (lockExpiresAt now))])"

definition read_ms :: "env \<Rightarrow> server \<Rightarrow> int \<times> server" where
  "read_ms e s = (clock e (s_ticks s), s\<lparr>s_ticks := Suc (s_ticks s)\<rparr>)"

definition acquireMirrorLease :: "env \<Rightarrow> string \<Rightarrow> bool database_act" where
  "acquireMirrorLease e owner = (\<lambda>s.
     let (now, s1) = read_ms e s
     in case parseMirrorLease (getSyncMeta s1 MIRROR_LOCK_KEY) of
          Some existing \<Rightarrow>
            if ml_owner existing \<noteq> owner \<and> leaseIsActive e existing now then (Inr False, s1)
            else (Inr True, setSyncMeta MIRROR_LOCK_KEY (lease_json owner now) s1)
        | None \<Rightarrow> (Inr True, setSyncMeta MIRROR_LOCK_KEY (lease_json owner now) s1))"

definition refreshMirrorLease :: "env \<Rightarrow> string \<Rightarrow> bool database_act" where
  "refreshMirrorLease e owner = (\<lambda>s.
     case parseMirrorLease (getSyncMeta s MIRROR_LOCK_KEY) of
       None \<Rightarrow> (Inr False, s)
     | Some existing \<Rightarrow>
         if ml_owner existing \<noteq> owner then (Inr False, s)
         else let (now, s1) = read_ms e s in (Inr True, setSyncMeta MIRROR_LOCK_KEY (lease_json owner now) s1))"

definition releaseMirrorLease :: "string \<Rightarrow> unit database_act" where
  "releaseMirrorLease owner =
     modify (\<lambda>s. if map_option ml_owner (parseMirrorLease (getSyncMeta s MIRROR_LOCK_KEY)) = Some owner
       then s\<lparr>s_meta := tdel m_key MIRROR_LOCK_KEY (s_meta s)\<rparr> else s)"

text \<open>The name of the new owner is drawn before the first lease.\<close>

definition acquireMirrorLeases :: "env \<Rightarrow> env \<Rightarrow> string mirror_act" where
  "acquireMirrorLeases el er =
     bnd (in_source (\<lambda>s. let (owner, k) = random_uuid el (s_fresh s) in (Inr owner, s\<lparr>s_fresh := k\<rparr>))) (\<lambda>owner.
     bnd (in_source (acquireMirrorLease el owner)) (\<lambda>ok_local.
       if \<not> ok_local then raise Lock_unavailable
       else bnd (in_target (acquireMirrorLease er owner)) (\<lambda>ok_remote.
         if \<not> ok_remote then seq (in_source (releaseMirrorLease owner)) (raise Lock_unavailable)
         else ret owner)))"

definition release_leases :: "string \<Rightarrow> unit mirror_act" where
  "release_leases owner = seq (in_target (releaseMirrorLease owner)) (in_source (releaseMirrorLease owner))"

section \<open>Which change is newer\<close>

record change_stamp =
  st_updatedAt :: string
  st_version :: int
  st_deviceId :: string

definition newerOrTieBreakingStamp :: "env \<Rightarrow> change_stamp \<Rightarrow> change_stamp \<Rightarrow> bool" where
  "newerOrTieBreakingStamp e source target =
     (let tie = (if st_version source \<noteq> st_version target then st_version source > st_version target
                 else locale_compare e (st_deviceId source) (st_deviceId target) \<ge> 0)
      in case (date_parse e (st_updatedAt source), date_parse e (st_updatedAt target)) of
           (Some sourceTime, Some targetTime) \<Rightarrow> if sourceTime \<noteq> targetTime then sourceTime > targetTime else tie
         | _ \<Rightarrow> tie)"

definition recordStamp :: "'r entity_ops \<Rightarrow> 'r \<Rightarrow> change_stamp" where
  "recordStamp ops r = \<lparr>st_updatedAt = eo_updatedAt ops r, st_version = eo_version ops r, st_deviceId = eo_deviceId ops r\<rparr>"

definition tombstoneStamp :: "entity_tombstone \<Rightarrow> change_stamp" where
  "tombstoneStamp t = \<lparr>st_updatedAt = t_deletedAt t, st_version = t_version t, st_deviceId = t_deviceId t\<rparr>"

definition newerOrTieBreakingSource :: "env \<Rightarrow> 'r entity_ops \<Rightarrow> 'r \<Rightarrow> 'r \<Rightarrow> bool" where
  "newerOrTieBreakingSource e ops source target = newerOrTieBreakingStamp e (recordStamp ops source) (recordStamp ops target)"

definition recordWinsOverTombstone :: "env \<Rightarrow> 'r entity_ops \<Rightarrow> 'r \<Rightarrow> entity_tombstone \<Rightarrow> bool" where
  "recordWinsOverTombstone e ops r t = newerOrTieBreakingStamp e (recordStamp ops r) (tombstoneStamp t)"

definition tombstoneWinsOverRecord :: "env \<Rightarrow> 'r entity_ops \<Rightarrow> entity_tombstone \<Rightarrow> 'r \<Rightarrow> bool" where
  "tombstoneWinsOverRecord e ops t r = newerOrTieBreakingStamp e (tombstoneStamp t) (recordStamp ops r)"

definition canSourceOverwriteTarget :: "env \<Rightarrow> 'r entity_ops \<Rightarrow> 'r \<Rightarrow> 'r \<Rightarrow> bool" where
  "canSourceOverwriteTarget e ops source target \<longleftrightarrow>
     newerOrTieBreakingSource e ops source target \<and> eo_version ops source > eo_version ops target"

text \<open>The entities this run has written to the target are a list of kind and identifier.\<close>

definition targetHasNoUnmirroredChange ::
  "server \<Rightarrow> string \<Rightarrow> entity_type \<Rightarrow> string \<Rightarrow> int \<Rightarrow> (entity_type \<times> string) list \<Rightarrow> bool" where
  "targetHasNoUnmirroredChange target owner ty i targetOutboundRevision mirrored \<longleftrightarrow>
     (if (ty, i) \<in> set mirrored then True else latestEntityRevision target owner ty i \<le> targetOutboundRevision)"

definition canTombstoneOverwriteRecord :: "env \<Rightarrow> 'r entity_ops \<Rightarrow> entity_tombstone \<Rightarrow> 'r \<Rightarrow> bool" where
  "canTombstoneOverwriteRecord e ops t r \<longleftrightarrow> tombstoneWinsOverRecord e ops t r \<and> t_version t > eo_version ops r"

definition recordIsDeleted :: "'r entity_ops \<Rightarrow> 'r \<Rightarrow> bool" where
  "recordIsDeleted ops r = truthy_opt (eo_deletedAt ops r)"

definition bothRecordsAreDeleted :: "'r entity_ops \<Rightarrow> 'r \<Rightarrow> 'r \<Rightarrow> bool" where
  "bothRecordsAreDeleted ops source target \<longleftrightarrow> recordIsDeleted ops source \<and> recordIsDeleted ops target"

section \<open>Accounts\<close>

definition authCredentialsDiffer :: "user_row \<Rightarrow> user_row \<Rightarrow> bool" where
  "authCredentialsDiffer source target \<longleftrightarrow>
     u_passwordHash source \<noteq> u_passwordHash target \<or> u_passwordSalt source \<noteq> u_passwordSalt target \<or>
     u_totpSecret source \<noteq> u_totpSecret target \<or> u_totpEnabledAt source \<noteq> u_totpEnabledAt target"

definition authUsersDiffer :: "user_row \<Rightarrow> user_row \<Rightarrow> bool" where
  "authUsersDiffer source target \<longleftrightarrow>
     authCredentialsDiffer source target \<or> u_email source \<noteq> u_email target \<or> u_displayName source \<noteq> u_displayName target \<or>
     u_e2eeKeyring source \<noteq> u_e2eeKeyring target \<or> u_createdAt source \<noteq> u_createdAt target \<or>
     u_updatedAt source \<noteq> u_updatedAt target"

definition listAuthUsers :: "server \<Rightarrow> user_row list" where
  "listAuthUsers s = s_users s"

definition getAuthUser :: "server \<Rightarrow> string \<Rightarrow> user_row option" where
  "getAuthUser s username = tget u_username username (s_users s)"

text \<open>The record of the mirror has no profile picture: a new row gets none, an existing row keeps its own.\<close>

definition mirrored_user :: "user_row \<Rightarrow> user_row option \<Rightarrow> user_row" where
  "mirrored_user user existing = user\<lparr>u_profileImage := Option.bind existing u_profileImage\<rparr>"

definition putAuthUser :: "user_row \<Rightarrow> bool \<Rightarrow> unit database_act" where
  "putAuthUser user revokeSessions =
     seq (if revokeSessions
          then seq (modify (\<lambda>s. s\<lparr>s_sessions := filter (\<lambda>r. se_username r \<noteq> u_username user) (s_sessions s)\<rparr>))
                   (modify (\<lambda>s. s\<lparr>s_trusted := filter (\<lambda>r. tr_username r \<noteq> u_username user) (s_trusted s)\<rparr>))
          else ret ())
     (\<lambda>s. if u_email user \<noteq> None \<and> (\<exists>v \<in> set (s_users s). u_username v \<noteq> u_username user \<and> u_email v = u_email user)
          then (Inl Account_email_taken, s)
          else (Inr (), s\<lparr>s_users := tput u_username (mirrored_user user (getAuthUser s (u_username user))) (s_users s)\<rparr>))"

definition deleteAuthUserData :: "string \<Rightarrow> server \<Rightarrow> server" where
  "deleteAuthUserData username s =
     s\<lparr>s_sessions := filter (\<lambda>r. se_username r \<noteq> username) (s_sessions s),
       s_trusted := filter (\<lambda>r. tr_username r \<noteq> username) (s_trusted s),
       s_users := filter (\<lambda>r. u_username r \<noteq> username) (s_users s),
       s_changes := filter (\<lambda>r. ch_owner r \<noteq> username) (s_changes s),
       s_tombstones := filter (\<lambda>r. t_owner r \<noteq> username) (s_tombstones s),
       s_noteVersions := filter (\<lambda>r. nv_owner r \<noteq> username) (s_noteVersions s),
       s_notebookVersions := filter (\<lambda>r. nbv_owner r \<noteq> username) (s_notebookVersions s),
       s_notes := filter (\<lambda>r. nr_owner r \<noteq> username) (s_notes s),
       s_notebooks := filter (\<lambda>r. nbr_owner r \<noteq> username) (s_notebooks s),
       s_devices := filter (\<lambda>r. dr_owner r \<noteq> username) (s_devices s)\<rparr>"

definition listAccountTombstones :: "server \<Rightarrow> account_tombstone list" where
  "listAccountTombstones s = s_accountTombstones s"

definition applyAccountTombstone :: "account_tombstone \<Rightarrow> server \<Rightarrow> server" where
  "applyAccountTombstone t s =
     (let s1 = (case tget at_username (at_username t) (s_accountTombstones s) of
                  Some existing \<Rightarrow>
                    if at_deletedAt t > at_deletedAt existing then s\<lparr>s_accountTombstones := tput at_username t (s_accountTombstones s)\<rparr>
                    else s
                | None \<Rightarrow> s\<lparr>s_accountTombstones := tput at_username t (s_accountTombstones s)\<rparr>)
      in deleteAuthUserData (at_username t) s1)"

definition combine_tombstone :: "account_tombstone \<Rightarrow> (string \<times> account_tombstone) list \<Rightarrow> (string \<times> account_tombstone) list" where
  "combine_tombstone t combined =
     (case map_of combined (at_username t) of
        None \<Rightarrow> map_set (at_username t) t combined
      | Some current \<Rightarrow> if at_deletedAt t > at_deletedAt current then map_set (at_username t) t combined else combined)"

definition combined_tombstones :: "server \<Rightarrow> server \<Rightarrow> account_tombstone list" where
  "combined_tombstones local remote =
     map snd (fold combine_tombstone (listAccountTombstones local @ listAccountTombstones remote) [])"

definition syncAccountTombstones :: "unit mirror_act" where
  "syncAccountTombstones =
     bnd (asks (\<lambda>(local, remote). combined_tombstones local remote)) (for_each (\<lambda>t.
       seq (in_source (modify (applyAccountTombstone t))) (in_target (modify (applyAccountTombstone t)))))"

definition orphanedOwnerUsernames :: "server \<Rightarrow> string list" where
  "orphanedOwnerUsernames s =
     filter (\<lambda>username. getAuthUser s username = None)
       (filter truthy (dedupe (filter (\<lambda>owner. owner \<noteq> LEGACY_OWNER_USERNAME)
         (map dr_owner (s_devices s) @ map nr_owner (s_notes s) @ map nbr_owner (s_notebooks s) @ map ch_owner (s_changes s) @
          map t_owner (s_tombstones s) @ map nv_owner (s_noteVersions s) @ map nbv_owner (s_notebookVersions s)))))"

definition sync_user :: "user_row \<Rightarrow> unit mirror_act" where
  "sync_user user =
     bnd (asks (\<lambda>(source, target). getAuthUser target (u_username user))) (\<lambda>found.
       case found of
         None \<Rightarrow> in_target (putAuthUser user False)
       | Some targetUser \<Rightarrow>
           if authUsersDiffer user targetUser then in_target (putAuthUser user (authCredentialsDiffer user targetUser)) else ret ())"

definition syncUsers :: "bool \<Rightarrow> unit mirror_act" where
  "syncUsers copyUsers =
     bnd (asks (\<lambda>(source, target). listAuthUsers source)) (\<lambda>users. if copyUsers then for_each sync_user users else ret ())"

section \<open>Plans for a page\<close>

text \<open>What differs between notes and notebooks.\<close>

record 'r mirror_kind =
  mk_ops :: "'r entity_ops"
  mk_differ :: "'r \<Rightarrow> 'r \<Rightarrow> bool"
  mk_byIds :: "server \<Rightarrow> string list \<Rightarrow> string \<Rightarrow> (string \<times> 'r) list"

definition note_kind :: "Note mirror_kind" where
  "note_kind = \<lparr>mk_ops = note_ops, mk_differ = notesDiffer, mk_byIds = getNotesByIds\<rparr>"

definition notebook_kind :: "Notebook mirror_kind" where
  "notebook_kind = \<lparr>mk_ops = notebook_ops, mk_differ = notebooksDiffer, mk_byIds = getNotebooksByIds\<rparr>"

record 'r upsert_plan =
  up_copySourceToTarget :: "'r entity_change list"
  up_copyTargetToSource :: "'r entity_change list"
  up_deleteSourceIds :: "string list"

record 'r delete_plan =
  dp_deleteTargetIds :: "string list"
  dp_copyTargetToSource :: "'r entity_change list"

text \<open>One turn of the loop: whether the record is copied (with its base version), deleted, or neither.\<close>

definition plan_copy :: "'r \<Rightarrow> int \<Rightarrow> 'r upsert_plan \<Rightarrow> 'r upsert_plan" where
  "plan_copy r baseVersion plan =
     plan\<lparr>up_copySourceToTarget := up_copySourceToTarget plan @ [\<lparr>c_record = r, c_baseVersion = baseVersion\<rparr>]\<rparr>"

definition plan_delete :: "string \<Rightarrow> 'r upsert_plan \<Rightarrow> 'r upsert_plan" where
  "plan_delete i plan = plan\<lparr>up_deleteSourceIds := up_deleteSourceIds plan @ [i]\<rparr>"

definition plan_upsert ::
  "env \<Rightarrow> 'r mirror_kind \<Rightarrow> (string \<Rightarrow> bool) \<Rightarrow> (string \<times> 'r) list \<Rightarrow> (string \<times> entity_tombstone) list \<Rightarrow>
   'r \<Rightarrow> 'r upsert_plan \<Rightarrow> mirror_error + 'r upsert_plan" where
  "plan_upsert e kind unchanged targets tombstones r plan =
     (let ops = mk_ops kind; i = eo_id ops r
      in case map_of targets i of
           Some t \<Rightarrow>
             if \<not> mk_differ kind r t then
               Inr (if eo_version ops r > eo_version ops t then plan_copy r (eo_version ops t) plan else plan)
             else if canSourceOverwriteTarget e ops r t \<and> unchanged i then Inr (plan_copy r (eo_version ops t) plan)
             else if bothRecordsAreDeleted ops r t then Inr (plan_delete i plan)
             else Inl (Divergence (eo_type ops) i)
         | None \<Rightarrow>
             let tombstone = map_of tombstones i
             in if (case tombstone of None \<Rightarrow> True | Some ts \<Rightarrow> recordWinsOverTombstone e ops r ts \<and> unchanged i)
                then Inr (plan_copy r (case tombstone of Some ts \<Rightarrow> t_version ts | None \<Rightarrow> 0) plan)
                else if recordIsDeleted ops r then Inr (plan_delete i plan)
                else Inl (Divergence (eo_type ops) i))"

definition upsert_changes ::
  "env \<Rightarrow> 'r mirror_kind \<Rightarrow> 'r list \<Rightarrow> server \<Rightarrow> string \<Rightarrow> int \<Rightarrow> (entity_type \<times> string) list \<Rightarrow> mirror_error + 'r upsert_plan" where
  "upsert_changes e kind records target owner targetOutboundRevision mirrored =
     (let ops = mk_ops kind; ids = map (eo_id ops) records;
          targets = mk_byIds kind target ids owner;
          tombstones = getEntityTombstonesByIds target owner (eo_type ops) ids
      in fold_err (plan_upsert e kind (\<lambda>i. targetHasNoUnmirroredChange target owner (eo_type ops) i targetOutboundRevision mirrored)
           targets tombstones) records
           \<lparr>up_copySourceToTarget = [], up_copyTargetToSource = [], up_deleteSourceIds = []\<rparr>)"

definition notebookChanges ::
  "env \<Rightarrow> pull_response \<Rightarrow> server \<Rightarrow> string \<Rightarrow> int \<Rightarrow> (entity_type \<times> string) list \<Rightarrow> mirror_error + Notebook upsert_plan" where
  "notebookChanges e snapshot = upsert_changes e notebook_kind (pl_notebooks snapshot)"

definition noteChanges ::
  "env \<Rightarrow> pull_response \<Rightarrow> server \<Rightarrow> string \<Rightarrow> int \<Rightarrow> (entity_type \<times> string) list \<Rightarrow> mirror_error + Note upsert_plan" where
  "noteChanges e snapshot = upsert_changes e note_kind (pl_notes snapshot)"

definition plan_deletion ::
  "env \<Rightarrow> 'r mirror_kind \<Rightarrow> (string \<Rightarrow> bool) \<Rightarrow> (string \<times> entity_tombstone) list \<Rightarrow> (string \<times> 'r) list \<Rightarrow> (string \<times> 'r) list \<Rightarrow>
   string \<Rightarrow> 'r delete_plan \<Rightarrow> mirror_error + 'r delete_plan" where
  "plan_deletion e kind unchanged sourceTombstones sources targets i plan =
     (let ops = mk_ops kind; delete_it = Inr (plan\<lparr>dp_deleteTargetIds := dp_deleteTargetIds plan @ [i]\<rparr>)
      in if map_of sources i \<noteq> None then Inr plan
         else case map_of targets i of
                None \<Rightarrow> delete_it
              | Some t \<Rightarrow>
                  if recordIsDeleted ops t then delete_it
                  else if (case map_of sourceTombstones i of
                             Some ts \<Rightarrow> canTombstoneOverwriteRecord e ops ts t \<and> unchanged i
                           | None \<Rightarrow> False)
                  then delete_it
                  else Inl (Divergence (eo_type ops) i))"

definition delete_changes ::
  "env \<Rightarrow> 'r mirror_kind \<Rightarrow> string list \<Rightarrow> server \<Rightarrow> server \<Rightarrow> string \<Rightarrow> int \<Rightarrow> (entity_type \<times> string) list \<Rightarrow>
   mirror_error + 'r delete_plan" where
  "delete_changes e kind deletedIds source target owner targetOutboundRevision mirrored =
     (let ops = mk_ops kind; ids = uniqueEntityIds deletedIds
      in fold_err (plan_deletion e kind (\<lambda>i. targetHasNoUnmirroredChange target owner (eo_type ops) i targetOutboundRevision mirrored)
           (getEntityTombstonesByIds source owner (eo_type ops) ids) (mk_byIds kind source ids owner) (mk_byIds kind target ids owner))
           ids \<lparr>dp_deleteTargetIds = [], dp_copyTargetToSource = []\<rparr>)"

definition notebookDeleteChanges ::
  "env \<Rightarrow> server \<Rightarrow> pull_response \<Rightarrow> server \<Rightarrow> string \<Rightarrow> int \<Rightarrow> (entity_type \<times> string) list \<Rightarrow> mirror_error + Notebook delete_plan" where
  "notebookDeleteChanges e source snapshot = delete_changes e notebook_kind (pl_deletedNotebookIds snapshot) source"

definition noteDeleteChanges ::
  "env \<Rightarrow> server \<Rightarrow> pull_response \<Rightarrow> server \<Rightarrow> string \<Rightarrow> int \<Rightarrow> (entity_type \<times> string) list \<Rightarrow> mirror_error + Note delete_plan" where
  "noteDeleteChanges e source snapshot = delete_changes e note_kind (pl_deletedNoteIds snapshot) source"

section \<open>Writing a page\<close>

definition sync_device :: "env \<Rightarrow> string \<Rightarrow> Device \<Rightarrow> unit database_act" where
  "sync_device e owner device =
     bnd (\<lambda>s. let (now, s1) = read_clock e s in (Inr now, s1)) (\<lambda>now. statement (upsertDevice device now owner e))"

definition syncDevices :: "env \<Rightarrow> pull_response \<Rightarrow> string \<Rightarrow> unit database_act" where
  "syncDevices e snapshot owner = for_each (sync_device e owner) (pl_devices snapshot)"

text \<open>The limits are not enforced, so their configuration does not matter.\<close>

definition mirror_push_options :: push_options where
  "mirror_push_options = \<lparr>po_allowTombstoneOverwrite = True, po_preserveRecordVersions = True,
     po_preserveNewRecordVersions = False, po_enforceRecordLimits = False,
     po_recordLimitConfig = \<lparr>rc_enabled = False, rc_storageBudgetBytes = 0, rc_safetyRatio = 0,
       rc_estimatedNoteBytes = 0, rc_estimatedNotebookBytes = 0\<rparr>\<rparr>"

definition pushMirrorChanges ::
  "env \<Rightarrow> string \<Rightarrow> Notebook entity_change list \<Rightarrow> Note entity_change list \<Rightarrow> string \<Rightarrow> unit database_act" where
  "pushMirrorChanges e owner notebooks notes cursorKey =
     (if notebooks = [] \<and> notes = [] then ret ()
      else (\<lambda>s. case pushChanges e \<lparr>pr_device = MIRROR_DEVICE, pr_notes = notes, pr_notebooks = notebooks\<rparr> owner mirror_push_options s of
             Inl err \<Rightarrow> (Inl (Database_failed err), s)
           | Inr (result, s') \<Rightarrow>
               (if ps_conflicts result \<noteq> [] then Inl (Mirror_conflicts cursorKey (length (ps_conflicts result))) else Inr (), s')))"

record page_plan =
  pg_notebookUpserts :: "Notebook upsert_plan"
  pg_noteUpserts :: "Note upsert_plan"
  pg_notebookDeletes :: "Notebook delete_plan"
  pg_noteDeletes :: "Note delete_plan"

definition plan_page ::
  "env \<Rightarrow> pull_response \<Rightarrow> string \<Rightarrow> int \<Rightarrow> (entity_type \<times> string) list \<Rightarrow> server \<times> server \<Rightarrow> mirror_error + page_plan" where
  "plan_page e snapshot owner outRev mirrored = (\<lambda>(source, target).
     and_then (notebookChanges e snapshot target owner outRev mirrored) (\<lambda>nbu.
     and_then (noteChanges e snapshot target owner outRev mirrored) (\<lambda>nu.
     and_then (notebookDeleteChanges e source snapshot target owner outRev mirrored) (\<lambda>nbd.
     and_then (noteDeleteChanges e source snapshot target owner outRev mirrored) (\<lambda>nd.
       Inr \<lparr>pg_notebookUpserts = nbu, pg_noteUpserts = nu, pg_notebookDeletes = nbd, pg_noteDeletes = nd\<rparr>)))))"

definition page_entities :: "page_plan \<Rightarrow> (entity_type \<times> string) list" where
  "page_entities plan =
     map (\<lambda>c. (Notebook_entity, nb_id (c_record c))) (up_copySourceToTarget (pg_notebookUpserts plan)) @
     map (\<lambda>c. (Note_entity, n_id (c_record c))) (up_copySourceToTarget (pg_noteUpserts plan)) @
     map (Pair Notebook_entity) (dp_deleteTargetIds (pg_notebookDeletes plan)) @
     map (Pair Note_entity) (dp_deleteTargetIds (pg_noteDeletes plan))"

definition write_page :: "env \<Rightarrow> env \<Rightarrow> string \<Rightarrow> string \<Rightarrow> page_plan \<Rightarrow> unit mirror_act" where
  "write_page es et owner cursorKey plan =
     seq (in_source (statement (deleteNotebooksByIds es (up_deleteSourceIds (pg_notebookUpserts plan)) owner)))
    (seq (in_source (modify (deleteNotesByIds es (up_deleteSourceIds (pg_noteUpserts plan)) owner)))
    (seq (in_target (statement (deleteNotebooksByIds et (dp_deleteTargetIds (pg_notebookDeletes plan)) owner)))
    (seq (in_target (modify (deleteNotesByIds et (dp_deleteTargetIds (pg_noteDeletes plan)) owner)))
    (seq (in_target (pushMirrorChanges et owner (up_copySourceToTarget (pg_notebookUpserts plan))
            (up_copySourceToTarget (pg_noteUpserts plan)) cursorKey))
      (in_source (pushMirrorChanges es owner
         (up_copyTargetToSource (pg_notebookUpserts plan) @ dp_copyTargetToSource (pg_notebookDeletes plan))
         (up_copyTargetToSource (pg_noteUpserts plan) @ dp_copyTargetToSource (pg_noteDeletes plan)) cursorKey))))))"

text \<open>The body of the loop after the cursor has been checked; it gives the entities written to the target.\<close>

definition mirror_page ::
  "env \<Rightarrow> env \<Rightarrow> string \<Rightarrow> string \<Rightarrow> int \<Rightarrow> pull_response \<Rightarrow> int \<Rightarrow> (entity_type \<times> string) list \<Rightarrow>
   (entity_type \<times> string) list mirror_act" where
  "mirror_page es et owner cursorKey outRev snapshot nextCursor mirrored =
     seq (in_target (syncDevices et snapshot owner))
    (seq (in_target (modify (deleteDevicesByIds et (pl_deletedDeviceIds snapshot) owner)))
    (bnd (asks (plan_page et snapshot owner outRev mirrored)) (\<lambda>planned.
     bnd (check planned) (\<lambda>plan.
     seq (write_page es et owner cursorKey plan)
    (seq (in_target (modify (setSyncMeta cursorKey (int_to_string nextCursor))))
      (ret (page_entities plan)))))))"

section \<open>The loop over the pages\<close>

text \<open>\<open>Number(text ?? 0)\<close>, when it is a safe integer that is not negative; the code writes decimal numbers.\<close>

definition stored_cursor :: "string option \<Rightarrow> int" where
  "stored_cursor v =
     (case v of
        None \<Rightarrow> 0
      | Some t \<Rightarrow> if t \<noteq> [] \<and> (\<forall>c \<in> set t. is_digit c) \<and> is_safe_integer (int (nat_of_digits t)) then int (nat_of_digits t) else 0)"

definition pull_page :: "env \<Rightarrow> string \<Rightarrow> int \<Rightarrow> pull_response database_act" where
  "pull_page e owner cursor = (\<lambda>s.
     case pullMirrorChangesSinceRevision e owner cursor None s of
       Inl err \<Rightarrow> (Inl (Database_failed err), s)
     | Inr (snapshot, s') \<Rightarrow> (Inr snapshot, s'))"

definition next_cursor :: "pull_response \<Rightarrow> int \<Rightarrow> mirror_error + int" where
  "next_cursor snapshot cursor =
     (case safeRevisionCursor (pl_serverRevision snapshot) cursor (pl_hasMore snapshot) of
        Inl err \<Rightarrow> Inl (Cursor_invalid err)
      | Inr next \<Rightarrow> Inr next)"

primrec mirror_pages ::
  "nat \<Rightarrow> env \<Rightarrow> env \<Rightarrow> string \<Rightarrow> string \<Rightarrow> int \<Rightarrow> int \<Rightarrow> bool \<Rightarrow> (entity_type \<times> string) list \<Rightarrow> unit mirror_act" where
  "mirror_pages 0 es et owner cursorKey outRev cursor resetCursor mirrored = raise Out_of_fuel"
| "mirror_pages (Suc fuel) es et owner cursorKey outRev cursor resetCursor mirrored =
     bnd (in_source (pull_page es owner cursor)) (\<lambda>snapshot.
       if pl_serverRevision snapshot < cursor \<and> \<not> resetCursor then
         seq (in_target (modify (setSyncMeta cursorKey ''0''))) (mirror_pages fuel es et owner cursorKey outRev 0 True mirrored)
       else bnd (check (next_cursor snapshot cursor)) (\<lambda>nextCursor.
         bnd (mirror_page es et owner cursorKey outRev snapshot nextCursor mirrored) (\<lambda>written.
           if pl_hasMore snapshot then mirror_pages fuel es et owner cursorKey outRev nextCursor resetCursor (mirrored @ written)
           else ret ())))"

definition syncEntityOwnerOneWay :: "nat \<Rightarrow> env \<Rightarrow> env \<Rightarrow> string \<Rightarrow> string \<Rightarrow> string \<Rightarrow> unit mirror_act" where
  "syncEntityOwnerOneWay fuel es et cursorKey targetOutboundCursorKey owner =
     (let ownerCursorKey = cursorKey @ ''.'' @ owner
      in bnd (asks (\<lambda>(source, target). stored_cursor (getSyncMeta source (targetOutboundCursorKey @ ''.'' @ owner)))) (\<lambda>outRev.
         bnd (asks (\<lambda>(source, target). stored_cursor (getSyncMeta target ownerCursorKey))) (\<lambda>cursor.
           mirror_pages fuel es et owner ownerCursorKey outRev cursor False [])))"

section \<open>Both directions\<close>

definition syncOwners :: "server \<Rightarrow> server \<Rightarrow> string list" where
  "syncOwners source target =
     sort (dedupe (LEGACY_OWNER_USERNAME # map u_username (listAuthUsers source) @ map u_username (listAuthUsers target)))"

definition syncOneWay :: "nat \<Rightarrow> env \<Rightarrow> env \<Rightarrow> string \<Rightarrow> string \<Rightarrow> bool \<Rightarrow> unit mirror_act" where
  "syncOneWay fuel es et cursorKey targetOutboundCursorKey copyUsers =
     seq (syncUsers copyUsers)
       (bnd (asks (\<lambda>(source, target). syncOwners source target))
         (for_each (syncEntityOwnerOneWay fuel es et cursorKey targetOutboundCursorKey)))"

definition check_accounts :: "server \<times> server \<Rightarrow> mirror_error + unit" where
  "check_accounts = (\<lambda>(local, remote).
     let localOrphans = orphanedOwnerUsernames local; remoteOrphans = orphanedOwnerUsernames remote;
         remoteUsernames = map u_username (listAuthUsers remote);
         unexplained = filter (\<lambda>u. u \<notin> set remoteUsernames) (map u_username (listAuthUsers local))
     in if localOrphans \<noteq> [] \<or> remoteOrphans \<noteq> [] then Inl (Orphaned_owner_data localOrphans remoteOrphans)
        else if unexplained \<noteq> [] then Inl (Missing_accounts unexplained)
        else Inr ())"

definition syncDatabases :: "nat \<Rightarrow> env \<Rightarrow> env \<Rightarrow> unit mirror_act" where
  "syncDatabases fuel el er =
     bnd (in_source (\<lambda>s. let (now, s1) = read_ms el s in (Inr now, s1))) (\<lambda>now.
     seq syncAccountTombstones
    (bnd (asks check_accounts) (\<lambda>checked. seq (check checked)
    (seq (exchanged (syncOneWay fuel er el ''mirror.remote.revision'' ''mirror.local.revision'' True))
    (seq (syncOneWay fuel el er ''mirror.local.revision'' ''mirror.remote.revision'' False)
    (seq (exchanged (syncOneWay fuel er el ''mirror.remote.revision'' ''mirror.local.revision'' True))
    (seq (in_source (modify (\<lambda>s. snd (pruneVersionSnapshots now None s))))
      (in_target (modify (\<lambda>s. snd (pruneVersionSnapshots now None s)))))))))))"

text \<open>The run under the lock: the leases are released whether it succeeds or fails.\<close>

definition finally_act :: "'a mirror_act \<Rightarrow> unit mirror_act \<Rightarrow> 'a mirror_act" where
  "finally_act m cleanup = (\<lambda>s. case m s of (r, s') \<Rightarrow> (case cleanup s' of (Inl err, s'') \<Rightarrow> (Inl err, s'') | (Inr _, s'') \<Rightarrow> (r, s'')))"

definition syncRemoteDatabase :: "nat \<Rightarrow> env \<Rightarrow> env \<Rightarrow> unit mirror_act" where
  "syncRemoteDatabase fuel el er =
     bnd (acquireMirrorLeases el er) (\<lambda>owner. finally_act (syncDatabases fuel el er) (release_leases owner))"

end
