(* ===== verification/MirrorTheorems.thy ===== *)
theory MirrorTheorems
  imports MirrorSync Samples Lease
begin

text \<open>
  What the mirror promises: a note that both databases have changed stops the run before anything of
  the page is written, and while one run holds the lock of a database no other run gets it.
\<close>

section \<open>The devices of a page leave records alone\<close>

definition records_as_in :: "server \<times> server \<Rightarrow> server \<times> server \<Rightarrow> bool" where
  "records_as_in = (\<lambda>(source, target) (source', target').
     source' = source \<and> s_notes target' = s_notes target \<and> s_notebooks target' = s_notebooks target \<and>
     s_tombstones target' = s_tombstones target \<and> s_meta target' = s_meta target \<and>
     filter (\<lambda>c. ch_entityType c \<noteq> Device_entity) (s_changes target') =
       filter (\<lambda>c. ch_entityType c \<noteq> Device_entity) (s_changes target))"

lemma keeps_in_target:
  assumes "\<And>b. records_as_in c0 (fst c0, b) \<Longrightarrow> records_as_in c0 (fst c0, snd (m b))"
  shows "keeps (records_as_in c0) (in_target m)"
  unfolding keeps_def
proof (intro allI impI)
  fix c assume c: "records_as_in c0 c"
  then have "c = (fst c0, snd c)" by (auto simp: records_as_in_def split: prod.splits)
  then show "records_as_in c0 (snd (in_target m c))"
    using assms [of "snd c"] c by (cases c) (auto simp: in_target_def split: prod.splits)
qed

lemma upsertDevice_records:
  "upsertDevice d seenAt owner e s = Inr s' \<Longrightarrow>
   s_notes s' = s_notes s \<and> s_notebooks s' = s_notebooks s \<and> s_tombstones s' = s_tombstones s \<and> s_meta s' = s_meta s \<and>
   filter (\<lambda>c. ch_entityType c \<noteq> Device_entity) (s_changes s') = filter (\<lambda>c. ch_entityType c \<noteq> Device_entity) (s_changes s)"
  by (auto simp: upsertDevice_def Let_def recordEntityChange_def insert_change_def split: if_splits)

lemma sync_device_keeps: "keeps (records_as_in c0) (in_target (sync_device e owner d))"
  by (rule keeps_in_target, cases c0)
    (auto simp: records_as_in_def sync_device_def bnd_def read_clock_def statement_def
      split: sum.splits dest!: upsertDevice_records)

lemma in_target_for_each: "in_target (for_each f xs) = for_each (\<lambda>x. in_target (f x)) xs"
  by (induction xs) (auto simp: in_target_def seq_def bnd_def ret_def fun_eq_iff split: prod.splits sum.splits)

lemma syncDevices_keeps: "keeps (records_as_in c0) (in_target (syncDevices e snapshot owner))"
  unfolding syncDevices_def in_target_for_each by (rule keeps_for_each) (rule sync_device_keeps)

lemma deleteDevicesByIds_keeps: "keeps (records_as_in c0) (in_target (modify (deleteDevicesByIds e ids owner)))"
proof (rule keeps_in_target)
  fix b
  have "records_as_in c0 (fst c0, b) \<Longrightarrow> records_as_in c0 (fst c0, fold (\<lambda>i s.
       let s1 = (if deviceIsReferenced s i owner then s else delete_device_row owner i s)
       in if latestEntityOperation s1 owner Device_entity i \<noteq> Some Delete_op
          then recordEntityChange e Device_entity i Delete_op None owner s1 else s1) is b)" for "is"
  proof (induction "is" arbitrary: b)
    case (Cons i "is")
    then show ?case
      by (auto intro!: Cons.IH simp: records_as_in_def delete_device_row_def recordEntityChange_def read_clock_def
          insert_change_def Let_def split: prod.splits)
  qed simp
  then show "records_as_in c0 (fst c0, b) \<Longrightarrow> records_as_in c0 (fst c0, snd (modify (deleteDevicesByIds e ids owner) b))"
    by (simp add: deleteDevicesByIds_def)
qed

lemma changes_of_others:
  "changes_of s owner Note_entity i =
     filter (\<lambda>c. ch_owner c = owner \<and> ch_entityType c = Note_entity \<and> ch_entityId c = i)
       (filter (\<lambda>c. ch_entityType c \<noteq> Device_entity) (s_changes s))"
  by (auto simp: changes_of_def intro: filter_cong)

lemma changes_of_records:
  assumes "records_as_in c0 c"
  shows "changes_of (snd c) owner Note_entity i = changes_of (snd c0) owner Note_entity i"
proof -
  have "filter (\<lambda>c. ch_entityType c \<noteq> Device_entity) (s_changes (snd c)) =
      filter (\<lambda>c. ch_entityType c \<noteq> Device_entity) (s_changes (snd c0))"
    using assms by (auto simp: records_as_in_def split: prod.splits)
  then show ?thesis by (simp only: changes_of_others)
qed

section \<open>A divergent note stops the plan\<close>

lemma fold_err_stops: "x \<in> set xs \<Longrightarrow> (\<And>s. \<exists>err. f x s = Inl err) \<Longrightarrow> \<exists>err. fold_err f xs s = Inl err"
proof (induction xs arbitrary: s)
  case (Cons y ys)
  show ?case
  proof (cases "f y s")
    case (Inr s')
    then have "x \<in> set ys" using Cons.prems by (metis Inl_Inr_False set_ConsD)
    then show ?thesis using Cons.IH [OF _ Cons.prems(2)] Inr by (auto simp: and_then_def)
  qed (simp add: and_then_def)
qed simp

definition diverged :: "env \<Rightarrow> string \<Rightarrow> int \<Rightarrow> (entity_type \<times> string) list \<Rightarrow> server \<Rightarrow> Note \<Rightarrow> bool" where
  "diverged e owner outRev mirrored target n \<longleftrightarrow>
     (\<exists>t. getNote target (n_id n) owner = Some t \<and> notesDiffer n t \<and>
        (n_version n \<le> n_version t \<or>
         (Note_entity, n_id n) \<notin> set mirrored \<and> outRev < latestEntityRevision target owner Note_entity (n_id n)) \<and>
        \<not> (truthy_opt (n_deletedAt n) \<and> truthy_opt (n_deletedAt t)))"

lemma noteChanges_diverged:
  assumes wf: "wf_table note_key (s_notes target)" and n: "n \<in> set (pl_notes snapshot)" "truthy (n_id n)"
    and d: "diverged e owner outRev mirrored target n"
  shows "\<exists>err. noteChanges e snapshot target owner outRev mirrored = Inl err"
proof -
  obtain t where t: "getNote target (n_id n) owner = Some t" "notesDiffer n t"
      "\<not> (truthy_opt (n_deletedAt n) \<and> truthy_opt (n_deletedAt t))"
      "n_version n \<le> n_version t \<or>
         (Note_entity, n_id n) \<notin> set mirrored \<and> outRev < latestEntityRevision target owner Note_entity (n_id n)"
    using d by (auto simp: diverged_def)
  have "map_of (getNotesByIds target (map n_id (pl_notes snapshot)) owner) (n_id n) = Some t"
    using n t(1) by (simp add: getNotesByIds_lookup [OF wf])
  then show ?thesis
    unfolding noteChanges_def upsert_changes_def Let_def using n(1) t
    by (intro fold_err_stops [where x = n])
      (auto simp: plan_upsert_def note_kind_def note_ops_def Let_def canSourceOverwriteTarget_def
        targetHasNoUnmirroredChange_def bothRecordsAreDeleted_def recordIsDeleted_def)
qed

lemma plan_page_diverged:
  assumes "wf_table note_key (s_notes (snd c))" "n \<in> set (pl_notes snapshot)" "truthy (n_id n)"
    "diverged e owner outRev mirrored (snd c) n"
  shows "\<exists>err. plan_page e snapshot owner outRev mirrored c = Inl err"
  using noteChanges_diverged [OF assms] by (cases c) (auto simp: plan_page_def and_then_def split: sum.splits)

lemma diverged_records:
  assumes "records_as_in c0 c" "diverged e owner outRev mirrored (snd c0) n"
  shows "diverged e owner outRev mirrored (snd c) n"
  using assms(2) changes_of_records [OF assms(1), of owner "n_id n"] assms(1)
  by (auto simp: diverged_def getNote_def get_note_row_def latestEntityRevision_def records_as_in_def split: prod.splits)

lemma mirror_page_refuses:
  assumes "wf_table note_key (s_notes target)" "n \<in> set (pl_notes snapshot)" "truthy (n_id n)"
    "diverged et owner outRev mirrored target n"
    and run: "mirror_page es et owner cursorKey outRev snapshot nextCursor mirrored (source, target) = (r, c)"
  shows "(\<exists>err. r = Inl err) \<and> records_as_in (source, target) c"
proof -
  let ?I = "records_as_in (source, target)"
  have I0: "?I (source, target)" by (simp add: records_as_in_def)
  have stop: "\<exists>err. plan_page et snapshot owner outRev mirrored c' = Inl err" if "?I c'" for c'
    using that diverged_records [OF that, of et owner outRev mirrored n] assms(1-4)
    by (intro plan_page_diverged) (auto simp: records_as_in_def split: prod.splits)
  obtain r1 c1 where r1: "in_target (syncDevices et snapshot owner) (source, target) = (r1, c1)" by (metis prod.exhaust)
  have c1: "?I c1" using keepsD [OF syncDevices_keeps I0 r1] .
  obtain r2 c2 where r2: "in_target (modify (deleteDevicesByIds et (pl_deletedDeviceIds snapshot) owner)) c1 = (r2, c2)" by (metis prod.exhaust)
  have c2: "?I c2" using keepsD [OF deleteDevicesByIds_keeps c1 r2] .
  show ?thesis using run stop [OF c2] r1 r2 c1 c2
    unfolding mirror_page_def seq_run bnd_run by (auto split: sum.splits)
qed

text \<open>
  C33. A note that the other database has changed as well (its version is not older, or it has a change
  the source has not seen), and that is not deleted on both sides, stops the page: the mirror
  chooses no winner, and no note, notebook, tombstone or cursor of either database is written.
\<close>

theorem mirror_refuses_divergence:
  assumes "wf_table note_key (s_notes target)" and "n \<in> set (pl_notes snapshot)" and "truthy (n_id n)"
    and "getNote target (n_id n) owner = Some t" and "notesDiffer n t"
    and "n_version n \<le> n_version t \<or>
      (Note_entity, n_id n) \<notin> set mirrored \<and> outRev < latestEntityRevision target owner Note_entity (n_id n)"
    and "\<not> (truthy_opt (n_deletedAt n) \<and> truthy_opt (n_deletedAt t))"
  shows "\<exists>err target'. mirror_page es et owner cursorKey outRev snapshot nextCursor mirrored (source, target) = (Inl err, (source, target')) \<and>
     s_notes target' = s_notes target \<and> s_notebooks target' = s_notebooks target \<and>
     s_tombstones target' = s_tombstones target \<and> s_meta target' = s_meta target"
proof -
  have "diverged et owner outRev mirrored target n" unfolding diverged_def using assms by blast
  from mirror_page_refuses [OF assms(1-3) this, of es cursorKey nextCursor source] show ?thesis
    by (cases "mirror_page es et owner cursorKey outRev snapshot nextCursor mirrored (source, target)")
      (auto simp: records_as_in_def)
qed

text \<open>The sample note, edited on both sides: version 4 here, version 3 with another title there.\<close>

definition edited_page :: pull_response where
  "edited_page = \<lparr>pl_serverTime = ''2025-01-01T00:00:00.000Z'', pl_serverRevision = 6,
     pl_notes = [note_a\<lparr>n_title := ''Mine'', n_version := 4\<rparr>], pl_notebooks = [], pl_devices = [device_a],
     pl_deletedNoteIds = [], pl_deletedNotebookIds = [], pl_deletedDeviceIds = [], pl_hasMore = False\<rparr>"

theorem mirror_refuses_divergence_witness:
  "\<exists>err target'. mirror_page sample_env sample_env ''ann'' ''k'' 2 edited_page 6 [] (empty_server, sample_server) =
     (Inl err, (empty_server, target')) \<and> s_notes target' = s_notes sample_server \<and>
     s_notebooks target' = s_notebooks sample_server \<and> s_tombstones target' = s_tombstones sample_server \<and>
     s_meta target' = s_meta sample_server"
proof (rule mirror_refuses_divergence)
  show "wf_table note_key (s_notes sample_server)" using wf_sample_server by (simp add: wf_server_def wf_tables_def)
  show "note_a\<lparr>n_title := ''Mine'', n_version := 4\<rparr> \<in> set (pl_notes edited_page)" by (simp add: edited_page_def)
  show "getNote sample_server (n_id (note_a\<lparr>n_title := ''Mine'', n_version := 4\<rparr>)) ''ann'' = Some note_a" by code_simp
  show "notesDiffer (note_a\<lparr>n_title := ''Mine'', n_version := 4\<rparr>) note_a" by code_simp
qed (code_simp)+

section \<open>The lock\<close>

lemma lease_read: "parseMirrorLease (Some (lease_json owner now)) = Some \<lparr>ml_owner = owner, ml_expiresAt = lockExpiresAt now\<rparr>"
proof -
  let ?v = "JObj [(''owner'', JStr owner), (''expiresAt'', JStr (lockExpiresAt now))]"
  have "parse_json (stringify ?v) = Some ?v" by (rule json_round_trip) simp
  then show ?thesis
    by (simp add: parseMirrorLease_def lease_json_def truthy_opt_def truthy_def or_empty_def json_object_def)
qed

text \<open>The lock operations of other runs, each at the time it reads from the clock.\<close>

fun lock_op :: "env \<Rightarrow> lease_op \<Rightarrow> server \<Rightarrow> server" where
  "lock_op e (Try_acquire a) s = snd (acquireMirrorLease e a s)"
| "lock_op e (Do_refresh a) s = snd (refreshMirrorLease e a s)"
| "lock_op e (Do_release a) s = snd (releaseMirrorLease a s)"

definition locked :: "env \<Rightarrow> string \<Rightarrow> int \<Rightarrow> server \<Rightarrow> bool" where
  "locked e owner t s \<longleftrightarrow> getSyncMeta s MIRROR_LOCK_KEY = Some (lease_json owner t) \<and>
     date_parse e (lockExpiresAt t) = Some (t + MIRROR_LOCK_TTL_MS)"

lemma getSyncMeta_ticks [simp]: "getSyncMeta (s\<lparr>s_ticks := k\<rparr>) = getSyncMeta s"
  by (simp add: getSyncMeta_def fun_eq_iff)

lemma locked_lease: "locked e owner t s \<Longrightarrow>
    parseMirrorLease (getSyncMeta s MIRROR_LOCK_KEY) = Some \<lparr>ml_owner = owner, ml_expiresAt = lockExpiresAt t\<rparr>"
  by (simp only: locked_def lease_read)

lemma locked_ticks [simp]: "locked e owner t (s\<lparr>s_ticks := k\<rparr>) = locked e owner t s"
  by (simp add: locked_def)

lemma locked_acquire:
  "locked e owner t s \<Longrightarrow> other \<noteq> owner \<Longrightarrow> clock e (s_ticks s) < t + MIRROR_LOCK_TTL_MS \<Longrightarrow>
   acquireMirrorLease e other s = (Inr False, s\<lparr>s_ticks := Suc (s_ticks s)\<rparr>)"
  by (simp add: acquireMirrorLease_def read_ms_def lease_read leaseIsActive_def locked_def)

lemma locked_op:
  assumes "locked e owner t s" and "lease_actor op \<noteq> owner" and "clock e (s_ticks s) < t + MIRROR_LOCK_TTL_MS"
  shows "locked e owner t (lock_op e op s) \<and> s_ticks (lock_op e op s) \<le> Suc (s_ticks s)"
  using assms by (cases op) (auto simp: locked_acquire refreshMirrorLease_def releaseMirrorLease_def locked_lease)

lemma locked_ops:
  assumes "locked e owner t s" and "\<forall>op \<in> set ops. lease_actor op \<noteq> owner" and "s_ticks s + length ops \<le> n"
    and "\<forall>k \<le> n. clock e k < t + MIRROR_LOCK_TTL_MS"
  shows "locked e owner t (fold (lock_op e) ops s) \<and> s_ticks (fold (lock_op e) ops s) \<le> s_ticks s + length ops"
  using assms
proof (induction ops arbitrary: s)
  case Nil
  then show ?case by simp
next
  case (Cons op ops)
  have s1: "locked e owner t (lock_op e op s) \<and> s_ticks (lock_op e op s) \<le> Suc (s_ticks s)"
    using locked_op [OF Cons.prems(1), of op] Cons.prems(2-4) by auto
  then show ?case using Cons.IH [of "lock_op e op s"] Cons.prems(2-4) by auto
qed

text \<open>
  C36. Once a run holds the lock of a database, whatever other runs do with the lock before the lease
  expires, every attempt of another run to get it is turned away; a reading of the clock is all it changes.
\<close>

theorem mirror_lock_exclusive:
  assumes got: "acquireMirrorLease e owner s = (Inr True, s1)"
    and date: "date_parse e (lockExpiresAt (clock e (s_ticks s))) = Some (clock e (s_ticks s) + MIRROR_LOCK_TTL_MS)"
    and others: "\<forall>op \<in> set ops. lease_actor op \<noteq> owner"
    and time: "\<forall>k \<le> s_ticks s + length ops + 1. clock e k < clock e (s_ticks s) + MIRROR_LOCK_TTL_MS"
    and other: "other \<noteq> owner"
  shows "acquireMirrorLease e other (fold (lock_op e) ops s1) =
    (Inr False, (fold (lock_op e) ops s1)\<lparr>s_ticks := Suc (s_ticks (fold (lock_op e) ops s1))\<rparr>)"
proof -
  have s1: "locked e owner (clock e (s_ticks s)) s1" "s_ticks s1 = Suc (s_ticks s)"
    using got date by (auto simp: acquireMirrorLease_def read_ms_def locked_def getSyncMeta_def setSyncMeta_def tget_tput
        split: option.splits if_splits)
  have "locked e owner (clock e (s_ticks s)) (fold (lock_op e) ops s1) \<and> s_ticks (fold (lock_op e) ops s1) \<le> s_ticks s + length ops + 1"
    using locked_ops [OF s1(1) others _ time] s1(2) by simp
  then show ?thesis using time other by (intro locked_acquire) auto
qed

definition lease_env :: env where
  "lease_env = sample_env\<lparr>date_parse := (\<lambda>t. if t = lockExpiresAt (clock sample_env 0) then Some (clock sample_env 0 + MIRROR_LOCK_TTL_MS) else None)\<rparr>"

theorem mirror_lock_exclusive_witness:
  "\<exists>s1. acquireMirrorLease lease_env ''run1'' empty_server = (Inr True, s1) \<and>
     fst (acquireMirrorLease lease_env ''run2'' (fold (lock_op lease_env) [Do_refresh ''run2'', Do_release ''run3''] s1)) = Inr False"
proof -
  obtain s1 where got: "acquireMirrorLease lease_env ''run1'' empty_server = (Inr True, s1)"
    by (auto simp: acquireMirrorLease_def read_ms_def getSyncMeta_def parseMirrorLease_def truthy_opt_def empty_server_def tget_def)
  let ?ops = "[Do_refresh ''run2'', Do_release ''run3'']"
  have date: "date_parse lease_env (lockExpiresAt (clock lease_env (s_ticks empty_server))) =
      Some (clock lease_env (s_ticks empty_server) + MIRROR_LOCK_TTL_MS)"
    by (simp add: lease_env_def empty_server_def)
  have time: "\<forall>k \<le> s_ticks empty_server + length ?ops + 1. clock lease_env k < clock lease_env (s_ticks empty_server) + MIRROR_LOCK_TTL_MS"
    by (simp add: lease_env_def sample_env_def empty_server_def MIRROR_LOCK_TTL_MS_def)
  from mirror_lock_exclusive [OF got date _ time, of "''run2''"] got show ?thesis by auto
qed

end
