(* ===== verification/MirrorRun.thy ===== *)
theory MirrorRun
  imports MirrorSync
begin

text \<open>
  A run of the mirror ends: every page moves the cursor strictly forward within the safe integers, and
  the cursor is set back at most once. So a bound on the number of pages exists that no run reaches,
  and the bound does not influence the result.
\<close>

section \<open>Errors an action can end with\<close>

definition fails_with :: "('e \<Rightarrow> bool) \<Rightarrow> ('e, 's, 'a) act \<Rightarrow> bool" where
  "fails_with E m \<longleftrightarrow> (\<forall>c err. fst (m c) = Inl err \<longrightarrow> E err)"

named_theorems fails_intros \<open>rules for the errors of a composed action\<close>

lemma fails_ret [fails_intros]: "fails_with E (ret x)"
  and fails_raise [fails_intros]: "E err \<Longrightarrow> fails_with E (raise err)"
  and fails_asks [fails_intros]: "fails_with E (asks f)"
  and fails_modify [fails_intros]: "fails_with E (modify g)"
  by (simp_all add: fails_with_def)

lemma fails_bnd [fails_intros]: "fails_with E m \<Longrightarrow> (\<And>x. fails_with E (f x)) \<Longrightarrow> fails_with E (bnd m f)"
  unfolding fails_with_def bnd_def by (auto split: prod.splits sum.splits) (metis fst_conv)

lemma fails_seq [fails_intros]: "fails_with E m \<Longrightarrow> fails_with E k \<Longrightarrow> fails_with E (seq m k)"
  unfolding seq_def by (rule fails_bnd)

lemma fails_if [fails_intros]: "fails_with E m \<Longrightarrow> fails_with E k \<Longrightarrow> fails_with E (if b then m else k)"
  by simp

lemma fails_option [fails_intros]:
  "fails_with E m \<Longrightarrow> (\<And>y. fails_with E (f y)) \<Longrightarrow> fails_with E (case x of None \<Rightarrow> m | Some y \<Rightarrow> f y)"
  by (cases x) auto

lemma fails_for_each [fails_intros]: "(\<And>x. fails_with E (f x)) \<Longrightarrow> fails_with E (for_each f xs)"
  by (induction xs) (auto intro: fails_intros)

lemma fails_check: "(\<And>err. r = Inl err \<Longrightarrow> E err) \<Longrightarrow> fails_with E (check r)"
  by (simp add: fails_with_def)

lemma fails_asks_check: "(\<And>c err. g c = Inl err \<Longrightarrow> E err) \<Longrightarrow> (\<And>x. fails_with E (f x)) \<Longrightarrow>
    fails_with E (bnd (asks g) (\<lambda>planned. bnd (check planned) f))"
  unfolding fails_with_def bnd_def by (auto split: prod.splits sum.splits)

lemma fails_pair [fails_intros]:
  "fails_with E m \<Longrightarrow> fails_with E (in_source m)" "fails_with E m \<Longrightarrow> fails_with E (in_target m)"
  "fails_with E k \<Longrightarrow> fails_with E (exchanged k)"
  by (auto simp: fails_with_def in_source_def in_target_def exchanged_def split: prod.splits) (metis fst_conv)+

lemma fails_finally [fails_intros]:
  assumes "fails_with E m" "fails_with E k"
  shows "fails_with E (finally_act m k)"
  unfolding fails_with_def
proof (intro allI impI)
  fix c err assume run: "fst (finally_act m k c) = Inl err"
  obtain r c1 where m: "m c = (r, c1)" by (metis prod.exhaust)
  obtain q c2 where k: "k c1 = (q, c2)" by (metis prod.exhaust)
  have "r = Inl err \<or> q = Inl err" using run m k by (cases q) (auto simp: finally_act_def)
  moreover have "fst (m c) = r" "fst (k c1) = q" using m k by simp_all
  ultimately show "E err" using assms unfolding fails_with_def by metis
qed

section \<open>No error of the mirror is the bound on the pages\<close>

abbreviation genuine :: "mirror_error \<Rightarrow> bool" where
  "genuine err \<equiv> err \<noteq> Out_of_fuel"

abbreviation genuine_errors :: "('s \<Rightarrow> (mirror_error + 'a) \<times> 's) \<Rightarrow> bool" where
  "genuine_errors \<equiv> fails_with genuine"

lemma fold_err_errors: "(\<And>x s err. f x s = Inl err \<Longrightarrow> E err) \<Longrightarrow> fold_err f xs s = Inl err \<Longrightarrow> E err"
  by (induction xs arbitrary: s) (auto simp: and_then_def split: sum.splits)

lemma genuine_state [fails_intros]:
  "genuine_errors (statement f)" "genuine_errors (acquireMirrorLease e owner)" "genuine_errors (releaseMirrorLease owner)"
  "genuine_errors (pull_page e owner cursor)" "genuine_errors (pushMirrorChanges e owner notebooks notes key)"
  "genuine_errors (putAuthUser user revoke)" "genuine_errors (sync_device e owner device)"
  by (auto simp: fails_with_def statement_def acquireMirrorLease_def releaseMirrorLease_def pull_page_def
      pushMirrorChanges_def putAuthUser_def sync_device_def seq_def bnd_def Let_def read_ms_def
      split: sum.splits prod.splits option.splits if_splits)

lemma plan_upsert_errors: "plan_upsert e kind unchanged targets tombstones r plan = Inl err \<Longrightarrow> genuine err"
  by (auto simp: plan_upsert_def Let_def split: option.splits if_splits)

lemma plan_deletion_errors: "plan_deletion e kind unchanged st sources targets i plan = Inl err \<Longrightarrow> genuine err"
  by (auto simp: plan_deletion_def Let_def split: option.splits if_splits)

lemma upsert_changes_errors: "upsert_changes e kind records target owner outRev mirrored = Inl err \<Longrightarrow> genuine err"
  unfolding upsert_changes_def Let_def by (erule fold_err_errors [rotated]) (rule plan_upsert_errors)

lemma delete_changes_errors: "delete_changes e kind ids source target owner outRev mirrored = Inl err \<Longrightarrow> genuine err"
  unfolding delete_changes_def Let_def by (erule fold_err_errors [rotated]) (rule plan_deletion_errors)

lemma plan_page_errors: "plan_page e snapshot owner outRev mirrored c = Inl err \<Longrightarrow> genuine err"
  by (cases c) (auto simp: plan_page_def and_then_def notebookChanges_def noteChanges_def notebookDeleteChanges_def
      noteDeleteChanges_def split: sum.splits dest: upsert_changes_errors delete_changes_errors)

lemma mirror_page_errors [fails_intros]: "genuine_errors (mirror_page es et owner key outRev snapshot next mirrored)"
  unfolding mirror_page_def write_page_def syncDevices_def
  by (intro fails_asks_check fails_intros) (rule plan_page_errors)

section \<open>The pages\<close>

definition pages_needed :: "bool \<Rightarrow> int \<Rightarrow> nat" where
  "pages_needed resetCursor cursor =
     (if resetCursor then 0 else nat max_safe_integer + 2) + nat (max_safe_integer - cursor) + 1"

definition mirror_fuel :: nat where
  "mirror_fuel = 2 * nat max_safe_integer + 3"

lemma next_cursor_forward:
  "next_cursor snapshot cursor = Inr n \<Longrightarrow> pl_hasMore snapshot \<Longrightarrow> 0 \<le> cursor \<and> cursor < n \<and> n \<le> max_safe_integer"
  by (auto simp: next_cursor_def safeRevisionCursor_Inr is_safe_integer_def split: sum.splits)

lemma next_cursor_errors: "next_cursor snapshot cursor = Inl err \<Longrightarrow> genuine err"
  by (auto simp: next_cursor_def split: sum.splits)

lemma mirror_pages_end:
  "pages_needed resetCursor cursor \<le> fuel \<Longrightarrow> 0 \<le> cursor \<Longrightarrow> cursor \<le> max_safe_integer \<Longrightarrow>
   mirror_pages (fuel + k) es et owner key outRev cursor resetCursor mirrored =
     mirror_pages fuel es et owner key outRev cursor resetCursor mirrored \<and>
   genuine_errors (mirror_pages fuel es et owner key outRev cursor resetCursor mirrored)"
proof (induction fuel arbitrary: cursor resetCursor mirrored)
  case 0
  then show ?case by (simp add: pages_needed_def)
next
  case (Suc fuel)
  let ?again = "\<lambda>f. seq (in_target (modify (setSyncMeta key ''0''))) (mirror_pages f es et owner key outRev 0 True mirrored)"
  let ?page = "\<lambda>f snapshot. bnd (check (next_cursor snapshot cursor)) (\<lambda>nextCursor.
      bnd (mirror_page es et owner key outRev snapshot nextCursor mirrored) (\<lambda>written.
        if pl_hasMore snapshot then mirror_pages f es et owner key outRev nextCursor resetCursor (mirrored @ written) else ret ()))"
  have reset: "?again (fuel + k) = ?again fuel \<and> genuine_errors (?again fuel)" if "\<not> resetCursor"
  proof -
    have "pages_needed True 0 \<le> fuel" using Suc.prems that by (simp add: pages_needed_def)
    moreover have "0 \<le> max_safe_integer" by (simp add: max_safe_integer_def)
    ultimately show ?thesis using Suc.IH [of True 0 mirrored] by (auto intro: fails_intros)
  qed
  have page: "?page (fuel + k) snapshot = ?page fuel snapshot \<and> genuine_errors (?page fuel snapshot)" for snapshot
  proof (cases "next_cursor snapshot cursor")
    case (Inl err)
    then show ?thesis using next_cursor_errors by (auto simp: fails_with_def bnd_def)
  next
    case (Inr n)
    have rest: "mirror_pages (fuel + k) es et owner key outRev n resetCursor m = mirror_pages fuel es et owner key outRev n resetCursor m \<and>
        genuine_errors (mirror_pages fuel es et owner key outRev n resetCursor m)" if "pl_hasMore snapshot" for m
    proof -
      note f = next_cursor_forward [OF Inr that]
      then have "pages_needed resetCursor n < pages_needed resetCursor cursor" by (auto simp: pages_needed_def)
      then show ?thesis using f Suc.prems by (intro Suc.IH) auto
    qed
    have run: "?page f snapshot = bnd (mirror_page es et owner key outRev snapshot n mirrored) (\<lambda>written.
        if pl_hasMore snapshot then mirror_pages f es et owner key outRev n resetCursor (mirrored @ written) else ret ())" for f
      by (simp add: fun_eq_iff bnd_def Inr)
    show ?thesis unfolding run using rest by (cases "pl_hasMore snapshot") (auto intro: fails_intros)
  qed
  have body: "(if pl_serverRevision snapshot < cursor \<and> \<not> resetCursor then ?again (fuel + k) else ?page (fuel + k) snapshot) =
      (if pl_serverRevision snapshot < cursor \<and> \<not> resetCursor then ?again fuel else ?page fuel snapshot) \<and>
      genuine_errors (if pl_serverRevision snapshot < cursor \<and> \<not> resetCursor then ?again fuel else ?page fuel snapshot)" for snapshot
    using reset page [of snapshot] by auto
  then have "(\<lambda>snapshot. if pl_serverRevision snapshot < cursor \<and> \<not> resetCursor then ?again (fuel + k) else ?page (fuel + k) snapshot) =
      (\<lambda>snapshot. if pl_serverRevision snapshot < cursor \<and> \<not> resetCursor then ?again fuel else ?page fuel snapshot)" by blast
  moreover have "genuine_errors (bnd (in_source (pull_page es owner cursor))
      (\<lambda>snapshot. if pl_serverRevision snapshot < cursor \<and> \<not> resetCursor then ?again fuel else ?page fuel snapshot))"
    using body by (intro fails_bnd fails_pair genuine_state) blast
  ultimately show ?case unfolding add_Suc mirror_pages.simps by (simp only: simp_thms)
qed

section \<open>The run\<close>

lemma stored_cursor_range: "0 \<le> stored_cursor v \<and> stored_cursor v \<le> max_safe_integer"
  by (auto simp: stored_cursor_def is_safe_integer_def max_safe_integer_def split: option.splits)

lemma owner_ends:
  "syncEntityOwnerOneWay (mirror_fuel + k) es et key out owner = syncEntityOwnerOneWay mirror_fuel es et key out owner \<and>
   genuine_errors (syncEntityOwnerOneWay mirror_fuel es et key out owner)"
proof -
  have "pages_needed False cursor \<le> mirror_fuel" if "0 \<le> cursor" for cursor
    using that by (simp add: pages_needed_def mirror_fuel_def)
  then have pages: "mirror_pages (mirror_fuel + k) es et owner (key @ ''.'' @ owner) outRev (stored_cursor v) False [] =
      mirror_pages mirror_fuel es et owner (key @ ''.'' @ owner) outRev (stored_cursor v) False [] \<and>
      genuine_errors (mirror_pages mirror_fuel es et owner (key @ ''.'' @ owner) outRev (stored_cursor v) False [])" for outRev v
    using stored_cursor_range by (intro mirror_pages_end) auto
  have "syncEntityOwnerOneWay fuel es et key out owner c =
      mirror_pages fuel es et owner (key @ ''.'' @ owner) (stored_cursor (getSyncMeta (fst c) (out @ ''.'' @ owner)))
        (stored_cursor (getSyncMeta (snd c) (key @ ''.'' @ owner))) False [] c" for fuel c
    by (simp add: syncEntityOwnerOneWay_def Let_def bnd_def case_prod_beta)
  then show ?thesis using pages by (auto simp: fun_eq_iff fails_with_def)
qed

lemma one_way_ends:
  "syncOneWay (mirror_fuel + k) es et key out copyUsers = syncOneWay mirror_fuel es et key out copyUsers \<and>
   genuine_errors (syncOneWay mirror_fuel es et key out copyUsers)"
proof -
  have "syncEntityOwnerOneWay (mirror_fuel + k) es et key out = syncEntityOwnerOneWay mirror_fuel es et key out"
    using owner_ends by blast
  then show ?thesis using owner_ends unfolding syncOneWay_def syncUsers_def sync_user_def by (auto intro!: fails_intros)
qed

lemma check_accounts_errors: "check_accounts c = Inl err \<Longrightarrow> genuine err"
  by (auto simp: check_accounts_def Let_def split: prod.splits if_splits)

lemma fails_accounts:
  assumes "genuine_errors k"
  shows "genuine_errors (bnd (asks check_accounts) (\<lambda>checked. seq (check checked) k))"
  unfolding seq_def by (rule fails_asks_check) (auto intro: assms dest: check_accounts_errors)

text \<open>
  C34. A run of the mirror between two databases always ends, with its result or with one of its own errors:
  the bound of the model on the number of pages is never reached, and a larger bound changes nothing.
\<close>

theorem mirror_run_ends:
  "fst (syncRemoteDatabase (mirror_fuel + k) el er (local, remote)) \<noteq> Inl Out_of_fuel \<and>
   syncRemoteDatabase (mirror_fuel + k) el er = syncRemoteDatabase mirror_fuel el er"
proof -
  have same: "syncOneWay (mirror_fuel + k) = syncOneWay mirror_fuel" using one_way_ends by (intro ext) metis
  have ticks: "genuine_errors (\<lambda>s. let (now, s1) = read_ms e s in (Inr now, s1))" for e by (simp add: fails_with_def read_ms_def)
  have uuid: "genuine_errors (\<lambda>s. let (owner, k) = random_uuid e (s_fresh s) in (Inr owner, s\<lparr>s_fresh := k\<rparr>))" for e
    by (simp add: fails_with_def random_uuid_def)
  have "genuine_errors (syncRemoteDatabase mirror_fuel el er)"
    unfolding syncRemoteDatabase_def acquireMirrorLeases_def release_leases_def syncDatabases_def syncAccountTombstones_def
    using one_way_ends
    by (intro fails_accounts fails_intros ticks uuid) auto
  then show ?thesis by (auto simp: fails_with_def syncRemoteDatabase_def syncDatabases_def same)
qed

end
