(* ===== verification/MirrorQueue.thy ===== *)
theory MirrorQueue
  imports MirrorSync
begin

text \<open>
  The queue that runs the mirror (\<open>apps/web/src/lib/server/hono.ts\<close>, for a server with a mirror): a request
  that changes the local database asks for a run, one loop serves the requests, a failed run is tried again
  after a time that doubles, and an entry of the database remembers across a restart that a run is due.

  The functions are asynchronous and share the module's variables, so the model is a state machine: an event
  is what happens between two \<open>await\<close>s of one of them, and events of different calls interleave freely. The
  write of the entry may fail (the code only reports it), so its event says whether it took place. Some
  account routes run the mirror themselves (\<open>Route_runs\<close>). No caller passes a promise to
  \<open>queueRemoteSyncAfter\<close>, so the branch for one that failed is left out, as are the times that are only
  reported.

  What the mirror has to copy is recorded beside the variables of the code: whether the local database has a
  change that no run has read, and whether the run under way has read one.
\<close>

section \<open>The state\<close>

datatype RemoteSyncState = Disabled | Queued | Syncing | In_sync | Failing

datatype mirror_outcome = Mirrored | Already_running | Broken

definition isRemoteMirrorSyncAlreadyRunning :: "mirror_error \<Rightarrow> bool" where
  "isRemoteMirrorSyncAlreadyRunning err \<longleftrightarrow> err = Lock_unavailable"

definition outcome_of :: "mirror_error + unit \<Rightarrow> mirror_outcome" where
  "outcome_of r =
     (case r of
        Inr _ \<Rightarrow> Mirrored
      | Inl err \<Rightarrow> if isRemoteMirrorSyncAlreadyRunning err then Already_running else Broken)"

text \<open>Where the loop of the queue is: which \<open>await\<close> it has reached.\<close>

datatype queue_loop =
    Idle
  | Opening
  | Mirroring
  | Noting mirror_outcome
  | Noted mirror_outcome
  | Answered bool
  | Clearing
  | Cleared

datatype route_run = Route_mirroring | Route_noting mirror_outcome | Route_noted mirror_outcome

record mirror_queue =
  q_pendingFlag :: bool
  q_queued :: bool
  q_retryTimer :: bool
  q_failureCount :: nat
  q_status :: RemoteSyncState
  q_lastError :: "string option"
  q_loop :: queue_loop
  q_inFlight :: bool
  q_called :: nat
  q_written :: nat
  q_routes :: "route_run list"
  q_committed :: nat
  q_hasRead :: bool
  q_unread :: bool
  q_carried :: bool

definition start_queue :: mirror_queue where
  "start_queue = \<lparr>q_pendingFlag = False, q_queued = False, q_retryTimer = False, q_failureCount = 0, q_status = In_sync,
     q_lastError = None, q_loop = Idle, q_inFlight = False, q_called = 0, q_written = 0, q_routes = [], q_committed = 0,
     q_hasRead = False, q_unread = False, q_carried = False\<rparr>"

section \<open>The functions\<close>

definition REMOTE_SYNC_RETRY_BASE_MS :: nat where
  "REMOTE_SYNC_RETRY_BASE_MS = 5000"

definition REMOTE_SYNC_RETRY_MAX_MS :: nat where
  "REMOTE_SYNC_RETRY_MAX_MS = 5 * 60000"

definition retry_delay :: "nat \<Rightarrow> nat" where
  "retry_delay failureCount = min (REMOTE_SYNC_RETRY_BASE_MS * 2 ^ (failureCount - 1)) REMOTE_SYNC_RETRY_MAX_MS"

definition scheduleRemoteSyncRetry :: "mirror_queue \<Rightarrow> mirror_queue" where
  "scheduleRemoteSyncRetry q =
     (if q_retryTimer q then q else q\<lparr>q_failureCount := Suc (q_failureCount q), q_retryTimer := True\<rparr>)"

definition clearRemoteSyncRetry :: "mirror_queue \<Rightarrow> mirror_queue" where
  "clearRemoteSyncRetry q = q\<lparr>q_retryTimer := False\<rparr>"

definition setRemoteSyncState :: "RemoteSyncState \<Rightarrow> string option \<Rightarrow> mirror_queue \<Rightarrow> mirror_queue" where
  "setRemoteSyncState state lastError q = q\<lparr>q_status := state, q_lastError := lastError\<rparr>"

definition setPersistentRemoteSyncPending :: "bool \<Rightarrow> bool \<Rightarrow> mirror_queue \<Rightarrow> mirror_queue" where
  "setPersistentRemoteSyncPending pending stored q = (if stored then q\<lparr>q_pendingFlag := pending\<rparr> else q)"

definition queueRemoteSyncSoon :: "mirror_queue \<Rightarrow> mirror_queue" where
  "queueRemoteSyncSoon q = q\<lparr>q_called := Suc (q_called q)\<rparr>"

text \<open>A run of the mirror: a second caller waits for the run under way.\<close>

definition join_mirror :: "mirror_queue \<Rightarrow> mirror_queue" where
  "join_mirror q = (if q_inFlight q then q else q\<lparr>q_inFlight := True, q_hasRead := False\<rparr>)"

definition mirror_reads :: "mirror_queue \<Rightarrow> mirror_queue" where
  "mirror_reads q = q\<lparr>q_hasRead := True, q_carried := q_carried q \<or> q_unread q, q_unread := False\<rparr>"

definition mirror_ends :: "mirror_outcome \<Rightarrow> mirror_queue \<Rightarrow> mirror_queue" where
  "mirror_ends r q =
     q\<lparr>q_inFlight := False, q_carried := False, q_unread := q_unread q \<or> (r \<noteq> Mirrored \<and> q_carried q),
       q_loop := (if q_loop q = Mirroring then Noting r else q_loop q),
       q_routes := map (\<lambda>x. if x = Route_mirroring then Route_noting r else x) (q_routes q)\<rparr>"

text \<open>The rest of \<open>syncRemoteBestEffort\<close>: the write of the entry, and what follows it.\<close>

definition note_outcome :: "mirror_outcome \<Rightarrow> bool \<Rightarrow> mirror_queue \<Rightarrow> mirror_queue" where
  "note_outcome r stored = setPersistentRemoteSyncPending (r \<noteq> Mirrored) stored"

definition after_note :: "mirror_outcome \<Rightarrow> mirror_queue \<Rightarrow> mirror_queue" where
  "after_note r q = (if r = Already_running then scheduleRemoteSyncRetry (setRemoteSyncState Queued None q) else q)"

text \<open>The loop of \<open>queueRemoteSyncAfter\<close>: its head, its end, and what it does with the answer of a run.\<close>

definition leave_loop :: "mirror_queue \<Rightarrow> mirror_queue" where
  "leave_loop q = (let q1 = q\<lparr>q_loop := Idle\<rparr> in if q_queued q1 then queueRemoteSyncSoon q1 else q1)"

definition loop_head :: "mirror_queue \<Rightarrow> mirror_queue" where
  "loop_head q =
     (if q_queued q then setRemoteSyncState Syncing None (q\<lparr>q_queued := False, q_loop := Opening\<rparr>) else leave_loop q)"

definition handle_answer :: "bool \<Rightarrow> mirror_queue \<Rightarrow> mirror_queue" where
  "handle_answer ok q =
     (if \<not> ok then
        let q1 = scheduleRemoteSyncRetry q
        in leave_loop (if q_status q1 = Queued \<and> q_lastError q1 = None then q1
                       else setRemoteSyncState Failing (Some ''Remote database sync failed'') q1)
      else let q1 = q\<lparr>q_failureCount := 0\<rparr>
        in if \<not> q_queued q1 then q1\<lparr>q_loop := Clearing\<rparr> else loop_head (setRemoteSyncState In_sync None q1))"

definition queueRemoteSyncAfter :: "mirror_queue \<Rightarrow> mirror_queue" where
  "queueRemoteSyncAfter q =
     (let q1 = setRemoteSyncState Queued None ((clearRemoteSyncRetry q)\<lparr>q_queued := True\<rparr>)
      in if q_loop q1 \<noteq> Idle then q1 else loop_head q1)"

section \<open>The events\<close>

datatype queue_event =
    Change_committed
  | Queue_called
  | Queue_soon
  | Flag_written bool
  | Queue_continued
  | Database_opened bool
  | Mirror_reads
  | Mirror_ends mirror_outcome
  | Outcome_noted bool
  | Outcome_returned
  | Answer_handled
  | Flag_cleared bool
  | Clear_returned
  | Timer_fired
  | Route_runs
  | Route_writes nat bool
  | Route_returns nat

text \<open>\<open>Queue_soon\<close> stands for the requests that ask for a run without a change: reading routes, a login, a due entry after a restart.\<close>

fun happens :: "queue_event \<Rightarrow> mirror_queue \<Rightarrow> mirror_queue option" where
  "happens Change_committed q = Some (q\<lparr>q_committed := Suc (q_committed q), q_unread := True\<rparr>)"
| "happens Queue_called q =
     (if q_committed q = 0 then None else Some (queueRemoteSyncSoon (q\<lparr>q_committed := q_committed q - 1\<rparr>)))"
| "happens Queue_soon q = Some (queueRemoteSyncSoon q)"
| "happens (Flag_written stored) q =
     (if q_called q = 0 then None
      else Some (setPersistentRemoteSyncPending True stored (q\<lparr>q_called := q_called q - 1, q_written := Suc (q_written q)\<rparr>)))"
| "happens Queue_continued q = (if q_written q = 0 then None else Some (queueRemoteSyncAfter (q\<lparr>q_written := q_written q - 1\<rparr>)))"
| "happens (Database_opened ok) q =
     (if q_loop q \<noteq> Opening then None
      else Some (if ok then join_mirror (q\<lparr>q_loop := Mirroring\<rparr>) else q\<lparr>q_loop := Answered False\<rparr>))"
| "happens Mirror_reads q = (if q_inFlight q then Some (mirror_reads q) else None)"
| "happens (Mirror_ends r) q = (if q_inFlight q \<and> (r = Mirrored \<longrightarrow> q_hasRead q) then Some (mirror_ends r q) else None)"
| "happens (Outcome_noted stored) q =
     (case q_loop q of Noting r \<Rightarrow> Some ((note_outcome r stored q)\<lparr>q_loop := Noted r\<rparr>) | _ \<Rightarrow> None)"
| "happens Outcome_returned q =
     (case q_loop q of Noted r \<Rightarrow> Some ((after_note r q)\<lparr>q_loop := Answered (r = Mirrored)\<rparr>) | _ \<Rightarrow> None)"
| "happens Answer_handled q = (case q_loop q of Answered ok \<Rightarrow> Some (handle_answer ok q) | _ \<Rightarrow> None)"
| "happens (Flag_cleared stored) q =
     (if q_loop q \<noteq> Clearing then None else Some ((setPersistentRemoteSyncPending False stored q)\<lparr>q_loop := Cleared\<rparr>))"
| "happens Clear_returned q =
     (if q_loop q \<noteq> Cleared then None else Some (loop_head (setRemoteSyncState In_sync None q)))"
| "happens Timer_fired q = (if q_retryTimer q then Some (queueRemoteSyncSoon (q\<lparr>q_retryTimer := False\<rparr>)) else None)"
| "happens Route_runs q = Some (join_mirror (q\<lparr>q_routes := q_routes q @ [Route_mirroring]\<rparr>))"
| "happens (Route_writes i stored) q =
     (if i < length (q_routes q) then
        (case q_routes q ! i of
           Route_noting r \<Rightarrow> Some ((note_outcome r stored q)\<lparr>q_routes := (q_routes q)[i := Route_noted r]\<rparr>)
         | _ \<Rightarrow> None)
      else None)"
| "happens (Route_returns i) q =
     (if i < length (q_routes q) then
        (case q_routes q ! i of
           Route_noted r \<Rightarrow> Some ((after_note r q)\<lparr>q_routes := take i (q_routes q) @ drop (Suc i) (q_routes q)\<rparr>)
         | _ \<Rightarrow> None)
      else None)"

text \<open>The states the queue can be in; the first argument says whether account routes run the mirror themselves.\<close>

inductive queue_reachable :: "bool \<Rightarrow> mirror_queue \<Rightarrow> bool" where
  started: "queue_reachable routes start_queue"
| event: "queue_reachable routes q \<Longrightarrow> happens ev q = Some q' \<Longrightarrow> ev = Route_runs \<longrightarrow> routes \<Longrightarrow> queue_reachable routes q'"

text \<open>A restart of the process keeps the database only.\<close>

definition restarted :: "mirror_queue \<Rightarrow> mirror_queue" where
  "restarted q = start_queue\<lparr>q_pendingFlag := q_pendingFlag q, q_unread := q_unread q \<or> q_carried q\<rparr>"

definition revives :: "mirror_queue \<Rightarrow> bool" where
  "revives q \<longleftrightarrow> q_loop q = Idle \<and> \<not> q_queued q \<and> \<not> q_retryTimer q \<and> q_pendingFlag q"

section \<open>No change is forgotten\<close>

fun loop_repeats :: "queue_loop \<Rightarrow> bool" where
  "loop_repeats Opening = True"
| "loop_repeats (Noting r) = (r \<noteq> Mirrored)"
| "loop_repeats (Noted r) = (r \<noteq> Mirrored)"
| "loop_repeats (Answered ok) = (\<not> ok)"
| "loop_repeats _ = False"

definition run_is_due :: "mirror_queue \<Rightarrow> bool" where
  "run_is_due q \<longleftrightarrow> 0 < q_committed q + q_called q + q_written q \<or> q_queued q \<or> q_retryTimer q \<or>
     loop_repeats (q_loop q) \<or> q_loop q = Mirroring \<and> \<not> q_hasRead q"

definition queue_inv :: "mirror_queue \<Rightarrow> bool" where
  "queue_inv q \<longleftrightarrow> (q_unread q \<longrightarrow> run_is_due q) \<and> (q_carried q \<longrightarrow> q_inFlight q) \<and>
     (q_queued q \<longrightarrow> q_loop q \<noteq> Idle \<or> 0 < q_called q + q_written q) \<and>
     (q_inFlight q \<longleftrightarrow> q_loop q = Mirroring) \<and> q_routes q = []"

lemmas queue_defs = queueRemoteSyncSoon_def setPersistentRemoteSyncPending_def setRemoteSyncState_def
  clearRemoteSyncRetry_def scheduleRemoteSyncRetry_def join_mirror_def mirror_reads_def note_outcome_def

lemma queue_reads [simp]:
  "q_loop (setRemoteSyncState st err q) = q_loop q" "q_queued (setRemoteSyncState st err q) = q_queued q"
  "q_unread (setRemoteSyncState st err q) = q_unread q" "q_carried (setRemoteSyncState st err q) = q_carried q"
  "q_inFlight (setRemoteSyncState st err q) = q_inFlight q" "q_routes (setRemoteSyncState st err q) = q_routes q"
  "q_called (setRemoteSyncState st err q) = q_called q" "q_written (setRemoteSyncState st err q) = q_written q"
  "q_committed (setRemoteSyncState st err q) = q_committed q" "q_hasRead (setRemoteSyncState st err q) = q_hasRead q"
  "q_loop (clearRemoteSyncRetry q) = q_loop q" "q_queued (clearRemoteSyncRetry q) = q_queued q"
  "q_unread (clearRemoteSyncRetry q) = q_unread q" "q_carried (clearRemoteSyncRetry q) = q_carried q"
  "q_inFlight (clearRemoteSyncRetry q) = q_inFlight q" "q_routes (clearRemoteSyncRetry q) = q_routes q"
  "q_called (clearRemoteSyncRetry q) = q_called q" "q_written (clearRemoteSyncRetry q) = q_written q"
  "q_committed (clearRemoteSyncRetry q) = q_committed q" "q_hasRead (clearRemoteSyncRetry q) = q_hasRead q"
  "q_loop (scheduleRemoteSyncRetry q) = q_loop q" "q_queued (scheduleRemoteSyncRetry q) = q_queued q"
  "q_unread (scheduleRemoteSyncRetry q) = q_unread q" "q_carried (scheduleRemoteSyncRetry q) = q_carried q"
  "q_inFlight (scheduleRemoteSyncRetry q) = q_inFlight q" "q_routes (scheduleRemoteSyncRetry q) = q_routes q"
  "q_called (scheduleRemoteSyncRetry q) = q_called q" "q_written (scheduleRemoteSyncRetry q) = q_written q"
  "q_committed (scheduleRemoteSyncRetry q) = q_committed q" "q_hasRead (scheduleRemoteSyncRetry q) = q_hasRead q"
  "q_retryTimer (setRemoteSyncState st err q) = q_retryTimer q" "q_retryTimer (scheduleRemoteSyncRetry q)"
  by (simp_all add: queue_defs)

lemma inv_loop_head:
  assumes "q_carried q \<longrightarrow> q_inFlight q" "\<not> q_inFlight q" "q_routes q = []"
    and "q_unread q \<longrightarrow> 0 < q_committed q + q_called q + q_written q \<or> q_queued q \<or> q_retryTimer q"
  shows "queue_inv (loop_head q)" "queue_inv (leave_loop q)"
  using assms by (auto simp: loop_head_def leave_loop_def queue_inv_def run_is_due_def queueRemoteSyncSoon_def Let_def)

lemma inv_queueRemoteSyncAfter:
  assumes "queue_inv q" "q_written q = Suc w"
  shows "queue_inv (queueRemoteSyncAfter (q\<lparr>q_written := w\<rparr>))"
proof (cases "q_loop q = Idle")
  case True
  then show ?thesis using assms unfolding queueRemoteSyncAfter_def Let_def
    by (simp, intro inv_loop_head) (auto simp: queue_inv_def)
next
  case False
  then show ?thesis using assms
    by (auto simp: queueRemoteSyncAfter_def Let_def queue_defs queue_inv_def run_is_due_def)
qed

lemma inv_handle_answer:
  assumes "queue_inv q" "q_loop q = Answered ok"
  shows "queue_inv (handle_answer ok q)"
proof (cases ok)
  case False
  then show ?thesis using assms unfolding handle_answer_def Let_def
    by (simp, intro conjI impI inv_loop_head) (auto simp: queue_inv_def)
next
  case True
  show ?thesis
  proof (cases "q_queued q")
    case True
    then show ?thesis using assms \<open>ok\<close> unfolding handle_answer_def Let_def
      by (simp, intro inv_loop_head) (auto simp: queue_inv_def)
  next
    case False
    then show ?thesis using assms \<open>ok\<close> by (auto simp: handle_answer_def queue_inv_def run_is_due_def Let_def)
  qed
qed

lemma inv_mirror_ends:
  assumes "queue_inv q" "q_inFlight q" "r = Mirrored \<longrightarrow> q_hasRead q"
  shows "queue_inv (mirror_ends r q)"
  using assms by (cases r) (auto simp: queue_inv_def run_is_due_def mirror_ends_def)

lemma inv_after_note:
  assumes "queue_inv q" "q_loop q = Noted r"
  shows "queue_inv ((after_note r q)\<lparr>q_loop := Answered (r = Mirrored)\<rparr>)"
  using assms by (cases r) (auto simp: queue_inv_def run_is_due_def after_note_def queue_defs)

lemma inv_note:
  assumes "queue_inv q" "q_loop q = Noting r"
  shows "queue_inv ((note_outcome r stored q)\<lparr>q_loop := Noted r\<rparr>)"
  using assms by (cases r) (auto simp: queue_inv_def run_is_due_def queue_defs)

lemma queue_inv_event:
  assumes inv: "queue_inv q" and step: "happens ev q = Some q'" and ev: "ev \<noteq> Route_runs"
  shows "queue_inv q'"
proof (cases ev)
  case Queue_continued
  then show ?thesis using step inv_queueRemoteSyncAfter [OF inv] by (auto split: if_splits simp: gr0_conv_Suc)
next
  case (Mirror_ends r)
  then show ?thesis using step inv_mirror_ends [OF inv] by (auto split: if_splits)
next
  case (Outcome_noted stored)
  then show ?thesis using step inv_note [OF inv] by (auto split: queue_loop.splits)
next
  case Outcome_returned
  then show ?thesis using step inv_after_note [OF inv] by (auto split: queue_loop.splits)
next
  case Answer_handled
  then show ?thesis using step inv_handle_answer [OF inv] by (auto split: queue_loop.splits)
next
  case Clear_returned
  then have q': "q' = loop_head (setRemoteSyncState In_sync None q)" and "q_loop q = Cleared" using step by (auto split: if_splits)
  then show ?thesis unfolding q' using inv by (intro inv_loop_head) (auto simp: queue_inv_def run_is_due_def queue_defs)
next
  case (Database_opened ok)
  then show ?thesis using step inv by (auto simp: queue_inv_def run_is_due_def queue_defs split: if_splits)
next
  case (Flag_cleared stored)
  then show ?thesis using step inv by (auto simp: queue_inv_def run_is_due_def queue_defs split: if_splits)
next
  case (Flag_written stored)
  then show ?thesis using step inv by (auto simp: queue_inv_def run_is_due_def queue_defs split: if_splits)
next
  case (Route_writes i stored)
  then show ?thesis using step inv by (simp add: queue_inv_def)
next
  case (Route_returns i)
  then show ?thesis using step inv by (simp add: queue_inv_def)
next
  case Change_committed
  then have "q' = q\<lparr>q_committed := Suc (q_committed q), q_unread := True\<rparr>" using step by simp
  then show ?thesis using inv by (auto simp: queue_inv_def run_is_due_def)
next
  case Queue_called
  then have "q' = queueRemoteSyncSoon (q\<lparr>q_committed := q_committed q - 1\<rparr>)" using step by (simp split: if_splits)
  then show ?thesis using inv by (auto simp: queue_inv_def run_is_due_def queueRemoteSyncSoon_def)
next
  case Queue_soon
  then have "q' = queueRemoteSyncSoon q" using step by (simp split: if_splits)
  then show ?thesis using inv by (auto simp: queue_inv_def run_is_due_def queueRemoteSyncSoon_def)
next
  case Mirror_reads
  then have "q' = mirror_reads q" and "q_inFlight q" using step by (simp_all split: if_splits)
  then show ?thesis using inv by (auto simp: queue_inv_def run_is_due_def mirror_reads_def)
next
  case Timer_fired
  then have "q' = queueRemoteSyncSoon (q\<lparr>q_retryTimer := False\<rparr>)" using step by (simp split: if_splits)
  then show ?thesis using inv by (auto simp: queue_inv_def run_is_due_def queueRemoteSyncSoon_def)
qed (use ev in simp)

lemma queue_inv_reachable: "queue_reachable routes q \<Longrightarrow> \<not> routes \<Longrightarrow> queue_inv q"
proof (induction rule: queue_reachable.induct)
  case (started routes)
  then show ?case by (simp add: queue_inv_def start_queue_def)
next
  case (event routes q ev q')
  then show ?case by (auto intro: queue_inv_event)
qed

text \<open>
  C35. As long as only the queue runs the mirror, no change of the local database is forgotten: whenever
  there is a change that no run has read, a request for a run is under way, a run is about to start or
  has failed and will be tried again, or the timer for the next attempt is set.
\<close>

theorem queue_forgets_nothing:
  assumes "queue_reachable False q"
  shows "(q_unread q \<longrightarrow> run_is_due q) \<and> (q_queued q \<longrightarrow> q_loop q \<noteq> Idle \<or> 0 < q_called q + q_written q)"
  using queue_inv_reachable [OF assms] by (simp add: queue_inv_def)

section \<open>Two ways to lose a change\<close>

text \<open>Sequences of events.\<close>

fun happen_all :: "queue_event list \<Rightarrow> mirror_queue \<Rightarrow> mirror_queue option" where
  "happen_all [] q = Some q"
| "happen_all (ev # evs) q = Option.bind (happens ev q) (happen_all evs)"

lemma happen_all_reachable:
  "queue_reachable routes q \<Longrightarrow> happen_all evs q = Some q' \<Longrightarrow> Route_runs \<in> set evs \<longrightarrow> routes \<Longrightarrow> queue_reachable routes q'"
  by (induction evs arbitrary: q) (auto split: Option.bind_splits intro: queue_reachable.event)

definition one_change :: "queue_event list" where
  "one_change = [Change_committed, Queue_called, Flag_written True, Queue_continued]"

lemma happen_all_case: "(case happen_all evs q of Some q' \<Rightarrow> P q' | None \<Rightarrow> False) \<Longrightarrow> \<exists>q'. happen_all evs q = Some q' \<and> P q'"
  by (auto split: option.splits)

theorem queue_forgets_nothing_witness:
  "\<exists>q. happen_all one_change start_queue = Some q \<and> q_unread q \<and> run_is_due q"
proof -
  have "case happen_all one_change start_queue of Some q \<Rightarrow> q_unread q | None \<Rightarrow> False" by code_simp
  then obtain q where q: "happen_all one_change start_queue = Some q" "q_unread q" by (auto dest: happen_all_case)
  have "queue_reachable False q" by (rule happen_all_reachable [OF started q(1)]) (simp add: one_change_def)
  from queue_forgets_nothing [OF this] q show ?thesis by auto
qed

text \<open>
  A run that ends clears the entry even if a change was queued while it was under way. The change is
  still due in memory, but a restart before the next run ends forgets it.
\<close>

definition overtaken_entry :: "queue_event list" where
  "overtaken_entry = one_change @ [Database_opened True, Mirror_reads] @ one_change @ [Mirror_ends Mirrored, Outcome_noted True]"

lemma restart_forgets_queued_change:
  "\<exists>q. queue_reachable False q \<and> q_queued q \<and> q_unread q \<and> \<not> q_pendingFlag q \<and>
     q_unread (restarted q) \<and> \<not> run_is_due (restarted q) \<and> \<not> revives (restarted q)"
proof -
  let ?P = "\<lambda>q. q_queued q \<and> q_unread q \<and> \<not> q_pendingFlag q \<and> q_unread (restarted q) \<and> \<not> run_is_due (restarted q) \<and> \<not> revives (restarted q)"
  have "case happen_all overtaken_entry start_queue of Some q \<Rightarrow> ?P q | None \<Rightarrow> False" by code_simp
  then obtain q where q: "happen_all overtaken_entry start_queue = Some q" "?P q" by (auto dest: happen_all_case)
  have "queue_reachable False q"
    by (rule happen_all_reachable [OF started q(1)]) (simp add: overtaken_entry_def one_change_def)
  then show ?thesis using q(2) by blast
qed

text \<open>
  A route that runs the mirror itself may be the one whose run the queue waits for. A change committed after
  that run has read counts as mirrored when it ends: nothing is due any more, and the state says in sync.
\<close>

definition joined_run :: "queue_event list" where
  "joined_run = [Route_runs, Mirror_reads] @ one_change @
     [Database_opened True, Mirror_ends Mirrored, Outcome_noted True, Outcome_returned, Answer_handled, Flag_cleared True, Clear_returned,
      Route_writes 0 True, Route_returns 0]"

lemma joined_run_hides_change:
  "\<exists>q. queue_reachable True q \<and> q_unread q \<and> \<not> run_is_due q \<and> \<not> q_inFlight q \<and> q_status q = In_sync \<and> \<not> revives q"
proof -
  let ?P = "\<lambda>q. q_unread q \<and> \<not> run_is_due q \<and> \<not> q_inFlight q \<and> q_status q = In_sync \<and> \<not> revives q"
  have "case happen_all joined_run start_queue of Some q \<Rightarrow> ?P q | None \<Rightarrow> False" by code_simp
  then obtain q where q: "happen_all joined_run start_queue = Some q" "?P q" by (auto dest: happen_all_case)
  have "queue_reachable True q" by (rule happen_all_reachable [OF started q(1)]) simp
  then show ?thesis using q(2) by blast
qed

end
