(* ===== verification/Acknowledge.thy ===== *)
theory Acknowledge
  imports PushTheorems ClientSync StoreLemmas ClientSamples
begin

text \<open>
  Client and server put together: what the client makes of the answer to a push. The client may have
  done anything while the request was under way; what counts is the row it has when the answer arrives.
\<close>

section \<open>Marking accepted records\<close>

text \<open>The row of a note after its entry of the answer has been applied.\<close>

definition acknowledged :: "string \<Rightarrow> accepted_change list \<Rightarrow> accepted_change \<Rightarrow> LocalNote \<Rightarrow> LocalNote" where
  "acknowledged t pushed a m =
     (let same = still_matches (pushed_change pushed Note_entity (ac_id a)) (n_version m) (n_updatedAt m)
      in m\<lparr>n_version := (if same then ac_version a else n_version m), n_syncStatus := (if same then Synced else Pending),
           ln_lastSyncedVersion := ac_version a, ln_lastSyncedAt := Some t\<rparr>)"

lemma mark_accepted_other:
  "(ac_entityType a, ac_id a) \<noteq> (Note_entity, i) \<Longrightarrow> storedNote i (mark_accepted t pushed a c) = storedNote i c"
  by (auto simp: mark_accepted_def Let_def tget_tput split: option.split dest: tget_key)

lemma mark_accepted_this:
  "ac_entityType a = Note_entity \<Longrightarrow> ac_id a = i \<Longrightarrow> storedNote i c = Some m \<Longrightarrow>
   storedNote i (mark_accepted t pushed a c) = Some (acknowledged t pushed a m)"
  by (auto simp: mark_accepted_def Let_def tget_tput acknowledged_def dest: tget_key)

lemma fold_mark_other:
  "(Note_entity, i) \<notin> set (map (\<lambda>a. (ac_entityType a, ac_id a)) acc) \<Longrightarrow>
   storedNote i (fold (mark_accepted t pushed) acc c) = storedNote i c"
  by (induction acc arbitrary: c) (auto simp: mark_accepted_other)

lemma fold_mark_accepted:
  assumes d: "distinct (map (\<lambda>a. (ac_entityType a, ac_id a)) acc)" and a: "a \<in> set acc" "ac_entityType a = Note_entity" "ac_id a = i"
    and m: "storedNote i c = Some m"
  shows "storedNote i (fold (mark_accepted t pushed) acc c) = Some (acknowledged t pushed a m)"
proof -
  obtain xs ys where acc: "acc = xs @ a # ys" using a(1) by (meson split_list)
  have "storedNote i (fold (mark_accepted t pushed) xs c) = Some m"
    using d a m by (subst fold_mark_other) (auto simp: acc)
  then have "storedNote i (mark_accepted t pushed a (fold (mark_accepted t pushed) xs c)) = Some (acknowledged t pushed a m)"
    using a by (intro mark_accepted_this)
  then show ?thesis using d a by (simp add: acc fold_mark_other)
qed

section \<open>Conflicts of other records\<close>

fun about_note :: "string \<Rightarrow> any_conflict \<Rightarrow> bool" where
  "about_note i (NoteConflict cf) \<longleftrightarrow> sc_entityId cf = i"
| "about_note i (NotebookConflict cf) \<longleftrightarrow> False"

lemma store_conflict_other:
  "\<not> about_note i conf \<Longrightarrow> stored_like conf st \<Longrightarrow> storedNote i (store_conflict conf t st c) = storedNote i c"
  by (cases conf) (auto simp: store_note_conflict_def store_notebook_conflict_def open_conflict_def tget_tput
      split: option.split dest: tget_key)

lemma absorb_other: "\<not> about_note i conf \<Longrightarrow> storedNote i (absorb conf t c) = storedNote i c"
  by (cases conf) (auto simp: tget_tput split: option.split dest: tget_key)

lemma handleConflict_other:
  assumes "quiet cx" and "\<not> about_note i conf"
  shows "keeps (\<lambda>c. storedNote i c = x) (handleConflict cx p t conf)"
  unfolding handleConflict_def absorbSameDevicePushConflict_def
  by (intro keeps_intros keeps_modify keeps_saveConflict frame_rules store_only_read quiet_others_keep assms)
    (simp_all add: conflict_safe_def store_conflict_other absorb_other assms)

lemma applyPushResponse_row:
  assumes q: "quiet cx" and d: "distinct (map (\<lambda>a. (ac_entityType a, ac_id a)) (ps_accepted resp))"
    and a: "a \<in> set (ps_accepted resp)" "ac_entityType a = Note_entity" "ac_id a = i"
    and k: "\<forall>conf \<in> set (ps_conflicts resp). \<not> about_note i conf" and m: "storedNote i c = Some m"
    and run: "applyPushResponse cx dv p resp c = (r, c')"
  shows "storedNote i c' = Some (acknowledged (ps_serverTime resp) (pushed_stamps p) a m)"
proof -
  let ?new = "Some (acknowledged (ps_serverTime resp) (pushed_stamps p) a m)"
  have rest: "keeps (\<lambda>c. storedNote i c = ?new) (map_each (handleConflict cx p (ps_serverTime resp)) (ps_conflicts resp))"
    using k by (intro keeps_map_each handleConflict_other q) auto
  have "leads (\<lambda>c. storedNote i c = Some m) (\<lambda>c. storedNote i c = ?new)
      (seq (markAcceptedChanges (ps_accepted resp) (ps_serverTime resp) (pushed_stamps p))
        (bnd (map_each (handleConflict cx p (ps_serverTime resp)) (ps_conflicts resp)) (\<lambda>counts. ret (sum_list counts))))"
  proof (rule leads_then [where R = "\<lambda>c. storedNote i c = ?new"])
    show "leads (\<lambda>c. storedNote i c = Some m) (\<lambda>c. storedNote i c = ?new)
        (markAcceptedChanges (ps_accepted resp) (ps_serverTime resp) (pushed_stamps p))"
      unfolding markAcceptedChanges_def by (intro leads_modify fold_mark_accepted [OF d a])
    show "leads (\<lambda>c. storedNote i c = ?new) (\<lambda>c. storedNote i c = ?new)
        (bnd (map_each (handleConflict cx p (ps_serverTime resp)) (ps_conflicts resp)) (\<lambda>counts. ret (sum_list counts)))"
      unfolding keeps_leads [symmetric] by (intro keeps_bnd [OF rest] keeps_ret)
  qed
  note body = leadsD [OF this]
  define c1 where "c1 = snd (rememberPushedDevice dv c)"
  have c1: "rememberPushedDevice dv c = (Inr (), c1)" "storedNote i c1 = Some m"
    using m by (simp_all add: rememberPushedDevice_def putMeta_def c1_def)
  show ?thesis using run by (intro body [OF c1(2)]) (simp add: applyPushResponse_def seq_run [of "rememberPushedDevice dv"] c1(1))
qed

section \<open>The answer of the server\<close>

lemma push_conflict_types:
  assumes wf: "wf_server s" and v: "valid_ids req" and push: "pushChanges e req owner opts s = Inr (resp, s')"
    and k: "NoteConflict cf \<in> set (ps_conflicts resp)"
  shows "sc_entityType cf = Note_entity"
proof -
  from pushChanges_Inr [OF push] obtain now s1 nbAcc s2 nAcc
    where run: "push_run e req owner opts s now s1 nbAcc s2 nAcc s'"
      and resp: "ps_conflicts resp = map NotebookConflict (pa_conflicts nbAcc) @ map NoteConflict (pa_conflicts nAcc)" by auto
  have w2: "wf_table note_key (s_notes s2)" using push_run_facts(2) [OF wf v run] by (simp add: wf_server_def wf_tables_def)
  have n: "nAcc = pushNotes e req owner opts (pa_toWrite nbAcc) s2"
    using run by (auto simp: push_run_def pushNotePhase_def Let_def and_then_Inr)
  show ?thesis using pushNotes_answers(3) [OF w2 n] k by (auto simp: resp)
qed

lemma push_ids_distinct:
  "pushChanges e req owner opts s = Inr (resp, s') \<Longrightarrow> distinct (notebook_ids_of req) \<and> distinct (note_ids_of req)"
  by (auto dest!: pushChanges_Inr simp: push_run_def)

lemma distinct_tagged: "distinct (map f xs) \<Longrightarrow> distinct (map (\<lambda>x. (k, f x)) xs)"
  by (induction xs) auto

lemma accepted_alone:
  assumes wf: "wf_server s" and v: "valid_ids req" and push: "pushChanges e req owner opts s = Inr (resp, s')"
    and a: "a \<in> set (ps_accepted resp)" "ac_entityType a = Note_entity"
  shows "distinct (map (\<lambda>a. (ac_entityType a, ac_id a)) (ps_accepted resp))"
    and "\<forall>conf \<in> set (ps_conflicts resp). \<not> about_note (ac_id a) conf"
proof -
  let ?acc = "map (\<lambda>a. (ac_entityType a, ac_id a)) (ps_accepted resp)"
  let ?con = "map (\<lambda>k. (conflict_entity_type k, conflict_entity_id k)) (ps_conflicts resp)"
  let ?req = "map (\<lambda>c. (Notebook_entity, nb_id (c_record c))) (pr_notebooks req) @
    map (\<lambda>c. (Note_entity, n_id (c_record c))) (pr_notes req)"
  have "mset (?acc @ ?con) = mset ?req" using push_answers [OF wf v push] by simp
  moreover have "distinct (map (\<lambda>c. (Notebook_entity, nb_id (c_record c))) (pr_notebooks req))"
    using push_ids_distinct [OF push] by (intro distinct_tagged) (simp add: notebook_ids_of_def comp_def)
  moreover have "distinct (map (\<lambda>c. (Note_entity, n_id (c_record c))) (pr_notes req))"
    using push_ids_distinct [OF push] by (intro distinct_tagged) (simp add: note_ids_of_def comp_def)
  ultimately have d: "distinct (?acc @ ?con)"
    by (subst mset_eq_imp_distinct_iff [of _ ?req]) (assumption, simp only: distinct_append, force)
  then show "distinct ?acc" by simp
  have "(Note_entity, ac_id a) \<notin> set ?con" using d a by force
  then have no: "(conflict_entity_type k, conflict_entity_id k) \<noteq> (Note_entity, ac_id a)" if "k \<in> set (ps_conflicts resp)" for k
    using that by force
  show "\<forall>conf \<in> set (ps_conflicts resp). \<not> about_note (ac_id a) conf"
  proof
    fix conf assume conf: "conf \<in> set (ps_conflicts resp)"
    show "\<not> about_note (ac_id a) conf"
      using no [OF conf] push_conflict_types [OF wf v push] conf by (cases conf) auto
  qed
qed

lemma pushed_change_unique:
  assumes "x \<in> set xs" "ac_entityType x = ty" "ac_id x = i" and "\<And>y. y \<in> set xs \<Longrightarrow> ac_entityType y = ty \<Longrightarrow> ac_id y = i \<Longrightarrow> y = x"
  shows "pushed_change xs ty i = Some x"
proof (cases "pushed_change xs ty i")
  case None
  then have "\<not> (\<exists>p \<in> set (rev xs). ac_entityType p = ty \<and> ac_id p = i)"
    unfolding pushed_change_def find_None_iff by blast
  then show ?thesis using assms(1-3) by auto
next
  case (Some y)
  then have "(ac_entityType y = ty \<and> ac_id y = i) \<and> y \<in> set (rev xs)" unfolding pushed_change_def find_Some_iff by (metis nth_mem)
  then show ?thesis using Some assms(4) [of y] by simp
qed

lemma pushed_note_stamp:
  assumes d: "distinct (note_ids_of (push_payload dv b))" and n: "n \<in> set (fst b)"
  shows "pushed_change (pushed_stamps (push_payload dv b)) Note_entity (n_id n) =
    Some \<lparr>ac_entityType = Note_entity, ac_id = n_id n, ac_version = n_version n, ac_updatedAt = n_updatedAt n\<rparr>"
proof (rule pushed_change_unique)
  have inj: "m = n" if "m \<in> set (fst b)" "n_id m = n_id n" for m
    using d n that by (auto simp: note_ids_of_def push_payload_def note_change_def distinct_map inj_on_def comp_def)
  show "\<lparr>ac_entityType = Note_entity, ac_id = n_id n, ac_version = n_version n, ac_updatedAt = n_updatedAt n\<rparr>
      \<in> set (pushed_stamps (push_payload dv b))"
    using n by (force simp: pushed_stamps_def push_payload_def note_change_def)
  show "y = \<lparr>ac_entityType = Note_entity, ac_id = n_id n, ac_version = n_version n, ac_updatedAt = n_updatedAt n\<rparr>"
    if "y \<in> set (pushed_stamps (push_payload dv b))" "ac_entityType y = Note_entity" "ac_id y = n_id n" for y
    using that by (auto simp: pushed_stamps_def push_payload_def note_change_def dest: inj)
qed simp_all

text \<open>
  C2. Client and server agree after a push of an edit made from the version the server holds: the server
  has the pushed text under the next version, and the client's row is based on that version. If the note
  was edited while the request was under way, the row keeps the later text and stays pending; otherwise
  it is synchronised, at the version of the server.
\<close>

theorem acknowledged_push_agrees:
  assumes wf: "wf_server s" and v: "valid_ids (push_payload dv b)"
    and push: "pushChanges e (push_payload dv b) owner opts s = Inr (resp, s')" and np: "\<not> po_preserve opts"
    and n: "n \<in> set (fst b)" and old: "getNote s (n_id n) owner = Some old" and base: "ln_lastSyncedVersion n = n_version old"
    and differ: "note_content_differs (Note.truncate n) old"
    and m: "storedNote (n_id n) c = Some m" and q: "quiet cx"
    and run: "applyPushResponse cx dv (push_payload dv b) resp c = (r, c')"
  shows "\<exists>new m'. getNote s' (n_id n) owner = Some new \<and> n_title new = n_title n \<and> n_body new = n_body n \<and>
    n_version new = js_add1 (n_version old) \<and>
    storedNote (n_id n) c' = Some m' \<and> n_title m' = n_title m \<and> n_body m' = n_body m \<and> ln_lastSyncedVersion m' = n_version new \<and>
    (if n_version m = n_version n \<and> n_updatedAt m = n_updatedAt n
     then n_syncStatus m' = Synced \<and> n_version m' = n_version new
     else n_syncStatus m' = Pending \<and> n_version m' = n_version m)"
proof -
  have c: "note_change n \<in> set (pr_notes (push_payload dv b))" using n by (simp add: push_payload_def)
  have rec: "c_record (note_change n) = Note.truncate n" "c_baseVersion (note_change n) = n_version old"
    by (simp_all add: note_change_def base)
  have "\<exists>new. getNote s' (n_id n) owner = Some new \<and> n_title new = n_title n \<and> n_body new = n_body n \<and>
      n_version new = js_add1 (n_version old) \<and>
      \<lparr>ac_entityType = Note_entity, ac_id = n_id n, ac_version = n_version new, ac_updatedAt = n_updatedAt new\<rparr>
      \<in> set (ps_accepted resp)"
    using current_edit_stored [OF wf v push c _ rec(2)] rec(1) old differ np by (simp add: accepted_version_def)
  then obtain new where new: "getNote s' (n_id n) owner = Some new" "n_title new = n_title n" "n_body new = n_body n"
      "n_version new = js_add1 (n_version old)"
    and a: "\<lparr>ac_entityType = Note_entity, ac_id = n_id n, ac_version = n_version new, ac_updatedAt = n_updatedAt new\<rparr>
      \<in> set (ps_accepted resp)" by blast
  let ?a = "\<lparr>ac_entityType = Note_entity, ac_id = n_id n, ac_version = n_version new, ac_updatedAt = n_updatedAt new\<rparr>"
  note alone = accepted_alone [OF wf v push a]
  have row: "storedNote (n_id n) c' = Some (acknowledged (ps_serverTime resp) (pushed_stamps (push_payload dv b)) ?a m)"
    using applyPushResponse_row [OF q alone(1) a _ _ _ m run] alone(2) by simp
  have stamp: "pushed_change (pushed_stamps (push_payload dv b)) Note_entity (n_id n) =
      Some \<lparr>ac_entityType = Note_entity, ac_id = n_id n, ac_version = n_version n, ac_updatedAt = n_updatedAt n\<rparr>"
    using push_ids_distinct [OF push] n by (intro pushed_note_stamp) auto
  show ?thesis using new row by (auto simp: acknowledged_def Let_def stamp still_matches_def)
qed

text \<open>The edit of the sample push, and a client where the note was edited once more in the meantime.\<close>

definition pushed_note :: LocalNote where
  "pushed_note = as_local (note_a\<lparr>n_title := ''New'', n_syncStatus := Pending\<rparr>) 3 None"

definition edited_client :: client where
  "edited_client = sample_client\<lparr>cl_notes := [pushed_note\<lparr>n_title := ''Later'', n_version := 5\<rparr>]\<rparr>"

theorem acknowledged_push_agrees_witness:
  "\<exists>resp s' m'. pushChanges sample_env (push_payload device_a ([pushed_note], [])) ''ann'' sample_options sample_server = Inr (resp, s') \<and>
     storedNote ''n1'' (snd (applyPushResponse sample_ctxt device_a (push_payload device_a ([pushed_note], [])) resp edited_client)) = Some m' \<and>
     n_title m' = ''Later'' \<and> n_syncStatus m' = Pending \<and> ln_lastSyncedVersion m' = 4"
proof -
  have p: "push_payload device_a ([pushed_note], []) = sample_push 3"
    by (simp add: push_payload_def note_change_def pushed_note_def sample_push_def as_local_def Note.defs LocalNote.defs note_a_def)
  from sample_push_ok obtain resp s'
    where push: "pushChanges sample_env (push_payload device_a ([pushed_note], [])) ''ann'' sample_options sample_server = Inr (resp, s')"
    unfolding p by blast
  have i: "n_id pushed_note = ''n1''" "ln_lastSyncedVersion pushed_note = n_version note_a"
    by (simp_all add: pushed_note_def as_local_def Note.defs LocalNote.defs note_a_def)
  have v: "valid_ids (push_payload device_a ([pushed_note], []))" unfolding p by (rule valid_sample_push)
  have d: "note_content_differs (Note.truncate pushed_note) note_a"
    by (simp add: note_content_differs_def fieldDiffers_def pushed_note_def as_local_def Note.defs LocalNote.defs note_a_def)
  have m: "storedNote (n_id pushed_note) edited_client = Some (pushed_note\<lparr>n_title := ''Later'', n_version := 5\<rparr>)"
    unfolding i by (simp add: edited_client_def tget_def i)
  have np: "\<not> po_preserve sample_options" by (simp add: sample_options_def)
  obtain r c' where r: "applyPushResponse sample_ctxt device_a (push_payload device_a ([pushed_note], [])) resp edited_client = (r, c')"
    by (metis prod.exhaust)
  have old: "getNote sample_server (n_id pushed_note) ''ann'' = Some note_a" unfolding i by (rule sample_getNote)
  from acknowledged_push_agrees [OF wf_sample_server v push np _ old i(2) d m quiet_sample r] push r
  show ?thesis by (auto simp: i pushed_note_def as_local_def Note.defs LocalNote.defs note_a_def js_add1_def max_safe_integer_def)
qed

end
