(* ===== verification/LeaseTheorems.thy ===== *)
theory LeaseTheorems
  imports Lease ClientSamples
begin

text \<open>
  What the sync lease promises to the tab that holds it. The operations of the other tabs are a list
  of any length, each a transaction at the time it reads from the clock; that they leave the stored
  lease alone and are refused follows from the contract \<open>lease\<close>.
\<close>

fun tab_op :: "ctxt \<Rightarrow> lease_op \<Rightarrow> client \<Rightarrow> client" where
  "tab_op cx (Try_acquire a) c = snd (tryAcquireSyncLease cx a c)"
| "tab_op cx (Do_refresh a) c = snd (refreshSyncLease cx a c)"
| "tab_op cx (Do_release a) c = snd (releaseSyncLease a c)"

abbreviation ticks :: "client \<Rightarrow> nat" where
  "ticks c \<equiv> f_ticks (cl_fx c)"

definition now_of :: "ctxt \<Rightarrow> client \<Rightarrow> int" where
  "now_of cx c = clock (cx_env cx) (ticks c)"

lemma lease_cell_set [simp]: "lease_cell (set_lease_cell v c) = v"
  by (simp add: lease_cell_def set_lease_cell_def tget_tput tget_tdel split: option.split)

lemma tick_cell [simp]: "lease_cell (c\<lparr>cl_fx := fx\<rparr>) = lease_cell c"
  by (simp add: lease_cell_def)

lemma set_lease_cell_fx [simp]: "cl_fx (set_lease_cell v c) = cl_fx c"
  by (simp add: set_lease_cell_def split: option.split)

lemma clock_action_run: "clock_action cx c = (Inr (now_of cx c), c\<lparr>cl_fx := (cl_fx c)\<lparr>f_ticks := Suc (ticks c)\<rparr>\<rparr>)"
  by (simp add: clock_action_def effect_def now_of_def)

lemma tryAcquire_run:
  "tryAcquireSyncLease cx a c =
     (case acquire_cell a (now_of cx c) (lease_cell c) of (ok, v) \<Rightarrow>
        (Inr ok, (if ok then set_lease_cell v else (\<lambda>c. c)) (c\<lparr>cl_fx := (cl_fx c)\<lparr>f_ticks := Suc (ticks c)\<rparr>\<rparr>)))"
  by (auto simp: tryAcquireSyncLease_def bnd_run clock_action_run seq_run split: prod.split)

text \<open>An operation is a step of the contract, and reads the clock at most once.\<close>

lemma acquire_cell_refused: "acquire_cell a t v = (False, v') \<Longrightarrow> v' = v"
  by (auto simp: acquire_cell_def split: option.splits if_splits)

lemma tab_op_cell: "lease_cell (tab_op cx op c) = lease_step acquire_cell refresh_cell release_cell (op, now_of cx c) (lease_cell c)"
  by (cases op)
    (auto simp: tryAcquire_run refreshSyncLease_def releaseSyncLease_def bnd_run clock_action_run refresh_cell_def release_cell_def
      dest!: acquire_cell_refused split: prod.split)

lemma tab_op_ticks: "ticks c \<le> ticks (tab_op cx op c) \<and> ticks (tab_op cx op c) \<le> Suc (ticks c)"
  by (cases op) (auto simp: tryAcquire_run refreshSyncLease_def releaseSyncLease_def bnd_run clock_action_run split: prod.split)

lemma tab_ops_leave:
  assumes "\<And>k. k \<le> n \<Longrightarrow> lease_held (lease_cell c) (clock (cx_env cx) k) a"
    and "\<forall>op \<in> set ops. lease_actor op \<noteq> a" and "ticks c + length ops \<le> n"
  shows "lease_cell (fold (tab_op cx) ops c) = lease_cell c \<and> ticks (fold (tab_op cx) ops c) \<le> ticks c + length ops"
  using assms
proof (induction ops arbitrary: c)
  case Nil
  then show ?case by simp
next
  case (Cons op ops)
  have "lease_held (lease_cell c) (now_of cx c) a" using Cons.prems(1,3) by (simp add: now_of_def)
  then have cell: "lease_cell (tab_op cx op c) = lease_cell c"
    unfolding tab_op_cell using Cons.prems(2) by (intro sync_lease.undisturbed_step) auto
  have t: "ticks (tab_op cx op c) \<le> Suc (ticks c)" using tab_op_ticks by blast
  have "lease_cell (fold (tab_op cx) ops (tab_op cx op c)) = lease_cell (tab_op cx op c) \<and>
      ticks (fold (tab_op cx) ops (tab_op cx op c)) \<le> ticks (tab_op cx op c) + length ops"
    by (rule Cons.IH) (use Cons.prems t cell in auto)
  then show ?case using cell t by auto
qed

text \<open>
  C31. A tab that got the sync lease keeps it until it expires, whatever the other tabs do with it in the
  meantime: its own checks pass, and every attempt of another tab to get the lease is refused.
\<close>

theorem sync_lease_exclusive:
  assumes got: "tryAcquireSyncLease cx a c = (Inr True, c1)" and a: "a \<noteq> []"
    and others: "\<forall>op \<in> set ops. lease_actor op \<noteq> a"
    and time: "\<forall>k \<le> ticks c + length ops + 1. clock (cx_env cx) k < now_of cx c + SYNC_LOCK_TTL_MS"
    and b: "b \<noteq> a"
  shows "fst (assertActiveSyncLease cx (Some a) (fold (tab_op cx) ops c1)) = Inr () \<and>
    fst (tryAcquireSyncLease cx b (fold (tab_op cx) ops c1)) = Inr False"
proof -
  let ?c2 = "fold (tab_op cx) ops c1"
  obtain v where v: "acquire_cell a (now_of cx c) (lease_cell c) = (True, v)" and c1: "lease_cell c1 = v" "ticks c1 = Suc (ticks c)"
    using got by (auto simp: tryAcquire_run split: prod.splits if_splits)
  have held: "lease_held (lease_cell c1) (clock (cx_env cx) k) a" if "k \<le> ticks c + length ops + 1" for k
    unfolding c1 using that time by (intro sync_lease.granted [OF v]) auto
  have c2: "lease_cell ?c2 = lease_cell c1" "ticks ?c2 \<le> ticks c + length ops + 1"
    using tab_ops_leave [OF held others] c1(2) by auto
  have h: "lease_held (lease_cell ?c2) (now_of cx ?c2) a" unfolding c2(1) now_of_def using c2(2) by (rule held)
  have "fst (assertActiveSyncLease cx (Some a) ?c2) = Inr ()"
    using a h by (simp add: assertActiveSyncLease_def bnd_run clock_action_run truthy_opt_def truthy_def or_empty_def)
  moreover have "acquire_cell b (now_of cx ?c2) (lease_cell ?c2) = (False, lease_cell ?c2)"
    using b by (intro sync_lease.refused [OF h]) auto
  ultimately show ?thesis by (simp add: tryAcquire_run)
qed

theorem sync_lease_exclusive_witness:
  "\<exists>c1. tryAcquireSyncLease sample_ctxt ''tab1'' sample_client = (Inr True, c1) \<and>
     fst (assertActiveSyncLease sample_ctxt (Some ''tab1'')
       (fold (tab_op sample_ctxt) [Do_refresh ''tab2'', Do_release ''tab2'', Try_acquire ''tab3''] c1)) = Inr () \<and>
     fst (tryAcquireSyncLease sample_ctxt ''tab2''
       (fold (tab_op sample_ctxt) [Do_refresh ''tab2'', Do_release ''tab2'', Try_acquire ''tab3''] c1)) = Inr False"
proof -
  obtain c1 where c1: "tryAcquireSyncLease sample_ctxt ''tab1'' sample_client = (Inr True, c1)"
    by (auto simp: tryAcquire_run acquire_cell_def lease_cell_def sample_client_def parseSyncLease_def truthy_opt_def tget_def)
  let ?ops = "[Do_refresh ''tab2'', Do_release ''tab2'', Try_acquire ''tab3'']"
  have "\<forall>k \<le> ticks sample_client + length ?ops + 1.
      clock (cx_env sample_ctxt) k < now_of sample_ctxt sample_client + SYNC_LOCK_TTL_MS"
    by (simp add: now_of_def sample_env_def sample_client_def start_effects_def SYNC_LOCK_TTL_MS_def)
  from sync_lease_exclusive [OF c1 _ _ this, of "''tab2''"] c1 show ?thesis by auto
qed

end
