(* ===== verification/StorageMachine.thy ===== *)
theory StorageMachine
  imports KeyTheorems
begin

text \<open>
  The key material of a browser profile (\<open>apps/web/src/lib/client/encryption-keyring.ts\<close>) under the operations of
  its tabs in any order: \<open>localStorage\<close>, with the storage mode, is shared, every tab has its own
  \<open>sessionStorage\<close> and its own module variable, and both end with the tab.
\<close>

record profile =
  pf_local :: "web_storage option"
  pf_session :: "nat \<Rightarrow> web_storage option"
  pf_volatile :: "nat \<Rightarrow> string option"

definition tab_view :: "profile \<Rightarrow> nat \<Rightarrow> browser" where
  "tab_view p i = \<lparr>br_local = pf_local p, br_session = pf_session p i, br_volatile = pf_volatile p i\<rparr>"

definition tab_store :: "profile \<Rightarrow> nat \<Rightarrow> browser \<Rightarrow> profile" where
  "tab_store p i b = \<lparr>pf_local = br_local b, pf_session = (pf_session p)(i := br_session b), pf_volatile = (pf_volatile p)(i := br_volatile b)\<rparr>"

inductive storage_step :: "env \<Rightarrow> crypto \<Rightarrow> profile \<Rightarrow> profile \<Rightarrow> bool" for e cr where
  commit: "storage_step e cr p (tab_store p i (commitEncryptionKeyMaterial m (tab_view p i)))"
| clear: "storage_step e cr p (tab_store p i (clearStoredEncryptionKeyMaterial (tab_view p i)))"
| set_mode: "storage_step e cr p (tab_store p i (setEncryptionKeyMaterialStorageMode mode (tab_view p i)))"
| read: "storage_step e cr p (tab_store p i (fst (snd (getEncryptionKeyMaterial e cr (tab_view p i) fx))))"
| close_tab: "storage_step e cr p (tab_store p i ((tab_view p i)\<lparr>br_session := map_option (\<lambda>_. []) (pf_session p i), br_volatile := None\<rparr>))"

inductive storage_reachable :: "env \<Rightarrow> crypto \<Rightarrow> profile \<Rightarrow> profile \<Rightarrow> bool" for e cr where
  start: "storage_reachable e cr p p"
| more: "storage_reachable e cr p p1 \<Longrightarrow> storage_step e cr p1 p2 \<Longrightarrow> storage_reachable e cr p p2"

text \<open>No key material is stored yet.\<close>

definition fresh_profile :: "profile \<Rightarrow> bool" where
  "fresh_profile p \<longleftrightarrow> getItem MATERIAL_KEY (pf_local p) = None \<and> (\<forall>i. getItem MATERIAL_KEY (pf_session p i) = None)"

abbreviation profile_mode :: "profile \<Rightarrow> storage_mode" where
  "profile_mode p \<equiv> getEncryptionKeyMaterialStorageMode (tab_view p 0)"

section \<open>The invariant\<close>

text \<open>What a session stores is account material, and in session mode the shared storage has none.\<close>

definition tab_safe :: "browser \<Rightarrow> bool" where
  "tab_safe b \<longleftrightarrow> (\<forall>m. getItem MATERIAL_KEY (br_session b) = Some m \<longrightarrow> isSyncKeyMaterial m) \<and>
     (getEncryptionKeyMaterialStorageMode b = Session_mode \<longrightarrow> session_only b)"

definition profile_safe :: "profile \<Rightarrow> bool" where
  "profile_safe p \<longleftrightarrow> (\<forall>i. tab_safe (tab_view p i))"

lemma empty_not_sync: "\<not> isSyncKeyMaterial []"
  by code_simp

lemma sync_truthy: "isSyncKeyMaterial m \<Longrightarrow> truthy m"
  using empty_not_sync by (cases m) (simp_all add: truthy_def)

lemma mode_text_simps [simp]: "mode_text Session_mode = ''session''" "mode_text Persistent_mode = ''persistent''"
  by (simp_all add: mode_text_def)

lemma no_storage [simp]: "getItem k None = None" "setItem k v None = None" "removeItem k st = None \<longleftrightarrow> st = None"
    "setItem k v st = None \<longleftrightarrow> st = None"
  by (simp_all add: getItem_def setItem_def removeItem_def)

lemma safe_commit: "tab_safe b \<Longrightarrow> tab_safe (commitEncryptionKeyMaterial m b)"
  by (cases "isSyncKeyMaterial m"; cases "br_local b"; cases "getItem MODE_KEY (br_local b) = Some ''session''")
    (auto simp: tab_safe_def commitEncryptionKeyMaterial_def getItem_setItem getItem_removeItem Let_def session_only_def
      getEncryptionKeyMaterialStorageMode_def split: if_splits)

lemma safe_clear: "tab_safe b \<Longrightarrow> tab_safe (clearStoredEncryptionKeyMaterial b)"
  by (auto simp: tab_safe_def clearStoredEncryptionKeyMaterial_def getItem_removeItem session_only_def
      getEncryptionKeyMaterialStorageMode_def)

lemma safe_set_mode: "tab_safe b \<Longrightarrow> tab_safe (setEncryptionKeyMaterialStorageMode mode b)"
  by (cases mode; cases "getItem MATERIAL_KEY (br_session b)"; cases "getItem MATERIAL_KEY (br_local b)")
    (auto simp: tab_safe_def setEncryptionKeyMaterialStorageMode_def getItem_setItem getItem_removeItem Let_def session_only_def
      getEncryptionKeyMaterialStorageMode_def truthy_opt_def or_empty_def dest: sync_truthy split: if_splits)

lemma safe_read: "tab_safe b \<Longrightarrow> tab_safe (fst (snd (getEncryptionKeyMaterial e cr b fx)))"
  using local_material_not_sync(1) [of e cr fx]
  by (cases "generateLocalKeyMaterial e cr fx")
    (auto simp: tab_safe_def getEncryptionKeyMaterial_def getItem_setItem getItem_removeItem Let_def session_only_def
      getEncryptionKeyMaterialStorageMode_def split: if_splits option.splits)

lemma tab_safe_other:
  "tab_safe \<lparr>br_local = l, br_session = s, br_volatile = v\<rparr> \<Longrightarrow>
   (\<And>m. getItem MATERIAL_KEY s' = Some m \<Longrightarrow> isSyncKeyMaterial m) \<Longrightarrow> tab_safe \<lparr>br_local = l, br_session = s', br_volatile = v'\<rparr>"
  by (auto simp: tab_safe_def session_only_def getEncryptionKeyMaterialStorageMode_def)

lemma profile_safe_store:
  assumes "profile_safe p" "tab_safe b"
  shows "profile_safe (tab_store p i b)"
  unfolding profile_safe_def
proof
  fix j
  have "tab_safe \<lparr>br_local = br_local b, br_session = br_session b, br_volatile = br_volatile b\<rparr>" using assms(2) by (cases b) simp
  moreover have "isSyncKeyMaterial m" if "getItem MATERIAL_KEY (pf_session p j) = Some m" for m
    using assms(1) that by (auto simp: profile_safe_def tab_safe_def tab_view_def)
  ultimately show "tab_safe (tab_view (tab_store p i b) j)"
    using tab_safe_other [of "br_local b" "br_session b" "br_volatile b" "pf_session p j"]
    by (cases "j = i") (auto simp: tab_view_def tab_store_def)
qed

lemma profile_safe_step: "storage_step e cr p p' \<Longrightarrow> profile_safe p \<Longrightarrow> profile_safe p'"
proof (induction rule: storage_step.induct)
  case (close_tab p i)
  then have "tab_safe (tab_view p i)" by (simp add: profile_safe_def)
  then have "tab_safe ((tab_view p i)\<lparr>br_session := map_option (\<lambda>_. []) (pf_session p i), br_volatile := None\<rparr>)"
    by (auto simp: tab_safe_def session_only_def getEncryptionKeyMaterialStorageMode_def getItem_def split: bind_splits)
  with close_tab show ?case by (rule profile_safe_store)
qed (auto simp: profile_safe_def intro!: profile_safe_store [unfolded profile_safe_def, rule_format] safe_commit safe_clear safe_set_mode safe_read)

text \<open>
  C25. In session mode no account key material is in persistent storage: from a profile without key material,
  whatever its tabs do in any order (committing material, changing the storage mode, reading the
  material, clearing it, closing), as long as the mode is \<open>session\<close> the material in \<open>localStorage\<close>, if any, is
  not account material, also right after the mode is switched to \<open>session\<close>.
\<close>

theorem session_mode_keeps_no_account_material:
  assumes "fresh_profile p0" and "storage_reachable e cr p0 p" and "profile_mode p = Session_mode"
  shows "(\<forall>m. getItem MATERIAL_KEY (pf_local p) = Some m \<longrightarrow> \<not> isSyncKeyMaterial m)"
proof -
  have "profile_safe p0" using assms(1) by (simp add: fresh_profile_def profile_safe_def tab_safe_def tab_view_def session_only_def)
  with assms(2) have "profile_safe p" by (induction rule: storage_reachable.induct) (auto intro: profile_safe_step)
  with assms(3) show ?thesis by (auto simp: profile_safe_def tab_safe_def session_only_def tab_view_def)
qed

text \<open>A sign-in in persistent mode in one tab, then a second tab switches to session mode.\<close>

definition empty_profile :: profile where
  "empty_profile = \<lparr>pf_local = Some [], pf_session = (\<lambda>_. Some []), pf_volatile = (\<lambda>_. None)\<rparr>"

definition sample_material :: string where
  "sample_material = ''password:v4:argon2id:p:k''"

definition signed_in_profile :: profile where
  "signed_in_profile = tab_store empty_profile 0 (commitEncryptionKeyMaterial sample_material (tab_view empty_profile 0))"

definition switched_profile :: profile where
  "switched_profile = tab_store signed_in_profile 1 (setEncryptionKeyMaterialStorageMode Session_mode (tab_view signed_in_profile 1))"

theorem session_mode_keeps_no_account_material_witness:
  "getItem MATERIAL_KEY (pf_local signed_in_profile) = Some sample_material \<and> isSyncKeyMaterial sample_material \<and>
   getItem MATERIAL_KEY (pf_local switched_profile) \<noteq> Some sample_material \<and> profile_mode switched_profile = Session_mode"
proof -
  have sync: "isSyncKeyMaterial sample_material" by code_simp
  have stored: "getItem MATERIAL_KEY (pf_local signed_in_profile) = Some sample_material" by code_simp
  have mode: "profile_mode switched_profile = Session_mode" by code_simp
  have fresh: "fresh_profile empty_profile" by (simp add: fresh_profile_def empty_profile_def getItem_def)
  have "storage_reachable undefined undefined empty_profile switched_profile"
    unfolding switched_profile_def signed_in_profile_def
    by (rule storage_reachable.more [OF storage_reachable.more [OF storage_reachable.start storage_step.commit] storage_step.set_mode])
  from session_mode_keeps_no_account_material [OF fresh this mode] sync stored mode show ?thesis by blast
qed

end
