(* ===== verification/ZipArchive.thy ===== *)
theory ZipArchive
  imports Bytes
begin

unbundle bit_operations_syntax

text \<open>
  The ZIP file of an export (the second half of \<open>apps/web/src/lib/client/markdown-archive.ts\<close>): stored entries
  with UTF-8 names, a directory with the offset of each entry, and the record that closes the file. Values
  written with \<open>setUint16\<close> and \<open>setUint32\<close> keep their low 16 and 32 bits. The headers are zeroed arrays
  written at increasing offsets without gaps, so they are lists of bytes. The date is a valid one (the caller passes
  the time of the export), given by its local calendar fields.

  What the format promises is a reader: it finds the directory from the end of the file and follows the offsets.
\<close>

section \<open>Headers\<close>

record MarkdownExportFile =
  mf_path :: string
  mf_content :: string

record MarkdownExportArchive =
  ma_rootName :: string
  ma_files :: "MarkdownExportFile list"

definition uint16 :: "int \<Rightarrow> byte list" where
  "uint16 v = [word_of_int v, word_of_int (v div 256)]"

definition uint32 :: "int \<Rightarrow> byte list" where
  "uint32 v = [word_of_int v, word_of_int (v div 256), word_of_int (v div 65536), word_of_int (v div 16777216)]"

text \<open>The fields of a \<open>Date\<close> in local time; the month counts from zero.\<close>

record calendar =
  cal_fullYear :: int
  cal_month :: int
  cal_date :: int
  cal_hours :: int
  cal_minutes :: int
  cal_seconds :: int

definition writeDosDateTime :: "calendar \<Rightarrow> byte list" where
  "writeDosDateTime d =
     (let time = (push_bit 11 (cal_hours d) OR push_bit 5 (cal_minutes d)) OR cal_seconds d div 2;
          dosDate = (push_bit 9 (cal_fullYear d - 1980) OR push_bit 5 (cal_month d + 1)) OR cal_date d
      in uint16 time @ uint16 dosDate)"

definition crc_bit :: "32 word \<Rightarrow> 32 word" where
  "crc_bit crc = (if crc AND 1 \<noteq> 0 then drop_bit 1 crc XOR 0xedb88320 else drop_bit 1 crc)"

definition crc_byte :: "byte \<Rightarrow> 32 word \<Rightarrow> 32 word" where
  "crc_byte b crc = (crc_bit ^^ 8) (crc XOR ucast b)"

definition crc32 :: "byte list \<Rightarrow> 32 word" where
  "crc32 bytes = fold crc_byte bytes 0xffffffff XOR 0xffffffff"

definition zipLocalFileHeader :: "byte list \<Rightarrow> nat \<Rightarrow> 32 word \<Rightarrow> calendar \<Rightarrow> byte list" where
  "zipLocalFileHeader nameBytes byteLength checksum d =
     uint32 0x04034b50 @ uint16 20 @ uint16 0x0800 @ uint16 0 @ writeDosDateTime d @ uint32 (uint checksum) @
     uint32 (int byteLength) @ uint32 (int byteLength) @ uint16 (int (length nameBytes)) @ uint16 0"

definition zipCentralDirectoryHeader :: "byte list \<Rightarrow> nat \<Rightarrow> 32 word \<Rightarrow> calendar \<Rightarrow> nat \<Rightarrow> byte list" where
  "zipCentralDirectoryHeader nameBytes byteLength checksum d offset =
     uint32 0x02014b50 @ uint16 20 @ uint16 20 @ uint16 0x0800 @ uint16 0 @ writeDosDateTime d @ uint32 (uint checksum) @
     uint32 (int byteLength) @ uint32 (int byteLength) @ uint16 (int (length nameBytes)) @ uint16 0 @ uint16 0 @ uint16 0 @ uint16 0 @
     uint32 0 @ uint32 (int offset)"

definition zipEndOfCentralDirectory :: "nat \<Rightarrow> nat \<Rightarrow> nat \<Rightarrow> byte list" where
  "zipEndOfCentralDirectory fileCount centralDirectorySize centralDirectoryOffset =
     uint32 0x06054b50 @ uint16 0 @ uint16 0 @ uint16 (int fileCount) @ uint16 (int fileCount) @
     uint32 (int centralDirectorySize) @ uint32 (int centralDirectoryOffset) @ uint16 0"

section \<open>The file\<close>

text \<open>The state of the loop: the entries, the directory and the offset reached.\<close>

record zip_state =
  zs_chunks :: "byte list"
  zs_centralDirectory :: "byte list"
  zs_offset :: nat

definition file_entry :: "string \<Rightarrow> MarkdownExportFile \<Rightarrow> byte list \<times> byte list" where
  "file_entry rootName f = (utf8_encode (rootName @ ''/'' @ mf_path f), utf8_encode (mf_content f))"

definition zip_add :: "calendar \<Rightarrow> byte list \<times> byte list \<Rightarrow> zip_state \<Rightarrow> zip_state" where
  "zip_add fileDate entry z =
     (let nameBytes = fst entry; contentBytes = snd entry; checksum = crc32 contentBytes;
          localHeader = zipLocalFileHeader nameBytes (length contentBytes) checksum fileDate
      in \<lparr>zs_chunks = zs_chunks z @ localHeader @ nameBytes @ contentBytes,
          zs_centralDirectory = zs_centralDirectory z @
            zipCentralDirectoryHeader nameBytes (length contentBytes) checksum fileDate (zs_offset z) @ nameBytes,
          zs_offset = zs_offset z + (length localHeader + length nameBytes + length contentBytes)\<rparr>)"

definition start_zip :: zip_state where
  "start_zip = \<lparr>zs_chunks = [], zs_centralDirectory = [], zs_offset = 0\<rparr>"

definition finish_zip :: "nat \<Rightarrow> zip_state \<Rightarrow> byte list" where
  "finish_zip fileCount z =
     zs_chunks z @ zs_centralDirectory z @ zipEndOfCentralDirectory fileCount (length (zs_centralDirectory z)) (zs_offset z)"

definition createZipBytes :: "MarkdownExportArchive \<Rightarrow> calendar \<Rightarrow> byte list" where
  "createZipBytes a fileDate =
     finish_zip (length (ma_files a)) (fold (\<lambda>f. zip_add fileDate (file_entry (ma_rootName a) f)) (ma_files a) start_zip)"

datatype zip_error = Exceeds_zip32_limit

definition createZipBlob :: "MarkdownExportArchive \<Rightarrow> calendar \<Rightarrow> zip_error + byte list" where
  "createZipBlob a fileDate =
     and_then (fold_err (\<lambda>f z. let z' = zip_add fileDate (file_entry (ma_rootName a) f) z
         in if zs_offset z' > 0xffffffff then Inl Exceeds_zip32_limit else Inr z') (ma_files a) start_zip)
       (\<lambda>z. Inr (finish_zip (length (ma_files a)) z))"

section \<open>The format, as a reader sees it\<close>

primrec le_value :: "byte list \<Rightarrow> nat" where
  "le_value [] = 0"
| "le_value (b # bs) = unat b + 256 * le_value bs"

definition zip_field :: "byte list \<Rightarrow> nat \<Rightarrow> nat \<Rightarrow> nat" where
  "zip_field bs pos n = le_value (take n (drop pos bs))"

definition read_entry :: "byte list \<Rightarrow> nat \<Rightarrow> ((byte list \<times> byte list) \<times> nat) option" where
  "read_entry bs pos =
     (let nameLength = zip_field bs (pos + 28) 2; name = take nameLength (drop (pos + 46) bs);
          byteLength = zip_field bs (pos + 24) 4; entry = zip_field bs (pos + 42) 4;
          localLength = zip_field bs (entry + 26) 2;
          content = take byteLength (drop (entry + 30 + localLength + zip_field bs (entry + 28) 2) bs)
      in if zip_field bs pos 4 = 0x02014b50 \<and> zip_field bs entry 4 = 0x04034b50 \<and>
            take localLength (drop (entry + 30) bs) = name \<and> length content = byteLength \<and>
            zip_field bs (pos + 16) 4 = unat (crc32 content) \<and> zip_field bs (entry + 14) 4 = unat (crc32 content)
         then Some ((name, content), pos + 46 + nameLength + zip_field bs (pos + 30) 2 + zip_field bs (pos + 32) 2)
         else None)"

primrec read_entries :: "nat \<Rightarrow> byte list \<Rightarrow> nat \<Rightarrow> (byte list \<times> byte list) list option" where
  "read_entries 0 bs pos = Some []"
| "read_entries (Suc k) bs pos =
     (case read_entry bs pos of
        None \<Rightarrow> None
      | Some (e, following) \<Rightarrow> map_option (Cons e) (read_entries k bs following))"

definition unzip_file :: "byte list \<Rightarrow> (byte list \<times> byte list) list option" where
  "unzip_file bs =
     (let closing = length bs - 22
      in if zip_field bs closing 4 = 0x06054b50 then read_entries (zip_field bs (closing + 10) 2) bs (zip_field bs (closing + 16) 4) else None)"

section \<open>Reading back\<close>

lemma unat_int_byte: "unat (word_of_int (int n) :: byte) = n mod 256"
  by (simp add: unat_of_nat)

lemma unat_int_byte_div: "unat (word_of_int (int n div 2 ^ k) :: byte) = n div 2 ^ k mod 256"
proof -
  have "int n div 2 ^ k = int (n div 2 ^ k)" by (simp add: zdiv_int)
  then show ?thesis by (simp only: unat_int_byte)
qed

lemma byte_sum: "(m mod 256) + 256 * (m div 256) = (m :: nat)"
  by simp

lemma le_value_uint16 [simp]: "n < 65536 \<Longrightarrow> le_value (uint16 (int n)) = n"
  using unat_int_byte [of n] unat_int_byte_div [of n 8] byte_sum [of n] by (simp add: uint16_def)

lemma le_value_uint32 [simp]:
  assumes "n < 4294967296"
  shows "le_value (uint32 (int n)) = n"
proof -
  have d: "n div 65536 = n div 256 div 256" "n div 16777216 = n div 256 div 256 div 256" by (simp_all add: div_mult2_eq [symmetric])
  have "n div 256 div 256 div 256 < 256" using assms by (simp add: div_mult2_eq [symmetric] less_mult_imp_div_less)
  then show ?thesis
    using unat_int_byte [of n] unat_int_byte_div [of n 8] unat_int_byte_div [of n 16] unat_int_byte_div [of n 24]
      byte_sum [of n] byte_sum [of "n div 256"] byte_sum [of "n div 256 div 256"]
    by (simp add: uint32_def d)
qed

lemma length_uint [simp]: "length (uint16 v) = 2" "length (uint32 v) = 4" "length (writeDosDateTime d) = 4"
  by (simp_all add: uint16_def uint32_def writeDosDateTime_def Let_def)

lemma field_prefix: "zip_field (a @ bs) (length a + k) n = zip_field bs k n" "zip_field (a @ bs) (length a) n = zip_field bs 0 n"
  by (simp_all add: zip_field_def)

lemma field_skip: "length a \<le> k \<Longrightarrow> zip_field (a @ bs) k n = zip_field bs (k - length a) n"
  by (simp add: zip_field_def)

lemma field_here: "length v = n \<Longrightarrow> zip_field (v @ bs) 0 n = le_value v"
  by (simp add: zip_field_def)

lemma length_headers [simp]:
  "length (zipLocalFileHeader name len c d) = 30" "length (zipCentralDirectoryHeader name len c d off) = 46"
  "length (zipEndOfCentralDirectory k cs off) = 22"
  by (simp_all add: zipLocalFileHeader_def zipCentralDirectoryHeader_def zipEndOfCentralDirectory_def)

lemma unat_32: "unat (c :: 32 word) < 4294967296"
proof -
  have "unat c < 2 ^ LENGTH(32)" by (rule unsigned_less)
  then show ?thesis by simp
qed

lemma le_value_crc [simp]: "le_value (uint32 (uint (c :: 32 word))) = unat c"
proof -
  have "uint c = int (unat c)" by simp
  then show ?thesis using le_value_uint32 [OF unat_32 [of c]] by (simp only:)
qed

lemma le_value_zero [simp]: "le_value (uint16 0) = 0"
  using le_value_uint16 [of 0] by simp

lemma le_value_signatures [simp]:
  "le_value (uint32 0x04034b50) = 0x04034b50" "le_value (uint32 0x02014b50) = 0x02014b50" "le_value (uint32 0x06054b50) = 0x06054b50"
  by (simp_all add: uint32_def)

lemma local_fields:
  assumes "length name < 65536"
  shows "zip_field (zipLocalFileHeader name len c d @ r) 0 4 = 0x04034b50"
    "zip_field (zipLocalFileHeader name len c d @ r) 14 4 = unat c"
    "zip_field (zipLocalFileHeader name len c d @ r) 26 2 = length name"
    "zip_field (zipLocalFileHeader name len c d @ r) 28 2 = 0"
  using assms by (simp_all add: zipLocalFileHeader_def field_here field_skip)

lemma central_fields:
  assumes "length name < 65536" "len < 4294967296" "off < 4294967296"
  shows "zip_field (zipCentralDirectoryHeader name len c d off @ r) 0 4 = 0x02014b50"
    "zip_field (zipCentralDirectoryHeader name len c d off @ r) 16 4 = unat c"
    "zip_field (zipCentralDirectoryHeader name len c d off @ r) 24 4 = len"
    "zip_field (zipCentralDirectoryHeader name len c d off @ r) 28 2 = length name"
    "zip_field (zipCentralDirectoryHeader name len c d off @ r) 30 2 = 0"
    "zip_field (zipCentralDirectoryHeader name len c d off @ r) 32 2 = 0"
    "zip_field (zipCentralDirectoryHeader name len c d off @ r) 42 4 = off"
  using assms by (simp_all add: zipCentralDirectoryHeader_def field_here field_skip)

lemma end_fields:
  assumes "k < 65536" "off < 4294967296"
  shows "zip_field (zipEndOfCentralDirectory k cs off) 0 4 = 0x06054b50"
    "zip_field (zipEndOfCentralDirectory k cs off) 10 2 = k"
    "zip_field (zipEndOfCentralDirectory k cs off) 16 4 = off"
  using assms by (simp_all add: zipEndOfCentralDirectory_def field_here field_skip)

section \<open>The entries and the directory\<close>

definition local_part :: "calendar \<Rightarrow> byte list \<times> byte list \<Rightarrow> byte list" where
  "local_part d e = zipLocalFileHeader (fst e) (length (snd e)) (crc32 (snd e)) d @ fst e @ snd e"

primrec local_parts :: "calendar \<Rightarrow> (byte list \<times> byte list) list \<Rightarrow> byte list" where
  "local_parts d [] = []"
| "local_parts d (e # es) = local_part d e @ local_parts d es"

primrec central_parts :: "calendar \<Rightarrow> nat \<Rightarrow> (byte list \<times> byte list) list \<Rightarrow> byte list" where
  "central_parts d off [] = []"
| "central_parts d off (e # es) =
     zipCentralDirectoryHeader (fst e) (length (snd e)) (crc32 (snd e)) d off @ fst e @
     central_parts d (off + length (local_part d e)) es"

lemma zip_fold:
  "fold (zip_add d) es z =
     \<lparr>zs_chunks = zs_chunks z @ local_parts d es, zs_centralDirectory = zs_centralDirectory z @ central_parts d (zs_offset z) es,
      zs_offset = zs_offset z + length (local_parts d es)\<rparr>"
  by (induction es arbitrary: z) (simp_all add: zip_add_def Let_def local_part_def add.assoc)

lemma fold_entries: "fold (\<lambda>f. zip_add d (file_entry root f)) fs z = fold (zip_add d) (map (file_entry root) fs) z"
  by (induction fs arbitrary: z) simp_all

lemma createZipBytes_parts:
  "createZipBytes a d =
     (let es = map (file_entry (ma_rootName a)) (ma_files a); l = local_parts d es; c = central_parts d 0 es
      in l @ c @ zipEndOfCentralDirectory (length es) (length c) (length l))"
  by (simp add: createZipBytes_def fold_entries zip_fold finish_zip_def start_zip_def Let_def)

lemma read_entry_part:
  assumes bs: "bs = l @ local_part d e @ m @ zipCentralDirectoryHeader (fst e) (length (snd e)) (crc32 (snd e)) d (length l) @ fst e @ r"
    and n: "length (fst e) < 65536" and small: "length bs < 4294967296"
    and pos: "pos = length l + length (local_part d e) + length m"
  shows "read_entry bs pos = Some (e, pos + 46 + length (fst e))"
proof -
  let ?h = "zipCentralDirectoryHeader (fst e) (length (snd e)) (crc32 (snd e)) d (length l)"
  let ?c = "?h @ fst e @ r"
  have len: "length (snd e) < 4294967296" "length l < 4294967296" using small by (simp_all add: bs local_part_def)
  have c: "zip_field bs (pos + k) j = zip_field ?c k j" for k j
    using field_prefix(1) [of "l @ local_part d e @ m" ?c k j] by (simp add: bs pos add.assoc)
  have o: "zip_field bs (length l + k) j = zip_field (local_part d e @ m @ ?c) k j" for k j
    using field_prefix(1) [of l "local_part d e @ m @ ?c" k j] by (simp add: bs)
  note cf = central_fields [OF n len, of "crc32 (snd e)" d "fst e @ r"]
  note lf = local_fields [OF n, of "length (snd e)" "crc32 (snd e)" d "fst e @ snd e @ m @ ?c"]
  have name: "take (length (fst e)) (drop (pos + 46) bs) = fst e"
    by (simp add: bs pos local_part_def)
  have lname: "take (length (fst e)) (drop (length l + 30) bs) = fst e"
    by (simp add: bs local_part_def)
  have content: "take (length (snd e)) (drop (length l + 30 + length (fst e)) bs) = snd e"
    by (simp add: bs local_part_def)
  have l0: "zip_field bs (length l) 4 = 0x04034b50" using o [of 0 4] lf(1) by (simp add: local_part_def)
  have c0: "zip_field bs pos 4 = 0x02014b50" using c [of 0 4] cf(1) by simp
  show ?thesis unfolding read_entry_def Let_def c cf
    by (simp add: o local_part_def lf cf name lname content l0 c0)
qed

lemma read_parts:
  assumes "bs = l @ local_parts d es @ m @ central_parts d (length l) es @ r"
    and "\<forall>e \<in> set es. length (fst e) < 65536" and "length bs < 4294967296"
    and "pos = length l + length (local_parts d es) + length m"
  shows "read_entries (length es) bs pos = Some es"
  using assms
proof (induction es arbitrary: l m pos)
  case Nil
  then show ?case by simp
next
  case (Cons e es)
  let ?h = "zipCentralDirectoryHeader (fst e) (length (snd e)) (crc32 (snd e)) d (length l) @ fst e"
  have first: "read_entry bs pos = Some (e, pos + 46 + length (fst e))"
    by (rule read_entry_part [where l = l and d = d and m = "local_parts d es @ m"
        and r = "central_parts d (length l + length (local_part d e)) es @ r"]) (use Cons.prems in simp_all)
  have rest: "read_entries (length es) bs (pos + 46 + length (fst e)) = Some es"
    by (rule Cons.IH [where l = "l @ local_part d e" and m = "m @ ?h"]) (use Cons.prems in simp_all)
  show ?case using first rest by simp
qed

text \<open>The other function writes the same file, or stops when the entries exceed the limit.\<close>

lemma createZipBlob_same: "createZipBlob a d = Inr bs \<Longrightarrow> bs = createZipBytes a d"
proof -
  let ?add = "\<lambda>f. zip_add d (file_entry (ma_rootName a) f)"
  have "fold_err (\<lambda>f z. let z' = ?add f z in if zs_offset z' > 0xffffffff then Inl Exceeds_zip32_limit else Inr z') fs z = Inr z2 \<Longrightarrow>
      z2 = fold ?add fs z" for fs z z2
    by (induction fs arbitrary: z) (auto simp: and_then_def Let_def split: if_splits)
  then show "createZipBlob a d = Inr bs \<Longrightarrow> bs = createZipBytes a d"
    by (auto simp: createZipBlob_def createZipBytes_def and_then_def split: sum.splits)
qed

text \<open>
  An export can be opened: when it has fewer than 65536 files with names of fewer than 65536 bytes and is
  smaller than 4 GiB, a reader that follows the directory finds every file, in order, with its name, its
  contents and the right checksums.
\<close>

lemma zip_reads_back:
  assumes files: "length (ma_files a) < 65536"
    and names: "\<forall>f \<in> set (ma_files a). length (fst (file_entry (ma_rootName a) f)) < 65536"
    and small: "length (createZipBytes a d) < 4294967296"
  shows "unzip_file (createZipBytes a d) = Some (map (file_entry (ma_rootName a)) (ma_files a))"
proof -
  define es where "es = map (file_entry (ma_rootName a)) (ma_files a)"
  define l where "l = local_parts d es"
  define c where "c = central_parts d 0 es"
  have bs: "createZipBytes a d = l @ c @ zipEndOfCentralDirectory (length es) (length c) (length l)"
    by (simp add: createZipBytes_parts es_def l_def c_def Let_def)
  let ?bs = "createZipBytes a d" and ?closing = "length (createZipBytes a d) - 22"
  have small_l: "length l < 4294967296" using small by (simp add: bs)
  have k: "length es < 65536" using files by (simp add: es_def)
  have closing: "?closing = length (l @ c)" by (simp add: bs)
  have fields: "zip_field ?bs (?closing + i) n = zip_field (zipEndOfCentralDirectory (length es) (length c) (length l)) i n" for i n
    using field_prefix(1) [of "l @ c" "zipEndOfCentralDirectory (length es) (length c) (length l)" i n]
    unfolding closing by (simp add: bs)
  have entries: "read_entries (length es) ?bs (length l) = Some es"
    by (rule read_parts [where l = "[]" and d = d and m = "[]" and r = "zipEndOfCentralDirectory (length es) (length c) (length l)"])
      (use names small in \<open>auto simp: bs l_def c_def es_def\<close>)
  have "zip_field ?bs ?closing 4 = 0x06054b50" using fields [of 0 4] end_fields(1) [OF k small_l] by simp
  then show ?thesis unfolding unzip_file_def Let_def fields end_fields [OF k small_l] using entries by (simp add: es_def)
qed

definition sample_archive :: MarkdownExportArchive where
  "sample_archive = \<lparr>ma_rootName = ''author'', ma_files = [\<lparr>mf_path = ''a.md'', mf_content = ''A''\<rparr>, \<lparr>mf_path = ''b.md'', mf_content = []\<rparr>]\<rparr>"

definition sample_calendar :: calendar where
  "sample_calendar = \<lparr>cal_fullYear = 2025, cal_month = 0, cal_date = 2, cal_hours = 13, cal_minutes = 4, cal_seconds = 5\<rparr>"

lemma zip_reads_back_witness:
  "unzip_file (createZipBytes sample_archive sample_calendar) =
     Some [(utf8_encode ''author/a.md'', utf8_encode ''A''), (utf8_encode ''author/b.md'', [])]"
proof -
  have entries: "map (file_entry ''author'') (ma_files sample_archive) =
      [(utf8_encode ''author/a.md'', utf8_encode ''A''), (utf8_encode ''author/b.md'', [])]"
    by (simp add: sample_archive_def file_entry_def utf8_encode_def)
  have names: "length (utf8_encode ''author/a.md'') = 11" "length (utf8_encode ''author/b.md'') = 11" "length (utf8_encode ''A'') = 1"
    by code_simp+
  have "length (createZipBytes sample_archive sample_calendar) = 1 + 4 * 11 + 2 * 76 + 22"
    by (simp add: createZipBytes_parts Let_def sample_archive_def file_entry_def local_part_def names utf8_encode_def [of "[]"])
  then have small: "length (createZipBytes sample_archive sample_calendar) < 4294967296" by simp
  have root: "ma_rootName sample_archive = ''author''" by (simp add: sample_archive_def)
  have "unzip_file (createZipBytes sample_archive sample_calendar) = Some (map (file_entry (ma_rootName sample_archive)) (ma_files sample_archive))"
    by (rule zip_reads_back [OF _ _ small]) (simp_all add: sample_archive_def file_entry_def names)
  then show ?thesis by (simp only: root entries)
qed

end
