(* ===== verification/Spec2Isabelle.thy ===== *)
theory Spec2Isabelle
  imports PushTheorems PullTheorems MaintTheorems KeyTheorems KeyStorage EncTheorems StoreTheorems ConflictInv
    ClientNotes ClientReencrypt Lease ClientSync CopyNames ClientMachine NotesTheorems PushRefinement
    PayloadValidation TotpTheorems AccountApi SyncApi DeletionTheorems RateTheorems SyncSamples EnvelopeTheorems MirrorTheorems MirrorRun MirrorQueue Acknowledge LeaseTheorems StorageMachine ZipArchive
begin

text \<open>
  The verification library of author, a notes application that works without a network: every device has
  its own database in the browser, a server keeps the notes of all accounts, and devices synchronise with
  the server whenever they can. Notes are encrypted on the device before they are sent. The library models
  the TypeScript sources under \<open>src/apps/web/src/lib\<close> and \<open>src/packages\<close> and proves what makes them correct.

  \<^bold>\<open>The program and its theories.\<close>

  \<^item> Shared data and rules. \<open>packages/schema\<close> and \<open>packages/api-types\<close> are the records of \<open>Schema\<close>;
    \<open>packages/sync-spec\<close> (when records differ, when a push conflicts, which cursor is acceptable) is
    \<open>SyncSpec\<close>. \<open>Prelude\<close> has the parts of the JavaScript library the sources use, \<open>Tables\<close> the keyed tables
    that stand for SQL tables and IndexedDB stores, \<open>Json\<close> and \<open>JsonValue\<close> the texts of \<open>JSON.stringify\<close> and
    \<open>JSON.parse\<close>, \<open>Bytes\<close> UTF-8 and Base64 over 8-bit words.
  \<^item> The server database (\<open>server/db.ts\<close>, \<open>server/repository.ts\<close>). \<open>ServerDb\<close>: the state \<open>server\<close>, one sorted
    list of rows per table, and the operations on rows. \<open>ServerPush\<close>: \<open>pushChanges\<close>, the decision for each
    pushed record and the writes. \<open>ServerPull\<close>: the pages of the change log. \<open>Maintenance\<close>: trash, snapshots,
    devices, compaction. \<open>RecordLimits\<close> (\<open>server/record-limits.ts\<close>): the storage share of an account.
  \<^item> The mirror (\<open>server/remote-sync.ts\<close>). \<open>MirrorSync\<close>: two databases, the lock in both, account tombstones,
    accounts, and page after page of changes in both directions, which stop at a divergence. \<open>MirrorQueue\<close>:
    the queue of \<open>server/hono.ts\<close> that runs it, a state machine over interleaved calls.
  \<^item> Accounts and HTTP (\<open>server/auth.ts\<close>, \<open>server/hono.ts\<close>, \<open>server/request-body.ts\<close>, \<open>server/payload-validation.ts\<close>,
    \<open>shared/auth-proof.ts\<close>, \<open>shared/password-policy.ts\<close>). \<open>AuthDb\<close>: the account tables, an extension of \<open>server\<close>.
    \<open>AuthProof\<close>: verifier and proof of a password on both sides. \<open>Accounts\<close>, \<open>Challenges\<close>, \<open>Sessions\<close>, \<open>Totp\<close>,
    \<open>ProfileImage\<close>: the operations of \<open>auth.ts\<close>. \<open>PayloadValidation\<close>: the checks of request bodies. \<open>RateLimit\<close>,
    \<open>Api\<close>, \<open>AccountApi\<close>, \<open>SyncApi\<close>: the request limits and the routes.
  \<^item> Keys and encryption on the device (\<open>client/encryption-*.ts\<close>, \<open>client/conflict-crypto.ts\<close>). \<open>Keyring\<close>: key
    material, its text, its wrapping under password and recovery code. \<open>KeyStorage\<close>: where the browser keeps
    it. \<open>Encryption\<close>: envelopes, hashes, encrypted records and conflicts.
  \<^item> The client (\<open>client/db.ts\<close>, \<open>client/sync-store.ts\<close>, \<open>client/entity-store-*.ts\<close>, \<open>client/sync.ts\<close>). \<open>ClientDb\<close>:
    the state \<open>client\<close>, one table per store. \<open>ClientStore\<close> and \<open>ClientMerge\<close>: acknowledged pushes, conflicts,
    merging. \<open>ClientNotes\<close>: what the user does. \<open>ClientReencrypt\<close>: bringing the data under another key and into
    an account. \<open>Lease\<close> and \<open>ClientSync\<close>: the synchronisation run and the lease that keeps tabs apart.
    \<open>ZipArchive\<close> (\<open>client/markdown-archive.ts\<close>): the ZIP file of an export.

  An operation that may fail after some of its writes is an action (theory \<open>Actions\<close>): a function from a state
  to an error or a value, together with the state reached. An operation that is one transaction returns an
  error without a state. Every raised error and early return of the source is a branch of its definition.

  \<^bold>\<open>What the theorems show.\<close>

  \<^item> Push (\<open>ServerInv\<close>, \<open>PushProps\<close>, \<open>PushTheorems\<close>, \<open>PushRefinement\<close>): a note edited elsewhere is never overwritten;
    versions advance; every change is answered once; the database invariant and the foreign keys hold after
    every push; accounts do not reach each other; each write is logged; and, as an abstract specification,
    pushing is a sequence of compare-and-set operations on one versioned register per note.
  \<^item> Pull and housekeeping (\<open>PullTheorems\<close>, \<open>MaintTheorems\<close>): pulling page by page ends with the notes of the
    server; the retry on large answers ends; cleanup, compaction and pruning remove what they should and no
    more, with the one case in which the cleanup is blocked.
  \<^item> Mirror (\<open>MirrorTheorems\<close>, \<open>MirrorRun\<close>): a divergence stops the page before records are written; the lock
    admits one run; a run always ends. The queue (\<open>MirrorQueue\<close>) forgets no change as long as it alone runs the
    mirror; two lemmas show how a change is lost when an account route runs it, or at a restart.
  \<^item> Accounts (\<open>AuthTheorems\<close>, \<open>LoginTheorems\<close>, \<open>TotpTheorems\<close>, \<open>DeletionTheorems\<close>, \<open>RateTheorems\<close>): the right password
    logs in, an answer to a challenge counts once, deletion removes the account's rows and touches nobody else,
    failing attempts are limited, by as many more as are in flight at once.
  \<^item> The routes (\<open>SyncTheorems\<close>, \<open>SyncSamples\<close>): which bodies the push route accepts and that it pushes exactly
    what it read, and that an account with a key ring only ever stores encrypted notes.
  \<^item> Keys and encryption (\<open>KeyTheorems\<close>, \<open>EncTheorems\<close>, \<open>EnvelopeTheorems\<close>, \<open>StorageMachine\<close>): round trips, agreement
    of the comparison of encrypted and plain records up to collisions of the keyed hash, agreement of client
    and server on the format, and that session mode leaves no account key in the storage the tabs share.
  \<^item> Client (\<open>StoreLemmas\<close>, \<open>StoreTheorems\<close>, \<open>ConflictInv\<close>, \<open>ListedOps\<close>, \<open>ClientMachine\<close>, \<open>NotesTheorems\<close>, \<open>CopyNames\<close>,
    \<open>LeaseTheorems\<close>): merging loses no edit unless that very record is written while the merge waits (two lemmas
    show the writes that are lost then), a stored conflict describes the row it is about, conflicts are always listed
    for the user when operations run one after the other, edits keep the previous text, the lease is exclusive.
    An exported ZIP file reads back (\<open>ZipArchive\<close>).
  \<^item> Both sides (\<open>Acknowledge\<close>): after a push server and client agree on text and version, also when the note
    was edited while the request was under way.

  The interfaces are locales: \<open>keyed_store\<close> (the tables), \<open>syncable\<close> (comparison and conflict rule of a kind of
  record) and \<open>lease\<close> (a cell that one holder owns for a time), each interpreted on the definitions of the model.
  The inputs of the witnesses are in \<open>Samples\<close>, \<open>AuthSamples\<close>, \<open>SyncSamples\<close> and \<open>ClientSamples\<close>.

  \<^bold>\<open>Parameters.\<close> The clock, fresh identifiers, \<open>Date.parse\<close> and \<open>localeCompare\<close> are the record \<open>env\<close>; WebCrypto,
  Argon2, SHA and HMAC are the record \<open>crypto\<close> with the laws \<open>crypto_ok\<close> and those of \<open>AuthProof\<close> as hypotheses,
  which the witnesses instantiate. Configuration values are arguments. What other tabs and the user do while
  a client operation awaits is the function \<open>cx_others\<close>; a property either allows all of it, or the part that
  keeps what it is about, or names \<open>quiet\<close>.

  \<^bold>\<open>Bounds.\<close> \<open>copy_name_from\<close> searches with as much fuel as there are taken names and one more, and \<open>copy_name_is_free\<close>
  shows that it never runs out. \<open>pullMirrorChangesSinceRevision\<close> and \<open>pull_loop\<close> have termination proofs. \<open>mirror_pages\<close>
  counts pages down from a number given by the caller; \<open>mirror_run_ends\<close> shows that \<open>mirror_fuel\<close> is enough for
  every pair of databases and that more does not change the result. The parser of JSON texts has fuel for
  two steps per character, which \<open>json_round_trip\<close> shows to be enough for every printed value. \<open>acquire_loop\<close>
  waits for another tab, with the number of attempts as argument, and \<open>None\<close> for a tab that is still waiting.

  \<^bold>\<open>Deviations.\<close> Strings are lists of characters up to U+00FF. Numbers in JSON are integers; the only other numbers,
  those of the record limits, are rationals with the rounding of double arithmetic written out. Rows that SQL
  leaves in any order are in key order. The lock manager of the browser is a flag.

  \<^bold>\<open>Not modelled.\<close> The user interface (Svelte components, their controllers, the view model) and the
  service worker, which only call the operations above; the text of imported and exported archives (front
  matter, titles and paths); the HTTP client, the metrics, health and status routes, the check of the origin, and cookie
  headers of answers, which are transport; the branches of the account routes for a server with a mirror;
  migrations of older databases; mail, scripts and the Android shell.
\<close>

end
